(* ===== verification/Prelude.thy ===== *)
theory Prelude
  imports Main "HOL-Library.Word"
begin

text \<open>
  Shared vocabulary of the development: the Go number, time and string types the model
  uses, loops that stop at the first error, and the lemma collections the component
  theories extend.

  \<^item> \<open>u64\<close> is Go's \<open>uint64\<close>, a 64-bit word: \<open>+ 1\<close> wraps around, \<open>=\<close> and \<open>\<le>\<close>
    are unsigned.
  \<^item> \<open>int64\<close> values are HOL integers kept in range by the predicate \<open>int64\<close>; every addition
    and subtraction of the source on them is written with \<open>wrap64\<close>, the two's complement
    wrap-around of Go.
  \<^item> \<open>instant\<close> (Go's \<open>time.Time\<close>) is the number of nanoseconds since Go's zero time, so
    that \<open>IsZero\<close> is \<open>= 0\<close>, \<open>Before\<close> is \<open><\<close>, \<open>After\<close> is \<open>>\<close> and
    \<open>Truncate(time.Microsecond)\<close>, which Go counts from the zero time, is \<open>truncate_us\<close>;
    \<open>duration\<close> is a number of nanoseconds. Instants are not bounded.
  \<^item> A Go \<open>string\<close> is a HOL \<open>string\<close> (a list of bytes), a pointer or an optional value is
    an \<open>option\<close>, and a slice is a list (a nil slice and an empty one are both \<open>[]\<close>).
\<close>

section \<open>Numbers\<close>

type_synonym u64 = "64 word"

definition MaxInt64 :: int where
  "MaxInt64 = 9223372036854775807"

definition MinInt64 :: int where
  "MinInt64 = - 9223372036854775808"

definition int64 :: "int \<Rightarrow> bool" where
  "int64 x \<longleftrightarrow> MinInt64 \<le> x \<and> x \<le> MaxInt64"

definition wrap64 :: "int \<Rightarrow> int" where
  "wrap64 x = (x + 9223372036854775808) mod 18446744073709551616 - 9223372036854775808"

named_theorems int64_defs "the bounds of int64 and its wrap-around"

declare MaxInt64_def [int64_defs] MinInt64_def [int64_defs] int64_def [int64_defs]
  wrap64_def [int64_defs]

lemma wrap64_in_range [simp]: "int64 (wrap64 x)"
proof -
  have "0 \<le> (x + 9223372036854775808) mod 18446744073709551616"
    and "(x + 9223372036854775808) mod 18446744073709551616 < 18446744073709551616"
    by simp_all
  then show ?thesis by (simp add: int64_defs)
qed

lemma wrap64_id [simp]: "int64 x \<Longrightarrow> wrap64 x = x"
  by (simp add: int64_defs)

lemma wrap64_above:
  "MaxInt64 < x \<Longrightarrow> x \<le> 2 * MaxInt64 \<Longrightarrow> wrap64 x = x - 18446744073709551616"
proof -
  assume "MaxInt64 < x" and "x \<le> 2 * MaxInt64"
  then have "18446744073709551616 \<le> x + 9223372036854775808"
    and "x + 9223372036854775808 - 18446744073709551616 < 18446744073709551616"
    by (simp_all add: int64_defs)
  then show ?thesis
    by (simp add: wrap64_def mod_pos_geq)
qed

lemma wrap64_below:
  "x < MinInt64 \<Longrightarrow> 2 * MinInt64 \<le> x \<Longrightarrow> wrap64 x = x + 18446744073709551616"
proof -
  assume "x < MinInt64" and "2 * MinInt64 \<le> x"
  then have "(x + 9223372036854775808 + 18446744073709551616) mod 18446744073709551616
      = x + 9223372036854775808 + 18446744073709551616"
    by (intro mod_pos_pos_trivial) (simp_all add: int64_defs)
  then have "(x + 9223372036854775808) mod 18446744073709551616
      = x + 9223372036854775808 + 18446744073709551616"
    by (simp only: mod_add_self2)
  then show ?thesis by (simp add: wrap64_def)
qed

lemma int64_zero [simp]: "int64 0"
  by (simp add: int64_defs)

lemma int64_between: "int64 a \<Longrightarrow> int64 b \<Longrightarrow> a \<le> x \<Longrightarrow> x \<le> b \<Longrightarrow> int64 x"
  by (simp add: int64_defs)

lemma u64_succ_unat: "w + 1 \<noteq> (0 :: u64) \<Longrightarrow> unat (w + 1) = Suc (unat w)"
  using unatSuc [of w] by (simp add: add.commute)

lemma u64_succ_neq [simp]: "w + 1 \<noteq> (w :: u64)"
  by simp

section \<open>Time\<close>

type_synonym instant = int
type_synonym duration = int

definition truncate_us :: "instant \<Rightarrow> instant" where
  "truncate_us t = t - t mod 1000"

lemma truncate_us_le [simp]: "truncate_us t \<le> t"
  by (simp add: truncate_us_def)

lemma truncate_us_div: "truncate_us t = 1000 * (t div 1000)"
  by (simp add: truncate_us_def minus_mod_eq_mult_div)

lemma truncate_us_idem [simp]: "truncate_us (truncate_us t) = truncate_us t"
  by (simp add: truncate_us_div)

lemma truncate_us_zero [simp]: "truncate_us 0 = 0"
  by (simp add: truncate_us_def)

lemma truncate_us_near: "t - truncate_us t < 1000"
  by (simp add: truncate_us_def)

lemma truncate_us_mono: "s \<le> t \<Longrightarrow> truncate_us s \<le> truncate_us t"
  by (simp add: truncate_us_div zdiv_mono1)

section \<open>Strings and options\<close>

type_synonym digest = string

fun firstNonEmpty :: "string list \<Rightarrow> string" where
  "firstNonEmpty [] = []"
| "firstNonEmpty (v # vs) = (if v \<noteq> [] then v else firstNonEmpty vs)"

lemma firstNonEmpty_empty_iff: "firstNonEmpty vs = [] \<longleftrightarrow> (\<forall>v \<in> set vs. v = [])"
  by (induction vs) auto

lemma firstNonEmpty_mem: "firstNonEmpty vs \<noteq> [] \<Longrightarrow> firstNonEmpty vs \<in> set vs"
  by (induction vs) (auto split: if_splits)

section \<open>Loops that stop at the first error\<close>

text \<open>
  \<open>map_err f xs\<close> is a Go loop that replaces every element by the result of a call and
  returns at the first error; \<open>check_all f xs\<close> is a loop that only checks.
\<close>

fun map_err :: "('a \<Rightarrow> 'e + 'b) \<Rightarrow> 'a list \<Rightarrow> 'e + 'b list" where
  "map_err f [] = Inr []"
| "map_err f (x # xs) =
     (case f x of Inl e \<Rightarrow> Inl e
      | Inr y \<Rightarrow> (case map_err f xs of Inl e \<Rightarrow> Inl e | Inr ys \<Rightarrow> Inr (y # ys)))"

fun check_all :: "('a \<Rightarrow> 'e option) \<Rightarrow> 'a list \<Rightarrow> 'e option" where
  "check_all f [] = None"
| "check_all f (x # xs) = (case f x of Some e \<Rightarrow> Some e | None \<Rightarrow> check_all f xs)"

lemma map_err_Inr_iff: "map_err f xs = Inr ys \<longleftrightarrow> list_all2 (\<lambda>x y. f x = Inr y) xs ys"
proof (induction xs arbitrary: ys)
  case Nil
  then show ?case by auto
next
  case (Cons x xs)
  then show ?case
    by (cases ys; cases "f x"; cases "map_err f xs") auto
qed

lemma map_err_length: "map_err f xs = Inr ys \<Longrightarrow> length ys = length xs"
  by (auto simp: map_err_Inr_iff dest: list_all2_lengthD)

lemma map_err_map:
  "map_err f xs = Inr ys \<Longrightarrow> (\<And>x y. x \<in> set xs \<Longrightarrow> f x = Inr y \<Longrightarrow> g y = h x) \<Longrightarrow> map g ys = map h xs"
proof (induction xs arbitrary: ys)
  case Nil
  then show ?case by simp
next
  case (Cons x xs)
  from Cons.prems(1) obtain y zs where *: "f x = Inr y" "map_err f xs = Inr zs" "ys = y # zs"
    by (auto split: sum.splits)
  have "map g zs = map h xs"
    using *(2) Cons.prems(2) by (intro Cons.IH) auto
  with * Cons.prems(2)[of x y] show ?case by simp
qed

lemma map_err_set:
  "map_err f xs = Inr ys \<Longrightarrow> y \<in> set ys \<Longrightarrow> \<exists>x \<in> set xs. f x = Inr y"
  by (induction xs arbitrary: ys) (auto split: sum.splits)

lemma map_err_Inl: "map_err f xs = Inl e \<Longrightarrow> \<exists>x \<in> set xs. f x = Inl e"
  by (induction xs) (auto split: sum.splits)

lemma map_err_exists_Inr: "(\<And>x. x \<in> set xs \<Longrightarrow> \<exists>y. f x = Inr y) \<Longrightarrow> \<exists>ys. map_err f xs = Inr ys"
proof (induction xs)
  case Nil
  then show ?case by simp
next
  case (Cons x xs)
  from Cons.IH Cons.prems obtain ys where "map_err f xs = Inr ys" by auto
  moreover from Cons.prems obtain y where "f x = Inr y" by auto
  ultimately show ?case by simp
qed

lemma check_all_None_iff: "check_all f xs = None \<longleftrightarrow> (\<forall>x \<in> set xs. f x = None)"
  by (induction xs) (auto split: option.splits)

lemma check_all_Some: "check_all f xs = Some e \<Longrightarrow> \<exists>x \<in> set xs. f x = Some e"
  by (induction xs) (auto split: option.splits)

section \<open>Keyed tables\<close>

text \<open>
  A database table is a list of rows in insertion order; a row is found by its key and
  replaced in place by an update.
\<close>

definition lookup_by :: "('a \<Rightarrow> 'k) \<Rightarrow> 'k \<Rightarrow> 'a list \<Rightarrow> 'a option" where
  "lookup_by key k rows = find (\<lambda>x. key x = k) rows"

definition update_by :: "('a \<Rightarrow> 'k) \<Rightarrow> 'a \<Rightarrow> 'a list \<Rightarrow> 'a list" where
  "update_by key r rows = map (\<lambda>x. if key x = key r then r else x) rows"

lemma lookup_by_Nil [simp]: "lookup_by key k [] = None"
  by (simp add: lookup_by_def)

lemma lookup_by_Cons [simp]:
  "lookup_by key k (x # xs) = (if key x = k then Some x else lookup_by key k xs)"
  by (simp add: lookup_by_def)

lemma lookup_by_SomeD: "lookup_by key k rows = Some r \<Longrightarrow> r \<in> set rows \<and> key r = k"
  by (induction rows) (auto split: if_splits)

lemma lookup_by_None_iff: "lookup_by key k rows = None \<longleftrightarrow> k \<notin> key ` set rows"
  by (induction rows) auto

lemma lookup_by_append:
  "lookup_by key k (xs @ ys) = (case lookup_by key k xs of Some r \<Rightarrow> Some r | None \<Rightarrow> lookup_by key k ys)"
  by (induction xs) auto

lemma lookup_by_mem:
  "distinct (map key rows) \<Longrightarrow> r \<in> set rows \<Longrightarrow> lookup_by key (key r) rows = Some r"
  by (induction rows) force+

lemma update_by_Nil [simp]: "update_by key r [] = []"
  by (simp add: update_by_def)

lemma update_by_Cons [simp]:
  "update_by key r (x # xs) = (if key x = key r then r else x) # update_by key r xs"
  by (simp add: update_by_def)

lemma map_key_update_by [simp]: "map key (update_by key r rows) = map key rows"
  by (induction rows) auto

lemma lookup_update_by:
  "lookup_by key k (update_by key r rows) =
     (if k = key r then (if k \<in> key ` set rows then Some r else None) else lookup_by key k rows)"
  by (induction rows) auto

lemma set_update_by:
  "r' \<in> set (update_by key r rows) \<Longrightarrow> r' = r \<or> (r' \<in> set rows \<and> key r' \<noteq> key r)"
  by (induction rows) (auto split: if_splits)

lemma update_by_absent: "key r \<notin> key ` set rows \<Longrightarrow> update_by key r rows = rows"
  by (induction rows) auto

lemma sum_list_update_by:
  fixes f :: "'a \<Rightarrow> 'b :: ab_group_add"
  assumes "distinct (map key rows)" and "lookup_by key (key r) rows = Some r0"
  shows "sum_list (map f (update_by key r rows)) = sum_list (map f rows) - f r0 + f r"
  using assms
proof (induction rows)
  case Nil
  then show ?case by simp
next
  case (Cons x rows)
  show ?case
  proof (cases "key x = key r")
    case True
    with Cons.prems have "key r \<notin> key ` set rows" and "x = r0" by auto
    then have "update_by key r rows = rows" by (simp add: update_by_absent)
    with True \<open>x = r0\<close> show ?thesis by simp
  next
    case False
    with Cons show ?thesis by (simp add: algebra_simps)
  qed
qed

lemma lookup_update_same: "lookup_by key k rows = Some r0 \<Longrightarrow> key r = k \<Longrightarrow> lookup_by key k (update_by key r rows) = Some r"
  by (induction rows) (auto split: if_splits)

section \<open>Searches\<close>

lemma find_append: "find P (xs @ ys) = (case find P xs of None \<Rightarrow> find P ys | Some x \<Rightarrow> Some x)"
  by (induction xs) simp_all

lemma find_SomeD: "find P xs = Some x \<Longrightarrow> x \<in> set xs \<and> P x"
  by (induction xs) (auto split: if_splits)

end
