(* ===== verification/Decimal.thy ===== *)
theory Decimal
  imports Prelude
begin

text \<open>
  The decimal conversions of Go's \<open>strconv\<close> that the wire forms use
  (\<open>FormatUint\<close>, \<open>FormatInt\<close>, \<open>ParseUint\<close>, \<open>ParseInt\<close>, base 10 and 64 bits), with the
  round trip in both directions for canonical strings.
\<close>

definition is_digit :: "char \<Rightarrow> bool" where
  "is_digit c \<longleftrightarrow> 48 \<le> (of_char c :: nat) \<and> (of_char c :: nat) \<le> 57"

definition digit_val :: "char \<Rightarrow> nat" where
  "digit_val c = of_char c - 48"

definition digit_char :: "nat \<Rightarrow> char" where
  "digit_char d = char_of (48 + d)"

lemma is_digit_digit_char [simp]: "d < 10 \<Longrightarrow> is_digit (digit_char d)"
  by (simp add: is_digit_def digit_char_def)

lemma digit_val_digit_char [simp]: "d < 10 \<Longrightarrow> digit_val (digit_char d) = d"
  by (simp add: digit_val_def digit_char_def)

lemma digit_char_digit_val [simp]: "is_digit c \<Longrightarrow> digit_char (digit_val c) = c"
  by (simp add: is_digit_def digit_val_def digit_char_def)

lemma digit_val_less [simp]: "is_digit c \<Longrightarrow> digit_val c < 10"
  unfolding is_digit_def digit_val_def by linarith

lemma digit_char_inj: "a < 10 \<Longrightarrow> b < 10 \<Longrightarrow> digit_char a = digit_char b \<longleftrightarrow> a = b"
  by (metis digit_val_digit_char)

lemma digit_char_0: "digit_char 0 = CHR ''0''"
  by code_simp

fun format_nat :: "nat \<Rightarrow> string" where
  "format_nat n = (if n < 10 then [digit_char n] else format_nat (n div 10) @ [digit_char (n mod 10)])"

declare format_nat.simps [simp del]

definition parse_nat :: "string \<Rightarrow> nat" where
  "parse_nat s = foldl (\<lambda>acc c. acc * 10 + digit_val c) 0 s"

text \<open>A canonical decimal: digits only, and no leading zero except in \<open>0\<close> itself.\<close>

definition canonical_nat :: "string \<Rightarrow> bool" where
  "canonical_nat s \<longleftrightarrow> s \<noteq> [] \<and> list_all is_digit s \<and> (length s > 1 \<longrightarrow> hd s \<noteq> CHR ''0'')"

lemma parse_nat_snoc [simp]: "parse_nat (s @ [c]) = parse_nat s * 10 + digit_val c"
  by (simp add: parse_nat_def)

lemma parse_nat_Nil [simp]: "parse_nat [] = 0"
  by (simp add: parse_nat_def)

lemma parse_nat_single [simp]: "parse_nat [c] = digit_val c"
  by (simp add: parse_nat_def)

lemma format_nat_nonempty [simp]: "format_nat n \<noteq> []"
  by (subst format_nat.simps) simp

lemma format_nat_digits: "list_all is_digit (format_nat n)"
proof (induction n rule: format_nat.induct)
  case (1 n)
  then show ?case by (cases "n < 10") (simp_all add: format_nat.simps [of n])
qed

lemma hd_format_nat: "n \<noteq> 0 \<Longrightarrow> hd (format_nat n) \<noteq> CHR ''0''"
proof (induction n rule: format_nat.induct)
  case (1 n)
  show ?case
  proof (cases "n < 10")
    case True
    with 1(2) show ?thesis
      by (simp add: format_nat.simps [of n] flip: digit_char_0) (simp add: digit_char_inj)
  next
    case False
    with 1 show ?thesis by (simp add: format_nat.simps [of n])
  qed
qed

lemma length_format_nat_gt_1: "1 < length (format_nat n) \<Longrightarrow> n \<noteq> 0"
  by (cases "n = 0") (simp_all add: format_nat.simps [of 0])

lemma canonical_format_nat: "canonical_nat (format_nat n)"
  by (simp add: canonical_nat_def format_nat_digits hd_format_nat length_format_nat_gt_1)

lemma parse_format_nat [simp]: "parse_nat (format_nat n) = n"
proof (induction n rule: format_nat.induct)
  case (1 n)
  then show ?case by (cases "n < 10") (simp_all add: format_nat.simps [of n])
qed

lemma canonical_nat_butlast:
  "canonical_nat (s @ [c]) \<Longrightarrow> s \<noteq> [] \<Longrightarrow> canonical_nat s"
  by (cases s) (auto simp: canonical_nat_def)

lemma parse_nat_pos: "canonical_nat s \<Longrightarrow> length s > 1 \<Longrightarrow> 0 < parse_nat s"
proof (induction s rule: rev_induct)
  case Nil
  then show ?case by simp
next
  case (snoc c s)
  show ?case
  proof (cases "length s = 1")
    case True
    then obtain d where s: "s = [d]" by (cases s) auto
    with snoc.prems have "is_digit d" "d \<noteq> CHR ''0''" by (auto simp: canonical_nat_def)
    then have "digit_val d \<noteq> 0" by (metis digit_char_0 digit_char_digit_val)
    with s show ?thesis by (simp add: parse_nat_def)
  next
    case False
    with snoc.prems have "length s > 1" by (cases s) auto
    moreover from this snoc.prems have "canonical_nat s" by (intro canonical_nat_butlast [of s c]) auto
    ultimately have "0 < parse_nat s" using snoc.IH by blast
    then show ?thesis by simp
  qed
qed

lemma format_parse_nat: "canonical_nat s \<Longrightarrow> format_nat (parse_nat s) = s"
proof (induction s rule: rev_induct)
  case Nil
  then show ?case by (simp add: canonical_nat_def)
next
  case (snoc c s)
  from snoc.prems have c: "is_digit c" by (simp add: canonical_nat_def)
  show ?case
  proof (cases "s = []")
    case True
    with c show ?thesis by (simp add: format_nat.simps)
  next
    case False
    with snoc.prems have s: "canonical_nat s" by (rule canonical_nat_butlast)
    have pos: "0 < parse_nat s"
    proof (cases "length s > 1")
      case True
      with s show ?thesis by (rule parse_nat_pos)
    next
      case False
      with \<open>s \<noteq> []\<close> obtain d where d: "s = [d]" by (cases s) auto
      with snoc.prems have "is_digit d" "d \<noteq> CHR ''0''" by (auto simp: canonical_nat_def)
      then have "digit_val d \<noteq> 0" by (metis digit_char_0 digit_char_digit_val)
      with d show ?thesis by simp
    qed
    have "(parse_nat s * 10 + digit_val c) div 10 = parse_nat s"
      and "(parse_nat s * 10 + digit_val c) mod 10 = digit_val c"
      using c by simp_all
    with pos snoc.IH [OF s] c show ?thesis
      by (simp add: format_nat.simps [of "parse_nat s * 10 + digit_val c"])
  qed
qed

lemma canonical_nat_inj:
  "canonical_nat s \<Longrightarrow> canonical_nat t \<Longrightarrow> parse_nat s = parse_nat t \<Longrightarrow> s = t"
  by (metis format_parse_nat)

section \<open>strconv\<close>

definition FormatUint :: "u64 \<Rightarrow> string" where
  "FormatUint v = format_nat (unat v)"

text \<open>\<open>ParseUint(s, 10, 64)\<close>: digits only, at least one, in range; \<open>None\<close> is its error.\<close>

definition ParseUint :: "string \<Rightarrow> u64 option" where
  "ParseUint s =
     (if s = [] \<or> \<not> list_all is_digit s then None
      else if parse_nat s < 18446744073709551616 then Some (of_nat (parse_nat s)) else None)"

definition FormatInt :: "int \<Rightarrow> string" where
  "FormatInt v = (if v < 0 then CHR ''-'' # format_nat (nat (- v)) else format_nat (nat v))"

text \<open>\<open>ParseInt(s, 10, 64)\<close>: an optional sign and an unsigned decimal, in the range of int64.\<close>

definition ParseInt :: "string \<Rightarrow> int option" where
  "ParseInt s =
     (let neg = (s \<noteq> [] \<and> hd s = CHR ''-'');
          body = (if s \<noteq> [] \<and> (hd s = CHR ''-'' \<or> hd s = CHR ''+'') then tl s else s)
      in if body = [] \<or> \<not> list_all is_digit body then None
         else let v = (if neg then - int (parse_nat body) else int (parse_nat body))
              in if int64 v then Some v else None)"

lemma unat_u64_less [simp]: "unat (v :: u64) < 18446744073709551616"
  using unsigned_less [of v, where ?'a = nat] by simp

lemma unat_of_nat_u64 [simp]: "n < 18446744073709551616 \<Longrightarrow> unat (of_nat n :: u64) = n"
  by (simp add: unat_of_nat)

lemma ParseUint_FormatUint [simp]: "ParseUint (FormatUint v) = Some v"
  by (simp add: ParseUint_def FormatUint_def format_nat_digits)

lemma FormatUint_canonical: "canonical_nat (FormatUint v)"
  by (simp add: FormatUint_def canonical_format_nat)

lemma FormatUint_ParseUint:
  "ParseUint s = Some v \<Longrightarrow> canonical_nat s \<Longrightarrow> FormatUint v = s"
  by (auto simp: ParseUint_def FormatUint_def format_parse_nat split: if_splits)

lemma FormatUint_inj: "FormatUint a = FormatUint b \<longleftrightarrow> a = b"
  by (metis ParseUint_FormatUint option.inject)

lemma is_digit_minus [simp]: "\<not> is_digit CHR ''-''" and is_digit_plus [simp]: "\<not> is_digit CHR ''+''"
  by (simp_all add: is_digit_def)

lemma hd_format_nat_digit: "is_digit (hd (format_nat n))"
  using format_nat_digits [of n] by (cases "format_nat n") auto

lemma ParseInt_FormatInt: "int64 v \<Longrightarrow> ParseInt (FormatInt v) = Some v"
proof (cases "v < 0")
  case True
  assume "int64 v"
  with True show ?thesis
    by (simp add: ParseInt_def FormatInt_def format_nat_digits)
next
  case False
  assume "int64 v"
  moreover have "hd (format_nat (nat v)) \<noteq> CHR ''-''" and "hd (format_nat (nat v)) \<noteq> CHR ''+''"
    using hd_format_nat_digit [of "nat v"] by auto
  ultimately show ?thesis
    using False by (simp add: ParseInt_def FormatInt_def format_nat_digits)
qed

lemma ParseInt_int64: "ParseInt s = Some v \<Longrightarrow> int64 v"
  by (auto simp: ParseInt_def Let_def split: if_splits)

end
