(* ===== verification/Values.thy ===== *)
theory Values
  imports Decimal
begin

text \<open>
  \<open>internal/domain/values.go\<close>: the error vocabulary, digests, revisions, command
  identities and the verified caller scope.

  Go's sentinel errors are the constructors of \<open>err\<close>; the formatted message that wraps one
  is not kept. \<open>Denial\<close> (\<open>dispatch.go\<close>) is the recorded policy refusal and carries its
  public code; \<open>ErrDuplicateKey\<close> is the store's uniqueness violation of
  \<open>application/ports.go\<close> and \<open>ErrStore\<close> any other error of the database, such as a violated
  \<open>CHECK\<close> constraint. A Go function that returns only an error is modelled by a value of
  \<open>err option\<close> (\<open>None\<close> is nil), one that returns a value or an error by \<open>err + 'a\<close>.
\<close>

datatype err =
    ErrNotFound
  | ErrIdempotencyConflict
  | ErrRevisionConflict
  | ErrStaleExecution
  | ErrProfileUnqualified
  | ErrInvalid
  | ErrEffectUncertain
  | ErrCapacityExhausted
  | ErrIntegrity
  | ErrBudgetExhausted
  | ErrForbidden
  | ErrEvidenceInsufficient
  | ErrUnavailable
  | ErrDuplicateKey
  | ErrStore
  | Denial string

section \<open>Digests\<close>

definition is_hex_lower :: "char \<Rightarrow> bool" where
  "is_hex_lower c \<longleftrightarrow> is_digit c \<or> (97 \<le> (of_char c :: nat) \<and> (of_char c :: nat) \<le> 102)"

text \<open>The pattern \<open>^sha256:[0-9a-f]{64}$\<close>.\<close>

definition digestPattern :: "string \<Rightarrow> bool" where
  "digestPattern s \<longleftrightarrow> take 7 s = ''sha256:'' \<and> length s = 71 \<and> list_all is_hex_lower (drop 7 s)"

definition ParseDigest :: "string \<Rightarrow> err + digest" where
  "ParseDigest s = (if \<not> digestPattern s then Inl ErrInvalid else Inr s)"

section \<open>Revisions\<close>

type_synonym revision = u64

definition ParseRevision :: "string \<Rightarrow> err + revision" where
  "ParseRevision s =
     (if s = [] \<or> (length s > 1 \<and> hd s = CHR ''0'') then Inl ErrInvalid
      else case ParseUint s of None \<Rightarrow> Inl ErrInvalid | Some v \<Rightarrow> Inr v)"

definition Revision_String :: "revision \<Rightarrow> string" where
  "Revision_String r = FormatUint r"

section \<open>Command identity and scope\<close>

record command_identity =
  cmd_TenantID :: string
  cmd_CommandID :: string
  cmd_ActorID :: string
  cmd_RequestDigest :: digest

record scope =
  sc_TenantID :: string
  sc_ProjectID :: string
  sc_ActorID :: string
  sc_Roles :: "string list"

abbreviation RoleOperator :: string where
  "RoleOperator \<equiv> ''operator''"

abbreviation RolePlatformOperator :: string where
  "RolePlatformOperator \<equiv> ''platform_operator''"

fun has_role_in :: "string list \<Rightarrow> string \<Rightarrow> bool" where
  "has_role_in [] role = False"
| "has_role_in (r # rs) role = (if r = role then True else has_role_in rs role)"

definition HasRole :: "scope \<Rightarrow> string \<Rightarrow> bool" where
  "HasRole s role = has_role_in (sc_Roles s) role"

lemma has_role_in_iff [simp]: "has_role_in rs role \<longleftrightarrow> role \<in> set rs"
  by (induction rs) auto

lemma HasRole_iff: "HasRole s role \<longleftrightarrow> role \<in> set (sc_Roles s)"
  by (simp add: HasRole_def)

section \<open>Properties\<close>

lemma digestPattern_length: "digestPattern s \<Longrightarrow> length s = 71"
  by (simp add: digestPattern_def)

lemma ParseRevision_Inr:
  assumes "ParseRevision s = Inr r"
  shows "canonical_nat s \<and> ParseUint s = Some r"
proof -
  from assms have "s \<noteq> []" "\<not> (length s > 1 \<and> hd s = CHR ''0'')" "ParseUint s = Some r"
    by (auto simp: ParseRevision_def split: if_splits option.splits)
  moreover from this(3) have "list_all is_digit s"
    by (auto simp: ParseUint_def split: if_splits)
  ultimately show ?thesis by (auto simp: canonical_nat_def)
qed

text \<open>The wire form of a revision is canonical: a string parses as the revision \<open>r\<close>
  exactly when it is the decimal string of \<open>r\<close>, so every revision has one wire form and
  the two conversions are inverse to each other.\<close>

theorem ParseRevision_iff_String: "ParseRevision s = Inr r \<longleftrightarrow> s = Revision_String r"
proof
  assume "ParseRevision s = Inr r"
  then show "s = Revision_String r"
    using ParseRevision_Inr FormatUint_ParseUint by (fastforce simp: Revision_String_def)
next
  assume s: "s = Revision_String r"
  have "canonical_nat (FormatUint r)" by (rule FormatUint_canonical)
  with s show "ParseRevision s = Inr r"
    by (auto simp: ParseRevision_def Revision_String_def canonical_nat_def)
qed

end
