(* ===== verification/Money.thy ===== *)
theory Money
  imports Values
begin

text \<open>
  The money and metering part of \<open>internal/domain/budget.go\<close>: fixed-scale amounts with
  explicit overflow checks, metered usage, immutable prices and the integer cost of usage.
  \<open>math/big\<close> integers are HOL integers; \<open>QuoRem\<close> is truncated division.
\<close>

section \<open>Amounts\<close>

record money =
  m_Currency :: string
  m_Amount :: int

definition Scale :: nat where
  "Scale = 6"

definition is_upper :: "char \<Rightarrow> bool" where
  "is_upper c \<longleftrightarrow> 65 \<le> (of_char c :: nat) \<and> (of_char c :: nat) \<le> 90"

text \<open>The pattern \<open>^[A-Z]{3}$\<close>.\<close>

definition currencyPattern :: "string \<Rightarrow> bool" where
  "currencyPattern s \<longleftrightarrow> length s = 3 \<and> list_all is_upper s"

text \<open>The pattern \<open>^-?(0|[1-9][0-9]{0,29})$\<close>.\<close>

definition amountPattern :: "string \<Rightarrow> bool" where
  "amountPattern s \<longleftrightarrow>
     (let body = (if s \<noteq> [] \<and> hd s = CHR ''-'' then tl s else s)
      in body = ''0'' \<or>
         (body \<noteq> [] \<and> is_digit (hd body) \<and> hd body \<noteq> CHR ''0'' \<and> list_all is_digit (tl body) \<and>
          length (tl body) \<le> 29))"

definition ParseMoney :: "string \<Rightarrow> string \<Rightarrow> err + money" where
  "ParseMoney currency amount =
     (if \<not> currencyPattern currency then Inl ErrInvalid
      else if \<not> amountPattern amount then Inl ErrInvalid
      else case ParseInt amount of
             None \<Rightarrow> Inl ErrInvalid
           | Some v \<Rightarrow> Inr \<lparr>m_Currency = currency, m_Amount = v\<rparr>)"

definition AmountString :: "money \<Rightarrow> string" where
  "AmountString m = FormatInt (m_Amount m)"

definition sameCurrency :: "money \<Rightarrow> money \<Rightarrow> err option" where
  "sameCurrency m n = (if m_Currency m \<noteq> m_Currency n then Some ErrInvalid else None)"

definition addInt64 :: "int \<Rightarrow> int \<Rightarrow> int option" where
  "addInt64 a b = (let c = wrap64 (a + b) in if (c > a) \<noteq> (b > 0) then None else Some c)"

definition Money_Add :: "money \<Rightarrow> money \<Rightarrow> err + money" where
  "Money_Add m n =
     (case sameCurrency m n of
        Some e \<Rightarrow> Inl e
      | None \<Rightarrow> (case addInt64 (m_Amount m) (m_Amount n) of
                   None \<Rightarrow> Inl ErrInvalid
                 | Some s \<Rightarrow> Inr \<lparr>m_Currency = m_Currency m, m_Amount = s\<rparr>))"

definition Money_Sub :: "money \<Rightarrow> money \<Rightarrow> err + money" where
  "Money_Sub m n =
     (case sameCurrency m n of
        Some e \<Rightarrow> Inl e
      | None \<Rightarrow> if m_Amount n = MinInt64 then Inl ErrInvalid
                else Money_Add m \<lparr>m_Currency = m_Currency n, m_Amount = wrap64 (- m_Amount n)\<rparr>)"

section \<open>Usage and prices\<close>

datatype usage_category = UsageInput | UsageOutput | UsageReasoning | UsageCachedInput

instantiation usage_category :: enum
begin

definition enum_usage_category :: "usage_category list" where
  "enum_usage_category = [UsageInput, UsageOutput, UsageReasoning, UsageCachedInput]"

definition enum_all_usage_category :: "(usage_category \<Rightarrow> bool) \<Rightarrow> bool" where
  "enum_all_usage_category P \<longleftrightarrow> P UsageInput \<and> P UsageOutput \<and> P UsageReasoning \<and> P UsageCachedInput"

definition enum_ex_usage_category :: "(usage_category \<Rightarrow> bool) \<Rightarrow> bool" where
  "enum_ex_usage_category P \<longleftrightarrow> P UsageInput \<or> P UsageOutput \<or> P UsageReasoning \<or> P UsageCachedInput"

instance
proof
  show "(UNIV :: usage_category set) = set enum_class.enum"
    using usage_category.exhaust by (auto simp: enum_usage_category_def)
  fix P :: "usage_category \<Rightarrow> bool"
  show "enum_class.enum_all P \<longleftrightarrow> Ball UNIV P" "enum_class.enum_ex P \<longleftrightarrow> Bex UNIV P"
    by (auto simp: enum_all_usage_category_def enum_ex_usage_category_def) (metis usage_category.exhaust)+
qed (simp add: enum_usage_category_def)

end

definition UsageCategories :: "usage_category list" where
  "UsageCategories = [UsageInput, UsageOutput, UsageReasoning, UsageCachedInput]"

record usage =
  u_Input :: u64
  u_Output :: u64
  u_Reasoning :: u64
  u_CachedInput :: u64

fun Usage_Get :: "usage \<Rightarrow> usage_category \<Rightarrow> u64" where
  "Usage_Get u UsageInput = u_Input u"
| "Usage_Get u UsageOutput = u_Output u"
| "Usage_Get u UsageReasoning = u_Reasoning u"
| "Usage_Get u UsageCachedInput = u_CachedInput u"

text \<open>\<open>DispatchKind\<close> of \<open>dispatch.go\<close>; any other string a caller may send is
  \<open>DispatchKindOther\<close>.\<close>

datatype dispatch_kind = DispatchModel | DispatchTool | DispatchKindOther string

record price =
  p_Revision :: string
  p_Kind :: dispatch_kind
  p_Route :: string
  p_Provider :: string
  p_Model :: string
  p_Currency :: string
  p_EffectiveFrom :: instant
  p_EffectiveUntil :: instant
  p_PerMillion :: "usage_category \<rightharpoonup> int"
  p_InputIncludesCached :: bool
  p_OutputIncludesReasoning :: bool
  p_MaxExposure :: int

abbreviation million :: int where
  "million \<equiv> 1000000"

text \<open>Go's map index: a missing key reads as zero.\<close>

definition per_million :: "price \<Rightarrow> usage_category \<Rightarrow> int" where
  "per_million p c = (case p_PerMillion p c of None \<Rightarrow> 0 | Some v \<Rightarrow> v)"

fun free_of :: "price \<Rightarrow> usage_category list \<Rightarrow> bool" where
  "free_of p [] = True"
| "free_of p (c # cs) = (if per_million p c \<noteq> 0 then False else free_of p cs)"

definition Price_Free :: "price \<Rightarrow> bool" where
  "Price_Free p = free_of p UsageCategories"

definition check_unit_price :: "price \<Rightarrow> usage_category \<Rightarrow> err option" where
  "check_unit_price p c =
     (case p_PerMillion p c of
        None \<Rightarrow> Some ErrInvalid
      | Some v \<Rightarrow> if v < 0 then Some ErrInvalid else None)"

definition Price_Validate :: "price \<Rightarrow> err option" where
  "Price_Validate p =
     (if p_Revision p = [] \<or> p_Route p = [] then Some ErrInvalid
      else if (case p_Kind p of
                 DispatchModel \<Rightarrow> p_Provider p = [] \<or> p_Model p = []
               | DispatchTool \<Rightarrow> p_Provider p \<noteq> [] \<or> p_Model p \<noteq> []
               | DispatchKindOther _ \<Rightarrow> True) then Some ErrInvalid
      else if \<not> currencyPattern (p_Currency p) then Some ErrInvalid
      else if \<not> p_EffectiveUntil p > p_EffectiveFrom p then Some ErrInvalid
      else if p_MaxExposure p \<le> 0 then Some ErrInvalid
      else check_all (check_unit_price p) UsageCategories)"

definition EffectiveAt :: "price \<Rightarrow> instant \<Rightarrow> bool" where
  "EffectiveAt p t \<longleftrightarrow> \<not> t < p_EffectiveFrom p \<and> t < p_EffectiveUntil p"

definition quo_trunc :: "int \<Rightarrow> int \<Rightarrow> int" where
  "quo_trunc a b = sgn a * sgn b * (\<bar>a\<bar> div \<bar>b\<bar>)"

definition rem_trunc :: "int \<Rightarrow> int \<Rightarrow> int" where
  "rem_trunc a b = a - b * quo_trunc a b"

definition category_cost :: "price \<Rightarrow> usage \<Rightarrow> usage_category \<Rightarrow> int" where
  "category_cost p u c =
     (let cost = uint (Usage_Get u c) * per_million p c;
          q = quo_trunc cost million;
          r = rem_trunc cost million
      in if r > 0 then q + 1 else q)"

definition total_cost :: "price \<Rightarrow> usage \<Rightarrow> int" where
  "total_cost p u = foldl (\<lambda>t c. t + category_cost p u c) 0 UsageCategories"

definition include_cached :: "price \<Rightarrow> usage \<Rightarrow> err + usage" where
  "include_cached p u =
     (if p_InputIncludesCached p
      then if u_CachedInput u > u_Input u then Inl ErrInvalid
           else Inr (u\<lparr>u_Input := u_Input u - u_CachedInput u\<rparr>)
      else Inr u)"

definition include_reasoning :: "price \<Rightarrow> usage \<Rightarrow> err + usage" where
  "include_reasoning p u =
     (if p_OutputIncludesReasoning p
      then if u_Reasoning u > u_Output u then Inl ErrInvalid
           else Inr (u\<lparr>u_Output := u_Output u - u_Reasoning u\<rparr>)
      else Inr u)"

definition Price_Cost :: "price \<Rightarrow> usage \<Rightarrow> err + money" where
  "Price_Cost p u =
     (case include_cached p u of
        Inl e \<Rightarrow> Inl e
      | Inr u1 \<Rightarrow> (case include_reasoning p u1 of
          Inl e \<Rightarrow> Inl e
        | Inr u2 \<Rightarrow> if \<not> int64 (total_cost p u2) then Inl ErrInvalid
                    else Inr \<lparr>m_Currency = p_Currency p, m_Amount = total_cost p u2\<rparr>))"

section \<open>Checked addition\<close>

lemma addInt64_exact:
  assumes a: "int64 a" and b: "int64 b"
  shows "addInt64 a b = (if int64 (a + b) then Some (a + b) else None)"
proof -
  consider "int64 (a + b)" | "MaxInt64 < a + b" | "a + b < MinInt64"
    unfolding int64_def by linarith
  then show ?thesis
  proof cases
    case 1
    then show ?thesis by (simp add: addInt64_def Let_def)
  next
    case 2
    moreover from a b have "a + b \<le> 2 * MaxInt64" by (simp add: int64_def)
    ultimately have "wrap64 (a + b) = a + b - 18446744073709551616" by (rule wrap64_above)
    with 2 a b show ?thesis by (simp add: addInt64_def int64_defs)
  next
    case 3
    moreover from a b have "2 * MinInt64 \<le> a + b" by (simp add: int64_def)
    ultimately have "wrap64 (a + b) = a + b + 18446744073709551616" by (rule wrap64_below)
    with 3 a b show ?thesis by (simp add: addInt64_def int64_defs)
  qed
qed

lemma addInt64_SomeD:
  "addInt64 a b = Some c \<Longrightarrow> int64 a \<Longrightarrow> int64 b \<Longrightarrow> c = a + b \<and> int64 c"
  by (simp add: addInt64_exact split: if_splits)

lemma addInt64_in_range: "addInt64 a b = Some c \<Longrightarrow> int64 c"
  by (auto simp: addInt64_def Let_def split: if_splits)

definition wf_money :: "money \<Rightarrow> bool" where
  "wf_money m \<longleftrightarrow> int64 (m_Amount m)"

text \<open>Adding or subtracting two amounts gives the exact mathematical result in their
  common currency, or \<open>ErrInvalid\<close>: nothing is ever wrapped or truncated. The sum fails
  exactly on a currency mismatch or when it leaves the range of int64; the difference also
  fails when the subtrahend is the least int64, whose negation is not representable.\<close>

theorem Money_arithmetic_exact:
  assumes "wf_money m" and "wf_money n"
  shows "Money_Add m n =
      (if m_Currency m = m_Currency n \<and> int64 (m_Amount m + m_Amount n)
       then Inr \<lparr>m_Currency = m_Currency m, m_Amount = m_Amount m + m_Amount n\<rparr>
       else Inl ErrInvalid) \<and>
    Money_Sub m n =
      (if m_Currency m = m_Currency n \<and> m_Amount n \<noteq> MinInt64 \<and> int64 (m_Amount m - m_Amount n)
       then Inr \<lparr>m_Currency = m_Currency m, m_Amount = m_Amount m - m_Amount n\<rparr>
       else Inl ErrInvalid)"
proof -
  have add: "Money_Add m k =
      (if m_Currency m = m_Currency k \<and> int64 (m_Amount m + m_Amount k)
       then Inr \<lparr>m_Currency = m_Currency m, m_Amount = m_Amount m + m_Amount k\<rparr>
       else Inl ErrInvalid)" if "wf_money k" for k
    using assms(1) that by (simp add: Money_Add_def sameCurrency_def addInt64_exact wf_money_def)
  have neg: "m_Amount n \<noteq> MinInt64 \<Longrightarrow> int64 (- m_Amount n)"
    using assms(2) by (auto simp: wf_money_def int64_defs)
  show ?thesis
    using add [of n] add [of "\<lparr>m_Currency = m_Currency n, m_Amount = - m_Amount n\<rparr>"] neg assms(2)
    by (auto simp: Money_Sub_def sameCurrency_def wf_money_def)
qed

theorem Money_arithmetic_exact_witness:
  "Money_Add \<lparr>m_Currency = ''USD'', m_Amount = MaxInt64\<rparr> \<lparr>m_Currency = ''USD'', m_Amount = 1\<rparr> = Inl ErrInvalid \<and>
   Money_Sub \<lparr>m_Currency = ''USD'', m_Amount = 5\<rparr> \<lparr>m_Currency = ''USD'', m_Amount = 7\<rparr> =
     Inr \<lparr>m_Currency = ''USD'', m_Amount = - 2\<rparr>"
  using Money_arithmetic_exact [of "\<lparr>m_Currency = ''USD'', m_Amount = MaxInt64\<rparr>" "\<lparr>m_Currency = ''USD'', m_Amount = 1\<rparr>"]
    Money_arithmetic_exact [of "\<lparr>m_Currency = ''USD'', m_Amount = 5\<rparr>" "\<lparr>m_Currency = ''USD'', m_Amount = 7\<rparr>"]
  by (simp add: wf_money_def int64_defs)

section \<open>The wire form of an amount\<close>

lemma amountPattern_body:
  assumes "amountPattern s"
  shows "canonical_nat (if s \<noteq> [] \<and> hd s = CHR ''-'' then tl s else s)"
    and "\<not> (s \<noteq> [] \<and> hd s = CHR ''+'')"
  using assms
  by (auto simp: amountPattern_def canonical_nat_def Let_def is_digit_def list.case_eq_if
      neq_Nil_conv split: if_splits)

lemma AmountString_zero: "AmountString \<lparr>m_Currency = c, m_Amount = 0\<rparr> = ''0''"
  by (simp add: AmountString_def FormatInt_def format_nat.simps digit_char_0)

lemma parse_nat_zero_canonical: "canonical_nat s \<Longrightarrow> parse_nat s = 0 \<Longrightarrow> s = ''0''"
  by (metis canonical_nat_inj canonical_format_nat format_parse_nat digit_char_0 format_nat.simps zero_less_numeral)

lemma ParseMoney_string:
  assumes "ParseMoney c s = Inr m"
  shows "m_Currency m = c \<and> wf_money m \<and> (s = AmountString m \<or> s = ''-0'')"
proof -
  from assms have pat: "amountPattern s" and v: "ParseInt s = Some (m_Amount m)" and cur: "m_Currency m = c"
    by (auto simp: ParseMoney_def split: if_splits option.splits)
  let ?body = "if s \<noteq> [] \<and> hd s = CHR ''-'' then tl s else s"
  have body: "canonical_nat ?body" and plus: "\<not> (s \<noteq> [] \<and> hd s = CHR ''+'')"
    using amountPattern_body [OF pat] by auto
  have "s = AmountString m \<or> s = ''-0''"
  proof (cases "s \<noteq> [] \<and> hd s = CHR ''-''")
    case True
    with v have amt: "m_Amount m = - int (parse_nat (tl s))"
      by (auto simp: ParseInt_def Let_def split: if_splits)
    show ?thesis
    proof (cases "parse_nat (tl s) = 0")
      case zero: True
      with True body have "tl s = ''0''" by (simp add: parse_nat_zero_canonical)
      with True show ?thesis by (cases s) auto
    next
      case False
      with True body amt show ?thesis
        by (cases s) (auto simp: AmountString_def FormatInt_def format_parse_nat)
    qed
  next
    case False
    with v plus have "m_Amount m = int (parse_nat s)"
      by (auto simp: ParseInt_def Let_def split: if_splits)
    moreover have "?body = s" using False by (rule if_not_P)
    with body have "canonical_nat s" by simp
    ultimately show ?thesis
      by (simp add: AmountString_def FormatInt_def format_parse_nat)
  qed
  with cur v show ?thesis by (simp add: wf_money_def ParseInt_int64)
qed

lemma parse_nat_length_bound: "list_all is_digit s \<Longrightarrow> s \<noteq> [] \<Longrightarrow> hd s \<noteq> CHR ''0'' \<Longrightarrow> 10 ^ (length s - 1) \<le> parse_nat s"
proof (induction s rule: rev_induct)
  case Nil
  then show ?case by simp
next
  case (snoc c s)
  show ?case
  proof (cases "s = []")
    case True
    with snoc.prems have "is_digit c" "c \<noteq> CHR ''0''" by auto
    then have "digit_val c \<noteq> 0" by (metis digit_char_0 digit_char_digit_val)
    with True show ?thesis by simp
  next
    case False
    then have "hd (s @ [c]) = hd s" and len: "length s = Suc (length s - 1)" by simp_all
    with snoc False have "10 ^ (length s - 1) \<le> parse_nat s" by auto
    then have "10 * 10 ^ (length s - 1) \<le> parse_nat s * 10 + digit_val c" by simp
    then show ?thesis using len by (metis parse_nat_snoc length_append_singleton diff_Suc_1 power_Suc)
  qed
qed

lemma format_nat_short: "n \<le> 9223372036854775808 \<Longrightarrow> length (format_nat n) \<le> 30"
proof (rule ccontr)
  assume n: "n \<le> 9223372036854775808" and long: "\<not> length (format_nat n) \<le> 30"
  then have "n \<noteq> 0" using length_format_nat_gt_1 by simp
  then have "10 ^ (length (format_nat n) - 1) \<le> parse_nat (format_nat n)"
    by (intro parse_nat_length_bound) (simp_all add: format_nat_digits hd_format_nat)
  moreover have "(10::nat) ^ 30 \<le> 10 ^ (length (format_nat n) - 1)"
    using long by (intro power_increasing) auto
  ultimately show False using n by simp
qed

lemma amountPattern_canonical:
  "canonical_nat s \<Longrightarrow> length s \<le> 30 \<Longrightarrow> amountPattern s \<and> amountPattern (CHR ''-'' # s)"
proof -
  assume c: "canonical_nat s" and len: "length s \<le> 30"
  then obtain x xs where s: "s = x # xs" by (cases s) (auto simp: canonical_nat_def)
  with c have x: "is_digit x" "x \<noteq> CHR ''-''" and xs: "list_all is_digit xs" "xs \<noteq> [] \<Longrightarrow> x \<noteq> CHR ''0''"
    by (auto simp: canonical_nat_def)
  with s len show ?thesis
    by (cases "xs = []") (auto simp: amountPattern_def)
qed

lemma ParseMoney_AmountString:
  assumes "currencyPattern (m_Currency m)" and "wf_money m"
  shows "ParseMoney (m_Currency m) (AmountString m) = Inr m"
proof -
  have "amountPattern (AmountString m)"
    using assms(2) amountPattern_canonical [OF canonical_format_nat format_nat_short]
    by (auto simp: AmountString_def FormatInt_def wf_money_def int64_defs)
  then show ?thesis
    using assms ParseInt_FormatInt by (simp add: ParseMoney_def AmountString_def wf_money_def)
qed

text \<open>C37: The wire form of money round trips: a representable amount in a valid currency
  parses back from its own decimal string, and a string that parses is the decimal string
  of the parsed amount, with the single exception of \<open>-0\<close>, which parses as zero.\<close>

theorem ParseMoney_roundtrip:
  "(currencyPattern (m_Currency m) \<and> wf_money m \<longrightarrow> ParseMoney (m_Currency m) (AmountString m) = Inr m) \<and>
   (ParseMoney c s = Inr m \<longrightarrow> m_Currency m = c \<and> wf_money m \<and> (s = AmountString m \<or> s = ''-0'' \<and> m_Amount m = 0))"
proof (intro conjI impI)
  assume "currencyPattern (m_Currency m) \<and> wf_money m"
  then show "ParseMoney (m_Currency m) (AmountString m) = Inr m"
    using ParseMoney_AmountString by blast
next
  assume p: "ParseMoney c s = Inr m"
  then show "m_Currency m = c" and "wf_money m" using ParseMoney_string by blast+
  show "s = AmountString m \<or> s = ''-0'' \<and> m_Amount m = 0"
  proof (cases "s = ''-0''")
    case True
    with p have "ParseInt ''-0'' = Some (m_Amount m)"
      by (auto simp: ParseMoney_def split: if_splits option.splits)
    then have "m_Amount m = 0"
      by (auto simp: ParseInt_def digit_val_def is_digit_def)
    with True show ?thesis by simp
  next
    case False
    with p ParseMoney_string show ?thesis by blast
  qed
qed

theorem ParseMoney_roundtrip_witness:
  "ParseMoney ''EUR'' (AmountString \<lparr>m_Currency = ''EUR'', m_Amount = - 1250000\<rparr>) =
     Inr \<lparr>m_Currency = ''EUR'', m_Amount = - 1250000\<rparr>"
proof -
  have "currencyPattern ''EUR''" and "wf_money \<lparr>m_Currency = ''EUR'', m_Amount = - 1250000\<rparr>"
    by (simp_all add: currencyPattern_def is_upper_def wf_money_def int64_defs)
  then show ?thesis
    using ParseMoney_roundtrip [of "\<lparr>m_Currency = ''EUR'', m_Amount = - 1250000\<rparr>"] by simp
qed

lemma ParseMoney_minus_zero: "ParseMoney ''EUR'' ''-0'' = Inr \<lparr>m_Currency = ''EUR'', m_Amount = 0\<rparr>"
  by (simp add: ParseMoney_def currencyPattern_def is_upper_def amountPattern_def ParseInt_def
      is_digit_def digit_val_def int64_defs)

section \<open>Cost\<close>

definition ceil_div :: "int \<Rightarrow> int \<Rightarrow> int" where
  "ceil_div a b = - ((- a) div b)"

lemma quo_trunc_nonneg: "0 \<le> a \<Longrightarrow> 0 < b \<Longrightarrow> quo_trunc a b = a div b"
  by (auto simp: quo_trunc_def sgn_if)

lemma quo_trunc_neg: "a < 0 \<Longrightarrow> 0 < b \<Longrightarrow> quo_trunc a b = ceil_div a b"
  by (simp add: quo_trunc_def ceil_div_def)

lemma trunc_ceil:
  assumes "0 < b"
  shows "(if rem_trunc a b > 0 then quo_trunc a b + 1 else quo_trunc a b) = ceil_div a b"
proof (cases "0 \<le> a")
  case True
  then have r: "rem_trunc a b = a mod b"
    using assms by (simp add: rem_trunc_def quo_trunc_nonneg minus_mult_div_eq_mod)
  have "- ((- a) div b) = (if a mod b = 0 then a div b else a div b + 1)"
    using assms by (simp add: zdiv_zminus1_eq_if)
  moreover have "0 < a mod b \<longleftrightarrow> a mod b \<noteq> 0" using pos_mod_sign [OF assms, of a] by linarith
  ultimately show ?thesis
    using r True assms by (simp only: ceil_div_def quo_trunc_nonneg) simp
next
  case False
  then have q: "quo_trunc a b = ceil_div a b" using assms by (simp add: quo_trunc_neg)
  have "rem_trunc a b = - ((- a) mod b)"
    by (simp add: rem_trunc_def q ceil_div_def) (metis add.inverse_inverse minus_mult_div_eq_mod mult_minus_right minus_diff_eq diff_minus_eq_add add.commute)
  with assms have "rem_trunc a b \<le> 0" by simp
  with q show ?thesis by simp
qed

lemma category_cost_ceil:
  "category_cost p u c = ceil_div (uint (Usage_Get u c) * per_million p c) million"
  by (simp add: category_cost_def Let_def trunc_ceil)

lemma total_cost_sum: "total_cost p u = (\<Sum>c \<leftarrow> UsageCategories. category_cost p u c)"
  by (simp add: total_cost_def UsageCategories_def)

lemma ceil_div_bounds: "0 < b \<Longrightarrow> a \<le> b * ceil_div a b \<and> b * ceil_div a b < a + b"
proof -
  assume b: "0 < b"
  have "b * ((- a) div b) + (- a) mod b = - a" by (rule mult_div_mod_eq)
  moreover have "0 \<le> (- a) mod b" "(- a) mod b < b" using b by simp_all
  ultimately show ?thesis unfolding ceil_div_def mult_minus_right by linarith
qed

lemma ceil_div_nonneg: "0 < b \<Longrightarrow> 0 \<le> a \<Longrightarrow> 0 \<le> ceil_div a b"
  using ceil_div_bounds [of b a] by (metis order_trans zero_le_mult_iff not_less)

lemma UsageCategories_complete: "c \<in> set UsageCategories"
  by (cases c) (simp_all add: UsageCategories_def)

lemma Price_Validate_per_million: "Price_Validate p = None \<Longrightarrow> 0 \<le> per_million p c"
proof -
  assume "Price_Validate p = None"
  then have "check_all (check_unit_price p) UsageCategories = None"
    by (auto simp: Price_Validate_def split: if_splits)
  then have "check_unit_price p c = None"
    unfolding check_all_None_iff using UsageCategories_complete by blast
  then show ?thesis
    by (auto simp: check_unit_price_def per_million_def split: option.splits if_splits)
qed

text \<open>The usage a price meters: the inclusive counters less their subsets.\<close>

definition metered :: "price \<Rightarrow> usage \<Rightarrow> usage" where
  "metered p u =
     u\<lparr>u_Input := (if p_InputIncludesCached p then u_Input u - u_CachedInput u else u_Input u),
       u_Output := (if p_OutputIncludesReasoning p then u_Output u - u_Reasoning u else u_Output u)\<rparr>"

definition meterable :: "price \<Rightarrow> usage \<Rightarrow> bool" where
  "meterable p u \<longleftrightarrow>
     (p_InputIncludesCached p \<longrightarrow> u_CachedInput u \<le> u_Input u) \<and>
     (p_OutputIncludesReasoning p \<longrightarrow> u_Reasoning u \<le> u_Output u)"

text \<open>The exact price of usage as a rational number of scaled units times a million.\<close>

definition exact_cost :: "price \<Rightarrow> usage \<Rightarrow> int" where
  "exact_cost p u = (\<Sum>c \<leftarrow> UsageCategories. uint (Usage_Get (metered p u) c) * per_million p c)"

lemma Price_Cost_eq:
  "Price_Cost p u =
     (if \<not> meterable p u \<or> \<not> int64 (total_cost p (metered p u)) then Inl ErrInvalid
      else Inr \<lparr>m_Currency = p_Currency p, m_Amount = total_cost p (metered p u)\<rparr>)"
  by (auto simp: Price_Cost_def include_cached_def include_reasoning_def meterable_def metered_def
      not_less)

lemma category_cost_nonneg: "Price_Validate p = None \<Longrightarrow> 0 \<le> category_cost p u c"
  using Price_Validate_per_million [of p c] by (simp add: category_cost_ceil ceil_div_nonneg)

lemma Price_Cost_nonneg:
  assumes "Price_Validate p = None" and "Price_Cost p u = Inr m"
  shows "wf_money m \<and> 0 \<le> m_Amount m"
  using assms(2) category_cost_nonneg [OF assms(1)]
  by (auto simp: Price_Cost_eq wf_money_def total_cost_sum UsageCategories_def split: if_splits)

text \<open>The cost of usage is integer arithmetic that never undercharges and rounds each
  category up by less than one scaled unit: under a valid price it is non-negative, it covers
  the exact price of the metered usage (the inclusive counters less their subsets), it exceeds
  it by less than one unit per category, and it fails, rather than truncates, when a subset
  counter exceeds the counter that includes it or the total does not fit the ledger.\<close>

theorem Price_Cost_bounds:
  assumes "Price_Validate p = None"
  shows "case Price_Cost p u of
      Inr m \<Rightarrow> m_Currency m = p_Currency p \<and> wf_money m \<and> 0 \<le> m_Amount m \<and> meterable p u \<and>
        exact_cost p u \<le> million * m_Amount m \<and> million * m_Amount m < exact_cost p u + 4 * million
    | Inl e \<Rightarrow> e = ErrInvalid \<and> (\<not> meterable p u \<or> \<not> int64 (total_cost p (metered p u)))"
proof -
  let ?u = "metered p u"
  have nn: "0 \<le> category_cost p ?u c" for c
    by (rule category_cost_nonneg [OF assms])
  have b: "uint (Usage_Get ?u c) * per_million p c \<le> million * category_cost p ?u c \<and>
      million * category_cost p ?u c < uint (Usage_Get ?u c) * per_million p c + million" for c
    unfolding category_cost_ceil by (rule ceil_div_bounds) simp
  have "0 \<le> total_cost p ?u \<and> exact_cost p u \<le> million * total_cost p ?u \<and>
      million * total_cost p ?u < exact_cost p u + 4 * million"
    using nn [of UsageInput] nn [of UsageOutput] nn [of UsageReasoning] nn [of UsageCachedInput]
      b [of UsageInput] b [of UsageOutput] b [of UsageReasoning] b [of UsageCachedInput]
    by (simp add: total_cost_sum exact_cost_def UsageCategories_def distrib_left)
  then show ?thesis
    by (simp add: Price_Cost_eq wf_money_def)
qed

definition sample_price :: price where
  "sample_price =
     \<lparr>p_Revision = ''r1'', p_Kind = DispatchModel, p_Route = ''route'', p_Provider = ''prov'', p_Model = ''mod'',
      p_Currency = ''USD'', p_EffectiveFrom = 0, p_EffectiveUntil = 1000000,
      p_PerMillion = (\<lambda>c. Some (case c of UsageInput \<Rightarrow> 3 | UsageOutput \<Rightarrow> 15 | UsageReasoning \<Rightarrow> 15 | UsageCachedInput \<Rightarrow> 1)),
      p_InputIncludesCached = True, p_OutputIncludesReasoning = False, p_MaxExposure = 500\<rparr>"

lemma sample_price_valid: "Price_Validate sample_price = None"
  by (simp add: Price_Validate_def sample_price_def currencyPattern_def is_upper_def check_unit_price_def UsageCategories_def)

theorem Price_Cost_bounds_witness:
  "Price_Cost sample_price \<lparr>u_Input = 1000001, u_Output = 10, u_Reasoning = 0, u_CachedInput = 1\<rparr> =
     Inr \<lparr>m_Currency = ''USD'', m_Amount = 5\<rparr> \<and>
   exact_cost sample_price \<lparr>u_Input = 1000001, u_Output = 10, u_Reasoning = 0, u_CachedInput = 1\<rparr> \<le> million * 5"
proof -
  let ?u = "\<lparr>u_Input = 1000001, u_Output = 10, u_Reasoning = 0, u_CachedInput = 1\<rparr>"
  have c: "Price_Cost sample_price ?u = Inr \<lparr>m_Currency = ''USD'', m_Amount = 5\<rparr>"
    by (simp add: Price_Cost_eq meterable_def metered_def sample_price_def total_cost_def UsageCategories_def
        category_cost_ceil ceil_div_def per_million_def int64_defs)
  with Price_Cost_bounds [OF sample_price_valid, of ?u] show ?thesis by simp
qed

lemma free_of_iff: "free_of p cs \<longleftrightarrow> (\<forall>c \<in> set cs. per_million p c = 0)"
  by (induction cs) auto

lemma Price_Free_iff: "Price_Free p \<longleftrightarrow> (\<forall>c. per_million p c = 0)"
  using UsageCategories_complete by (auto simp: Price_Free_def free_of_iff)

lemma Price_Free_Cost: "Price_Free p \<Longrightarrow> Price_Cost p u = Inr m \<Longrightarrow> m_Amount m = 0"
  by (auto simp: Price_Cost_eq Price_Free_iff total_cost_sum UsageCategories_def category_cost_ceil
      ceil_div_def split: if_splits)

end
