(* ===== verification/Operation.thy ===== *)
theory Operation
  imports Values Money
begin

text \<open>
  \<open>internal/domain/operation.go\<close>: the authoritative record of an operation, its reviewed
  profile, the projection transition that allocates events, the dispatch fence and the
  cancel command. A string-valued Go type with named constants is a datatype with the
  names of the constants; where the code also handles a value outside them, or the empty
  string of an unset field, the datatype has a constructor for it. The update function of
  \<open>Transition\<close>, a closure of the caller, is an argument of type \<open>operation \<Rightarrow> operation\<close>.
\<close>

section \<open>States\<close>

datatype operation_kind =
  KindPreparation | KindGeneration | KindRefinement | KindPreviewBuild | KindRelease | KindLocalCheck

datatype lifecycle =
    LifecycleAccepted | LifecycleRunning | LifecycleWaiting | LifecycleReconciling | LifecycleSuspended
  | LifecycleSucceeded | LifecycleFailed | LifecycleCanceled

definition Lifecycle_Terminal :: "lifecycle \<Rightarrow> bool" where
  "Lifecycle_Terminal l \<longleftrightarrow> l = LifecycleSucceeded \<or> l = LifecycleFailed \<or> l = LifecycleCanceled"

datatype control_state =
  ControlNone | ControlCancelPending | ControlCancelApplied | ControlHoldPending | ControlHoldApplied

datatype cleanup_state = CleanupNotRequired | CleanupPending | CleanupComplete | CleanupUnknown

datatype finance_state =
  FinanceNotFunded | FinanceFunded | FinanceSettling | FinanceSettled | FinanceExposureUnknown

datatype intake_state = IntakePending | IntakeConfirmed

datatype relay_state = RelayPending | RelayStarted | RelayCancelPending | RelaySettled

text \<open>\<open>VerdictUnset\<close> is the empty verdict of a payload that carries none.\<close>

datatype verdict =
    VerdictCertified | VerdictRepairable | VerdictInvalid | VerdictInfrastructureFailed | VerdictCanceled
  | VerdictUnset

section \<open>Subjects, intakes and profiles\<close>

record subject =
  sj_ProfileID :: string
  sj_SubjectDigest :: digest
  sj_BriefID :: string
  sj_SourceRevision :: string
  sj_SourceHandle :: string
  sj_SourceOperationID :: string
  sj_PackageVersion :: string

record artifact_binding =
  ab_TransferID :: string
  ab_Digest :: digest

record source_reference =
  sr_SourceID :: string
  sr_Revision :: u64

record preparation_intake =
  pi_Prompt :: artifact_binding
  pi_BrandReferences :: "source_reference list"
  pi_AssetReferences :: "source_reference list"

record clarification_bounds =
  cb_MaxRounds :: u64
  cb_MaxQuestions :: u64
  cb_Wait :: duration

record profile =
  pf_ID :: string
  pf_Kind :: operation_kind
  pf_OperationDeadline :: duration
  pf_StepID :: string
  pf_JobProfileID :: string
  pf_MultiStep :: bool
  pf_Clarification :: clarification_bounds
  pf_Funding :: "money option"
  pf_QueuePool :: string
  pf_ActiveWindow :: duration
  pf_AttemptWindow :: duration
  pf_Definitions :: "string list"
  pf_SupportsControl :: bool
  pf_MaxRepairs :: u64
  pf_CodegenProfileID :: string
  pf_ValidatorProfileID :: string

definition DefaultDefinition :: "profile \<Rightarrow> string" where
  "DefaultDefinition p = (if length (pf_Definitions p) = 0 then [] else pf_Definitions p ! 0)"

definition HasDefinition :: "profile \<Rightarrow> string \<Rightarrow> bool" where
  "HasDefinition p activation = list_ex (\<lambda>d. d = activation) (pf_Definitions p)"

section \<open>Leases\<close>

datatype lease_state = LeaseNone | LeaseHeld | LeaseLost | LeaseReleased | LeaseStateOther string

record lease_record =
  ls_State :: lease_state
  ls_LeaseID :: string
  ls_Fence :: u64
  ls_ExpiresAt :: "instant option"
  ls_Occurrence :: u64

definition Lease_Valid :: "lease_record \<Rightarrow> instant \<Rightarrow> bool" where
  "Lease_Valid l now \<longleftrightarrow> ls_State l = LeaseHeld \<and> (case ls_ExpiresAt l of None \<Rightarrow> False | Some x \<Rightarrow> now < x)"

section \<open>The operation\<close>

record operation =
  op_ID :: string
  op_TenantID :: string
  op_ProjectID :: string
  op_ActorID :: string
  op_CommandID :: string
  op_Kind :: operation_kind
  op_Subject :: subject
  op_SemanticDigest :: digest
  op_Lifecycle :: lifecycle
  op_Phase :: string
  op_Control :: control_state
  op_Cleanup :: cleanup_state
  op_Finance :: finance_state
  op_FailureCode :: string
  op_Revision :: revision
  op_NextEventSeq :: u64
  op_ExecutionEpoch :: u64
  op_RecoveryEpoch :: u64
  op_Deadline :: instant
  op_Intake :: intake_state
  op_IntakeVersion :: string
  op_Relay :: relay_state
  op_RelayRunID :: string
  op_CreatedAt :: instant
  op_UpdatedAt :: instant
  op_ActiveDeadline :: "instant option"
  op_Lease :: lease_record
  op_DefinitionActivation :: string
  op_Preparation :: "preparation_intake option"
  op_CandidateEffectID :: string

definition EffectiveDeadline :: "operation \<Rightarrow> instant" where
  "EffectiveDeadline ops = (case op_ActiveDeadline ops of Some d \<Rightarrow> d | None \<Rightarrow> op_Deadline ops)"

definition CoveredEventSeq :: "operation \<Rightarrow> u64" where
  "CoveredEventSeq ops = op_NextEventSeq ops - 1"

text \<open>\<open>Scope.Sees\<close> of \<open>values.go\<close>.\<close>

definition Sees :: "scope \<Rightarrow> operation \<Rightarrow> bool" where
  "Sees s ops \<longleftrightarrow> op_TenantID ops = sc_TenantID s \<and>
     (sc_ProjectID s = [] \<or> op_ProjectID ops = sc_ProjectID s \<or> HasRole s RoleOperator)"

section \<open>Events\<close>

record changed_payload =
  pl_Lifecycle :: lifecycle
  pl_Phase :: string
  pl_Control :: control_state
  pl_Cleanup :: cleanup_state
  pl_Finance :: finance_state
  pl_FailureCode :: string
  pl_Step :: string
  pl_Visit :: string
  pl_AttemptOrdinal :: string
  pl_Verdict :: verdict
  pl_VerdictCode :: string
  pl_Node :: string
  pl_NodeState :: string
  pl_Round :: string
  pl_OutcomeCode :: string

text \<open>The prior lifecycle of an event read back is the empty string, here \<open>None\<close>.\<close>

record event =
  ev_OperationID :: string
  ev_EventSeq :: u64
  ev_TransitionID :: string
  ev_EventType :: string
  ev_Revision :: revision
  ev_Payload :: changed_payload
  ev_OccurredAt :: instant
  ev_PriorLifecycle :: "lifecycle option"

definition FirstProgress :: "event \<Rightarrow> bool" where
  "FirstProgress e \<longleftrightarrow>
     ev_PriorLifecycle e = Some LifecycleAccepted \<and> pl_Lifecycle (ev_Payload e) \<noteq> LifecycleAccepted"

definition Completes :: "event \<Rightarrow> bool" where
  "Completes e \<longleftrightarrow>
     (case ev_PriorLifecycle e of
        None \<Rightarrow> False
      | Some l \<Rightarrow> \<not> Lifecycle_Terminal l \<and> Lifecycle_Terminal (pl_Lifecycle (ev_Payload e)))"

definition BindProgress :: "changed_payload \<Rightarrow> string \<Rightarrow> string \<Rightarrow> string \<Rightarrow> string \<Rightarrow> changed_payload" where
  "BindProgress p node state round outcomeCode =
     p\<lparr>pl_Node := node, pl_NodeState := state, pl_Round := round, pl_OutcomeCode := outcomeCode\<rparr>"

definition HasAttempt :: "changed_payload \<Rightarrow> bool" where
  "HasAttempt p \<longleftrightarrow> pl_Step p \<noteq> []"

abbreviation EventOperationChanged :: string where
  "EventOperationChanged \<equiv> ''operation.changed''"

section \<open>Intake and transitions\<close>

definition NewOperation ::
  "string \<Rightarrow> command_identity \<Rightarrow> scope \<Rightarrow> operation_kind \<Rightarrow> subject \<Rightarrow> profile \<Rightarrow> instant \<Rightarrow> err + operation" where
  "NewOperation new_id cmd s kind sj prof now =
     (if pf_Kind prof \<noteq> kind then Inl ErrProfileUnqualified
      else if sj_ProfileID sj \<noteq> pf_ID prof then Inl ErrProfileUnqualified
      else Inr \<lparr>op_ID = new_id, op_TenantID = sc_TenantID s, op_ProjectID = sc_ProjectID s,
        op_ActorID = sc_ActorID s, op_CommandID = cmd_CommandID cmd, op_Kind = kind, op_Subject = sj,
        op_SemanticDigest = cmd_RequestDigest cmd, op_Lifecycle = LifecycleAccepted, op_Phase = ''intake'',
        op_Control = ControlNone, op_Cleanup = CleanupNotRequired, op_Finance = FinanceNotFunded,
        op_FailureCode = [], op_Revision = 1, op_NextEventSeq = 1, op_ExecutionEpoch = 1, op_RecoveryEpoch = 1,
        op_Deadline = now + pf_OperationDeadline prof, op_Intake = IntakePending, op_IntakeVersion = [],
        op_Relay = RelayPending, op_RelayRunID = [], op_CreatedAt = now, op_UpdatedAt = now,
        op_ActiveDeadline = None,
        op_Lease = \<lparr>ls_State = LeaseNone, ls_LeaseID = [], ls_Fence = 0, ls_ExpiresAt = None, ls_Occurrence = 0\<rparr>,
        op_DefinitionActivation = DefaultDefinition prof, op_Preparation = None, op_CandidateEffectID = []\<rparr>)"

definition ChangedPayload :: "operation \<Rightarrow> changed_payload" where
  "ChangedPayload ops =
     \<lparr>pl_Lifecycle = op_Lifecycle ops, pl_Phase = op_Phase ops, pl_Control = op_Control ops,
      pl_Cleanup = op_Cleanup ops, pl_Finance = op_Finance ops, pl_FailureCode = op_FailureCode ops,
      pl_Step = [], pl_Visit = [], pl_AttemptOrdinal = [], pl_Verdict = VerdictUnset, pl_VerdictCode = [],
      pl_Node = [], pl_NodeState = [], pl_Round = [], pl_OutcomeCode = []\<rparr>"

definition Transition ::
  "operation \<Rightarrow> string \<Rightarrow> instant \<Rightarrow> (operation \<Rightarrow> operation) \<Rightarrow> operation \<times> event" where
  "Transition ops transitionID now apply_to =
     (let prior = op_Lifecycle ops;
          o1 = apply_to ops;
          o2 = o1\<lparr>op_Revision := op_Revision o1 + 1, op_UpdatedAt := now\<rparr>;
          ev = \<lparr>ev_OperationID = op_ID o2, ev_EventSeq = op_NextEventSeq o2, ev_TransitionID = transitionID,
                ev_EventType = EventOperationChanged, ev_Revision = op_Revision o2,
                ev_Payload = ChangedPayload o2, ev_OccurredAt = now, ev_PriorLifecycle = Some prior\<rparr>
      in (o2\<lparr>op_NextEventSeq := op_NextEventSeq o2 + 1\<rparr>, ev))"

section \<open>Fences\<close>

definition FencedForNewDispatch :: "operation \<Rightarrow> bool" where
  "FencedForNewDispatch ops \<longleftrightarrow>
     op_Control ops \<noteq> ControlNone \<or> Lifecycle_Terminal (op_Lifecycle ops) \<or>
     op_Lifecycle ops = LifecycleReconciling \<or> ls_State (op_Lease ops) = LeaseLost"

definition SendersQuiescent :: "operation \<Rightarrow> bool \<Rightarrow> bool" where
  "SendersQuiescent ops openAttempt \<longleftrightarrow>
     \<not> openAttempt \<and> op_Lifecycle ops \<noteq> LifecycleReconciling \<and> op_Cleanup ops \<noteq> CleanupUnknown \<and>
     op_Finance ops \<noteq> FinanceExposureUnknown"

section \<open>Commands\<close>

datatype command_kind =
  CommandCancel | CommandHold | CommandResume | CommandChangeDefinition | CommandKindOther string

datatype command_outcome = OutcomePending | OutcomeApplied | OutcomeBlocked | OutcomeRejected

datatype command_relay_state = CommandRelayNone | CommandRelayPending | CommandRelaySent | CommandRelaySettled

record command =
  cm_TenantID :: string
  cm_CommandID :: string
  cm_OperationID :: string
  cm_ActorID :: string
  cm_Kind :: command_kind
  cm_ExpectedRevision :: revision
  cm_RequestDigest :: digest
  cm_TargetDefinitionActivation :: string
  cm_Outcome :: command_outcome
  cm_ReasonCode :: string
  cm_OperationRevision :: revision
  cm_AcceptedAt :: instant
  cm_SettledAt :: "instant option"
  cm_Relay :: command_relay_state

record cancel_decision =
  cd_Outcome :: command_outcome
  cd_ReasonCode :: string
  cd_Applied :: bool

definition DecideCancel :: "operation \<Rightarrow> revision \<Rightarrow> bool \<Rightarrow> err + cancel_decision" where
  "DecideCancel ops expected sendersQuiescent =
     (if expected \<noteq> op_Revision ops then Inl ErrRevisionConflict
      else if Lifecycle_Terminal (op_Lifecycle ops)
        then Inr \<lparr>cd_Outcome = OutcomeRejected, cd_ReasonCode = ''TERMINAL'', cd_Applied = False\<rparr>
      else if op_Control ops = ControlCancelApplied
        then Inr \<lparr>cd_Outcome = OutcomeApplied, cd_ReasonCode = [], cd_Applied = False\<rparr>
      else if op_Control ops = ControlCancelPending
        then Inr \<lparr>cd_Outcome = OutcomePending, cd_ReasonCode = [], cd_Applied = False\<rparr>
      else if sendersQuiescent
        then Inr \<lparr>cd_Outcome = OutcomeApplied, cd_ReasonCode = [], cd_Applied = True\<rparr>
      else Inr \<lparr>cd_Outcome = OutcomePending, cd_ReasonCode = [], cd_Applied = True\<rparr>)"

definition ApplyCancelFence :: "operation \<Rightarrow> bool \<Rightarrow> operation" where
  "ApplyCancelFence ops sendersQuiescent =
     (if sendersQuiescent
      then let o1 = ops\<lparr>op_Control := ControlCancelApplied, op_Lifecycle := LifecycleCanceled, op_Phase := ''canceled''\<rparr>
           in if op_Cleanup o1 = CleanupPending then o1\<lparr>op_Cleanup := CleanupComplete\<rparr> else o1
      else ops\<lparr>op_Control := ControlCancelPending, op_Phase := ''cancel_pending''\<rparr>)"

section \<open>A concrete operation\<close>

text \<open>A running operation, the input of the concrete examples.\<close>

definition sample_operation :: operation where
  "sample_operation =
     \<lparr>op_ID = ''op_1'', op_TenantID = ''t'', op_ProjectID = ''p'', op_ActorID = ''a'', op_CommandID = ''c'', op_Kind = KindGeneration,
      op_Subject = \<lparr>sj_ProfileID = ''gen'', sj_SubjectDigest = ''lineage'', sj_BriefID = ''brief'', sj_SourceRevision = ''r7'',
        sj_SourceHandle = [], sj_SourceOperationID = ''op_0'', sj_PackageVersion = ''1.2.0''\<rparr>,
      op_SemanticDigest = ''dig'', op_Lifecycle = LifecycleRunning, op_Phase = ''running'', op_Control = ControlNone,
      op_Cleanup = CleanupNotRequired, op_Finance = FinanceFunded, op_FailureCode = [], op_Revision = 5, op_NextEventSeq = 6,
      op_ExecutionEpoch = 1, op_RecoveryEpoch = 1, op_Deadline = 1000000, op_Intake = IntakeConfirmed, op_IntakeVersion = ''v'',
      op_Relay = RelayStarted, op_RelayRunID = ''run'', op_CreatedAt = 0, op_UpdatedAt = 0, op_ActiveDeadline = None,
      op_Lease = \<lparr>ls_State = LeaseHeld, ls_LeaseID = ''l'', ls_Fence = 1, ls_ExpiresAt = Some 800000, ls_Occurrence = 1\<rparr>,
      op_DefinitionActivation = ''d1'', op_Preparation = None, op_CandidateEffectID = []\<rparr>"

end
