(* ===== verification/Attempt.thy ===== *)
theory Attempt
  imports Operation
begin

text \<open>
  \<open>internal/domain/attempt.go\<close>: attempts, launches, physical instances and accepted stages,
  with the artifact classes and stage artifacts of \<open>artifact.go\<close> that a stage names and the
  payload bindings of \<open>operation.go\<close> that need an attempt. The identifier that \<open>NewID\<close> draws
  is the argument \<open>new_id\<close>. \<open>SettleClose\<close>, which updates the operation and the attempt,
  returns both.
\<close>

section \<open>Attempts\<close>

datatype attempt_state = AttemptOpen | AttemptLaunchPrepared | AttemptRunning | AttemptResultAccepted | AttemptClosed

text \<open>\<open>OutcomeUnset\<close> is the empty outcome of an attempt that is not closed.\<close>

datatype attempt_outcome =
    OutcomeCompleted | OutcomeFailed | OutcomeInfrastructureFailed | OutcomeCanceled | OutcomeUnknown | OutcomeUnset

fun outcome_string :: "attempt_outcome \<Rightarrow> string" where
  "outcome_string OutcomeCompleted = ''completed''"
| "outcome_string OutcomeFailed = ''failed''"
| "outcome_string OutcomeInfrastructureFailed = ''infrastructure_failed''"
| "outcome_string OutcomeCanceled = ''canceled''"
| "outcome_string OutcomeUnknown = ''unknown''"
| "outcome_string OutcomeUnset = []"

record attempt =
  at_ID :: string
  at_OperationID :: string
  at_TenantID :: string
  at_StepID :: string
  at_VisitOrdinal :: u64
  at_AttemptOrdinal :: u64
  at_ProfileID :: string
  at_ExecutionEpoch :: u64
  at_CommandID :: string
  at_RequestDigest :: digest
  at_State :: attempt_state
  at_Outcome :: attempt_outcome
  at_Cleanup :: "cleanup_state option"
  at_FailureCode :: string
  at_AcceptedStageID :: string
  at_Deadline :: instant
  at_CreatedAt :: instant
  at_UpdatedAt :: instant

definition NewAttempt ::
  "string \<Rightarrow> operation \<Rightarrow> command_identity \<Rightarrow> string \<Rightarrow> u64 \<Rightarrow> u64 \<Rightarrow> string \<Rightarrow> instant \<Rightarrow> err + attempt" where
  "NewAttempt new_id ops cmd stepID visit ordinal profileID now =
     (if FencedForNewDispatch ops then Inl ErrStaleExecution
      else if op_Intake ops \<noteq> IntakeConfirmed then Inl ErrStaleExecution
      else let deadline = EffectiveDeadline ops
           in if \<not> now < deadline then Inl ErrStaleExecution
              else Inr \<lparr>at_ID = new_id, at_OperationID = op_ID ops, at_TenantID = op_TenantID ops,
                at_StepID = stepID, at_VisitOrdinal = visit, at_AttemptOrdinal = ordinal,
                at_ProfileID = profileID, at_ExecutionEpoch = op_ExecutionEpoch ops,
                at_CommandID = cmd_CommandID cmd, at_RequestDigest = cmd_RequestDigest cmd,
                at_State = AttemptOpen, at_Outcome = OutcomeUnset, at_Cleanup = None, at_FailureCode = [],
                at_AcceptedStageID = [], at_Deadline = deadline, at_CreatedAt = now, at_UpdatedAt = now\<rparr>)"

definition BindAttempt :: "changed_payload \<Rightarrow> attempt option \<Rightarrow> changed_payload" where
  "BindAttempt p at =
     (case at of
        None \<Rightarrow> p
      | Some a \<Rightarrow> p\<lparr>pl_Step := at_StepID a, pl_Visit := Revision_String (at_VisitOrdinal a),
                     pl_AttemptOrdinal := Revision_String (at_AttemptOrdinal a)\<rparr>)"

section \<open>Launches\<close>

datatype inventory_state = InventoryPending | InventoryConfirmed | InventoryUncertain

record launch =
  ln_ID :: string
  ln_AttemptID :: string
  ln_OperationID :: string
  ln_LaunchKey :: string
  ln_Backend :: string
  ln_ProfileID :: string
  ln_ImageDigest :: digest
  ln_ExecutionEpoch :: u64
  ln_LaunchEpoch :: u64
  ln_Deadline :: instant
  ln_CommandID :: string
  ln_RequestDigest :: digest
  ln_Inventory :: inventory_state
  ln_InventoryVersion :: string
  ln_CreatedAt :: instant
  ln_UpdatedAt :: instant

definition NewLaunch ::
  "string \<Rightarrow> operation \<Rightarrow> attempt \<Rightarrow> command_identity \<Rightarrow> string \<Rightarrow> string \<Rightarrow> digest \<Rightarrow> instant \<Rightarrow> instant \<Rightarrow> err + launch" where
  "NewLaunch new_id ops at cmd launchKey backend img deadline now =
     (if FencedForNewDispatch ops then Inl ErrStaleExecution
      else if at_State at \<noteq> AttemptOpen \<and> at_State at \<noteq> AttemptLaunchPrepared then Inl ErrStaleExecution
      else if at_ExecutionEpoch at \<noteq> op_ExecutionEpoch ops then Inl ErrStaleExecution
      else if \<not> now < at_Deadline at then Inl ErrStaleExecution
      else let d0 = truncate_us deadline;
               d = (if d0 > at_Deadline at then at_Deadline at else d0)
           in if \<not> d > now then Inl ErrStaleExecution
              else Inr \<lparr>ln_ID = new_id, ln_AttemptID = at_ID at, ln_OperationID = op_ID ops,
                ln_LaunchKey = launchKey, ln_Backend = backend, ln_ProfileID = at_ProfileID at,
                ln_ImageDigest = img, ln_ExecutionEpoch = op_ExecutionEpoch ops, ln_LaunchEpoch = 1,
                ln_Deadline = d, ln_CommandID = cmd_CommandID cmd, ln_RequestDigest = cmd_RequestDigest cmd,
                ln_Inventory = InventoryPending, ln_InventoryVersion = [], ln_CreatedAt = now, ln_UpdatedAt = now\<rparr>)"

section \<open>Instances\<close>

datatype instance_phase = PhasePending | PhaseRunning | PhaseSucceeded | PhaseFailed | PhaseUnknown

record inst =
  inst_ID :: string
  inst_AttemptID :: string
  inst_LaunchID :: string
  inst_LaunchKey :: string
  inst_Backend :: string
  inst_JobUID :: string
  inst_PodUID :: string
  inst_ImageDigest :: digest
  inst_LaunchEpoch :: u64
  inst_Phase :: instance_phase
  inst_ExitCode :: "int option"
  inst_Current :: bool
  inst_RegisteredAt :: instant
  inst_ObservedAt :: "instant option"

definition NewInstance ::
  "string \<Rightarrow> launch \<Rightarrow> string \<Rightarrow> string \<Rightarrow> digest \<Rightarrow> bool \<Rightarrow> instant \<Rightarrow> err + inst" where
  "NewInstance new_id l jobUID podUID img hasCurrent now =
     (if img \<noteq> ln_ImageDigest l then Inl ErrStaleExecution
      else Inr \<lparr>inst_ID = new_id, inst_AttemptID = ln_AttemptID l, inst_LaunchID = ln_ID l,
        inst_LaunchKey = ln_LaunchKey l, inst_Backend = ln_Backend l, inst_JobUID = jobUID, inst_PodUID = podUID,
        inst_ImageDigest = img, inst_LaunchEpoch = ln_LaunchEpoch l, inst_Phase = PhasePending,
        inst_ExitCode = None, inst_Current = (\<not> hasCurrent), inst_RegisteredAt = now, inst_ObservedAt = None\<rparr>)"

section \<open>Stages\<close>

datatype artifact_class =
    ArtifactPrompt | ArtifactBrief | ArtifactSource | ArtifactStage | ArtifactResult | ArtifactEvidence
  | ArtifactAnswer | ArtifactArgument | ArtifactNpm | ArtifactBrowser | ArtifactCSS | ArtifactClassOther string

record stage_artifact =
  sa_StageID :: string
  sa_TransferID :: string
  sa_Handle :: string
  sa_Class :: artifact_class
  sa_Digest :: digest
  sa_SizeBytes :: int
  sa_ObjectVersion :: string

record stage =
  st_ID :: string
  st_AttemptID :: string
  st_InstanceID :: string
  st_OperationID :: string
  st_PhaseOrdinal :: u64
  st_ProfileID :: string
  st_Verdict :: verdict
  st_FailureCode :: string
  st_ResultDigest :: digest
  st_ResultManifest :: string
  st_ObserverIdentity :: string
  st_CommandID :: string
  st_RequestDigest :: digest
  st_AcceptedAt :: instant
  st_ExecutionEpoch :: u64
  st_RecoveryEpoch :: u64
  st_Artifacts :: "stage_artifact list"

definition BindStage :: "changed_payload \<Rightarrow> stage option \<Rightarrow> changed_payload" where
  "BindStage p st =
     (case st of
        None \<Rightarrow> p
      | Some s \<Rightarrow> p\<lparr>pl_Verdict := st_Verdict s, pl_VerdictCode := st_FailureCode s\<rparr>)"

definition AcceptStage ::
  "string \<Rightarrow> operation \<Rightarrow> attempt \<Rightarrow> inst \<Rightarrow> command_identity \<Rightarrow> string \<Rightarrow> verdict \<Rightarrow> string \<Rightarrow> digest \<Rightarrow>
   string \<Rightarrow> string \<Rightarrow> u64 option \<Rightarrow> instant \<Rightarrow> err + stage" where
  "AcceptStage new_id ops at i cmd profileID vd failureCode resultDigest manifest observer observerEpoch now =
     (if \<not> inst_Current i \<or> inst_AttemptID i \<noteq> at_ID at then Inl ErrStaleExecution
      else if at_ExecutionEpoch at \<noteq> op_ExecutionEpoch ops then Inl ErrStaleExecution
      else if observerEpoch \<noteq> None \<and> the observerEpoch \<noteq> op_ExecutionEpoch ops then Inl ErrStaleExecution
      else if FencedForNewDispatch ops \<and> op_Control ops = ControlNone then Inl ErrStaleExecution
      else if at_State at \<noteq> AttemptRunning \<and> at_State at \<noteq> AttemptLaunchPrepared then Inl ErrStaleExecution
      else if profileID \<noteq> at_ProfileID at then Inl ErrStaleExecution
      else if now > at_Deadline at then Inl ErrStaleExecution
      else if vd = VerdictCertified \<and> failureCode \<noteq> [] then Inl ErrInvalid
      else if (vd = VerdictInvalid \<or> vd = VerdictRepairable \<or> vd = VerdictInfrastructureFailed) \<and> failureCode = []
        then Inl ErrInvalid
      else Inr \<lparr>st_ID = new_id, st_AttemptID = at_ID at, st_InstanceID = inst_ID i, st_OperationID = op_ID ops,
        st_PhaseOrdinal = 1, st_ProfileID = profileID, st_Verdict = vd, st_FailureCode = failureCode,
        st_ResultDigest = resultDigest, st_ResultManifest = manifest, st_ObserverIdentity = observer,
        st_CommandID = cmd_CommandID cmd, st_RequestDigest = cmd_RequestDigest cmd, st_AcceptedAt = now,
        st_ExecutionEpoch = op_ExecutionEpoch ops, st_RecoveryEpoch = op_RecoveryEpoch ops, st_Artifacts = []\<rparr>)"

section \<open>Closing an attempt\<close>

definition CanSettleCleanup :: "attempt \<Rightarrow> attempt_outcome \<Rightarrow> cleanup_state \<Rightarrow> bool" where
  "CanSettleCleanup a out cleanup \<longleftrightarrow>
     at_State a = AttemptClosed \<and> at_Outcome a = out \<and> at_Cleanup a = Some CleanupUnknown \<and> cleanup \<noteq> CleanupUnknown"

text \<open>Whether a close carries a cancel: one already installed, or a canceled outcome.\<close>

definition close_cancelRequested :: "operation \<Rightarrow> attempt_outcome \<Rightarrow> bool" where
  "close_cancelRequested ops out \<longleftrightarrow>
     op_Control ops = ControlCancelPending \<or> op_Control ops = ControlCancelApplied \<or> out = OutcomeCanceled"

definition SettleClose ::
  "operation \<Rightarrow> attempt \<Rightarrow> stage option \<Rightarrow> attempt_outcome \<Rightarrow> cleanup_state \<Rightarrow> string \<Rightarrow> bool \<Rightarrow> operation \<times> attempt" where
  "SettleClose ops at st out cleanup failureCode multiStep =
     (let a1 = at\<lparr>at_State := AttemptClosed, at_Outcome := out, at_Cleanup := Some cleanup\<rparr>;
          a2 = (if failureCode \<noteq> [] then a1\<lparr>at_FailureCode := failureCode\<rparr> else a1);
          o1 = ops\<lparr>op_Cleanup := cleanup, op_Phase := ''closed''\<rparr>;
          cancelRequested = close_cancelRequested o1 out;
          o2 = (if out = OutcomeUnknown \<or> cleanup = CleanupUnknown
                then let o' = o1\<lparr>op_Lifecycle := LifecycleReconciling,
                                 op_FailureCode := firstNonEmpty [failureCode, at_FailureCode a2, ''EFFECT_UNCERTAIN'']\<rparr>
                     in if cancelRequested \<and> op_Control o' \<noteq> ControlCancelApplied
                        then o'\<lparr>op_Control := ControlCancelPending\<rparr> else o'
                else if multiStep \<and> \<not> cancelRequested
                then o1\<lparr>op_Lifecycle := LifecycleRunning, op_Phase := ''attempt_closed'', op_FailureCode := []\<rparr>
                else if cancelRequested
                then o1\<lparr>op_Control := ControlCancelApplied, op_Lifecycle := LifecycleCanceled, op_FailureCode := []\<rparr>
                else if out = OutcomeCompleted \<and> st \<noteq> None \<and> st_Verdict (the st) = VerdictCertified \<and>
                        cleanup = CleanupComplete
                then o1\<lparr>op_Lifecycle := LifecycleSucceeded, op_FailureCode := []\<rparr>
                else o1\<lparr>op_Lifecycle := LifecycleFailed,
                        op_FailureCode := firstNonEmpty [failureCode, at_FailureCode a2, outcome_string out]\<rparr>)
      in (o2, a2))"

section \<open>A concrete attempt\<close>

definition sample_attempt :: attempt where
  "sample_attempt =
     \<lparr>at_ID = ''att_1'', at_OperationID = ''op_1'', at_TenantID = ''t'', at_StepID = ''s'', at_VisitOrdinal = 1, at_AttemptOrdinal = 1,
      at_ProfileID = ''job'', at_ExecutionEpoch = 1, at_CommandID = ''c2'', at_RequestDigest = ''d2'', at_State = AttemptRunning,
      at_Outcome = OutcomeUnset, at_Cleanup = None, at_FailureCode = [], at_AcceptedStageID = [], at_Deadline = 900000,
      at_CreatedAt = 10, at_UpdatedAt = 10\<rparr>"

end
