(* ===== verification/Budget.thy ===== *)
theory Budget
  imports Money
begin

text \<open>
  The budget part of \<open>internal/domain/budget.go\<close> and \<open>finance.go\<close>: shared pools, an
  operation's allocations, the actual-cost caps that shadow them, MCP grant policies and
  authority decisions. A method that leaves its receiver unchanged when it fails returns
  \<open>err + 'a\<close> with the updated receiver; \<open>Charge\<close>, which may fail after it changed the
  receiver, returns both.
\<close>

section \<open>Pools\<close>

datatype budget_level = LevelPlatform | LevelTenant | LevelActor | LevelOther string

definition BudgetLevels :: "budget_level list" where
  "BudgetLevels = [LevelPlatform, LevelTenant, LevelActor]"

record budget_pool =
  bp_ID :: string
  bp_Level :: budget_level
  bp_TenantID :: string
  bp_ActorID :: string
  bp_PeriodStart :: instant
  bp_PeriodEnd :: instant
  bp_Currency :: string
  bp_Cap :: int
  bp_Allocated :: int
  bp_Revision :: u64

definition Pool_Covers :: "budget_pool \<Rightarrow> instant \<Rightarrow> bool" where
  "Pool_Covers p now \<longleftrightarrow> \<not> now < bp_PeriodStart p \<and> now < bp_PeriodEnd p"

definition Pool_Allocate :: "budget_pool \<Rightarrow> money \<Rightarrow> instant \<Rightarrow> err + budget_pool" where
  "Pool_Allocate p amount now =
     (if m_Currency amount \<noteq> bp_Currency p then Inl ErrInvalid
      else if m_Amount amount \<le> 0 then Inl ErrInvalid
      else if \<not> Pool_Covers p now then Inl ErrBudgetExhausted
      else case addInt64 (bp_Allocated p) (m_Amount amount) of
             None \<Rightarrow> Inl ErrBudgetExhausted
           | Some n \<Rightarrow> if n > bp_Cap p then Inl ErrBudgetExhausted
                       else Inr (p\<lparr>bp_Allocated := n, bp_Revision := bp_Revision p + 1\<rparr>))"

definition Pool_Return :: "budget_pool \<Rightarrow> int \<Rightarrow> err + budget_pool" where
  "Pool_Return p amount =
     (if amount < 0 \<or> amount > bp_Allocated p then Inl ErrInvalid
      else Inr (p\<lparr>bp_Allocated := wrap64 (bp_Allocated p - amount), bp_Revision := bp_Revision p + 1\<rparr>))"

section \<open>Allocations\<close>

record allocation =
  al_ID :: string
  al_PoolID :: string
  al_OperationID :: string
  al_Currency :: string
  al_Amount :: int
  al_Reserved :: int
  al_Consumed :: int
  al_Revision :: u64
  al_CreatedAt :: instant

definition NewAllocation :: "string \<Rightarrow> budget_pool \<Rightarrow> string \<Rightarrow> money \<Rightarrow> instant \<Rightarrow> allocation" where
  "NewAllocation new_id pool operationID amount now =
     \<lparr>al_ID = new_id, al_PoolID = bp_ID pool, al_OperationID = operationID, al_Currency = m_Currency amount,
      al_Amount = m_Amount amount, al_Reserved = 0, al_Consumed = 0, al_Revision = 1, al_CreatedAt = now\<rparr>"

definition Alloc_Reserve :: "allocation \<Rightarrow> money \<Rightarrow> err + allocation" where
  "Alloc_Reserve a exposure =
     (if m_Currency exposure \<noteq> al_Currency a then Inl ErrInvalid
      else case addInt64 (al_Reserved a) (al_Consumed a) of
             None \<Rightarrow> Inl ErrInvalid
           | Some held \<Rightarrow>
               (case addInt64 held (m_Amount exposure) of
                  None \<Rightarrow> Inl ErrBudgetExhausted
                | Some n \<Rightarrow> if n > al_Amount a then Inl ErrBudgetExhausted
                            else Inr (a\<lparr>al_Reserved := wrap64 (al_Reserved a + m_Amount exposure),
                                        al_Revision := al_Revision a + 1\<rparr>)))"

definition Alloc_Restore :: "allocation \<Rightarrow> money \<Rightarrow> err + allocation" where
  "Alloc_Restore a exposure =
     (if m_Currency exposure \<noteq> al_Currency a \<or> m_Amount exposure < 0 then Inl ErrInvalid
      else case addInt64 (al_Reserved a) (m_Amount exposure) of
             None \<Rightarrow> Inl ErrInvalid
           | Some n \<Rightarrow> Inr (a\<lparr>al_Reserved := n, al_Revision := al_Revision a + 1\<rparr>))"

definition Alloc_Release :: "allocation \<Rightarrow> money \<Rightarrow> err + allocation" where
  "Alloc_Release a exposure =
     (if m_Currency exposure \<noteq> al_Currency a \<or> m_Amount exposure > al_Reserved a \<or> m_Amount exposure < 0
      then Inl ErrInvalid
      else Inr (a\<lparr>al_Reserved := wrap64 (al_Reserved a - m_Amount exposure), al_Revision := al_Revision a + 1\<rparr>))"

definition Alloc_Charge :: "allocation \<Rightarrow> money \<Rightarrow> money \<Rightarrow> bool \<Rightarrow> allocation \<times> err option" where
  "Alloc_Charge a delta reservation releaseReservation =
     (if m_Currency delta \<noteq> al_Currency a \<or> m_Amount delta < 0 then (a, Some ErrInvalid)
      else case addInt64 (al_Consumed a) (m_Amount delta) of
             None \<Rightarrow> (a, Some ErrInvalid)
           | Some n \<Rightarrow>
               let a1 = a\<lparr>al_Consumed := n\<rparr>
               in if releaseReservation
                  then (case Alloc_Release a1 reservation of
                          Inl e \<Rightarrow> (a1, Some e)
                        | Inr a2 \<Rightarrow> (a2\<lparr>al_Revision := al_Revision a2 + 1\<rparr>, None))
                  else (a1\<lparr>al_Revision := al_Revision a1 + 1\<rparr>, None))"

definition Exhausted :: "allocation \<Rightarrow> bool" where
  "Exhausted a = (case addInt64 (al_Reserved a) (al_Consumed a) of
     None \<Rightarrow> True | Some held \<Rightarrow> held \<ge> al_Amount a)"

definition ReturnUnspent :: "allocation \<Rightarrow> err + int" where
  "ReturnUnspent a =
     (if al_Reserved a \<noteq> 0 then Inl ErrInvalid
      else Inr (max 0 (wrap64 (al_Amount a - al_Consumed a))))"

section \<open>Usage observations and the cost ledger\<close>

record usage_observation =
  uo_ID :: string
  uo_DispatchID :: string
  uo_Source :: string
  uo_Sequence :: u64
  uo_NativeReference :: string
  uo_Usage :: "usage option"
  uo_CostRevision :: string
  uo_ObservedAt :: instant

datatype cost_entry_kind = CostEstimate | CostActual | CostCorrection | CostCredit

record cost_entry =
  ce_ID :: string
  ce_OperationID :: string
  ce_DispatchID :: string
  ce_ObservationID :: string
  ce_Kind :: cost_entry_kind
  ce_Amount :: money
  ce_CorrectionOf :: string
  ce_CreatedAt :: instant

section \<open>Cost caps\<close>

abbreviation DenyCapExceeded :: string where
  "DenyCapExceeded \<equiv> ''CAP_EXCEEDED''"

datatype cap_level = CapTenant | CapProject | CapOperation | CapLevelOther string

definition CapLevels :: "cap_level list" where
  "CapLevels = [CapTenant, CapProject, CapOperation]"

record cost_cap =
  cc_ID :: string
  cc_Level :: cap_level
  cc_TenantID :: string
  cc_ProjectID :: string
  cc_Currency :: string
  cc_Cap :: int
  cc_Reserved :: int
  cc_Consumed :: int
  cc_Revision :: u64
  cc_UpdatedBy :: string
  cc_UpdatedAt :: instant

definition Counted :: "cost_cap \<Rightarrow> bool" where
  "Counted c \<longleftrightarrow> cc_Level c \<noteq> CapOperation"

definition headroomFor :: "cost_cap \<Rightarrow> int \<Rightarrow> int \<Rightarrow> err option" where
  "headroomFor c spend exposure =
     (case addInt64 spend exposure of
        None \<Rightarrow> Some (Denial DenyCapExceeded)
      | Some n \<Rightarrow> if n > cc_Cap c then Some (Denial DenyCapExceeded) else None)"

definition Cap_Reserve :: "cost_cap \<Rightarrow> int \<Rightarrow> err + cost_cap" where
  "Cap_Reserve c amount =
     (case addInt64 (cc_Reserved c) amount of
        None \<Rightarrow> Inl ErrInvalid
      | Some n \<Rightarrow> if amount < 0 then Inl ErrInvalid
                  else Inr (c\<lparr>cc_Reserved := n, cc_Revision := cc_Revision c + 1\<rparr>))"

definition Cap_Release :: "cost_cap \<Rightarrow> int \<Rightarrow> cost_cap" where
  "Cap_Release c amount =
     c\<lparr>cc_Reserved := max 0 (wrap64 (cc_Reserved c - amount)), cc_Revision := cc_Revision c + 1\<rparr>"

definition Cap_Charge :: "cost_cap \<Rightarrow> int \<Rightarrow> err + cost_cap" where
  "Cap_Charge c delta =
     (case addInt64 (cc_Consumed c) delta of
        None \<Rightarrow> Inl ErrInvalid
      | Some n \<Rightarrow> if delta < 0 then Inl ErrInvalid
                  else Inr (c\<lparr>cc_Consumed := n, cc_Revision := cc_Revision c + 1\<rparr>))"

text \<open>The loop that chooses the cap of each level: another currency is skipped, and an
  operation cap of the operation's own project, once seen, is not replaced.\<close>

definition choose_cap :: "string \<Rightarrow> (cap_level \<rightharpoonup> cost_cap) \<Rightarrow> cost_cap \<Rightarrow> (cap_level \<rightharpoonup> cost_cap)" where
  "choose_cap currency byLevel c =
     (if cc_Currency c \<noteq> currency then byLevel
      else case byLevel (cc_Level c) of
             None \<Rightarrow> byLevel(cc_Level c \<mapsto> c)
           | Some prev \<Rightarrow> if cc_Level c = CapOperation \<and> cc_ProjectID prev \<noteq> [] then byLevel
                          else byLevel(cc_Level c \<mapsto> c))"

definition caps_by_level :: "string \<Rightarrow> cost_cap list \<Rightarrow> (cap_level \<rightharpoonup> cost_cap)" where
  "caps_by_level currency caps = foldl (choose_cap currency) Map.empty caps"

definition op_spend :: "allocation list \<Rightarrow> int" where
  "op_spend allocs =
     foldl (\<lambda>spend a. case addInt64 (al_Reserved a) (al_Consumed a) of
              None \<Rightarrow> spend
            | Some held \<Rightarrow> if held > spend then held else spend) 0 allocs"

definition check_cap_level ::
  "(cap_level \<rightharpoonup> cost_cap) \<Rightarrow> int \<Rightarrow> int \<Rightarrow> bool \<Rightarrow> cap_level \<Rightarrow> err option" where
  "check_cap_level byLevel opSpend exposure req level =
     (case byLevel level of
        None \<Rightarrow> if req then Some (Denial DenyCapExceeded) else None
      | Some c \<Rightarrow>
          if Counted c
          then (case addInt64 (cc_Reserved c) (cc_Consumed c) of
                  None \<Rightarrow> Some ErrInvalid
                | Some held \<Rightarrow> headroomFor c held exposure)
          else headroomFor c opSpend exposure)"

definition CheckCaps :: "cost_cap list \<Rightarrow> allocation list \<Rightarrow> string \<Rightarrow> int \<Rightarrow> bool \<Rightarrow> err option" where
  "CheckCaps caps allocations currency exposure req =
     check_all (check_cap_level (caps_by_level currency caps) (op_spend allocations) exposure req) CapLevels"

section \<open>Grant policies and authority decisions\<close>

record grant_policy =
  gp_GrantID :: string
  gp_GrantRevision :: u64
  gp_TenantID :: string
  gp_PolicyDigest :: digest
  gp_ServerID :: string
  gp_Methods :: "string list"
  gp_CostCap :: "money option"
  gp_ExpiresAt :: "instant option"
  gp_PolicyEpoch :: u64
  gp_ReceiptID :: string
  gp_RevocationState :: string
  gp_Registered :: bool
  gp_RegisterCommandID :: string
  gp_RegisterRequestDigest :: digest
  gp_RevocationCommandID :: string
  gp_RevocationRequestDigest :: digest
  gp_InFlightCalls :: u64
  gp_UnknownCalls :: u64
  gp_FencedAt :: "instant option"
  gp_ConvergedAt :: "instant option"

definition Permits :: "grant_policy \<Rightarrow> string \<Rightarrow> string \<Rightarrow> string \<Rightarrow> money \<Rightarrow> instant \<Rightarrow> err option" where
  "Permits g tenantID serverID method exposure now =
     (if gp_TenantID g \<noteq> tenantID then Some ErrForbidden
      else if \<not> gp_Registered g then Some ErrForbidden
      else if gp_RevocationState g \<noteq> ''none'' then Some ErrForbidden
      else if gp_ServerID g \<noteq> serverID then Some ErrForbidden
      else if (case gp_ExpiresAt g of None \<Rightarrow> False | Some x \<Rightarrow> \<not> now < x) then Some ErrForbidden
      else if \<not> foldl (\<lambda>granted m. if m = method then True else granted) False (gp_Methods g) then Some ErrForbidden
      else if (case gp_CostCap g of None \<Rightarrow> False
               | Some cap \<Rightarrow> m_Currency cap \<noteq> m_Currency exposure \<or> m_Amount exposure > m_Amount cap)
           then Some ErrForbidden
      else None)"

record decision =
  dc_Allow :: bool
  dc_Revision :: string
  dc_ReasonCode :: string
  dc_FreshUntil :: instant

definition Decision_Current :: "decision \<Rightarrow> instant \<Rightarrow> bool" where
  "Decision_Current d now \<longleftrightarrow> dc_Allow d \<and> now < dc_FreshUntil d"

section \<open>Well-formedness and exact effects\<close>

definition wf_alloc :: "allocation \<Rightarrow> bool" where
  "wf_alloc a \<longleftrightarrow> int64 (al_Amount a) \<and> int64 (al_Reserved a) \<and> int64 (al_Consumed a) \<and>
     0 \<le> al_Reserved a \<and> 0 \<le> al_Consumed a"

definition wf_cap :: "cost_cap \<Rightarrow> bool" where
  "wf_cap c \<longleftrightarrow> int64 (cc_Cap c) \<and> int64 (cc_Reserved c) \<and> int64 (cc_Consumed c) \<and>
     0 \<le> cc_Reserved c \<and> 0 \<le> cc_Consumed c"

definition wf_pool :: "budget_pool \<Rightarrow> bool" where
  "wf_pool p \<longleftrightarrow> int64 (bp_Cap p) \<and> int64 (bp_Allocated p) \<and> 0 \<le> bp_Allocated p"

named_theorems budget_wf "well-formedness of the records of the budget"

declare wf_alloc_def [budget_wf] wf_cap_def [budget_wf] wf_pool_def [budget_wf] wf_money_def [budget_wf]

lemma int64_diff: "int64 a \<Longrightarrow> 0 \<le> m \<Longrightarrow> m \<le> a \<Longrightarrow> int64 (a - m)"
  by (simp add: int64_defs)

lemma int64_diff_nonneg: "int64 a \<Longrightarrow> int64 b \<Longrightarrow> 0 \<le> a \<Longrightarrow> 0 \<le> b \<Longrightarrow> int64 (a - b)"
  by (simp add: int64_defs)

lemma Alloc_Reserve_iff:
  assumes "wf_alloc a" and "wf_money x" and "0 \<le> m_Amount x"
  shows "Alloc_Reserve a x = Inr a' \<longleftrightarrow>
      m_Currency x = al_Currency a \<and> al_Reserved a + al_Consumed a + m_Amount x \<le> al_Amount a \<and>
      a' = a\<lparr>al_Reserved := al_Reserved a + m_Amount x, al_Revision := al_Revision a + 1\<rparr>"
proof -
  have "al_Reserved a + al_Consumed a + m_Amount x \<le> al_Amount a \<Longrightarrow>
      int64 (al_Reserved a + al_Consumed a) \<and> int64 (al_Reserved a + al_Consumed a + m_Amount x) \<and>
      int64 (al_Reserved a + m_Amount x)"
    using assms by (simp add: budget_wf int64_defs)
  then show ?thesis
    using assms by (auto simp: Alloc_Reserve_def addInt64_exact budget_wf split: if_splits)
qed

lemma Alloc_Restore_iff:
  assumes "wf_alloc a" and "wf_money x"
  shows "Alloc_Restore a x = Inr a' \<longleftrightarrow>
      m_Currency x = al_Currency a \<and> 0 \<le> m_Amount x \<and> int64 (al_Reserved a + m_Amount x) \<and>
      a' = a\<lparr>al_Reserved := al_Reserved a + m_Amount x, al_Revision := al_Revision a + 1\<rparr>"
  using assms by (auto simp: Alloc_Restore_def addInt64_exact budget_wf split: if_splits)

lemma Alloc_Release_iff:
  assumes "wf_alloc a"
  shows "Alloc_Release a x = Inr a' \<longleftrightarrow>
      m_Currency x = al_Currency a \<and> 0 \<le> m_Amount x \<and> m_Amount x \<le> al_Reserved a \<and>
      a' = a\<lparr>al_Reserved := al_Reserved a - m_Amount x, al_Revision := al_Revision a + 1\<rparr>"
  using assms by (auto simp: Alloc_Release_def budget_wf int64_diff split: if_splits)

lemma Alloc_Charge_iff:
  assumes "wf_alloc a" and "wf_money x"
  shows "Alloc_Charge a x r False = (a', None) \<longleftrightarrow>
      m_Currency x = al_Currency a \<and> 0 \<le> m_Amount x \<and> int64 (al_Consumed a + m_Amount x) \<and>
      a' = a\<lparr>al_Consumed := al_Consumed a + m_Amount x, al_Revision := al_Revision a + 1\<rparr>"
  using assms by (auto simp: Alloc_Charge_def addInt64_exact budget_wf split: if_splits)

lemma Alloc_Reserve_wf:
  assumes "wf_alloc a" "wf_money x" "0 \<le> m_Amount x" "Alloc_Reserve a x = Inr a'"
  shows "wf_alloc a'"
proof -
  from assms have "al_Reserved a + al_Consumed a + m_Amount x \<le> al_Amount a"
    and a': "a' = a\<lparr>al_Reserved := al_Reserved a + m_Amount x, al_Revision := al_Revision a + 1\<rparr>"
    by (simp_all add: Alloc_Reserve_iff)
  with assms(1-3) show ?thesis by (simp add: budget_wf int64_defs)
qed

lemma Cap_Reserve_iff:
  assumes "wf_cap c" and "int64 m"
  shows "Cap_Reserve c m = Inr c' \<longleftrightarrow>
      0 \<le> m \<and> int64 (cc_Reserved c + m) \<and> c' = c\<lparr>cc_Reserved := cc_Reserved c + m, cc_Revision := cc_Revision c + 1\<rparr>"
  using assms by (auto simp: Cap_Reserve_def addInt64_exact budget_wf split: if_splits)

lemma Cap_Release_exact:
  assumes "wf_cap c" and "0 \<le> m" and "m \<le> cc_Reserved c"
  shows "Cap_Release c m = c\<lparr>cc_Reserved := cc_Reserved c - m, cc_Revision := cc_Revision c + 1\<rparr>"
  using assms by (simp add: Cap_Release_def budget_wf int64_diff)

lemma Cap_Charge_iff:
  assumes "wf_cap c" and "int64 m"
  shows "Cap_Charge c m = Inr c' \<longleftrightarrow>
      0 \<le> m \<and> int64 (cc_Consumed c + m) \<and> c' = c\<lparr>cc_Consumed := cc_Consumed c + m, cc_Revision := cc_Revision c + 1\<rparr>"
  using assms by (auto simp: Cap_Charge_def addInt64_exact budget_wf split: if_splits)

section \<open>Ledgers and their mirrors\<close>

text \<open>
  The contract that an allocation and a cost cap share: four operations on a pair of
  counters, each of which changes them by exactly its amount or fails.
\<close>

datatype ledger_op = LReserve int | LRestore int | LRelease int | LCharge int

fun op_amount :: "ledger_op \<Rightarrow> int" where
  "op_amount (LReserve m) = m"
| "op_amount (LRestore m) = m"
| "op_amount (LRelease m) = m"
| "op_amount (LCharge m) = m"

fun d_reserved :: "ledger_op \<Rightarrow> int" where
  "d_reserved (LReserve m) = m"
| "d_reserved (LRestore m) = m"
| "d_reserved (LRelease m) = - m"
| "d_reserved (LCharge m) = 0"

fun d_consumed :: "ledger_op \<Rightarrow> int" where
  "d_consumed (LCharge m) = m"
| "d_consumed _ = 0"

definition op_ok :: "ledger_op \<Rightarrow> bool" where
  "op_ok x \<longleftrightarrow> int64 (op_amount x) \<and> 0 \<le> op_amount x"

locale ledger =
  fixes step :: "'l \<Rightarrow> ledger_op \<Rightarrow> 'l option"
    and reserved :: "'l \<Rightarrow> int"
    and consumed :: "'l \<Rightarrow> int"
    and wf :: "'l \<Rightarrow> bool"
  assumes wf_counters: "wf l \<Longrightarrow> 0 \<le> reserved l \<and> 0 \<le> consumed l"
    and step_exact: "wf l \<Longrightarrow> op_ok x \<Longrightarrow> 0 \<le> reserved l + d_reserved x \<Longrightarrow> step l x = Some l' \<Longrightarrow>
      wf l' \<and> reserved l' = reserved l + d_reserved x \<and> consumed l' = consumed l + d_consumed x"
begin

primrec run :: "'l \<Rightarrow> ledger_op list \<Rightarrow> 'l option" where
  "run l [] = Some l"
| "run l (x # xs) =
     (if op_ok x \<and> 0 \<le> reserved l + d_reserved x
      then (case step l x of None \<Rightarrow> None | Some l' \<Rightarrow> run l' xs) else None)"

lemma run_exact:
  "wf l \<Longrightarrow> run l xs = Some l' \<Longrightarrow>
     wf l' \<and> reserved l' = reserved l + sum_list (map d_reserved xs) \<and>
     consumed l' = consumed l + sum_list (map d_consumed xs)"
proof (induction xs arbitrary: l)
  case Nil
  then show ?case by simp
next
  case (Cons x xs)
  from Cons.prems(2) obtain l1 where
    x: "op_ok x" "0 \<le> reserved l + d_reserved x" "step l x = Some l1" and r: "run l1 xs = Some l'"
    by (auto split: if_splits option.splits)
  from step_exact [OF Cons.prems(1) x] have
    l1: "wf l1" "reserved l1 = reserved l + d_reserved x" "consumed l1 = consumed l + d_consumed x"
    by auto
  from Cons.IH [OF l1(1) r] l1 show ?case by simp
qed

lemma run_consumed_mono:
  assumes "wf l" and "run l xs = Some l'"
  shows "consumed l \<le> consumed l'"
proof -
  have "0 \<le> sum_list (map d_consumed xs)"
    using assms(2)
  proof (induction xs arbitrary: l)
    case Nil
    then show ?case by simp
  next
    case (Cons x xs)
    then have "op_ok x" by (auto split: if_splits)
    then have "0 \<le> d_consumed x" by (cases x) (auto simp: op_ok_def)
    moreover from Cons.prems obtain l1 where "run l1 xs = Some l'"
      by (auto split: if_splits option.splits)
    then have "0 \<le> sum_list (map d_consumed xs)" by (rule Cons.IH)
    ultimately show ?case by simp
  qed
  with run_exact [OF assms] show ?thesis by simp
qed

end

text \<open>Two ledgers that follow the same operations: the mirror moves with the original.\<close>

locale mirrored_ledger = orig: ledger step1 reserved1 consumed1 wf1 + mirror: ledger step2 reserved2 consumed2 wf2
  for step1 :: "'a \<Rightarrow> ledger_op \<Rightarrow> 'a option" and reserved1 consumed1 wf1
    and step2 :: "'b \<Rightarrow> ledger_op \<Rightarrow> 'b option" and reserved2 consumed2 wf2
begin

lemma lockstep:
  assumes "wf1 a" and "wf2 b" and "orig.run a xs = Some a'" and "mirror.run b xs = Some b'"
  shows "reserved2 b' - reserved2 b = reserved1 a' - reserved1 a \<and>
    consumed2 b' - consumed2 b = consumed1 a' - consumed1 a"
  using orig.run_exact [OF assms(1,3)] mirror.run_exact [OF assms(2,4)] by simp

end

fun alloc_step :: "allocation \<Rightarrow> ledger_op \<Rightarrow> allocation option" where
  "alloc_step a (LReserve m) =
     (case Alloc_Reserve a \<lparr>m_Currency = al_Currency a, m_Amount = m\<rparr> of Inl _ \<Rightarrow> None | Inr a' \<Rightarrow> Some a')"
| "alloc_step a (LRestore m) =
     (case Alloc_Restore a \<lparr>m_Currency = al_Currency a, m_Amount = m\<rparr> of Inl _ \<Rightarrow> None | Inr a' \<Rightarrow> Some a')"
| "alloc_step a (LRelease m) =
     (case Alloc_Release a \<lparr>m_Currency = al_Currency a, m_Amount = m\<rparr> of Inl _ \<Rightarrow> None | Inr a' \<Rightarrow> Some a')"
| "alloc_step a (LCharge m) =
     (case Alloc_Charge a \<lparr>m_Currency = al_Currency a, m_Amount = m\<rparr> \<lparr>m_Currency = al_Currency a, m_Amount = 0\<rparr> False
      of (a', None) \<Rightarrow> Some a' | (_, Some _) \<Rightarrow> None)"

text \<open>\<open>restore\<close> is mirrored through \<open>Reserve\<close>, as the budget of the application layer does.\<close>

fun cap_step :: "cost_cap \<Rightarrow> ledger_op \<Rightarrow> cost_cap option" where
  "cap_step c (LReserve m) = (case Cap_Reserve c m of Inl _ \<Rightarrow> None | Inr c' \<Rightarrow> Some c')"
| "cap_step c (LRestore m) = (case Cap_Reserve c m of Inl _ \<Rightarrow> None | Inr c' \<Rightarrow> Some c')"
| "cap_step c (LRelease m) = Some (Cap_Release c m)"
| "cap_step c (LCharge m) = (case Cap_Charge c m of Inl _ \<Rightarrow> None | Inr c' \<Rightarrow> Some c')"

fun_cases alloc_stepE: "alloc_step a x = Some a'"
fun_cases cap_stepE: "cap_step c x = Some c'"

lemma alloc_step_exact:
  assumes "wf_alloc a" and "op_ok x" and "0 \<le> al_Reserved a + d_reserved x" and "alloc_step a x = Some a'"
  shows "wf_alloc a' \<and> al_Reserved a' = al_Reserved a + d_reserved x \<and> al_Consumed a' = al_Consumed a + d_consumed x"
proof (cases x)
  case (LReserve m)
  let ?x = "\<lparr>m_Currency = al_Currency a, m_Amount = m\<rparr>"
  have "wf_money ?x" "0 \<le> m_Amount ?x" using assms(2) LReserve by (auto simp: op_ok_def wf_money_def)
  moreover from assms(4) LReserve have "Alloc_Reserve a ?x = Inr a'" by (auto split: sum.splits)
  ultimately show ?thesis
    using assms(1) LReserve Alloc_Reserve_wf [of a ?x a'] Alloc_Reserve_iff [of a ?x a'] by simp
next
  case (LRestore m)
  let ?x = "\<lparr>m_Currency = al_Currency a, m_Amount = m\<rparr>"
  have "wf_money ?x" using assms(2) LRestore by (auto simp: op_ok_def wf_money_def)
  moreover from assms(4) LRestore have "Alloc_Restore a ?x = Inr a'" by (auto split: sum.splits)
  ultimately show ?thesis
    using assms(1) LRestore Alloc_Restore_iff [of a ?x a'] by (simp add: wf_alloc_def)
next
  case (LRelease m)
  then have "Alloc_Release a \<lparr>m_Currency = al_Currency a, m_Amount = m\<rparr> = Inr a'"
    using assms(4) by (auto split: sum.splits)
  with assms(1) LRelease show ?thesis by (simp add: Alloc_Release_iff wf_alloc_def int64_diff)
next
  case (LCharge m)
  let ?x = "\<lparr>m_Currency = al_Currency a, m_Amount = m\<rparr>"
  let ?z = "\<lparr>m_Currency = al_Currency a, m_Amount = 0\<rparr>"
  have "wf_money ?x" using assms(2) LCharge by (auto simp: op_ok_def wf_money_def)
  moreover from assms(4) LCharge have "Alloc_Charge a ?x ?z False = (a', None)"
    by (auto split: prod.splits option.splits)
  ultimately show ?thesis
    using assms(1) LCharge Alloc_Charge_iff [of a ?x ?z a'] by (simp add: wf_alloc_def)
qed

lemma cap_step_exact:
  assumes "wf_cap c" and "op_ok x" and "0 \<le> cc_Reserved c + d_reserved x" and "cap_step c x = Some c'"
  shows "wf_cap c' \<and> cc_Reserved c' = cc_Reserved c + d_reserved x \<and> cc_Consumed c' = cc_Consumed c + d_consumed x"
  using assms
  by (cases x) (auto simp: op_ok_def Cap_Reserve_iff Cap_Charge_iff Cap_Release_exact wf_cap_def int64_diff split: sum.splits)

interpretation alloc_ledger: ledger alloc_step al_Reserved al_Consumed wf_alloc
proof unfold_locales
  fix l :: allocation
  assume "wf_alloc l"
  then show "0 \<le> al_Reserved l \<and> 0 \<le> al_Consumed l" by (simp add: wf_alloc_def)
qed (rule alloc_step_exact)

interpretation cap_ledger: ledger cap_step cc_Reserved cc_Consumed wf_cap
proof unfold_locales
  fix l :: cost_cap
  assume "wf_cap l"
  then show "0 \<le> cc_Reserved l \<and> 0 \<le> cc_Consumed l" by (simp add: wf_cap_def)
qed (rule cap_step_exact)

interpretation cap_mirror: mirrored_ledger alloc_step al_Reserved al_Consumed wf_alloc
  cap_step cc_Reserved cc_Consumed wf_cap
  by unfold_locales

section \<open>Properties of budgets\<close>

text \<open>Reserving exposure against an allocation succeeds exactly when the currency is the
  allocation's and what is reserved, what is consumed and the new exposure fit its amount
  together; it then adds exactly the exposure. Releasing the same exposure afterwards gives
  the allocation back, but for its revision.\<close>

theorem Alloc_Reserve_Release:
  assumes "wf_alloc a" and "wf_money x" and "0 \<le> m_Amount x"
  shows "case Alloc_Reserve a x of
      Inr a' \<Rightarrow> m_Currency x = al_Currency a \<and> al_Reserved a + al_Consumed a + m_Amount x \<le> al_Amount a \<and>
        wf_alloc a' \<and> al_Reserved a' = al_Reserved a + m_Amount x \<and> al_Consumed a' = al_Consumed a \<and>
        Alloc_Release a' x = Inr (a\<lparr>al_Revision := al_Revision a + 2\<rparr>)
    | Inl _ \<Rightarrow> \<not> (m_Currency x = al_Currency a \<and> al_Reserved a + al_Consumed a + m_Amount x \<le> al_Amount a)"
proof (cases "Alloc_Reserve a x")
  case (Inl e)
  then show ?thesis
    using Alloc_Reserve_iff [OF assms, of "a\<lparr>al_Reserved := al_Reserved a + m_Amount x, al_Revision := al_Revision a + 1\<rparr>"]
    by auto
next
  case (Inr a')
  then have r: "m_Currency x = al_Currency a" "al_Reserved a + al_Consumed a + m_Amount x \<le> al_Amount a"
    "a' = a\<lparr>al_Reserved := al_Reserved a + m_Amount x, al_Revision := al_Revision a + 1\<rparr>"
    using Alloc_Reserve_iff [OF assms] by auto
  from Alloc_Reserve_wf [OF assms Inr] have "wf_alloc a'" .
  with r assms have "Alloc_Release a' x = Inr (a\<lparr>al_Revision := al_Revision a + 2\<rparr>)"
    by (auto simp: Alloc_Release_iff wf_alloc_def)
  with r Inr \<open>wf_alloc a'\<close> show ?thesis by simp
qed

definition sample_alloc :: allocation where
  "sample_alloc = \<lparr>al_ID = ''alloc_1'', al_PoolID = ''pool_1'', al_OperationID = ''op_1'', al_Currency = ''USD'',
     al_Amount = 1000, al_Reserved = 300, al_Consumed = 200, al_Revision = 7, al_CreatedAt = 0\<rparr>"

lemma sample_alloc_wf: "wf_alloc sample_alloc"
  by (simp add: sample_alloc_def wf_alloc_def int64_defs)

theorem Alloc_Reserve_Release_witness:
  "Alloc_Reserve sample_alloc \<lparr>m_Currency = ''USD'', m_Amount = 500\<rparr> =
     Inr (sample_alloc\<lparr>al_Reserved := 800, al_Revision := 8\<rparr>) \<and>
   Alloc_Release (sample_alloc\<lparr>al_Reserved := 800, al_Revision := 8\<rparr>) \<lparr>m_Currency = ''USD'', m_Amount = 500\<rparr> =
     Inr (sample_alloc\<lparr>al_Revision := 9\<rparr>)"
proof -
  let ?x = "\<lparr>m_Currency = ''USD'', m_Amount = 500\<rparr>"
  have r: "Alloc_Reserve sample_alloc ?x = Inr (sample_alloc\<lparr>al_Reserved := 800, al_Revision := 8\<rparr>)"
    by (simp add: sample_alloc_def Alloc_Reserve_def addInt64_def wrap64_def)
  have "wf_money ?x" "0 \<le> m_Amount ?x" by (simp_all add: wf_money_def int64_defs)
  from Alloc_Reserve_Release [OF sample_alloc_wf this] r show ?thesis by (simp add: sample_alloc_def)
qed

text \<open>The running counters of a tenant or project cost cap count exactly what the
  allocations they shadow hold: along any run of reservations, restored reservations,
  releases and charges that both accept, the reserved and the consumed counter of the cap
  change by exactly as much as those of the allocation.\<close>

theorem cost_cap_mirrors_allocation:
  assumes "wf_alloc a" and "wf_cap c"
    and "alloc_ledger.run a xs = Some a'" and "cap_ledger.run c xs = Some c'"
  shows "cc_Reserved c' - cc_Reserved c = al_Reserved a' - al_Reserved a \<and>
    cc_Consumed c' - cc_Consumed c = al_Consumed a' - al_Consumed a"
  using assms by (rule cap_mirror.lockstep)

definition sample_cap :: cost_cap where
  "sample_cap = \<lparr>cc_ID = ''cap_1'', cc_Level = CapTenant, cc_TenantID = ''t'', cc_ProjectID = [], cc_Currency = ''USD'',
     cc_Cap = 5000, cc_Reserved = 1300, cc_Consumed = 900, cc_Revision = 3, cc_UpdatedBy = ''o'', cc_UpdatedAt = 0\<rparr>"

lemma sample_cap_wf: "wf_cap sample_cap"
  by (simp add: sample_cap_def wf_cap_def int64_defs)

theorem cost_cap_mirrors_allocation_witness:
  "alloc_ledger.run sample_alloc [LReserve 500, LCharge 450, LRelease 500] =
     Some (sample_alloc\<lparr>al_Consumed := 650, al_Revision := 10\<rparr>) \<and>
   cap_ledger.run sample_cap [LReserve 500, LCharge 450, LRelease 500] =
     Some (sample_cap\<lparr>cc_Consumed := 1350, cc_Revision := 6\<rparr>) \<and>
   cc_Consumed (sample_cap\<lparr>cc_Consumed := 1350, cc_Revision := 6\<rparr>) - cc_Consumed sample_cap =
     al_Consumed (sample_alloc\<lparr>al_Consumed := 650, al_Revision := 10\<rparr>) - al_Consumed sample_alloc"
proof -
  let ?ops = "[LReserve 500, LCharge 450, LRelease 500]"
  have a: "alloc_ledger.run sample_alloc ?ops = Some (sample_alloc\<lparr>al_Consumed := 650, al_Revision := 10\<rparr>)"
    by (simp add: sample_alloc_def Alloc_Reserve_def Alloc_Charge_def Alloc_Release_def addInt64_def op_ok_def int64_defs)
  have c: "cap_ledger.run sample_cap ?ops = Some (sample_cap\<lparr>cc_Consumed := 1350, cc_Revision := 6\<rparr>)"
    by (simp add: sample_cap_def Cap_Reserve_def Cap_Charge_def Cap_Release_def addInt64_def op_ok_def int64_defs)
  from a c cost_cap_mirrors_allocation [OF sample_alloc_wf sample_cap_wf a c] show ?thesis by simp
qed

subsection \<open>Pools\<close>

lemma Pool_Allocate_iff:
  assumes "wf_pool p" and "wf_money x"
  shows "Pool_Allocate p x now = Inr p' \<longleftrightarrow>
      m_Currency x = bp_Currency p \<and> 0 < m_Amount x \<and> Pool_Covers p now \<and> bp_Allocated p + m_Amount x \<le> bp_Cap p \<and>
      p' = p\<lparr>bp_Allocated := bp_Allocated p + m_Amount x, bp_Revision := bp_Revision p + 1\<rparr>"
proof -
  have "0 < m_Amount x \<Longrightarrow> bp_Allocated p + m_Amount x \<le> bp_Cap p \<Longrightarrow> int64 (bp_Allocated p + m_Amount x)"
    using assms by (simp add: budget_wf int64_defs)
  then show ?thesis
    using assms by (auto simp: Pool_Allocate_def addInt64_exact budget_wf split: if_splits)
qed

lemma Pool_Return_iff:
  assumes "wf_pool p"
  shows "Pool_Return p m = Inr p' \<longleftrightarrow>
      0 \<le> m \<and> m \<le> bp_Allocated p \<and>
      p' = p\<lparr>bp_Allocated := bp_Allocated p - m, bp_Revision := bp_Revision p + 1\<rparr>"
  using assms by (auto simp: Pool_Return_def budget_wf int64_diff split: if_splits)

lemma ReturnUnspent_eq:
  assumes "wf_alloc a" and "0 \<le> al_Amount a"
  shows "ReturnUnspent a = (if al_Reserved a \<noteq> 0 then Inl ErrInvalid else Inr (max 0 (al_Amount a - al_Consumed a)))"
  using assms by (simp add: ReturnUnspent_def wf_alloc_def int64_diff_nonneg)

text \<open>Money that leaves a pool comes back at most once and never as more: allocating an
  amount to an operation keeps the pool's total within its cap, and the unspent part that
  the settled allocation later gives back (which is never negative, nor more than the amount)
  is accepted by the pool and takes its total down by exactly that part.\<close>

theorem pool_allocate_then_return:
  assumes "wf_pool p" and "wf_money x" and "Pool_Allocate p x now = Inr p'"
    and "a = (NewAllocation i p op x now)\<lparr>al_Consumed := k\<rparr>" and "int64 k" and "0 \<le> k"
  shows "bp_Allocated p' \<le> bp_Cap p' \<and> wf_pool p' \<and>
    (\<exists>r p''. ReturnUnspent a = Inr r \<and> 0 \<le> r \<and> r \<le> m_Amount x \<and> Pool_Return p' r = Inr p'' \<and>
      bp_Allocated p'' = bp_Allocated p + (m_Amount x - r) \<and> wf_pool p'')"
proof -
  from assms(3) have x: "0 < m_Amount x" "bp_Allocated p + m_Amount x \<le> bp_Cap p"
    and p': "p' = p\<lparr>bp_Allocated := bp_Allocated p + m_Amount x, bp_Revision := bp_Revision p + 1\<rparr>"
    by (simp_all add: Pool_Allocate_iff [OF assms(1,2)])
  have wfp: "wf_pool p'" using assms(1,2) x p' by (simp add: budget_wf int64_defs)
  have wfa: "wf_alloc a" and res: "al_Reserved a = 0" and am: "al_Amount a = m_Amount x" "al_Consumed a = k"
    using assms(2,4,5,6) by (auto simp: wf_alloc_def NewAllocation_def wf_money_def)
  let ?r = "max 0 (m_Amount x - k)"
  have r: "ReturnUnspent a = Inr ?r"
    using ReturnUnspent_eq [OF wfa] am res x by simp
  have le: "0 \<le> ?r" "?r \<le> m_Amount x" using assms(6) x(1) by linarith+
  have "?r \<le> bp_Allocated p'" using le(2) assms(1) p' by (simp add: wf_pool_def)
  then have ret: "Pool_Return p' ?r = Inr (p'\<lparr>bp_Allocated := bp_Allocated p' - ?r, bp_Revision := bp_Revision p' + 1\<rparr>)"
    using le by (simp add: Pool_Return_iff [OF wfp])
  have "wf_pool (p'\<lparr>bp_Allocated := bp_Allocated p' - ?r, bp_Revision := bp_Revision p' + 1\<rparr>)"
    using wfp le \<open>?r \<le> bp_Allocated p'\<close> by (simp add: wf_pool_def int64_diff)
  with r le ret wfp x p' show ?thesis by auto
qed

definition sample_pool :: budget_pool where
  "sample_pool = \<lparr>bp_ID = ''pool_1'', bp_Level = LevelTenant, bp_TenantID = ''t'', bp_ActorID = [], bp_PeriodStart = 0,
     bp_PeriodEnd = 100, bp_Currency = ''USD'', bp_Cap = 1000, bp_Allocated = 400, bp_Revision = 1\<rparr>"

theorem pool_allocate_then_return_witness:
  "bp_Allocated (sample_pool\<lparr>bp_Allocated := 900, bp_Revision := 2\<rparr>) \<le> bp_Cap sample_pool \<and>
   (\<exists>r p''. ReturnUnspent ((NewAllocation ''alloc_2'' sample_pool ''op_2'' \<lparr>m_Currency = ''USD'', m_Amount = 500\<rparr> 50)\<lparr>al_Consumed := 120\<rparr>) = Inr r \<and>
     Pool_Return (sample_pool\<lparr>bp_Allocated := 900, bp_Revision := 2\<rparr>) r = Inr p'' \<and> bp_Allocated p'' = 400 + (500 - r))"
proof -
  let ?x = "\<lparr>m_Currency = ''USD'', m_Amount = 500\<rparr>"
  have wf: "wf_pool sample_pool" "wf_money ?x" by (simp_all add: sample_pool_def budget_wf int64_defs)
  have a: "Pool_Allocate sample_pool ?x 50 = Inr (sample_pool\<lparr>bp_Allocated := 900, bp_Revision := 2\<rparr>)"
    by (simp add: Pool_Allocate_def sample_pool_def Pool_Covers_def addInt64_def wrap64_def)
  have "int64 120" by (simp add: int64_defs)
  from pool_allocate_then_return [OF wf a refl this, of "''alloc_2''" "''op_2''"] show ?thesis
    by (auto simp: sample_pool_def)
qed

subsection \<open>Cost caps\<close>

lemma caps_by_level_Some:
  "caps_by_level cur caps l = Some c \<Longrightarrow> c \<in> set caps \<and> cc_Currency c = cur \<and> cc_Level c = l"
proof (induction caps arbitrary: c rule: rev_induct)
  case Nil
  then show ?case by (simp add: caps_by_level_def)
next
  case (snoc x xs)
  then show ?case
    by (auto simp: caps_by_level_def choose_cap_def split: if_splits option.splits)
qed

lemma caps_by_level_None_iff:
  "caps_by_level cur caps l = None \<longleftrightarrow> (\<forall>c \<in> set caps. \<not> (cc_Currency c = cur \<and> cc_Level c = l))"
proof (induction caps rule: rev_induct)
  case Nil
  then show ?case by (simp add: caps_by_level_def)
next
  case (snoc x xs)
  then show ?case
    by (auto simp: caps_by_level_def choose_cap_def split: option.splits)
qed

lemma caps_by_level_project:
  "caps_by_level cur caps CapOperation = Some c \<Longrightarrow>
   c' \<in> set caps \<Longrightarrow> cc_Currency c' = cur \<Longrightarrow> cc_Level c' = CapOperation \<Longrightarrow> cc_ProjectID c' \<noteq> [] \<Longrightarrow>
   cc_ProjectID c \<noteq> []"
proof (induction caps arbitrary: c rule: rev_induct)
  case Nil
  then show ?case by simp
next
  case (snoc x xs)
  have step: "caps_by_level cur (xs @ [x]) = choose_cap cur (caps_by_level cur xs) x"
    by (simp add: caps_by_level_def)
  show ?case
  proof (cases "c' \<in> set xs")
    case True
    with snoc.prems obtain c0 where c0: "caps_by_level cur xs CapOperation = Some c0"
      using caps_by_level_None_iff [of cur xs CapOperation] by (cases "caps_by_level cur xs CapOperation") auto
    from snoc.IH [OF c0 True snoc.prems(3-5)] have "cc_ProjectID c0 \<noteq> []" .
    with snoc.prems(1) c0 step show ?thesis
      by (auto simp: choose_cap_def split: if_splits option.splits)
  next
    case False
    with snoc.prems have "c' = x" by simp
    with snoc.prems step show ?thesis
      by (auto simp: choose_cap_def split: if_splits option.splits)
  qed
qed

lemma op_spend_bounds:
  assumes "\<And>a. a \<in> set allocs \<Longrightarrow> wf_alloc a"
  shows "int64 (op_spend allocs) \<and> 0 \<le> op_spend allocs \<and>
    (\<forall>a \<in> set allocs. int64 (al_Reserved a + al_Consumed a) \<longrightarrow> al_Reserved a + al_Consumed a \<le> op_spend allocs)"
  using assms
proof (induction allocs rule: rev_induct)
  case Nil
  then show ?case by (simp add: op_spend_def)
next
  case (snoc a as)
  then have IH: "int64 (op_spend as) \<and> 0 \<le> op_spend as \<and>
    (\<forall>a \<in> set as. int64 (al_Reserved a + al_Consumed a) \<longrightarrow> al_Reserved a + al_Consumed a \<le> op_spend as)"
    and a: "wf_alloc a" by auto
  have "op_spend (as @ [a]) =
      (if int64 (al_Reserved a + al_Consumed a) \<and> al_Reserved a + al_Consumed a > op_spend as
       then al_Reserved a + al_Consumed a else op_spend as)"
    using a by (simp add: op_spend_def addInt64_exact wf_alloc_def)
  with IH a show ?case by (auto simp: wf_alloc_def)
qed

text \<open>The amount a cap is checked against: its own counters when it keeps any, otherwise the
  operation's spend.\<close>

definition cap_spend :: "cost_cap \<Rightarrow> allocation list \<Rightarrow> int" where
  "cap_spend c allocs = (if Counted c then cc_Reserved c + cc_Consumed c else op_spend allocs)"

lemma check_cap_level_None:
  assumes "byLevel l = Some c" and "wf_cap c" and "int64 exposure" and "0 \<le> exposure"
    and "\<And>a. a \<in> set allocs \<Longrightarrow> wf_alloc a"
    and "check_cap_level byLevel (op_spend allocs) exposure req l = None"
  shows "cap_spend c allocs + exposure \<le> cc_Cap c"
proof (cases "Counted c")
  case True
  with assms(1,6) obtain held where held: "addInt64 (cc_Reserved c) (cc_Consumed c) = Some held"
    and h: "headroomFor c held exposure = None"
    by (auto simp: check_cap_level_def split: option.splits)
  from held assms(2) have eq: "held = cc_Reserved c + cc_Consumed c" "int64 held"
    by (auto dest: addInt64_SomeD simp: wf_cap_def)
  with h assms(3) show ?thesis
    using True by (auto simp: headroomFor_def cap_spend_def addInt64_exact split: if_splits)
next
  case False
  with assms(1,6) have "headroomFor c (op_spend allocs) exposure = None"
    by (auto simp: check_cap_level_def)
  with assms(3) op_spend_bounds [of allocs, OF assms(5)] False show ?thesis
    by (auto simp: headroomFor_def cap_spend_def addInt64_exact split: if_splits)
qed

lemma CheckCaps_level:
  "CheckCaps caps allocs cur x req = None \<Longrightarrow> l \<in> set CapLevels \<Longrightarrow>
   check_cap_level (caps_by_level cur caps) (op_spend allocs) x req l = None"
  by (simp add: CheckCaps_def check_all_None_iff)

text \<open>An admission that passes the cost caps fits every cap it is checked against: for the
  cap that counts for the tenant, the project and the operation level, what is already
  reserved and consumed plus the new exposure is within the cap. Where caps are required,
  each of the three levels has one, and an operation cap of the operation's own project wins
  over the tenant-wide one.\<close>

theorem CheckCaps_sound:
  assumes "\<And>a. a \<in> set allocs \<Longrightarrow> wf_alloc a" and "\<And>c. c \<in> set caps \<Longrightarrow> wf_cap c"
    and "int64 exposure" and "0 \<le> exposure" and "CheckCaps caps allocs cur exposure req = None"
    and "l \<in> set CapLevels"
  shows "case caps_by_level cur caps l of
      Some c \<Rightarrow> c \<in> set caps \<and> cc_Currency c = cur \<and> cc_Level c = l \<and> cap_spend c allocs + exposure \<le> cc_Cap c \<and>
        (l = CapOperation \<and> cc_ProjectID c = [] \<longrightarrow>
          (\<forall>c' \<in> set caps. cc_Currency c' = cur \<and> cc_Level c' = CapOperation \<longrightarrow> cc_ProjectID c' = []))
    | None \<Rightarrow> \<not> req \<and> (\<forall>c \<in> set caps. \<not> (cc_Currency c = cur \<and> cc_Level c = l))"
proof (cases "caps_by_level cur caps l")
  case None
  with CheckCaps_level [OF assms(5,6)] have "\<not> req" by (auto simp: check_cap_level_def split: if_splits)
  with None caps_by_level_None_iff [of cur caps l] show ?thesis by simp
next
  case (Some c)
  then have c: "c \<in> set caps" "cc_Currency c = cur" "cc_Level c = l" using caps_by_level_Some by blast+
  have "cap_spend c allocs + exposure \<le> cc_Cap c"
    using check_cap_level_None [OF Some assms(2) [OF c(1)] assms(3,4,1) CheckCaps_level [OF assms(5,6)]] by blast
  moreover have "cc_ProjectID c' = []"
    if "l = CapOperation" "cc_ProjectID c = []" "c' \<in> set caps" "cc_Currency c' = cur" "cc_Level c' = CapOperation" for c'
    using caps_by_level_project [of cur caps c c'] Some that by blast
  ultimately show ?thesis using Some c by simp
qed

theorem CheckCaps_sound_witness:
  "CheckCaps [sample_cap] [sample_alloc] ''USD'' 1000 False = None \<and>
   cap_spend sample_cap [sample_alloc] + 1000 \<le> cc_Cap sample_cap"
proof -
  have l: "caps_by_level ''USD'' [sample_cap] CapTenant = Some sample_cap"
    by (simp add: caps_by_level_def choose_cap_def sample_cap_def)
  have ok: "CheckCaps [sample_cap] [sample_alloc] ''USD'' 1000 False = None"
    by (simp add: CheckCaps_def CapLevels_def check_cap_level_def caps_by_level_def choose_cap_def sample_cap_def
        Counted_def headroomFor_def addInt64_def wrap64_def)
  have "cap_spend sample_cap [sample_alloc] + 1000 \<le> cc_Cap sample_cap"
    using CheckCaps_sound [of "[sample_alloc]" "[sample_cap]" 1000 "''USD''" False CapTenant] l ok
      sample_alloc_wf sample_cap_wf
    by (simp add: int64_defs CapLevels_def)
  with ok show ?thesis by simp
qed

subsection \<open>Grants\<close>

lemma granted_fold: "foldl (\<lambda>granted m. if m = method then True else granted) b ms \<longleftrightarrow> b \<or> method \<in> set ms"
  by (induction ms arbitrary: b) auto

lemma Permits_None_iff:
  "Permits g tenantID serverID method exposure now = None \<longleftrightarrow>
     gp_TenantID g = tenantID \<and> gp_Registered g \<and> gp_RevocationState g = ''none'' \<and> gp_ServerID g = serverID \<and>
     (\<forall>x. gp_ExpiresAt g = Some x \<longrightarrow> now < x) \<and> method \<in> set (gp_Methods g) \<and>
     (\<forall>cap. gp_CostCap g = Some cap \<longrightarrow> m_Currency cap = m_Currency exposure \<and> m_Amount exposure \<le> m_Amount cap)"
  by (auto simp: Permits_def granted_fold split: option.splits)

end
