(* ===== verification/Dispatch.thy ===== *)
theory Dispatch
  imports Attempt Budget
begin

text \<open>
  \<open>internal/domain/dispatch.go\<close>: the admission of one physical send to a model or a tool, its
  durable record and the state machine of its single-use permission. A recorded refusal is
  the error \<open>Denial code\<close>; its reason text is not kept. Methods that change the dispatch
  only when they succeed return the updated dispatch or the error. \<open>NewDispatch\<close> and
  \<open>DeniedDispatch\<close> dereference the operation, the attempt and (the first) the price of their
  context; these are arguments of their own here.
\<close>

section \<open>The dispatch record\<close>

datatype dispatch_state =
  DispatchPrepared | DispatchAuthorized | DispatchObserved | DispatchUnknown | DispatchConfirmedNotSent | DispatchDenied

datatype dispatch_outcome =
  DispatchSucceeded | DispatchFailed | DispatchCanceled | DispatchOutcomeUnknown | dispatchOutcomeNotKnown

abbreviation DenyStaleExecution :: string where
  "DenyStaleExecution \<equiv> ''STALE_EXECUTION''"

abbreviation DenyProfileUnqualified :: string where
  "DenyProfileUnqualified \<equiv> ''PROFILE_UNQUALIFIED''"

abbreviation DenyForbidden :: string where
  "DenyForbidden \<equiv> ''FORBIDDEN''"

abbreviation DenyBudgetExhausted :: string where
  "DenyBudgetExhausted \<equiv> ''BUDGET_EXHAUSTED''"

abbreviation DenyInvalidArgument :: string where
  "DenyInvalidArgument \<equiv> ''INVALID_ARGUMENT''"

abbreviation DenyRecoveryRestricted :: string where
  "DenyRecoveryRestricted \<equiv> ''RECOVERY_RESTRICTED''"

record dispatch =
  d_ID :: string
  d_Kind :: dispatch_kind
  d_TenantID :: string
  d_OperationID :: string
  d_AttemptID :: string
  d_InstanceID :: string
  d_CallID :: string
  d_Owner :: string
  d_RequestDigest :: digest
  d_RouteID :: string
  d_GrantID :: string
  d_GrantRevision :: u64
  d_ExecutionEpoch :: u64
  d_State :: dispatch_state
  d_Outcome :: dispatch_outcome
  d_DenialCode :: string
  d_Reserved :: money
  d_MeterRevision :: string
  d_SupersedesCallID :: string
  d_EvidenceRef :: string
  d_Inventory :: inventory_state
  d_InventoryVersion :: string
  d_Deadline :: instant
  d_AdmittedAt :: instant
  d_ObservedAt :: "instant option"
  d_ArgumentDigest :: digest
  d_SideEffecting :: bool

definition Dispatch_Terminal :: "dispatch \<Rightarrow> bool" where
  "Dispatch_Terminal d \<longleftrightarrow> d_State d \<noteq> DispatchPrepared"

definition Dispatch_Settled :: "dispatch \<Rightarrow> bool" where
  "Dispatch_Settled d \<longleftrightarrow>
     d_State d = DispatchObserved \<or> d_State d = DispatchConfirmedNotSent \<or> d_State d = DispatchDenied"

section \<open>Admission\<close>

record admission_request =
  rq_Kind :: dispatch_kind
  rq_CallID :: string
  rq_Owner :: string
  rq_RequestDigest :: digest
  rq_OperationID :: string
  rq_AttemptID :: string
  rq_InstanceID :: string
  rq_ExecutionEpoch :: u64
  rq_RouteID :: string
  rq_Provider :: string
  rq_Model :: string
  rq_GrantID :: string
  rq_GrantRevision :: u64
  rq_ServerID :: string
  rq_Method :: string
  rq_MaxExposure :: money
  rq_Deadline :: instant
  rq_SupersedesCallID :: string
  rq_EvidenceRef :: string
  rq_ArgumentDigest :: digest
  rq_SideEffecting :: bool

record admission_context =
  ac_Now :: instant
  ac_Operation :: "operation option"
  ac_Attempt :: "attempt option"
  ac_Instance :: "inst option"
  ac_Price :: "price option"
  ac_Authority :: decision
  ac_Grant :: "grant_policy option"
  ac_Allocations :: "allocation list"
  ac_Overspent :: bool
  ac_Original :: "dispatch option"
  ac_AdmissionClosed :: bool
  ac_LeaseRequired :: bool
  ac_Caps :: "cost_cap list"
  ac_CapsRequired :: bool

text \<open>\<open>CheckAdmission\<close> in the order of its checks: the execution binding and its fences and
  deadlines; the price of the route; the authority or grant of the kind; the replacement
  rule; the budget and the cost caps.\<close>

definition check_execution :: "admission_request \<Rightarrow> admission_context \<Rightarrow> operation \<Rightarrow> attempt \<Rightarrow> err option" where
  "check_execution req c ops at =
     (if ac_AdmissionClosed c then Some (Denial DenyRecoveryRestricted)
      else if rq_ExecutionEpoch req \<noteq> op_ExecutionEpoch ops then Some (Denial DenyStaleExecution)
      else if FencedForNewDispatch ops then Some (Denial DenyStaleExecution)
      else if at_ExecutionEpoch at \<noteq> op_ExecutionEpoch ops then Some (Denial DenyStaleExecution)
      else if at_State at = AttemptClosed \<or> at_State at = AttemptResultAccepted then Some (Denial DenyStaleExecution)
      else if rq_InstanceID req \<noteq> [] \<and>
              (case ac_Instance c of None \<Rightarrow> True | Some i \<Rightarrow> inst_AttemptID i \<noteq> at_ID at \<or> \<not> inst_Current i)
        then Some (Denial DenyStaleExecution)
      else if \<not> ac_Now c < at_Deadline at then Some (Denial DenyStaleExecution)
      else if ac_LeaseRequired c \<and> \<not> Lease_Valid (op_Lease ops) (ac_Now c) then Some (Denial DenyStaleExecution)
      else if \<not> rq_Deadline req > ac_Now c then Some (Denial DenyStaleExecution)
      else if rq_Deadline req > at_Deadline at then Some (Denial DenyStaleExecution)
      else None)"

definition check_price :: "admission_request \<Rightarrow> admission_context \<Rightarrow> err option" where
  "check_price req c =
     (case ac_Price c of
        None \<Rightarrow> Some (Denial DenyProfileUnqualified)
      | Some p \<Rightarrow>
          if p_Kind p \<noteq> rq_Kind req \<or> \<not> EffectiveAt p (ac_Now c) then Some (Denial DenyProfileUnqualified)
          else if p_Currency p \<noteq> m_Currency (rq_MaxExposure req) then Some (Denial DenyProfileUnqualified)
          else if m_Amount (rq_MaxExposure req) > p_MaxExposure p then Some (Denial DenyProfileUnqualified)
          else None)"

definition check_kind :: "admission_request \<Rightarrow> admission_context \<Rightarrow> operation \<Rightarrow> price \<Rightarrow> err option" where
  "check_kind req c ops p =
     (case rq_Kind req of
        DispatchModel \<Rightarrow>
          if rq_Provider req = [] \<or> rq_Model req = [] then Some (Denial DenyInvalidArgument)
          else if p_Provider p \<noteq> rq_Provider req \<or> p_Model p \<noteq> rq_Model req then Some (Denial DenyProfileUnqualified)
          else if \<not> Decision_Current (ac_Authority c) (ac_Now c) then Some (Denial DenyForbidden)
          else None
      | DispatchTool \<Rightarrow>
          (case ac_Grant c of
             None \<Rightarrow> Some (Denial DenyForbidden)
           | Some g \<Rightarrow>
               (case Permits g (op_TenantID ops) (rq_ServerID req) (rq_Method req) (rq_MaxExposure req) (ac_Now c) of
                  Some e \<Rightarrow> Some (Denial DenyForbidden)
                | None \<Rightarrow> None))
      | DispatchKindOther s \<Rightarrow> Some ErrInvalid)"

definition check_supersedes :: "admission_request \<Rightarrow> admission_context \<Rightarrow> operation \<Rightarrow> err option" where
  "check_supersedes req c ops =
     (if rq_SupersedesCallID req \<noteq> []
      then (case ac_Original c of
              None \<Rightarrow> Some (Denial DenyStaleExecution)
            | Some orig \<Rightarrow>
                if d_Owner orig \<noteq> rq_Owner req \<or> d_TenantID orig \<noteq> op_TenantID ops then Some (Denial DenyStaleExecution)
                else if d_State orig \<noteq> DispatchConfirmedNotSent then Some (Denial DenyStaleExecution)
                else if rq_EvidenceRef req = [] \<or> d_EvidenceRef orig \<noteq> rq_EvidenceRef req
                  then Some (Denial DenyStaleExecution)
                else None)
      else None)"

definition probe_reserve :: "money \<Rightarrow> allocation \<Rightarrow> err option" where
  "probe_reserve exposure a =
     (case Alloc_Reserve a exposure of
        Inr _ \<Rightarrow> None
      | Inl e \<Rightarrow> if e = ErrBudgetExhausted then Some (Denial DenyBudgetExhausted) else Some e)"

definition check_budget :: "admission_request \<Rightarrow> admission_context \<Rightarrow> price \<Rightarrow> bool \<Rightarrow> err option" where
  "check_budget req c p budget =
     (if ac_Overspent c then Some (Denial DenyBudgetExhausted)
      else if length (ac_Allocations c) = 0 then Some (Denial DenyBudgetExhausted)
      else case (if budget then check_all (probe_reserve (rq_MaxExposure req)) (ac_Allocations c) else None) of
             Some e \<Rightarrow> Some e
           | None \<Rightarrow>
               if \<not> Price_Free p
               then CheckCaps (ac_Caps c) (ac_Allocations c) (m_Currency (rq_MaxExposure req))
                      (if budget then m_Amount (rq_MaxExposure req) else 0) (ac_CapsRequired c)
               else None)"

definition first_err :: "err option list \<Rightarrow> err option" where
  "first_err es = check_all (\<lambda>e. e) es"

definition CheckAdmission :: "admission_request \<Rightarrow> admission_context \<Rightarrow> bool \<Rightarrow> err option" where
  "CheckAdmission req c budget =
     (case (ac_Operation c, ac_Attempt c) of
        (Some ops, Some at) \<Rightarrow>
          if at_OperationID at \<noteq> op_ID ops then Some ErrNotFound
          else if m_Amount (rq_MaxExposure req) < 0 \<or>
                  (m_Amount (rq_MaxExposure req) = 0 \<and>
                   \<not> (rq_Kind req = DispatchTool \<and> (case ac_Price c of None \<Rightarrow> False | Some p \<Rightarrow> Price_Free p)))
            then Some (Denial DenyInvalidArgument)
          else (case check_execution req c ops at of
                  Some e \<Rightarrow> Some e
                | None \<Rightarrow>
                    (case check_price req c of
                       Some e \<Rightarrow> Some e
                     | None \<Rightarrow>
                         let p = the (ac_Price c)
                         in first_err [check_kind req c ops p, check_supersedes req c ops, check_budget req c p budget]))
      | _ \<Rightarrow> Some ErrNotFound)"

definition NewDispatch :: "string \<Rightarrow> admission_request \<Rightarrow> admission_context \<Rightarrow> operation \<Rightarrow> attempt \<Rightarrow> price \<Rightarrow> dispatch" where
  "NewDispatch new_id req c ops at p =
     \<lparr>d_ID = new_id, d_Kind = rq_Kind req, d_TenantID = op_TenantID ops, d_OperationID = op_ID ops,
      d_AttemptID = at_ID at, d_InstanceID = rq_InstanceID req, d_CallID = rq_CallID req, d_Owner = rq_Owner req,
      d_RequestDigest = rq_RequestDigest req, d_RouteID = rq_RouteID req, d_GrantID = rq_GrantID req,
      d_GrantRevision = rq_GrantRevision req, d_ExecutionEpoch = op_ExecutionEpoch ops, d_State = DispatchPrepared,
      d_Outcome = dispatchOutcomeNotKnown, d_DenialCode = [], d_Reserved = rq_MaxExposure req,
      d_MeterRevision = p_Revision p, d_SupersedesCallID = rq_SupersedesCallID req,
      d_EvidenceRef = rq_EvidenceRef req, d_Inventory = InventoryPending, d_InventoryVersion = [],
      d_Deadline = truncate_us (rq_Deadline req), d_AdmittedAt = ac_Now c, d_ObservedAt = None,
      d_ArgumentDigest = rq_ArgumentDigest req, d_SideEffecting = rq_SideEffecting req\<rparr>"

definition DeniedDispatch :: "string \<Rightarrow> admission_request \<Rightarrow> admission_context \<Rightarrow> operation \<Rightarrow> attempt \<Rightarrow> string \<Rightarrow> dispatch" where
  "DeniedDispatch new_id req c ops at code =
     \<lparr>d_ID = new_id, d_Kind = rq_Kind req, d_TenantID = op_TenantID ops, d_OperationID = op_ID ops,
      d_AttemptID = at_ID at, d_InstanceID = rq_InstanceID req, d_CallID = rq_CallID req, d_Owner = rq_Owner req,
      d_RequestDigest = rq_RequestDigest req, d_RouteID = rq_RouteID req, d_GrantID = rq_GrantID req,
      d_GrantRevision = rq_GrantRevision req, d_ExecutionEpoch = rq_ExecutionEpoch req, d_State = DispatchDenied,
      d_Outcome = dispatchOutcomeNotKnown, d_DenialCode = code,
      d_Reserved = \<lparr>m_Currency = m_Currency (rq_MaxExposure req), m_Amount = 0\<rparr>,
      d_MeterRevision = (case ac_Price c of None \<Rightarrow> [] | Some p \<Rightarrow> p_Revision p),
      d_SupersedesCallID = rq_SupersedesCallID req, d_EvidenceRef = rq_EvidenceRef req,
      d_Inventory = InventoryPending, d_InventoryVersion = [],
      d_Deadline = truncate_us (rq_Deadline req), d_AdmittedAt = ac_Now c, d_ObservedAt = None,
      d_ArgumentDigest = rq_ArgumentDigest req, d_SideEffecting = rq_SideEffecting req\<rparr>"

section \<open>Reentry\<close>

definition Dispatch_Binds :: "dispatch \<Rightarrow> string \<Rightarrow> admission_request \<Rightarrow> price option \<Rightarrow> err option" where
  "Dispatch_Binds d tenantID req frozen =
     (if d_TenantID d \<noteq> tenantID \<or> d_Owner d \<noteq> rq_Owner req \<or> d_CallID d \<noteq> rq_CallID req then Some ErrNotFound
      else if d_RequestDigest d \<noteq> rq_RequestDigest req then Some ErrIdempotencyConflict
      else if d_Kind d \<noteq> rq_Kind req then Some ErrIdempotencyConflict
      else if d_OperationID d \<noteq> rq_OperationID req then Some ErrIdempotencyConflict
      else if d_AttemptID d \<noteq> rq_AttemptID req then Some ErrIdempotencyConflict
      else if d_InstanceID d \<noteq> rq_InstanceID req then Some ErrIdempotencyConflict
      else if d_ExecutionEpoch d \<noteq> rq_ExecutionEpoch req then Some ErrIdempotencyConflict
      else if d_RouteID d \<noteq> rq_RouteID req then Some ErrIdempotencyConflict
      else if d_ArgumentDigest d \<noteq> rq_ArgumentDigest req then Some ErrIdempotencyConflict
      else if d_SideEffecting d \<noteq> rq_SideEffecting req then Some ErrIdempotencyConflict
      else if d_GrantID d \<noteq> rq_GrantID req \<or> d_GrantRevision d \<noteq> rq_GrantRevision req then Some ErrIdempotencyConflict
      else if m_Currency (d_Reserved d) \<noteq> m_Currency (rq_MaxExposure req) then Some ErrIdempotencyConflict
      else if d_State d \<noteq> DispatchDenied \<and> m_Amount (d_Reserved d) \<noteq> m_Amount (rq_MaxExposure req)
        then Some ErrIdempotencyConflict
      else if d_Deadline d \<noteq> truncate_us (rq_Deadline req) then Some ErrIdempotencyConflict
      else if d_SupersedesCallID d \<noteq> rq_SupersedesCallID req then Some ErrIdempotencyConflict
      else if d_State d \<noteq> DispatchConfirmedNotSent \<and> d_EvidenceRef d \<noteq> rq_EvidenceRef req
        then Some ErrIdempotencyConflict
      else if d_State d \<noteq> DispatchDenied \<and> d_Kind d = DispatchModel \<and>
              (case frozen of None \<Rightarrow> False | Some p \<Rightarrow> p_Provider p \<noteq> rq_Provider req \<or> p_Model p \<noteq> rq_Model req)
        then Some ErrIdempotencyConflict
      else None)"

section \<open>The permission state machine\<close>

definition Consume :: "dispatch \<Rightarrow> string \<Rightarrow> err + dispatch" where
  "Consume d inventoryVersion =
     (if d_State d \<noteq> DispatchPrepared then Inl ErrStaleExecution
      else Inr (d\<lparr>d_State := DispatchAuthorized, d_Inventory := InventoryConfirmed, d_InventoryVersion := inventoryVersion\<rparr>))"

definition Dispatch_Deny :: "dispatch \<Rightarrow> string \<Rightarrow> err + dispatch" where
  "Dispatch_Deny d code =
     (if d_State d \<noteq> DispatchPrepared then Inl ErrStaleExecution
      else Inr (d\<lparr>d_State := DispatchDenied, d_DenialCode := code\<rparr>))"

definition Dispatch_Observe :: "dispatch \<Rightarrow> dispatch_outcome \<Rightarrow> bool \<Rightarrow> instant \<Rightarrow> err + (dispatch \<times> bool)" where
  "Dispatch_Observe d out usageReported at =
     (if d_State d = DispatchObserved then Inr (d, False)
      else if \<not> (d_State d = DispatchAuthorized \<or> d_State d = DispatchUnknown) then Inl ErrStaleExecution
      else if out \<noteq> DispatchOutcomeUnknown \<and> \<not> usageReported then Inl ErrEvidenceInsufficient
      else if out = DispatchOutcomeUnknown
        then Inr (d\<lparr>d_State := DispatchUnknown, d_Outcome := out, d_ObservedAt := Some at\<rparr>, False)
      else Inr (d\<lparr>d_State := DispatchObserved, d_Outcome := out, d_ObservedAt := Some at\<rparr>, True))"

definition Dispatch_ConfirmNotSent :: "dispatch \<Rightarrow> string \<Rightarrow> money \<Rightarrow> bool \<Rightarrow> err + dispatch" where
  "Dispatch_ConfirmNotSent d evidenceRef charged usageReported =
     (if d_State d = DispatchConfirmedNotSent
      then (if d_EvidenceRef d \<noteq> evidenceRef then Inl ErrIdempotencyConflict else Inr d)
      else if \<not> (d_State d = DispatchPrepared \<or> d_State d = DispatchAuthorized \<or> d_State d = DispatchUnknown)
        then Inl ErrStaleExecution
      else if m_Amount charged > 0 then Inl ErrStaleExecution
      else if usageReported then Inl ErrStaleExecution
      else Inr (d\<lparr>d_State := DispatchConfirmedNotSent, d_EvidenceRef := evidenceRef\<rparr>))"

section \<open>Properties of admission\<close>

lemma first_err_None_iff: "first_err es = None \<longleftrightarrow> (\<forall>e \<in> set es. e = None)"
  by (simp add: first_err_def check_all_None_iff)

lemma CheckAdmission_None:
  assumes "CheckAdmission req c budget = None"
  obtains ops at p where "ac_Operation c = Some ops" "ac_Attempt c = Some at" "ac_Price c = Some p"
    "at_OperationID at = op_ID ops" "0 \<le> m_Amount (rq_MaxExposure req)"
    "m_Amount (rq_MaxExposure req) = 0 \<longrightarrow> rq_Kind req = DispatchTool \<and> Price_Free p"
    "check_execution req c ops at = None" "check_price req c = None" "check_kind req c ops p = None"
    "check_supersedes req c ops = None" "check_budget req c p budget = None"
  using assms
  by (auto simp: CheckAdmission_def first_err_None_iff check_price_def Let_def split: option.splits if_splits)

lemma check_execution_None:
  assumes "check_execution req c ops at = None"
  shows "\<not> ac_AdmissionClosed c \<and> rq_ExecutionEpoch req = op_ExecutionEpoch ops \<and> \<not> FencedForNewDispatch ops \<and>
    at_ExecutionEpoch at = op_ExecutionEpoch ops \<and> at_State at \<notin> {AttemptClosed, AttemptResultAccepted} \<and>
    (rq_InstanceID req \<noteq> [] \<longrightarrow> (\<exists>i. ac_Instance c = Some i \<and> inst_AttemptID i = at_ID at \<and> inst_Current i)) \<and>
    (ac_LeaseRequired c \<longrightarrow> Lease_Valid (op_Lease ops) (ac_Now c)) \<and>
    ac_Now c < rq_Deadline req \<and> rq_Deadline req \<le> at_Deadline at"
  using assms by (auto simp: check_execution_def split: if_splits option.splits)

lemma check_price_None:
  assumes "check_price req c = None" and "ac_Price c = Some p"
  shows "p_Kind p = rq_Kind req \<and> EffectiveAt p (ac_Now c) \<and> p_Currency p = m_Currency (rq_MaxExposure req) \<and>
    m_Amount (rq_MaxExposure req) \<le> p_MaxExposure p"
  using assms by (auto simp: check_price_def split: if_splits)

lemma check_kind_None:
  assumes "check_kind req c ops p = None"
  shows "rq_Kind req = DispatchModel \<and> rq_Provider req = p_Provider p \<and> rq_Model req = p_Model p \<and>
      Decision_Current (ac_Authority c) (ac_Now c) \<or>
    rq_Kind req = DispatchTool \<and>
      (\<exists>g. ac_Grant c = Some g \<and>
        Permits g (op_TenantID ops) (rq_ServerID req) (rq_Method req) (rq_MaxExposure req) (ac_Now c) = None)"
  using assms by (auto simp: check_kind_def split: dispatch_kind.splits if_splits option.splits)

lemma check_supersedes_None:
  assumes "check_supersedes req c ops = None" and "rq_SupersedesCallID req \<noteq> []"
  shows "\<exists>orig. ac_Original c = Some orig \<and> d_Owner orig = rq_Owner req \<and> d_State orig = DispatchConfirmedNotSent \<and>
    d_EvidenceRef orig = rq_EvidenceRef req \<and> rq_EvidenceRef req \<noteq> []"
  using assms by (auto simp: check_supersedes_def split: option.splits if_splits)

lemma check_budget_None:
  assumes "check_budget req c p budget = None"
  shows "\<not> ac_Overspent c \<and> ac_Allocations c \<noteq> [] \<and>
    (budget \<longrightarrow> (\<forall>a \<in> set (ac_Allocations c). \<exists>a'. Alloc_Reserve a (rq_MaxExposure req) = Inr a')) \<and>
    (\<not> Price_Free p \<longrightarrow>
      CheckCaps (ac_Caps c) (ac_Allocations c) (m_Currency (rq_MaxExposure req))
        (if budget then m_Amount (rq_MaxExposure req) else 0) (ac_CapsRequired c) = None)"
proof -
  have probe: "probe_reserve x a = None \<longleftrightarrow> (\<exists>a'. Alloc_Reserve a x = Inr a')" for x a
    by (auto simp: probe_reserve_def split: sum.splits)
  from assms show ?thesis
    by (auto simp: check_budget_def check_all_None_iff probe split: option.splits if_splits)
qed

text \<open>A send is admitted only to a live execution that can pay for it. When the admission
  check passes with the budget: the operation is not fenced and not closed by a recovery run;
  the request, the attempt and the operation agree on the execution epoch and the attempt
  still runs (under the current physical instance, if one is named); the call's deadline is in
  the future and within the attempt's; the route has an effective price of the call's kind
  whose exposure bound covers the call; a model call has a current authority for the
  priced provider and model, a tool call a grant that permits it; a replacement names a
  call confirmed not sent with the same evidence; and every allocation of the operation can
  take the exposure within its amount.\<close>

theorem CheckAdmission_sound:
  assumes "CheckAdmission req c True = None"
    and "\<And>a. a \<in> set (ac_Allocations c) \<Longrightarrow> wf_alloc a" and "wf_money (rq_MaxExposure req)"
  shows "\<exists>ops at p. ac_Operation c = Some ops \<and> ac_Attempt c = Some at \<and> ac_Price c = Some p \<and>
    at_OperationID at = op_ID ops \<and> \<not> FencedForNewDispatch ops \<and> \<not> ac_AdmissionClosed c \<and>
    rq_ExecutionEpoch req = op_ExecutionEpoch ops \<and> at_ExecutionEpoch at = op_ExecutionEpoch ops \<and>
    at_State at \<notin> {AttemptClosed, AttemptResultAccepted} \<and>
    (rq_InstanceID req \<noteq> [] \<longrightarrow> (\<exists>i. ac_Instance c = Some i \<and> inst_AttemptID i = at_ID at \<and> inst_Current i)) \<and>
    (ac_LeaseRequired c \<longrightarrow> Lease_Valid (op_Lease ops) (ac_Now c)) \<and>
    ac_Now c < rq_Deadline req \<and> rq_Deadline req \<le> at_Deadline at \<and>
    p_Kind p = rq_Kind req \<and> EffectiveAt p (ac_Now c) \<and> m_Amount (rq_MaxExposure req) \<le> p_MaxExposure p \<and>
    (rq_Kind req = DispatchModel \<and> rq_Provider req = p_Provider p \<and> rq_Model req = p_Model p \<and>
        Decision_Current (ac_Authority c) (ac_Now c) \<or>
      rq_Kind req = DispatchTool \<and>
        (\<exists>g. ac_Grant c = Some g \<and> gp_TenantID g = op_TenantID ops \<and> gp_Registered g \<and>
          gp_RevocationState g = ''none'' \<and> rq_Method req \<in> set (gp_Methods g))) \<and>
    (rq_SupersedesCallID req \<noteq> [] \<longrightarrow>
      (\<exists>orig. ac_Original c = Some orig \<and> d_State orig = DispatchConfirmedNotSent \<and> d_EvidenceRef orig = rq_EvidenceRef req)) \<and>
    \<not> ac_Overspent c \<and> ac_Allocations c \<noteq> [] \<and>
    (\<forall>a \<in> set (ac_Allocations c). al_Currency a = m_Currency (rq_MaxExposure req) \<and>
      al_Reserved a + al_Consumed a + m_Amount (rq_MaxExposure req) \<le> al_Amount a)"
proof -
  obtain ops at p where *: "ac_Operation c = Some ops" "ac_Attempt c = Some at" "ac_Price c = Some p"
    "at_OperationID at = op_ID ops" "0 \<le> m_Amount (rq_MaxExposure req)"
    and chk: "check_execution req c ops at = None" "check_price req c = None" "check_kind req c ops p = None"
    "check_supersedes req c ops = None" "check_budget req c p True = None"
    using CheckAdmission_None [OF assms(1)] by metis
  note b = check_budget_None [OF chk(5)]
  have alloc: "al_Currency a = m_Currency (rq_MaxExposure req) \<and>
      al_Reserved a + al_Consumed a + m_Amount (rq_MaxExposure req) \<le> al_Amount a" if "a \<in> set (ac_Allocations c)" for a
  proof -
    from b that obtain a' where "Alloc_Reserve a (rq_MaxExposure req) = Inr a'" by blast
    then show ?thesis using Alloc_Reserve_iff [OF assms(2) [OF that] assms(3) *(5), of a'] by simp
  qed
  have sup: "rq_SupersedesCallID req \<noteq> [] \<longrightarrow>
      (\<exists>orig. ac_Original c = Some orig \<and> d_State orig = DispatchConfirmedNotSent \<and> d_EvidenceRef orig = rq_EvidenceRef req)"
    using check_supersedes_None [OF chk(4)] by blast
  have kind: "rq_Kind req = DispatchModel \<and> rq_Provider req = p_Provider p \<and> rq_Model req = p_Model p \<and>
        Decision_Current (ac_Authority c) (ac_Now c) \<or>
      rq_Kind req = DispatchTool \<and>
        (\<exists>g. ac_Grant c = Some g \<and> gp_TenantID g = op_TenantID ops \<and> gp_Registered g \<and>
          gp_RevocationState g = ''none'' \<and> rq_Method req \<in> set (gp_Methods g))"
    using check_kind_None [OF chk(3)] by (auto simp: Permits_None_iff)
  from * check_execution_None [OF chk(1)] check_price_None [OF chk(2) *(3)] b alloc sup kind
  show ?thesis by (intro exI [of _ ops] exI [of _ at] exI [of _ p]) simp
qed

subsection \<open>A concrete call\<close>

definition sample_request :: admission_request where
  "sample_request =
     \<lparr>rq_Kind = DispatchModel, rq_CallID = ''call_1'', rq_Owner = ''proxy'', rq_RequestDigest = ''rd'', rq_OperationID = ''op_1'',
      rq_AttemptID = ''att_1'', rq_InstanceID = [], rq_ExecutionEpoch = 1, rq_RouteID = ''route'', rq_Provider = ''prov'',
      rq_Model = ''mod'', rq_GrantID = [], rq_GrantRevision = 0, rq_ServerID = [], rq_Method = [],
      rq_MaxExposure = \<lparr>m_Currency = ''USD'', m_Amount = 400\<rparr>, rq_Deadline = 500000, rq_SupersedesCallID = [],
      rq_EvidenceRef = [], rq_ArgumentDigest = [], rq_SideEffecting = False\<rparr>"

definition sample_context :: admission_context where
  "sample_context =
     \<lparr>ac_Now = 100, ac_Operation = Some sample_operation, ac_Attempt = Some sample_attempt, ac_Instance = None,
      ac_Price = Some sample_price, ac_Authority = \<lparr>dc_Allow = True, dc_Revision = ''a1'', dc_ReasonCode = [], dc_FreshUntil = 200\<rparr>,
      ac_Grant = None, ac_Allocations = [sample_alloc], ac_Overspent = False, ac_Original = None, ac_AdmissionClosed = False,
      ac_LeaseRequired = True, ac_Caps = [sample_cap], ac_CapsRequired = False\<rparr>"

lemmas sample_call_defs = sample_request_def sample_context_def sample_operation_def sample_attempt_def sample_alloc_def
  sample_cap_def sample_price_def

lemmas admission_defs = CheckAdmission_def check_execution_def check_price_def check_kind_def check_supersedes_def
  check_budget_def first_err_def probe_reserve_def FencedForNewDispatch_def Lifecycle_Terminal_def Lease_Valid_def
  EffectiveAt_def Decision_Current_def Price_Free_def

lemma sample_price_cost: "\<not> Price_Free sample_price"
  by (simp add: Price_Free_iff per_million_def sample_price_def) (auto intro: exI [of _ UsageInput])

lemma sample_alloc_probe: "probe_reserve \<lparr>m_Currency = ''USD'', m_Amount = 400\<rparr> sample_alloc = None"
  by (simp add: probe_reserve_def Alloc_Reserve_def sample_alloc_def addInt64_def wrap64_def)

lemma sample_caps_ok: "CheckCaps [sample_cap] [sample_alloc] ''USD'' 400 False = None"
  by (simp add: CheckCaps_def CapLevels_def check_cap_level_def caps_by_level_def choose_cap_def sample_cap_def
      Counted_def headroomFor_def addInt64_def wrap64_def)

lemma sample_admitted: "CheckAdmission sample_request sample_context True = None"
proof -
  have "check_execution sample_request sample_context sample_operation sample_attempt = None"
    by (simp add: check_execution_def sample_request_def sample_context_def sample_operation_def sample_attempt_def
        FencedForNewDispatch_def Lifecycle_Terminal_def Lease_Valid_def)
  moreover have "check_price sample_request sample_context = None"
    by (simp add: check_price_def sample_request_def sample_context_def sample_price_def EffectiveAt_def)
  moreover have "check_kind sample_request sample_context sample_operation sample_price = None"
    by (simp add: check_kind_def sample_request_def sample_context_def sample_price_def Decision_Current_def)
  moreover have "check_supersedes sample_request sample_context sample_operation = None"
    by (simp add: check_supersedes_def sample_request_def)
  moreover have "check_budget sample_request sample_context sample_price True = None"
    using sample_price_cost sample_alloc_probe sample_caps_ok
    by (simp add: check_budget_def sample_request_def sample_context_def)
  ultimately show ?thesis
    by (simp add: CheckAdmission_def first_err_def sample_request_def sample_context_def sample_operation_def sample_attempt_def)
qed

theorem CheckAdmission_sound_witness:
  "CheckAdmission sample_request sample_context True = None \<and> \<not> FencedForNewDispatch sample_operation \<and>
   al_Reserved sample_alloc + al_Consumed sample_alloc + 400 \<le> al_Amount sample_alloc"
proof -
  have "\<And>a. a \<in> set (ac_Allocations sample_context) \<Longrightarrow> wf_alloc a"
    using sample_alloc_wf by (simp add: sample_context_def)
  moreover have "wf_money (rq_MaxExposure sample_request)" by (simp add: sample_request_def wf_money_def int64_defs)
  moreover have "ac_Operation sample_context = Some sample_operation" "ac_Allocations sample_context = [sample_alloc]"
    "m_Amount (rq_MaxExposure sample_request) = 400"
    by (simp_all add: sample_context_def sample_request_def)
  ultimately show ?thesis using CheckAdmission_sound [OF sample_admitted] sample_admitted by auto
qed

section \<open>Properties of reentry\<close>

text \<open>A recorded call can be reentered only by the request it was recorded for. The record of
  an admitted request binds exactly that request again, whatever price it was frozen under, and
  any request that an admitted call binds agrees with the original one on the kind, the
  execution it acts for, its epoch, the route, the grant, the arguments, the exposure, the
  replacement and (to the stored microsecond) the deadline.\<close>

theorem Dispatch_Binds_exact:
  assumes "at_OperationID at = op_ID ops" and "CheckAdmission req c budget = None"
    and "ac_Operation c = Some ops" and "ac_Attempt c = Some at" and "ac_Price c = Some p"
    and "rq_OperationID req = op_ID ops" and "rq_AttemptID req = at_ID at"
  shows "Dispatch_Binds (NewDispatch i req c ops at p) (op_TenantID ops) req (Some p) = None \<and>
    (\<forall>req'. Dispatch_Binds (NewDispatch i req c ops at p) (op_TenantID ops) req' (Some p) = None \<longrightarrow>
      rq_Kind req' = rq_Kind req \<and> rq_CallID req' = rq_CallID req \<and> rq_Owner req' = rq_Owner req \<and>
      rq_RequestDigest req' = rq_RequestDigest req \<and> rq_OperationID req' = rq_OperationID req \<and>
      rq_AttemptID req' = rq_AttemptID req \<and> rq_InstanceID req' = rq_InstanceID req \<and>
      rq_ExecutionEpoch req' = rq_ExecutionEpoch req \<and> rq_RouteID req' = rq_RouteID req \<and>
      rq_GrantID req' = rq_GrantID req \<and> rq_GrantRevision req' = rq_GrantRevision req \<and>
      rq_ArgumentDigest req' = rq_ArgumentDigest req \<and> rq_SideEffecting req' = rq_SideEffecting req \<and>
      rq_MaxExposure req' = rq_MaxExposure req \<and> rq_SupersedesCallID req' = rq_SupersedesCallID req \<and>
      rq_EvidenceRef req' = rq_EvidenceRef req \<and> truncate_us (rq_Deadline req') = truncate_us (rq_Deadline req) \<and>
      (rq_Kind req = DispatchModel \<longrightarrow> rq_Provider req' = rq_Provider req \<and> rq_Model req' = rq_Model req))"
proof -
  from assms(2-5) have ex: "check_execution req c ops at = None" "check_kind req c ops p = None"
    by (auto elim!: CheckAdmission_None)
  have ep: "rq_ExecutionEpoch req = op_ExecutionEpoch ops" using check_execution_None [OF ex(1)] by blast
  have pm: "rq_Provider req = p_Provider p \<and> rq_Model req = p_Model p" if "rq_Kind req = DispatchModel"
    using check_kind_None [OF ex(2)] that by auto
  let ?d = "NewDispatch i req c ops at p"
  have "Dispatch_Binds ?d (op_TenantID ops) req (Some p) = None"
    using assms(6,7) ep pm by (auto simp: Dispatch_Binds_def NewDispatch_def)
  moreover have "Dispatch_Binds ?d (op_TenantID ops) req' (Some p) = None \<longrightarrow>
      rq_Kind req' = rq_Kind req \<and> rq_CallID req' = rq_CallID req \<and> rq_Owner req' = rq_Owner req \<and>
      rq_RequestDigest req' = rq_RequestDigest req \<and> rq_OperationID req' = rq_OperationID req \<and>
      rq_AttemptID req' = rq_AttemptID req \<and> rq_InstanceID req' = rq_InstanceID req \<and>
      rq_ExecutionEpoch req' = rq_ExecutionEpoch req \<and> rq_RouteID req' = rq_RouteID req \<and>
      rq_GrantID req' = rq_GrantID req \<and> rq_GrantRevision req' = rq_GrantRevision req \<and>
      rq_ArgumentDigest req' = rq_ArgumentDigest req \<and> rq_SideEffecting req' = rq_SideEffecting req \<and>
      rq_MaxExposure req' = rq_MaxExposure req \<and> rq_SupersedesCallID req' = rq_SupersedesCallID req \<and>
      rq_EvidenceRef req' = rq_EvidenceRef req \<and> truncate_us (rq_Deadline req') = truncate_us (rq_Deadline req) \<and>
      (rq_Kind req = DispatchModel \<longrightarrow> rq_Provider req' = rq_Provider req \<and> rq_Model req' = rq_Model req)" for req'
    using assms(6,7) ep pm
    by (auto simp: Dispatch_Binds_def NewDispatch_def intro!: money.equality split: if_splits)
  ultimately show ?thesis by blast
qed

theorem Dispatch_Binds_exact_witness:
  "Dispatch_Binds (NewDispatch ''dsp_1'' sample_request sample_context sample_operation sample_attempt sample_price) ''t''
     sample_request (Some sample_price) = None"
proof -
  have a: "at_OperationID sample_attempt = op_ID sample_operation" "ac_Operation sample_context = Some sample_operation"
    "ac_Attempt sample_context = Some sample_attempt" "ac_Price sample_context = Some sample_price"
    "rq_OperationID sample_request = op_ID sample_operation" "rq_AttemptID sample_request = at_ID sample_attempt"
    and t: "op_TenantID sample_operation = ''t''"
    by (simp_all add: sample_call_defs)
  from Dispatch_Binds_exact [OF a(1) sample_admitted a(2-6), of "''dsp_1''"] t show ?thesis by simp
qed

end
