(* ===== verification/Effect.thy ===== *)
theory Effect
  imports Dispatch
begin

text \<open>
  \<open>internal/domain/effect.go\<close> up to its admission check: the durable record of one guarded
  external mutation, its request, and the state machine of its single permit. The check
  itself needs the release projection and is in the theory \<open>Effect_Admission\<close>.
\<close>

section \<open>Records\<close>

datatype effect_kind = EffectBusinessWrite | EffectPublication | EffectActivation | EffectReview | EffectKindOther string

datatype effect_state =
    EffectPrepared | EffectPermitted | EffectSucceeded | EffectFailed | EffectUnknown | EffectConfirmedNotSent
  | EffectDenied

datatype effect_outcome =
  EffectOutcomeSucceeded | EffectOutcomeFailed | EffectOutcomeUnknown | EffectOutcomeOther string

text \<open>\<open>EffectState(outcome)\<close>: the state with the name of a definite outcome.\<close>

fun state_of_outcome :: "effect_outcome \<Rightarrow> effect_state" where
  "state_of_outcome EffectOutcomeSucceeded = EffectSucceeded"
| "state_of_outcome EffectOutcomeFailed = EffectFailed"
| "state_of_outcome EffectOutcomeUnknown = EffectUnknown"
| "state_of_outcome (EffectOutcomeOther s) = EffectUnknown"

record effect =
  e_ID :: string
  e_TenantID :: string
  e_OperationID :: string
  e_AttemptID :: string
  e_Kind :: effect_kind
  e_Occurrence :: u64
  e_CommandID :: string
  e_Owner :: string
  e_CanonicalSubject :: string
  e_RequestDigest :: digest
  e_ExpectedRevision :: string
  e_ExecutionEpoch :: u64
  e_RecoveryEpoch :: u64
  e_LeaseID :: string
  e_LeaseFence :: u64
  e_LeaseExpiresAt :: instant
  e_State :: effect_state
  e_Outcome :: "effect_outcome option"
  e_DenialCode :: string
  e_OutcomeRef :: string
  e_QueryRef :: string
  e_Inventory :: inventory_state
  e_InventoryVersion :: string
  e_Deadline :: instant
  e_CreatedAt :: instant
  e_UpdatedAt :: instant
  e_ObservedAt :: "instant option"

definition Effect_Unresolved :: "effect \<Rightarrow> bool" where
  "Effect_Unresolved e \<longleftrightarrow> e_State e = EffectPermitted \<or> e_State e = EffectUnknown"

record effect_request =
  er_OperationID :: string
  er_AttemptID :: string
  er_Owner :: string
  er_Kind :: effect_kind
  er_Occurrence :: u64
  er_CanonicalSubject :: string
  er_ExpectedRevision :: string
  er_RequestDigest :: digest
  er_ExecutionEpoch :: u64
  er_LeaseID :: string
  er_LeaseFence :: u64
  er_LeaseExpiresAt :: instant
  er_Deadline :: instant

definition NewEffect :: "string \<Rightarrow> effect_request \<Rightarrow> operation \<Rightarrow> instant \<Rightarrow> command_identity \<Rightarrow> effect" where
  "NewEffect new_id req ops now cmd =
     \<lparr>e_ID = new_id, e_TenantID = op_TenantID ops, e_OperationID = op_ID ops, e_AttemptID = er_AttemptID req,
      e_Kind = er_Kind req, e_Occurrence = er_Occurrence req, e_CommandID = cmd_CommandID cmd, e_Owner = er_Owner req,
      e_CanonicalSubject = er_CanonicalSubject req, e_RequestDigest = er_RequestDigest req,
      e_ExpectedRevision = er_ExpectedRevision req, e_ExecutionEpoch = er_ExecutionEpoch req,
      e_RecoveryEpoch = op_RecoveryEpoch ops, e_LeaseID = er_LeaseID req, e_LeaseFence = er_LeaseFence req,
      e_LeaseExpiresAt = truncate_us (er_LeaseExpiresAt req), e_State = EffectPrepared, e_Outcome = None,
      e_DenialCode = [], e_OutcomeRef = [], e_QueryRef = [], e_Inventory = InventoryPending, e_InventoryVersion = [],
      e_Deadline = truncate_us (er_Deadline req), e_CreatedAt = now, e_UpdatedAt = now, e_ObservedAt = None\<rparr>"

definition DeniedEffect :: "string \<Rightarrow> effect_request \<Rightarrow> operation \<Rightarrow> instant \<Rightarrow> command_identity \<Rightarrow> string \<Rightarrow> effect" where
  "DeniedEffect new_id req ops now cmd code =
     (NewEffect new_id req ops now cmd)\<lparr>e_State := EffectDenied, e_DenialCode := code\<rparr>"

definition Effect_Request :: "effect \<Rightarrow> effect_request" where
  "Effect_Request e =
     \<lparr>er_OperationID = e_OperationID e, er_AttemptID = e_AttemptID e, er_Owner = e_Owner e, er_Kind = e_Kind e,
      er_Occurrence = e_Occurrence e, er_CanonicalSubject = e_CanonicalSubject e,
      er_ExpectedRevision = e_ExpectedRevision e, er_RequestDigest = e_RequestDigest e,
      er_ExecutionEpoch = e_ExecutionEpoch e, er_LeaseID = e_LeaseID e, er_LeaseFence = e_LeaseFence e,
      er_LeaseExpiresAt = e_LeaseExpiresAt e, er_Deadline = e_Deadline e\<rparr>"

definition Effect_Binds :: "effect \<Rightarrow> string \<Rightarrow> effect_request \<Rightarrow> digest \<Rightarrow> err option" where
  "Effect_Binds e tenantID req dig =
     (if e_TenantID e \<noteq> tenantID then Some ErrNotFound
      else if e_RequestDigest e \<noteq> dig then Some ErrIdempotencyConflict
      else if e_OperationID e \<noteq> er_OperationID req then Some ErrIdempotencyConflict
      else if e_AttemptID e \<noteq> er_AttemptID req then Some ErrIdempotencyConflict
      else if e_Owner e \<noteq> er_Owner req then Some ErrIdempotencyConflict
      else if e_Kind e \<noteq> er_Kind req \<or> e_Occurrence e \<noteq> er_Occurrence req then Some ErrIdempotencyConflict
      else if e_CanonicalSubject e \<noteq> er_CanonicalSubject req then Some ErrIdempotencyConflict
      else if e_ExpectedRevision e \<noteq> er_ExpectedRevision req then Some ErrIdempotencyConflict
      else if e_ExecutionEpoch e \<noteq> er_ExecutionEpoch req then Some ErrIdempotencyConflict
      else if e_LeaseID e \<noteq> er_LeaseID req \<or> e_LeaseFence e \<noteq> er_LeaseFence req then Some ErrIdempotencyConflict
      else if e_LeaseExpiresAt e \<noteq> truncate_us (er_LeaseExpiresAt req) then Some ErrIdempotencyConflict
      else if e_Deadline e \<noteq> truncate_us (er_Deadline req) then Some ErrIdempotencyConflict
      else None)"

section \<open>The permit state machine\<close>

definition Effect_Permit :: "effect \<Rightarrow> string \<Rightarrow> err + effect" where
  "Effect_Permit e inventoryVersion =
     (if e_State e \<noteq> EffectPrepared then Inl ErrStaleExecution
      else Inr (e\<lparr>e_State := EffectPermitted, e_Inventory := InventoryConfirmed, e_InventoryVersion := inventoryVersion\<rparr>))"

definition Effect_Deny :: "effect \<Rightarrow> string \<Rightarrow> err + effect" where
  "Effect_Deny e code =
     (if e_State e \<noteq> EffectPrepared then Inl ErrStaleExecution
      else Inr (e\<lparr>e_State := EffectDenied, e_DenialCode := code\<rparr>))"

definition Effect_Observe :: "effect \<Rightarrow> effect_outcome \<Rightarrow> string \<Rightarrow> instant \<Rightarrow> err + (effect \<times> bool)" where
  "Effect_Observe e out receiptRef at =
     (if e_State e = EffectSucceeded \<or> e_State e = EffectFailed then Inr (e, False)
      else if \<not> (e_State e = EffectPermitted \<or> e_State e = EffectUnknown) then Inl ErrStaleExecution
      else case out of
             EffectOutcomeUnknown \<Rightarrow>
               Inr (e\<lparr>e_State := EffectUnknown, e_Outcome := Some out, e_ObservedAt := Some at\<rparr>, False)
           | EffectOutcomeOther s \<Rightarrow> Inl ErrInvalid
           | _ \<Rightarrow>
               if receiptRef = [] then Inl ErrEvidenceInsufficient
               else Inr (e\<lparr>e_State := state_of_outcome out, e_Outcome := Some out, e_OutcomeRef := receiptRef,
                           e_ObservedAt := Some at\<rparr>, True))"

definition Effect_ConfirmNotSent :: "effect \<Rightarrow> string \<Rightarrow> err + effect" where
  "Effect_ConfirmNotSent e evidenceRef =
     (if e_State e = EffectConfirmedNotSent
      then (if e_OutcomeRef e \<noteq> evidenceRef then Inl ErrIdempotencyConflict else Inr e)
      else if \<not> (e_State e = EffectPrepared \<or> e_State e = EffectPermitted \<or> e_State e = EffectUnknown)
        then Inl ErrStaleExecution
      else Inr (e\<lparr>e_State := EffectConfirmedNotSent, e_OutcomeRef := evidenceRef\<rparr>))"

record effect_observation =
  eo_ID :: string
  eo_EffectID :: string
  eo_Source :: string
  eo_Sequence :: u64
  eo_Outcome :: effect_outcome
  eo_ReceiptDigest :: string
  eo_NativeReference :: string
  eo_ObservedAt :: instant

end
