(* ===== verification/Permission.thy ===== *)
theory Permission
  imports Effect
begin

text \<open>
  The contract that the dispatch of \<open>dispatch.go\<close> and the effect of \<open>effect.go\<close> share: a durable
  record whose operations are a state machine with one granting operation. The locale
  \<open>single_use\<close> states when such a machine grants once; \<open>first_settlement\<close> adds that the first
  settlement stands. Both records are shown to keep the contract.
\<close>

section \<open>The contract\<close>

locale single_use =
  fixes step :: "'s \<Rightarrow> 'o \<Rightarrow> err + 's"
    and grants :: "'o \<Rightarrow> bool"
    and fresh :: "'s \<Rightarrow> bool"
  assumes grant_once: "step s x = Inr s' \<Longrightarrow> grants x \<Longrightarrow> fresh s \<and> \<not> fresh s'"
    and never_fresh_again: "step s x = Inr s' \<Longrightarrow> fresh s' \<Longrightarrow> fresh s"
begin

text \<open>Any sequence of requests against the record; a refused one leaves it as it is. The
  second component counts the permissions that were granted.\<close>

primrec run :: "'s \<Rightarrow> 'o list \<Rightarrow> 's \<times> nat" where
  "run s [] = (s, 0)"
| "run s (x # xs) =
     (case step s x of
        Inl e \<Rightarrow> run s xs
      | Inr s' \<Rightarrow> (let (t, n) = run s' xs in (t, if grants x then Suc n else n)))"

lemma run_spent: "\<not> fresh s \<Longrightarrow> snd (run s xs) = 0 \<and> \<not> fresh (fst (run s xs))"
proof (induction xs arbitrary: s)
  case Nil
  then show ?case by simp
next
  case (Cons x xs)
  show ?case
  proof (cases "step s x")
    case (Inl e)
    with Cons show ?thesis by simp
  next
    case (Inr s')
    with Cons.prems have "\<not> grants x" "\<not> fresh s'"
      using grant_once never_fresh_again by blast+
    with Inr Cons.IH show ?thesis by (simp add: case_prod_beta)
  qed
qed

lemma run_at_most_once: "snd (run s xs) \<le> 1"
proof (induction xs arbitrary: s)
  case Nil
  then show ?case by simp
next
  case (Cons x xs)
  show ?case
  proof (cases "step s x")
    case (Inl e)
    with Cons show ?thesis by simp
  next
    case (Inr s')
    show ?thesis
    proof (cases "grants x")
      case True
      with Inr grant_once have "\<not> fresh s'" by blast
      with run_spent [of s' xs] Inr True show ?thesis by (simp add: case_prod_beta)
    next
      case False
      with Inr Cons.IH [of s'] show ?thesis by (simp add: case_prod_beta)
    qed
  qed
qed

lemma run_granted_spent: "snd (run s xs) = 1 \<Longrightarrow> fresh s \<and> \<not> fresh (fst (run s xs))"
proof (induction xs arbitrary: s)
  case Nil
  then show ?case by simp
next
  case (Cons x xs)
  show ?case
  proof (cases "step s x")
    case (Inl e)
    with Cons show ?thesis by simp
  next
    case (Inr s')
    show ?thesis
    proof (cases "grants x")
      case True
      with Inr grant_once have "fresh s" "\<not> fresh s'" by blast+
      with run_spent [of s' xs] Inr show ?thesis by (simp add: case_prod_beta)
    next
      case False
      with Inr Cons.prems have "snd (run s' xs) = 1" by (simp add: case_prod_beta)
      with Cons.IH have "fresh s'" "\<not> fresh (fst (run s' xs))" by blast+
      with Inr False never_fresh_again show ?thesis by (simp add: case_prod_beta)
    qed
  qed
qed

end

locale first_settlement = single_use step grants fresh
  for step :: "'s \<Rightarrow> 'o \<Rightarrow> err + 's" and grants fresh +
  fixes settled :: "'s \<Rightarrow> bool"
  assumes settled_stays: "settled s \<Longrightarrow> step s x = Inr s' \<Longrightarrow> s' = s"
    and settled_not_fresh: "settled s \<Longrightarrow> \<not> fresh s"
begin

lemma run_settled: "settled s \<Longrightarrow> run s xs = (s, 0)"
proof (induction xs)
  case Nil
  then show ?case by simp
next
  case (Cons x xs)
  show ?case
  proof (cases "step s x")
    case (Inl e)
    with Cons show ?thesis by simp
  next
    case (Inr s')
    with Cons.prems settled_stays have "s' = s" by blast
    moreover from Inr Cons.prems have "\<not> grants x" using grant_once settled_not_fresh by blast
    ultimately show ?thesis using Inr Cons by simp
  qed
qed

lemma run_append: "run s (xs @ ys) =
    (let (t, n) = run s xs; (u, m) = run t ys in (u, n + m))"
  by (induction xs arbitrary: s) (auto simp: case_prod_beta Let_def split: sum.splits)

lemma settled_run_stands:
  "settled (fst (run s xs)) \<Longrightarrow> fst (run s (xs @ ys)) = fst (run s xs)"
  by (simp add: run_append run_settled case_prod_beta Let_def)

end

section \<open>The dispatch keeps it\<close>

datatype dispatch_op =
    DConsume string
  | DDeny string
  | DObserve dispatch_outcome bool instant
  | DConfirmNotSent string money bool

fun dispatch_step :: "dispatch \<Rightarrow> dispatch_op \<Rightarrow> err + dispatch" where
  "dispatch_step d (DConsume v) = Consume d v"
| "dispatch_step d (DDeny code) = Dispatch_Deny d code"
| "dispatch_step d (DObserve out reported at) = map_sum id fst (Dispatch_Observe d out reported at)"
| "dispatch_step d (DConfirmNotSent ev charged reported) = Dispatch_ConfirmNotSent d ev charged reported"

fun dispatch_grants :: "dispatch_op \<Rightarrow> bool" where
  "dispatch_grants (DConsume v) = True"
| "dispatch_grants _ = False"

definition dispatch_fresh :: "dispatch \<Rightarrow> bool" where
  "dispatch_fresh d \<longleftrightarrow> \<not> Dispatch_Terminal d"

lemma dispatch_step_Inr:
  assumes "dispatch_step d x = Inr d'"
  shows "d' = d \<and> Dispatch_Settled d \<and> \<not> dispatch_grants x \<or>
    d_State d = DispatchPrepared \<and> d_State d' \<in> {DispatchAuthorized, DispatchDenied, DispatchConfirmedNotSent} \<or>
    d_State d \<in> {DispatchAuthorized, DispatchUnknown} \<and> \<not> dispatch_grants x \<and>
      d_State d' \<in> {DispatchUnknown, DispatchObserved, DispatchConfirmedNotSent}"
proof (cases x)
  case (DObserve out reported at)
  then obtain b where "Dispatch_Observe d out reported at = Inr (d', b)"
    using assms by (cases "Dispatch_Observe d out reported at") auto
  then have "d_State d = DispatchObserved \<and> d' = d \<or>
      d_State d \<in> {DispatchAuthorized, DispatchUnknown} \<and> d_State d' \<in> {DispatchUnknown, DispatchObserved}"
    by (cases "d_State d"; cases "out = DispatchOutcomeUnknown"; cases reported) (auto simp: Dispatch_Observe_def)
  with DObserve show ?thesis by (auto simp: Dispatch_Settled_def)
next
  case (DConsume v)
  with assms have "d_State d = DispatchPrepared \<and> d_State d' = DispatchAuthorized"
    by (cases "d_State d") (auto simp: Consume_def)
  then show ?thesis by simp
next
  case (DDeny code)
  with assms have "d_State d = DispatchPrepared \<and> d_State d' = DispatchDenied"
    by (cases "d_State d") (auto simp: Dispatch_Deny_def)
  then show ?thesis by simp
next
  case (DConfirmNotSent ev charged reported)
  with assms have "d_State d = DispatchConfirmedNotSent \<and> d' = d \<or>
      d_State d \<in> {DispatchPrepared, DispatchAuthorized, DispatchUnknown} \<and> d_State d' = DispatchConfirmedNotSent"
    by (cases "d_State d"; cases "0 < m_Amount charged"; cases reported; cases "d_EvidenceRef d = ev")
      (auto simp: Dispatch_ConfirmNotSent_def)
  with DConfirmNotSent show ?thesis by (auto simp: Dispatch_Settled_def)
qed

lemmas dispatch_state_defs = dispatch_fresh_def Dispatch_Terminal_def Dispatch_Settled_def

interpretation dispatch_permission: first_settlement dispatch_step dispatch_grants dispatch_fresh Dispatch_Settled
proof unfold_locales
  fix s s' :: dispatch and x :: dispatch_op
  assume st: "dispatch_step s x = Inr s'"
  note cases = dispatch_step_Inr [OF st]
  show "dispatch_fresh s \<and> \<not> dispatch_fresh s'" if "dispatch_grants x"
    using cases that by (auto simp: dispatch_state_defs)
  show "dispatch_fresh s" if "dispatch_fresh s'"
    using cases that by (auto simp: dispatch_state_defs)
  show "s' = s" if "Dispatch_Settled s"
    using cases that by (auto simp: dispatch_state_defs)
next
  fix s assume "Dispatch_Settled s"
  then show "\<not> dispatch_fresh s" by (auto simp: dispatch_state_defs)
qed

section \<open>The effect keeps it\<close>

datatype effect_op =
    EPermit string
  | EDeny string
  | EObserve effect_outcome string instant
  | EConfirmNotSent string

fun effect_step :: "effect \<Rightarrow> effect_op \<Rightarrow> err + effect" where
  "effect_step e (EPermit v) = Effect_Permit e v"
| "effect_step e (EDeny code) = Effect_Deny e code"
| "effect_step e (EObserve out receipt at) = map_sum id fst (Effect_Observe e out receipt at)"
| "effect_step e (EConfirmNotSent ev) = Effect_ConfirmNotSent e ev"

fun effect_grants :: "effect_op \<Rightarrow> bool" where
  "effect_grants (EPermit v) = True"
| "effect_grants _ = False"

definition effect_fresh :: "effect \<Rightarrow> bool" where
  "effect_fresh e \<longleftrightarrow> e_State e = EffectPrepared"

definition effect_settled :: "effect \<Rightarrow> bool" where
  "effect_settled e \<longleftrightarrow> e_State e \<in> {EffectSucceeded, EffectFailed, EffectConfirmedNotSent, EffectDenied}"

lemma effect_step_Inr:
  assumes "effect_step e x = Inr e'"
  shows "e' = e \<and> effect_settled e \<and> \<not> effect_grants x \<or>
    e_State e = EffectPrepared \<and> e_State e' \<in> {EffectPermitted, EffectDenied, EffectConfirmedNotSent} \<or>
    e_State e \<in> {EffectPermitted, EffectUnknown} \<and> \<not> effect_grants x \<and>
      e_State e' \<in> {EffectUnknown, EffectSucceeded, EffectFailed, EffectConfirmedNotSent}"
proof (cases x)
  case (EObserve out receipt at)
  then obtain b where "Effect_Observe e out receipt at = Inr (e', b)"
    using assms by (cases "Effect_Observe e out receipt at") auto
  then have "e_State e \<in> {EffectSucceeded, EffectFailed} \<and> e' = e \<or>
      e_State e \<in> {EffectPermitted, EffectUnknown} \<and> e_State e' \<in> {EffectUnknown, EffectSucceeded, EffectFailed}"
    by (cases "e_State e"; cases out; cases "receipt = []") (auto simp: Effect_Observe_def)
  with EObserve show ?thesis by (auto simp: effect_settled_def)
next
  case (EPermit v)
  with assms have "e_State e = EffectPrepared \<and> e_State e' = EffectPermitted"
    by (cases "e_State e") (auto simp: Effect_Permit_def)
  then show ?thesis by simp
next
  case (EDeny code)
  with assms have "e_State e = EffectPrepared \<and> e_State e' = EffectDenied"
    by (cases "e_State e") (auto simp: Effect_Deny_def)
  then show ?thesis by simp
next
  case (EConfirmNotSent ev)
  with assms have "e_State e = EffectConfirmedNotSent \<and> e' = e \<or>
      e_State e \<in> {EffectPrepared, EffectPermitted, EffectUnknown} \<and> e_State e' = EffectConfirmedNotSent"
    by (cases "e_State e"; cases "e_OutcomeRef e = ev") (auto simp: Effect_ConfirmNotSent_def)
  with EConfirmNotSent show ?thesis by (auto simp: effect_settled_def)
qed

lemmas effect_state_defs = effect_fresh_def effect_settled_def

interpretation effect_permission: first_settlement effect_step effect_grants effect_fresh effect_settled
proof unfold_locales
  fix s s' :: effect and x :: effect_op
  assume st: "effect_step s x = Inr s'"
  note cases = effect_step_Inr [OF st]
  show "effect_fresh s \<and> \<not> effect_fresh s'" if "effect_grants x"
    using cases that by (auto simp: effect_state_defs)
  show "effect_fresh s" if "effect_fresh s'"
    using cases that by (auto simp: effect_state_defs)
  show "s' = s" if "effect_settled s"
    using cases that by (auto simp: effect_state_defs)
next
  fix s assume "effect_settled s"
  then show "\<not> effect_fresh s" by (auto simp: effect_state_defs)
qed

section \<open>Properties\<close>

text \<open>The permission to send a call is single-use: along any sequence of consumptions,
  denials, observations and not-sent confirmations against a dispatch, refused ones
  included, at most one consumption succeeds; it succeeds only on a prepared call and the call
  is never prepared again. Once the call is observed, confirmed not sent or denied, nothing
  changes it any more: the first settlement stands.\<close>

theorem dispatch_single_use:
  "snd (dispatch_permission.run d xs) \<le> 1 \<and>
   (snd (dispatch_permission.run d xs) = 1 \<longrightarrow>
      d_State d = DispatchPrepared \<and> d_State (fst (dispatch_permission.run d xs)) \<noteq> DispatchPrepared) \<and>
   (Dispatch_Settled (fst (dispatch_permission.run d xs)) \<longrightarrow>
      (\<forall>ys. fst (dispatch_permission.run d (xs @ ys)) = fst (dispatch_permission.run d xs)))"
  using dispatch_permission.run_at_most_once [of d xs] dispatch_permission.run_granted_spent [of d xs]
    dispatch_permission.settled_run_stands [of d xs]
  by (auto simp: dispatch_fresh_def Dispatch_Terminal_def)

definition sample_dispatch :: dispatch where
  "sample_dispatch = NewDispatch ''dsp_1'' sample_request sample_context sample_operation sample_attempt sample_price"

theorem dispatch_single_use_witness:
  "snd (dispatch_permission.run sample_dispatch
      [DConsume ''v1'', DConsume ''v2'', DObserve DispatchSucceeded True 300, DDeny ''X'']) = 1 \<and>
   d_State sample_dispatch = DispatchPrepared \<and>
   d_State (fst (dispatch_permission.run sample_dispatch
      [DConsume ''v1'', DConsume ''v2'', DObserve DispatchSucceeded True 300, DDeny ''X''])) = DispatchObserved"
proof -
  let ?xs = "[DConsume ''v1'', DConsume ''v2'', DObserve DispatchSucceeded True 300, DDeny ''X'']"
  have p: "d_State sample_dispatch = DispatchPrepared" by (simp add: sample_dispatch_def NewDispatch_def)
  then have r: "snd (dispatch_permission.run sample_dispatch ?xs) = 1"
    "d_State (fst (dispatch_permission.run sample_dispatch ?xs)) = DispatchObserved"
    by (simp_all add: Consume_def Dispatch_Observe_def Dispatch_Deny_def)
  from dispatch_single_use [of sample_dispatch ?xs] r show ?thesis by blast
qed

text \<open>The permit of a guarded mutation is single-use in the same way: along any sequence of
  permits, denials, observations and not-sent confirmations against an effect, at most one
  permit is granted, only on a prepared effect that is never prepared again, and the first
  definite outcome, not-sent confirmation or denial stands for ever.\<close>

theorem effect_single_use:
  "snd (effect_permission.run e xs) \<le> 1 \<and>
   (snd (effect_permission.run e xs) = 1 \<longrightarrow>
      e_State e = EffectPrepared \<and> e_State (fst (effect_permission.run e xs)) \<noteq> EffectPrepared) \<and>
   (effect_settled (fst (effect_permission.run e xs)) \<longrightarrow>
      (\<forall>ys. fst (effect_permission.run e (xs @ ys)) = fst (effect_permission.run e xs)))"
  using effect_permission.run_at_most_once [of e xs] effect_permission.run_granted_spent [of e xs]
    effect_permission.settled_run_stands [of e xs]
  by (auto simp: effect_fresh_def)

definition prepared_effect :: effect where
  "prepared_effect =
     NewEffect ''eff_1''
       \<lparr>er_OperationID = ''op_1'', er_AttemptID = [], er_Owner = ''o'', er_Kind = EffectBusinessWrite, er_Occurrence = 1,
        er_CanonicalSubject = ''source:s'', er_ExpectedRevision = [], er_RequestDigest = ''d'', er_ExecutionEpoch = 1,
        er_LeaseID = ''l'', er_LeaseFence = 1, er_LeaseExpiresAt = 800000, er_Deadline = 700000\<rparr>
       sample_operation 100 \<lparr>cmd_TenantID = ''t'', cmd_CommandID = ''c'', cmd_ActorID = ''a'', cmd_RequestDigest = ''d''\<rparr>"

theorem effect_single_use_witness:
  "snd (effect_permission.run prepared_effect
      [EPermit ''v1'', EPermit ''v2'', EObserve EffectOutcomeUnknown [] 200, EObserve EffectOutcomeFailed ''r'' 300]) = 1 \<and>
   e_State prepared_effect = EffectPrepared \<and>
   e_State (fst (effect_permission.run prepared_effect
      [EPermit ''v1'', EPermit ''v2'', EObserve EffectOutcomeUnknown [] 200, EObserve EffectOutcomeFailed ''r'' 300])) = EffectFailed"
proof -
  let ?xs = "[EPermit ''v1'', EPermit ''v2'', EObserve EffectOutcomeUnknown [] 200, EObserve EffectOutcomeFailed ''r'' 300]"
  have p: "e_State prepared_effect = EffectPrepared" by (simp add: prepared_effect_def NewEffect_def)
  then have r: "snd (effect_permission.run prepared_effect ?xs) = 1"
    "e_State (fst (effect_permission.run prepared_effect ?xs)) = EffectFailed"
    by (simp_all add: Effect_Permit_def Effect_Observe_def)
  from effect_single_use [of prepared_effect ?xs] r show ?thesis by blast
qed

end
