(* ===== verification/Projection.thy ===== *)
theory Projection
  imports Values
begin

text \<open>
  The contract of a committed projection that a Workflow advances by records: a record
  names the revision it expects, is recorded once under the next revision, and is
  answered with what is already recorded when it is sent again. Previews
  (\<open>internal/domain/preview.go\<close>) and releases (\<open>release.go\<close>) provide it.
\<close>

definition rev_of :: "('p \<Rightarrow> u64) \<Rightarrow> 'p option \<Rightarrow> u64" where
  "rev_of revision cur = (case cur of None \<Rightarrow> 0 | Some p \<Rightarrow> revision p)"

lemma rev_of_simps [simp]: "rev_of revision None = 0" "rev_of revision (Some p) = revision p"
  by (simp_all add: rev_of_def)

text \<open>The revisions \<open>w, w + 1, ...\<close> of \<open>n\<close> consecutive records.\<close>

fun consecutive :: "u64 \<Rightarrow> nat \<Rightarrow> u64 list" where
  "consecutive w 0 = []"
| "consecutive w (Suc n) = w # consecutive (w + 1) n"

lemma nth_consecutive: "i < n \<Longrightarrow> consecutive w n ! i = w + of_nat i"
  by (induction n arbitrary: w i) (auto simp: nth_Cons' less_Suc_eq_0_disj algebra_simps)

lemma length_consecutive [simp]: "length (consecutive w n) = n"
  by (induction n arbitrary: w) auto

locale projection =
  fixes apply_rec :: "'c \<Rightarrow> 'p option \<Rightarrow> 'r \<Rightarrow> err + ('p \<times> bool)"
    and revision :: "'p \<Rightarrow> u64"
    and expected :: "'r \<Rightarrow> u64"
  assumes recorded: "apply_rec c cur r = Inr (nxt, False) \<Longrightarrow>
      expected r = rev_of revision cur \<and> revision nxt = rev_of revision cur + 1"
    and existing: "apply_rec c cur r = Inr (nxt, True) \<Longrightarrow> cur = Some nxt"
    and replay: "apply_rec c cur r = Inr (nxt, False) \<Longrightarrow> apply_rec c' (Some nxt) r = Inr (nxt, True)"
begin

text \<open>A sequence of records, each with the context it is decided in: a refused record
  changes nothing. The run keeps the projection and the records it recorded anew.\<close>

primrec run :: "'p option \<Rightarrow> ('c \<times> 'r) list \<Rightarrow> 'p option \<times> 'r list" where
  "run cur [] = (cur, [])"
| "run cur (x # xs) =
     (case apply_rec (fst x) cur (snd x) of
        Inl e \<Rightarrow> run cur xs
      | Inr (nxt, ex) \<Rightarrow>
          (let (p, rs) = run (Some nxt) xs in (p, if ex then rs else snd x # rs)))"

lemma run_expected:
  "map expected (snd (run cur xs)) = consecutive (rev_of revision cur) (length (snd (run cur xs))) \<and>
   rev_of revision (fst (run cur xs)) = rev_of revision cur + of_nat (length (snd (run cur xs)))"
proof (induction xs arbitrary: cur)
  case Nil
  then show ?case by simp
next
  case (Cons x xs)
  show ?case
  proof (cases "apply_rec (fst x) cur (snd x)")
    case (Inl e)
    with Cons.IH [of cur] show ?thesis by simp
  next
    case (Inr b)
    obtain nxt ex where b: "b = (nxt, ex)" by (cases b)
    show ?thesis
    proof (cases ex)
      case True
      with Inr b have "apply_rec (fst x) cur (snd x) = Inr (nxt, True)" by simp
      then have "cur = Some nxt" by (rule existing)
      with Inr b True Cons.IH [of cur] show ?thesis by (simp add: case_prod_beta)
    next
      case False
      with Inr b have "apply_rec (fst x) cur (snd x) = Inr (nxt, False)" by simp
      note rec = recorded [OF this]
      from Cons.IH [of "Some nxt"] rec Inr b False show ?thesis
        by (simp add: case_prod_beta algebra_simps)
    qed
  qed
qed

text \<open>No two records of a run win the same revision (below the wrap-around).\<close>

lemma one_winner:
  assumes "length (snd (run cur xs)) < 2 ^ 64" and "i < j" and "j < length (snd (run cur xs))"
  shows "expected (snd (run cur xs) ! i) \<noteq> expected (snd (run cur xs) ! j)"
proof
  let ?rs = "snd (run cur xs)"
  assume "expected (?rs ! i) = expected (?rs ! j)"
  moreover have "map expected ?rs = consecutive (rev_of revision cur) (length ?rs)"
    using run_expected by blast
  then have "\<And>k. k < length ?rs \<Longrightarrow> expected (?rs ! k) = rev_of revision cur + of_nat k"
    by (metis nth_map nth_consecutive)
  ultimately have "(of_nat i :: u64) = of_nat j" using assms(2,3) by simp
  then have "unat (of_nat i :: u64) = unat (of_nat j :: u64)" by simp
  moreover have "i < 2 ^ 64" "j < 2 ^ 64" using assms by linarith+
  ultimately show False using assms(2) by (simp add: unsigned_of_nat take_bit_nat_eq_self)
qed

text \<open>What every recorded transition keeps, a run keeps.\<close>

lemma run_keeps:
  assumes new: "\<And>c cur r nxt. apply_rec c cur r = Inr (nxt, False) \<Longrightarrow> R cur (Some nxt)"
    and refl: "\<And>x. R x x" and trans: "\<And>x y z. R x y \<Longrightarrow> R y z \<Longrightarrow> R x z"
  shows "R cur (fst (run cur xs))"
proof (induction xs arbitrary: cur)
  case Nil
  then show ?case by (simp add: refl)
next
  case (Cons x xs)
  have "R cur (Some nxt)" if "apply_rec (fst x) cur (snd x) = Inr (nxt, ex)" for nxt ex
  proof (cases ex)
    case True
    with that existing [of "fst x" cur "snd x" nxt] show ?thesis by (simp add: refl)
  next
    case False
    with that new [of "fst x" cur "snd x" nxt] show ?thesis by simp
  qed
  with Cons.IH trans show ?case
    by (cases "apply_rec (fst x) cur (snd x)") (auto simp: case_prod_beta)
qed

text \<open>A record that was recorded and is sent again at once changes nothing.\<close>

lemma run_replay:
  assumes "apply_rec c cur r = Inr (nxt, False)"
  shows "run cur [(c, r), (c', r)] = (Some nxt, [r])"
  using assms replay [OF assms, of c'] by simp

end

end
