(* ===== verification/Preview.thy ===== *)
theory Preview
  imports Operation Projection
begin

text \<open>
  \<open>internal/domain/preview.go\<close>: the committed projection of a preview build. The initial state
  of the transition table, the empty string, is \<open>None\<close>.
\<close>

datatype preview_state = PreviewSaving | PreviewConflict | PreviewBuilding | PreviewReady | PreviewStale | PreviewFailed

record preview_artifact =
  pa_Handle :: string
  pa_Class :: string
  pa_Digest :: digest
  pa_SizeBytes :: int
  pa_TransferID :: string
  pa_ObjectVersion :: string

record preview =
  pv_OperationID :: string
  pv_TenantID :: string
  pv_SubjectDigest :: digest
  pv_BaseRevision :: string
  pv_State :: preview_state
  pv_SourceRevision :: string
  pv_CurrentRevision :: string
  pv_SourceDigest :: digest
  pv_Module :: "preview_artifact option"
  pv_Styles :: "preview_artifact list"
  pv_BuildProfileID :: string
  pv_HostProfileID :: string
  pv_FailureCode :: string
  pv_Revision :: u64
  pv_UpdatedAt :: instant

record preview_rec =
  pr_ExpectedRevision :: u64
  pr_State :: preview_state
  pr_SourceRevision :: string
  pr_CurrentRevision :: string
  pr_SourceDigest :: digest
  pr_Module :: "preview_artifact option"
  pr_Styles :: "preview_artifact list"
  pr_BuildProfileID :: string
  pr_HostProfileID :: string
  pr_FailureCode :: string

fun previewNext :: "preview_state option \<Rightarrow> preview_state list" where
  "previewNext None = [PreviewSaving]"
| "previewNext (Some PreviewSaving) = [PreviewConflict, PreviewBuilding, PreviewFailed]"
| "previewNext (Some PreviewBuilding) = [PreviewReady, PreviewStale, PreviewFailed]"
| "previewNext (Some _) = []"

definition preview_same :: "preview_rec \<Rightarrow> preview \<Rightarrow> bool" where
  "preview_same r p \<longleftrightarrow>
     pr_State r = pv_State p \<and> pr_SourceRevision r = pv_SourceRevision p \<and>
     pr_CurrentRevision r = pv_CurrentRevision p \<and> pr_SourceDigest r = pv_SourceDigest p \<and>
     pr_BuildProfileID r = pv_BuildProfileID p \<and> pr_HostProfileID r = pv_HostProfileID p \<and>
     pr_FailureCode r = pv_FailureCode p \<and> length (pr_Styles r) = length (pv_Styles p) \<and>
     pr_Module r = pv_Module p \<and> pr_Styles r = pv_Styles p"

definition ApplyPreview :: "operation \<Rightarrow> preview option \<Rightarrow> preview_rec \<Rightarrow> instant \<Rightarrow> err + (preview \<times> bool)" where
  "ApplyPreview ops cur r now =
     (if op_Kind ops \<noteq> KindPreviewBuild then Inl ErrInvalid
      else let rvn = (case cur of None \<Rightarrow> 0 | Some c \<Rightarrow> pv_Revision c)
      in if cur \<noteq> None \<and> pr_ExpectedRevision r + 1 = rvn \<and> preview_same r (the cur) then Inr (the cur, True)
      else if pr_ExpectedRevision r \<noteq> rvn then Inl ErrRevisionConflict
      else if pr_State r \<notin> set (previewNext (map_option pv_State cur)) then Inl ErrInvalid
      else if pr_State r = PreviewConflict \<and> pr_CurrentRevision r = [] then Inl ErrInvalid
      else if (pr_State r = PreviewBuilding \<or> pr_State r = PreviewReady \<or> pr_State r = PreviewStale) \<and>
              pr_SourceRevision r = [] then Inl ErrInvalid
      else if (pr_State r = PreviewReady \<or> pr_State r = PreviewStale) \<and> pr_Module r = None then Inl ErrInvalid
      else if pr_State r = PreviewFailed \<and> pr_FailureCode r = [] then Inl ErrInvalid
      else if cur \<noteq> None \<and> pv_SourceRevision (the cur) \<noteq> [] \<and> pr_SourceRevision r \<noteq> pv_SourceRevision (the cur)
        then Inl ErrInvalid
      else Inr (\<lparr>pv_OperationID = op_ID ops, pv_TenantID = op_TenantID ops,
                 pv_SubjectDigest = sj_SubjectDigest (op_Subject ops), pv_BaseRevision = sj_SourceRevision (op_Subject ops),
                 pv_State = pr_State r, pv_SourceRevision = pr_SourceRevision r, pv_CurrentRevision = pr_CurrentRevision r,
                 pv_SourceDigest = pr_SourceDigest r, pv_Module = pr_Module r, pv_Styles = pr_Styles r,
                 pv_BuildProfileID = pr_BuildProfileID r, pv_HostProfileID = pr_HostProfileID r,
                 pv_FailureCode = pr_FailureCode r, pv_Revision = rvn + 1, pv_UpdatedAt = now\<rparr>, False))"

section \<open>The projection contract\<close>

text \<open>A recorded projection holds exactly the fields of the record.\<close>

lemma ApplyPreview_new:
  assumes "ApplyPreview ops cur r now = Inr (nxt, False)"
  shows "op_Kind ops = KindPreviewBuild \<and> pr_ExpectedRevision r = rev_of pv_Revision cur \<and>
    pv_Revision nxt = rev_of pv_Revision cur + 1 \<and> preview_same r nxt \<and>
    pr_State r \<in> set (previewNext (map_option pv_State cur))"
  using assms by (cases cur) (simp_all add: ApplyPreview_def rev_of_def Let_def preview_same_def split: if_split_asm, (hypsubst, simp)+)

lemma ApplyPreview_existing:
  "ApplyPreview ops cur r now = Inr (nxt, True) \<Longrightarrow> cur = Some nxt"
  by (auto simp: ApplyPreview_def Let_def split: if_splits)

lemma ApplyPreview_replay:
  assumes "ApplyPreview ops cur r now = Inr (nxt, False)"
  shows "ApplyPreview ops (Some nxt) r now' = Inr (nxt, True)"
  using ApplyPreview_new [OF assms] by (simp add: ApplyPreview_def Let_def)

interpretation preview_projection: projection "\<lambda>now cur r. ApplyPreview ops cur r now" pv_Revision pr_ExpectedRevision
  for ops
proof unfold_locales
qed (use ApplyPreview_new ApplyPreview_existing ApplyPreview_replay in blast)+

section \<open>Properties\<close>

text \<open>What a recorded preview keeps: its saved source revision, and everything once it is in
  a state without successors.\<close>

definition preview_kept :: "preview option \<Rightarrow> preview option \<Rightarrow> bool" where
  "preview_kept cur nxt \<longleftrightarrow>
     (case cur of
        None \<Rightarrow> True
      | Some p \<Rightarrow>
          (case nxt of
             None \<Rightarrow> False
           | Some q \<Rightarrow> (pv_SourceRevision p \<noteq> [] \<longrightarrow> pv_SourceRevision q = pv_SourceRevision p) \<and>
                       (previewNext (Some (pv_State p)) = [] \<longrightarrow> q = p)))"

lemma ApplyPreview_kept:
  assumes "ApplyPreview ops cur r now = Inr (nxt, False)"
  shows "preview_kept cur (Some nxt)"
proof (cases cur)
  case None
  then show ?thesis by (simp add: preview_kept_def)
next
  case (Some p)
  from ApplyPreview_new [OF assms] Some have "previewNext (Some (pv_State p)) \<noteq> []" by auto
  moreover have "pv_SourceRevision p \<noteq> [] \<Longrightarrow> pv_SourceRevision nxt = pv_SourceRevision p"
    using assms Some by (auto simp: ApplyPreview_def Let_def split: if_splits)
  ultimately show ?thesis using Some by (simp add: preview_kept_def)
qed

lemma preview_kept_refl: "preview_kept x x"
  by (simp add: preview_kept_def split: option.splits)

lemma preview_kept_trans: "preview_kept x y \<Longrightarrow> preview_kept y z \<Longrightarrow> preview_kept x z"
  by (auto simp: preview_kept_def split: option.splits)

text \<open>Whatever records a Workflow sends for a preview build, in any order and with any
  repetition, the records that take effect expect consecutive revisions from the one the
  projection was at (so two records never win the same revision) and the projection advances
  by exactly their number; the saved revision of a preview never changes, and a ready,
  stale, failed or conflicting preview never changes at all.\<close>

theorem preview_run:
  "map pr_ExpectedRevision (snd (preview_projection.run ops cur xs)) =
     consecutive (rev_of pv_Revision cur) (length (snd (preview_projection.run ops cur xs))) \<and>
   rev_of pv_Revision (fst (preview_projection.run ops cur xs)) =
     rev_of pv_Revision cur + of_nat (length (snd (preview_projection.run ops cur xs))) \<and>
   preview_kept cur (fst (preview_projection.run ops cur xs))"
proof -
  have "preview_kept cur (fst (preview_projection.run ops cur xs))"
    by (rule preview_projection.run_keeps) (fact ApplyPreview_kept preview_kept_refl preview_kept_trans)+
  with preview_projection.run_expected show ?thesis by blast
qed

end
