(* ===== verification/Artifact.thy ===== *)
theory Artifact
  imports Attempt
begin

text \<open>
  \<open>internal/domain/artifact.go\<close>: artifact classes, scoped transfers and their state machine,
  and the binding of a result manifest's outputs to finalized transfers. \<open>Finalizable\<close> and
  \<open>Finalize\<close> may change the transfer and still fail (they record the rejection or expiry), so
  they return the transfer together with the error. White space is the ASCII white space of
  \<open>strings.TrimSpace\<close>.
\<close>

section \<open>Artifact classes\<close>

definition ArtifactClasses :: "artifact_class list" where
  "ArtifactClasses = [ArtifactPrompt, ArtifactBrief, ArtifactSource, ArtifactStage, ArtifactResult, ArtifactEvidence,
     ArtifactAnswer, ArtifactArgument, ArtifactNpm, ArtifactBrowser, ArtifactCSS]"

fun class_string :: "artifact_class \<Rightarrow> string" where
  "class_string ArtifactPrompt = ''prompt''"
| "class_string ArtifactBrief = ''brief''"
| "class_string ArtifactSource = ''source''"
| "class_string ArtifactStage = ''stage''"
| "class_string ArtifactResult = ''result''"
| "class_string ArtifactEvidence = ''evidence''"
| "class_string ArtifactAnswer = ''answer''"
| "class_string ArtifactArgument = ''argument''"
| "class_string ArtifactNpm = ''npm''"
| "class_string ArtifactBrowser = ''browser''"
| "class_string ArtifactCSS = ''css''"
| "class_string (ArtifactClassOther s) = s"

definition ParseArtifactClass :: "string \<Rightarrow> err + artifact_class" where
  "ParseArtifactClass s =
     (case find (\<lambda>c. class_string c = s) ArtifactClasses of Some c \<Rightarrow> Inr c | None \<Rightarrow> Inl ErrInvalid)"

section \<open>Transfers\<close>

datatype transfer_state = TransferBegun | TransferFinalized | TransferRejected | TransferExpired

abbreviation ReasonDeadlineExceeded :: string where
  "ReasonDeadlineExceeded \<equiv> ''DEADLINE_EXCEEDED''"

abbreviation ReasonSizeMismatch :: string where
  "ReasonSizeMismatch \<equiv> ''SIZE_MISMATCH''"

abbreviation ReasonDigestMismatch :: string where
  "ReasonDigestMismatch \<equiv> ''DIGEST_MISMATCH''"

abbreviation ReasonStaleExecution :: string where
  "ReasonStaleExecution \<equiv> ''STALE_EXECUTION''"

record transfer =
  t_ID :: string
  t_TenantID :: string
  t_ActorID :: string
  t_OperationID :: string
  t_AttemptID :: string
  t_Class :: artifact_class
  t_MediaType :: string
  t_ExpectedDigest :: digest
  t_ExpectedSize :: int
  t_Handle :: string
  t_State :: transfer_state
  t_ObjectKey :: string
  t_ObjectVersion :: string
  t_ActualSize :: int
  t_ActualDigest :: digest
  t_ReasonCode :: string
  t_CommandID :: string
  t_RequestDigest :: digest
  t_FinalizeCommandID :: string
  t_FinalizeRequestDigest :: digest
  t_ExecutionEpoch :: u64
  t_RecoveryEpoch :: u64
  t_Deadline :: instant
  t_CreatedAt :: instant
  t_UpdatedAt :: instant
  t_FinalizedAt :: "instant option"

record transfer_request =
  tr_Class :: artifact_class
  tr_MediaType :: string
  tr_ExpectedDigest :: digest
  tr_ExpectedSize :: int
  tr_OperationID :: string
  tr_AttemptID :: string
  tr_Deadline :: instant

record transfer_limits =
  tl_MaxObjectBytes :: int
  tl_MaxWindow :: duration

record transfer_context =
  tc_Now :: instant
  tc_Operation :: "operation option"
  tc_Attempt :: "attempt option"
  tc_Limits :: transfer_limits

definition is_space :: "char \<Rightarrow> bool" where
  "is_space c \<longleftrightarrow> (of_char c :: nat) \<in> {9, 10, 11, 12, 13, 32}"

text \<open>The scope of a bound transfer: the epochs it takes and the deadline it is cut down to.\<close>

definition transfer_scope ::
  "scope \<Rightarrow> transfer_request \<Rightarrow> transfer_context \<Rightarrow> instant \<Rightarrow> err + (u64 \<times> u64 \<times> instant)" where
  "transfer_scope s req c deadline =
     (case tc_Operation c of
        None \<Rightarrow> Inl ErrNotFound
      | Some ops \<Rightarrow>
          if op_ID ops \<noteq> tr_OperationID req \<or> op_TenantID ops \<noteq> sc_TenantID s then Inl ErrNotFound
          else if FencedForNewDispatch ops then Inl ErrStaleExecution
          else let d1 = (if deadline > EffectiveDeadline ops then EffectiveDeadline ops else deadline);
                   ok = (\<lambda>d. if \<not> d > tc_Now c then Inl ErrStaleExecution
                             else Inr (op_ExecutionEpoch ops, op_RecoveryEpoch ops, d))
               in if tr_AttemptID req \<noteq> []
                  then (case tc_Attempt c of
                          None \<Rightarrow> Inl ErrNotFound
                        | Some at \<Rightarrow>
                            if at_ID at \<noteq> tr_AttemptID req \<or> at_OperationID at \<noteq> op_ID ops then Inl ErrNotFound
                            else if at_ExecutionEpoch at \<noteq> op_ExecutionEpoch ops then Inl ErrStaleExecution
                            else if at_State at = AttemptClosed \<or> at_State at = AttemptResultAccepted then Inl ErrStaleExecution
                            else ok (if d1 > at_Deadline at then at_Deadline at else d1))
                  else ok d1)"

definition NewTransfer ::
  "string \<Rightarrow> string \<Rightarrow> command_identity \<Rightarrow> scope \<Rightarrow> transfer_request \<Rightarrow> transfer_context \<Rightarrow> err + transfer" where
  "NewTransfer new_id new_handle cmd s req c =
     (case ParseArtifactClass (class_string (tr_Class req)) of
        Inl e \<Rightarrow> Inl e
      | Inr _ \<Rightarrow>
        if list_all is_space (tr_MediaType req) \<or> length (tr_MediaType req) > 128 then Inl ErrInvalid
        else case ParseDigest (tr_ExpectedDigest req) of
          Inl e \<Rightarrow> Inl e
        | Inr _ \<Rightarrow>
          if tr_ExpectedSize req < 0 then Inl ErrInvalid
          else if tl_MaxObjectBytes (tc_Limits c) > 0 \<and> tr_ExpectedSize req > tl_MaxObjectBytes (tc_Limits c)
            then Inl ErrInvalid
          else let deadline = truncate_us (tr_Deadline req)
          in if \<not> deadline > tc_Now c then Inl ErrStaleExecution
          else if tl_MaxWindow (tc_Limits c) > 0 \<and> deadline > tc_Now c + tl_MaxWindow (tc_Limits c) then Inl ErrInvalid
          else if tr_AttemptID req \<noteq> [] \<and> tr_OperationID req = [] then Inl ErrInvalid
          else case (if tr_OperationID req \<noteq> [] then transfer_scope s req c deadline else Inr (1, 1, deadline)) of
            Inl e \<Rightarrow> Inl e
          | Inr (execEpoch, recEpoch, d) \<Rightarrow>
              Inr \<lparr>t_ID = new_id, t_TenantID = sc_TenantID s, t_ActorID = sc_ActorID s,
                t_OperationID = tr_OperationID req, t_AttemptID = tr_AttemptID req, t_Class = tr_Class req,
                t_MediaType = tr_MediaType req, t_ExpectedDigest = tr_ExpectedDigest req,
                t_ExpectedSize = tr_ExpectedSize req, t_Handle = new_handle, t_State = TransferBegun,
                t_ObjectKey = sc_TenantID s @ ''/'' @ class_string (tr_Class req) @ ''/'' @ new_id,
                t_ObjectVersion = [], t_ActualSize = 0, t_ActualDigest = [], t_ReasonCode = [],
                t_CommandID = cmd_CommandID cmd, t_RequestDigest = cmd_RequestDigest cmd,
                t_FinalizeCommandID = [], t_FinalizeRequestDigest = [], t_ExecutionEpoch = execEpoch,
                t_RecoveryEpoch = recEpoch, t_Deadline = d, t_CreatedAt = tc_Now c, t_UpdatedAt = tc_Now c,
                t_FinalizedAt = None\<rparr>)"

definition Transfer_Binds :: "transfer \<Rightarrow> scope \<Rightarrow> transfer_request \<Rightarrow> digest \<Rightarrow> err option" where
  "Transfer_Binds t s req dig =
     (if t_TenantID t \<noteq> sc_TenantID s then Some ErrNotFound
      else if t_RequestDigest t \<noteq> dig then Some ErrIdempotencyConflict
      else if t_Class t \<noteq> tr_Class req then Some ErrIdempotencyConflict
      else if t_MediaType t \<noteq> tr_MediaType req then Some ErrIdempotencyConflict
      else if t_ExpectedDigest t \<noteq> tr_ExpectedDigest req then Some ErrIdempotencyConflict
      else if t_ExpectedSize t \<noteq> tr_ExpectedSize req then Some ErrIdempotencyConflict
      else if t_OperationID t \<noteq> tr_OperationID req then Some ErrIdempotencyConflict
      else if t_AttemptID t \<noteq> tr_AttemptID req then Some ErrIdempotencyConflict
      else None)"

definition Transfer_InScope :: "transfer \<Rightarrow> string \<Rightarrow> bool" where
  "Transfer_InScope t tenantID \<longleftrightarrow> t_TenantID t = tenantID"

record scope_context =
  sx_Now :: instant
  sx_Operation :: "operation option"
  sx_Attempt :: "attempt option"
  sx_Instance :: "inst option"

definition Transfer_current :: "transfer \<Rightarrow> scope_context \<Rightarrow> err option" where
  "Transfer_current t c =
     (if t_OperationID t = [] then None
      else case sx_Operation c of
        None \<Rightarrow> Some ErrNotFound
      | Some ops \<Rightarrow>
          if op_ID ops \<noteq> t_OperationID t then Some ErrNotFound
          else if FencedForNewDispatch ops then Some ErrStaleExecution
          else if op_ExecutionEpoch ops \<noteq> t_ExecutionEpoch t \<or> op_RecoveryEpoch ops \<noteq> t_RecoveryEpoch t
            then Some ErrStaleExecution
          else if t_AttemptID t \<noteq> []
          then (case sx_Attempt c of
                  None \<Rightarrow> Some ErrNotFound
                | Some at \<Rightarrow>
                    if at_ID at \<noteq> t_AttemptID t \<or> at_OperationID at \<noteq> op_ID ops then Some ErrNotFound
                    else if at_ExecutionEpoch at \<noteq> op_ExecutionEpoch ops then Some ErrStaleExecution
                    else if at_State at = AttemptClosed \<or> at_State at = AttemptResultAccepted then Some ErrStaleExecution
                    else None)
          else None)"

definition Reissuable :: "transfer \<Rightarrow> scope_context \<Rightarrow> err option" where
  "Reissuable t c =
     (if t_State t \<noteq> TransferBegun then Some ErrStaleExecution
      else if \<not> sx_Now c < t_Deadline t then Some ErrStaleExecution
      else Transfer_current t c)"

definition Resolvable :: "transfer \<Rightarrow> scope_context \<Rightarrow> err option" where
  "Resolvable t c =
     (if t_State t \<noteq> TransferBegun then Some ErrStaleExecution
      else if \<not> sx_Now c < t_Deadline t then Some ErrStaleExecution
      else if t_AttemptID t = [] then Some ErrForbidden
      else case sx_Instance c of
        None \<Rightarrow> Some ErrNotFound
      | Some i \<Rightarrow>
          if inst_AttemptID i \<noteq> t_AttemptID t then Some ErrNotFound
          else if \<not> inst_Current i then Some ErrStaleExecution
          else Transfer_current t c)"

record object_facts =
  of_Version :: string
  of_Size :: int
  of_Digest :: digest
  of_Head :: string

definition Finalizable :: "transfer \<Rightarrow> scope_context \<Rightarrow> transfer \<times> err option" where
  "Finalizable t c =
     (case t_State t of
        TransferFinalized \<Rightarrow> (t, None)
      | TransferBegun \<Rightarrow>
          if \<not> sx_Now c < t_Deadline t
          then (t\<lparr>t_State := TransferExpired, t_ReasonCode := ReasonDeadlineExceeded, t_UpdatedAt := sx_Now c\<rparr>,
                Some ErrStaleExecution)
          else (case Transfer_current t c of
                  Some e \<Rightarrow> (t\<lparr>t_State := TransferRejected, t_ReasonCode := ReasonStaleExecution, t_UpdatedAt := sx_Now c\<rparr>,
                             Some e)
                | None \<Rightarrow> (t, None))
      | _ \<Rightarrow> (t, Some ErrStaleExecution))"

definition Finalize :: "transfer \<Rightarrow> command_identity \<Rightarrow> object_facts \<Rightarrow> instant \<Rightarrow> transfer \<times> err option" where
  "Finalize t cmd facts now =
     (if t_State t \<noteq> TransferBegun then (t, Some ErrStaleExecution)
      else if of_Version facts = [] then (t, Some ErrInvalid)
      else if of_Size facts \<noteq> t_ExpectedSize t
        then (t\<lparr>t_State := TransferRejected, t_ReasonCode := ReasonSizeMismatch, t_UpdatedAt := now\<rparr>, Some ErrInvalid)
      else if of_Digest facts \<noteq> t_ExpectedDigest t
        then (t\<lparr>t_State := TransferRejected, t_ReasonCode := ReasonDigestMismatch, t_UpdatedAt := now\<rparr>, Some ErrInvalid)
      else (t\<lparr>t_State := TransferFinalized, t_ObjectVersion := of_Version facts, t_ActualSize := of_Size facts,
              t_ActualDigest := of_Digest facts, t_FinalizeCommandID := cmd_CommandID cmd,
              t_FinalizeRequestDigest := cmd_RequestDigest cmd, t_FinalizedAt := Some now, t_UpdatedAt := now\<rparr>, None))"

definition Transfer_Reject :: "transfer \<Rightarrow> string \<Rightarrow> instant \<Rightarrow> transfer" where
  "Transfer_Reject t reason now =
     (if t_State t = TransferBegun
      then t\<lparr>t_State := TransferRejected, t_ReasonCode := reason, t_UpdatedAt := now\<rparr> else t)"

definition Reenters :: "transfer \<Rightarrow> command_identity \<Rightarrow> string \<Rightarrow> err option" where
  "Reenters t cmd objectVersion =
     (if t_State t \<noteq> TransferFinalized then None
      else if t_FinalizeCommandID t = cmd_CommandID cmd \<and> t_FinalizeRequestDigest t = cmd_RequestDigest cmd \<and>
              t_ObjectVersion t = objectVersion then None
      else Some ErrIdempotencyConflict)"

section \<open>Result manifests\<close>

record manifest_output =
  mo_Class :: string
  mo_Digest :: digest
  mo_SizeBytes :: int
  mo_Handle :: string

record result_manifest =
  rm_LaunchID :: string
  rm_AttemptID :: string
  rm_JobKind :: string
  rm_ProfileID :: string
  rm_Verdict :: verdict
  rm_FailureCode :: string
  rm_Outputs :: "manifest_output list"

record fixed_result =
  fr_Digest :: digest
  fr_SizeBytes :: int

record job_profile =
  jp_ID :: string
  jp_JobKind :: string
  jp_CandidateCode :: bool
  jp_ExpectedResult :: "fixed_result option"

definition prescribesFixedResult :: "job_profile \<Rightarrow> verdict \<Rightarrow> bool" where
  "prescribesFixedResult p vd \<longleftrightarrow> jp_ExpectedResult p \<noteq> None \<and> \<not> jp_CandidateCode p \<and> vd = VerdictCertified"

definition isFixedResult :: "job_profile \<Rightarrow> manifest_output \<Rightarrow> bool" where
  "isFixedResult p out \<longleftrightarrow>
     (case jp_ExpectedResult p of
        None \<Rightarrow> False
      | Some f \<Rightarrow> mo_Class out = class_string ArtifactResult \<and> mo_Digest out = fr_Digest f \<and>
                  mo_SizeBytes out = fr_SizeBytes f)"

definition Claims :: "result_manifest \<Rightarrow> string \<Rightarrow> string \<Rightarrow> verdict \<Rightarrow> string \<Rightarrow> job_profile \<Rightarrow> err option" where
  "Claims m attemptID profileID vd failureCode prof =
     (if rm_AttemptID m \<noteq> attemptID \<or> rm_ProfileID m \<noteq> profileID \<or> rm_Verdict m \<noteq> vd then Some ErrInvalid
      else if rm_FailureCode m \<noteq> failureCode then Some ErrInvalid
      else if jp_ID prof \<noteq> profileID then Some ErrInvalid
      else if rm_JobKind m \<noteq> jp_JobKind prof then Some ErrInvalid
      else None)"

definition Delivers :: "result_manifest \<Rightarrow> job_profile \<Rightarrow> err option" where
  "Delivers m prof =
     (if \<not> prescribesFixedResult prof (rm_Verdict m) then None
      else let fixed = foldl (\<lambda>n out. if isFixedResult prof out then n + 1 else n) (0 :: nat) (rm_Outputs m)
           in if fixed = 1 then None else Some ErrInvalid)"

definition ProducedBy :: "result_manifest \<Rightarrow> inst option \<Rightarrow> err option" where
  "ProducedBy m i =
     (case i of
        None \<Rightarrow> Some ErrStaleExecution
      | Some x \<Rightarrow> if rm_LaunchID m \<noteq> inst_LaunchID x then Some ErrStaleExecution else None)"

definition EmbeddedOutput :: "job_profile \<Rightarrow> manifest_output \<Rightarrow> verdict \<Rightarrow> err option" where
  "EmbeddedOutput p out vd =
     (if jp_ExpectedResult p = None \<or> jp_CandidateCode p then Some ErrInvalid
      else if mo_Class out \<noteq> class_string ArtifactResult then Some ErrInvalid
      else if \<not> isFixedResult p out then Some ErrInvalid
      else if vd \<noteq> VerdictCertified then Some ErrInvalid
      else None)"

definition outputClasses :: "(string \<times> artifact_class) list" where
  "outputClasses =
     [(''source'', ArtifactSource), (''stage'', ArtifactStage), (''evidence'', ArtifactEvidence),
      (''result'', ArtifactResult), (''npm'', ArtifactNpm), (''browser'', ArtifactBrowser), (''css'', ArtifactCSS)]"

definition BindArtifact :: "manifest_output \<Rightarrow> transfer option \<Rightarrow> operation \<Rightarrow> attempt \<Rightarrow> err + stage_artifact" where
  "BindArtifact out t ops at =
     (case map_of outputClasses (mo_Class out) of
        None \<Rightarrow> Inl ErrInvalid
      | Some cls \<Rightarrow>
          (case t of
             None \<Rightarrow> Inl ErrStaleExecution
           | Some x \<Rightarrow>
               if t_TenantID x \<noteq> at_TenantID at \<or> t_OperationID x \<noteq> op_ID ops \<or>
                  (t_AttemptID x \<noteq> [] \<and> t_AttemptID x \<noteq> at_ID at) then Inl ErrStaleExecution
               else if t_State x \<noteq> TransferFinalized then Inl ErrStaleExecution
               else if t_ExecutionEpoch x \<noteq> op_ExecutionEpoch ops \<or> t_RecoveryEpoch x \<noteq> op_RecoveryEpoch ops
                 then Inl ErrStaleExecution
               else if t_Class x \<noteq> cls then Inl ErrInvalid
               else if t_ActualDigest x \<noteq> mo_Digest out \<or> t_ActualSize x \<noteq> mo_SizeBytes out then Inl ErrInvalid
               else Inr \<lparr>sa_StageID = [], sa_TransferID = t_ID x, sa_Handle = t_Handle x, sa_Class = t_Class x,
                         sa_Digest = t_ActualDigest x, sa_SizeBytes = t_ActualSize x,
                         sa_ObjectVersion = t_ObjectVersion x\<rparr>))"

end
