(* ===== verification/Preparation.thy ===== *)
theory Preparation
  imports Artifact Effect
begin

text \<open>
  \<open>internal/domain/preparation.go\<close>: clarification rounds and their answers, the frozen brief
  with the component identity it allocates, and the identity recorded for a component
  lineage. \<open>utf8.RuneCountInString\<close> counts the bytes that are not UTF-8 continuation bytes,
  which is the number of characters of the valid UTF-8 strings the transport delivers.
\<close>

section \<open>Clarification rounds\<close>

datatype question_set_state = QuestionSetOpen | QuestionSetAnswered | QuestionSetExpired | QuestionSetSuperseded

record question =
  q_ID :: string
  q_Text :: string

record question_set =
  qs_ID :: string
  qs_OperationID :: string
  qs_TenantID :: string
  qs_Revision :: u64
  qs_Round :: u64
  qs_Questions :: "question list"
  qs_State :: question_set_state
  qs_CommandID :: string
  qs_RequestDigest :: digest
  qs_AskedAt :: instant
  qs_ExpiresAt :: instant

text \<open>The loop over the questions with the set of identifiers seen so far.\<close>

fun distinct_questions :: "string set \<Rightarrow> question list \<Rightarrow> bool" where
  "distinct_questions seen [] = True"
| "distinct_questions seen (q # qs) =
     (if q_ID q = [] \<or> q_Text q = [] \<or> q_ID q \<in> seen then False
      else distinct_questions (insert (q_ID q) seen) qs)"

definition NewQuestionSet ::
  "string \<Rightarrow> operation \<Rightarrow> profile \<Rightarrow> command_identity \<Rightarrow> u64 \<Rightarrow> question list \<Rightarrow> bool \<Rightarrow> instant \<Rightarrow> err + question_set" where
  "NewQuestionSet new_id ops prof cmd round questions openExists now =
     (let b = pf_Clarification prof in
      if op_Kind ops \<noteq> KindPreparation then Inl ErrInvalid
      else if FencedForNewDispatch ops then Inl ErrStaleExecution
      else if op_Intake ops \<noteq> IntakeConfirmed then Inl ErrStaleExecution
      else if round = 0 \<or> round > cb_MaxRounds b then Inl ErrInvalid
      else if length questions = 0 \<or> length questions > unat (cb_MaxQuestions b) then Inl ErrInvalid
      else if \<not> distinct_questions {} questions then Inl ErrInvalid
      else if openExists then Inl ErrStaleExecution
      else if cb_Wait b \<le> 0 then Inl ErrProfileUnqualified
      else let asked = truncate_us now; expires = asked + cb_Wait b
           in if \<not> expires < op_Deadline ops then Inl ErrStaleExecution
              else Inr \<lparr>qs_ID = new_id, qs_OperationID = op_ID ops, qs_TenantID = op_TenantID ops, qs_Revision = 1,
                qs_Round = round, qs_Questions = questions, qs_State = QuestionSetOpen, qs_CommandID = cmd_CommandID cmd,
                qs_RequestDigest = cmd_RequestDigest cmd, qs_AskedAt = asked, qs_ExpiresAt = expires\<rparr>)"

definition QuestionSet_Expired :: "question_set \<Rightarrow> instant \<Rightarrow> bool" where
  "QuestionSet_Expired q now \<longleftrightarrow> \<not> now < qs_ExpiresAt q"

section \<open>Answers\<close>

datatype answer_relay_state = AnswerRelayPending | AnswerRelaySent | AnswerRelayApplied | AnswerRelayRejected

record answer =
  an_ID :: string
  an_OperationID :: string
  an_TenantID :: string
  an_ActorID :: string
  an_QuestionSetID :: string
  an_QuestionSetRevision :: u64
  an_Answer :: artifact_binding
  an_Handle :: string
  an_UpdateID :: string
  an_CommandID :: string
  an_RequestDigest :: digest
  an_Relay :: answer_relay_state
  an_AcceptedAt :: instant
  an_RelayedAt :: "instant option"

text \<open>A finalized transfer holds the digest a binding names.\<close>

definition holds_digest :: "transfer \<Rightarrow> artifact_binding \<Rightarrow> bool" where
  "holds_digest t b \<longleftrightarrow>
     \<not> (t_ExpectedDigest t \<noteq> ab_Digest b \<or> (t_ActualDigest t \<noteq> [] \<and> t_ActualDigest t \<noteq> ab_Digest b))"

definition NewAnswer ::
  "string \<Rightarrow> operation \<Rightarrow> question_set \<Rightarrow> transfer option \<Rightarrow> command_identity \<Rightarrow> u64 \<Rightarrow> artifact_binding \<Rightarrow> instant \<Rightarrow>
   err + answer" where
  "NewAnswer new_id ops qs t cmd rvn binding now =
     (if qs_OperationID qs \<noteq> op_ID ops \<or> qs_TenantID qs \<noteq> op_TenantID ops \<or> op_TenantID ops \<noteq> cmd_TenantID cmd
        then Inl ErrNotFound
      else if Lifecycle_Terminal (op_Lifecycle ops) \<or> op_Control ops \<noteq> ControlNone then Inl ErrStaleExecution
      else if qs_Revision qs \<noteq> rvn then Inl ErrRevisionConflict
      else if qs_State qs \<noteq> QuestionSetOpen then Inl ErrStaleExecution
      else if QuestionSet_Expired qs now then Inl ErrStaleExecution
      else case t of
        None \<Rightarrow> Inl ErrInvalid
      | Some x \<Rightarrow>
          if t_TenantID x \<noteq> op_TenantID ops then Inl ErrInvalid
          else if t_State x \<noteq> TransferFinalized \<or> t_Class x \<noteq> ArtifactAnswer then Inl ErrInvalid
          else if \<not> holds_digest x binding then Inl ErrInvalid
          else if t_OperationID x \<noteq> [] \<and> t_OperationID x \<noteq> op_ID ops then Inl ErrInvalid
          else Inr \<lparr>an_ID = new_id, an_OperationID = op_ID ops, an_TenantID = op_TenantID ops, an_ActorID = cmd_ActorID cmd,
            an_QuestionSetID = qs_ID qs, an_QuestionSetRevision = qs_Revision qs, an_Answer = binding,
            an_Handle = t_Handle x, an_UpdateID = new_id, an_CommandID = cmd_CommandID cmd,
            an_RequestDigest = cmd_RequestDigest cmd, an_Relay = AnswerRelayPending, an_AcceptedAt = now,
            an_RelayedAt = None\<rparr>)"

section \<open>Briefs\<close>

datatype brief_state = BriefCurrent | BriefSuperseded

record content_digest =
  cn_SourceID :: string
  cn_Revision :: u64
  cn_Digest :: digest

record component_identity =
  ci_ComponentID :: string
  ci_PuckType :: string
  ci_PackageName :: string

definition is_upper_az :: "char \<Rightarrow> bool" where
  "is_upper_az c \<longleftrightarrow> 65 \<le> (of_char c :: nat) \<and> (of_char c :: nat) \<le> 90"

definition is_alnum :: "char \<Rightarrow> bool" where
  "is_alnum c \<longleftrightarrow> is_digit c \<or> is_upper_az c \<or> (97 \<le> (of_char c :: nat) \<and> (of_char c :: nat) \<le> 122)"

text \<open>The patterns \<open>^[A-Za-z0-9][A-Za-z0-9._:-]{0,127}$\<close> and \<open>^[A-Z][A-Za-z0-9]{0,63}$\<close>.\<close>

definition componentIDPattern :: "string \<Rightarrow> bool" where
  "componentIDPattern s \<longleftrightarrow> s \<noteq> [] \<and> length s \<le> 128 \<and> is_alnum (hd s) \<and>
     list_all (\<lambda>c. is_alnum c \<or> c \<in> set ''._:-'') (tl s)"

definition puckTypePattern :: "string \<Rightarrow> bool" where
  "puckTypePattern s \<longleftrightarrow> s \<noteq> [] \<and> length s \<le> 64 \<and> is_upper_az (hd s) \<and> list_all is_alnum (tl s)"

definition rune_count :: "string \<Rightarrow> nat" where
  "rune_count s = length (filter (\<lambda>c. \<not> (128 \<le> (of_char c :: nat) \<and> (of_char c :: nat) < 192)) s)"

definition ComponentIdentity_Validate :: "component_identity \<Rightarrow> err option" where
  "ComponentIdentity_Validate c =
     (if \<not> componentIDPattern (ci_ComponentID c) \<or> \<not> puckTypePattern (ci_PuckType c) \<or>
         rune_count (ci_PackageName c) < 1 \<or> rune_count (ci_PackageName c) > 214
      then Some ErrInvalid else None)"

record brief =
  br_ID :: string
  br_OperationID :: string
  br_TenantID :: string
  br_Revision :: u64
  br_Brief :: artifact_binding
  br_Handle :: string
  br_RequirementsDigest :: digest
  br_SourceRevisions :: "source_reference list"
  br_BrandDigests :: "content_digest list"
  br_AssetDigests :: "content_digest list"
  br_State :: brief_state
  br_CommandID :: string
  br_RequestDigest :: digest
  br_FrozenAt :: instant
  br_Component :: "component_identity option"

text \<open>The map of the wanted revisions, the last reference to a source winning, and the loop
  over the frozen digests with the sources seen so far.\<close>

definition wanted_revisions :: "source_reference list \<Rightarrow> (string \<rightharpoonup> u64)" where
  "wanted_revisions refs = foldl (\<lambda>m r. m(sr_SourceID r \<mapsto> sr_Revision r)) Map.empty refs"

fun frozen_once :: "(string \<rightharpoonup> u64) \<Rightarrow> string set \<Rightarrow> content_digest list \<Rightarrow> err option" where
  "frozen_once want seen [] = None"
| "frozen_once want seen (d # ds) =
     (if want (cn_SourceID d) \<noteq> Some (cn_Revision d) \<or> cn_SourceID d \<in> seen \<or> cn_Digest d = [] then Some ErrInvalid
      else frozen_once want (insert (cn_SourceID d) seen) ds)"

definition frozenReferences :: "source_reference list \<Rightarrow> content_digest list \<Rightarrow> err option" where
  "frozenReferences refs digests =
     (if length refs \<noteq> length digests then Some ErrInvalid
      else frozen_once (wanted_revisions refs) {} digests)"

definition NewBrief ::
  "string \<Rightarrow> operation \<Rightarrow> transfer option \<Rightarrow> command_identity \<Rightarrow> u64 \<Rightarrow> artifact_binding \<Rightarrow> digest \<Rightarrow> source_reference list \<Rightarrow>
   content_digest list \<Rightarrow> content_digest list \<Rightarrow> component_identity option \<Rightarrow> instant \<Rightarrow> err + brief" where
  "NewBrief new_id ops t cmd rvn binding requirements sources brands assets component now =
     (case op_Preparation ops of
        None \<Rightarrow> Inl ErrInvalid
      | Some intake \<Rightarrow>
        if op_Kind ops \<noteq> KindPreparation then Inl ErrInvalid
        else if FencedForNewDispatch ops then Inl ErrStaleExecution
        else case t of
          None \<Rightarrow> Inl ErrInvalid
        | Some x \<Rightarrow>
          if t_TenantID x \<noteq> op_TenantID ops \<or> t_OperationID x \<noteq> op_ID ops then Inl ErrInvalid
          else if t_State x \<noteq> TransferFinalized \<or> t_Class x \<noteq> ArtifactBrief then Inl ErrInvalid
          else if \<not> holds_digest x binding then Inl ErrInvalid
          else if requirements = [] then Inl ErrInvalid
          else case first_err [frozenReferences (pi_BrandReferences intake) brands,
                               frozenReferences (pi_AssetReferences intake) assets,
                               (case component of None \<Rightarrow> None | Some ci \<Rightarrow> ComponentIdentity_Validate ci)] of
            Some e \<Rightarrow> Inl e
          | None \<Rightarrow>
              Inr \<lparr>br_ID = new_id, br_OperationID = op_ID ops, br_TenantID = op_TenantID ops, br_Revision = rvn,
                br_Brief = binding, br_Handle = t_Handle x, br_RequirementsDigest = requirements,
                br_SourceRevisions = sources, br_BrandDigests = brands, br_AssetDigests = assets,
                br_State = BriefCurrent, br_CommandID = cmd_CommandID cmd, br_RequestDigest = cmd_RequestDigest cmd,
                br_FrozenAt = now, br_Component = component\<rparr>)"

definition StartsGeneration :: "brief \<Rightarrow> string \<Rightarrow> err option" where
  "StartsGeneration b tenantID =
     (if br_TenantID b \<noteq> tenantID then Some ErrNotFound
      else if br_State b \<noteq> BriefCurrent then Some ErrStaleExecution
      else None)"

section \<open>Lineage identities\<close>

record lineage_identity =
  li_TenantID :: string
  li_Lineage :: digest
  li_Identity :: component_identity
  li_OperationID :: string
  li_BriefID :: string
  li_RecordedAt :: instant

abbreviation DenyIdentityMismatch :: string where
  "DenyIdentityMismatch \<equiv> ''IDENTITY_MISMATCH''"

abbreviation IdentityUnallocated :: string where
  "IdentityUnallocated \<equiv> ''IDENTITY_UNALLOCATED''"

definition BindsLineage :: "operation \<Rightarrow> effect_request \<Rightarrow> bool" where
  "BindsLineage ops req \<longleftrightarrow>
     op_Kind ops = KindGeneration \<and> sj_BriefID (op_Subject ops) \<noteq> [] \<and> er_Kind req = EffectBusinessWrite \<and>
     er_CanonicalSubject req = ''source:'' @ sj_SubjectDigest (op_Subject ops)"

definition CheckLineageIdentity :: "lineage_identity \<Rightarrow> component_identity \<Rightarrow> err option" where
  "CheckLineageIdentity recorded allocated =
     (if li_Identity recorded \<noteq> allocated then Some (Denial DenyIdentityMismatch) else None)"

section \<open>Properties\<close>

lemma distinct_questions_iff:
  "distinct_questions seen qs \<longleftrightarrow>
     distinct (map q_ID qs) \<and> (\<forall>q \<in> set qs. q_ID q \<noteq> [] \<and> q_Text q \<noteq> [] \<and> q_ID q \<notin> seen)"
  by (induction qs arbitrary: seen) (auto simp: image_iff)

lemma frozen_once_None_iff:
  "frozen_once want seen ds = None \<longleftrightarrow>
     distinct (map cn_SourceID ds) \<and>
     (\<forall>d \<in> set ds. want (cn_SourceID d) = Some (cn_Revision d) \<and> cn_SourceID d \<notin> seen \<and> cn_Digest d \<noteq> [])"
  by (induction ds arbitrary: seen) (auto simp: image_iff)

lemma wanted_revisions_Some:
  "wanted_revisions refs s = Some r \<Longrightarrow> \<exists>x \<in> set refs. sr_SourceID x = s \<and> sr_Revision x = r"
  by (induction refs rule: rev_induct) (auto simp: wanted_revisions_def split: if_splits)

text \<open>A frozen brief freezes exactly the references of the intake: when the check passes,
  the source identifiers and revisions of the frozen digests are a rearrangement of those of the
  intake's references, none twice, each with a content digest.\<close>

theorem frozenReferences_exact:
  assumes "frozenReferences refs digests = None"
  shows "set (map (\<lambda>d. (cn_SourceID d, cn_Revision d)) digests) = set (map (\<lambda>r. (sr_SourceID r, sr_Revision r)) refs) \<and>
    distinct (map sr_SourceID refs) \<and> distinct (map cn_SourceID digests) \<and> [] \<notin> set (map cn_Digest digests)"
proof -
  let ?D = "map (\<lambda>d. (cn_SourceID d, cn_Revision d)) digests" and ?R = "map (\<lambda>r. (sr_SourceID r, sr_Revision r)) refs"
  from assms have len: "length refs = length digests" and f: "frozen_once (wanted_revisions refs) {} digests = None"
    by (simp_all add: frozenReferences_def split: if_splits)
  then have dist: "distinct (map cn_SourceID digests)" and dig: "[] \<notin> set (map cn_Digest digests)"
    and want: "\<And>d. d \<in> set digests \<Longrightarrow> wanted_revisions refs (cn_SourceID d) = Some (cn_Revision d)"
    by (auto simp: frozen_once_None_iff)
  have sub: "set ?D \<subseteq> set ?R"
  proof
    fix x assume "x \<in> set ?D"
    then obtain d where d: "d \<in> set digests" "x = (cn_SourceID d, cn_Revision d)" by auto
    from wanted_revisions_Some [OF want [OF d(1)]] d(2) show "x \<in> set ?R" by force
  qed
  have "distinct ?D" using dist by (auto simp: distinct_map inj_on_def)
  then have "card (set ?D) = length digests" using distinct_card [of ?D] by simp
  moreover have "card (set ?R) \<le> length refs" using card_length [of ?R] by simp
  ultimately have eq: "set ?D = set ?R" using card_subset_eq [OF _ sub] card_mono [OF _ sub] len by force
  have "card (set (map sr_SourceID refs)) = length refs"
  proof -
    have "set (map sr_SourceID refs) = fst ` set ?R" by force
    also have "\<dots> = fst ` set ?D" by (simp only: eq)
    also have "\<dots> = set (map cn_SourceID digests)" by force
    finally show ?thesis using distinct_card [OF dist] len by simp
  qed
  then have "distinct (map sr_SourceID refs)" by (intro card_distinct) simp
  with eq dist dig show ?thesis by simp
qed

theorem frozenReferences_exact_witness:
  "set (map (\<lambda>d. (cn_SourceID d, cn_Revision d))
      [\<lparr>cn_SourceID = ''b'', cn_Revision = 4, cn_Digest = ''y''\<rparr>, \<lparr>cn_SourceID = ''a'', cn_Revision = 3, cn_Digest = ''x''\<rparr>]) =
   set (map (\<lambda>r. (sr_SourceID r, sr_Revision r))
      [\<lparr>sr_SourceID = ''a'', sr_Revision = 3\<rparr>, \<lparr>sr_SourceID = ''b'', sr_Revision = 4\<rparr>])"
proof -
  have "frozenReferences [\<lparr>sr_SourceID = ''a'', sr_Revision = 3\<rparr>, \<lparr>sr_SourceID = ''b'', sr_Revision = 4\<rparr>]
      [\<lparr>cn_SourceID = ''b'', cn_Revision = 4, cn_Digest = ''y''\<rparr>, \<lparr>cn_SourceID = ''a'', cn_Revision = 3, cn_Digest = ''x''\<rparr>] = None"
    by (simp add: frozenReferences_def wanted_revisions_def)
  from frozenReferences_exact [OF this] show ?thesis by blast
qed

end
