(* ===== verification/Release.thy ===== *)
theory Release
  imports Preparation Projection "HOL-Library.List_Lexorder" "HOL-Library.Char_ord"
begin

text \<open>
  \<open>internal/domain/release.go\<close>: the committed projection of a release operation, the subject
  whose digest an approval names, the checks of every recorded transition and the refusal
  of a release mutation that the projection does not authorize.

  \<^item> SHA-256 is the parameter \<open>sha256\<close>, a function from bytes to 64 hexadecimal digits.
  \<^item> Two subjects (or approvals) whose JSON forms are equal bytes are equal records.
  \<^item> \<open>canonical_json\<close> writes the JSON text of the subject with sorted keys; a byte that is
    neither a control character, a quotation mark nor a backslash stands for itself, as in
    valid UTF-8 without line and paragraph separators.
  \<^item> \<open>slices.SortFunc\<close> sorts the stylesheets by digest; entries with the same digest keep
    their order here, an order the Go function leaves open.
\<close>

section \<open>Records\<close>

datatype release_state =
    ReleaseCertifying | ReleaseAwaitingApproval | ReleasePublishing | ReleasePublished | ReleaseActivated
  | ReleasePartiallyPublished | ReleaseReconciling | ReleaseRejected | ReleaseFailed

datatype approval_state = ApprovalPending | ApprovalApproved | ApprovalRejected | ApprovalInvalidated

datatype target_state = TargetPending | TargetSucceeded | TargetFailed | TargetUnknown | TargetStateOther string

record artifact_digest_ref =
  ar_Digest :: digest
  ar_SizeBytes :: string

record release_destinations =
  rd_NpmRegistry :: string
  rd_BrowserOrigin :: string

record release_subject =
  rs_SchemaVersion :: int
  rs_ComponentID :: string
  rs_PuckType :: string
  rs_SourceRevision :: string
  rs_SourceDigest :: digest
  rs_PackageName :: string
  rs_Version :: string
  rs_Npm :: artifact_digest_ref
  rs_Browser :: artifact_digest_ref
  rs_CSS :: "artifact_digest_ref list"
  rs_BuildProfileID :: string
  rs_BuildProfileDigest :: digest
  rs_ValidatorProfileID :: string
  rs_ValidatorProfileDigest :: digest
  rs_HostAbi :: string
  rs_HostAbiDigest :: digest
  rs_Destinations :: release_destinations
  rs_CertificationEvidenceDigest :: digest
  rs_SubjectDigest :: digest

section \<open>The subject digest\<close>

definition hex_digit :: "nat \<Rightarrow> char" where
  "hex_digit n = (''0123456789abcdef'') ! (n mod 16)"

definition json_escape :: "char \<Rightarrow> string" where
  "json_escape c =
     (if c = CHR 0x22 then [CHR 0x5C, CHR 0x22]
      else if c = CHR 0x5C then [CHR 0x5C, CHR 0x5C]
      else if c = CHR 0x08 then [CHR 0x5C, CHR ''b'']
      else if c = CHR 0x0C then [CHR 0x5C, CHR ''f'']
      else if c = CHR 0x0A then [CHR 0x5C, CHR ''n'']
      else if c = CHR 0x0D then [CHR 0x5C, CHR ''r'']
      else if c = CHR 0x09 then [CHR 0x5C, CHR ''t'']
      else if (of_char c :: nat) < 32
        then [CHR 0x5C, CHR ''u'', CHR ''0'', CHR ''0'', hex_digit (of_char c div 16), hex_digit (of_char c)]
      else [c])"

definition json_string :: "string \<Rightarrow> string" where
  "json_string s = [CHR 0x22] @ concat (map json_escape s) @ [CHR 0x22]"

fun json_join :: "string list \<Rightarrow> string" where
  "json_join [] = []"
| "json_join [x] = x"
| "json_join (x # y # xs) = x @ '','' @ json_join (y # xs)"

definition json_object :: "(string \<times> string) list \<Rightarrow> string" where
  "json_object fs = ''{'' @ json_join (map (\<lambda>(k, v). json_string k @ '':'' @ v) fs) @ ''}''"

definition json_ref :: "artifact_digest_ref \<Rightarrow> string" where
  "json_ref r = json_object [(''digest'', json_string (ar_Digest r)), (''sizeBytes'', json_string (ar_SizeBytes r))]"

definition json_refs :: "artifact_digest_ref list \<Rightarrow> string" where
  "json_refs rs = (if rs = [] then ''null'' else ''['' @ json_join (map json_ref rs) @ '']'')"

definition canonical_json :: "release_subject \<Rightarrow> string" where
  "canonical_json s = json_object
     [(''browser'', json_ref (rs_Browser s)),
      (''buildProfileDigest'', json_string (rs_BuildProfileDigest s)),
      (''buildProfileId'', json_string (rs_BuildProfileID s)),
      (''certificationEvidenceDigest'', json_string (rs_CertificationEvidenceDigest s)),
      (''componentId'', json_string (rs_ComponentID s)),
      (''css'', json_refs (rs_CSS s)),
      (''destinations'', json_object [(''browserOrigin'', json_string (rd_BrowserOrigin (rs_Destinations s))),
                                      (''npmRegistry'', json_string (rd_NpmRegistry (rs_Destinations s)))]),
      (''hostAbi'', json_string (rs_HostAbi s)),
      (''hostAbiDigest'', json_string (rs_HostAbiDigest s)),
      (''npm'', json_ref (rs_Npm s)),
      (''packageName'', json_string (rs_PackageName s)),
      (''puckType'', json_string (rs_PuckType s)),
      (''schemaVersion'', FormatInt (rs_SchemaVersion s)),
      (''sourceDigest'', json_string (rs_SourceDigest s)),
      (''sourceRevision'', json_string (rs_SourceRevision s)),
      (''validatorProfileDigest'', json_string (rs_ValidatorProfileDigest s)),
      (''validatorProfileId'', json_string (rs_ValidatorProfileID s)),
      (''version'', json_string (rs_Version s))]"

definition ComputeSubjectDigest :: "(string \<Rightarrow> string) \<Rightarrow> release_subject \<Rightarrow> digest" where
  "ComputeSubjectDigest sha256 s = ''sha256:'' @ sha256 (canonical_json (s\<lparr>rs_SchemaVersion := 1\<rparr>))"

section \<open>The projection\<close>

record approval =
  ap_State :: approval_state
  ap_SubjectDigest :: digest
  ap_ApproverID :: string
  ap_DecidedAt :: "instant option"
  ap_ReasonCode :: string

record release_target =
  rt_State :: target_state
  rt_EffectID :: string
  rt_ReceiptID :: string
  rt_ReceiptDigest :: string
  rt_SubjectDigest :: digest
  rt_Destination :: string
  rt_Version :: string
  rt_ManifestDigest :: string
  rt_FailureCode :: string

definition definite :: "release_target \<Rightarrow> bool" where
  "definite t \<longleftrightarrow> rt_State t = TargetSucceeded \<or> rt_State t = TargetFailed"

definition pending_target :: release_target where
  "pending_target = \<lparr>rt_State = TargetPending, rt_EffectID = [], rt_ReceiptID = [], rt_ReceiptDigest = [],
     rt_SubjectDigest = [], rt_Destination = [], rt_Version = [], rt_ManifestDigest = [], rt_FailureCode = []\<rparr>"

record release =
  rl_OperationID :: string
  rl_TenantID :: string
  rl_Lineage :: digest
  rl_SourceRevision :: string
  rl_State :: release_state
  rl_Subject :: "release_subject option"
  rl_ReleaseID :: string
  rl_ReviewEffectID :: string
  rl_Approval :: "approval option"
  rl_ApprovalDeadline :: "instant option"
  rl_Npm :: release_target
  rl_Browser :: release_target
  rl_Activation :: release_target
  rl_CatalogRevision :: string
  rl_FailureCode :: string
  rl_Revision :: u64
  rl_UpdatedAt :: instant

text \<open>\<open>Release.Approved\<close> and \<open>Published\<close> read the subject, the approval and the targets only; the
  probe of \<open>ApplyRelease\<close> and the recorded projection both pass these.\<close>

definition Approved :: "release_subject option \<Rightarrow> approval option \<Rightarrow> bool" where
  "Approved sj ap \<longleftrightarrow>
     (case (sj, ap) of
        (Some s, Some a) \<Rightarrow> ap_State a = ApprovalApproved \<and> ap_SubjectDigest a = rs_SubjectDigest s
      | _ \<Rightarrow> False)"

definition Published :: "release_subject option \<Rightarrow> approval option \<Rightarrow> release_target \<Rightarrow> release_target \<Rightarrow> bool" where
  "Published sj ap npm browser \<longleftrightarrow>
     Approved sj ap \<and> rt_State npm = TargetSucceeded \<and> rt_State browser = TargetSucceeded"

definition Release_Approved :: "release option \<Rightarrow> bool" where
  "Release_Approved r = (case r of None \<Rightarrow> False | Some x \<Rightarrow> Approved (rl_Subject x) (rl_Approval x))"

definition Release_Published :: "release \<Rightarrow> bool" where
  "Release_Published x = Published (rl_Subject x) (rl_Approval x) (rl_Npm x) (rl_Browser x)"

record release_rec =
  rr_ExpectedRevision :: u64
  rr_State :: release_state
  rr_Subject :: "release_subject option"
  rr_ReleaseID :: string
  rr_ReviewEffectID :: string
  rr_Approval :: "approval option"
  rr_ApprovalDeadline :: "instant option"
  rr_Npm :: release_target
  rr_Browser :: release_target
  rr_Activation :: release_target
  rr_CatalogRevision :: string
  rr_FailureCode :: string

section \<open>Certification\<close>

record release_certification =
  rc_EvidenceDigest :: digest
  rc_Npm :: artifact_digest_ref
  rc_Browser :: artifact_digest_ref
  rc_CSS :: "artifact_digest_ref list"
  rc_Allocated :: "component_identity option"

definition cert_ref :: "stage_artifact \<Rightarrow> artifact_digest_ref" where
  "cert_ref a = \<lparr>ar_Digest = sa_Digest a, ar_SizeBytes = FormatInt (sa_SizeBytes a)\<rparr>"

definition cert_step :: "release_certification \<Rightarrow> stage_artifact \<Rightarrow> release_certification" where
  "cert_step c a =
     (case sa_Class a of
        ArtifactEvidence \<Rightarrow> c\<lparr>rc_EvidenceDigest := sa_Digest a\<rparr>
      | ArtifactNpm \<Rightarrow> c\<lparr>rc_Npm := cert_ref a\<rparr>
      | ArtifactBrowser \<Rightarrow> c\<lparr>rc_Browser := cert_ref a\<rparr>
      | ArtifactCSS \<Rightarrow> c\<lparr>rc_CSS := rc_CSS c @ [cert_ref a]\<rparr>
      | _ \<Rightarrow> c)"

definition CertificationOf :: "stage_artifact list \<Rightarrow> release_certification option" where
  "CertificationOf artifacts =
     (let none = \<lparr>ar_Digest = [], ar_SizeBytes = []\<rparr>;
          c = foldl cert_step
                \<lparr>rc_EvidenceDigest = [], rc_Npm = none, rc_Browser = none, rc_CSS = [], rc_Allocated = None\<rparr> artifacts
      in if rc_EvidenceDigest c = [] \<or> ar_Digest (rc_Npm c) = [] \<or> ar_Digest (rc_Browser c) = [] \<or> length (rc_CSS c) = 0
         then None else Some c)"

definition sortedRefs :: "artifact_digest_ref list \<Rightarrow> artifact_digest_ref list" where
  "sortedRefs refs = sort_key ar_Digest refs"

definition checkSubject ::
  "(string \<Rightarrow> string) \<Rightarrow> operation \<Rightarrow> release_subject \<Rightarrow> release_certification option \<Rightarrow> err option" where
  "checkSubject sha256 ops s cert =
     (if rs_SchemaVersion s \<noteq> 1 then Some ErrInvalid
      else if ComputeSubjectDigest sha256 s \<noteq> rs_SubjectDigest s then Some ErrInvalid
      else if rs_SourceRevision s \<noteq> sj_SourceRevision (op_Subject ops) then Some ErrInvalid
      else if rs_Version s \<noteq> sj_PackageVersion (op_Subject ops) then Some ErrInvalid
      else case cert of
        None \<Rightarrow> Some ErrInvalid
      | Some c \<Rightarrow>
          if rc_Allocated c = None then Some ErrInvalid
          else if Some \<lparr>ci_ComponentID = rs_ComponentID s, ci_PuckType = rs_PuckType s, ci_PackageName = rs_PackageName s\<rparr> \<noteq>
                  rc_Allocated c then Some ErrInvalid
          else if rs_CertificationEvidenceDigest s \<noteq> rc_EvidenceDigest c \<or> rs_Npm s \<noteq> rc_Npm c \<or>
                  rs_Browser s \<noteq> rc_Browser c \<or> sortedRefs (rs_CSS s) \<noteq> sortedRefs (rc_CSS c) then Some ErrInvalid
          else if rd_NpmRegistry (rs_Destinations s) = [] \<or> rd_BrowserOrigin (rs_Destinations s) = [] then Some ErrInvalid
          else None)"

section \<open>Recording a transition\<close>

fun releaseNext :: "release_state option \<Rightarrow> release_state list" where
  "releaseNext None = [ReleaseCertifying, ReleaseFailed]"
| "releaseNext (Some ReleaseCertifying) = [ReleaseAwaitingApproval, ReleaseFailed]"
| "releaseNext (Some ReleaseAwaitingApproval) = [ReleasePublishing, ReleaseRejected, ReleaseFailed]"
| "releaseNext (Some ReleasePublishing) =
     [ReleasePublishing, ReleasePublished, ReleasePartiallyPublished, ReleaseReconciling, ReleaseFailed]"
| "releaseNext (Some ReleaseReconciling) =
     [ReleasePublishing, ReleasePublished, ReleasePartiallyPublished, ReleaseReconciling, ReleaseActivated, ReleaseFailed]"
| "releaseNext (Some ReleasePublished) = [ReleaseActivated, ReleaseReconciling, ReleaseFailed]"
| "releaseNext (Some _) = []"

definition release_same :: "release_rec \<Rightarrow> release \<Rightarrow> bool" where
  "release_same r p \<longleftrightarrow>
     rr_State r = rl_State p \<and> rr_ReleaseID r = rl_ReleaseID p \<and> rr_ReviewEffectID r = rl_ReviewEffectID p \<and>
     rr_CatalogRevision r = rl_CatalogRevision p \<and> rr_FailureCode r = rl_FailureCode p \<and>
     rr_Npm r = rl_Npm p \<and> rr_Browser r = rl_Browser p \<and> rr_Activation r = rl_Activation p \<and>
     rr_Subject r = rl_Subject p \<and> rr_Approval r = rl_Approval p \<and> rr_ApprovalDeadline r = rl_ApprovalDeadline p"

definition checkTarget ::
  "string \<Rightarrow> release_target \<Rightarrow> release_target \<Rightarrow> release_subject option \<Rightarrow> string \<Rightarrow> err option" where
  "checkTarget name cur nxt s destination =
     (if definite cur \<and> nxt \<noteq> cur then Some ErrInvalid
      else if rt_EffectID cur \<noteq> [] \<and> rt_EffectID nxt \<noteq> rt_EffectID cur then Some ErrInvalid
      else case rt_State nxt of
        TargetStateOther x \<Rightarrow> Some ErrInvalid
      | TargetSucceeded \<Rightarrow>
          (case s of
             None \<Rightarrow> Some ErrInvalid
           | Some sj \<Rightarrow>
               if rt_EffectID nxt = [] \<or> rt_ReceiptID nxt = [] \<or> rt_ReceiptDigest nxt = [] then Some ErrInvalid
               else if rt_SubjectDigest nxt \<noteq> rs_SubjectDigest sj then Some ErrInvalid
               else if destination \<noteq> [] \<and> rt_Destination nxt \<noteq> destination then Some ErrInvalid
               else if destination \<noteq> [] \<and> rt_Version nxt \<noteq> rs_Version sj then Some ErrInvalid
               else if name = ''browser'' \<and> rt_ManifestDigest nxt = [] then Some ErrInvalid
               else None)
      | _ \<Rightarrow>
          if rt_State nxt \<noteq> TargetPending \<and> rt_EffectID nxt = [] then Some ErrInvalid
          else if rt_State nxt = TargetFailed \<and> rt_FailureCode nxt = [] then Some ErrInvalid
          else None)"

type_synonym release_effects = "string \<rightharpoonup> effect"

definition ReleaseEffectSubject :: "digest \<Rightarrow> string \<Rightarrow> string" where
  "ReleaseEffectSubject subjectDigest target = ''release:'' @ subjectDigest @ '':'' @ target"

definition checkTargetEffect ::
  "operation \<Rightarrow> string \<Rightarrow> release_target \<Rightarrow> release_subject \<Rightarrow> release_effects \<Rightarrow> err option" where
  "checkTargetEffect ops name t s effects =
     (let kind = (if name = ''activation'' then EffectActivation else EffectPublication)
      in case effects (rt_EffectID t) of
           None \<Rightarrow> Some ErrIntegrity
         | Some e \<Rightarrow>
             if e_OperationID e \<noteq> op_ID ops then Some ErrIntegrity
             else if e_Kind e \<noteq> kind \<or> e_CanonicalSubject e \<noteq> ReleaseEffectSubject (rs_SubjectDigest s) name
               then Some ErrIntegrity
             else if e_State e \<noteq> EffectSucceeded then Some ErrIntegrity
             else if e_OutcomeRef e \<noteq> rt_ReceiptDigest t then Some ErrIntegrity
             else None)"

definition checkReviewEffect :: "operation \<Rightarrow> digest \<Rightarrow> string \<Rightarrow> release_effects \<Rightarrow> err option" where
  "checkReviewEffect ops sub reviewEffectID effects =
     (case effects reviewEffectID of
        None \<Rightarrow> Some ErrIntegrity
      | Some e \<Rightarrow>
          if e_OperationID e \<noteq> op_ID ops \<or> e_Kind e \<noteq> EffectReview then Some ErrIntegrity
          else if e_State e \<noteq> EffectSucceeded \<or> e_OutcomeRef e \<noteq> sub then Some ErrIntegrity
          else None)"

text \<open>The identities a release never changes.\<close>

definition check_fixed ::
  "(string \<Rightarrow> string) \<Rightarrow> operation \<Rightarrow> release option \<Rightarrow> release_rec \<Rightarrow> release_certification option \<Rightarrow> err option" where
  "check_fixed sha256 ops cur r cert =
     first_err
      [(case (Option.bind cur rl_Subject, rr_Subject r) of
          (Some s, sj) \<Rightarrow> if sj \<noteq> Some s then Some ErrInvalid else None
        | (None, Some s) \<Rightarrow> checkSubject sha256 ops s cert
        | (None, None) \<Rightarrow> None),
       (case cur of
          None \<Rightarrow> None
        | Some b \<Rightarrow>
            if rl_ReleaseID b \<noteq> [] \<and> rr_ReleaseID r \<noteq> rl_ReleaseID b then Some ErrInvalid
            else if rl_ReviewEffectID b \<noteq> [] \<and> rr_ReviewEffectID r \<noteq> rl_ReviewEffectID b then Some ErrInvalid
            else if rl_ApprovalDeadline b \<noteq> None \<and> rr_ApprovalDeadline r \<noteq> rl_ApprovalDeadline b then Some ErrInvalid
            else None),
       (if rr_Approval r \<noteq> None \<and> rr_Subject r = None then Some ErrInvalid else None)]"

definition target_effect_of ::
  "operation \<Rightarrow> release_rec \<Rightarrow> release_effects \<Rightarrow> string \<times> release_target \<Rightarrow> err option" where
  "target_effect_of ops r effects nt =
     (if rt_State (snd nt) = TargetSucceeded
      then (case rr_Subject r of None \<Rightarrow> Some ErrInvalid | Some s \<Rightarrow> checkTargetEffect ops (fst nt) (snd nt) s effects)
      else None)"

definition check_targets :: "operation \<Rightarrow> release option \<Rightarrow> release_rec \<Rightarrow> release_effects \<Rightarrow> err option" where
  "check_targets ops cur r effects =
     (let npm0 = (case cur of None \<Rightarrow> pending_target | Some b \<Rightarrow> rl_Npm b);
          browser0 = (case cur of None \<Rightarrow> pending_target | Some b \<Rightarrow> rl_Browser b);
          activation0 = (case cur of None \<Rightarrow> pending_target | Some b \<Rightarrow> rl_Activation b);
          npmDest = (case rr_Subject r of None \<Rightarrow> [] | Some s \<Rightarrow> rd_NpmRegistry (rs_Destinations s));
          browserDest = (case rr_Subject r of None \<Rightarrow> [] | Some s \<Rightarrow> rd_BrowserOrigin (rs_Destinations s))
      in first_err
          [checkTarget ''npm'' npm0 (rr_Npm r) (rr_Subject r) npmDest,
           checkTarget ''browser'' browser0 (rr_Browser r) (rr_Subject r) browserDest,
           checkTarget ''activation'' activation0 (rr_Activation r) (rr_Subject r) [],
           (case (rr_Approval r, rr_Subject r) of
              (Some a, Some s) \<Rightarrow>
                if ap_State a = ApprovalApproved then checkReviewEffect ops (rs_SubjectDigest s) (rr_ReviewEffectID r) effects
                else None
            | _ \<Rightarrow> None),
           check_all (target_effect_of ops r effects)
             [(''npm'', rr_Npm r), (''browser'', rr_Browser r), (''activation'', rr_Activation r)]])"

definition check_release_state :: "release_rec \<Rightarrow> err option" where
  "check_release_state r =
     (let st = rr_State r;
          approved = Approved (rr_Subject r) (rr_Approval r);
          published = Published (rr_Subject r) (rr_Approval r) (rr_Npm r) (rr_Browser r);
          sent = (rt_State (rr_Npm r) \<noteq> TargetPending \<or> rt_State (rr_Browser r) \<noteq> TargetPending \<or>
                  rt_State (rr_Activation r) \<noteq> TargetPending)
      in if st = ReleaseAwaitingApproval \<and>
            (rr_Subject r = None \<or> rr_ReleaseID r = [] \<or> rr_ReviewEffectID r = [] \<or> rr_ApprovalDeadline r = None)
           then Some ErrInvalid
         else if sent \<and> \<not> approved then Some ErrInvalid
         else if (st = ReleasePublishing \<or> st = ReleasePublished \<or> st = ReleaseActivated) \<and> \<not> approved then Some ErrInvalid
         else if rt_State (rr_Activation r) \<noteq> TargetPending \<and> \<not> published then Some ErrInvalid
         else if st = ReleasePublished \<and> \<not> published then Some ErrInvalid
         else if st = ReleaseActivated \<and>
                 (\<not> published \<or> rt_State (rr_Activation r) \<noteq> TargetSucceeded \<or> rr_CatalogRevision r = [])
           then Some ErrInvalid
         else if st = ReleasePartiallyPublished \<and>
                 \<not> ((rt_State (rr_Npm r) = TargetSucceeded \<and> rt_State (rr_Browser r) = TargetFailed) \<or>
                    (rt_State (rr_Npm r) = TargetFailed \<and> rt_State (rr_Browser r) = TargetSucceeded))
           then Some ErrInvalid
         else if st = ReleaseReconciling \<and> rt_State (rr_Npm r) \<noteq> TargetUnknown \<and>
                 rt_State (rr_Browser r) \<noteq> TargetUnknown \<and> rt_State (rr_Activation r) \<noteq> TargetUnknown
           then Some ErrInvalid
         else if (st = ReleaseFailed \<or> st = ReleaseRejected) \<and> rr_FailureCode r = [] then Some ErrInvalid
         else None)"

definition ApplyRelease ::
  "(string \<Rightarrow> string) \<Rightarrow> operation \<Rightarrow> release option \<Rightarrow> release_rec \<Rightarrow> release_certification option \<Rightarrow> release_effects \<Rightarrow>
   instant \<Rightarrow> err + (release \<times> bool)" where
  "ApplyRelease sha256 ops cur r cert effects now =
     (if op_Kind ops \<noteq> KindRelease then Inl ErrInvalid
      else let rvn = (case cur of None \<Rightarrow> 0 | Some c \<Rightarrow> rl_Revision c)
      in if cur \<noteq> None \<and> rr_ExpectedRevision r + 1 = rvn \<and> release_same r (the cur) then Inr (the cur, True)
      else if rr_ExpectedRevision r \<noteq> rvn then Inl ErrRevisionConflict
      else if rr_State r \<notin> set (releaseNext (map_option rl_State cur)) then Inl ErrInvalid
      else case first_err [check_fixed sha256 ops cur r cert, check_targets ops cur r effects, check_release_state r] of
        Some e \<Rightarrow> Inl e
      | None \<Rightarrow>
          Inr (\<lparr>rl_OperationID = op_ID ops, rl_TenantID = op_TenantID ops, rl_Lineage = sj_SubjectDigest (op_Subject ops),
                rl_SourceRevision = sj_SourceRevision (op_Subject ops), rl_State = rr_State r, rl_Subject = rr_Subject r,
                rl_ReleaseID = rr_ReleaseID r, rl_ReviewEffectID = rr_ReviewEffectID r, rl_Approval = rr_Approval r,
                rl_ApprovalDeadline = rr_ApprovalDeadline r, rl_Npm = rr_Npm r, rl_Browser = rr_Browser r,
                rl_Activation = rr_Activation r, rl_CatalogRevision = rr_CatalogRevision r,
                rl_FailureCode = rr_FailureCode r, rl_Revision = rvn + 1, rl_UpdatedAt = now\<rparr>, False))"

section \<open>Release mutations\<close>

abbreviation DenyApprovalRequired :: string where
  "DenyApprovalRequired \<equiv> ''APPROVAL_REQUIRED''"

abbreviation DenyReceiptsRequired :: string where
  "DenyReceiptsRequired \<equiv> ''RECEIPTS_REQUIRED''"

definition CheckReleaseEffect ::
  "effect_request \<Rightarrow> operation \<Rightarrow> release option \<Rightarrow> release_effects \<Rightarrow> err option" where
  "CheckReleaseEffect req ops rel effects =
     (if op_Kind ops \<noteq> KindRelease
      then (if er_Kind req = EffectPublication \<or> er_Kind req = EffectActivation \<or> er_Kind req = EffectReview
            then Some (Denial DenyInvalidArgument) else None)
      else case er_Kind req of
        EffectPublication \<Rightarrow>
          (case rel of
             None \<Rightarrow> Some (Denial DenyApprovalRequired)
           | Some x \<Rightarrow>
               (case rl_Subject x of
                  None \<Rightarrow> Some (Denial DenyApprovalRequired)
                | Some s \<Rightarrow>
                    if \<not> Release_Approved (Some x) then Some (Denial DenyApprovalRequired)
                    else if checkReviewEffect ops (rs_SubjectDigest s) (rl_ReviewEffectID x) effects \<noteq> None
                      then Some (Denial DenyApprovalRequired)
                    else if er_CanonicalSubject req \<noteq> ReleaseEffectSubject (rs_SubjectDigest s) ''npm'' \<and>
                            er_CanonicalSubject req \<noteq> ReleaseEffectSubject (rs_SubjectDigest s) ''browser''
                      then Some (Denial DenyApprovalRequired)
                    else None))
      | EffectActivation \<Rightarrow>
          (case rel of
             None \<Rightarrow> Some (Denial DenyReceiptsRequired)
           | Some x \<Rightarrow>
               (case rl_Subject x of
                  None \<Rightarrow> Some (Denial DenyReceiptsRequired)
                | Some s \<Rightarrow>
                    if \<not> Release_Published x then Some (Denial DenyReceiptsRequired)
                    else if check_all (\<lambda>nt. checkTargetEffect ops (fst nt) (snd nt) s effects)
                              [(''npm'', rl_Npm x), (''browser'', rl_Browser x)] \<noteq> None
                      then Some (Denial DenyReceiptsRequired)
                    else if er_CanonicalSubject req \<noteq> ReleaseEffectSubject (rs_SubjectDigest s) ''activation''
                      then Some (Denial DenyReceiptsRequired)
                    else None))
      | _ \<Rightarrow> None)"

section \<open>The projection contract\<close>

lemma ApplyRelease_new:
  assumes "ApplyRelease sha256 ops cur r cert effects now = Inr (nxt, False)"
  shows "op_Kind ops = KindRelease" "rr_ExpectedRevision r = rev_of rl_Revision cur"
    "rl_Revision nxt = rev_of rl_Revision cur + 1" "release_same r nxt"
    "rr_State r \<in> set (releaseNext (map_option rl_State cur))"
    "check_fixed sha256 ops cur r cert = None" "check_targets ops cur r effects = None" "check_release_state r = None"
    "rl_OperationID nxt = op_ID ops" "rl_Lineage nxt = sj_SubjectDigest (op_Subject ops)"
  using assms
  by (auto simp: ApplyRelease_def rev_of_def release_same_def Let_def first_err_None_iff split: if_splits option.splits)

lemma ApplyRelease_existing:
  "ApplyRelease sha256 ops cur r cert effects now = Inr (nxt, True) \<Longrightarrow> cur = Some nxt"
  by (auto simp: ApplyRelease_def Let_def split: if_splits option.splits)

lemma ApplyRelease_replay:
  assumes "ApplyRelease sha256 ops cur r cert effects now = Inr (nxt, False)"
  shows "ApplyRelease sha256 ops (Some nxt) r cert' effects' now' = Inr (nxt, True)"
  using ApplyRelease_new(1-4) [OF assms] by (simp add: ApplyRelease_def Let_def)

definition apply_release ::
  "(string \<Rightarrow> string) \<Rightarrow> operation \<Rightarrow> release_certification option \<times> release_effects \<times> instant \<Rightarrow> release option \<Rightarrow>
   release_rec \<Rightarrow> err + (release \<times> bool)" where
  "apply_release sha256 ops c cur r = ApplyRelease sha256 ops cur r (fst c) (fst (snd c)) (snd (snd c))"

interpretation release_projection: projection "apply_release sha256 ops" rl_Revision rr_ExpectedRevision for sha256 ops
proof unfold_locales
  show "rr_ExpectedRevision r = rev_of rl_Revision cur \<and> rl_Revision nxt = rev_of rl_Revision cur + 1"
    if "apply_release sha256 ops c cur r = Inr (nxt, False)" for c cur r nxt
    using that ApplyRelease_new(2,3) unfolding apply_release_def by blast
  show "cur = Some nxt" if "apply_release sha256 ops c cur r = Inr (nxt, True)" for c cur r nxt
    using that ApplyRelease_existing unfolding apply_release_def by blast
  show "apply_release sha256 ops c' (Some nxt) r = Inr (nxt, True)"
    if "apply_release sha256 ops c cur r = Inr (nxt, False)" for c cur r nxt c'
    using that ApplyRelease_replay unfolding apply_release_def by blast
qed

section \<open>Properties\<close>

text \<open>The ledger backs a succeeded target: its effect is a succeeded mutation of the release, of
  the target's kind and subject, whose outcome is the target's receipt.\<close>

definition target_backed :: "operation \<Rightarrow> release_effects \<Rightarrow> release \<Rightarrow> string \<Rightarrow> release_target \<Rightarrow> bool" where
  "target_backed ops effects p name t \<longleftrightarrow>
     (\<exists>s e. rl_Subject p = Some s \<and> effects (rt_EffectID t) = Some e \<and> e_OperationID e = op_ID ops \<and>
        e_State e = EffectSucceeded \<and> e_Kind e = (if name = ''activation'' then EffectActivation else EffectPublication) \<and>
        e_CanonicalSubject e = ReleaseEffectSubject (rs_SubjectDigest s) name \<and>
        e_OutcomeRef e = rt_ReceiptDigest t \<and> rt_ReceiptDigest t \<noteq> [] \<and> rt_SubjectDigest t = rs_SubjectDigest s)"

text \<open>The release is approved: an approval of exactly its subject, under a succeeded review.\<close>

definition review_backed :: "operation \<Rightarrow> release_effects \<Rightarrow> release \<Rightarrow> bool" where
  "review_backed ops effects p \<longleftrightarrow>
     (\<exists>s a e. rl_Subject p = Some s \<and> rl_Approval p = Some a \<and> ap_State a = ApprovalApproved \<and>
        ap_SubjectDigest a = rs_SubjectDigest s \<and> effects (rl_ReviewEffectID p) = Some e \<and>
        e_OperationID e = op_ID ops \<and> e_Kind e = EffectReview \<and> e_State e = EffectSucceeded \<and>
        e_OutcomeRef e = rs_SubjectDigest s)"

lemma checkTarget_succeeded:
  assumes "checkTarget name cur t sj dest = None" and "rt_State t = TargetSucceeded"
  shows "\<exists>s. sj = Some s \<and> rt_ReceiptDigest t \<noteq> [] \<and> rt_SubjectDigest t = rs_SubjectDigest s"
  using assms by (auto simp: checkTarget_def split: if_splits option.splits)

lemma checkTarget_kept:
  "checkTarget name cur t sj dest = None \<Longrightarrow>
   (definite cur \<longrightarrow> t = cur) \<and> (rt_EffectID cur \<noteq> [] \<longrightarrow> rt_EffectID t = rt_EffectID cur)"
  by (auto simp: checkTarget_def split: if_splits)

lemma checkTargetEffect_None:
  "checkTargetEffect ops name t s effects = None \<longleftrightarrow>
     (\<exists>e. effects (rt_EffectID t) = Some e \<and> e_OperationID e = op_ID ops \<and>
        e_Kind e = (if name = ''activation'' then EffectActivation else EffectPublication) \<and>
        e_CanonicalSubject e = ReleaseEffectSubject (rs_SubjectDigest s) name \<and> e_State e = EffectSucceeded \<and>
        e_OutcomeRef e = rt_ReceiptDigest t)"
  by (auto simp: checkTargetEffect_def Let_def split: option.splits)

lemma checkReviewEffect_None:
  "checkReviewEffect ops sub i effects = None \<longleftrightarrow>
     (\<exists>e. effects i = Some e \<and> e_OperationID e = op_ID ops \<and> e_Kind e = EffectReview \<and> e_State e = EffectSucceeded \<and>
        e_OutcomeRef e = sub)"
  by (auto simp: checkReviewEffect_def split: option.splits)

lemma Approved_iff:
  "Approved sj ap \<longleftrightarrow>
     (\<exists>s a. sj = Some s \<and> ap = Some a \<and> ap_State a = ApprovalApproved \<and> ap_SubjectDigest a = rs_SubjectDigest s)"
  by (auto simp: Approved_def split: option.splits)

lemmas release_same_fields = release_same_def

lemma check_targets_review:
  assumes "check_targets ops cur r effects = None" and "Approved (rr_Subject r) (rr_Approval r)" and "release_same r nxt"
  shows "review_backed ops effects nxt"
  using assms
  by (auto simp: check_targets_def Let_def first_err_None_iff Approved_iff review_backed_def checkReviewEffect_None
      release_same_fields)

lemma check_targets_backed:
  assumes "check_targets ops cur r effects = None" and "release_same r nxt"
    and "(name, t) \<in> {(''npm'', rl_Npm nxt), (''browser'', rl_Browser nxt), (''activation'', rl_Activation nxt)}"
    and "rt_State t = TargetSucceeded"
  shows "target_backed ops effects nxt name t"
proof -
  from assms(1) have tgt: "\<exists>cur dest. checkTarget name cur t (rr_Subject r) dest = None"
    and eff: "target_effect_of ops r effects (name, t) = None"
    using assms(2,3)
    by (auto simp: check_targets_def Let_def first_err_None_iff check_all_None_iff release_same_fields simp del: check_all.simps)
  from tgt assms(4) obtain s where s: "rr_Subject r = Some s" "rt_ReceiptDigest t \<noteq> []" "rt_SubjectDigest t = rs_SubjectDigest s"
    using checkTarget_succeeded by blast
  with eff assms(4) have "checkTargetEffect ops name t s effects = None"
    by (simp add: target_effect_of_def)
  moreover have "rl_Subject nxt = Some s" using s(1) assms(2) by (simp add: release_same_fields)
  ultimately show ?thesis
    using s(2,3) by (auto simp: checkTargetEffect_None target_backed_def)
qed

text \<open>C36: A release records nothing that the approval and the ledger do not back. Whenever a
  transition is recorded with a target that was sent, or as publishing, published or
  activated, the recorded subject is approved by its exact digest under a succeeded review
  effect; every succeeded target is backed by a succeeded effect with the target's receipt;
  an activation that was sent, a published and an activated release have both publications
  succeeded, and an activated one its activation too.\<close>

theorem ApplyRelease_backed:
  assumes "ApplyRelease sha256 ops cur r cert effects now = Inr (nxt, False)"
  shows "(rl_State nxt \<in> {ReleasePublishing, ReleasePublished, ReleaseActivated} \<or>
      (\<exists>t \<in> {rl_Npm nxt, rl_Browser nxt, rl_Activation nxt}. rt_State t \<noteq> TargetPending) \<longrightarrow> review_backed ops effects nxt) \<and>
    (\<forall>(name, t) \<in> {(''npm'', rl_Npm nxt), (''browser'', rl_Browser nxt), (''activation'', rl_Activation nxt)}.
      rt_State t = TargetSucceeded \<longrightarrow> target_backed ops effects nxt name t) \<and>
    (rl_State nxt \<in> {ReleasePublished, ReleaseActivated} \<or> rt_State (rl_Activation nxt) \<noteq> TargetPending \<longrightarrow>
      rt_State (rl_Npm nxt) = TargetSucceeded \<and> rt_State (rl_Browser nxt) = TargetSucceeded) \<and>
    (rl_State nxt = ReleaseActivated \<longrightarrow> rt_State (rl_Activation nxt) = TargetSucceeded \<and> rl_CatalogRevision nxt \<noteq> [])"
proof -
  note new = ApplyRelease_new [OF assms]
  have st: "rl_State nxt \<in> {ReleasePublishing, ReleasePublished, ReleaseActivated} \<or>
      (\<exists>t \<in> {rl_Npm nxt, rl_Browser nxt, rl_Activation nxt}. rt_State t \<noteq> TargetPending) \<longrightarrow>
      Approved (rr_Subject r) (rr_Approval r)"
    using new(4,8) by (auto simp: check_release_state_def Let_def release_same_fields split: if_splits)
  have pub: "rl_State nxt \<in> {ReleasePublished, ReleaseActivated} \<or> rt_State (rl_Activation nxt) \<noteq> TargetPending \<longrightarrow>
      rt_State (rl_Npm nxt) = TargetSucceeded \<and> rt_State (rl_Browser nxt) = TargetSucceeded"
    using new(4,8) by (auto simp: check_release_state_def Let_def release_same_fields Published_def split: if_splits)
  have act: "rl_State nxt = ReleaseActivated \<longrightarrow> rt_State (rl_Activation nxt) = TargetSucceeded \<and> rl_CatalogRevision nxt \<noteq> []"
    using new(4,8) by (auto simp: check_release_state_def Let_def release_same_fields split: if_splits)
  have "target_backed ops effects nxt name t"
    if "(name, t) \<in> {(''npm'', rl_Npm nxt), (''browser'', rl_Browser nxt), (''activation'', rl_Activation nxt)}"
      "rt_State t = TargetSucceeded" for name t
    using check_targets_backed [OF new(7,4) that] .
  with st pub act check_targets_review [OF new(7) _ new(4)] show ?thesis by blast
qed

subsection \<open>A concrete release\<close>

definition sample_op :: operation where
  "sample_op = sample_operation\<lparr>op_Kind := KindRelease\<rparr>"

definition sample_subject :: release_subject where
  "sample_subject =
     \<lparr>rs_SchemaVersion = 1, rs_ComponentID = ''c1'', rs_PuckType = ''Hero'', rs_SourceRevision = ''r7'', rs_SourceDigest = ''sd'',
      rs_PackageName = ''pkg'', rs_Version = ''1.2.0'', rs_Npm = \<lparr>ar_Digest = ''n'', ar_SizeBytes = ''10''\<rparr>,
      rs_Browser = \<lparr>ar_Digest = ''b'', ar_SizeBytes = ''20''\<rparr>, rs_CSS = [\<lparr>ar_Digest = ''s'', ar_SizeBytes = ''5''\<rparr>],
      rs_BuildProfileID = ''bp'', rs_BuildProfileDigest = ''bd'', rs_ValidatorProfileID = ''vp'', rs_ValidatorProfileDigest = ''vd'',
      rs_HostAbi = ''h1'', rs_HostAbiDigest = ''hd'',
      rs_Destinations = \<lparr>rd_NpmRegistry = ''npm.example'', rd_BrowserOrigin = ''cdn.example''\<rparr>,
      rs_CertificationEvidenceDigest = ''ev'', rs_SubjectDigest = ''S''\<rparr>"

definition sample_effect :: "string \<Rightarrow> effect_kind \<Rightarrow> string \<Rightarrow> string \<Rightarrow> effect" where
  "sample_effect i kind subj outcome =
     \<lparr>e_ID = i, e_TenantID = ''t'', e_OperationID = ''op_1'', e_AttemptID = [], e_Kind = kind, e_Occurrence = 1, e_CommandID = ''c'',
      e_Owner = ''o'', e_CanonicalSubject = subj, e_RequestDigest = ''d'', e_ExpectedRevision = [], e_ExecutionEpoch = 1,
      e_RecoveryEpoch = 1, e_LeaseID = [], e_LeaseFence = 0, e_LeaseExpiresAt = 0, e_State = EffectSucceeded,
      e_Outcome = Some EffectOutcomeSucceeded, e_DenialCode = [], e_OutcomeRef = outcome, e_QueryRef = [],
      e_Inventory = InventoryConfirmed, e_InventoryVersion = ''v'', e_Deadline = 10, e_CreatedAt = 0, e_UpdatedAt = 0,
      e_ObservedAt = Some 1\<rparr>"

definition sample_effects :: release_effects where
  "sample_effects =
     [''rev'' \<mapsto> sample_effect ''rev'' EffectReview ''review'' ''S'',
      ''en'' \<mapsto> sample_effect ''en'' EffectPublication ''release:S:npm'' ''rn'',
      ''eb'' \<mapsto> sample_effect ''eb'' EffectPublication ''release:S:browser'' ''rb'']"

definition sample_target :: "string \<Rightarrow> string \<Rightarrow> string \<Rightarrow> release_target" where
  "sample_target eid receipt dest =
     \<lparr>rt_State = TargetSucceeded, rt_EffectID = eid, rt_ReceiptID = ''id'', rt_ReceiptDigest = receipt, rt_SubjectDigest = ''S'',
      rt_Destination = dest, rt_Version = ''1.2.0'', rt_ManifestDigest = ''m'', rt_FailureCode = []\<rparr>"

definition sample_release :: release where
  "sample_release =
     \<lparr>rl_OperationID = ''op_1'', rl_TenantID = ''t'', rl_Lineage = ''lineage'', rl_SourceRevision = ''r7'', rl_State = ReleasePublishing,
      rl_Subject = Some sample_subject, rl_ReleaseID = ''rel'', rl_ReviewEffectID = ''rev'',
      rl_Approval = Some \<lparr>ap_State = ApprovalApproved, ap_SubjectDigest = ''S'', ap_ApproverID = ''m'', ap_DecidedAt = Some 3, ap_ReasonCode = []\<rparr>,
      rl_ApprovalDeadline = Some 100, rl_Npm = pending_target, rl_Browser = pending_target, rl_Activation = pending_target,
      rl_CatalogRevision = [], rl_FailureCode = [], rl_Revision = 3, rl_UpdatedAt = 4\<rparr>"

definition sample_record :: release_rec where
  "sample_record =
     \<lparr>rr_ExpectedRevision = 3, rr_State = ReleasePublished, rr_Subject = Some sample_subject, rr_ReleaseID = ''rel'',
      rr_ReviewEffectID = ''rev'', rr_Approval = rl_Approval sample_release, rr_ApprovalDeadline = Some 100,
      rr_Npm = sample_target ''en'' ''rn'' ''npm.example'', rr_Browser = sample_target ''eb'' ''rb'' ''cdn.example'',
      rr_Activation = pending_target, rr_CatalogRevision = [], rr_FailureCode = []\<rparr>"

definition sample_published :: release where
  "sample_published = sample_release\<lparr>rl_State := ReleasePublished, rl_Npm := sample_target ''en'' ''rn'' ''npm.example'',
     rl_Browser := sample_target ''eb'' ''rb'' ''cdn.example'', rl_Revision := 4, rl_UpdatedAt := 9\<rparr>"

lemmas sample_release_defs = sample_operation_def sample_op_def sample_subject_def sample_effect_def sample_effects_def sample_target_def
  sample_release_def sample_record_def sample_published_def pending_target_def

lemmas release_check_defs = check_fixed_def check_targets_def check_release_state_def checkTarget_def checkTargetEffect_def
  checkReviewEffect_def target_effect_of_def first_err_def Approved_def Published_def definite_def ReleaseEffectSubject_def

lemma sample_release_recorded:
  "ApplyRelease sha256 sample_op (Some sample_release) sample_record None sample_effects 9 = Inr (sample_published, False)"
  by (simp add: ApplyRelease_def release_check_defs sample_release_defs release_same_def)

theorem ApplyRelease_backed_witness:
  "review_backed sample_op sample_effects sample_published \<and>
   target_backed sample_op sample_effects sample_published ''npm'' (rl_Npm sample_published) \<and>
   rt_State (rl_Browser sample_published) = TargetSucceeded"
proof -
  have "rl_State sample_published = ReleasePublished" "rt_State (rl_Npm sample_published) = TargetSucceeded"
    by (simp_all add: sample_release_defs)
  with ApplyRelease_backed [OF sample_release_recorded [of "\<lambda>x. x"]] show ?thesis by auto
qed

subsection \<open>Runs of a release\<close>

definition target_kept :: "release_target \<Rightarrow> release_target \<Rightarrow> bool" where
  "target_kept t u \<longleftrightarrow> (definite t \<longrightarrow> u = t) \<and> (rt_EffectID t \<noteq> [] \<longrightarrow> rt_EffectID u = rt_EffectID t)"

definition subject_verified :: "(string \<Rightarrow> string) \<Rightarrow> operation \<Rightarrow> release option \<Rightarrow> bool" where
  "subject_verified sha256 ops cur \<longleftrightarrow>
     (\<forall>p s. cur = Some p \<longrightarrow> rl_Subject p = Some s \<longrightarrow>
        rs_SubjectDigest s = ComputeSubjectDigest sha256 s \<and> rs_SourceRevision s = sj_SourceRevision (op_Subject ops) \<and>
        rs_Version s = sj_PackageVersion (op_Subject ops))"

definition release_kept :: "release option \<Rightarrow> release option \<Rightarrow> bool" where
  "release_kept cur nxt \<longleftrightarrow>
     (\<forall>p. cur = Some p \<longrightarrow>
        (\<exists>q. nxt = Some q \<and> (rl_Subject p \<noteq> None \<longrightarrow> rl_Subject q = rl_Subject p) \<and>
           target_kept (rl_Npm p) (rl_Npm q) \<and> target_kept (rl_Browser p) (rl_Browser q) \<and>
           target_kept (rl_Activation p) (rl_Activation q) \<and>
           (releaseNext (Some (rl_State p)) = [] \<longrightarrow> q = p)))"

lemma ApplyRelease_targets_kept:
  assumes "ApplyRelease sha256 ops (Some p) r cert effects now = Inr (nxt, False)"
  shows "target_kept (rl_Npm p) (rl_Npm nxt) \<and> target_kept (rl_Browser p) (rl_Browser nxt) \<and>
    target_kept (rl_Activation p) (rl_Activation nxt)"
proof -
  from ApplyRelease_new(4,7) [OF assms]
  have "\<exists>n s d. checkTarget n (rl_Npm p) (rl_Npm nxt) s d = None" "\<exists>n s d. checkTarget n (rl_Browser p) (rl_Browser nxt) s d = None"
    "\<exists>n s d. checkTarget n (rl_Activation p) (rl_Activation nxt) s d = None"
    by (auto simp: check_targets_def Let_def first_err_None_iff release_same_fields)
  then show ?thesis unfolding target_kept_def using checkTarget_kept by blast
qed

lemma ApplyRelease_subject_kept:
  assumes "ApplyRelease sha256 ops cur r cert effects now = Inr (nxt, False)"
  shows "(\<forall>p. cur = Some p \<longrightarrow> rl_Subject p \<noteq> None \<longrightarrow> rl_Subject nxt = rl_Subject p) \<and>
    (subject_verified sha256 ops cur \<longrightarrow> subject_verified sha256 ops (Some nxt))"
proof -
  note new = ApplyRelease_new(4,6) [OF assms]
  have subj: "case Option.bind cur rl_Subject of
      Some s \<Rightarrow> rr_Subject r = Some s
    | None \<Rightarrow> (\<forall>s. rr_Subject r = Some s \<longrightarrow> checkSubject sha256 ops s cert = None)"
    using new(2) by (auto simp: check_fixed_def first_err_None_iff split: option.splits if_splits)
  have ver: "checkSubject sha256 ops s cert = None \<Longrightarrow>
      rs_SubjectDigest s = ComputeSubjectDigest sha256 s \<and> rs_SourceRevision s = sj_SourceRevision (op_Subject ops) \<and>
      rs_Version s = sj_PackageVersion (op_Subject ops)" for s
    by (auto simp: checkSubject_def split: if_splits)
  from new(1) have "rl_Subject nxt = rr_Subject r" by (simp add: release_same_fields)
  with subj ver show ?thesis
    by (cases cur) (auto simp: subject_verified_def split: option.splits)
qed

lemma ApplyRelease_kept:
  assumes "ApplyRelease sha256 ops cur r cert effects now = Inr (nxt, False)"
  shows "release_kept cur (Some nxt) \<and> (subject_verified sha256 ops cur \<longrightarrow> subject_verified sha256 ops (Some nxt))"
proof (cases cur)
  case None
  with ApplyRelease_subject_kept [OF assms] show ?thesis by (simp add: release_kept_def)
next
  case (Some p)
  from ApplyRelease_new(5) [OF assms] Some have "releaseNext (Some (rl_State p)) \<noteq> []" by auto
  with Some ApplyRelease_targets_kept [of sha256 ops p r cert effects now nxt] ApplyRelease_subject_kept [OF assms] assms
  show ?thesis by (simp add: release_kept_def)
qed

lemma target_kept_trans: "target_kept t u \<Longrightarrow> target_kept u v \<Longrightarrow> target_kept t v"
  by (auto simp: target_kept_def)

lemma release_kept_trans: "release_kept x y \<Longrightarrow> release_kept y z \<Longrightarrow> release_kept x z"
  by (cases x; cases y; cases z) (auto simp: release_kept_def intro: target_kept_trans)

text \<open>Whatever records a Workflow sends for a release operation, in any order and with any
  repetition: the records that take effect expect consecutive revisions; a subject, once
  recorded, never changes and is the verified one (its digest is the digest of its fields,
  its revision and version are the operation's); a definite target outcome and the effect of
  a target never change; an activated, partially published, rejected or failed release
  never changes at all.\<close>

theorem release_run:
  "map rr_ExpectedRevision (snd (release_projection.run sha256 ops cur xs)) =
     consecutive (rev_of rl_Revision cur) (length (snd (release_projection.run sha256 ops cur xs))) \<and>
   release_kept cur (fst (release_projection.run sha256 ops cur xs)) \<and>
   (subject_verified sha256 ops cur \<longrightarrow> subject_verified sha256 ops (fst (release_projection.run sha256 ops cur xs)))"
proof -
  let ?R = "\<lambda>x y. release_kept x y \<and> (subject_verified sha256 ops x \<longrightarrow> subject_verified sha256 ops y)"
  have "?R cur (fst (release_projection.run sha256 ops cur xs))"
  proof (rule release_projection.run_keeps)
    show "?R cur (Some nxt)" if "apply_release sha256 ops c cur r = Inr (nxt, False)" for c cur r nxt
      using that ApplyRelease_kept unfolding apply_release_def by blast
    show "?R x x" for x by (auto simp: release_kept_def target_kept_def)
    show "?R x z" if "?R x y" "?R y z" for x y z using that release_kept_trans by blast
  qed
  with release_projection.run_expected show ?thesis by blast
qed

theorem release_run_witness:
  "subject_verified (\<lambda>x. x) sample_op None \<and>
   subject_verified (\<lambda>x. x) sample_op
     (fst (release_projection.run (\<lambda>x. x) sample_op None [((None, sample_effects, 9), sample_record)])) \<and>
   release_kept (Some sample_release)
     (fst (release_projection.run (\<lambda>x. x) sample_op (Some sample_release) [((None, sample_effects, 9), sample_record)]))"
proof -
  have "subject_verified (\<lambda>x. x) sample_op None" by (simp add: subject_verified_def)
  then show ?thesis
    using release_run [of "\<lambda>x. x" sample_op None "[((None, sample_effects, 9), sample_record)]"]
      release_run [of "\<lambda>x. x" sample_op "Some sample_release" "[((None, sample_effects, 9), sample_record)]"]
    by blast
qed

end
