(* ===== verification/Effect_Admission.thy ===== *)
theory Effect_Admission
  imports Release
begin

text \<open>
  \<open>CheckEffect\<close> of \<open>internal/domain/effect.go\<close>: the permit rules of a guarded mutation against
  the current operation, attempt, lease and release projection.
\<close>

record effect_context =
  ec_Now :: instant
  ec_Operation :: "operation option"
  ec_Attempt :: "attempt option"
  ec_AdmissionClosed :: bool
  ec_LeaseRequired :: bool
  ec_Release :: "release option"
  ec_ReleaseEffects :: release_effects

fun known_effect_kind :: "effect_kind \<Rightarrow> bool" where
  "known_effect_kind (EffectKindOther s) = False"
| "known_effect_kind _ = True"

text \<open>The attempt the request names: the deadline bound it leaves, or the refusal.\<close>

definition effect_attempt_bound :: "effect_request \<Rightarrow> effect_context \<Rightarrow> operation \<Rightarrow> instant \<Rightarrow> err + instant" where
  "effect_attempt_bound req c ops bound =
     (if er_AttemptID req \<noteq> []
      then (case ec_Attempt c of
              None \<Rightarrow> Inl ErrNotFound
            | Some at \<Rightarrow>
                if at_OperationID at \<noteq> op_ID ops then Inl ErrNotFound
                else if at_ExecutionEpoch at \<noteq> op_ExecutionEpoch ops then Inl (Denial DenyStaleExecution)
                else if at_State at = AttemptClosed \<or> at_State at = AttemptResultAccepted then Inl (Denial DenyStaleExecution)
                else Inr (if at_Deadline at < bound then at_Deadline at else bound))
      else Inr bound)"

definition check_effect_deadline :: "effect_request \<Rightarrow> effect_context \<Rightarrow> operation \<Rightarrow> instant \<Rightarrow> err option" where
  "check_effect_deadline req c ops bound0 =
     (let bound = (if er_LeaseID req \<noteq> [] \<and> er_LeaseExpiresAt req \<noteq> 0 \<and> er_LeaseExpiresAt req < bound0
                   then er_LeaseExpiresAt req else bound0)
      in if \<not> er_Deadline req > ec_Now c then Some (Denial DenyStaleExecution)
         else if er_Deadline req > bound then Some (Denial DenyStaleExecution)
         else if er_LeaseID req \<noteq> [] \<and> er_LeaseExpiresAt req \<noteq> 0 \<and> \<not> er_LeaseExpiresAt req > ec_Now c
           then Some (Denial DenyStaleExecution)
         else if ec_LeaseRequired c \<and> er_Kind req = EffectBusinessWrite
         then (if \<not> Lease_Valid (op_Lease ops) (ec_Now c) then Some (Denial DenyStaleExecution)
               else if er_LeaseID req \<noteq> ls_LeaseID (op_Lease ops) \<or> er_LeaseFence req \<noteq> ls_Fence (op_Lease ops)
                 then Some (Denial DenyStaleExecution)
               else None)
         else None)"

definition CheckEffect :: "effect_request \<Rightarrow> effect_context \<Rightarrow> err option" where
  "CheckEffect req c =
     (case ec_Operation c of
        None \<Rightarrow> Some ErrNotFound
      | Some ops \<Rightarrow>
          if \<not> known_effect_kind (er_Kind req) then Some ErrInvalid
          else if er_Owner req = [] \<or> er_CanonicalSubject req = [] \<or> er_Occurrence req = 0
            then Some (Denial DenyInvalidArgument)
          else case CheckReleaseEffect req ops (ec_Release c) (ec_ReleaseEffects c) of
            Some e \<Rightarrow> Some e
          | None \<Rightarrow>
              if ec_AdmissionClosed c then Some (Denial DenyRecoveryRestricted)
              else if er_ExecutionEpoch req \<noteq> op_ExecutionEpoch ops then Some (Denial DenyStaleExecution)
              else if FencedForNewDispatch ops then Some (Denial DenyStaleExecution)
              else if \<not> ec_Now c < EffectiveDeadline ops then Some (Denial DenyStaleExecution)
              else (case effect_attempt_bound req c ops (EffectiveDeadline ops) of
                      Inl e \<Rightarrow> Some e
                    | Inr bound \<Rightarrow> check_effect_deadline req c ops bound))"

section \<open>Properties\<close>

lemma effect_attempt_bound_Inr:
  assumes "effect_attempt_bound req c ops b0 = Inr b"
  shows "b \<le> b0 \<and> (er_AttemptID req \<noteq> [] \<longrightarrow>
    (\<exists>at. ec_Attempt c = Some at \<and> at_OperationID at = op_ID ops \<and> at_ExecutionEpoch at = op_ExecutionEpoch ops \<and>
      at_State at \<notin> {AttemptClosed, AttemptResultAccepted} \<and> b \<le> at_Deadline at))"
  using assms by (auto simp: effect_attempt_bound_def split: if_splits option.splits)

lemma check_effect_deadline_None:
  assumes "check_effect_deadline req c ops b = None"
  shows "ec_Now c < er_Deadline req \<and> er_Deadline req \<le> b \<and>
    (er_LeaseID req \<noteq> [] \<and> er_LeaseExpiresAt req \<noteq> 0 \<longrightarrow> er_Deadline req \<le> er_LeaseExpiresAt req) \<and>
    (ec_LeaseRequired c \<and> er_Kind req = EffectBusinessWrite \<longrightarrow>
      Lease_Valid (op_Lease ops) (ec_Now c) \<and> er_LeaseID req = ls_LeaseID (op_Lease ops) \<and>
      er_LeaseFence req = ls_Fence (op_Lease ops))"
  using assms by (auto simp: check_effect_deadline_def Let_def split: if_splits)

lemma CheckEffect_None:
  assumes "CheckEffect req c = None"
  obtains ops b where "ec_Operation c = Some ops" "known_effect_kind (er_Kind req)" "er_Owner req \<noteq> []"
    "er_CanonicalSubject req \<noteq> []" "er_Occurrence req \<noteq> 0"
    "CheckReleaseEffect req ops (ec_Release c) (ec_ReleaseEffects c) = None" "\<not> ec_AdmissionClosed c"
    "er_ExecutionEpoch req = op_ExecutionEpoch ops" "\<not> FencedForNewDispatch ops" "ec_Now c < EffectiveDeadline ops"
    "effect_attempt_bound req c ops (EffectiveDeadline ops) = Inr b" "check_effect_deadline req c ops b = None"
  using assms by (auto simp: CheckEffect_def split: if_splits option.splits sum.splits)

text \<open>A guarded mutation is permitted only to a live execution and never beyond any of its
  deadlines: when the check passes, admission is open, the operation is not fenced, the
  request and its attempt run under the operation's current epoch, the mutation's deadline
  lies in the future and within the operation's effective deadline, the attempt's deadline and
  the lease it names; a lease-protected business write names the operation's confirmed,
  still valid lease and fence.\<close>

theorem CheckEffect_sound:
  assumes "CheckEffect req c = None"
  shows "\<exists>ops. ec_Operation c = Some ops \<and> \<not> ec_AdmissionClosed c \<and> \<not> FencedForNewDispatch ops \<and>
    er_ExecutionEpoch req = op_ExecutionEpoch ops \<and>
    ec_Now c < er_Deadline req \<and> er_Deadline req \<le> EffectiveDeadline ops \<and>
    (er_AttemptID req \<noteq> [] \<longrightarrow>
      (\<exists>at. ec_Attempt c = Some at \<and> at_OperationID at = op_ID ops \<and> at_ExecutionEpoch at = op_ExecutionEpoch ops \<and>
        at_State at \<notin> {AttemptClosed, AttemptResultAccepted} \<and> er_Deadline req \<le> at_Deadline at)) \<and>
    (er_LeaseID req \<noteq> [] \<and> er_LeaseExpiresAt req \<noteq> 0 \<longrightarrow> er_Deadline req \<le> er_LeaseExpiresAt req) \<and>
    (ec_LeaseRequired c \<and> er_Kind req = EffectBusinessWrite \<longrightarrow>
      Lease_Valid (op_Lease ops) (ec_Now c) \<and> er_LeaseID req = ls_LeaseID (op_Lease ops) \<and>
      er_LeaseFence req = ls_Fence (op_Lease ops))"
proof -
  obtain ops b where *: "ec_Operation c = Some ops" "\<not> ec_AdmissionClosed c" "er_ExecutionEpoch req = op_ExecutionEpoch ops"
    "\<not> FencedForNewDispatch ops" "effect_attempt_bound req c ops (EffectiveDeadline ops) = Inr b"
    "check_effect_deadline req c ops b = None"
    using CheckEffect_None [OF assms] by metis
  note b = effect_attempt_bound_Inr [OF *(5)] and d = check_effect_deadline_None [OF *(6)]
  have "er_AttemptID req \<noteq> [] \<longrightarrow>
      (\<exists>at. ec_Attempt c = Some at \<and> at_OperationID at = op_ID ops \<and> at_ExecutionEpoch at = op_ExecutionEpoch ops \<and>
        at_State at \<notin> {AttemptClosed, AttemptResultAccepted} \<and> er_Deadline req \<le> at_Deadline at)"
    using b d by (meson order_trans)
  with * b d show ?thesis by (intro exI [of _ ops]) (auto intro: order_trans)
qed

definition sample_effect_request :: effect_request where
  "sample_effect_request =
     \<lparr>er_OperationID = ''op_1'', er_AttemptID = [], er_Owner = ''o'', er_Kind = EffectPublication, er_Occurrence = 1,
      er_CanonicalSubject = ''release:S:npm'', er_ExpectedRevision = [], er_RequestDigest = ''d'', er_ExecutionEpoch = 1,
      er_LeaseID = [], er_LeaseFence = 0, er_LeaseExpiresAt = 0, er_Deadline = 900000\<rparr>"

definition sample_effect_context :: effect_context where
  "sample_effect_context =
     \<lparr>ec_Now = 10, ec_Operation = Some sample_op, ec_Attempt = None, ec_AdmissionClosed = False, ec_LeaseRequired = True,
      ec_Release = Some sample_release, ec_ReleaseEffects = sample_effects\<rparr>"

lemmas sample_effect_defs = sample_effect_request_def sample_effect_context_def sample_release_defs

lemma sample_effect_admitted: "CheckEffect sample_effect_request sample_effect_context = None"
  by (simp add: CheckEffect_def CheckReleaseEffect_def Release_Approved_def release_check_defs sample_effect_defs
      FencedForNewDispatch_def Lifecycle_Terminal_def EffectiveDeadline_def effect_attempt_bound_def
      check_effect_deadline_def)

theorem CheckEffect_sound_witness:
  "CheckEffect sample_effect_request sample_effect_context = None \<and> \<not> FencedForNewDispatch sample_op \<and>
   er_Deadline sample_effect_request \<le> EffectiveDeadline sample_op"
proof -
  have "ec_Operation sample_effect_context = Some sample_op" by (simp add: sample_effect_context_def)
  with CheckEffect_sound [OF sample_effect_admitted] sample_effect_admitted show ?thesis by auto
qed

text \<open>No release mutation without its evidence: a publication of a release operation is
  permitted only for the npm or browser target of the recorded subject, approved by its exact
  digest under a succeeded review effect; an activation only when both publications of that
  subject are succeeded effects of the ledger with the recorded receipts; no other operation
  is permitted a publication, an activation or a review.\<close>

theorem CheckEffect_release:
  assumes "CheckEffect req c = None" and "ec_Operation c = Some ops"
  shows "(er_Kind req = EffectPublication \<longrightarrow>
      (\<exists>p s. ec_Release c = Some p \<and> rl_Subject p = Some s \<and> review_backed ops (ec_ReleaseEffects c) p \<and>
        er_CanonicalSubject req \<in> {ReleaseEffectSubject (rs_SubjectDigest s) ''npm'', ReleaseEffectSubject (rs_SubjectDigest s) ''browser''})) \<and>
    (er_Kind req = EffectActivation \<longrightarrow>
      (\<exists>p s en eb. ec_Release c = Some p \<and> rl_Subject p = Some s \<and> Release_Published p \<and>
        er_CanonicalSubject req = ReleaseEffectSubject (rs_SubjectDigest s) ''activation'' \<and>
        ec_ReleaseEffects c (rt_EffectID (rl_Npm p)) = Some en \<and> e_State en = EffectSucceeded \<and>
        e_OutcomeRef en = rt_ReceiptDigest (rl_Npm p) \<and>
        ec_ReleaseEffects c (rt_EffectID (rl_Browser p)) = Some eb \<and> e_State eb = EffectSucceeded \<and>
        e_OutcomeRef eb = rt_ReceiptDigest (rl_Browser p))) \<and>
    (er_Kind req \<in> {EffectPublication, EffectActivation, EffectReview} \<longrightarrow> op_Kind ops = KindRelease)"
proof -
  from assms have rel: "CheckReleaseEffect req ops (ec_Release c) (ec_ReleaseEffects c) = None"
    by (auto elim!: CheckEffect_None)
  have kind: "er_Kind req \<in> {EffectPublication, EffectActivation, EffectReview} \<longrightarrow> op_Kind ops = KindRelease"
    using rel by (auto simp: CheckReleaseEffect_def split: if_splits)
  have pub: "\<exists>p s. ec_Release c = Some p \<and> rl_Subject p = Some s \<and> review_backed ops (ec_ReleaseEffects c) p \<and>
        er_CanonicalSubject req \<in> {ReleaseEffectSubject (rs_SubjectDigest s) ''npm'', ReleaseEffectSubject (rs_SubjectDigest s) ''browser''}"
    if "er_Kind req = EffectPublication"
    using rel kind that
    by (auto simp: CheckReleaseEffect_def Release_Approved_def Approved_iff review_backed_def checkReviewEffect_None
        split: if_splits option.splits)
  have act: "\<exists>p s en eb. ec_Release c = Some p \<and> rl_Subject p = Some s \<and> Release_Published p \<and>
        er_CanonicalSubject req = ReleaseEffectSubject (rs_SubjectDigest s) ''activation'' \<and>
        ec_ReleaseEffects c (rt_EffectID (rl_Npm p)) = Some en \<and> e_State en = EffectSucceeded \<and>
        e_OutcomeRef en = rt_ReceiptDigest (rl_Npm p) \<and>
        ec_ReleaseEffects c (rt_EffectID (rl_Browser p)) = Some eb \<and> e_State eb = EffectSucceeded \<and>
        e_OutcomeRef eb = rt_ReceiptDigest (rl_Browser p)"
    if "er_Kind req = EffectActivation"
    using rel kind that
    by (auto simp: CheckReleaseEffect_def check_all_None_iff checkTargetEffect_None
        simp del: check_all.simps split: if_splits option.splits)
  from pub act kind show ?thesis by blast
qed

theorem CheckEffect_release_witness:
  "CheckEffect sample_effect_request sample_effect_context = None \<and> review_backed sample_op sample_effects sample_release"
proof -
  have c: "ec_Operation sample_effect_context = Some sample_op" "ec_Release sample_effect_context = Some sample_release"
    "ec_ReleaseEffects sample_effect_context = sample_effects" "er_Kind sample_effect_request = EffectPublication"
    by (simp_all add: sample_effect_context_def sample_effect_request_def)
  from CheckEffect_release [OF sample_effect_admitted c(1)] c(2-4) sample_effect_admitted show ?thesis by auto
qed

end
