(* ===== verification/Generation.thy ===== *)
theory Generation
  imports Attempt
begin

text \<open>
  \<open>internal/domain/generation.go\<close>: the execution permit that opens the active window, the
  confirmed lease facts, the control commands and the business settlement of an operation.
  The capacity difference of a pool is computed in 32-bit arithmetic, as in the source.
\<close>

section \<open>Permits\<close>

definition wrap32 :: "int \<Rightarrow> int" where
  "wrap32 x = (x + 2147483648) mod 4294967296 - 2147483648"

datatype permit_state = PermitActive | PermitReleased | PermitExpiredUnconfirmed

record resource_pool =
  rp_ID :: string
  rp_Class :: string
  rp_Capacity :: int
  rp_ReservedControl :: int

definition Pool_Available :: "resource_pool \<Rightarrow> int \<Rightarrow> bool" where
  "Pool_Available p active \<longleftrightarrow> active < wrap32 (rp_Capacity p - rp_ReservedControl p)"

record permit =
  pm_ID :: string
  pm_PoolID :: string
  pm_OwnerKind :: string
  pm_OwnerID :: string
  pm_FenceEpoch :: u64
  pm_State :: permit_state
  pm_GrantedAt :: instant
  pm_ReleasedAt :: "instant option"
  pm_ReleaseEvidence :: string

record permit_decision =
  pd_Granted :: bool
  pd_Permit :: "permit option"
  pd_ActiveDeadline :: "instant option"

definition DecidePermit ::
  "string \<Rightarrow> operation \<Rightarrow> profile \<Rightarrow> resource_pool option \<Rightarrow> int \<Rightarrow> permit option \<Rightarrow> instant \<Rightarrow> err + permit_decision" where
  "DecidePermit new_id ops prof pool active held now =
     (if op_Kind ops \<noteq> KindGeneration \<and> op_Kind ops \<noteq> KindRefinement then Inl ErrInvalid
      else if FencedForNewDispatch ops then Inl ErrStaleExecution
      else if op_Intake ops \<noteq> IntakeConfirmed then Inl ErrStaleExecution
      else if (case held of None \<Rightarrow> False | Some h \<Rightarrow> pm_State h = PermitActive)
        then Inr \<lparr>pd_Granted = True, pd_Permit = held, pd_ActiveDeadline = op_ActiveDeadline ops\<rparr>
      else if \<not> now < op_Deadline ops then Inl ErrStaleExecution
      else case pool of
        None \<Rightarrow> Inl ErrProfileUnqualified
      | Some p \<Rightarrow>
          if rp_ID p \<noteq> pf_QueuePool prof then Inl ErrProfileUnqualified
          else if \<not> Pool_Available p active
            then Inr \<lparr>pd_Granted = False, pd_Permit = None, pd_ActiveDeadline = op_ActiveDeadline ops\<rparr>
          else Inr \<lparr>pd_Granted = True,
                 pd_Permit = Some \<lparr>pm_ID = new_id, pm_PoolID = rp_ID p, pm_OwnerKind = ''operation'', pm_OwnerID = op_ID ops,
                   pm_FenceEpoch = op_ExecutionEpoch ops, pm_State = PermitActive, pm_GrantedAt = now,
                   pm_ReleasedAt = None, pm_ReleaseEvidence = []\<rparr>,
                 pd_ActiveDeadline = (case op_ActiveDeadline ops of
                     None \<Rightarrow> Some (truncate_us now + pf_ActiveWindow prof) | Some d \<Rightarrow> Some d)\<rparr>)"

record funding =
  fu_OperationID :: string
  fu_CommandID :: string
  fu_RequestDigest :: digest
  fu_Amount :: money
  fu_FundedAt :: instant

section \<open>Leases\<close>

definition RecordLease ::
  "operation \<Rightarrow> u64 \<Rightarrow> lease_state \<Rightarrow> string \<Rightarrow> u64 \<Rightarrow> instant option \<Rightarrow> err + (operation \<times> bool)" where
  "RecordLease ops occurrence state leaseID fence expiresAt =
     (let l = op_Lease ops in
      if occurrence = 0 then Inl ErrInvalid
      else if occurrence \<le> ls_Occurrence l then Inr (ops, False)
      else case state of
        LeaseHeld \<Rightarrow>
          if ls_State l = LeaseLost then Inl ErrStaleExecution
          else (case expiresAt of
                  None \<Rightarrow> Inl ErrInvalid
                | Some x \<Rightarrow>
                    if leaseID = [] then Inl ErrInvalid
                    else if ls_State l = LeaseHeld \<and> ls_LeaseID l \<noteq> leaseID then Inl ErrInvalid
                    else let exp0 = truncate_us x;
                             e = (case ls_ExpiresAt l of None \<Rightarrow> exp0 | Some known \<Rightarrow> if exp0 < known then known else exp0)
                         in Inr (ops\<lparr>op_Lease := \<lparr>ls_State = LeaseHeld, ls_LeaseID = leaseID, ls_Fence = fence,
                                                   ls_ExpiresAt = Some e, ls_Occurrence = occurrence\<rparr>\<rparr>, True))
      | LeaseLost \<Rightarrow> Inr (ops\<lparr>op_Lease := l\<lparr>ls_State := LeaseLost, ls_Occurrence := occurrence\<rparr>\<rparr>, True)
      | LeaseReleased \<Rightarrow>
          if ls_State l = LeaseLost then Inr (ops\<lparr>op_Lease := l\<lparr>ls_Occurrence := occurrence\<rparr>\<rparr>, True)
          else Inr (ops\<lparr>op_Lease := l\<lparr>ls_State := LeaseReleased, ls_Occurrence := occurrence\<rparr>\<rparr>, True)
      | _ \<Rightarrow> Inl ErrInvalid)"

section \<open>Control commands\<close>

record control_decision =
  cn_Outcome :: command_outcome
  cn_ReasonCode :: string
  cn_Relay :: bool

definition control_dec :: "command_outcome \<Rightarrow> string \<Rightarrow> bool \<Rightarrow> control_decision" where
  "control_dec out reason relay = \<lparr>cn_Outcome = out, cn_ReasonCode = reason, cn_Relay = relay\<rparr>"

definition DecideControl ::
  "operation \<Rightarrow> profile \<Rightarrow> command_kind \<Rightarrow> revision \<Rightarrow> string \<Rightarrow> instant \<Rightarrow> err + control_decision" where
  "DecideControl ops prof kind expected target now =
     (if expected \<noteq> op_Revision ops then Inl ErrRevisionConflict
      else if \<not> pf_SupportsControl prof then Inr (control_dec OutcomeRejected ''UNSUPPORTED_BY_PROFILE'' False)
      else if Lifecycle_Terminal (op_Lifecycle ops) then Inr (control_dec OutcomeRejected ''TERMINAL'' False)
      else if op_Control ops = ControlCancelPending \<or> op_Control ops = ControlCancelApplied
        then Inr (control_dec OutcomeRejected ''CANCEL_INSTALLED'' False)
      else if op_Lifecycle ops = LifecycleReconciling then Inr (control_dec OutcomeBlocked ''RECONCILING'' False)
      else Inr (case kind of
        CommandHold \<Rightarrow>
          if op_Control ops = ControlHoldApplied then control_dec OutcomeApplied [] False
          else if op_Control ops = ControlHoldPending then control_dec OutcomePending [] False
          else control_dec OutcomePending [] True
      | CommandResume \<Rightarrow>
          if op_Control ops = ControlNone then control_dec OutcomeRejected ''NOT_HELD'' False
          else if op_Control ops = ControlHoldPending then control_dec OutcomeBlocked ''HOLD_PENDING'' False
          else if ls_State (op_Lease ops) = LeaseLost then control_dec OutcomeRejected ''LEASE_LOST'' False
          else if \<not> now < EffectiveDeadline ops then control_dec OutcomeRejected ''DEADLINE_EXCEEDED'' False
          else control_dec OutcomePending [] True
      | CommandChangeDefinition \<Rightarrow>
          if target = [] \<or> \<not> HasDefinition prof target then control_dec OutcomeRejected ''DEFINITION_UNKNOWN'' False
          else if target = op_DefinitionActivation ops then control_dec OutcomeApplied [] False
          else if op_Control ops = ControlHoldPending then control_dec OutcomeBlocked ''HOLD_PENDING'' False
          else control_dec OutcomePending [] True
      | _ \<Rightarrow> control_dec OutcomeRejected ''UNSUPPORTED_BY_PROFILE'' False))"

definition ApplyControl :: "operation \<Rightarrow> command_kind \<Rightarrow> command_outcome \<Rightarrow> string \<Rightarrow> operation" where
  "ApplyControl ops kind out target =
     (if Lifecycle_Terminal (op_Lifecycle ops) \<or> op_Control ops = ControlCancelPending \<or> op_Control ops = ControlCancelApplied
      then ops
      else case kind of
        CommandHold \<Rightarrow>
          if out = OutcomeApplied
          then ops\<lparr>op_Control := ControlHoldApplied, op_Lifecycle := LifecycleSuspended, op_Phase := ''held''\<rparr>
          else if op_Control ops = ControlHoldPending
          then (let o1 = ops\<lparr>op_Control := ControlNone\<rparr>
                in if op_Phase o1 = ''hold_pending'' then o1\<lparr>op_Phase := ''running''\<rparr> else o1)
          else ops
      | CommandResume \<Rightarrow>
          if out = OutcomeApplied \<and> op_Control ops = ControlHoldApplied
          then ops\<lparr>op_Control := ControlNone, op_Lifecycle := LifecycleRunning, op_Phase := ''resumed''\<rparr>
          else ops
      | CommandChangeDefinition \<Rightarrow>
          if out = OutcomeApplied then ops\<lparr>op_DefinitionActivation := target\<rparr> else ops
      | _ \<Rightarrow> ops)"

section \<open>Business settlement\<close>

datatype operation_outcome = OperationSucceeded | OperationFailed | OperationCanceled | OperationOutcomeOther string

definition SettleOperation :: "operation \<Rightarrow> operation_outcome \<Rightarrow> string \<Rightarrow> string \<Rightarrow> err + operation" where
  "SettleOperation ops out failureCode phase =
     (if Lifecycle_Terminal (op_Lifecycle ops) then Inr ops
      else if op_Cleanup ops = CleanupUnknown then Inl ErrStaleExecution
      else let cancelRequested = (op_Control ops = ControlCancelPending \<or> op_Control ops = ControlCancelApplied \<or>
                                  out = OperationCanceled);
               o1 = (if phase \<noteq> [] then ops\<lparr>op_Phase := phase\<rparr> else ops);
               o2 = (if cancelRequested
                     then let o' = o1\<lparr>op_Control := ControlCancelApplied, op_Lifecycle := LifecycleCanceled, op_FailureCode := []\<rparr>
                          in if phase = [] then o'\<lparr>op_Phase := ''canceled''\<rparr> else o'
                     else if out = OperationSucceeded
                     then o1\<lparr>op_Lifecycle := LifecycleSucceeded, op_FailureCode := []\<rparr>
                     else o1\<lparr>op_Lifecycle := LifecycleFailed,
                             op_FailureCode := firstNonEmpty [failureCode, op_FailureCode o1, ''FAILED'']\<rparr>)
           in Inr (o2\<lparr>op_Relay := RelaySettled\<rparr>))"

record settlement_intent =
  si_OperationID :: string
  si_CommandID :: string
  si_RequestDigest :: digest
  si_Outcome :: operation_outcome
  si_FailureCode :: string
  si_Phase :: string

end
