(* ===== verification/Lifecycle.thy ===== *)
theory Lifecycle
  imports Effect_Admission Generation
begin

text \<open>
  The life of one operation across the services of \<open>internal/application\<close>. Every change of an
  operation row is made by a call of \<open>Operation.Transition\<close> with a function literal; each
  literal is a definition here, named after the transition it records. The relation
  \<open>op_change\<close> states from which operation, under which checks of the service, each literal is
  passed; \<open>op_step\<close> is the transition itself and \<open>op_run\<close> a history of them with the events
  written. What a service reads from other rows (the profile, open attempts, unresolved
  effects, the question set, the attempt, the inventory version) is arbitrary in these rules,
  so the properties hold whatever those rows are.
\<close>

section \<open>The changes the services make\<close>

text \<open>\<open>operations.go\<close>: intake confirmation, a relayed control command and the cancel.\<close>

definition intake_confirmed :: "string \<Rightarrow> operation \<Rightarrow> operation" where
  "intake_confirmed version ops = ops\<lparr>op_Intake := IntakeConfirmed, op_IntakeVersion := version, op_Phase := ''accepted''\<rparr>"

definition control_relayed :: "command_kind \<Rightarrow> operation \<Rightarrow> operation" where
  "control_relayed kind ops =
     (if kind = CommandHold then ops\<lparr>op_Control := ControlHoldPending, op_Phase := ''hold_pending''\<rparr> else ops)"

definition cancel_relay :: "operation \<Rightarrow> operation" where
  "cancel_relay ops =
     (case op_Relay ops of
        RelayPending \<Rightarrow> ops\<lparr>op_Relay := RelaySettled\<rparr>
      | RelayStarted \<Rightarrow> ops\<lparr>op_Relay := RelayCancelPending\<rparr>
      | _ \<Rightarrow> ops)"

definition cancel_installed :: "bool \<Rightarrow> operation \<Rightarrow> operation" where
  "cancel_installed quiescent ops = cancel_relay (ApplyCancelFence ops quiescent)"

text \<open>\<open>execution.go\<close>: attempts, launches, instances, stages and the close.\<close>

definition attempt_opened :: "operation \<Rightarrow> operation" where
  "attempt_opened ops = ops\<lparr>op_Lifecycle := LifecycleRunning, op_Phase := ''attempt_open''\<rparr>"

definition launch_prepared :: "operation \<Rightarrow> operation" where
  "launch_prepared ops = ops\<lparr>op_Phase := ''launch_prepared'', op_Cleanup := CleanupPending\<rparr>"

definition phase_moved :: "string \<Rightarrow> operation \<Rightarrow> operation" where
  "phase_moved phase ops = ops\<lparr>op_Phase := phase\<rparr>"

definition attempt_closed ::
  "attempt \<Rightarrow> stage option \<Rightarrow> attempt_outcome \<Rightarrow> cleanup_state \<Rightarrow> string \<Rightarrow> bool \<Rightarrow> bool \<Rightarrow> bool \<Rightarrow> operation \<Rightarrow> operation" where
  "attempt_closed at st out cleanup failureCode multiStep unresolved unknownAttempt ops =
     (let o1 = fst (SettleClose ops at st out cleanup failureCode multiStep);
          o2 = (if unknownAttempt then o1\<lparr>op_Cleanup := CleanupUnknown\<rparr> else o1);
          o3 = (if unresolved \<or> unknownAttempt
                then let o' = o2\<lparr>op_Lifecycle := LifecycleReconciling\<rparr>
                     in if op_Control o' = ControlCancelApplied then o'\<lparr>op_Control := ControlCancelPending\<rparr> else o'
                else o2)
      in if Lifecycle_Terminal (op_Lifecycle o3) then o3\<lparr>op_Relay := RelaySettled\<rparr> else o3)"

text \<open>Whether \<open>CloseAttempt\<close> records a transition for this attempt, and not the answer of an
  earlier close or a conflict.\<close>

definition close_records :: "operation \<Rightarrow> attempt \<Rightarrow> attempt_outcome \<Rightarrow> cleanup_state \<Rightarrow> bool \<Rightarrow> bool \<Rightarrow> bool" where
  "close_records ops at out cleanup unresolved unknownAttempt \<longleftrightarrow>
     at_State at \<noteq> AttemptClosed \<or>
     (at_Outcome at = out \<and>
      (CanSettleCleanup at out cleanup \<or>
       (op_Lifecycle ops = LifecycleReconciling \<and> \<not> unresolved \<and> \<not> unknownAttempt \<and>
        cleanup \<noteq> CleanupUnknown \<and> out \<noteq> OutcomeUnknown)))"

text \<open>\<open>execution_settlement.go\<close>: a settlement that applies, and one kept pending by an open
  obligation. The service discards the row when \<open>SettleOperation\<close> refuses.\<close>

definition settlement_applied :: "operation_outcome \<Rightarrow> string \<Rightarrow> string \<Rightarrow> operation \<Rightarrow> operation" where
  "settlement_applied out failureCode phase ops =
     (case SettleOperation ops out failureCode phase of Inr y \<Rightarrow> y | Inl _ \<Rightarrow> ops)"

definition settlement_pending :: "bool \<Rightarrow> string \<Rightarrow> operation \<Rightarrow> operation" where
  "settlement_pending unknownAttempt phase ops =
     (let o1 = (if unknownAttempt then ops\<lparr>op_Cleanup := CleanupUnknown\<rparr> else ops);
          o2 = o1\<lparr>op_Lifecycle := LifecycleReconciling, op_FailureCode := ''EFFECT_UNCERTAIN''\<rparr>
      in if phase \<noteq> [] then o2\<lparr>op_Phase := phase\<rparr> else o2)"

text \<open>\<open>generation.go\<close>: the execution permit, a lease report and the answer to a control command.\<close>

definition permit_granted :: "permit_decision \<Rightarrow> operation \<Rightarrow> operation" where
  "permit_granted d ops =
     (let o1 = (if op_ActiveDeadline ops = None then ops\<lparr>op_ActiveDeadline := pd_ActiveDeadline d\<rparr> else ops)
      in o1\<lparr>op_Lifecycle := LifecycleRunning, op_Phase := ''admitted''\<rparr>)"

definition lease_recorded :: "u64 \<Rightarrow> lease_state \<Rightarrow> string \<Rightarrow> u64 \<Rightarrow> instant option \<Rightarrow> operation \<Rightarrow> operation" where
  "lease_recorded occurrence state leaseID fence expiresAt ops =
     (let o1 = (case RecordLease ops occurrence state leaseID fence expiresAt of Inl _ \<Rightarrow> ops | Inr (o', _) \<Rightarrow> o')
      in if state = LeaseLost then o1\<lparr>op_Phase := ''lease_lost''\<rparr> else o1)"

definition relay_outcome :: "operation \<Rightarrow> command_outcome \<Rightarrow> command_outcome" where
  "relay_outcome ops out =
     (if Lifecycle_Terminal (op_Lifecycle ops) \<or> op_Control ops = ControlCancelPending \<or> op_Control ops = ControlCancelApplied
      then OutcomeRejected else out)"

text \<open>\<open>recovery.go\<close>: the fence of a recovery run.\<close>

definition recovery_fence :: "u64 \<Rightarrow> operation \<Rightarrow> operation" where
  "recovery_fence epoch ops =
     cancel_relay (ops\<lparr>op_ExecutionEpoch := op_ExecutionEpoch ops + 1, op_RecoveryEpoch := epoch,
       op_Lifecycle := LifecycleReconciling, op_Phase := ''recovery_fenced'', op_FailureCode := ''RECOVERY_FENCED''\<rparr>)"

text \<open>\<open>preparation.go\<close>: questions, answers and the brief.\<close>

definition questions_asked :: "operation \<Rightarrow> operation" where
  "questions_asked ops = ops\<lparr>op_Lifecycle := LifecycleWaiting, op_Phase := ''awaiting_input''\<rparr>"

definition question_answered :: "operation \<Rightarrow> operation" where
  "question_answered ops = ops\<lparr>op_Lifecycle := LifecycleRunning, op_Phase := ''answered''\<rparr>"

definition brief_frozen :: "string \<Rightarrow> operation \<Rightarrow> operation" where
  "brief_frozen briefID ops =
     ops\<lparr>op_Subject := (op_Subject ops)\<lparr>sj_BriefID := briefID\<rparr>, op_Phase := ''brief_frozen''\<rparr>"

text \<open>\<open>relay.go\<close>, \<open>dispatch.go\<close>, \<open>finance.go\<close> and \<open>effects.go\<close>.\<close>

definition relay_started :: "string \<Rightarrow> operation \<Rightarrow> operation" where
  "relay_started runID ops =
     (if op_Relay ops \<noteq> RelayPending then ops
      else let o1 = ops\<lparr>op_Relay := RelayStarted, op_RelayRunID := runID\<rparr>
           in if op_Phase o1 = ''accepted'' then o1\<lparr>op_Phase := ''scheduled''\<rparr> else o1)"

definition relay_cancel_sent :: "operation \<Rightarrow> operation" where
  "relay_cancel_sent ops = (if op_Relay ops = RelayCancelPending then ops\<lparr>op_Relay := RelaySettled\<rparr> else ops)"

definition finance_moved :: "finance_state \<Rightarrow> operation \<Rightarrow> operation" where
  "finance_moved f ops = ops\<lparr>op_Finance := f\<rparr>"

definition financeSettleable :: "operation \<Rightarrow> bool" where
  "financeSettleable ops \<longleftrightarrow>
     Lifecycle_Terminal (op_Lifecycle ops) \<and> (op_Finance ops = FinanceFunded \<or> op_Finance ops = FinanceNotFunded)"

definition candidate_recorded :: "string \<Rightarrow> operation \<Rightarrow> operation" where
  "candidate_recorded effectID ops = ops\<lparr>op_CandidateEffectID := effectID\<rparr>"

section \<open>Which change is made from which operation\<close>

inductive op_change :: "operation \<Rightarrow> (operation \<Rightarrow> operation) \<Rightarrow> bool" where
  confirmIntake: "op_Intake ops \<noteq> IntakeConfirmed \<Longrightarrow> op_change ops (intake_confirmed version)"
| SubmitCommand_control:
    "DecideControl ops prof kind expected target now = Inr d \<Longrightarrow> cn_Relay d \<Longrightarrow> kind \<noteq> CommandCancel \<Longrightarrow>
     op_change ops (control_relayed kind)"
| SubmitCommand_cancel:
    "quiescent = SendersQuiescent ops open_or_unresolved \<Longrightarrow> DecideCancel ops expected quiescent = Inr d \<Longrightarrow>
     cd_Applied d \<Longrightarrow> op_change ops (cancel_installed quiescent)"
| OpenAttempt:
    "NewAttempt new_id ops cmd stepID visit ordinal profileID now = Inr at \<Longrightarrow> op_change ops attempt_opened"
| PrepareLaunch:
    "NewLaunch new_id ops at cmd launchKey backend img deadline now = Inr l \<Longrightarrow> op_change ops launch_prepared"
| RegisterInstance:
    "NewInstance new_id l jobUID podUID img hasCurrent now = Inr i \<Longrightarrow> inst_Current i \<Longrightarrow>
     at_State (at :: attempt) \<noteq> AttemptClosed \<Longrightarrow> op_change ops (phase_moved ''running'')"
| AcceptResult:
    "AcceptStage new_id ops at i cmd profileID vd failureCode resultDigest manifest observer observerEpoch now = Inr st \<Longrightarrow>
     op_change ops (phase_moved ''result_accepted'')"
| RecordProgress:
    "\<not> Lifecycle_Terminal (op_Lifecycle ops) \<Longrightarrow> op_Lifecycle ops \<noteq> LifecycleReconciling \<Longrightarrow> op_change ops id"
| CloseAttempt:
    "close_records ops at out cleanup unresolved unknownAttempt \<Longrightarrow>
     unresolved = (unresolvedEffects \<or> op_Finance ops = FinanceExposureUnknown) \<Longrightarrow>
     op_change ops (attempt_closed at st out cleanup failureCode (pf_MultiStep (prof :: profile)) unresolved unknownAttempt)"
| SettleOperation_pending:
    "\<not> Lifecycle_Terminal (op_Lifecycle ops) \<Longrightarrow> op_change ops (settlement_pending unknownAttempt phase)"
| SettleOperation_applied:
    "\<not> Lifecycle_Terminal (op_Lifecycle ops) \<Longrightarrow> SettleOperation ops out failureCode phase = Inr o' \<Longrightarrow>
     op_change ops (settlement_applied out failureCode phase)"
| PermitQueued:
    "DecidePermit new_id ops prof pool active held now = Inr d \<Longrightarrow> \<not> pd_Granted d \<Longrightarrow> op_Phase ops \<noteq> ''queued'' \<Longrightarrow>
     op_change ops (phase_moved ''queued'')"
| PermitGranted:
    "DecidePermit new_id ops prof pool active None now = Inr d \<Longrightarrow> pd_Granted d \<Longrightarrow> op_change ops (permit_granted d)"
| RecordLease_changed:
    "RecordLease ops occurrence state leaseID fence expiresAt = Inr (o', True) \<Longrightarrow>
     op_change ops (lease_recorded occurrence state leaseID fence expiresAt)"
| RecordCommandRelay:
    "out \<noteq> OutcomePending \<Longrightarrow> op_change ops (\<lambda>x. ApplyControl x kind (relay_outcome ops out) target)"
| StartRecovery:
    "\<not> Lifecycle_Terminal (op_Lifecycle ops) \<Longrightarrow> op_change ops (recovery_fence epoch)"
| RecordQuestionSet:
    "NewQuestionSet new_id ops prof cmd round questions openExists now = Inr qs \<Longrightarrow> op_change ops questions_asked"
| SubmitAnswer:
    "NewAnswer new_id ops qs t cmd rvn binding now = Inr a \<Longrightarrow> op_change ops question_answered"
| RecordBrief:
    "NewBrief new_id ops t cmd rvn binding requirements sources brands assets component now = Inr b \<Longrightarrow>
     op_change ops (brief_frozen (br_ID b))"
| Relay_started: "op_Relay ops = RelayPending \<Longrightarrow> op_change ops (relay_started runID)"
| Relay_cancel_sent: "op_Relay ops = RelayCancelPending \<Longrightarrow> op_change ops relay_cancel_sent"
| Allocate: "\<not> FencedForNewDispatch ops \<Longrightarrow> op_change ops (finance_moved FinanceFunded)"
| ExposureUnknown:
    "op_Finance ops \<noteq> FinanceExposureUnknown \<Longrightarrow> op_change ops (finance_moved FinanceExposureUnknown)"
| ExposureSettled:
    "op_Finance ops = FinanceExposureUnknown \<Longrightarrow> op_change ops (finance_moved FinanceFunded)"
| SettleFinance: "financeSettleable ops \<Longrightarrow> op_change ops (finance_moved FinanceSettled)"
| RecordCandidate:
    "CheckEffect req c = None \<Longrightarrow> ec_Operation c = Some ops \<Longrightarrow> BindsLineage ops req \<Longrightarrow> op_CandidateEffectID ops = [] \<Longrightarrow>
     op_change ops (candidate_recorded effectID)"

text \<open>The payload of an event is bound to the attempt, the stage or the progress report after the
  transition; its sequence number, revision and transition are those of \<open>Transition\<close>.\<close>

definition same_event :: "event \<Rightarrow> event \<Rightarrow> bool" where
  "same_event e e' \<longleftrightarrow>
     ev_OperationID e' = ev_OperationID e \<and> ev_EventSeq e' = ev_EventSeq e \<and> ev_TransitionID e' = ev_TransitionID e \<and>
     ev_EventType e' = ev_EventType e \<and> ev_Revision e' = ev_Revision e \<and> ev_OccurredAt e' = ev_OccurredAt e \<and>
     ev_PriorLifecycle e' = ev_PriorLifecycle e \<and> pl_Lifecycle (ev_Payload e') = pl_Lifecycle (ev_Payload e) \<and>
     pl_Control (ev_Payload e') = pl_Control (ev_Payload e)"

inductive op_step :: "operation \<Rightarrow> event \<Rightarrow> operation \<Rightarrow> bool" where
  step: "op_change ops f \<Longrightarrow> Transition ops transitionID now f = (ops', e) \<Longrightarrow> same_event e e' \<Longrightarrow> op_step ops e' ops'"

inductive op_run :: "operation \<Rightarrow> event list \<Rightarrow> operation \<Rightarrow> bool" where
  run_nil: "op_run ops [] ops"
| run_snoc: "op_run ops es o1 \<Longrightarrow> op_step o1 e o2 \<Longrightarrow> op_run ops (es @ [e]) o2"

section \<open>How an operation row comes into being\<close>

text \<open>\<open>Operations.Accept\<close> inserts the new operation with its intake and source bound, after a
  first transition from revision 0; \<open>Recovery.restoreOperation\<close> recreates a row the inventory
  names and the database lost.\<close>

definition accepted_row :: "operation \<Rightarrow> preparation_intake option \<Rightarrow> string option \<Rightarrow> instant \<Rightarrow> operation \<times> event" where
  "accepted_row fresh intake handle now =
     (let o1 = (case intake of None \<Rightarrow> fresh | Some i \<Rightarrow> fresh\<lparr>op_Preparation := Some i\<rparr>);
          o2 = (case handle of None \<Rightarrow> o1 | Some h \<Rightarrow> o1\<lparr>op_Subject := (op_Subject o1)\<lparr>sj_SourceHandle := h\<rparr>\<rparr>)
      in Transition (o2\<lparr>op_Revision := 0\<rparr>) ''accepted'' now id)"

definition restored_row ::
  "(string \<Rightarrow> digest) \<Rightarrow> string \<Rightarrow> u64 \<Rightarrow> profile option \<Rightarrow> string \<Rightarrow> string \<Rightarrow> string \<Rightarrow> string \<Rightarrow> operation_kind option \<Rightarrow> string \<Rightarrow>
   digest \<Rightarrow> digest \<Rightarrow> instant \<Rightarrow> u64 \<Rightarrow> string \<Rightarrow> instant \<Rightarrow> operation \<times> event" where
  "restored_row DigestOf runID recoveryEpoch prof tenantID projectID operationID commandID kind profileID subjectDigest
       requestDigest recordedAt executionEpoch intakeVersion now =
     (let commandID' = (if commandID = [] then ''recovery:'' @ operationID else commandID);
          subjectDigest' = (if subjectDigest = [] then DigestOf (''recovered-subject:'' @ operationID) else subjectDigest);
          requestDigest' = (if requestDigest = [] then DigestOf (''recovered-request:'' @ operationID) else requestDigest);
          recordedAt' = (if recordedAt = 0 then now else recordedAt);
          deadline = (case prof of None \<Rightarrow> recordedAt' | Some p \<Rightarrow> recordedAt' + pf_OperationDeadline p);
          ops = \<lparr>op_ID = operationID, op_TenantID = tenantID, op_ProjectID = projectID, op_ActorID = ''recovery'',
            op_CommandID = commandID', op_Kind = (case kind of None \<Rightarrow> KindLocalCheck | Some k \<Rightarrow> k),
            op_Subject = \<lparr>sj_ProfileID = (if profileID = [] then ''recovered'' else profileID),
              sj_SubjectDigest = subjectDigest', sj_BriefID = [], sj_SourceRevision = [], sj_SourceHandle = [],
              sj_SourceOperationID = [], sj_PackageVersion = []\<rparr>,
            op_SemanticDigest = requestDigest', op_Lifecycle = LifecycleReconciling, op_Phase = ''recovered'',
            op_Control = ControlNone, op_Cleanup = CleanupUnknown, op_Finance = FinanceExposureUnknown,
            op_FailureCode = ''RECOVERED_FROM_INVENTORY'', op_Revision = 0, op_NextEventSeq = 1,
            op_ExecutionEpoch = executionEpoch + 1, op_RecoveryEpoch = recoveryEpoch, op_Deadline = deadline,
            op_Intake = IntakeConfirmed, op_IntakeVersion = intakeVersion, op_Relay = RelaySettled, op_RelayRunID = [],
            op_CreatedAt = recordedAt', op_UpdatedAt = now, op_ActiveDeadline = None,
            op_Lease = \<lparr>ls_State = LeaseStateOther [], ls_LeaseID = [], ls_Fence = 0, ls_ExpiresAt = None, ls_Occurrence = 0\<rparr>,
            op_DefinitionActivation = [], op_Preparation = None, op_CandidateEffectID = []\<rparr>
      in Transition ops (''recovery:'' @ runID @ '':restored'') now id)"

inductive op_born :: "operation \<Rightarrow> event \<Rightarrow> bool" where
  accepted: "NewOperation new_id cmd s kind sj prof now = Inr fresh \<Longrightarrow>
     accepted_row fresh intake handle now = (ops, e) \<Longrightarrow> op_born ops e"
| restored: "restored_row DigestOf runID recoveryEpoch prof tenantID projectID operationID commandID kind profileID
       subjectDigest requestDigest recordedAt executionEpoch intakeVersion now = (ops, e) \<Longrightarrow> op_born ops e"

text \<open>The whole history of an operation row: the events it has written, from the first.\<close>

inductive op_history :: "event list \<Rightarrow> operation \<Rightarrow> bool" where
  born: "op_born ops e \<Longrightarrow> op_history [e] ops"
| grown: "op_history es o1 \<Longrightarrow> op_step o1 e o2 \<Longrightarrow> op_history (es @ [e]) o2"

inductive_cases op_stepE: "op_step ops e ops'"
inductive_cases op_bornE: "op_born ops e"
inductive_cases op_changeE: "op_change ops f"

section \<open>What every change keeps\<close>

named_theorems change_defs "the changes of an operation that only set some of its fields"

lemmas [change_defs] = intake_confirmed_def control_relayed_def cancel_installed_def ApplyCancelFence_def
  attempt_opened_def launch_prepared_def phase_moved_def settlement_pending_def permit_granted_def recovery_fence_def
  questions_asked_def question_answered_def brief_frozen_def relay_started_def relay_cancel_sent_def
  finance_moved_def candidate_recorded_def

text \<open>The identity of a row and its two counters, which only \<open>Transition\<close> moves.\<close>

definition frame :: "operation \<Rightarrow> string \<times> string \<times> string \<times> operation_kind \<times> u64 \<times> u64 \<times> instant \<times> instant" where
  "frame ops = (op_ID ops, op_TenantID ops, op_ProjectID ops, op_Kind ops, op_Revision ops, op_NextEventSeq ops,
     op_Deadline ops, op_CreatedAt ops)"

lemma cancel_relay_keeps [simp]:
  "frame (cancel_relay ops) = frame ops" "op_Lifecycle (cancel_relay ops) = op_Lifecycle ops"
  "op_Control (cancel_relay ops) = op_Control ops" "op_Lease (cancel_relay ops) = op_Lease ops"
  "op_ActiveDeadline (cancel_relay ops) = op_ActiveDeadline ops"
  "op_ExecutionEpoch (cancel_relay ops) = op_ExecutionEpoch ops"
  by (cases "op_Relay ops"; simp add: cancel_relay_def frame_def)+

lemma frame_update [simp]:
  "frame (ops\<lparr>op_Cleanup := a\<rparr>) = frame ops" "frame (ops\<lparr>op_Lifecycle := b\<rparr>) = frame ops"
  "frame (ops\<lparr>op_Control := c\<rparr>) = frame ops" "frame (ops\<lparr>op_Relay := d\<rparr>) = frame ops"
  by (simp_all add: frame_def)

lemma SettleClose_keeps:
  fixes ops at st out cleanup failureCode multiStep
  defines "ops' \<equiv> fst (SettleClose ops at st out cleanup failureCode multiStep)"
  shows "frame ops' = frame ops" "op_Lease ops' = op_Lease ops" "op_ActiveDeadline ops' = op_ActiveDeadline ops"
    "op_ExecutionEpoch ops' = op_ExecutionEpoch ops"
  by (simp_all add: ops'_def SettleClose_def Let_def frame_def)

lemma SettleClose_cancel:
  fixes ops at st out cleanup failureCode multiStep
  assumes "close_cancelRequested ops out"
  defines "ops' \<equiv> fst (SettleClose ops at st out cleanup failureCode multiStep)"
  shows "op_Lifecycle ops' = LifecycleReconciling \<and> op_Control ops' \<in> {ControlCancelPending, ControlCancelApplied} \<or>
    op_Lifecycle ops' = LifecycleCanceled \<and> op_Control ops' = ControlCancelApplied"
  using assms(1) by (simp add: ops'_def SettleClose_def close_cancelRequested_def Let_def)

lemma attempt_closed_keeps [simp]:
  fixes ops at st out cleanup failureCode multiStep unresolved unknownAttempt
  defines "ops' \<equiv> attempt_closed at st out cleanup failureCode multiStep unresolved unknownAttempt ops"
  shows "frame ops' = frame ops" "op_Lease ops' = op_Lease ops" "op_ActiveDeadline ops' = op_ActiveDeadline ops"
    "op_ExecutionEpoch ops' = op_ExecutionEpoch ops"
  by (simp_all add: ops'_def attempt_closed_def SettleClose_keeps Let_def)

lemma settlement_applied_keeps [simp]:
  "frame (settlement_applied out failureCode phase ops) = frame ops" "op_Lease (settlement_applied out failureCode phase ops) = op_Lease ops"
  "op_ActiveDeadline (settlement_applied out failureCode phase ops) = op_ActiveDeadline ops"
  "op_ExecutionEpoch (settlement_applied out failureCode phase ops) = op_ExecutionEpoch ops"
  by (simp_all add: settlement_applied_def SettleOperation_def Let_def frame_def)

lemma lease_recorded_keeps [simp]:
  fixes ops occurrence state leaseID fence expiresAt
  defines "ops' \<equiv> lease_recorded occurrence state leaseID fence expiresAt ops"
  shows "frame ops' = frame ops" "op_Lifecycle ops' = op_Lifecycle ops" "op_Control ops' = op_Control ops"
    "op_ActiveDeadline ops' = op_ActiveDeadline ops" "op_ExecutionEpoch ops' = op_ExecutionEpoch ops"
  by (cases state; cases expiresAt; simp add: ops'_def lease_recorded_def RecordLease_def Let_def frame_def)+

lemma ApplyControl_keeps [simp]:
  "frame (ApplyControl ops kind out target) = frame ops" "op_Lease (ApplyControl ops kind out target) = op_Lease ops"
  "op_ActiveDeadline (ApplyControl ops kind out target) = op_ActiveDeadline ops"
  "op_ExecutionEpoch (ApplyControl ops kind out target) = op_ExecutionEpoch ops"
  by (cases kind; simp add: ApplyControl_def Let_def frame_def)+

lemma op_change_frame: "op_change ops f \<Longrightarrow> frame (f ops) = frame ops"
  by (erule op_changeE; simp only: ; simp add: change_defs; simp add: frame_def Let_def)

lemma Transition_fields:
  assumes "Transition ops transitionID now f = (ops', e)" and "frame (f ops) = frame ops"
  shows "frame ops' = (op_ID ops, op_TenantID ops, op_ProjectID ops, op_Kind ops, op_Revision ops + 1,
      op_NextEventSeq ops + 1, op_Deadline ops, op_CreatedAt ops)"
    and "op_Lifecycle ops' = op_Lifecycle (f ops)" and "op_Control ops' = op_Control (f ops)"
    and "op_Lease ops' = op_Lease (f ops)" and "op_ActiveDeadline ops' = op_ActiveDeadline (f ops)"
    and "op_ExecutionEpoch ops' = op_ExecutionEpoch (f ops)"
    and "ev_OperationID e = op_ID ops" and "ev_EventSeq e = op_NextEventSeq ops" and "ev_Revision e = op_Revision ops + 1"
    and "ev_PriorLifecycle e = Some (op_Lifecycle ops)" and "pl_Lifecycle (ev_Payload e) = op_Lifecycle (f ops)"
    and "ev_TransitionID e = transitionID"
  using assms by (auto simp: Transition_def Let_def frame_def ChangedPayload_def)

section \<open>Cancellation\<close>

definition cancel_requested :: "operation \<Rightarrow> bool" where
  "cancel_requested ops \<longleftrightarrow> op_Control ops = ControlCancelPending \<or> op_Control ops = ControlCancelApplied"

text \<open>How the control state and the lifecycle agree: a canceled operation has its cancel applied,
  an applied cancel leaves only a canceled or a reconciling operation, and an operation with a
  cancel installed has neither succeeded nor failed.\<close>

definition control_inv :: "operation \<Rightarrow> bool" where
  "control_inv ops \<longleftrightarrow>
     (op_Lifecycle ops = LifecycleCanceled \<longrightarrow> op_Control ops = ControlCancelApplied) \<and>
     (op_Control ops = ControlCancelApplied \<longrightarrow> op_Lifecycle ops \<in> {LifecycleCanceled, LifecycleReconciling}) \<and>
     (cancel_requested ops \<longrightarrow> op_Lifecycle ops \<notin> {LifecycleSucceeded, LifecycleFailed})"

lemma attempt_closed_cancel:
  fixes ops at st out cleanup failureCode multiStep unresolved unknownAttempt
  assumes "close_cancelRequested ops out"
  defines "ops' \<equiv> attempt_closed at st out cleanup failureCode multiStep unresolved unknownAttempt ops"
  shows "cancel_requested ops' \<and>
    (op_Lifecycle ops' = LifecycleReconciling \<or> op_Lifecycle ops' = LifecycleCanceled \<and> op_Control ops' = ControlCancelApplied)"
  using SettleClose_cancel [OF assms(1), of at st cleanup failureCode multiStep]
  by (auto simp: ops'_def attempt_closed_def Let_def cancel_requested_def Lifecycle_Terminal_def)

lemma attempt_closed_no_cancel:
  fixes ops at st out cleanup failureCode multiStep unresolved unknownAttempt
  assumes "\<not> close_cancelRequested ops out"
  defines "ops' \<equiv> attempt_closed at st out cleanup failureCode multiStep unresolved unknownAttempt ops"
  shows "op_Control ops' = op_Control ops \<and>
    op_Lifecycle ops' \<in> {LifecycleReconciling, LifecycleRunning, LifecycleSucceeded, LifecycleFailed}"
  using assms(1)
  by (simp add: ops'_def attempt_closed_def SettleClose_def close_cancelRequested_def Let_def)

lemma settlement_applied_control:
  assumes "SettleOperation ops out failureCode phase = Inr o'" and "\<not> Lifecycle_Terminal (op_Lifecycle ops)"
  shows "if cancel_requested ops \<or> out = OperationCanceled
    then op_Control (settlement_applied out failureCode phase ops) = ControlCancelApplied \<and>
         op_Lifecycle (settlement_applied out failureCode phase ops) = LifecycleCanceled
    else op_Control (settlement_applied out failureCode phase ops) = op_Control ops \<and>
         op_Lifecycle (settlement_applied out failureCode phase ops) \<in> {LifecycleSucceeded, LifecycleFailed}"
  using assms by (auto simp: settlement_applied_def SettleOperation_def Let_def cancel_requested_def split: if_splits)

lemma ApplyControl_control:
  "if Lifecycle_Terminal (op_Lifecycle ops) \<or> cancel_requested ops then ApplyControl ops kind out target = ops
   else op_Control (ApplyControl ops kind out target) \<in> {ControlNone, op_Control ops, ControlHoldApplied} \<and>
        op_Lifecycle (ApplyControl ops kind out target) \<in> {op_Lifecycle ops, LifecycleSuspended, LifecycleRunning}"
  by (cases kind; simp add: ApplyControl_def Let_def cancel_requested_def)

text \<open>A control command is relayed only for a live operation without a cancel.\<close>

lemma DecideControl_relay:
  "DecideControl ops prof kind expected target now = Inr d \<Longrightarrow> cn_Relay d \<Longrightarrow>
     \<not> Lifecycle_Terminal (op_Lifecycle ops) \<and> \<not> cancel_requested ops"
  by (auto simp: DecideControl_def control_dec_def cancel_requested_def split: if_splits)

lemma DecideCancel_applied:
  "DecideCancel ops expected quiescent = Inr d \<Longrightarrow> cd_Applied d \<Longrightarrow>
     \<not> Lifecycle_Terminal (op_Lifecycle ops) \<and> \<not> cancel_requested ops"
  by (auto simp: DecideCancel_def cancel_requested_def split: if_splits)

text \<open>Every entry that would start new work refuses a fenced operation.\<close>

lemma fenced_refuses:
  assumes "FencedForNewDispatch ops"
  shows "NewAttempt new_id ops cmd stepID visit ordinal profileID now \<noteq> Inr at'"
    and "NewLaunch new_id ops at cmd launchKey backend img deadline now \<noteq> Inr l"
    and "DecidePermit new_id ops prof pool active held now \<noteq> Inr d"
    and "NewQuestionSet new_id ops prof cmd round questions openExists now \<noteq> Inr qs"
    and "NewBrief new_id ops t cmd rvn binding requirements sources brands assets component now \<noteq> Inr b"
    and "transfer_scope s treq tc tdeadline = Inr x \<Longrightarrow> tc_Operation tc \<noteq> Some ops"
    and "CheckAdmission req c budget = None \<Longrightarrow> ac_Operation c \<noteq> Some ops"
    and "CheckEffect ereq ec = None \<Longrightarrow> ec_Operation ec \<noteq> Some ops"
  using assms
  by (auto simp: NewAttempt_def NewLaunch_def DecidePermit_def NewQuestionSet_def NewBrief_def transfer_scope_def Let_def
      split: option.splits if_splits elim!: CheckAdmission_None CheckEffect_None dest: check_execution_None)

lemma NewAnswer_Inr:
  "NewAnswer new_id ops qs t cmd rvn binding now = Inr a \<Longrightarrow>
     \<not> Lifecycle_Terminal (op_Lifecycle ops) \<and> op_Control ops = ControlNone"
  by (auto simp: NewAnswer_def split: if_splits)

lemma not_fenced:
  "\<not> FencedForNewDispatch ops \<Longrightarrow> op_Control ops = ControlNone \<and> \<not> Lifecycle_Terminal (op_Lifecycle ops)"
  by (simp add: FencedForNewDispatch_def)

text \<open>What a change does to the control state and the lifecycle.\<close>

lemma op_change_control:
  assumes "op_change ops f"
  shows "(op_Control (f ops), op_Lifecycle (f ops)) = (op_Control ops, op_Lifecycle ops) \<or>
    cancel_requested (f ops) \<and>
      (op_Lifecycle (f ops) = LifecycleReconciling \<or>
       op_Lifecycle (f ops) = LifecycleCanceled \<and> op_Control (f ops) = ControlCancelApplied \<or>
       op_Control (f ops) = ControlCancelPending \<and> op_Lifecycle (f ops) = op_Lifecycle ops \<and>
         \<not> Lifecycle_Terminal (op_Lifecycle ops)) \<or>
    \<not> cancel_requested ops \<and> \<not> cancel_requested (f ops) \<and> op_Lifecycle (f ops) \<noteq> LifecycleCanceled \<and>
      (op_Lifecycle (f ops) = LifecycleAccepted \<longrightarrow> op_Lifecycle ops = LifecycleAccepted)"
  using assms
proof (cases rule: op_change.cases)
  case (OpenAttempt new_id cmd stepID visit ordinal profileID now at)
  then have "\<not> FencedForNewDispatch ops" using fenced_refuses(1) by blast
  then show ?thesis using OpenAttempt(1) by (simp add: attempt_opened_def cancel_requested_def FencedForNewDispatch_def)
next
  case (SubmitCommand_control prof kind expected target now d)
  from DecideControl_relay [OF this(2,3)] show ?thesis using SubmitCommand_control(1)
    by (auto simp: control_relayed_def cancel_requested_def Lifecycle_Terminal_def)
next
  case (SubmitCommand_cancel quiescent open_or_unresolved expected d)
  from DecideCancel_applied [OF this(3,4)] show ?thesis using SubmitCommand_cancel(1)
    by (auto simp: cancel_installed_def ApplyCancelFence_def cancel_requested_def Let_def)
next
  case (CloseAttempt at out cleanup unresolved unknownAttempt unresolvedEffects st failureCode prof)
  then show ?thesis
    using attempt_closed_cancel [of ops out at st cleanup failureCode "pf_MultiStep prof" unresolved unknownAttempt]
      attempt_closed_no_cancel [of ops out at st cleanup failureCode "pf_MultiStep prof" unresolved unknownAttempt]
    by (cases "close_cancelRequested ops out") (auto simp: cancel_requested_def close_cancelRequested_def)
next
  case (SettleOperation_applied out failureCode phase o')
  then show ?thesis using settlement_applied_control [OF SettleOperation_applied(3,2)]
    by (auto simp: cancel_requested_def split: if_splits)
next
  case (PermitGranted new_id prof pool active now d)
  then have "\<not> FencedForNewDispatch ops" using fenced_refuses(3) by blast
  then show ?thesis using PermitGranted(1)
    by (simp add: permit_granted_def cancel_requested_def FencedForNewDispatch_def Let_def)
next
  case (RecordCommandRelay out kind target)
  then show ?thesis using ApplyControl_control [of ops kind "relay_outcome ops out" target]
    by (auto simp: cancel_requested_def Lifecycle_Terminal_def split: if_splits)
next
  case (RecordQuestionSet new_id prof cmd round questions openExists now qs)
  then have "\<not> FencedForNewDispatch ops" using fenced_refuses(4) by blast
  then show ?thesis using RecordQuestionSet(1)
    by (simp add: questions_asked_def cancel_requested_def FencedForNewDispatch_def)
next
  case (SubmitAnswer new_id qs t cmd rvn binding now a)
  from NewAnswer_Inr [OF this(2)] show ?thesis using SubmitAnswer(1)
    by (simp add: question_answered_def cancel_requested_def)
qed (auto simp: change_defs cancel_requested_def Let_def)

end
