(* ===== verification/History.thy ===== *)
theory History
  imports Lifecycle
begin

text \<open>
  Properties of whole histories of an operation: the event log, the cancel, the lease, the
  active deadline and the epochs of recovery.
\<close>

section \<open>One step\<close>

lemma op_step_change:
  assumes "op_step ops e ops'"
  obtains f where "op_change ops f" "op_Control ops' = op_Control (f ops)" "op_Lifecycle ops' = op_Lifecycle (f ops)"
    "op_Lease ops' = op_Lease (f ops)" "op_ActiveDeadline ops' = op_ActiveDeadline (f ops)"
    "op_ExecutionEpoch ops' = op_ExecutionEpoch (f ops)"
proof -
  from assms obtain f t now e0 where 1: "op_change ops f" "Transition ops t now f = (ops', e0)"
    by (auto elim: op_stepE)
  from that [OF 1(1)] Transition_fields [OF 1(2) op_change_frame [OF 1(1)]] show thesis by blast
qed

lemma op_step_event:
  assumes "op_step ops e ops'"
  shows "op_ID ops' = op_ID ops" "op_Revision ops' = op_Revision ops + 1" "op_NextEventSeq ops' = op_NextEventSeq ops + 1"
    "op_Deadline ops' = op_Deadline ops" "op_TenantID ops' = op_TenantID ops"
    "ev_OperationID e = op_ID ops" "ev_EventSeq e = op_NextEventSeq ops" "ev_Revision e = op_Revision ops + 1"
    "ev_PriorLifecycle e = Some (op_Lifecycle ops)" "pl_Lifecycle (ev_Payload e) = op_Lifecycle ops'"
proof -
  from assms obtain f t now e0 where 1: "op_change ops f" "Transition ops t now f = (ops', e0)" and 2: "same_event e0 e"
    by (auto elim: op_stepE)
  note T = Transition_fields [OF 1(2) op_change_frame [OF 1(1)]]
  from T(1) show "op_ID ops' = op_ID ops" "op_Revision ops' = op_Revision ops + 1" "op_NextEventSeq ops' = op_NextEventSeq ops + 1"
    "op_Deadline ops' = op_Deadline ops" "op_TenantID ops' = op_TenantID ops"
    by (simp_all add: frame_def)
  from 2 have E: "ev_OperationID e = ev_OperationID e0" "ev_EventSeq e = ev_EventSeq e0" "ev_Revision e = ev_Revision e0"
    "ev_PriorLifecycle e = ev_PriorLifecycle e0" "pl_Lifecycle (ev_Payload e) = pl_Lifecycle (ev_Payload e0)"
    by (auto simp: same_event_def)
  from E T show "ev_OperationID e = op_ID ops" "ev_EventSeq e = op_NextEventSeq ops" "ev_Revision e = op_Revision ops + 1"
    "ev_PriorLifecycle e = Some (op_Lifecycle ops)" "pl_Lifecycle (ev_Payload e) = op_Lifecycle ops'"
    by simp_all
qed

definition fresh_row :: "operation \<times> event \<Rightarrow> bool" where
  "fresh_row r \<longleftrightarrow>
     op_Revision (fst r) = 1 \<and> op_NextEventSeq (fst r) = 2 \<and> op_Control (fst r) = ControlNone \<and>
     op_Lifecycle (fst r) \<in> {LifecycleAccepted, LifecycleReconciling} \<and> op_ActiveDeadline (fst r) = None \<and>
     ev_OperationID (snd r) = op_ID (fst r) \<and> ev_EventSeq (snd r) = 1 \<and> ev_Revision (snd r) = 1 \<and>
     pl_Lifecycle (ev_Payload (snd r)) = op_Lifecycle (fst r) \<and> ev_PriorLifecycle (snd r) = Some (op_Lifecycle (fst r))"

lemma fresh_row_accepted:
  assumes "NewOperation new_id cmd s kind sj prof now = Inr fresh"
  shows "fresh_row (accepted_row fresh intake handle now)"
proof -
  have "op_NextEventSeq fresh = 1 \<and> op_Control fresh = ControlNone \<and> op_Lifecycle fresh = LifecycleAccepted \<and>
      op_ActiveDeadline fresh = None"
    using assms by (auto simp: NewOperation_def split: if_splits)
  then show ?thesis
    by (cases intake; cases handle; simp add: fresh_row_def accepted_row_def Transition_def Let_def ChangedPayload_def)
qed

lemma fresh_row_restored:
  "fresh_row (restored_row DigestOf runID recoveryEpoch prof tenantID projectID operationID commandID kind profileID
     subjectDigest requestDigest recordedAt executionEpoch intakeVersion now)"
  by (simp only: fresh_row_def restored_row_def Transition_def Let_def id_apply fst_conv snd_conv)
    (simp add: ChangedPayload_def)

lemma op_born_fresh: "op_born ops e \<Longrightarrow> fresh_row (ops, e)"
  by (erule op_bornE) (metis fresh_row_accepted fresh_row_restored)+

lemmas op_born_fields = op_born_fresh [unfolded fresh_row_def fst_conv snd_conv]

section \<open>A concrete history\<close>

text \<open>A local check: accepted, confirmed, one attempt opened, a cancel installed while the attempt is
  open, and the attempt closed as canceled.\<close>

definition check_profile :: profile where
  "check_profile =
     \<lparr>pf_ID = ''check'', pf_Kind = KindLocalCheck, pf_OperationDeadline = 1000, pf_StepID = ''s'', pf_JobProfileID = ''job'',
      pf_MultiStep = False, pf_Clarification = \<lparr>cb_MaxRounds = 0, cb_MaxQuestions = 0, cb_Wait = 0\<rparr>, pf_Funding = None,
      pf_QueuePool = [], pf_ActiveWindow = 0, pf_AttemptWindow = 0, pf_Definitions = [], pf_SupportsControl = False,
      pf_MaxRepairs = 0, pf_CodegenProfileID = [], pf_ValidatorProfileID = []\<rparr>"

definition check_command :: command_identity where
  "check_command = \<lparr>cmd_TenantID = ''t'', cmd_CommandID = ''c'', cmd_ActorID = ''a'', cmd_RequestDigest = ''d''\<rparr>"

definition check_intake :: "err + operation" where
  "check_intake =
     NewOperation ''op_1'' check_command \<lparr>sc_TenantID = ''t'', sc_ProjectID = ''p'', sc_ActorID = ''a'', sc_Roles = []\<rparr>
       KindLocalCheck ((op_Subject sample_operation)\<lparr>sj_ProfileID := ''check''\<rparr>) check_profile 0"

definition row0 :: "operation \<times> event" where
  "row0 = accepted_row (projr check_intake) None None 0"

definition row1 :: "operation \<times> event" where
  "row1 = Transition (fst row0) ''intake_confirmed'' 1 (intake_confirmed ''v'')"

definition row2 :: "operation \<times> event" where
  "row2 = Transition (fst row1) ''attempt:att_1:opened'' 2 attempt_opened"

definition row3 :: "operation \<times> event" where
  "row3 = Transition (fst row2) ''cmd:stop'' 3 (cancel_installed False)"

definition row4 :: "operation \<times> event" where
  "row4 = Transition (fst row3) ''attempt:att_1:closed'' 4
     (attempt_closed sample_attempt None OutcomeCanceled CleanupComplete [] (pf_MultiStep check_profile) False False)"

lemma same_event_refl [simp]: "same_event e e"
  by (simp add: same_event_def)

lemma step_to: "op_change ops f \<Longrightarrow> r = Transition ops t now f \<Longrightarrow> op_step ops (snd r) (fst r)"
  by (rule op_step.step [where e = "snd r"]) simp_all

lemma check_intake_Inr: "check_intake = Inr (projr check_intake)"
  by (simp add: check_intake_def NewOperation_def check_profile_def)

lemmas row_defs = row0_def row1_def row2_def row3_def row4_def accepted_row_def Transition_def Let_def check_intake_def
  NewOperation_def check_profile_def intake_confirmed_def attempt_opened_def cancel_installed_def ApplyCancelFence_def
  cancel_relay_def

lemma row0_history: "op_history [snd row0] (fst row0)"
  using check_intake_Inr unfolding check_intake_def
  by (intro born accepted) (auto simp: row0_def check_intake_def)

lemma row1_step: "op_step (fst row0) (snd row1) (fst row1)"
  by (rule step_to [OF confirmIntake row1_def]) (simp add: row_defs)

lemma row2_step: "op_step (fst row1) (snd row2) (fst row2)"
proof -
  have "\<exists>at. NewAttempt ''att_1'' (fst row1) check_command ''s'' 1 1 ''job'' 2 = Inr at"
    by (simp add: NewAttempt_def row_defs FencedForNewDispatch_def Lifecycle_Terminal_def EffectiveDeadline_def)
  then show ?thesis using step_to [OF OpenAttempt row2_def] by blast
qed

lemma row3_step: "op_step (fst row2) (snd row3) (fst row3)"
  by (rule step_to [OF SubmitCommand_cancel [where open_or_unresolved = True and expected = "op_Revision (fst row2)"
        and d = "\<lparr>cd_Outcome = OutcomePending, cd_ReasonCode = [], cd_Applied = True\<rparr>"] row3_def])
    (simp_all add: SendersQuiescent_def DecideCancel_def row_defs Lifecycle_Terminal_def)

lemma row4_step: "op_step (fst row3) (snd row4) (fst row4)"
  by (rule step_to [OF CloseAttempt [where unresolvedEffects = False] row4_def]) (simp_all add: close_records_def sample_attempt_def row_defs)

lemma row3_history: "op_history [snd row0, snd row1, snd row2, snd row3] (fst row3)"
  using grown [OF grown [OF grown [OF row0_history row1_step] row2_step] row3_step] by simp

lemma row4_run: "op_run (fst row3) [snd row4] (fst row4)"
  using run_snoc [OF run_nil row4_step] by simp

section \<open>The event log\<close>

definition log_ok :: "event list \<Rightarrow> operation \<Rightarrow> bool" where
  "log_ok es ops \<longleftrightarrow>
     (\<forall>i < length es. ev_EventSeq (es ! i) = of_nat (Suc i) \<and> ev_Revision (es ! i) = of_nat (Suc i) \<and>
        ev_OperationID (es ! i) = op_ID ops) \<and>
     (\<forall>i. Suc i < length es \<longrightarrow> ev_PriorLifecycle (es ! Suc i) = Some (pl_Lifecycle (ev_Payload (es ! i)))) \<and>
     es \<noteq> [] \<and> pl_Lifecycle (ev_Payload (last es)) = op_Lifecycle ops \<and>
     op_Revision ops = of_nat (length es) \<and> CoveredEventSeq ops = of_nat (length es)"

lemma log_ok_born: "op_born ops e \<Longrightarrow> log_ok [e] ops"
  using op_born_fields by (simp add: log_ok_def CoveredEventSeq_def)

lemma log_ok_step:
  assumes "log_ok es o1" and "op_step o1 e o2"
  shows "log_ok (es @ [e]) o2"
proof -
  note S = op_step_event [OF assms(2)]
  have rv: "op_Revision o1 = of_nat (length es)" and nx: "op_NextEventSeq o1 = of_nat (length es) + 1"
    and ne: "es \<noteq> []" and lst: "pl_Lifecycle (ev_Payload (last es)) = op_Lifecycle o1"
    using assms(1) by (auto simp: log_ok_def CoveredEventSeq_def algebra_simps)
  have 1: "ev_EventSeq ((es @ [e]) ! i) = of_nat (Suc i) \<and> ev_Revision ((es @ [e]) ! i) = of_nat (Suc i) \<and>
      ev_OperationID ((es @ [e]) ! i) = op_ID o2" if "i < length (es @ [e])" for i
    using that assms(1) S rv nx by (cases "i < length es") (auto simp: log_ok_def nth_append less_Suc_eq)
  have 2: "ev_PriorLifecycle ((es @ [e]) ! Suc i) = Some (pl_Lifecycle (ev_Payload ((es @ [e]) ! i)))"
    if "Suc i < length (es @ [e])" for i
  proof (cases "Suc i < length es")
    case True
    then show ?thesis using assms(1) by (simp add: log_ok_def nth_append)
  next
    case False
    with that have "length es = Suc i" by simp
    then show ?thesis using S(9) lst ne by (simp add: nth_append last_conv_nth)
  qed
  from 1 2 S rv nx show ?thesis
    unfolding log_ok_def by (simp add: CoveredEventSeq_def)
qed

lemma log_ok_history: "op_history es ops \<Longrightarrow> log_ok es ops"
  by (induction rule: op_history.induct) (auto intro: log_ok_born log_ok_step)

text \<open>The event log of an operation has no gap and no fork, whatever services write it: the
  events of a history are numbered 1, 2, 3, \<dots> and carry the revision of the same number, the
  operation's own identity, and as prior lifecycle the lifecycle the preceding event
  announced; the last one announces the row's lifecycle, and the row's revision and covered
  event sequence are the number of events written.\<close>

theorem event_log:
  assumes "op_history es ops"
  shows "(\<forall>i < length es. ev_EventSeq (es ! i) = of_nat (Suc i) \<and> ev_Revision (es ! i) = of_nat (Suc i) \<and>
        ev_OperationID (es ! i) = op_ID ops) \<and>
     (\<forall>i. Suc i < length es \<longrightarrow> ev_PriorLifecycle (es ! Suc i) = Some (pl_Lifecycle (ev_Payload (es ! i)))) \<and>
     es \<noteq> [] \<and> pl_Lifecycle (ev_Payload (last es)) = op_Lifecycle ops \<and>
     op_Revision ops = of_nat (length es) \<and> CoveredEventSeq ops = of_nat (length es)"
  using log_ok_history [OF assms] by (simp add: log_ok_def)

section \<open>Cancellation\<close>

lemma op_step_control_inv:
  assumes "control_inv ops" and "op_step ops e ops'"
  shows "control_inv ops'" and "cancel_requested ops \<Longrightarrow> cancel_requested ops'"
    and "op_Lifecycle ops \<noteq> LifecycleAccepted \<Longrightarrow> op_Lifecycle ops' \<noteq> LifecycleAccepted"
proof -
  from assms(2) obtain f where f: "op_change ops f" "op_Control ops' = op_Control (f ops)"
      "op_Lifecycle ops' = op_Lifecycle (f ops)"
    by (auto elim: op_step_change)
  have cr: "cancel_requested ops' \<longleftrightarrow> cancel_requested (f ops)" using f(2) by (simp add: cancel_requested_def)
  note C = op_change_control [OF f(1), folded f(2,3) cr]
  show "control_inv ops'" using C
  proof (elim disjE)
    assume "(op_Control ops', op_Lifecycle ops') = (op_Control ops, op_Lifecycle ops)"
    then show ?thesis using assms(1) by (simp add: control_inv_def cancel_requested_def)
  qed (use assms(1) in \<open>auto simp: control_inv_def cancel_requested_def Lifecycle_Terminal_def\<close>)
  show "cancel_requested ops \<Longrightarrow> cancel_requested ops'" using C by (auto simp: cancel_requested_def)
  show "op_Lifecycle ops \<noteq> LifecycleAccepted \<Longrightarrow> op_Lifecycle ops' \<noteq> LifecycleAccepted" using C by auto
qed

lemma control_inv_history: "op_history es ops \<Longrightarrow> control_inv ops"
proof (induction rule: op_history.induct)
  case (born ops e)
  then show ?case using op_born_fields [OF born] by (auto simp: control_inv_def cancel_requested_def)
next
  case (grown es o1 e o2)
  then show ?case using op_step_control_inv(1) by blast
qed

lemma control_inv_run:
  "op_run ops es ops' \<Longrightarrow> control_inv ops \<Longrightarrow>
     control_inv ops' \<and> (cancel_requested ops \<longrightarrow> cancel_requested ops')"
  by (induction rule: op_run.induct) (use op_step_control_inv in blast)+

lemma cancel_requested_fenced: "cancel_requested ops \<Longrightarrow> FencedForNewDispatch ops"
  by (auto simp: cancel_requested_def FencedForNewDispatch_def)

text \<open>C33: A cancel, once installed, wins. In every later state of the operation, whatever the
  services do in between, the cancel is still installed, the operation has neither succeeded
  nor failed, it is canceled with the cancel applied as soon as it is terminal, and every
  entry that starts new work refuses it: no attempt, no launch, no execution permit, no model
  or tool dispatch and no guarded mutation.\<close>

theorem cancel_wins:
  assumes "op_history es o1" and "cancel_requested o1" and "op_run o1 es' o2"
  shows "cancel_requested o2 \<and> op_Lifecycle o2 \<notin> {LifecycleSucceeded, LifecycleFailed} \<and>
    (Lifecycle_Terminal (op_Lifecycle o2) \<longrightarrow>
       op_Lifecycle o2 = LifecycleCanceled \<and> op_Control o2 = ControlCancelApplied) \<and>
    (\<forall>at'. NewAttempt new_id o2 cmd stepID visit ordinal profileID now \<noteq> Inr at') \<and>
    (\<forall>l. NewLaunch new_id o2 at cmd launchKey backend img deadline now \<noteq> Inr l) \<and>
    (\<forall>d. DecidePermit new_id o2 prof pool active held now \<noteq> Inr d) \<and>
    (CheckAdmission req c budget = None \<longrightarrow> ac_Operation c \<noteq> Some o2) \<and>
    (CheckEffect ereq ec = None \<longrightarrow> ec_Operation ec \<noteq> Some o2)"
proof -
  have i: "control_inv o2" "cancel_requested o2"
    using control_inv_run [OF assms(3) control_inv_history [OF assms(1)]] assms(2) by auto
  note F = fenced_refuses [OF cancel_requested_fenced [OF i(2)]]
  have "op_Lifecycle o2 \<notin> {LifecycleSucceeded, LifecycleFailed}"
    and "Lifecycle_Terminal (op_Lifecycle o2) \<longrightarrow>
       op_Lifecycle o2 = LifecycleCanceled \<and> op_Control o2 = ControlCancelApplied"
    using i by (auto simp: control_inv_def Lifecycle_Terminal_def)
  then show ?thesis by (intro conjI allI impI F i(2)) simp_all
qed

theorem cancel_wins_witness:
  "cancel_requested (fst row4) \<and> op_Lifecycle (fst row4) = LifecycleCanceled \<and>
   (\<forall>at'. NewAttempt ''att_2'' (fst row4) check_command ''s'' 1 2 ''job'' 5 \<noteq> Inr at')"
proof -
  have 1: "cancel_requested (fst row3)" by (simp add: row_defs cancel_requested_def)
  have 2: "op_Lifecycle (fst row4) = LifecycleCanceled"
    by (simp add: row_defs attempt_closed_def SettleClose_def close_cancelRequested_def sample_attempt_def)
  from cancel_wins [OF row3_history 1 row4_run, where new_id = "''att_2''" and cmd = check_command and stepID = "''s''"
      and visit = 1 and ordinal = 2 and profileID = "''job''" and now = 5] 2
  show ?thesis by simp
qed

lemma accepted_prefix:
  assumes "op_history es ops"
  shows "\<forall>m < length es. pl_Lifecycle (ev_Payload (es ! m)) = LifecycleAccepted \<longrightarrow>
    (\<forall>k \<le> m. pl_Lifecycle (ev_Payload (es ! k)) = LifecycleAccepted)"
  using assms
proof (induction rule: op_history.induct)
  case (born ops e)
  then show ?case by simp
next
  case (grown es o1 e o2)
  have L: "es \<noteq> []" "pl_Lifecycle (ev_Payload (last es)) = op_Lifecycle o1"
    using log_ok_history [OF grown.hyps(1)] by (simp_all add: log_ok_def)
  have "\<forall>k < length es. pl_Lifecycle (ev_Payload (es ! k)) = LifecycleAccepted"
    if "pl_Lifecycle (ev_Payload e) = LifecycleAccepted"
  proof -
    have "op_Lifecycle o1 = LifecycleAccepted"
      using that op_step_control_inv(3) [OF control_inv_history [OF grown.hyps(1)] grown.hyps(2)]
        op_step_event(10) [OF grown.hyps(2)] by auto
    with L grown.IH show ?thesis
      by (metis Suc_pred' last_conv_nth length_greater_0_conv less_Suc_eq_le lessI)
  qed
  then show ?case using grown.IH by (simp add: nth_append less_Suc_eq le_less)
qed

text \<open>An operation makes its first progress at most once: of all the events of its history at
  most one leaves the accepted lifecycle, so the first-progress latency is measured once.\<close>

theorem first_progress_once:
  assumes "op_history es ops" and "i < j" and "j < length es" and "FirstProgress (es ! i)"
  shows "\<not> FirstProgress (es ! j)"
proof -
  from assms(2) obtain m where j: "j = Suc m" and im: "i \<le> m" by (cases j) auto
  have "pl_Lifecycle (ev_Payload (es ! i)) \<noteq> LifecycleAccepted" using assms(4) by (simp add: FirstProgress_def)
  then have "pl_Lifecycle (ev_Payload (es ! m)) \<noteq> LifecycleAccepted"
    using accepted_prefix [OF assms(1)] im assms(3) j by (meson Suc_lessD)
  moreover have "ev_PriorLifecycle (es ! Suc m) = Some (pl_Lifecycle (ev_Payload (es ! m)))"
    using log_ok_history [OF assms(1)] assms(3) j by (simp add: log_ok_def)
  ultimately show ?thesis using j by (simp add: FirstProgress_def)
qed

theorem first_progress_once_witness:
  "FirstProgress (snd row2) \<and> \<not> FirstProgress (snd row3)"
proof -
  have "FirstProgress (snd row2)" by (simp add: FirstProgress_def row_defs ChangedPayload_def)
  then show ?thesis using first_progress_once [OF row3_history, of 2 3] by simp
qed

section \<open>The lease and the active deadline\<close>

text \<open>How a confirmed lease record may move: its occurrence only grows, a lost lease stays lost, and
  a known expiry is never shortened or forgotten.\<close>

definition lease_le :: "lease_record \<Rightarrow> lease_record \<Rightarrow> bool" where
  "lease_le l l' \<longleftrightarrow>
     ls_Occurrence l \<le> ls_Occurrence l' \<and>
     (ls_State l = LeaseLost \<longrightarrow> ls_State l' = LeaseLost) \<and>
     (\<forall>x. ls_ExpiresAt l = Some x \<longrightarrow> (\<exists>y. ls_ExpiresAt l' = Some y \<and> x \<le> y))"

lemma lease_le_refl [simp]: "lease_le l l"
  by (simp add: lease_le_def)

lemma lease_le_trans: "lease_le l l' \<Longrightarrow> lease_le l' l'' \<Longrightarrow> lease_le l l''"
  unfolding lease_le_def by (meson order.trans)

lemma RecordLease_le:
  "RecordLease ops occurrence state leaseID fence expiresAt = Inr (o', b) \<Longrightarrow> lease_le (op_Lease ops) (op_Lease o')"
  by (cases state)
    (auto simp: RecordLease_def lease_le_def Let_def not_le less_imp_le split: if_splits option.splits)

lemma lease_recorded_le: "lease_le (op_Lease ops) (op_Lease (lease_recorded occurrence state leaseID fence expiresAt ops))"
  by (auto simp: lease_recorded_def Let_def split: sum.splits dest: RecordLease_le)

lemma op_change_lease:
  assumes "op_change ops f"
  shows "lease_le (op_Lease ops) (op_Lease (f ops)) \<and>
    (op_ActiveDeadline ops = Some d \<longrightarrow> op_ActiveDeadline (f ops) = Some d)"
  using assms by (cases rule: op_change.cases; simp add: change_defs lease_recorded_le Let_def)

lemma op_step_lease:
  "op_step ops e ops' \<Longrightarrow> lease_le (op_Lease ops) (op_Lease ops') \<and>
     (op_ActiveDeadline ops = Some d \<longrightarrow> op_ActiveDeadline ops' = Some d)"
  using op_change_lease by (auto elim!: op_step_change)

text \<open>The confirmed lease and the active window only tighten into the future. Over any run the
  lease occurrence never decreases, a confirmed expiry is never moved back, a lost lease stays
  lost, so that the operation is refused new work for ever, and the active deadline a permit
  opened is never moved again.\<close>

theorem lease_and_deadline_monotone:
  assumes "op_run ops es ops'"
  shows "ls_Occurrence (op_Lease ops) \<le> ls_Occurrence (op_Lease ops') \<and>
    (\<forall>x. ls_ExpiresAt (op_Lease ops) = Some x \<longrightarrow> (\<exists>y. ls_ExpiresAt (op_Lease ops') = Some y \<and> x \<le> y)) \<and>
    (ls_State (op_Lease ops) = LeaseLost \<longrightarrow> ls_State (op_Lease ops') = LeaseLost \<and> FencedForNewDispatch ops') \<and>
    (\<forall>d. op_ActiveDeadline ops = Some d \<longrightarrow> op_ActiveDeadline ops' = Some d)"
proof -
  have "lease_le (op_Lease ops) (op_Lease ops') \<and> (\<forall>d. op_ActiveDeadline ops = Some d \<longrightarrow> op_ActiveDeadline ops' = Some d)"
    using assms by (induction rule: op_run.induct) (auto dest: op_step_lease intro: lease_le_trans)
  then show ?thesis by (auto simp: lease_le_def FencedForNewDispatch_def)
qed

theorem lease_and_deadline_monotone_witness:
  "\<exists>e ops'. op_run (sample_operation\<lparr>op_Lease := (op_Lease sample_operation)\<lparr>ls_State := LeaseLost\<rparr>\<rparr>) [e] ops' \<and>
     ls_State (op_Lease ops') = LeaseLost \<and> FencedForNewDispatch ops'"
proof -
  let ?o = "sample_operation\<lparr>op_Lease := (op_Lease sample_operation)\<lparr>ls_State := LeaseLost\<rparr>\<rparr>"
  have "\<exists>o'. RecordLease ?o 2 LeaseReleased [] 0 None = Inr (o', True)"
    by (simp add: RecordLease_def sample_operation_def Let_def word_le_nat_alt)
  then have "op_change ?o (lease_recorded 2 LeaseReleased [] 0 None)" by (blast intro: RecordLease_changed)
  from run_snoc [OF run_nil step_to [OF this refl]] obtain e ops' where r: "op_run ?o [e] ops'" by auto
  from lease_and_deadline_monotone [OF r] r show ?thesis by auto
qed

section \<open>Recovery\<close>

text \<open>Only the fence of a recovery run moves the execution epoch, by one.\<close>

lemma op_change_epoch:
  "op_change ops f \<Longrightarrow> op_ExecutionEpoch (f ops) = op_ExecutionEpoch ops \<or> op_ExecutionEpoch (f ops) = op_ExecutionEpoch ops + 1"
  by (erule op_changeE; simp add: change_defs Let_def)

lemma op_run_epoch:
  "op_run ops es ops' \<Longrightarrow> \<exists>n \<le> length es. op_ExecutionEpoch ops' = op_ExecutionEpoch ops + of_nat n"
proof (induction rule: op_run.induct)
  case (run_nil ops)
  then show ?case by simp
next
  case (run_snoc ops es o1 e o2)
  then obtain n where n: "n \<le> length es" "op_ExecutionEpoch o1 = op_ExecutionEpoch ops + of_nat n" by blast
  have "op_ExecutionEpoch o2 = op_ExecutionEpoch o1 \<or> op_ExecutionEpoch o2 = op_ExecutionEpoch o1 + 1"
    using run_snoc(2) op_change_epoch by (metis op_step_change)
  then show ?case
  proof
    assume "op_ExecutionEpoch o2 = op_ExecutionEpoch o1"
    then show ?thesis using n by (intro exI [of _ n]) simp
  next
    assume "op_ExecutionEpoch o2 = op_ExecutionEpoch o1 + 1"
    then show ?thesis using n by (intro exI [of _ "Suc n"]) simp
  qed
qed

lemma u64_of_nat_Suc_neq:
  assumes "n < 2 ^ 64 - 1"
  shows "(w :: u64) + 1 + of_nat n \<noteq> w"
proof
  assume "w + 1 + of_nat n = w"
  then have "(of_nat (Suc n) :: u64) = 0" by (simp add: algebra_simps)
  then have "2 ^ 64 dvd Suc n" by (simp add: word_of_nat_eq_0_iff del: of_nat_Suc)
  with assms show False by (auto dest!: dvd_imp_le)
qed

text \<open>C34: A recovery fence retires the execution it found. Once an operation is fenced by a recovery
  run, an attempt opened under the epoch before the fence is refused for ever after (for the
  next 18446744073709551614 events): no launch of it is prepared, no result of it is accepted,
  no dispatch and no guarded mutation is admitted for it.\<close>

theorem recovery_retires_attempts:
  assumes "Transition o1 transitionID now (recovery_fence epoch) = (o2, e)" and "op_run o2 es o3"
    and "length es < 2 ^ 64 - 1" and "at_ExecutionEpoch at = op_ExecutionEpoch o1"
  shows "(\<forall>l. NewLaunch new_id o3 at cmd launchKey backend img deadline now' \<noteq> Inr l) \<and>
    (\<forall>st. AcceptStage new_id o3 at i cmd profileID vd failureCode resultDigest manifest observer observerEpoch now' \<noteq> Inr st) \<and>
    (ac_Operation c = Some o3 \<longrightarrow> ac_Attempt c = Some at \<longrightarrow> CheckAdmission req c budget \<noteq> None) \<and>
    (ec_Operation ec = Some o3 \<longrightarrow> ec_Attempt ec = Some at \<longrightarrow> er_AttemptID ereq \<noteq> [] \<longrightarrow> CheckEffect ereq ec \<noteq> None)"
proof -
  have "op_ExecutionEpoch o2 = op_ExecutionEpoch o1 + 1"
    using assms(1) by (auto simp: Transition_def recovery_fence_def Let_def)
  with op_run_epoch [OF assms(2)] obtain n where n: "n \<le> length es" "op_ExecutionEpoch o3 = op_ExecutionEpoch o1 + 1 + of_nat n"
    by auto
  then have ne: "at_ExecutionEpoch at \<noteq> op_ExecutionEpoch o3"
    using u64_of_nat_Suc_neq [of n "op_ExecutionEpoch o1"] assms(3,4) by auto
  have "NewLaunch new_id o3 at cmd launchKey backend img deadline now' \<noteq> Inr l" for l
    using ne by (auto simp: NewLaunch_def)
  moreover have "AcceptStage new_id o3 at i cmd profileID vd failureCode resultDigest manifest observer observerEpoch now' \<noteq> Inr st"
    for st
    using ne by (auto simp: AcceptStage_def)
  moreover have "CheckAdmission req c budget \<noteq> None" if "ac_Operation c = Some o3" "ac_Attempt c = Some at"
    using that ne by (intro notI, elim CheckAdmission_None) (auto dest!: check_execution_None)
  moreover have "CheckEffect ereq ec \<noteq> None" if "ec_Operation ec = Some o3" "ec_Attempt ec = Some at" "er_AttemptID ereq \<noteq> []"
    using that ne by (intro notI, elim CheckEffect_None) (auto dest!: effect_attempt_bound_Inr)
  ultimately show ?thesis by blast
qed

theorem recovery_retires_attempts_witness:
  "\<forall>l. NewLaunch ''lch_1'' (fst (Transition sample_operation ''recovery:r:fenced'' 5 (recovery_fence 2))) sample_attempt
     check_command ''k'' ''b'' ''img'' 900 6 \<noteq> Inr l"
proof -
  let ?r = "Transition sample_operation ''recovery:r:fenced'' 5 (recovery_fence 2)"
  have "at_ExecutionEpoch sample_attempt = op_ExecutionEpoch sample_operation"
    by (simp add: sample_attempt_def sample_operation_def)
  with recovery_retires_attempts [OF prod.collapse [symmetric, of ?r] run_nil, where new_id = "''lch_1''" and at = sample_attempt
      and cmd = check_command and launchKey = "''k''" and backend = "''b''" and img = "''img''" and deadline = 900 and now' = 6]
  show ?thesis by simp
qed

section \<open>Terminal lifecycles\<close>




end
