(* ===== verification/Store.thy ===== *)
theory Store
  imports Lifecycle
begin

text \<open>
  The rows the dispatch service works on and the queries of \<open>internal/adapters/postgres/queries\<close>
  it issues through the port \<open>Repo\<close> of \<open>application/ports.go\<close>. A table is a list of rows in
  insertion order. A transaction is a function from the database to an error, in which case
  nothing is committed, or to its answer and the database it commits; the row locks make
  transactions on the same operation, allocation or dispatch serial, so a transaction is one
  atomic step. An \<open>UPDATE\<close> replaces the columns its statement names and no others.
\<close>

section \<open>Fallible steps\<close>

definition chk :: "err + 'a \<Rightarrow> ('a \<Rightarrow> err + 'b) \<Rightarrow> err + 'b" where
  "chk x k = (case x of Inl e \<Rightarrow> Inl e | Inr v \<Rightarrow> k v)"

definition chk_err :: "err option \<Rightarrow> err + 'b \<Rightarrow> err + 'b" where
  "chk_err x k = (case x of Some e \<Rightarrow> Inl e | None \<Rightarrow> k)"

definition found :: "'a option \<Rightarrow> err + 'a" where
  "found x = (case x of None \<Rightarrow> Inl ErrNotFound | Some v \<Rightarrow> Inr v)"

lemma chk_Inr_iff: "chk x k = Inr r \<longleftrightarrow> (\<exists>v. x = Inr v \<and> k v = Inr r)"
  by (simp add: chk_def split: sum.split)

lemma chk_err_Inr_iff: "chk_err x k = Inr r \<longleftrightarrow> x = None \<and> k = Inr r"
  by (simp add: chk_err_def split: option.split)

lemma found_Inr_iff: "found x = Inr v \<longleftrightarrow> x = Some v"
  by (simp add: found_def split: option.split)

lemma chk_Inr [simp]: "chk (Inr v) k = k v"
  by (simp add: chk_def)

lemma chk_err_None [simp]: "chk_err None k = k"
  by (simp add: chk_err_def)

lemma found_Some [simp]: "found (Some v) = Inr v"
  by (simp add: found_def)

named_theorems fallible "success of a sequence of fallible steps"

declare chk_Inr_iff [fallible] chk_err_Inr_iff [fallible] found_Inr_iff [fallible]

section \<open>The database\<close>

record closure =
  cl_ScopeKey :: string
  cl_RunID :: string
  cl_ClosedAt :: instant
  cl_ReopenedAt :: "instant option"

text \<open>A published price revision (\<open>domain/finance.go\<close>) and a row of the return ledger.\<close>

record price_record =
  pr_Price :: price
  pr_Digest :: digest
  pr_PublishedBy :: string
  pr_CommandID :: string
  pr_PublishedAt :: instant
  pr_WithdrawnAt :: "instant option"
  pr_WithdrawnBy :: string

record allocation_return =
  ar_AllocationID :: string
  ar_PoolID :: string
  ar_OperationID :: string
  ar_Currency :: string
  ar_Amount :: int
  ar_ReturnedAt :: instant

record db =
  db_operations :: "operation list"
  db_events :: "event list"
  db_attempts :: "attempt list"
  db_instances :: "inst list"
  db_dispatches :: "dispatch list"
  db_allocations :: "allocation list"
  db_caps :: "cost_cap list"
  db_grants :: "grant_policy list"
  db_observations :: "usage_observation list"
  db_entries :: "cost_entry list"
  db_closures :: "closure list"
  db_pools :: "budget_pool list"
  db_returns :: "allocation_return list"
  db_prices :: "price_record list"
  db_launches :: "launch list"
  db_stages :: "stage list"
  db_effects :: "effect list"

definition LockOperation :: "db \<Rightarrow> string \<Rightarrow> err + operation" where
  "LockOperation s operationID = found (lookup_by op_ID operationID (db_operations s))"

definition UpdateOperation :: "db \<Rightarrow> operation \<Rightarrow> db" where
  "UpdateOperation s ops = s\<lparr>db_operations := update_by op_ID ops (db_operations s)\<rparr>"

text \<open>An event is refused when the operation has one with its sequence number or its transition.\<close>

definition event_fresh :: "db \<Rightarrow> event \<Rightarrow> bool" where
  "event_fresh s e \<longleftrightarrow> \<not> list_ex (\<lambda>x. ev_OperationID x = ev_OperationID e \<and>
     (ev_EventSeq x = ev_EventSeq e \<or> ev_TransitionID x = ev_TransitionID e)) (db_events s)"

definition append_event :: "db \<Rightarrow> event \<Rightarrow> db" where
  "append_event s e = s\<lparr>db_events := db_events s @ [e]\<rparr>"

definition InsertEvent :: "db \<Rightarrow> event \<Rightarrow> err + db" where
  "InsertEvent s e = (if \<not> event_fresh s e then Inl ErrDuplicateKey else Inr (append_event s e))"

lemma InsertEvent_Inr_iff [fallible]: "InsertEvent s e = Inr s' \<longleftrightarrow> event_fresh s e \<and> s' = append_event s e"
  by (auto simp: InsertEvent_def)

definition LockAttempt :: "db \<Rightarrow> string \<Rightarrow> err + attempt" where
  "LockAttempt s attemptID = found (lookup_by at_ID attemptID (db_attempts s))"

definition GetInstance :: "db \<Rightarrow> string \<Rightarrow> inst option" where
  "GetInstance s instanceID = lookup_by inst_ID instanceID (db_instances s)"

definition ShareLockGrantPolicy :: "db \<Rightarrow> string \<Rightarrow> u64 \<Rightarrow> grant_policy option" where
  "ShareLockGrantPolicy s grantID rvn = lookup_by (\<lambda>g. (gp_GrantID g, gp_GrantRevision g)) (grantID, rvn) (db_grants s)"

definition IsAdmissionClosed :: "db \<Rightarrow> string \<Rightarrow> bool" where
  "IsAdmissionClosed s tenantID =
     list_ex (\<lambda>c. (cl_ScopeKey c = ''*'' \<or> cl_ScopeKey c = tenantID) \<and> cl_ReopenedAt c = None) (db_closures s)"

subsection \<open>Dispatches\<close>

abbreviation call_key :: "dispatch \<Rightarrow> string \<times> string \<times> string" where
  "call_key d \<equiv> (d_TenantID d, d_Owner d, d_CallID d)"

definition GetDispatchByCall :: "db \<Rightarrow> string \<Rightarrow> string \<Rightarrow> string \<Rightarrow> dispatch option" where
  "GetDispatchByCall s tenantID owner callID = lookup_by call_key (tenantID, owner, callID) (db_dispatches s)"

definition LockDispatch :: "db \<Rightarrow> string \<Rightarrow> err + dispatch" where
  "LockDispatch s dispatchID = found (lookup_by d_ID dispatchID (db_dispatches s))"

definition InsertDispatch :: "db \<Rightarrow> dispatch \<Rightarrow> err + db" where
  "InsertDispatch s d =
     (if list_ex (\<lambda>x. d_ID x = d_ID d \<or> call_key x = call_key d) (db_dispatches s) then Inl ErrDuplicateKey
      else Inr (s\<lparr>db_dispatches := db_dispatches s @ [d]\<rparr>))"

text \<open>The columns of \<open>UpdateDispatch\<close>.\<close>

definition dispatch_columns :: "dispatch \<Rightarrow> dispatch \<Rightarrow> dispatch" where
  "dispatch_columns d x =
     x\<lparr>d_State := d_State d, d_Outcome := d_Outcome d, d_DenialCode := d_DenialCode d, d_EvidenceRef := d_EvidenceRef d,
       d_Inventory := d_Inventory d, d_InventoryVersion := d_InventoryVersion d, d_ObservedAt := d_ObservedAt d\<rparr>"

definition UpdateDispatch :: "db \<Rightarrow> dispatch \<Rightarrow> db" where
  "UpdateDispatch s d =
     s\<lparr>db_dispatches := map (\<lambda>x. if d_ID x = d_ID d then dispatch_columns d x else x) (db_dispatches s)\<rparr>"

definition ListPreparedDispatchesByAttempt :: "db \<Rightarrow> string \<Rightarrow> dispatch list" where
  "ListPreparedDispatchesByAttempt s attemptID =
     sort_key d_AdmittedAt (filter (\<lambda>d. d_AttemptID d = attemptID \<and> d_State d = DispatchPrepared) (db_dispatches s))"

definition HasUnknownDispatch :: "db \<Rightarrow> string \<Rightarrow> bool" where
  "HasUnknownDispatch s operationID =
     list_ex (\<lambda>d. d_OperationID d = operationID \<and> d_State d = DispatchUnknown) (db_dispatches s)"

definition HasUnsettledDispatch :: "db \<Rightarrow> string \<Rightarrow> bool" where
  "HasUnsettledDispatch s operationID =
     list_ex (\<lambda>d. d_OperationID d = operationID \<and>
        (d_State d = DispatchPrepared \<or> d_State d = DispatchAuthorized \<or> d_State d = DispatchUnknown)) (db_dispatches s)"

subsection \<open>Metering\<close>

definition InsertCostEntry :: "db \<Rightarrow> cost_entry \<Rightarrow> db" where
  "InsertCostEntry s c = s\<lparr>db_entries := db_entries s @ [c]\<rparr>"

definition charged_entries :: "db \<Rightarrow> string \<Rightarrow> cost_entry list" where
  "charged_entries s dispatchID =
     filter (\<lambda>c. ce_DispatchID c = dispatchID \<and> (ce_Kind c = CostActual \<or> ce_Kind c = CostCorrection)) (db_entries s)"

text \<open>\<open>ChargedCost\<close>: the sum of the actual and correction entries, and the least identity of an actual
  entry (empty when there is none).\<close>

definition charged_amount :: "db \<Rightarrow> string \<Rightarrow> int" where
  "charged_amount s dispatchID = sum_list (map (\<lambda>c. m_Amount (ce_Amount c)) (charged_entries s dispatchID))"

definition actual_entry :: "db \<Rightarrow> string \<Rightarrow> string" where
  "actual_entry s dispatchID =
     (case sort (map ce_ID (filter (\<lambda>c. ce_Kind c = CostActual) (charged_entries s dispatchID))) of
        [] \<Rightarrow> [] | i # _ \<Rightarrow> i)"

definition HasOverspend :: "db \<Rightarrow> string \<Rightarrow> bool" where
  "HasOverspend s operationID =
     list_ex (\<lambda>d. d_OperationID d = operationID \<and>
        (d_State d = DispatchAuthorized \<or> d_State d = DispatchObserved \<or> d_State d = DispatchUnknown) \<and>
        charged_amount s (d_ID d) > m_Amount (d_Reserved d)) (db_dispatches s)"

abbreviation observation_key :: "usage_observation \<Rightarrow> string \<times> string \<times> u64" where
  "observation_key o1 \<equiv> (uo_DispatchID o1, uo_Source o1, uo_Sequence o1)"

definition GetUsageObservation :: "db \<Rightarrow> string \<Rightarrow> string \<Rightarrow> u64 \<Rightarrow> usage_observation option" where
  "GetUsageObservation s dispatchID src sq = lookup_by observation_key (dispatchID, src, sq) (db_observations s)"

text \<open>The counters and the sequence are stored as \<open>bigint\<close> under a \<open>CHECK\<close> that refuses a negative
  one, so a value of 2 to the 63 or more is refused by the database.\<close>

definition bigint_ok :: "u64 \<Rightarrow> bool" where
  "bigint_ok w \<longleftrightarrow> uint w \<le> MaxInt64"

definition InsertUsageObservation :: "db \<Rightarrow> usage_observation \<Rightarrow> err + db" where
  "InsertUsageObservation s x =
     (let u = (case uo_Usage x of None \<Rightarrow> \<lparr>u_Input = 0, u_Output = 0, u_Reasoning = 0, u_CachedInput = 0\<rparr> | Some v \<Rightarrow> v)
      in if \<not> bigint_ok (uo_Sequence x) \<or> \<not> bigint_ok (u_Input u) \<or> \<not> bigint_ok (u_Output u) \<or>
            \<not> bigint_ok (u_Reasoning u) \<or> \<not> bigint_ok (u_CachedInput u) then Inl ErrStore
         else if list_ex (\<lambda>y. uo_ID y = uo_ID x \<or> observation_key y = observation_key x) (db_observations s)
           then Inl ErrDuplicateKey
         else Inr (s\<lparr>db_observations := db_observations s @ [x]\<rparr>))"

definition reported_usages :: "db \<Rightarrow> string \<Rightarrow> usage list" where
  "reported_usages s dispatchID = List.map_filter uo_Usage (filter (\<lambda>x. uo_DispatchID x = dispatchID) (db_observations s))"

definition HasReportedUsage :: "db \<Rightarrow> string \<Rightarrow> bool" where
  "HasReportedUsage s dispatchID \<longleftrightarrow> reported_usages s dispatchID \<noteq> []"

definition MaxUsage :: "db \<Rightarrow> string \<Rightarrow> usage" where
  "MaxUsage s dispatchID =
     (let us = reported_usages s dispatchID
      in \<lparr>u_Input = foldl max 0 (map u_Input us), u_Output = foldl max 0 (map u_Output us),
          u_Reasoning = foldl max 0 (map u_Reasoning us), u_CachedInput = foldl max 0 (map u_CachedInput us)\<rparr>)"

subsection \<open>The accounting rows\<close>

definition LockAllocations :: "db \<Rightarrow> string \<Rightarrow> allocation list" where
  "LockAllocations s operationID = sort_key al_PoolID (filter (\<lambda>a. al_OperationID a = operationID) (db_allocations s))"

definition cap_binds :: "operation \<Rightarrow> cost_cap \<Rightarrow> bool" where
  "cap_binds ops c \<longleftrightarrow> cc_TenantID c = op_TenantID ops \<and>
     (cc_Level c = CapTenant \<or> (cc_Level c = CapProject \<and> cc_ProjectID c = op_ProjectID ops) \<or>
      (cc_Level c = CapOperation \<and> (cc_ProjectID c = op_ProjectID ops \<or> cc_ProjectID c = [])))"

definition LockOperationCostCaps :: "db \<Rightarrow> string \<Rightarrow> cost_cap list" where
  "LockOperationCostCaps s operationID =
     (case lookup_by op_ID operationID (db_operations s) of
        None \<Rightarrow> []
      | Some ops \<Rightarrow> sort_key cc_ID (filter (cap_binds ops) (db_caps s)))"

definition UpdateCostCapCounters :: "db \<Rightarrow> cost_cap \<Rightarrow> db" where
  "UpdateCostCapCounters s c =
     s\<lparr>db_caps := map (\<lambda>x. if cc_ID x = cc_ID c
         then x\<lparr>cc_Reserved := cc_Reserved c, cc_Consumed := cc_Consumed c, cc_Revision := cc_Revision c\<rparr> else x) (db_caps s)\<rparr>"

definition alloc_columns :: "allocation \<Rightarrow> allocation \<Rightarrow> allocation" where
  "alloc_columns a x = x\<lparr>al_Reserved := al_Reserved a, al_Consumed := al_Consumed a, al_Revision := al_Revision a\<rparr>"

definition UpdateAllocation :: "db \<Rightarrow> allocation \<Rightarrow> db" where
  "UpdateAllocation s a =
     s\<lparr>db_allocations := map (\<lambda>x. if al_ID x = al_ID a then alloc_columns a x else x) (db_allocations s)\<rparr>"

section \<open>The budget of an operation\<close>

text \<open>\<open>application/budget.go\<close>: the caps and allocations of an operation, changed together and saved
  together.\<close>

record budgt =
  bd_caps :: "cost_cap list"
  bd_allocs :: "allocation list"

definition lockBudget :: "db \<Rightarrow> string \<Rightarrow> budgt" where
  "lockBudget s operationID = \<lparr>bd_caps = LockOperationCostCaps s operationID, bd_allocs = LockAllocations s operationID\<rparr>"

definition on_counted :: "string \<Rightarrow> (cost_cap \<Rightarrow> err + cost_cap) \<Rightarrow> cost_cap \<Rightarrow> err + cost_cap" where
  "on_counted currency f c = (if Counted c \<and> cc_Currency c = currency then f c else Inr c)"

definition budget_both ::
  "budgt \<Rightarrow> (allocation \<Rightarrow> err + allocation) \<Rightarrow> string \<Rightarrow> (cost_cap \<Rightarrow> err + cost_cap) \<Rightarrow> err + budgt" where
  "budget_both b fa currency fc =
     chk (map_err fa (bd_allocs b)) (\<lambda>as.
     chk (map_err (on_counted currency fc) (bd_caps b)) (\<lambda>cs.
       Inr \<lparr>bd_caps = cs, bd_allocs = as\<rparr>))"

definition budget_reserve :: "budgt \<Rightarrow> money \<Rightarrow> err + budgt" where
  "budget_reserve b m = budget_both b (\<lambda>a. Alloc_Reserve a m) (m_Currency m) (\<lambda>c. Cap_Reserve c (m_Amount m))"

definition budget_release :: "budgt \<Rightarrow> money \<Rightarrow> err + budgt" where
  "budget_release b m = budget_both b (\<lambda>a. Alloc_Release a m) (m_Currency m) (\<lambda>c. Inr (Cap_Release c (m_Amount m)))"

definition budget_restore :: "budgt \<Rightarrow> money \<Rightarrow> err + budgt" where
  "budget_restore b m = budget_both b (\<lambda>a. Alloc_Restore a m) (m_Currency m) (\<lambda>c. Cap_Reserve c (m_Amount m))"

definition charge_alloc :: "money \<Rightarrow> money \<Rightarrow> bool \<Rightarrow> allocation \<Rightarrow> err + allocation" where
  "charge_alloc delta reservation releaseReservation a =
     (case Alloc_Charge a delta reservation releaseReservation of (a', None) \<Rightarrow> Inr a' | (_, Some e) \<Rightarrow> Inl e)"

definition budget_charge :: "budgt \<Rightarrow> money \<Rightarrow> money \<Rightarrow> bool \<Rightarrow> err + budgt" where
  "budget_charge b delta reservation releaseReservation =
     budget_both b (charge_alloc delta reservation releaseReservation) (m_Currency delta)
       (\<lambda>c. chk (Cap_Charge c (m_Amount delta)) (\<lambda>c1.
          Inr (if releaseReservation then Cap_Release c1 (m_Amount reservation) else c1)))"

definition budget_save :: "db \<Rightarrow> budgt \<Rightarrow> db" where
  "budget_save s b = foldl UpdateAllocation (foldl UpdateCostCapCounters s (filter Counted (bd_caps b))) (bd_allocs b)"

end
