(* ===== verification/Dispatch_Service.thy ===== *)
theory Dispatch_Service
  imports Store
begin

text \<open>
  \<open>internal/application/dispatch.go\<close>: the transactions of the dispatch service. The price book, the
  profiles and the cap policy of the service are the record \<open>service\<close>; the decision of the
  authority, the answer of the inventory, the clock and fresh identifiers are arguments.
  \<open>Admit\<close> is the two transactions \<open>admit_prepare\<close> and \<open>admit_consume\<close> with the inventory write
  between them; other transactions may run between the two.
\<close>

record service =
  sv_Price :: "dispatch_kind \<Rightarrow> string \<Rightarrow> instant \<Rightarrow> price option"
  sv_PriceByRevision :: "string \<Rightarrow> price option"
  sv_QueuePool :: "string \<Rightarrow> string"
  sv_capsRequired :: bool

section \<open>The admission context\<close>

record binding =
  bi_Kind :: dispatch_kind
  bi_Owner :: string
  bi_OperationID :: string
  bi_AttemptID :: string
  bi_InstanceID :: string
  bi_GrantID :: string
  bi_GrantRevision :: u64
  bi_SupersedesCallID :: string

definition requestBinding :: "admission_request \<Rightarrow> binding" where
  "requestBinding r =
     \<lparr>bi_Kind = rq_Kind r, bi_Owner = rq_Owner r, bi_OperationID = rq_OperationID r, bi_AttemptID = rq_AttemptID r,
      bi_InstanceID = rq_InstanceID r, bi_GrantID = rq_GrantID r, bi_GrantRevision = rq_GrantRevision r,
      bi_SupersedesCallID = rq_SupersedesCallID r\<rparr>"

definition recordBinding :: "dispatch \<Rightarrow> binding" where
  "recordBinding d =
     \<lparr>bi_Kind = d_Kind d, bi_Owner = d_Owner d, bi_OperationID = d_OperationID d, bi_AttemptID = d_AttemptID d,
      bi_InstanceID = d_InstanceID d, bi_GrantID = d_GrantID d, bi_GrantRevision = d_GrantRevision d,
      bi_SupersedesCallID = d_SupersedesCallID d\<rparr>"

definition frozenPrice :: "service \<Rightarrow> dispatch \<Rightarrow> price option" where
  "frozenPrice sv d = (if d_MeterRevision d = [] then None else sv_PriceByRevision sv (d_MeterRevision d))"

text \<open>The price is chosen by the caller.\<close>

definition admissionContext ::
  "service \<Rightarrow> db \<Rightarrow> binding \<Rightarrow> string \<Rightarrow> decision \<Rightarrow> instant \<Rightarrow> err + (admission_context \<times> operation \<times> attempt)" where
  "admissionContext sv s b tenantID authority now =
     (let grant = (if bi_Kind b = DispatchTool then ShareLockGrantPolicy s (bi_GrantID b) (bi_GrantRevision b) else None);
          locked = lockBudget s (bi_OperationID b)
      in chk (LockOperation s (bi_OperationID b)) (\<lambda>ops.
         if op_TenantID ops \<noteq> tenantID then Inl ErrNotFound
         else chk (LockAttempt s (bi_AttemptID b)) (\<lambda>at.
         if at_OperationID at \<noteq> op_ID ops then Inl ErrNotFound
         else Inr
           (\<lparr>ac_Now = now, ac_Operation = Some ops, ac_Attempt = Some at,
             ac_Instance = (if bi_InstanceID b \<noteq> [] then GetInstance s (bi_InstanceID b) else None),
             ac_Price = None, ac_Authority = authority, ac_Grant = grant, ac_Allocations = bd_allocs locked,
             ac_Overspent = HasOverspend s (op_ID ops),
             ac_Original = (if bi_SupersedesCallID b \<noteq> []
                            then GetDispatchByCall s tenantID (bi_Owner b) (bi_SupersedesCallID b) else None),
             ac_AdmissionClosed = IsAdmissionClosed s (op_TenantID ops),
             ac_LeaseRequired = (sv_QueuePool sv (sj_ProfileID (op_Subject ops)) \<noteq> []),
             ac_Caps = bd_caps locked, ac_CapsRequired = sv_capsRequired sv\<rparr>, ops, at))))"

definition context_budget :: "admission_context \<Rightarrow> budgt" where
  "context_budget c = \<lparr>bd_caps = ac_Caps c, bd_allocs = ac_Allocations c\<rparr>"

section \<open>Admission\<close>

definition request_digest :: "command_identity \<Rightarrow> admission_request \<Rightarrow> admission_request" where
  "request_digest cmd req = (if rq_RequestDigest req = [] then req\<lparr>rq_RequestDigest := cmd_RequestDigest cmd\<rparr> else req)"

text \<open>Step 2, the first transaction: the dispatch and whether the request goes on to consume it. A
  request whose admission is closed by a recovery run is refused without a record.\<close>

definition prepare_fresh ::
  "service \<Rightarrow> instant \<Rightarrow> string \<Rightarrow> string \<Rightarrow> decision \<Rightarrow> string \<Rightarrow> admission_request \<Rightarrow> db \<Rightarrow> err + ((dispatch \<times> bool) \<times> db)" where
  "prepare_fresh sv now new_id cost_id authority tenantID req s =
     chk (admissionContext sv s (requestBinding req) tenantID authority now) (\<lambda>(ac0, ops, at).
       let ac = ac0\<lparr>ac_Price := sv_Price sv (rq_Kind req) (rq_RouteID req) now\<rparr>
       in case CheckAdmission req ac True of
         Some (Denial code) \<Rightarrow>
           let d = DeniedDispatch new_id req ac ops at code
           in if ac_AdmissionClosed ac then Inr ((d, False), s)
              else chk (InsertDispatch s d) (\<lambda>s1. Inr ((d, False), s1))
       | Some e \<Rightarrow> Inl e
       | None \<Rightarrow>
           let fresh = NewDispatch new_id req ac ops at (the (ac_Price ac))
           in chk (budget_reserve (context_budget ac) (rq_MaxExposure req)) (\<lambda>b.
              chk (InsertDispatch (budget_save s b) fresh) (\<lambda>s1.
                Inr ((fresh, True),
                  InsertCostEntry s1 \<lparr>ce_ID = cost_id, ce_OperationID = d_OperationID fresh, ce_DispatchID = d_ID fresh,
                    ce_ObservationID = [], ce_Kind = CostEstimate, ce_Amount = d_Reserved fresh, ce_CorrectionOf = [],
                    ce_CreatedAt = now\<rparr>))))"

definition admit_prepare ::
  "service \<Rightarrow> instant \<Rightarrow> string \<Rightarrow> string \<Rightarrow> decision \<Rightarrow> string \<Rightarrow> admission_request \<Rightarrow> db \<Rightarrow> err + ((dispatch \<times> bool) \<times> db)" where
  "admit_prepare sv now new_id cost_id authority tenantID req s =
     (case GetDispatchByCall s tenantID (rq_Owner req) (rq_CallID req) of
        Some d \<Rightarrow> chk_err (Dispatch_Binds d tenantID req (frozenPrice sv d)) (Inr ((d, d_State d = DispatchPrepared), s))
      | None \<Rightarrow> prepare_fresh sv now new_id cost_id authority tenantID req s)"

text \<open>Step 4, the second transaction: the locked dispatch and whether this request is told that it
  may send. \<open>d\<close> is the record the first transaction answered.\<close>

definition admit_consume ::
  "service \<Rightarrow> instant \<Rightarrow> decision \<Rightarrow> string \<Rightarrow> admission_request \<Rightarrow> dispatch \<Rightarrow> string \<Rightarrow> db \<Rightarrow> err + ((dispatch \<times> bool) \<times> db)" where
  "admit_consume sv now authority tenantID req d version s =
     chk (admissionContext sv s (recordBinding d) tenantID authority now) (\<lambda>(ac0, ops, at).
     chk (LockDispatch s (d_ID d)) (\<lambda>locked.
     chk_err (Dispatch_Binds locked tenantID req None)
     (if d_State locked \<noteq> DispatchPrepared then Inr ((locked, False), s)
      else case sv_PriceByRevision sv (d_MeterRevision locked) of
        None \<Rightarrow> Inl ErrProfileUnqualified
      | Some frozen \<Rightarrow>
          let ac = ac0\<lparr>ac_Price := Some frozen\<rparr>
          in case CheckAdmission req ac False of
            Some (Denial code) \<Rightarrow>
              chk (Dispatch_Deny locked code) (\<lambda>denied.
              chk (budget_release (context_budget ac) (d_Reserved locked)) (\<lambda>b.
                Inr ((denied, False), UpdateDispatch (budget_save s b) denied)))
          | Some e \<Rightarrow> Inl e
          | None \<Rightarrow> chk (Consume locked version) (\<lambda>d'. Inr ((d', True), UpdateDispatch s d')))))"

text \<open>A failed inventory write is recorded and grants nothing.\<close>

definition markInventoryUncertain :: "string \<Rightarrow> db \<Rightarrow> err + db" where
  "markInventoryUncertain dispatchID s =
     chk (LockDispatch s dispatchID) (\<lambda>d.
       if d_State d \<noteq> DispatchPrepared \<or> d_Inventory d \<noteq> InventoryPending then Inr s
       else Inr (UpdateDispatch s (d\<lparr>d_Inventory := InventoryUncertain\<rparr>)))"

section \<open>Observations\<close>

record reader =
  rd_TenantID :: string
  rd_Owner :: string

definition sees :: "reader \<Rightarrow> dispatch \<Rightarrow> bool" where
  "sees p d \<longleftrightarrow> (rd_TenantID p = [] \<or> d_TenantID d = rd_TenantID p) \<and> (rd_Owner p = [] \<or> d_Owner d = rd_Owner p)"

definition settleFinance :: "operation \<Rightarrow> dispatch \<Rightarrow> bool \<Rightarrow> instant \<Rightarrow> db \<Rightarrow> err + db" where
  "settleFinance ops d settled now s =
     (if d_State d = DispatchUnknown \<and> op_Finance ops \<noteq> FinanceExposureUnknown
      then let (o1, ev) = Transition ops (''dispatch:'' @ d_ID d @ '':unknown'') now (finance_moved FinanceExposureUnknown)
           in InsertEvent (UpdateOperation s o1) ev
      else if settled \<and> op_Finance ops = FinanceExposureUnknown
      then (if HasUnknownDispatch s (op_ID ops) then Inr s
            else let (o1, ev) = Transition ops (''dispatch:'' @ d_ID d @ '':settled'') now (finance_moved FinanceFunded)
                 in InsertEvent (UpdateOperation s o1) ev)
      else Inr s)"

text \<open>The charge of an observation: the increase of the cost over what is charged already is one
  ledger entry, an actual cost the first time and a correction of it later.\<close>

definition meter ::
  "price \<Rightarrow> string \<Rightarrow> string \<Rightarrow> dispatch \<Rightarrow> instant \<Rightarrow> budgt \<Rightarrow> db \<Rightarrow> err + (budgt \<times> db)" where
  "meter p obs_id cost_id d now b s =
     chk (Price_Cost p (MaxUsage s (d_ID d))) (\<lambda>cost.
       let delta = wrap64 (m_Amount cost - charged_amount s (d_ID d));
           actualID = actual_entry s (d_ID d);
           entry = \<lparr>ce_ID = cost_id, ce_OperationID = d_OperationID d, ce_DispatchID = d_ID d, ce_ObservationID = obs_id,
                    ce_Kind = (if actualID \<noteq> [] then CostCorrection else CostActual),
                    ce_Amount = \<lparr>m_Currency = m_Currency cost, m_Amount = delta\<rparr>,
                    ce_CorrectionOf = (if actualID \<noteq> [] then actualID else []), ce_CreatedAt = now\<rparr>
       in if delta > 0
          then chk (budget_charge b (ce_Amount entry) (d_Reserved d) False) (\<lambda>b1. Inr (b1, InsertCostEntry s entry))
          else Inr (b, s))"

definition release_if :: "bool \<Rightarrow> budgt \<Rightarrow> money \<Rightarrow> err + budgt" where
  "release_if settled b m = (if settled then budget_release b m else Inr b)"

definition Observe ::
  "service \<Rightarrow> instant \<Rightarrow> string \<Rightarrow> string \<Rightarrow> reader \<Rightarrow> string \<Rightarrow> string \<Rightarrow> u64 \<Rightarrow> dispatch_outcome \<Rightarrow> usage option \<Rightarrow> string \<Rightarrow>
   instant \<Rightarrow> db \<Rightarrow> err + ((dispatch \<times> bool) \<times> db)" where
  "Observe sv now obs_id cost_id rdr dispatchID src sq out usg nativeRef observedAt s =
     chk (LockDispatch s dispatchID) (\<lambda>peek.
     if \<not> sees rdr peek then Inl ErrNotFound
     else case sv_PriceByRevision sv (d_MeterRevision peek) of
       None \<Rightarrow> Inl ErrProfileUnqualified
     | Some p \<Rightarrow>
         let b = lockBudget s (d_OperationID peek)
         in chk (LockOperation s (d_OperationID peek)) (\<lambda>ops.
            if GetUsageObservation s dispatchID src sq \<noteq> None then Inr ((peek, True), s)
            else if d_State peek = DispatchPrepared \<or> d_State peek = DispatchDenied \<or> d_State peek = DispatchConfirmedNotSent
              then Inl ErrStaleExecution
            else chk (Dispatch_Observe peek out (usg \<noteq> None) observedAt) (\<lambda>(d, settled).
                 chk (InsertUsageObservation s
                        \<lparr>uo_ID = obs_id, uo_DispatchID = d_ID d, uo_Source = src, uo_Sequence = sq,
                         uo_NativeReference = nativeRef, uo_Usage = usg, uo_CostRevision = p_Revision p,
                         uo_ObservedAt = observedAt\<rparr>) (\<lambda>s1.
                 chk (meter p obs_id cost_id d now b s1) (\<lambda>(b1, s2).
                 chk (release_if settled b1 (d_Reserved d)) (\<lambda>b2.
                 chk (settleFinance ops d settled now (UpdateDispatch (budget_save s2 b2) d)) (\<lambda>s3.
                   Inr ((d, False), s3))))))))"

section \<open>Not sent\<close>

definition ConfirmNotSentLocked ::
  "string \<Rightarrow> string \<Rightarrow> string \<Rightarrow> (operation \<Rightarrow> err option) \<Rightarrow> instant \<Rightarrow> db \<Rightarrow> err + ((dispatch \<times> bool) \<times> db)" where
  "ConfirmNotSentLocked operationID dispatchID evidenceRef guard now s =
     (let b = lockBudget s operationID
      in chk (LockOperation s operationID) (\<lambda>ops.
         chk_err (guard ops) (
         chk (LockDispatch s dispatchID) (\<lambda>locked.
         if d_State locked = DispatchConfirmedNotSent
         then chk (Dispatch_ConfirmNotSent locked evidenceRef \<lparr>m_Currency = m_Currency (d_Reserved locked), m_Amount = 0\<rparr> False)
                (\<lambda>d. Inr ((d, True), s))
         else let held = (d_State locked = DispatchAuthorized \<or> d_State locked = DispatchUnknown \<or>
                          d_State locked = DispatchPrepared)
              in chk (Dispatch_ConfirmNotSent locked evidenceRef
                        \<lparr>m_Currency = m_Currency (d_Reserved locked), m_Amount = charged_amount s (d_ID locked)\<rparr>
                        (HasReportedUsage s (d_ID locked))) (\<lambda>d.
                 chk (if held then chk (budget_release b (d_Reserved d)) (\<lambda>b1. Inr (budget_save s b1)) else Inr s) (\<lambda>s1.
                 chk (settleFinance ops d True now (UpdateDispatch s1 d)) (\<lambda>s2.
                   Inr ((d, False), s2))))))))"

text \<open>The public call verifies the evidence, the parameter \<open>VerifyNotSent\<close>, before the transaction.\<close>

definition ConfirmNotSent ::
  "(dispatch \<Rightarrow> string \<Rightarrow> digest \<Rightarrow> err option) \<Rightarrow> command_identity \<Rightarrow> string \<Rightarrow> string \<Rightarrow> string \<Rightarrow> digest \<Rightarrow> instant \<Rightarrow> db \<Rightarrow>
   err + ((dispatch \<times> bool) \<times> db)" where
  "ConfirmNotSent VerifyNotSent cmd owner dispatchID evidenceRef evidenceDigest now s =
     chk (LockDispatch s dispatchID) (\<lambda>peek.
     if \<not> sees \<lparr>rd_TenantID = cmd_TenantID cmd, rd_Owner = owner\<rparr> peek then Inl ErrNotFound
     else if d_State peek = DispatchConfirmedNotSent
     then (if d_EvidenceRef peek \<noteq> evidenceRef then Inl ErrIdempotencyConflict else Inr ((peek, True), s))
     else chk_err (VerifyNotSent peek evidenceRef evidenceDigest)
       (ConfirmNotSentLocked (d_OperationID peek) dispatchID evidenceRef (\<lambda>_. None) now s))"

section \<open>The close of an attempt\<close>

text \<open>\<open>CloseAttempt\<close> of \<open>execution.go\<close> denies the dispatches the attempt leaves prepared.\<close>

fun deny_each :: "dispatch list \<Rightarrow> budgt \<Rightarrow> db \<Rightarrow> err + (budgt \<times> db)" where
  "deny_each [] b s = Inr (b, s)"
| "deny_each (d # ds) b s =
     chk (Dispatch_Deny d ''ATTEMPT_CLOSED'') (\<lambda>d'.
     chk (budget_release b (d_Reserved d')) (\<lambda>b1. deny_each ds b1 (UpdateDispatch s d')))"

definition deny_prepared :: "string \<Rightarrow> string \<Rightarrow> db \<Rightarrow> err + db" where
  "deny_prepared operationID attemptID s =
     (let prepared = ListPreparedDispatchesByAttempt s attemptID
      in if length prepared > 0
         then chk (deny_each prepared (lockBudget s operationID) s) (\<lambda>(b, s1). Inr (budget_save s1 b))
         else Inr s)"

end
