(* ===== verification/Ledger.thy ===== *)
theory Ledger
  imports Dispatch_Service
begin

text \<open>
  The accounting of the dispatch service over its whole database: what the allocations hold is
  exactly what the dispatches and the cost ledger say, after any sequence of transactions, and
  a dispatch is granted at most once.
\<close>

section \<open>Saving a budget\<close>

lemma list_all2_source: "list_all2 R xs ys \<Longrightarrow> y \<in> set ys \<Longrightarrow> \<exists>x \<in> set xs. R x y"
  by (induction xs ys rule: list_all2_induct) auto

definition save_row :: "allocation list \<Rightarrow> allocation \<Rightarrow> allocation" where
  "save_row as x = foldl (\<lambda>x a. if al_ID x = al_ID a then alloc_columns a x else x) x as"

lemma alloc_columns_fixed [simp]:
  "al_ID (alloc_columns a x) = al_ID x" "al_OperationID (alloc_columns a x) = al_OperationID x"
  "al_Currency (alloc_columns a x) = al_Currency x" "al_Amount (alloc_columns a x) = al_Amount x"
  "al_PoolID (alloc_columns a x) = al_PoolID x"
  by (simp_all add: alloc_columns_def)

lemma alloc_columns_self [simp]: "alloc_columns x x = x"
  by (simp add: alloc_columns_def)

lemma save_row_absent: "al_ID x \<notin> al_ID ` set as \<Longrightarrow> save_row as x = x"
  unfolding save_row_def by (induction as arbitrary: x) auto

lemma save_row_present:
  "distinct (map al_ID as) \<Longrightarrow> a \<in> set as \<Longrightarrow> al_ID a = al_ID x \<Longrightarrow> save_row as x = alloc_columns a x"
proof (induction as arbitrary: x)
  case Nil
  then show ?case by simp
next
  case (Cons c as)
  show ?case
  proof (cases "a = c")
    case True
    with Cons.prems have "al_ID x \<notin> al_ID ` set as" by auto
    with True Cons.prems save_row_absent [of "alloc_columns c x" as] show ?thesis by (simp add: save_row_def)
  next
    case False
    with Cons.prems have "a \<in> set as" "al_ID x \<noteq> al_ID c" by (auto simp: image_iff)
    with Cons show ?thesis by (simp add: save_row_def)
  qed
qed

lemma foldl_UpdateAllocation:
  "foldl UpdateAllocation s as = s\<lparr>db_allocations := map (save_row as) (db_allocations s)\<rparr>"
proof (induction as arbitrary: s)
  case Nil
  then show ?case by (simp add: save_row_def)
next
  case (Cons a as)
  then show ?case by (simp add: UpdateAllocation_def save_row_def comp_def)
qed

lemma foldl_UpdateCostCapCounters_keeps:
  "db_allocations (foldl UpdateCostCapCounters s cs) = db_allocations s"
  "db_dispatches (foldl UpdateCostCapCounters s cs) = db_dispatches s"
  "db_operations (foldl UpdateCostCapCounters s cs) = db_operations s"
  "db_attempts (foldl UpdateCostCapCounters s cs) = db_attempts s"
  "db_entries (foldl UpdateCostCapCounters s cs) = db_entries s"
  "db_observations (foldl UpdateCostCapCounters s cs) = db_observations s"
  by (induction cs arbitrary: s) (simp_all add: UpdateCostCapCounters_def)

lemma budget_save_keeps [simp]:
  "db_dispatches (budget_save s b) = db_dispatches s" "db_operations (budget_save s b) = db_operations s"
  "db_attempts (budget_save s b) = db_attempts s" "db_entries (budget_save s b) = db_entries s"
  "db_observations (budget_save s b) = db_observations s"
  by (simp_all add: budget_save_def foldl_UpdateAllocation foldl_UpdateCostCapCounters_keeps)

lemma budget_save_allocations: "db_allocations (budget_save s b) = map (save_row (bd_allocs b)) (db_allocations s)"
  by (simp add: budget_save_def foldl_UpdateAllocation foldl_UpdateCostCapCounters_keeps)

text \<open>A budget loaded from the database and changed row by row by \<open>R\<close> saves to a table in which the
  rows of the operation are changed by \<open>R\<close> and no other.\<close>

definition changes_by :: "(allocation \<Rightarrow> allocation \<Rightarrow> bool) \<Rightarrow> db \<Rightarrow> string \<Rightarrow> budgt \<Rightarrow> bool" where
  "changes_by R s operationID b \<longleftrightarrow> list_all2 R (LockAllocations s operationID) (bd_allocs b)"

definition col_update :: "(allocation \<Rightarrow> allocation \<Rightarrow> bool) \<Rightarrow> bool" where
  "col_update R \<longleftrightarrow> (\<forall>x y. R x y \<longrightarrow> alloc_columns y x = y)"

lemma col_update_id: "col_update R \<Longrightarrow> R x y \<Longrightarrow> al_ID y = al_ID x \<and> al_OperationID y = al_OperationID x"
  unfolding col_update_def using alloc_columns_fixed(1,2) by metis

lemma same_ids: "col_update R \<Longrightarrow> list_all2 R xs ys \<Longrightarrow> map al_ID ys = map al_ID xs"
  by (induction xs arbitrary: ys) (auto simp: list_all2_Cons1 dest: col_update_id)

lemma set_LockAllocations [simp]:
  "set (LockAllocations s operationID) = {a \<in> set (db_allocations s). al_OperationID a = operationID}"
  by (auto simp: LockAllocations_def)

lemma distinct_LockAllocations:
  "distinct (map al_ID (db_allocations s)) \<Longrightarrow> distinct (map al_ID (LockAllocations s operationID))"
  by (simp add: LockAllocations_def distinct_map inj_on_def distinct_filter)

lemma budget_save_rows:
  assumes ids: "distinct (map al_ID (db_allocations s))" and R: "changes_by R s operationID b" "col_update R"
  shows "list_all2 (\<lambda>x y. if al_OperationID x = operationID then R x y else y = x)
    (db_allocations s) (map (save_row (bd_allocs b)) (db_allocations s))"
proof -
  let ?ys = "LockAllocations s operationID"
  have same: "map al_ID (bd_allocs b) = map al_ID ?ys"
    using R(1) same_ids [OF R(2)] by (simp add: changes_by_def)
  have dist: "distinct (map al_ID (bd_allocs b))" using same distinct_LockAllocations [OF ids] by simp
  have row: "if al_OperationID x = operationID then R x (save_row (bd_allocs b) x) else save_row (bd_allocs b) x = x"
    if x: "x \<in> set (db_allocations s)" for x
  proof (cases "al_OperationID x = operationID")
    case True
    then have "x \<in> set ?ys" using x by simp
    then obtain i where i: "i < length ?ys" "?ys ! i = x" by (metis in_set_conv_nth)
    then have y: "R x (bd_allocs b ! i)" "bd_allocs b ! i \<in> set (bd_allocs b)"
      using R(1) by (auto simp: changes_by_def list_all2_conv_all_nth)
    have col: "alloc_columns (bd_allocs b ! i) x = bd_allocs b ! i" using R(2) y by (simp add: col_update_def)
    then have "al_ID (bd_allocs b ! i) = al_ID x" by (metis alloc_columns_fixed(1))
    then show ?thesis using True y col save_row_present [OF dist y(2)] by simp
  next
    case False
    have "al_ID x \<notin> al_ID ` set ?ys"
      using ids x False by (auto simp: distinct_map inj_on_def)
    then have "al_ID x \<notin> al_ID ` set (bd_allocs b)" using same by (metis set_map)
    then show ?thesis using False save_row_absent by simp
  qed
  show ?thesis
    unfolding list_all2_conv_all_nth using row by auto
qed

section \<open>What a budget change moves\<close>

definition moved :: "int \<Rightarrow> int \<Rightarrow> allocation \<Rightarrow> allocation \<Rightarrow> bool" where
  "moved dr dc x y \<longleftrightarrow> wf_alloc y \<and>
     (\<exists>r. y = x\<lparr>al_Reserved := al_Reserved x + dr, al_Consumed := al_Consumed x + dc, al_Revision := r\<rparr>)"

lemma col_update_moved [simp]: "col_update (moved dr dc)"
  by (auto simp: col_update_def moved_def alloc_columns_def)

lemma moved_trans: "moved a b x y \<Longrightarrow> moved c d y z \<Longrightarrow> moved (a + c) (b + d) x z"
  by (auto simp: moved_def algebra_simps)

lemma moved_refl: "wf_alloc x \<Longrightarrow> moved 0 0 x x"
  unfolding moved_def by (intro conjI exI [of _ "al_Revision x"]) simp_all

definition wf_allocs :: "budgt \<Rightarrow> bool" where
  "wf_allocs b \<longleftrightarrow> (\<forall>a \<in> set (bd_allocs b). wf_alloc a)"

lemma moved_wf: "list_all2 (moved dr dc) xs (bd_allocs b) \<Longrightarrow> wf_allocs b"
  unfolding wf_allocs_def by (auto simp: moved_def in_set_conv_nth list_all2_conv_all_nth)

lemma budget_both_allocs:
  assumes "budget_both b fa currency fc = Inr b'" and "\<And>a a'. a \<in> set (bd_allocs b) \<Longrightarrow> fa a = Inr a' \<Longrightarrow> R a a'"
  shows "list_all2 R (bd_allocs b) (bd_allocs b')"
proof -
  from assms(1) have "list_all2 (\<lambda>x y. fa x = Inr y) (bd_allocs b) (bd_allocs b')"
    by (auto simp: budget_both_def fallible map_err_Inr_iff)
  then show ?thesis by (rule list.rel_mono_strong) (use assms(2) in blast)
qed

lemma budget_reserve_moves:
  assumes "budget_reserve b m = Inr b'" and "wf_allocs b" and "wf_money m" and "0 \<le> m_Amount m"
  shows "list_all2 (moved (m_Amount m) 0) (bd_allocs b) (bd_allocs b')"
proof (rule budget_both_allocs [OF assms(1) [unfolded budget_reserve_def]])
  fix a a' assume a: "a \<in> set (bd_allocs b)" "Alloc_Reserve a m = Inr a'"
  then have "wf_alloc a" using assms(2) by (simp add: wf_allocs_def)
  with a Alloc_Reserve_iff [OF this assms(3,4)] Alloc_Reserve_wf [OF this assms(3,4)]
  show "moved (m_Amount m) 0 a a'" by (auto simp: moved_def)
qed

lemma budget_release_moves:
  assumes "budget_release b m = Inr b'" and "wf_allocs b"
  shows "list_all2 (moved (- m_Amount m) 0) (bd_allocs b) (bd_allocs b')"
proof (rule budget_both_allocs [OF assms(1) [unfolded budget_release_def]])
  fix a a' assume a: "a \<in> set (bd_allocs b)" "Alloc_Release a m = Inr a'"
  then have "wf_alloc a" using assms(2) by (simp add: wf_allocs_def)
  with a Alloc_Release_iff [OF this] show "moved (- m_Amount m) 0 a a'"
    by (auto simp: moved_def wf_alloc_def int64_diff)
qed

lemma budget_charge_moves:
  assumes "budget_charge b m r False = Inr b'" and "wf_allocs b" and "wf_money m"
  shows "list_all2 (moved 0 (m_Amount m)) (bd_allocs b) (bd_allocs b')"
proof (rule budget_both_allocs [OF assms(1) [unfolded budget_charge_def]])
  fix a a' assume a: "a \<in> set (bd_allocs b)" "charge_alloc m r False a = Inr a'"
  then have "wf_alloc a" using assms(2) by (simp add: wf_allocs_def)
  moreover have "Alloc_Charge a m r False = (a', None)"
    using a(2) by (auto simp: charge_alloc_def split: prod.splits option.splits)
  ultimately show "moved 0 (m_Amount m) a a'"
    using Alloc_Charge_iff [OF _ assms(3)] by (auto simp: moved_def wf_alloc_def)
qed

section \<open>The ledger invariant\<close>

text \<open>A dispatch holds its reservation until it is settled.\<close>

definition holding :: "dispatch \<Rightarrow> bool" where
  "holding d \<longleftrightarrow> d_State d \<in> {DispatchPrepared, DispatchAuthorized, DispatchUnknown}"

definition hold_of :: "string \<Rightarrow> dispatch \<Rightarrow> int" where
  "hold_of operationID d = (if d_OperationID d = operationID \<and> holding d then m_Amount (d_Reserved d) else 0)"

definition held :: "db \<Rightarrow> string \<Rightarrow> int" where
  "held s operationID = sum_list (map (hold_of operationID) (db_dispatches s))"

definition charge_of :: "string \<Rightarrow> cost_entry \<Rightarrow> int" where
  "charge_of operationID c =
     (if ce_OperationID c = operationID \<and> (ce_Kind c = CostActual \<or> ce_Kind c = CostCorrection) then m_Amount (ce_Amount c) else 0)"

definition spent :: "db \<Rightarrow> string \<Rightarrow> int" where
  "spent s operationID = sum_list (map (charge_of operationID) (db_entries s))"

definition alloc_inv :: "db \<Rightarrow> bool" where
  "alloc_inv s \<longleftrightarrow> distinct (map al_ID (db_allocations s)) \<and>
     (\<forall>a \<in> set (db_allocations s). wf_alloc a \<and>
        al_Reserved a = held s (al_OperationID a) \<and> al_Consumed a = spent s (al_OperationID a))"

lemma alloc_inv_wf: "alloc_inv s \<Longrightarrow> wf_allocs (lockBudget s operationID)"
  by (simp add: alloc_inv_def wf_allocs_def lockBudget_def)

lemma alloc_inv_move:
  assumes inv: "alloc_inv s" and ch: "changes_by (moved dr dc) s operationID b"
    and rows: "db_allocations s' = map (save_row (bd_allocs b)) (db_allocations s)"
    and h: "\<And>i. held s' i = held s i + (if i = operationID then dr else 0)"
    and c: "\<And>i. spent s' i = spent s i + (if i = operationID then dc else 0)"
  shows "alloc_inv s'"
proof -
  have ids: "distinct (map al_ID (db_allocations s))" using inv by (simp add: alloc_inv_def)
  note L = budget_save_rows [OF ids ch col_update_moved, folded rows]
  have "map al_ID (db_allocations s') = map al_ID (db_allocations s)"
  proof (rule same_ids [OF _ L])
    show "col_update (\<lambda>x y. if al_OperationID x = operationID then moved dr dc x y else y = x)"
      using col_update_moved [of dr dc] unfolding col_update_def by (metis alloc_columns_self)
  qed
  moreover have "wf_alloc y \<and> al_Reserved y = held s' (al_OperationID y) \<and> al_Consumed y = spent s' (al_OperationID y)"
    if y: "y \<in> set (db_allocations s')" for y
  proof -
    obtain x where x: "x \<in> set (db_allocations s)" "if al_OperationID x = operationID then moved dr dc x y else y = x"
      using list_all2_source [OF L y] by blast
    from x(1) inv have "wf_alloc x \<and> al_Reserved x = held s (al_OperationID x) \<and> al_Consumed x = spent s (al_OperationID x)"
      by (simp add: alloc_inv_def)
    with x(2) show ?thesis by (auto simp: moved_def h c split: if_splits)
  qed
  ultimately show ?thesis using ids by (simp add: alloc_inv_def)
qed

lemma alloc_inv_same:
  assumes "alloc_inv s" "db_allocations s' = db_allocations s" "\<And>i. held s' i = held s i" "\<And>i. spent s' i = spent s i"
  shows "alloc_inv s'"
  using assms by (simp add: alloc_inv_def)

lemma dispatch_columns_fixed [simp]:
  "d_ID (dispatch_columns d x) = d_ID x" "d_OperationID (dispatch_columns d x) = d_OperationID x"
  "d_AttemptID (dispatch_columns d x) = d_AttemptID x" "d_Reserved (dispatch_columns d x) = d_Reserved x"
  "d_TenantID (dispatch_columns d x) = d_TenantID x" "d_Owner (dispatch_columns d x) = d_Owner x"
  "d_CallID (dispatch_columns d x) = d_CallID x" "d_State (dispatch_columns d x) = d_State d"
  by (simp_all add: dispatch_columns_def)

text \<open>\<open>d\<close> is a later state of the row \<open>d0\<close>: only the columns an update writes differ.\<close>

definition evolves :: "dispatch \<Rightarrow> dispatch \<Rightarrow> bool" where
  "evolves d0 d \<longleftrightarrow> dispatch_columns d d0 = d"

lemma evolves_fixed:
  assumes "evolves d0 d"
  shows "d_ID d = d_ID d0" "d_OperationID d = d_OperationID d0" "d_AttemptID d = d_AttemptID d0"
    "d_Reserved d = d_Reserved d0" "call_key d = call_key d0"
proof -
  have e: "dispatch_columns d d0 = d" using assms by (simp add: evolves_def)
  show "d_ID d = d_ID d0" "d_OperationID d = d_OperationID d0" "d_AttemptID d = d_AttemptID d0"
    "d_Reserved d = d_Reserved d0"
    using arg_cong [OF e, of d_ID] arg_cong [OF e, of d_OperationID] arg_cong [OF e, of d_AttemptID]
      arg_cong [OF e, of d_Reserved] by simp_all
  show "call_key d = call_key d0" using arg_cong [OF e, of call_key] by simp
qed

lemma evolves_steps:
  "Consume d0 version = Inr d \<Longrightarrow> evolves d0 d" "Dispatch_Deny d0 code = Inr d \<Longrightarrow> evolves d0 d"
  "Dispatch_Observe d0 out rep at = Inr (d, settled) \<Longrightarrow> evolves d0 d"
  "Dispatch_ConfirmNotSent d0 ref charged rep = Inr d \<Longrightarrow> evolves d0 d"
  "evolves d0 (d0\<lparr>d_Inventory := i\<rparr>)"
  by (auto simp: Consume_def Dispatch_Deny_def Dispatch_Observe_def Dispatch_ConfirmNotSent_def evolves_def
      dispatch_columns_def split: if_splits)

lemma UpdateDispatch_rows:
  assumes "distinct (map d_ID (db_dispatches s))" and "lookup_by d_ID (d_ID d) (db_dispatches s) = Some d0" and "evolves d0 d"
  shows "db_dispatches (UpdateDispatch s d) = update_by d_ID d (db_dispatches s)"
proof -
  have "dispatch_columns d x = d" if "x \<in> set (db_dispatches s)" "d_ID x = d_ID d" for x
  proof -
    have "lookup_by d_ID (d_ID x) (db_dispatches s) = Some x" using lookup_by_mem assms(1) that(1) by metis
    then show ?thesis using assms(2,3) that(2) by (simp add: evolves_def)
  qed
  then show ?thesis by (simp add: UpdateDispatch_def update_by_def)
qed

lemma UpdateDispatch_keeps [simp]:
  "db_allocations (UpdateDispatch s d) = db_allocations s" "db_attempts (UpdateDispatch s d) = db_attempts s"
  "db_entries (UpdateDispatch s d) = db_entries s" "db_operations (UpdateDispatch s d) = db_operations s"
  "db_observations (UpdateDispatch s d) = db_observations s" "map d_ID (db_dispatches (UpdateDispatch s d)) = map d_ID (db_dispatches s)"
  "map call_key (db_dispatches (UpdateDispatch s d)) = map call_key (db_dispatches s)"
  by (auto simp: UpdateDispatch_def)

definition dispatch_inv :: "db \<Rightarrow> bool" where
  "dispatch_inv s \<longleftrightarrow>
     distinct (map d_ID (db_dispatches s)) \<and> distinct (map call_key (db_dispatches s)) \<and>
     (\<forall>d \<in> set (db_dispatches s).
        (holding d \<longrightarrow> wf_money (d_Reserved d) \<and> 0 \<le> m_Amount (d_Reserved d)) \<and>
        (\<exists>at. lookup_by at_ID (d_AttemptID d) (db_attempts s) = Some at \<and> at_OperationID at = d_OperationID d))"

definition charges_inv :: "db \<Rightarrow> bool" where
  "charges_inv s \<longleftrightarrow> (\<forall>i. 0 \<le> charged_amount s i \<and> charged_amount s i \<le> MaxInt64)"

definition ledger_inv :: "db \<Rightarrow> bool" where
  "ledger_inv s \<longleftrightarrow> alloc_inv s \<and> dispatch_inv s \<and> charges_inv s"

lemma held_UpdateDispatch:
  assumes "distinct (map d_ID (db_dispatches s))" and "lookup_by d_ID (d_ID d) (db_dispatches s) = Some d0" and "evolves d0 d"
  shows "held (UpdateDispatch s d) i = held s i - hold_of i d0 + hold_of i d"
  unfolding held_def UpdateDispatch_rows [OF assms] using sum_list_update_by [OF assms(1,2)] by auto

lemma dispatch_inv_UpdateDispatch:
  assumes "dispatch_inv s" and "lookup_by d_ID (d_ID d) (db_dispatches s) = Some d0" and "evolves d0 d"
    and "holding d \<Longrightarrow> holding d0"
  shows "dispatch_inv (UpdateDispatch s d)"
proof -
  have dist: "distinct (map d_ID (db_dispatches s))" using assms(1) by (simp add: dispatch_inv_def)
  have d0: "d0 \<in> set (db_dispatches s)" using lookup_by_SomeD [OF assms(2)] by simp
  have "(holding x \<longrightarrow> wf_money (d_Reserved x) \<and> 0 \<le> m_Amount (d_Reserved x)) \<and>
        (\<exists>at. lookup_by at_ID (d_AttemptID x) (db_attempts s) = Some at \<and> at_OperationID at = d_OperationID x)"
    if "x \<in> set (db_dispatches (UpdateDispatch s d))" for x
  proof -
    from that [unfolded UpdateDispatch_rows [OF dist assms(2,3)]] have "x = d \<or> x \<in> set (db_dispatches s)"
      by (blast dest: set_update_by)
    then show ?thesis
    proof
      assume "x = d"
      then show ?thesis using assms(1,4) d0 evolves_fixed [OF assms(3)] by (auto simp: dispatch_inv_def)
    qed (use assms(1) in \<open>auto simp: dispatch_inv_def\<close>)
  qed
  then show ?thesis using assms(1) unfolding dispatch_inv_def by simp
qed

lemma ledger_update:
  assumes inv: "ledger_inv s" and row: "lookup_by d_ID (d_ID d) (db_dispatches s) = Some d0" and ev: "evolves d0 d"
    and hd: "holding d \<Longrightarrow> holding d0"
    and ch: "changes_by (moved dr dc) s (d_OperationID d0) b"
    and dr: "dr = hold_of (d_OperationID d0) d - hold_of (d_OperationID d0) d0"
    and s2: "db_allocations s2 = db_allocations s" "db_dispatches s2 = db_dispatches s" "db_attempts s2 = db_attempts s"
    and sp: "\<And>i. spent s2 i = spent s i + (if i = d_OperationID d0 then dc else 0)" and cg: "charges_inv s2"
  shows "ledger_inv (UpdateDispatch (budget_save s2 b) d)"
proof -
  have I: "alloc_inv s" "dispatch_inv s" "distinct (map d_ID (db_dispatches s))"
    using inv by (simp_all add: ledger_inv_def dispatch_inv_def)
  have other: "hold_of i d = 0 \<and> hold_of i d0 = 0" if "i \<noteq> d_OperationID d0" for i
    using that evolves_fixed(2) [OF ev] by (auto simp: hold_of_def)
  have "alloc_inv (UpdateDispatch (budget_save s2 b) d)"
  proof (rule alloc_inv_move [OF I(1) ch])
    show "db_allocations (UpdateDispatch (budget_save s2 b) d) = map (save_row (bd_allocs b)) (db_allocations s)"
      by (simp add: budget_save_allocations s2)
    fix i
    have "held (UpdateDispatch (budget_save s2 b) d) i = held (budget_save s2 b) i - hold_of i d0 + hold_of i d"
      using held_UpdateDispatch [of "budget_save s2 b" d d0] I(3) row ev by (simp add: s2)
    moreover have "held (budget_save s2 b) i = held s i" by (simp add: held_def s2)
    ultimately show "held (UpdateDispatch (budget_save s2 b) d) i = held s i + (if i = d_OperationID d0 then dr else 0)"
      using dr other by auto
    show "spent (UpdateDispatch (budget_save s2 b) d) i = spent s i + (if i = d_OperationID d0 then dc else 0)"
      using sp [of i] by (simp add: spent_def)
  qed
  moreover have "dispatch_inv (budget_save s2 b)" using I(2) by (simp add: dispatch_inv_def s2)
  then have "dispatch_inv (UpdateDispatch (budget_save s2 b) d)"
    using dispatch_inv_UpdateDispatch [OF _ _ ev hd] row by (simp add: s2)
  moreover have "charges_inv (UpdateDispatch (budget_save s2 b) d)"
    using cg by (simp add: charges_inv_def charged_amount_def charged_entries_def)
  ultimately show ?thesis by (simp add: ledger_inv_def)
qed

section \<open>Every transaction keeps the ledger\<close>

lemma hold_of_columns: "evolves d0 d \<Longrightarrow> holding d = holding d0 \<Longrightarrow> hold_of i d = hold_of i d0"
  using evolves_fixed by (simp add: hold_of_def)

text \<open>An update that leaves a dispatch holding what it held needs no change of the budget.\<close>

lemma ledger_update_still:
  assumes inv: "ledger_inv s" and row: "lookup_by d_ID (d_ID d) (db_dispatches s) = Some d0" and ev: "evolves d0 d"
    and hd: "holding d = holding d0"
  shows "ledger_inv (UpdateDispatch s d)"
proof -
  have dist: "distinct (map d_ID (db_dispatches s))" using inv by (simp add: ledger_inv_def dispatch_inv_def)
  have "alloc_inv (UpdateDispatch s d)"
  proof (rule alloc_inv_same [of s])
    fix i
    show "held (UpdateDispatch s d) i = held s i"
      using held_UpdateDispatch [OF dist row ev] hold_of_columns [OF ev hd] by simp
    show "spent (UpdateDispatch s d) i = spent s i" by (simp add: spent_def)
  qed (use inv in \<open>simp_all add: ledger_inv_def\<close>)
  moreover have "dispatch_inv (UpdateDispatch s d)"
    using inv hd by (intro dispatch_inv_UpdateDispatch [OF _ row ev]) (simp_all add: ledger_inv_def)
  moreover have "charges_inv (UpdateDispatch s d)"
    using inv by (simp add: ledger_inv_def charges_inv_def charged_amount_def charged_entries_def)
  ultimately show ?thesis by (simp add: ledger_inv_def)
qed

lemma ledger_inv_tables:
  assumes "ledger_inv s" "db_allocations s' = db_allocations s" "db_dispatches s' = db_dispatches s"
    "db_attempts s' = db_attempts s" "db_entries s' = db_entries s"
  shows "ledger_inv s'"
  using assms
  by (simp add: ledger_inv_def alloc_inv_def dispatch_inv_def charges_inv_def held_def spent_def charged_amount_def
      charged_entries_def)

text \<open>The database that \<open>settleFinance\<close> commits when its event is new.\<close>

definition settled_rows :: "operation \<Rightarrow> dispatch \<Rightarrow> bool \<Rightarrow> instant \<Rightarrow> db \<Rightarrow> db" where
  "settled_rows ops d settled now s =
     (if d_State d = DispatchUnknown \<and> op_Finance ops \<noteq> FinanceExposureUnknown
      then let (o1, ev) = Transition ops (''dispatch:'' @ d_ID d @ '':unknown'') now (finance_moved FinanceExposureUnknown)
           in append_event (UpdateOperation s o1) ev
      else if settled \<and> op_Finance ops = FinanceExposureUnknown \<and> \<not> HasUnknownDispatch s (op_ID ops)
      then let (o1, ev) = Transition ops (''dispatch:'' @ d_ID d @ '':settled'') now (finance_moved FinanceFunded)
           in append_event (UpdateOperation s o1) ev
      else s)"

lemma settleFinance_Inr: "settleFinance ops d settled now s = Inr s' \<Longrightarrow> s' = settled_rows ops d settled now s"
  by (auto simp: settleFinance_def settled_rows_def fallible split: if_splits prod.splits)

lemma settleFinance_keeps [simp]:
  "db_allocations (settled_rows ops d b now s) = db_allocations s" "db_dispatches (settled_rows ops d b now s) = db_dispatches s"
  "db_attempts (settled_rows ops d b now s) = db_attempts s" "db_entries (settled_rows ops d b now s) = db_entries s"
  by (simp_all add: settled_rows_def append_event_def UpdateOperation_def split: prod.split)

lemma InsertDispatch_Inr:
  "InsertDispatch s d = Inr s' \<longleftrightarrow>
     s' = s\<lparr>db_dispatches := db_dispatches s @ [d]\<rparr> \<and> d_ID d \<notin> d_ID ` set (db_dispatches s) \<and>
     call_key d \<notin> call_key ` set (db_dispatches s)"
  unfolding InsertDispatch_def list_ex_iff image_iff by (smt (verit) Inl_Inr_False sum.inject(2))

lemma dispatch_inv_insert:
  assumes "dispatch_inv s" and "InsertDispatch s d = Inr s'"
    and "holding d \<Longrightarrow> wf_money (d_Reserved d) \<and> 0 \<le> m_Amount (d_Reserved d)"
    and "lookup_by at_ID (d_AttemptID d) (db_attempts s) = Some at" and "at_OperationID at = d_OperationID d"
  shows "dispatch_inv s'"
  using assms unfolding dispatch_inv_def InsertDispatch_Inr by auto

lemma admissionContext_Inr:
  assumes "admissionContext sv s b tenantID authority now = Inr (ac, ops, at)"
  shows "lookup_by op_ID (bi_OperationID b) (db_operations s) = Some ops" "op_ID ops = bi_OperationID b"
    "lookup_by at_ID (bi_AttemptID b) (db_attempts s) = Some at" "at_ID at = bi_AttemptID b" "at_OperationID at = op_ID ops"
    "ac_Operation ac = Some ops" "ac_Attempt ac = Some at" "op_TenantID ops = tenantID"
    "context_budget (ac\<lparr>ac_Price := p\<rparr>) = lockBudget s (bi_OperationID b)"
    "ac_Now ac = now" "ac_AdmissionClosed ac = IsAdmissionClosed s (op_TenantID ops)"
proof -
  from assms have A: "lookup_by op_ID (bi_OperationID b) (db_operations s) = Some ops"
      "lookup_by at_ID (bi_AttemptID b) (db_attempts s) = Some at"
    by (auto simp: admissionContext_def Let_def fallible LockOperation_def LockAttempt_def split: if_splits)
  then show "lookup_by op_ID (bi_OperationID b) (db_operations s) = Some ops" "op_ID ops = bi_OperationID b"
    "lookup_by at_ID (bi_AttemptID b) (db_attempts s) = Some at" "at_ID at = bi_AttemptID b"
    using lookup_by_SomeD by metis+
  from assms show "at_OperationID at = op_ID ops" "ac_Operation ac = Some ops" "ac_Attempt ac = Some at" "op_TenantID ops = tenantID"
    "context_budget (ac\<lparr>ac_Price := p\<rparr>) = lockBudget s (bi_OperationID b)"
    "ac_Now ac = now" "ac_AdmissionClosed ac = IsAdmissionClosed s (op_TenantID ops)"
    by (auto simp: admissionContext_def Let_def fallible context_budget_def split: if_splits)
qed

lemma charges_inv_tables: "charges_inv s \<Longrightarrow> db_entries s' = db_entries s \<Longrightarrow> charges_inv s'"
  by (simp add: charges_inv_def charged_amount_def charged_entries_def)

lemma charged_amount_insert:
  "charged_amount (InsertCostEntry s c) i =
     charged_amount s i + (if ce_DispatchID c = i \<and> (ce_Kind c = CostActual \<or> ce_Kind c = CostCorrection) then m_Amount (ce_Amount c) else 0)"
  by (auto simp: charged_amount_def charged_entries_def InsertCostEntry_def)

lemma spent_insert: "spent (InsertCostEntry s c) i = spent s i + charge_of i c"
  by (simp add: spent_def InsertCostEntry_def)

lemma InsertCostEntry_keeps [simp]:
  "db_allocations (InsertCostEntry s c) = db_allocations s" "db_dispatches (InsertCostEntry s c) = db_dispatches s"
  "db_attempts (InsertCostEntry s c) = db_attempts s" "db_operations (InsertCostEntry s c) = db_operations s"
  "db_observations (InsertCostEntry s c) = db_observations s"
  by (simp_all add: InsertCostEntry_def)

lemma changes_by_moves:
  "list_all2 R (bd_allocs (lockBudget s operationID)) (bd_allocs b) \<Longrightarrow> changes_by R s operationID b"
  by (simp add: changes_by_def lockBudget_def)

text \<open>The first transaction of an admission.\<close>

lemma prepare_fresh_ledger:
  assumes tx: "prepare_fresh sv now new_id cost_id authority tenantID req s = Inr (r, s')"
    and inv: "ledger_inv s" and wf: "wf_money (rq_MaxExposure req)"
  shows "ledger_inv s'"
proof -
  from tx obtain ac0 ops at where
    ctx: "admissionContext sv s (requestBinding req) tenantID authority now = Inr (ac0, ops, at)"
    by (auto simp: prepare_fresh_def fallible)
  define ac where "ac = ac0\<lparr>ac_Price := sv_Price sv (rq_Kind req) (rq_RouteID req) now\<rparr>"
  note X = admissionContext_Inr [OF ctx]
  have at: "lookup_by at_ID (at_ID at) (db_attempts s) = Some at" "at_OperationID at = op_ID ops" using X(3,4,5) by simp_all
  have I: "alloc_inv s" "dispatch_inv s" "charges_inv s" using inv by (simp_all add: ledger_inv_def)
  show ?thesis
  proof (cases "CheckAdmission req ac True")
    case (Some e)
    with tx ctx obtain code where e: "e = Denial code"
      by (cases e) (auto simp: prepare_fresh_def ac_def)
    define d where "d = DeniedDispatch new_id req ac ops at code"
    have d: "\<not> holding d" "d_AttemptID d = at_ID at" "d_OperationID d = op_ID ops"
      by (simp_all add: d_def DeniedDispatch_def holding_def)
    from tx ctx Some e consider "s' = s" | "InsertDispatch s d = Inr s'"
      by (auto simp: prepare_fresh_def ac_def [symmetric] d_def [symmetric] Let_def fallible split: if_splits)
    then show ?thesis
    proof cases
      case 2
      then have s': "s' = s\<lparr>db_dispatches := db_dispatches s @ [d]\<rparr>" by (simp add: InsertDispatch_Inr)
      have "alloc_inv s'"
        using I(1) d(1) by (rule_tac alloc_inv_same) (simp_all add: s' held_def spent_def hold_of_def)
      moreover have "dispatch_inv s'" using dispatch_inv_insert [OF I(2) 2] d at by auto
      ultimately show ?thesis using charges_inv_tables [OF I(3)] by (simp add: ledger_inv_def s')
    qed (use inv in simp)
  next
    case None
    define d where "d = NewDispatch new_id req ac ops at (the (ac_Price ac))"
    have d: "holding d" "d_AttemptID d = at_ID at" "d_OperationID d = op_ID ops" "d_Reserved d = rq_MaxExposure req"
      by (simp_all add: d_def NewDispatch_def holding_def)
    have pos: "0 \<le> m_Amount (rq_MaxExposure req)" using CheckAdmission_None [OF None] by blast
    have bud: "context_budget ac = lockBudget s (op_ID ops)" using X(2,9) by (simp add: ac_def requestBinding_def)
    from tx ctx None obtain b s1 c where
      b: "budget_reserve (lockBudget s (op_ID ops)) (rq_MaxExposure req) = Inr b"
      and ins: "InsertDispatch (budget_save s b) d = Inr s1"
      and s': "s' = InsertCostEntry s1 c" and c: "ce_Kind c = CostEstimate"
      by (auto simp: prepare_fresh_def ac_def [symmetric] d_def [symmetric] Let_def fallible bud)
    from ins have s1: "s1 = (budget_save s b)\<lparr>db_dispatches := db_dispatches s @ [d]\<rparr>" by (simp add: InsertDispatch_Inr)
    have ch: "changes_by (moved (m_Amount (rq_MaxExposure req)) 0) s (op_ID ops) b"
      by (intro changes_by_moves budget_reserve_moves [OF b alloc_inv_wf [OF I(1)] wf pos])
    have "alloc_inv s'"
      by (rule alloc_inv_move [OF I(1) ch])
        (use c d in \<open>simp_all add: s' s1 budget_save_allocations held_def spent_def InsertCostEntry_def hold_of_def charge_of_def\<close>)
    moreover have "dispatch_inv (budget_save s b)" using I(2) by (simp add: dispatch_inv_def)
    then have "dispatch_inv s1"
      using dispatch_inv_insert [OF _ ins] d at wf pos by auto
    then have "dispatch_inv s'" by (simp add: s' dispatch_inv_def)
    moreover have "charges_inv s'"
      using I(3) c by (simp add: charges_inv_def s' charged_amount_insert s1) (simp add: charged_amount_def charged_entries_def)
    ultimately show ?thesis by (simp add: ledger_inv_def)
  qed
qed

lemma admit_prepare_ledger:
  assumes "admit_prepare sv now new_id cost_id authority tenantID req s = Inr (r, s')"
    and "ledger_inv s" and "wf_money (rq_MaxExposure req)"
  shows "ledger_inv s'"
proof (cases "GetDispatchByCall s tenantID (rq_Owner req) (rq_CallID req)")
  case None
  then show ?thesis using assms prepare_fresh_ledger by (simp add: admit_prepare_def)
next
  case (Some d)
  then show ?thesis using assms by (auto simp: admit_prepare_def fallible)
qed

text \<open>Settling a holding dispatch releases its reservation.\<close>

lemma ledger_release:
  assumes inv: "ledger_inv s" and row: "lookup_by d_ID (d_ID d) (db_dispatches s) = Some d0" and ev: "evolves d0 d"
    and hold: "holding d0" "\<not> holding d"
    and rel: "budget_release (lockBudget s (d_OperationID d0)) (d_Reserved d0) = Inr b"
  shows "ledger_inv (UpdateDispatch (budget_save s b) d)"
proof (rule ledger_update [OF inv row ev, where dr = "- m_Amount (d_Reserved d0)" and dc = 0])
  show "changes_by (moved (- m_Amount (d_Reserved d0)) 0) s (d_OperationID d0) b"
    using inv by (intro changes_by_moves budget_release_moves [OF rel] alloc_inv_wf) (simp add: ledger_inv_def)
  show "- m_Amount (d_Reserved d0) = hold_of (d_OperationID d0) d - hold_of (d_OperationID d0) d0"
    using hold by (simp add: hold_of_def)
qed (use inv hold in \<open>simp_all add: ledger_inv_def\<close>)

text \<open>A record answered by a transaction: an earlier state of its row. The second transaction of an
  admission acts on the record the first answered.\<close>

definition snapshot :: "db \<Rightarrow> dispatch \<Rightarrow> bool" where
  "snapshot s d \<longleftrightarrow> (\<exists>x \<in> set (db_dispatches s). d_ID x = d_ID d \<and> recordBinding x = recordBinding d)"

lemma holding_states:
  "Consume d0 version = Inr d \<Longrightarrow> holding d0 \<and> holding d"
  "Dispatch_Deny d0 code = Inr d \<Longrightarrow> holding d0 \<and> \<not> holding d"
  "Dispatch_Observe d0 out rep at = Inr (d, settled) \<Longrightarrow> d_State d0 \<noteq> DispatchObserved \<Longrightarrow> holding d0 \<and> (holding d \<longleftrightarrow> \<not> settled)"
  "Dispatch_Observe d0 out rep at = Inr (d, settled) \<Longrightarrow> d_State d0 = DispatchObserved \<Longrightarrow> d = d0 \<and> \<not> settled"
  "Dispatch_ConfirmNotSent d0 ref charged rep = Inr d \<Longrightarrow> d_State d0 \<noteq> DispatchConfirmedNotSent \<Longrightarrow> holding d0 \<and> \<not> holding d"
  by (auto simp: Consume_def Dispatch_Deny_def Dispatch_Observe_def Dispatch_ConfirmNotSent_def holding_def split: if_splits)

lemma admit_consume_ledger:
  assumes tx: "admit_consume sv now authority tenantID req d version s = Inr (r, s')"
    and inv: "ledger_inv s" and snap: "snapshot s d"
  shows "ledger_inv s'"
proof -
  have dist: "distinct (map d_ID (db_dispatches s))" using inv by (simp add: ledger_inv_def dispatch_inv_def)
  from tx obtain ac0 ops at locked where
    ctx: "admissionContext sv s (recordBinding d) tenantID authority now = Inr (ac0, ops, at)"
    and lock: "lookup_by d_ID (d_ID d) (db_dispatches s) = Some locked"
    and binds: "Dispatch_Binds locked tenantID req None = None"
    by (auto simp: admit_consume_def fallible LockDispatch_def)
  have lid: "d_ID locked = d_ID d" using lookup_by_SomeD [OF lock] by simp
  have rb: "recordBinding locked = recordBinding d"
    using snap lock lookup_by_mem [OF dist] unfolding snapshot_def by force
  then have opid: "bi_OperationID (recordBinding d) = d_OperationID locked" by (metis recordBinding_def binding.select_convs(3))
  note X = admissionContext_Inr [OF ctx]
  show ?thesis
  proof (cases "d_State locked = DispatchPrepared")
    case False
    then show ?thesis using tx ctx lock binds inv by (auto simp: admit_consume_def LockDispatch_def)
  next
    case True
    with tx ctx lock binds obtain frozen where fp: "sv_PriceByRevision sv (d_MeterRevision locked) = Some frozen"
      by (auto simp: admit_consume_def LockDispatch_def split: option.splits)
    define ac where "ac = ac0\<lparr>ac_Price := Some frozen\<rparr>"
    have bud: "context_budget ac = lockBudget s (d_OperationID locked)" using X(9) opid by (simp add: ac_def)
    show ?thesis
    proof (cases "CheckAdmission req ac False")
      case None
      with tx ctx lock binds True fp obtain d' where d': "Consume locked version = Inr d'" "s' = UpdateDispatch s d'"
        by (auto simp: admit_consume_def LockDispatch_def ac_def fallible)
      have "d_ID d' = d_ID locked" using evolves_fixed(1) evolves_steps(1) d'(1) by blast
      then show ?thesis
        using ledger_update_still [OF inv, of d' locked] lock lid evolves_steps(1) [OF d'(1)] holding_states(1) [OF d'(1)] d'(2)
        by simp
    next
      case (Some e)
      with tx ctx lock binds True fp obtain code where e: "e = Denial code"
        by (cases e) (auto simp: admit_consume_def LockDispatch_def ac_def)
      with Some tx ctx lock binds True fp obtain d' b where
        d': "Dispatch_Deny locked code = Inr d'" and b: "budget_release (context_budget ac) (d_Reserved locked) = Inr b"
        and s': "s' = UpdateDispatch (budget_save s b) d'"
        by (auto simp: admit_consume_def LockDispatch_def ac_def fallible)
      have "d_ID d' = d_ID locked" using evolves_fixed(1) evolves_steps(2) d' by blast
      then show ?thesis
        using ledger_release [OF inv, of d' locked b] lock lid evolves_steps(2) [OF d'] holding_states(2) [OF d'] b bud s'
        by simp
    qed
  qed
qed

text \<open>Metering: what an observation charges is what the ledger records.\<close>

lemma meter_effect:
  assumes tx: "meter p obs_id cost_id d now b s = Inr (b1, s1)" and valid: "Price_Validate p = None"
    and wf: "wf_allocs b" and cg: "charges_inv s"
  obtains dc where "list_all2 (moved 0 dc) (bd_allocs b) (bd_allocs b1)"
    "\<And>i. spent s1 i = spent s i + (if i = d_OperationID d then dc else 0)" "charges_inv s1"
    "db_allocations s1 = db_allocations s" "db_dispatches s1 = db_dispatches s" "db_attempts s1 = db_attempts s"
    "\<exists>cost. Price_Cost p (MaxUsage s (d_ID d)) = Inr cost \<and>
       charged_amount s1 (d_ID d) = max (charged_amount s (d_ID d)) (m_Amount cost)"
proof -
  from tx obtain cost where cost: "Price_Cost p (MaxUsage s (d_ID d)) = Inr cost" by (auto simp: meter_def fallible)
  have c: "wf_money cost" "0 \<le> m_Amount cost" using Price_Cost_nonneg [OF valid cost] by simp_all
  let ?ch = "charged_amount s (d_ID d)" and ?delta = "m_Amount cost - charged_amount s (d_ID d)"
  have ch: "0 \<le> ?ch" "?ch \<le> MaxInt64" using cg by (simp_all add: charges_inv_def)
  have w: "wrap64 ?delta = ?delta" using c ch by (intro wrap64_id) (simp add: wf_money_def int64_defs)
  show thesis
  proof (cases "?delta > 0")
    case True
    define e where "e = \<lparr>ce_ID = cost_id, ce_OperationID = d_OperationID d, ce_DispatchID = d_ID d, ce_ObservationID = obs_id,
        ce_Kind = (if actual_entry s (d_ID d) \<noteq> [] then CostCorrection else CostActual),
        ce_Amount = \<lparr>m_Currency = m_Currency cost, m_Amount = ?delta\<rparr>,
        ce_CorrectionOf = (if actual_entry s (d_ID d) \<noteq> [] then actual_entry s (d_ID d) else []), ce_CreatedAt = now\<rparr>"
    have e: "ce_OperationID e = d_OperationID d" "ce_DispatchID e = d_ID d" "ce_Kind e = CostActual \<or> ce_Kind e = CostCorrection"
        "ce_Amount e = \<lparr>m_Currency = m_Currency cost, m_Amount = ?delta\<rparr>"
      by (simp_all add: e_def)
    have b1: "budget_charge b (ce_Amount e) (d_Reserved d) False = Inr b1" and s1: "s1 = InsertCostEntry s e"
      using tx cost w True by (auto simp: meter_def fallible Let_def e_def)
    have "wf_money (ce_Amount e)" using c ch True by (simp add: e wf_money_def int64_defs)
    from budget_charge_moves [OF b1 wf this] have m: "list_all2 (moved 0 ?delta) (bd_allocs b) (bd_allocs b1)"
      by (simp add: e)
    have "charged_amount s1 i = charged_amount s i + (if d_ID d = i then ?delta else 0)" for i
      using e by (auto simp: s1 charged_amount_insert)
    moreover from this have "charges_inv s1" using cg c True by (auto simp: charges_inv_def wf_money_def int64_defs)
    moreover have "spent s1 i = spent s i + (if i = d_OperationID d then ?delta else 0)" for i
      using e by (auto simp: s1 spent_insert charge_of_def)
    ultimately show thesis using that [OF m] cost True by (simp add: s1)
  next
    case False
    with tx cost w have "b1 = b" "s1 = s" by (auto simp: meter_def fallible Let_def)
    moreover have "list_all2 (moved 0 0) (bd_allocs b) (bd_allocs b)"
      using wf moved_refl by (auto simp: wf_allocs_def list_all2_same)
    ultimately show thesis using that [of 0] cg cost False by simp
  qed
qed

definition prices_ok :: "service \<Rightarrow> bool" where
  "prices_ok sv \<longleftrightarrow> (\<forall>r p. sv_PriceByRevision sv r = Some p \<longrightarrow> Price_Validate p = None)"

lemma InsertUsageObservation_Inr:
  "InsertUsageObservation s x = Inr s' \<Longrightarrow> s' = s\<lparr>db_observations := db_observations s @ [x]\<rparr>"
  by (auto simp: InsertUsageObservation_def Let_def split: if_splits)

text \<open>What a successful report that is not a duplicate went through.\<close>

lemma Observe_Inr:
  assumes "Observe sv now obs_id cost_id rdr dispatchID src sq out usg nativeRef observedAt s = Inr ((d, ex), s')"
    and "GetUsageObservation s dispatchID src sq = None"
  obtains d0 p ops settled x b1 s2 b2 where
    "lookup_by d_ID dispatchID (db_dispatches s) = Some d0" "sv_PriceByRevision sv (d_MeterRevision d0) = Some p"
    "Dispatch_Observe d0 out (usg \<noteq> None) observedAt = Inr (d, settled)"
    "observation_key x = (dispatchID, src, sq)" "uo_Usage x = usg"
    "meter p obs_id cost_id d now (lockBudget s (d_OperationID d0)) (s\<lparr>db_observations := db_observations s @ [x]\<rparr>) = Inr (b1, s2)"
    "release_if settled b1 (d_Reserved d) = Inr b2"
    "s' = settled_rows ops d settled now (UpdateDispatch (budget_save s2 b2) d)" "\<not> ex"
proof -
  from assms obtain d0 p ops where
    1: "lookup_by d_ID dispatchID (db_dispatches s) = Some d0" "sv_PriceByRevision sv (d_MeterRevision d0) = Some p"
    and 2: "chk (Dispatch_Observe d0 out (usg \<noteq> None) observedAt) (\<lambda>(d, settled).
                 chk (InsertUsageObservation s
                        \<lparr>uo_ID = obs_id, uo_DispatchID = d_ID d, uo_Source = src, uo_Sequence = sq,
                         uo_NativeReference = nativeRef, uo_Usage = usg, uo_CostRevision = p_Revision p,
                         uo_ObservedAt = observedAt\<rparr>) (\<lambda>s1.
                 chk (meter p obs_id cost_id d now (lockBudget s (d_OperationID d0)) s1) (\<lambda>(b1, s2).
                 chk (release_if settled b1 (d_Reserved d)) (\<lambda>b2.
                 chk (settleFinance ops d settled now (UpdateDispatch (budget_save s2 b2) d)) (\<lambda>s3. Inr ((d, False), s3)))))) = Inr ((d, ex), s')"
    unfolding Observe_def LockDispatch_def Let_def chk_Inr_iff [of "found _"] chk_Inr_iff [of "LockOperation _ _"] found_Inr_iff
    by (auto split: if_splits option.splits simp: chk_Inr_iff [of "LockOperation _ _"])
  from 2 obtain settled s1 b1 s2 b2 where
    3: "Dispatch_Observe d0 out (usg \<noteq> None) observedAt = Inr (d, settled)"
    and 4: "InsertUsageObservation s \<lparr>uo_ID = obs_id, uo_DispatchID = d_ID d, uo_Source = src, uo_Sequence = sq,
           uo_NativeReference = nativeRef, uo_Usage = usg, uo_CostRevision = p_Revision p, uo_ObservedAt = observedAt\<rparr> = Inr s1"
    and 5: "meter p obs_id cost_id d now (lockBudget s (d_OperationID d0)) s1 = Inr (b1, s2)"
      "release_if settled b1 (d_Reserved d) = Inr b2"
      "s' = settled_rows ops d settled now (UpdateDispatch (budget_save s2 b2) d)" "\<not> ex"
    by (auto simp: fallible dest!: settleFinance_Inr)
  let ?x = "\<lparr>uo_ID = obs_id, uo_DispatchID = d_ID d, uo_Source = src, uo_Sequence = sq,
           uo_NativeReference = nativeRef, uo_Usage = usg, uo_CostRevision = p_Revision p, uo_ObservedAt = observedAt\<rparr>"
  show thesis
    by (rule that [of d0 p settled ?x b1 s2 b2 ops, OF 1 3 _ _ _ 5(2-)])
      (use 5(1) InsertUsageObservation_Inr [OF 4] evolves_fixed(1) [OF evolves_steps(3) [OF 3]] lookup_by_SomeD [OF 1(1)] in simp_all)
qed

lemma Observe_ledger:
  assumes tx: "Observe sv now obs_id cost_id rdr dispatchID src sq out usg nativeRef observedAt s = Inr ((d, ex), s')"
    and inv: "ledger_inv s" and ok: "prices_ok sv"
  shows "ledger_inv s'"
proof (cases "GetUsageObservation s dispatchID src sq")
  case (Some x)
  then have "s' = s" using tx by (auto simp: Observe_def fallible Let_def split: option.splits if_splits)
  then show ?thesis using inv by simp
next
  case None
  from Observe_Inr [OF tx None] obtain d0 p ops settled x b1 s2 b2 where
    row: "lookup_by d_ID dispatchID (db_dispatches s) = Some d0" and p: "sv_PriceByRevision sv (d_MeterRevision d0) = Some p"
    and obs: "Dispatch_Observe d0 out (usg \<noteq> None) observedAt = Inr (d, settled)"
    and m: "meter p obs_id cost_id d now (lockBudget s (d_OperationID d0)) (s\<lparr>db_observations := db_observations s @ [x]\<rparr>) = Inr (b1, s2)"
    and rel: "release_if settled b1 (d_Reserved d) = Inr b2"
    and s': "s' = settled_rows ops d settled now (UpdateDispatch (budget_save s2 b2) d)"
    by metis
  let ?s1 = "s\<lparr>db_observations := db_observations s @ [x]\<rparr>"
  have inv1: "ledger_inv ?s1" by (rule ledger_inv_tables [OF inv]) simp_all
  note ev = evolves_steps(3) [OF obs]
  have row': "lookup_by d_ID (d_ID d) (db_dispatches ?s1) = Some d0"
    using row evolves_fixed(1) [OF ev] lookup_by_SomeD [OF row] by simp
  have A: "alloc_inv s" "charges_inv ?s1" using inv inv1 by (simp_all add: ledger_inv_def)
  have valid: "Price_Validate p = None" using ok p by (simp add: prices_ok_def)
  from meter_effect [OF m valid alloc_inv_wf [OF A(1)] A(2)] obtain dc where
    mv: "list_all2 (moved 0 dc) (bd_allocs (lockBudget s (d_OperationID d0))) (bd_allocs b1)"
    and sp: "\<And>i. spent s2 i = spent ?s1 i + (if i = d_OperationID d then dc else 0)" and cg: "charges_inv s2"
    and tb: "db_allocations s2 = db_allocations ?s1" "db_dispatches s2 = db_dispatches ?s1" "db_attempts s2 = db_attempts ?s1"
    by metis
  define dr where "dr = hold_of (d_OperationID d0) d - hold_of (d_OperationID d0) d0"
  have dr: "dr = (if settled then - m_Amount (d_Reserved d) else 0)"
    using holding_states(3,4) [OF obs] evolves_fixed [OF ev]
    by (cases "d_State d0 = DispatchObserved") (auto simp: dr_def hold_of_def)
  have "list_all2 (moved dr dc) (bd_allocs (lockBudget s (d_OperationID d0))) (bd_allocs b2)"
  proof (cases settled)
    case True
    then have r: "budget_release b1 (d_Reserved d) = Inr b2" using rel by (simp add: release_if_def)
    from budget_release_moves [OF r moved_wf [OF mv]]
    have "list_all2 (moved (- m_Amount (d_Reserved d)) 0) (bd_allocs b1) (bd_allocs b2)" .
    from list_all2_trans [OF _ mv this, of "moved dr dc"] moved_trans [of 0 dc] True dr show ?thesis by fastforce
  next
    case False
    then show ?thesis using mv rel dr by (simp add: release_if_def)
  qed
  then have ch: "changes_by (moved dr dc) ?s1 (d_OperationID d0) b2"
    by (simp add: changes_by_def lockBudget_def LockAllocations_def)
  have hd: "holding d \<Longrightarrow> holding d0"
    using holding_states(3,4) [OF obs] by (cases "d_State d0 = DispatchObserved") auto
  from ledger_update [OF inv1 row' ev hd ch dr_def tb _ cg] sp evolves_fixed(2) [OF ev]
  have "ledger_inv (UpdateDispatch (budget_save s2 b2) d)" by simp
  then show ?thesis unfolding s' by (rule ledger_inv_tables) simp_all
qed


lemma ConfirmNotSentLocked_Inr:
  assumes tx: "ConfirmNotSentLocked (d_OperationID d0) dispatchID evidenceRef guard now s = Inr (r, s')"
    and row: "lookup_by d_ID dispatchID (db_dispatches s) = Some d0"
  obtains "s' = s"
    | ops d b charged rep where "Dispatch_ConfirmNotSent d0 evidenceRef charged rep = Inr d" "d_State d0 \<noteq> DispatchConfirmedNotSent"
        "budget_release (lockBudget s (d_OperationID d0)) (d_Reserved d) = Inr b"
        "s' = settled_rows ops d True now (UpdateDispatch (budget_save s b) d)"
proof (cases "d_State d0 = DispatchConfirmedNotSent")
  case True
  then show thesis using that(1) tx row
    by (auto simp: ConfirmNotSentLocked_def Let_def fallible LockDispatch_def)
next
  case False
  from tx row False obtain ops d where
    c: "Dispatch_ConfirmNotSent d0 evidenceRef \<lparr>m_Currency = m_Currency (d_Reserved d0), m_Amount = charged_amount s (d_ID d0)\<rparr>
          (HasReportedUsage s (d_ID d0)) = Inr d"
    and rest: "chk (if d_State d0 = DispatchAuthorized \<or> d_State d0 = DispatchUnknown \<or> d_State d0 = DispatchPrepared
             then chk (budget_release (lockBudget s (d_OperationID d0)) (d_Reserved d)) (\<lambda>b1. Inr (budget_save s b1)) else Inr s)
          (\<lambda>s1. chk (settleFinance ops d True now (UpdateDispatch s1 d)) (\<lambda>s2. Inr ((d, False), s2))) = Inr (r, s')"
    by (auto simp: ConfirmNotSentLocked_def Let_def LockDispatch_def chk_Inr_iff [of "LockOperation _ _"]
        chk_Inr_iff [of "Dispatch_ConfirmNotSent _ _ _ _"] chk_err_Inr_iff)
  from rest holding_states(5) [OF c False] obtain b where
    "budget_release (lockBudget s (d_OperationID d0)) (d_Reserved d) = Inr b"
    "s' = settled_rows ops d True now (UpdateDispatch (budget_save s b) d)"
    by (auto simp: fallible holding_def dest!: settleFinance_Inr)
  from that(2) [OF c False this] show thesis .
qed

lemma ConfirmNotSentLocked_ledger:
  assumes tx: "ConfirmNotSentLocked (d_OperationID d0) dispatchID evidenceRef guard now s = Inr (r, s')"
    and row: "lookup_by d_ID dispatchID (db_dispatches s) = Some d0" and inv: "ledger_inv s"
  shows "ledger_inv s'"
  using tx row
proof (cases rule: ConfirmNotSentLocked_Inr)
  case 1
  then show ?thesis using inv by simp
next
  case (2 ops d b charged rep)
  note ev = evolves_steps(4) [OF 2(1)] and hold = holding_states(5) [OF 2(1,2)]
  have "ledger_inv (UpdateDispatch (budget_save s b) d)"
    using ledger_release [OF inv _ ev, of b] row hold 2(3) evolves_fixed(1,4) [OF ev] lookup_by_SomeD [OF row] by simp
  then show ?thesis unfolding 2(4) by (rule ledger_inv_tables) simp_all
qed

text \<open>The confirmation is of the dispatch's own operation.\<close>

lemma ConfirmNotSent_Inr:
  assumes "ConfirmNotSent verify cmd owner dispatchID evidenceRef evidenceDigest now s = Inr (r, s')"
  obtains "s' = s" | d0 where "lookup_by d_ID dispatchID (db_dispatches s) = Some d0"
    "ConfirmNotSentLocked (d_OperationID d0) dispatchID evidenceRef (\<lambda>_. None) now s = Inr (r, s')"
proof -
  from assms obtain d0 where row: "lookup_by d_ID dispatchID (db_dispatches s) = Some d0"
    by (auto simp: ConfirmNotSent_def LockDispatch_def fallible)
  with assms consider "s' = s"
    | "ConfirmNotSentLocked (d_OperationID d0) dispatchID evidenceRef (\<lambda>_. None) now s = Inr (r, s')"
    by (auto simp: ConfirmNotSent_def LockDispatch_def chk_err_Inr_iff split: if_splits)
  then show thesis using that row by cases blast+
qed

lemma ConfirmNotSent_ledger:
  assumes "ConfirmNotSent verify cmd owner dispatchID evidenceRef evidenceDigest now s = Inr (r, s')" and inv: "ledger_inv s"
  shows "ledger_inv s'"
  using assms(1)
proof (cases rule: ConfirmNotSent_Inr)
  case 1
  then show ?thesis using inv by simp
next
  case (2 d0)
  then show ?thesis using ConfirmNotSentLocked_ledger inv by blast
qed

lemma markInventoryUncertain_ledger:
  assumes "markInventoryUncertain dispatchID s = Inr s'" and "ledger_inv s"
  shows "ledger_inv s'"
proof -
  from assms(1) obtain d0 where row: "lookup_by d_ID dispatchID (db_dispatches s) = Some d0"
    and s': "s' = s \<or> s' = UpdateDispatch s (d0\<lparr>d_Inventory := InventoryUncertain\<rparr>)"
    by (auto simp: markInventoryUncertain_def LockDispatch_def fallible split: if_splits)
  have "ledger_inv (UpdateDispatch s (d0\<lparr>d_Inventory := InventoryUncertain\<rparr>))"
    using row lookup_by_SomeD [OF row]
    by (intro ledger_update_still [OF assms(2), of _ d0] evolves_steps(5)) (simp_all add: holding_def)
  with s' assms(2) show ?thesis by blast
qed


text \<open>The denials of a close are taken from one budget, saved once at the end.\<close>

lemma lookup_UpdateDispatch_other:
  assumes "distinct (map d_ID (db_dispatches s))" and "lookup_by d_ID (d_ID d) (db_dispatches s) = Some d0" and "evolves d0 d"
    and "i \<noteq> d_ID d"
  shows "lookup_by d_ID i (db_dispatches (UpdateDispatch s d)) = lookup_by d_ID i (db_dispatches s)"
  unfolding UpdateDispatch_rows [OF assms(1-3)] using assms(4) by (simp add: lookup_update_by)

lemma deny_each_effect:
  assumes "deny_each ds b s = Inr (b', s')" and "dispatch_inv s" and "wf_allocs b" and "distinct (map d_ID ds)"
    and "\<And>d. d \<in> set ds \<Longrightarrow> lookup_by d_ID (d_ID d) (db_dispatches s) = Some d \<and> d_OperationID d = operationID"
  shows "list_all2 (moved (held s' operationID - held s operationID) 0) (bd_allocs b) (bd_allocs b') \<and> dispatch_inv s' \<and>
    (\<forall>i. i \<noteq> operationID \<longrightarrow> held s' i = held s i) \<and>
    db_allocations s' = db_allocations s \<and> db_attempts s' = db_attempts s \<and> db_entries s' = db_entries s"
  using assms
proof (induction ds arbitrary: b s)
  case Nil
  then show ?case using moved_refl by (auto simp: wf_allocs_def list_all2_same)
next
  case (Cons d ds)
  from Cons.prems(1) obtain d' b1 where
    d': "Dispatch_Deny d ''ATTEMPT_CLOSED'' = Inr d'" and b1: "budget_release b (d_Reserved d') = Inr b1"
    and rest: "deny_each ds b1 (UpdateDispatch s d') = Inr (b', s')"
    by (auto simp: fallible)
  note ev = evolves_steps(2) [OF d'] and hold = holding_states(2) [OF d']
  note fx = evolves_fixed [OF ev]
  have dist: "distinct (map d_ID (db_dispatches s))" using Cons.prems(2) by (simp add: dispatch_inv_def)
  have row: "lookup_by d_ID (d_ID d') (db_dispatches s) = Some d" "d_OperationID d = operationID"
    using Cons.prems(5) [of d] fx(1) by simp_all
  have wf1: "list_all2 (moved (- m_Amount (d_Reserved d)) 0) (bd_allocs b) (bd_allocs b1)"
    using budget_release_moves [OF b1 Cons.prems(3)] fx(4) by simp
  have inv1: "dispatch_inv (UpdateDispatch s d')"
    using dispatch_inv_UpdateDispatch [OF Cons.prems(2) row(1) ev] hold by simp
  have h1: "held (UpdateDispatch s d') i = held s i - (if i = operationID then m_Amount (d_Reserved d) else 0)" for i
    using held_UpdateDispatch [OF dist row(1) ev] hold row(2) by (simp add: hold_of_def)
  have rows: "lookup_by d_ID (d_ID x) (db_dispatches (UpdateDispatch s d')) = Some x \<and> d_OperationID x = operationID"
    if x: "x \<in> set ds" for x
  proof -
    have "d_ID x \<in> d_ID ` set ds" using x by (rule imageI)
    then have "d_ID x \<noteq> d_ID d'" using Cons.prems(4) fx(1) by (metis distinct.simps(2) list.simps(9) set_map)
    then show ?thesis using x Cons.prems(5) lookup_UpdateDispatch_other [OF dist row(1) ev] by simp
  qed
  from Cons.IH [OF rest inv1 moved_wf [OF wf1] _ rows] Cons.prems(4)
  have ih: "list_all2 (moved (held s' operationID - held (UpdateDispatch s d') operationID) 0) (bd_allocs b1) (bd_allocs b')"
    "dispatch_inv s'" "\<forall>i. i \<noteq> operationID \<longrightarrow> held s' i = held (UpdateDispatch s d') i"
    "db_allocations s' = db_allocations s" "db_attempts s' = db_attempts s" "db_entries s' = db_entries s"
    by simp_all
  have "list_all2 (moved (held s' operationID - held s operationID) 0) (bd_allocs b) (bd_allocs b')"
    by (rule list_all2_trans [OF _ wf1 ih(1)]) (use moved_trans h1 in fastforce)
  then show ?case using ih(2-) h1 by simp
qed

lemma deny_prepared_ledger:
  assumes tx: "deny_prepared (at_OperationID at) attemptID s = Inr s'"
    and at: "lookup_by at_ID attemptID (db_attempts s) = Some at" and inv: "ledger_inv s"
  shows "ledger_inv s'"
proof (cases "length (ListPreparedDispatchesByAttempt s attemptID) > 0")
  case False
  then show ?thesis using tx inv by (simp add: deny_prepared_def)
next
  case True
  let ?ds = "ListPreparedDispatchesByAttempt s attemptID"
  have I: "alloc_inv s" "dispatch_inv s" "charges_inv s" "distinct (map d_ID (db_dispatches s))"
    using inv by (simp_all add: ledger_inv_def dispatch_inv_def)
  from tx True obtain b s1 where each: "deny_each ?ds (lockBudget s (at_OperationID at)) s = Inr (b, s1)"
    and s': "s' = budget_save s1 b"
    by (auto simp: deny_prepared_def Let_def fallible)
  have rows: "lookup_by d_ID (d_ID d) (db_dispatches s) = Some d \<and> d_OperationID d = at_OperationID at" if "d \<in> set ?ds" for d
    using that I(2) at lookup_by_mem [OF I(4), of d]
    by (fastforce simp: ListPreparedDispatchesByAttempt_def dispatch_inv_def)
  have dist: "distinct (map d_ID ?ds)"
    using I(4) by (simp add: ListPreparedDispatchesByAttempt_def distinct_map inj_on_def distinct_filter)
  from deny_each_effect [OF each I(2) alloc_inv_wf [OF I(1)] dist rows]
  have E: "list_all2 (moved (held s1 (at_OperationID at) - held s (at_OperationID at)) 0)
      (bd_allocs (lockBudget s (at_OperationID at))) (bd_allocs b)" "dispatch_inv s1"
    "\<And>i. i \<noteq> at_OperationID at \<Longrightarrow> held s1 i = held s i"
    "db_allocations s1 = db_allocations s" "db_attempts s1 = db_attempts s" "db_entries s1 = db_entries s"
    by simp_all
  have "held (budget_save s1 b) i = held s1 i" for i by (simp add: held_def)
  then have "alloc_inv s'"
    by (intro alloc_inv_move [OF I(1) changes_by_moves [OF E(1)]])
      (use E in \<open>simp_all add: s' budget_save_allocations spent_def\<close>)
  moreover have "dispatch_inv s'" using E(2) by (simp add: s' dispatch_inv_def)
  ultimately show ?thesis using charges_inv_tables [OF I(3), of s'] E by (simp add: ledger_inv_def s')
qed

end
