(* ===== verification/Finance_Service.thy ===== *)
theory Finance_Service
  imports Ledger
begin

text \<open>
  The money side of the application layer: \<open>Allocate\<close> of \<open>application/dispatch.go\<close>, the operator
  commands and the financial settlement of \<open>application/finance.go\<close> and the price book of
  \<open>application/prices.go\<close>, with the queries they issue. Fresh identifiers and the clock are
  arguments.
\<close>

section \<open>Queries\<close>

text \<open>An empty tenant or actor of a pool is stored as \<open>NULL\<close>, which equals nothing.\<close>

definition pool_current :: "string \<Rightarrow> string \<Rightarrow> string \<Rightarrow> instant \<Rightarrow> budget_pool \<Rightarrow> bool" where
  "pool_current currency tenantID actorID now p \<longleftrightarrow>
     bp_Currency p = currency \<and> bp_PeriodStart p \<le> now \<and> bp_PeriodEnd p > now \<and>
     ((bp_Level p = LevelPlatform \<and> bp_TenantID p = [] \<and> bp_ActorID p = []) \<or>
      (bp_Level p = LevelTenant \<and> bp_TenantID p \<noteq> [] \<and> bp_TenantID p = tenantID \<and> bp_ActorID p = []) \<or>
      (bp_Level p = LevelActor \<and> bp_TenantID p \<noteq> [] \<and> bp_TenantID p = tenantID \<and> bp_ActorID p \<noteq> [] \<and> bp_ActorID p = actorID))"

definition ListCurrentPools :: "db \<Rightarrow> string \<Rightarrow> string \<Rightarrow> string \<Rightarrow> instant \<Rightarrow> budget_pool list" where
  "ListCurrentPools s currency tenantID actorID now =
     sort_key bp_ID (filter (pool_current currency tenantID actorID now) (db_pools s))"

definition LockPool :: "db \<Rightarrow> string \<Rightarrow> err + budget_pool" where
  "LockPool s poolID = found (lookup_by bp_ID poolID (db_pools s))"

definition pool_columns :: "budget_pool \<Rightarrow> budget_pool \<Rightarrow> budget_pool" where
  "pool_columns p x = x\<lparr>bp_Allocated := bp_Allocated p, bp_Revision := bp_Revision p\<rparr>"

definition UpdatePool :: "db \<Rightarrow> budget_pool \<Rightarrow> db" where
  "UpdatePool s p = s\<lparr>db_pools := map (\<lambda>x. if bp_ID x = bp_ID p then pool_columns p x else x) (db_pools s)\<rparr>"

definition GetAllocationByPool :: "db \<Rightarrow> string \<Rightarrow> string \<Rightarrow> allocation option" where
  "GetAllocationByPool s poolID operationID =
     lookup_by (\<lambda>a. (al_PoolID a, al_OperationID a)) (poolID, operationID) (db_allocations s)"

definition InsertAllocation :: "db \<Rightarrow> allocation \<Rightarrow> err + db" where
  "InsertAllocation s a =
     (if list_ex (\<lambda>x. al_ID x = al_ID a \<or> (al_PoolID x = al_PoolID a \<and> al_OperationID x = al_OperationID a)) (db_allocations s)
      then Inl ErrStore else Inr (s\<lparr>db_allocations := db_allocations s @ [a]\<rparr>))"

definition HasAllocationReturn :: "db \<Rightarrow> string \<Rightarrow> bool" where
  "HasAllocationReturn s allocationID \<longleftrightarrow> lookup_by ar_AllocationID allocationID (db_returns s) \<noteq> None"

definition InsertAllocationReturn :: "db \<Rightarrow> allocation \<Rightarrow> int \<Rightarrow> instant \<Rightarrow> err + db" where
  "InsertAllocationReturn s a amount at =
     (if HasAllocationReturn s (al_ID a) then Inl ErrDuplicateKey
      else Inr (s\<lparr>db_returns := db_returns s @
        [\<lparr>ar_AllocationID = al_ID a, ar_PoolID = al_PoolID a, ar_OperationID = al_OperationID a,
          ar_Currency = al_Currency a, ar_Amount = amount, ar_ReturnedAt = at\<rparr>]\<rparr>))"

section \<open>Allocation\<close>

text \<open>The loops that group the current pools by level and refuse a level with two pools or with none.\<close>

fun pools_by_level :: "(budget_level \<rightharpoonup> budget_pool) \<Rightarrow> budget_pool list \<Rightarrow> err + (budget_level \<rightharpoonup> budget_pool)" where
  "pools_by_level m [] = Inr m"
| "pools_by_level m (p # ps) =
     (if m (bp_Level p) \<noteq> None then Inl ErrInvalid else pools_by_level (m(bp_Level p \<mapsto> p)) ps)"

fun lock_pools :: "db \<Rightarrow> budget_pool list \<Rightarrow> err + budget_pool list" where
  "lock_pools s [] = Inr []"
| "lock_pools s (p # ps) = chk (LockPool s (bp_ID p)) (\<lambda>lp. chk (lock_pools s ps) (\<lambda>lps. Inr (lp # lps)))"

text \<open>The loop over the locked pools: the pools, the allocations answered and those to insert.
  \<open>new_id n\<close> is the identity of the \<open>n\<close>-th fresh allocation.\<close>

fun allocate_each ::
  "(nat \<Rightarrow> string) \<Rightarrow> string \<Rightarrow> money \<Rightarrow> instant \<Rightarrow> db \<Rightarrow> nat \<Rightarrow> budget_pool list \<Rightarrow>
   err + (budget_pool list \<times> allocation list \<times> allocation list)" where
  "allocate_each new_id operationID amount now s n [] = Inr ([], [], [])"
| "allocate_each new_id operationID amount now s n (p # ps) =
     (case GetAllocationByPool s (bp_ID p) operationID of
        Some a \<Rightarrow>
          chk (allocate_each new_id operationID amount now s n ps) (\<lambda>(qs, as, fresh). Inr (p # qs, a # as, fresh))
      | None \<Rightarrow>
          chk (Pool_Allocate p amount now) (\<lambda>p'.
          let a = NewAllocation (new_id n) p' operationID amount now
          in chk (allocate_each new_id operationID amount now s (Suc n) ps) (\<lambda>(qs, as, fresh).
               Inr (p' # qs, a # as, a # fresh))))"

fun insert_each :: "db \<Rightarrow> allocation list \<Rightarrow> err + db" where
  "insert_each s [] = Inr s"
| "insert_each s (a # as) = chk (InsertAllocation s a) (\<lambda>s1. insert_each s1 as)"

definition Allocate ::
  "(nat \<Rightarrow> string) \<Rightarrow> instant \<Rightarrow> scope \<Rightarrow> string \<Rightarrow> money \<Rightarrow> db \<Rightarrow> err + ((allocation list \<times> bool) \<times> db)" where
  "Allocate new_id now sc operationID amount s =
     (let pools = ListCurrentPools s (m_Currency amount) (sc_TenantID sc) (sc_ActorID sc) now
      in chk (pools_by_level Map.empty pools) (\<lambda>byLevel.
         if list_ex (\<lambda>l. byLevel l = None) BudgetLevels then Inl ErrBudgetExhausted
         else chk (lock_pools s pools) (\<lambda>locked.
         chk (LockOperation s operationID) (\<lambda>ops.
         if op_TenantID ops \<noteq> sc_TenantID sc then Inl ErrNotFound
         else if FencedForNewDispatch ops then Inl ErrStaleExecution
         else chk (allocate_each new_id (op_ID ops) amount now s 0 locked) (\<lambda>(qs, allocs, fresh).
         case fresh of
           [] \<Rightarrow> Inr ((allocs, True), s)
         | a0 # _ \<Rightarrow>
             chk (insert_each (foldl UpdatePool s qs) fresh) (\<lambda>s1.
             let (o1, ev) = Transition ops (''allocation:'' @ al_ID a0) now (finance_moved FinanceFunded)
             in chk (InsertEvent (UpdateOperation s1 o1) ev) (\<lambda>s2. Inr ((allocs, False), s2))))))))"

section \<open>Settlement\<close>

text \<open>The pools of the operation's allocations, locked in the order of their identities.\<close>

fun lock_pool_map :: "db \<Rightarrow> string list \<Rightarrow> (string \<rightharpoonup> budget_pool) \<Rightarrow> err + (string \<rightharpoonup> budget_pool)" where
  "lock_pool_map s [] m = Inr m"
| "lock_pool_map s (i # is) m = chk (LockPool s i) (\<lambda>p. lock_pool_map s is (m(i \<mapsto> p)))"

fun return_each :: "allocation list \<Rightarrow> (string \<rightharpoonup> budget_pool) \<Rightarrow> instant \<Rightarrow> db \<Rightarrow> err + db" where
  "return_each [] pools now s = Inr s"
| "return_each (a # as) pools now s =
     (if HasAllocationReturn s (al_ID a) then return_each as pools now s
      else chk (ReturnUnspent a) (\<lambda>unspent.
        case pools (al_PoolID a) of
          None \<Rightarrow> Inl ErrIntegrity
        | Some p \<Rightarrow>
            chk (Pool_Return p unspent) (\<lambda>p'.
            chk (InsertAllocationReturn (UpdatePool s p') a unspent now) (\<lambda>s1.
              return_each as (pools(al_PoolID a \<mapsto> p')) now s1))))"

definition SettleFinance :: "instant \<Rightarrow> string \<Rightarrow> db \<Rightarrow> err + ((operation \<times> bool) \<times> db)" where
  "SettleFinance now operationID s =
     chk (found (lookup_by op_ID operationID (db_operations s))) (\<lambda>peek.
     if \<not> financeSettleable peek then Inr ((peek, False), s)
     else chk (lock_pool_map s (sort (map al_PoolID (LockAllocations s operationID))) Map.empty) (\<lambda>pools.
     let locked = LockAllocations s operationID
     in chk (LockOperation s operationID) (\<lambda>ops.
        if \<not> financeSettleable ops then Inr ((ops, False), s)
        else if HasUnsettledDispatch s operationID then Inr ((ops, False), s)
        else if list_ex (\<lambda>a. al_Reserved a \<noteq> 0) locked then Inr ((ops, False), s)
        else chk (return_each locked pools now s) (\<lambda>s1.
             let (o1, ev) = Transition ops ''finance:settled'' now (finance_moved FinanceSettled)
             in chk (InsertEvent (UpdateOperation s1 o1) ev) (\<lambda>s2. Inr ((o1, True), s2))))))"

text \<open>The sweep: \<open>ListFinanceUnsettled\<close> orders by the last update and takes at most \<open>lim\<close>. An operation
  whose settlement fails is left for the next sweep.\<close>

definition ListFinanceUnsettled :: "db \<Rightarrow> nat \<Rightarrow> string list" where
  "ListFinanceUnsettled s lim =
     map op_ID (take lim (sort_key op_UpdatedAt (filter financeSettleable (db_operations s))))"

fun settle_each :: "instant \<Rightarrow> string list \<Rightarrow> db \<Rightarrow> nat \<times> db" where
  "settle_each now [] s = (0, s)"
| "settle_each now (i # is) s =
     (case SettleFinance now i s of
        Inl _ \<Rightarrow> settle_each now is s
      | Inr ((_, done), s1) \<Rightarrow> (let (n, s2) = settle_each now is s1 in (if done then Suc n else n, s2)))"

definition ReconcileFinance :: "instant \<Rightarrow> nat \<Rightarrow> db \<Rightarrow> nat \<times> db" where
  "ReconcileFinance now lim s = settle_each now (ListFinanceUnsettled s lim) s"

end
