(* ===== verification/Pools.thy ===== *)
theory Pools
  imports Finance_Service
begin

text \<open>
  The balance of the shared pools: what a pool has given out is the sum of the allocations taken
  from it less what settled operations returned, whatever allocations and settlements ran.
\<close>

section \<open>Saving pools\<close>

lemma pool_columns_fixed [simp]:
  "bp_ID (pool_columns q x) = bp_ID x" "bp_Allocated (pool_columns q x) = bp_Allocated q" "bp_Cap (pool_columns q x) = bp_Cap x"
  by (simp_all add: pool_columns_def)

definition save_pool :: "budget_pool list \<Rightarrow> budget_pool \<Rightarrow> budget_pool" where
  "save_pool qs x = foldl (\<lambda>x q. if bp_ID x = bp_ID q then pool_columns q x else x) x qs"

lemma foldl_UpdatePool: "foldl UpdatePool s qs = s\<lparr>db_pools := map (save_pool qs) (db_pools s)\<rparr>"
proof (induction qs arbitrary: s)
  case Nil
  then show ?case by (simp add: save_pool_def)
next
  case (Cons q qs)
  then show ?case by (simp add: UpdatePool_def save_pool_def comp_def)
qed

lemma save_pool_fixed [simp]: "bp_ID (save_pool qs x) = bp_ID x" "bp_Cap (save_pool qs x) = bp_Cap x"
  unfolding save_pool_def by (induction qs arbitrary: x) simp_all

lemma save_pool_absent: "bp_ID x \<notin> bp_ID ` set qs \<Longrightarrow> save_pool qs x = x"
  unfolding save_pool_def by (induction qs arbitrary: x) auto

lemma save_pool_present:
  "distinct (map bp_ID qs) \<Longrightarrow> q \<in> set qs \<Longrightarrow> bp_ID q = bp_ID x \<Longrightarrow> bp_Allocated (save_pool qs x) = bp_Allocated q"
proof (induction qs arbitrary: x)
  case Nil
  then show ?case by simp
next
  case (Cons c qs)
  show ?case
  proof (cases "q = c")
    case True
    with Cons.prems have "bp_ID (pool_columns c x) \<notin> bp_ID ` set qs" by auto
    from save_pool_absent [OF this] True Cons.prems(3) show ?thesis by (simp add: save_pool_def)
  next
    case False
    with Cons.prems have "q \<in> set qs" by simp
    then have "bp_ID q \<in> bp_ID ` set qs" by (rule imageI)
    then have "bp_ID x \<noteq> bp_ID c" using Cons.prems by auto
    then show ?thesis using Cons False by (simp add: save_pool_def)
  qed
qed

section \<open>The balance\<close>

definition given_out :: "db \<Rightarrow> string \<Rightarrow> int" where
  "given_out s poolID = sum_list (map (\<lambda>a. if al_PoolID a = poolID then al_Amount a else 0) (db_allocations s))"

definition taken_back :: "db \<Rightarrow> string \<Rightarrow> int" where
  "taken_back s poolID = sum_list (map (\<lambda>r. if ar_PoolID r = poolID then ar_Amount r else 0) (db_returns s))"

definition returns_ok :: "db \<Rightarrow> bool" where
  "returns_ok s \<longleftrightarrow> distinct (map ar_AllocationID (db_returns s)) \<and>
     (\<forall>r \<in> set (db_returns s). \<exists>a \<in> set (db_allocations s).
        al_ID a = ar_AllocationID r \<and> al_PoolID a = ar_PoolID r \<and> 0 \<le> ar_Amount r \<and> ar_Amount r \<le> al_Amount a)"

definition pool_inv :: "db \<Rightarrow> bool" where
  "pool_inv s \<longleftrightarrow> distinct (map bp_ID (db_pools s)) \<and> distinct (map al_ID (db_allocations s)) \<and> returns_ok s \<and>
     (\<forall>a \<in> set (db_allocations s). 0 \<le> al_Amount a \<and> al_PoolID a \<in> bp_ID ` set (db_pools s)) \<and>
     (\<forall>p \<in> set (db_pools s). wf_pool p \<and> bp_Allocated p = given_out s (bp_ID p) - taken_back s (bp_ID p))"

text \<open>What the balance depends on: transactions that keep these columns keep it.\<close>

definition books :: "db \<Rightarrow> budget_pool list \<times> allocation_return list \<times> (string \<times> string \<times> int) list" where
  "books s = (db_pools s, db_returns s, map (\<lambda>a. (al_ID a, al_PoolID a, al_Amount a)) (db_allocations s))"

lemma pool_inv_books:
  assumes "books s' = books s" and "pool_inv s"
  shows "pool_inv s'"
proof -
  let ?k = "\<lambda>a. (al_ID a, al_PoolID a, al_Amount a)"
  have T: "db_pools s' = db_pools s" "db_returns s' = db_returns s"
    "map ?k (db_allocations s') = map ?k (db_allocations s)"
    using assms(1) by (simp_all add: books_def)
  have ids: "map al_ID (db_allocations s') = map al_ID (db_allocations s)"
    using arg_cong [OF T(3), of "map fst"] by (simp add: comp_def)
  have am: "map (\<lambda>a. if al_PoolID a = i then al_Amount a else 0) (db_allocations s') =
      map (\<lambda>a. if al_PoolID a = i then al_Amount a else 0) (db_allocations s)" for i
    using arg_cong [OF T(3), of "map (\<lambda>(_, p, m). if p = i then m else 0)"] by (simp add: comp_def)
  have sets: "?k ` set (db_allocations s') = ?k ` set (db_allocations s)"    using arg_cong [OF T(3), of set] unfolding set_map .
  have all: "P (al_ID a) (al_PoolID a) (al_Amount a)"
    if "a \<in> set (db_allocations s')" and "\<forall>b \<in> set (db_allocations s). P (al_ID b) (al_PoolID b) (al_Amount b)" for P a
  proof -
    have "?k a \<in> ?k ` set (db_allocations s)" unfolding sets [symmetric] using that(1) by (rule imageI)
    then obtain b where b: "b \<in> set (db_allocations s)" "?k a = ?k b" by (rule imageE)
    from that(2) b(1) have "P (al_ID b) (al_PoolID b) (al_Amount b)" by (rule bspec)
    then show ?thesis using b(2) by simp
  qed
  have some: "\<exists>a \<in> set (db_allocations s'). P (al_ID a) (al_PoolID a) (al_Amount a)"
    if "\<exists>b \<in> set (db_allocations s). P (al_ID b) (al_PoolID b) (al_Amount b)" for P
  proof -
    from that obtain b where b: "b \<in> set (db_allocations s)" "P (al_ID b) (al_PoolID b) (al_Amount b)" by blast
    have "?k b \<in> ?k ` set (db_allocations s')" unfolding sets using b(1) by (rule imageI)
    then obtain a where a: "a \<in> set (db_allocations s')" "?k b = ?k a" by (rule imageE)
    then have "P (al_ID a) (al_PoolID a) (al_Amount a)" using b(2) by simp
    then show ?thesis using a(1) by (rule bexI)
  qed
  have "returns_ok s'"
    unfolding returns_ok_def T(2)
  proof (intro conjI ballI)
    show "distinct (map ar_AllocationID (db_returns s))" using assms(2) by (simp add: pool_inv_def returns_ok_def)
    fix r assume "r \<in> set (db_returns s)"
    then show "\<exists>a \<in> set (db_allocations s'). al_ID a = ar_AllocationID r \<and> al_PoolID a = ar_PoolID r \<and> 0 \<le> ar_Amount r \<and> ar_Amount r \<le> al_Amount a"
      using assms(2) by (intro some [of "\<lambda>i p m. i = ar_AllocationID r \<and> p = ar_PoolID r \<and> 0 \<le> ar_Amount r \<and> ar_Amount r \<le> m"])
        (simp add: pool_inv_def returns_ok_def)
  qed
  moreover have "\<forall>a \<in> set (db_allocations s'). 0 \<le> al_Amount a \<and> al_PoolID a \<in> bp_ID ` set (db_pools s)"
    using all [of _ "\<lambda>_ p m. 0 \<le> m \<and> p \<in> bp_ID ` set (db_pools s)"] assms(2) by (simp add: pool_inv_def)
  ultimately show ?thesis
    using assms(2) by (simp add: pool_inv_def ids T am given_out_def taken_back_def)
qed

section \<open>Allocation keeps the balance\<close>

definition part_of :: "allocation list \<Rightarrow> string \<Rightarrow> int" where
  "part_of as poolID = sum_list (map (\<lambda>a. if al_PoolID a = poolID then al_Amount a else 0) as)"

lemma part_of_Cons [simp]: "part_of (a # as) i = (if al_PoolID a = i then al_Amount a else 0) + part_of as i"
  by (simp add: part_of_def)

lemma part_of_Nil [simp]: "part_of [] i = 0"
  by (simp add: part_of_def)

lemma part_of_absent: "i \<notin> al_PoolID ` set as \<Longrightarrow> part_of as i = 0"
  by (induction as) auto

definition grown :: "allocation list \<Rightarrow> budget_pool \<Rightarrow> budget_pool \<Rightarrow> bool" where
  "grown fresh p q \<longleftrightarrow> bp_ID q = bp_ID p \<and> bp_Allocated q = bp_Allocated p + part_of fresh (bp_ID p) \<and>
     int64 (bp_Allocated p + part_of fresh (bp_ID p)) \<and> 0 \<le> bp_Allocated p + part_of fresh (bp_ID p)"

lemma grown_ids: "list_all2 (grown fresh) ps qs \<Longrightarrow> map bp_ID qs = map bp_ID ps"
  by (induction rule: list_all2_induct) (simp_all add: grown_def)

lemma allocate_each_effect:
  assumes "allocate_each new_id operationID amount now s n ps = Inr (qs, as, fresh)" and "wf_money amount"
    and "distinct (map bp_ID ps)" and "\<forall>p \<in> set ps. wf_pool p"
  shows "list_all2 (grown fresh) ps qs \<and> al_PoolID ` set fresh \<subseteq> bp_ID ` set ps \<and>
    (\<forall>a \<in> set fresh. al_OperationID a = operationID \<and> al_Amount a = m_Amount amount \<and> 0 < m_Amount amount \<and>
       al_Reserved a = 0 \<and> al_Consumed a = 0 \<and> wf_alloc a)"
  using assms(1,3,4)
proof (induction ps arbitrary: n qs as fresh)
  case Nil
  then show ?case by simp
next
  case (Cons p ps)
  have wp: "wf_pool p" "\<forall>p \<in> set ps. wf_pool p" "distinct (map bp_ID ps)" "bp_ID p \<notin> bp_ID ` set ps" using Cons.prems by simp_all
  show ?case
  proof (cases "GetAllocationByPool s (bp_ID p) operationID")
    case (Some a)
    with Cons.prems(1) obtain qs1 as1 where rest: "allocate_each new_id operationID amount now s n ps = Inr (qs1, as1, fresh)"
      and q: "qs = p # qs1" by (auto simp: chk_Inr_iff)
    note ih = Cons.IH [OF rest wp(3,2)]
    have "part_of fresh (bp_ID p) = 0" using ih wp(4) by (intro part_of_absent) blast
    then have "grown fresh p p" using wp(1) by (simp add: grown_def wf_pool_def)
    then show ?thesis using ih by (auto simp: q)
  next
    case None
    with Cons.prems(1) obtain p' qs1 as1 fresh1 where p': "Pool_Allocate p amount now = Inr p'"
      and rest: "allocate_each new_id operationID amount now s (Suc n) ps = Inr (qs1, as1, fresh1)"
      and q: "qs = p' # qs1" and f: "fresh = NewAllocation (new_id n) p' operationID amount now # fresh1"
      by (auto simp: chk_Inr_iff Let_def)
    note ih = Cons.IH [OF rest wp(3,2)]
    from p' Pool_Allocate_iff [OF wp(1) assms(2)] have P: "bp_ID p' = bp_ID p" "0 < m_Amount amount"
      "bp_Allocated p' = bp_Allocated p + m_Amount amount" "int64 (bp_Allocated p')" "0 \<le> bp_Allocated p'"
      using assms(2) wp(1) by (auto simp: budget_wf int64_defs)
    have z: "part_of fresh1 (bp_ID p) = 0" using ih wp(4) by (intro part_of_absent) blast
    define a where "a = NewAllocation (new_id n) p' operationID amount now"
    have a: "al_PoolID a = bp_ID p" "al_OperationID a = operationID" "al_Amount a = m_Amount amount" "al_Reserved a = 0"
        "al_Consumed a = 0" "wf_alloc a"
      using assms(2) P(1,2) by (simp_all add: a_def NewAllocation_def budget_wf int64_defs)
    have "grown fresh p p'" using P(1,3) P(4,5) [unfolded P(3)] z a by (simp add: grown_def f a_def [symmetric])
    moreover have "list_all2 (grown fresh) ps qs1"
    proof (rule list.rel_mono_strong [OF conjunct1 [OF ih]])
      fix x y assume x: "x \<in> set ps" "grown fresh1 x y"
      then have "bp_ID x \<noteq> bp_ID p" using wp(4) by (metis imageI)
      then have "part_of fresh (bp_ID x) = part_of fresh1 (bp_ID x)" using a(1) by (simp add: f a_def [symmetric])
      then show "grown fresh x y" using x(2) unfolding grown_def by metis
    qed
    ultimately show ?thesis using ih a P(2) by (simp add: q f a_def [symmetric] subset_insertI2)
  qed
qed


lemma list_all2_target: "list_all2 R xs ys \<Longrightarrow> x \<in> set xs \<Longrightarrow> \<exists>y \<in> set ys. R x y"
  by (induction xs ys rule: list_all2_induct) auto

lemma insert_each_Inr:
  assumes "insert_each s as = Inr s'"
  shows "s' = s\<lparr>db_allocations := db_allocations s @ as\<rparr> \<and>
    (distinct (map al_ID (db_allocations s)) \<longrightarrow> distinct (map al_ID (db_allocations s @ as)))"
  using assms
proof (induction as arbitrary: s)
  case Nil
  then show ?case by simp
next
  case (Cons a as)
  from Cons.prems have new: "al_ID a \<notin> al_ID ` set (db_allocations s)"
    and rest: "insert_each (s\<lparr>db_allocations := db_allocations s @ [a]\<rparr>) as = Inr s'"
    by (auto simp: chk_Inr_iff InsertAllocation_def list_ex_iff split: if_splits)
  from Cons.IH [OF rest] new show ?case by simp
qed

lemma lock_pools_same:
  "distinct (map bp_ID (db_pools s)) \<Longrightarrow> set ps \<subseteq> set (db_pools s) \<Longrightarrow> lock_pools s ps = Inr ps"
proof (induction ps)
  case Nil
  then show ?case by simp
next
  case (Cons p ps)
  then have "LockPool s (bp_ID p) = Inr p" by (simp add: LockPool_def lookup_by_mem)
  with Cons show ?case by simp
qed

lemma save_pool_grown:
  assumes g: "list_all2 (grown fresh) ps qs" and d: "distinct (map bp_ID pools)" and sub: "set ps \<subseteq> set pools"
    and dp: "distinct (map bp_ID ps)" and fr: "al_PoolID ` set fresh \<subseteq> bp_ID ` set ps" and x: "x \<in> set pools" and wf: "wf_pool x"
  shows "bp_Allocated (save_pool qs x) = bp_Allocated x + part_of fresh (bp_ID x) \<and> wf_pool (save_pool qs x)"
proof (cases "x \<in> set ps")
  case True
  then obtain q where q: "q \<in> set qs" "grown fresh x q" using list_all2_target [OF g] by blast
  have "distinct (map bp_ID qs)" using dp grown_ids [OF g] by simp
  from save_pool_present [OF this q(1)] q(2) have "bp_Allocated (save_pool qs x) = bp_Allocated q" by (simp add: grown_def)
  then show ?thesis using q(2) wf unfolding grown_def wf_pool_def by simp
next
  case False
  then have "bp_ID x \<notin> bp_ID ` set ps" using d sub x by (auto simp: distinct_map inj_on_def)
  moreover have "bp_ID ` set qs = bp_ID ` set ps" using grown_ids [OF g] by (metis set_map)
  ultimately have "bp_ID x \<notin> bp_ID ` set qs" "bp_ID x \<notin> al_PoolID ` set fresh" using fr by auto
  then show ?thesis using save_pool_absent part_of_absent wf by simp
qed

lemma Allocate_Inr:
  assumes "Allocate new_id now sc operationID amount s = Inr ((as, ex), s')" and "\<not> ex" and "distinct (map bp_ID (db_pools s))"
  obtains ops qs fresh o1 ev s1 where
    "lookup_by op_ID operationID (db_operations s) = Some ops"
    "allocate_each new_id operationID amount now s 0 (ListCurrentPools s (m_Currency amount) (sc_TenantID sc) (sc_ActorID sc) now) =
       Inr (qs, as, fresh)"
    "insert_each (foldl UpdatePool s qs) fresh = Inr s1" "s' = append_event (UpdateOperation s1 o1) ev"
    "Transition ops (''allocation:'' @ al_ID (hd fresh)) now (finance_moved FinanceFunded) = (o1, ev)" "fresh \<noteq> []"
proof -
  let ?pools = "ListCurrentPools s (m_Currency amount) (sc_TenantID sc) (sc_ActorID sc) now"
  have lock: "lock_pools s ?pools = Inr ?pools"
    using lock_pools_same [OF assms(3)] by (simp add: ListCurrentPools_def)
  from assms(1) obtain ops qs as1 fresh where
    op: "lookup_by op_ID operationID (db_operations s) = Some ops"
    and each: "allocate_each new_id (op_ID ops) amount now s 0 ?pools = Inr (qs, as1, fresh)"
    and rest: "(case fresh of [] \<Rightarrow> Inr ((as1, True), s)
       | a0 # _ \<Rightarrow> chk (insert_each (foldl UpdatePool s qs) fresh) (\<lambda>s1.
             let (o1, ev) = Transition ops (''allocation:'' @ al_ID a0) now (finance_moved FinanceFunded)
             in chk (InsertEvent (UpdateOperation s1 o1) ev) (\<lambda>s2. Inr ((as1, False), s2)))) = Inr ((as, ex), s')"
    unfolding Allocate_def Let_def [of ?pools] lock LockOperation_def
    by (auto simp: chk_Inr_iff [of "pools_by_level _ _"] chk_Inr_iff [of "found _"] chk_Inr_iff [of "allocate_each _ _ _ _ _ _ _"]
        found_Inr_iff split: if_splits)
  from rest assms(2) obtain a0 f where f: "fresh = a0 # f" by (cases fresh) auto
  obtain o1 ev where t: "Transition ops (''allocation:'' @ al_ID a0) now (finance_moved FinanceFunded) = (o1, ev)"
    by fastforce
  from rest [unfolded f list.case t Let_def prod.case] f obtain s1 where
    s1: "insert_each (foldl UpdatePool s qs) fresh = Inr s1" and s': "s' = append_event (UpdateOperation s1 o1) ev" "as = as1"
    by (auto simp: fallible)
  have "op_ID ops = operationID" using lookup_by_SomeD [OF op] by simp
  from that [OF op each [unfolded this s'(2) [symmetric]] s1 s'(1)] t f show thesis by simp
qed

lemma Allocate_keeps_pools:
  assumes tx: "Allocate new_id now sc operationID amount s = Inr (r, s')" and inv: "pool_inv s" and wf: "wf_money amount"
  shows "pool_inv s'"
proof -
  obtain as ex where r: "r = (as, ex)" by (cases r)
  have dp: "distinct (map bp_ID (db_pools s))" using inv by (simp add: pool_inv_def)
  show ?thesis
  proof (cases ex)
    case True
    then have "s' = s" using tx unfolding r Allocate_def
      by (auto simp: chk_Inr_iff Let_def neq_Nil_conv split: if_splits list.splits prod.splits)
    then show ?thesis using inv by simp
  next
    case False
    let ?ps = "ListCurrentPools s (m_Currency amount) (sc_TenantID sc) (sc_ActorID sc) now"
    from Allocate_Inr [OF tx [unfolded r] False dp] obtain qs fresh o1 ev s1 where
      each: "allocate_each new_id operationID amount now s 0 ?ps = Inr (qs, as, fresh)"
      and ins: "insert_each (foldl UpdatePool s qs) fresh = Inr s1" and s': "s' = append_event (UpdateOperation s1 o1) ev"
      by metis
    have ps: "set ?ps \<subseteq> set (db_pools s)" "distinct (map bp_ID ?ps)" "\<forall>p \<in> set ?ps. wf_pool p"
      using inv by (auto simp: ListCurrentPools_def pool_inv_def distinct_map inj_on_def distinct_filter)
    note E = allocate_each_effect [OF each wf ps(2,3)]
    note I = insert_each_Inr [OF ins]
    have T: "db_pools s' = map (save_pool qs) (db_pools s)" "db_allocations s' = db_allocations s @ fresh" "db_returns s' = db_returns s"
      using I by (simp_all add: s' append_event_def UpdateOperation_def foldl_UpdatePool)
    have g: "given_out s' i = given_out s i + part_of fresh i" "taken_back s' i = taken_back s i" for i
      by (simp_all add: given_out_def taken_back_def part_of_def T)
    have "bp_ID ` set (db_pools s') = bp_ID ` set (db_pools s)" by (simp add: T image_image)
    moreover have "al_PoolID a \<in> bp_ID ` set (db_pools s)" if "a \<in> set fresh" for a
      using imageI [OF that, of al_PoolID] E image_mono [OF ps(1), of bp_ID] by blast
    ultimately have refs: "\<forall>a \<in> set (db_allocations s'). 0 \<le> al_Amount a \<and> al_PoolID a \<in> bp_ID ` set (db_pools s')"
      using inv E by (auto simp: pool_inv_def T)
    have "wf_pool y \<and> bp_Allocated y = given_out s' (bp_ID y) - taken_back s' (bp_ID y)" if y: "y \<in> set (db_pools s')" for y
    proof -
      from y T(1) obtain x where x: "x \<in> set (db_pools s)" "y = save_pool qs x" by auto
      have "wf_pool x \<and> bp_Allocated x = given_out s (bp_ID x) - taken_back s (bp_ID x)" using inv x(1) by (simp add: pool_inv_def)
      with save_pool_grown [OF conjunct1 [OF E] dp ps(1,2) _ x(1)] E show ?thesis by (simp add: x(2) g)
    qed
    moreover have "distinct (map bp_ID (db_pools s'))" using dp by (simp add: T comp_def)
    moreover have "distinct (map al_ID (db_allocations s'))" using I inv by (simp add: T foldl_UpdatePool pool_inv_def)
    moreover have "returns_ok s'" using inv by (auto simp: pool_inv_def returns_ok_def T)
    ultimately show ?thesis using refs by (simp add: pool_inv_def)
  qed
qed


section \<open>Settlement keeps the balance\<close>

text \<open>The pools a settlement holds are the rows of the table.\<close>

definition agrees :: "db \<Rightarrow> (string \<rightharpoonup> budget_pool) \<Rightarrow> bool" where
  "agrees s pools \<longleftrightarrow> (\<forall>i p. pools i = Some p \<longrightarrow> bp_ID p = i \<and> wf_pool p \<and>
     (\<exists>x \<in> set (db_pools s). bp_ID x = i \<and> bp_Allocated x = bp_Allocated p))"

lemma lock_pool_map_agrees:
  assumes "lock_pool_map s is m = Inr pools" and "agrees s m" and "\<forall>p \<in> set (db_pools s). wf_pool p"
  shows "agrees s pools"
  using assms(1,2)
proof (induction "is" arbitrary: m)
  case Nil
  then show ?case by simp
next
  case (Cons i "is")
  from Cons.prems(1) obtain p where p: "lookup_by bp_ID i (db_pools s) = Some p"
    and rest: "lock_pool_map s is (m(i \<mapsto> p)) = Inr pools"
    by (auto simp: chk_Inr_iff LockPool_def found_Inr_iff)
  have "agrees s (m(i \<mapsto> p))" using Cons.prems(2) lookup_by_SomeD [OF p] assms(3) by (auto simp: agrees_def)
  from Cons.IH [OF rest this] show ?case .
qed

definition return_of :: "allocation \<Rightarrow> int \<Rightarrow> instant \<Rightarrow> allocation_return" where
  "return_of a u now = \<lparr>ar_AllocationID = al_ID a, ar_PoolID = al_PoolID a, ar_OperationID = al_OperationID a,
     ar_Currency = al_Currency a, ar_Amount = u, ar_ReturnedAt = now\<rparr>"

lemma HasAllocationReturn_iff: "HasAllocationReturn s i \<longleftrightarrow> i \<in> ar_AllocationID ` set (db_returns s)"
  unfolding HasAllocationReturn_def lookup_by_None_iff by simp

text \<open>One allocation returns what it has left to its pool.\<close>

lemma return_one:
  assumes inv: "pool_inv s" and a: "a \<in> set (db_allocations s)" "wf_alloc a" and new: "\<not> HasAllocationReturn s (al_ID a)"
    and u: "ReturnUnspent a = Inr u" and p: "pools (al_PoolID a) = Some p" and ag: "agrees s pools" and p': "Pool_Return p u = Inr p'"
  shows "pool_inv ((UpdatePool s p')\<lparr>db_returns := db_returns s @ [return_of a u now]\<rparr>)"
    and "agrees ((UpdatePool s p')\<lparr>db_returns := db_returns s @ [return_of a u now]\<rparr>) (pools(al_PoolID a \<mapsto> p'))"
proof -
  let ?s = "(UpdatePool s p')\<lparr>db_returns := db_returns s @ [return_of a u now]\<rparr>"
  have am: "0 \<le> al_Amount a" using inv a(1) by (simp add: pool_inv_def)
  have dist: "distinct (map bp_ID (db_pools s))" using inv by (simp add: pool_inv_def)
  have u': "0 \<le> u" "u \<le> al_Amount a"
    using u ReturnUnspent_eq [OF a(2)] a(2) am by (auto simp: wf_alloc_def split: if_splits)
  from ag p have P: "bp_ID p = al_PoolID a" "wf_pool p" and "\<exists>x \<in> set (db_pools s). bp_ID x = al_PoolID a \<and> bp_Allocated x = bp_Allocated p"
    by (auto simp: agrees_def)
  then obtain x0 where x0: "x0 \<in> set (db_pools s)" "bp_ID x0 = al_PoolID a" "bp_Allocated x0 = bp_Allocated p" by blast
  from p' Pool_Return_iff [OF P(2)] u' have P': "bp_ID p' = al_PoolID a" "bp_Allocated p' = bp_Allocated p - u" "wf_pool p'"
    using P by (auto simp: wf_pool_def int64_diff)
  have row: "y = x0" if "y \<in> set (db_pools s)" "bp_ID y = al_PoolID a" for y
    using that x0 dist by (auto simp: distinct_map inj_on_def)
  have tb: "taken_back ?s i = taken_back s i + (if al_PoolID a = i then u else 0)" "given_out ?s i = given_out s i" for i
    by (simp_all add: taken_back_def given_out_def UpdatePool_def return_of_def)
  have rows: "wf_pool y \<and> bp_Allocated y = given_out ?s (bp_ID y) - taken_back ?s (bp_ID y)" if y: "y \<in> set (db_pools ?s)" for y
  proof -
    from y obtain x where x: "x \<in> set (db_pools s)" "y = (if bp_ID x = bp_ID p' then pool_columns p' x else x)"
      by (auto simp: UpdatePool_def)
    have I: "wf_pool x \<and> bp_Allocated x = given_out s (bp_ID x) - taken_back s (bp_ID x)" using inv x(1) by (simp add: pool_inv_def)
    show ?thesis
    proof (cases "bp_ID x = al_PoolID a")
      case True
      then have "x = x0" using row x(1) by blast
      then show ?thesis using I x True P' x0 unfolding tb by (simp add: wf_pool_def)
    qed (use I x P' in \<open>simp add: tb\<close>)
  qed
  have same: "map bp_ID (db_pools ?s) = map bp_ID (db_pools s)" by (auto simp: UpdatePool_def)
  then have "bp_ID ` set (db_pools ?s) = bp_ID ` set (db_pools s)" by (metis set_map)
  then have refs: "\<forall>b \<in> set (db_allocations ?s). 0 \<le> al_Amount b \<and> al_PoolID b \<in> bp_ID ` set (db_pools ?s)"
    using inv by (simp add: pool_inv_def UpdatePool_def)
  have "returns_ok ?s"
    using inv a(1) new u' by (auto simp: pool_inv_def returns_ok_def UpdatePool_def return_of_def HasAllocationReturn_iff)
  then show "pool_inv ?s"
    using inv rows dist refs unfolding pool_inv_def same by (simp add: UpdatePool_def)
  show "agrees ?s (pools(al_PoolID a \<mapsto> p'))"
    unfolding agrees_def
  proof (intro allI impI)
    fix i q assume q: "(pools(al_PoolID a \<mapsto> p')) i = Some q"
    show "bp_ID q = i \<and> wf_pool q \<and> (\<exists>x \<in> set (db_pools ?s). bp_ID x = i \<and> bp_Allocated x = bp_Allocated q)"
    proof (cases "i = al_PoolID a")
      case True
      then have "q = p'" using q by simp
      moreover have "pool_columns p' x0 \<in> set (db_pools ?s)" using x0 P' by (force simp: UpdatePool_def)
      ultimately show ?thesis using True P' x0(2) by (intro conjI bexI [of _ "pool_columns p' x0"]) simp_all
    next
      case False
      then obtain x where x: "bp_ID q = i" "wf_pool q" "x \<in> set (db_pools s)" "bp_ID x = i" "bp_Allocated x = bp_Allocated q"
        using q ag by (auto simp: agrees_def)
      then have "x \<in> set (db_pools ?s)" using False P' by (force simp: UpdatePool_def)
      with x show ?thesis by blast
    qed
  qed
qed

lemma return_each_keeps:
  assumes "return_each as pools now s = Inr s'" and "pool_inv s" and "agrees s pools"
    and "\<forall>a \<in> set as. a \<in> set (db_allocations s) \<and> wf_alloc a"
  shows "pool_inv s' \<and> s' = s\<lparr>db_pools := db_pools s', db_returns := db_returns s'\<rparr> \<and>
    (\<forall>a \<in> set as. HasAllocationReturn s' (al_ID a)) \<and> set (db_returns s) \<subseteq> set (db_returns s')"
  using assms
proof (induction as arbitrary: pools s)
  case Nil
  then show ?case by simp
next
  case (Cons a as)
  show ?case
  proof (cases "HasAllocationReturn s (al_ID a)")
    case True
    then have "return_each as pools now s = Inr s'" using Cons.prems(1) by simp
    from Cons.IH [OF this Cons.prems(2,3)] Cons.prems(4) True show ?thesis by (auto simp: HasAllocationReturn_iff)
  next
    case False
    with Cons.prems(1) obtain u p p' s1 where
      u: "ReturnUnspent a = Inr u" and p: "pools (al_PoolID a) = Some p" and p': "Pool_Return p u = Inr p'"
      and s1: "InsertAllocationReturn (UpdatePool s p') a u now = Inr s1"
      and rest: "return_each as (pools(al_PoolID a \<mapsto> p')) now s1 = Inr s'"
      by (auto simp: chk_Inr_iff split: option.splits)
    from s1 have e: "s1 = (UpdatePool s p')\<lparr>db_returns := db_returns s @ [return_of a u now]\<rparr>"
      by (auto simp: InsertAllocationReturn_def return_of_def UpdatePool_def split: if_splits)
    note one = return_one [OF Cons.prems(2) _ _ False u p Cons.prems(3) p', of now, folded e]
    have al: "db_allocations s1 = db_allocations s" "s1 = s\<lparr>db_pools := db_pools s1, db_returns := db_returns s1\<rparr>"
      by (simp_all add: e UpdatePool_def)
    have "\<forall>a \<in> set as. a \<in> set (db_allocations s1) \<and> wf_alloc a" using Cons.prems(4) al(1) by simp
    from Cons.IH [OF rest one this] Cons.prems(4)
    have ih: "pool_inv s'" "s' = s1\<lparr>db_pools := db_pools s', db_returns := db_returns s'\<rparr>"
      "\<forall>a \<in> set as. HasAllocationReturn s' (al_ID a)" "set (db_returns s1) \<subseteq> set (db_returns s')"
      by (simp_all del: fun_upd_apply)
    have "s' = s\<lparr>db_pools := db_pools s', db_returns := db_returns s'\<rparr>"
      using ih(2) unfolding e UpdatePool_def by simp
    moreover have sub: "return_of a u now \<in> set (db_returns s')" "set (db_returns s) \<subseteq> set (db_returns s')"
      using ih(4) by (simp_all add: e)
    moreover have "HasAllocationReturn s' (al_ID a)"
      using imageI [OF sub(1), of ar_AllocationID] by (simp add: HasAllocationReturn_iff return_of_def)
    ultimately show ?thesis using ih(1,3) by simp
  qed
qed


lemma SettleFinance_Inr:
  assumes "SettleFinance now operationID s = Inr ((o1, dn), s')"
  obtains "\<not> dn" "s' = s" | ops pools s1 ev where "dn"
    "lookup_by op_ID operationID (db_operations s) = Some ops" "financeSettleable ops"
    "lock_pool_map s (sort (map al_PoolID (LockAllocations s operationID))) Map.empty = Inr pools"
    "\<not> HasUnsettledDispatch s operationID" "\<forall>a \<in> set (LockAllocations s operationID). al_Reserved a = 0"
    "return_each (LockAllocations s operationID) pools now s = Inr s1"
    "Transition ops ''finance:settled'' now (finance_moved FinanceSettled) = (o1, ev)"
    "s' = append_event (UpdateOperation s1 o1) ev"
proof -
  from assms obtain ops where ops: "lookup_by op_ID operationID (db_operations s) = Some ops"
    by (auto simp: SettleFinance_def chk_Inr_iff found_Inr_iff)
  obtain o2 ev where t: "Transition ops ''finance:settled'' now (finance_moved FinanceSettled) = (o2, ev)" by fastforce
  from assms consider "\<not> dn \<and> s' = s"
    | pools s1 where "dn \<and> financeSettleable ops \<and> \<not> HasUnsettledDispatch s operationID \<and>
        (\<forall>a \<in> set (LockAllocations s operationID). al_Reserved a = 0) \<and>
        lock_pool_map s (sort (map al_PoolID (LockAllocations s operationID))) Map.empty = Inr pools \<and>
        return_each (LockAllocations s operationID) pools now s = Inr s1 \<and> o2 = o1 \<and> s' = append_event (UpdateOperation s1 o1) ev"
    unfolding SettleFinance_def LockOperation_def Let_def ops found_Some chk_Inr t prod.case
    by (auto simp: fallible list_ex_iff simp del: set_LockAllocations split: if_splits)
  then show thesis using that t ops by cases blast+
qed

lemma SettleFinance_keeps_pools:
  assumes tx: "SettleFinance now operationID s = Inr (r, s')" and inv: "pool_inv s" and wf: "\<forall>a \<in> set (db_allocations s). wf_alloc a"
  shows "pool_inv s'"
proof -
  obtain o1 dn where r: "r = (o1, dn)" by (cases r)
  from tx [unfolded r] show ?thesis
  proof (cases rule: SettleFinance_Inr)
    case 1
    then show ?thesis using inv by simp
  next
    case (2 ops pools s1 ev)
    have "agrees s pools"
      using inv by (intro lock_pool_map_agrees [OF 2(4)]) (simp_all add: agrees_def pool_inv_def)
    from return_each_keeps [OF 2(7) inv this] wf have "pool_inv s1" by simp
    then show ?thesis by (rule pool_inv_books [rotated]) (simp add: 2 books_def append_event_def UpdateOperation_def)
  qed
qed

end
