(* ===== verification/Finance_Admin.thy ===== *)
theory Finance_Admin
  imports Finance_Service
begin

text \<open>
  The operator commands of \<open>application/finance.go\<close> (prices, pools, cost caps) and the snapshot
  price book of \<open>application/prices.go\<close>. A command that loses a race for a unique key runs its
  transaction again; such a run is a further step of the same definition. The digest of a
  price's canonical content is a parameter (\<open>sha256\<close> of its JSON form).
\<close>

section \<open>Authorization\<close>

definition financeWriter :: "scope \<Rightarrow> command_identity \<Rightarrow> err option" where
  "financeWriter sc cmd =
     (if sc_TenantID sc \<noteq> cmd_TenantID cmd \<or> sc_ActorID sc \<noteq> cmd_ActorID cmd then Some ErrForbidden
      else if \<not> HasRole sc RolePlatformOperator then Some ErrForbidden
      else None)"

definition financeReader :: "scope \<Rightarrow> string \<Rightarrow> err option" where
  "financeReader sc tenantID =
     (if HasRole sc RolePlatformOperator then None
      else if HasRole sc RoleOperator \<and> (tenantID = [] \<or> tenantID = sc_TenantID sc) then None
      else Some ErrForbidden)"

section \<open>Prices\<close>

definition GetPriceRevision :: "db \<Rightarrow> string \<Rightarrow> price_record option" where
  "GetPriceRevision s rvn = lookup_by (\<lambda>r. p_Revision (pr_Price r)) rvn (db_prices s)"

definition InsertPriceRevision :: "db \<Rightarrow> price_record \<Rightarrow> err + db" where
  "InsertPriceRevision s r =
     (if list_ex (\<lambda>x. p_Revision (pr_Price x) = p_Revision (pr_Price r)) (db_prices s) then Inl ErrDuplicateKey
      else Inr (s\<lparr>db_prices := db_prices s @ [r]\<rparr>))"

definition WithdrawPriceRevision :: "db \<Rightarrow> string \<Rightarrow> instant \<Rightarrow> string \<Rightarrow> db" where
  "WithdrawPriceRevision s rvn at actor =
     s\<lparr>db_prices := map (\<lambda>x. if p_Revision (pr_Price x) = rvn \<and> pr_WithdrawnAt x = None
         then x\<lparr>pr_WithdrawnAt := Some at, pr_WithdrawnBy := actor\<rparr> else x) (db_prices s)\<rparr>"

definition publish ::
  "(price \<Rightarrow> digest) \<Rightarrow> instant \<Rightarrow> command_identity \<Rightarrow> price \<Rightarrow> db \<Rightarrow> err + ((price_record \<times> bool) \<times> db)" where
  "publish PriceDigest now cmd p0 s =
     (let p = p0\<lparr>p_EffectiveFrom := truncate_us (p_EffectiveFrom p0), p_EffectiveUntil := truncate_us (p_EffectiveUntil p0)\<rparr>
      in chk_err (Price_Validate p) (
         case GetPriceRevision s (p_Revision p) of
           Some r \<Rightarrow> if pr_Digest r \<noteq> PriceDigest p then Inl ErrIdempotencyConflict else Inr ((r, True), s)
         | None \<Rightarrow>
             let r = \<lparr>pr_Price = p, pr_Digest = PriceDigest p, pr_PublishedBy = cmd_ActorID cmd, pr_CommandID = cmd_CommandID cmd,
                      pr_PublishedAt = truncate_us now, pr_WithdrawnAt = None, pr_WithdrawnBy = []\<rparr>
             in chk (InsertPriceRevision s r) (\<lambda>s1. Inr ((r, False), s1))))"

definition PublishPrice ::
  "(price \<Rightarrow> digest) \<Rightarrow> instant \<Rightarrow> command_identity \<Rightarrow> scope \<Rightarrow> price \<Rightarrow> db \<Rightarrow> err + ((price_record \<times> bool) \<times> db)" where
  "PublishPrice PriceDigest now cmd sc p s = chk_err (financeWriter sc cmd) (publish PriceDigest now cmd p s)"

text \<open>\<open>InstallPrices\<close> publishes one after the other; the first refusal ends it and keeps what is
  published. The answer is the error, if any, the number published and the database.\<close>

fun install_each :: "(price \<Rightarrow> digest) \<Rightarrow> instant \<Rightarrow> price list \<Rightarrow> nat \<Rightarrow> db \<Rightarrow> err option \<times> nat \<times> db" where
  "install_each PriceDigest now [] n s = (None, n, s)"
| "install_each PriceDigest now (p # ps) n s =
     (case publish PriceDigest now \<lparr>cmd_TenantID = ''*'', cmd_CommandID = ''initial-price-book'',
             cmd_ActorID = ''anvilkit-agent-control'', cmd_RequestDigest = []\<rparr> p s of
        Inl e \<Rightarrow> (Some e, n, s)
      | Inr ((_, existing), s1) \<Rightarrow> install_each PriceDigest now ps (if existing then n else Suc n) s1)"

definition InstallPrices :: "(price \<Rightarrow> digest) \<Rightarrow> instant \<Rightarrow> price list \<Rightarrow> db \<Rightarrow> err option \<times> nat \<times> db" where
  "InstallPrices PriceDigest now ps s = install_each PriceDigest now ps 0 s"

definition WithdrawPrice ::
  "instant \<Rightarrow> command_identity \<Rightarrow> scope \<Rightarrow> string \<Rightarrow> db \<Rightarrow> err + ((price_record \<times> bool) \<times> db)" where
  "WithdrawPrice now cmd sc rvn s =
     chk_err (financeWriter sc cmd) (
     chk (found (GetPriceRevision s rvn)) (\<lambda>locked.
       if pr_WithdrawnAt locked \<noteq> None then Inr ((locked, True), s)
       else Inr ((locked\<lparr>pr_WithdrawnAt := Some (truncate_us now), pr_WithdrawnBy := cmd_ActorID cmd\<rparr>, False),
                 WithdrawPriceRevision s rvn (truncate_us now) (cmd_ActorID cmd))))"

definition GetPrice :: "scope \<Rightarrow> string \<Rightarrow> db \<Rightarrow> err + price_record" where
  "GetPrice sc rvn s = chk_err (financeReader sc []) (found (GetPriceRevision s rvn))"

subsection \<open>The snapshot\<close>

record price_snapshot =
  ps_byRoute :: "string \<Rightarrow> price_record list"
  ps_byRevision :: "string \<rightharpoonup> price_record"

definition ListPriceRevisions :: "db \<Rightarrow> price_record list" where
  "ListPriceRevisions s = sort_key pr_PublishedAt (sort_key (\<lambda>r. p_Revision (pr_Price r)) (db_prices s))"

definition kind_string :: "dispatch_kind \<Rightarrow> string" where
  "kind_string k = (case k of DispatchModel \<Rightarrow> ''model'' | DispatchTool \<Rightarrow> ''tool'' | DispatchKindOther x \<Rightarrow> x)"

definition route_key :: "dispatch_kind \<Rightarrow> string \<Rightarrow> string" where
  "route_key kind route = kind_string kind @ ''/'' @ route"

text \<open>The stable sort of a route's records: the latest effective start first, then the latest
  publication (two stable sorts, the minor key first).\<close>

definition most_specific_first :: "price_record list \<Rightarrow> price_record list" where
  "most_specific_first rs = sort_key (\<lambda>r. - p_EffectiveFrom (pr_Price r)) (sort_key (\<lambda>r. - pr_PublishedAt r) rs)"

definition Refresh :: "db \<Rightarrow> price_snapshot" where
  "Refresh s =
     (let rows = ListPriceRevisions s
      in \<lparr>ps_byRoute = (\<lambda>key. most_specific_first
             (filter (\<lambda>r. pr_WithdrawnAt r = None \<and> route_key (p_Kind (pr_Price r)) (p_Route (pr_Price r)) = key) rows)),
          ps_byRevision = foldl (\<lambda>m r. m(p_Revision (pr_Price r) \<mapsto> r)) Map.empty rows\<rparr>)"

definition StoredPrices_Price :: "price_snapshot \<Rightarrow> dispatch_kind \<Rightarrow> string \<Rightarrow> instant \<Rightarrow> price option" where
  "StoredPrices_Price snap kind route at = map_option pr_Price (find (\<lambda>r. EffectiveAt (pr_Price r) at) (ps_byRoute snap (route_key kind route)))"

text \<open>A revision the snapshot does not hold is read from the database and kept.\<close>

definition StoredPrices_PriceByRevision :: "db \<Rightarrow> string \<Rightarrow> price_snapshot \<Rightarrow> price option \<times> price_snapshot" where
  "StoredPrices_PriceByRevision s rvn snap =
     (if rvn = [] then (None, snap)
      else case ps_byRevision snap rvn of
        Some r \<Rightarrow> (Some (pr_Price r), snap)
      | None \<Rightarrow>
          (case GetPriceRevision s rvn of
             None \<Rightarrow> (None, snap)
           | Some r \<Rightarrow> (Some (pr_Price r), snap\<lparr>ps_byRevision := (ps_byRevision snap)(rvn \<mapsto> r)\<rparr>)))"

section \<open>Pools\<close>

record pool_spec =
  sp_Level :: budget_level
  sp_TenantID :: string
  sp_ActorID :: string
  sp_PeriodStart :: instant
  sp_PeriodEnd :: instant
  sp_Cap :: money

definition PoolSpec_validate :: "pool_spec \<Rightarrow> err option" where
  "PoolSpec_validate sp =
     (let scoped = (case sp_Level sp of
          LevelPlatform \<Rightarrow> if sp_TenantID sp \<noteq> [] \<or> sp_ActorID sp \<noteq> [] then Some ErrInvalid else None
        | LevelTenant \<Rightarrow> if sp_TenantID sp = [] \<or> sp_ActorID sp \<noteq> [] then Some ErrInvalid else None
        | LevelActor \<Rightarrow> if sp_TenantID sp = [] \<or> sp_ActorID sp = [] then Some ErrInvalid else None
        | LevelOther _ \<Rightarrow> Some ErrInvalid)
      in case scoped of
           Some e \<Rightarrow> Some e
         | None \<Rightarrow> if \<not> sp_PeriodEnd sp > sp_PeriodStart sp then Some ErrInvalid
                   else if m_Amount (sp_Cap sp) < 0 then Some ErrInvalid
                   else None)"

abbreviation pool_scope :: "budget_pool \<Rightarrow> budget_level \<times> string \<times> string \<times> instant" where
  "pool_scope p \<equiv> (bp_Level p, bp_TenantID p, bp_ActorID p, bp_PeriodStart p)"

definition GetPoolByScope :: "db \<Rightarrow> budget_level \<Rightarrow> string \<Rightarrow> string \<Rightarrow> instant \<Rightarrow> budget_pool option" where
  "GetPoolByScope s level tenantID actorID start = lookup_by pool_scope (level, tenantID, actorID, start) (db_pools s)"

definition InsertPool :: "db \<Rightarrow> budget_pool \<Rightarrow> err + db" where
  "InsertPool s p =
     (if \<not> currencyPattern (bp_Currency p) then Inl ErrStore
      else if list_ex (\<lambda>x. bp_ID x = bp_ID p \<or> pool_scope x = pool_scope p) (db_pools s) then Inl ErrDuplicateKey
      else Inr (s\<lparr>db_pools := db_pools s @ [p]\<rparr>))"

definition CreatePool ::
  "string \<Rightarrow> command_identity \<Rightarrow> scope \<Rightarrow> pool_spec \<Rightarrow> db \<Rightarrow> err + ((budget_pool \<times> bool) \<times> db)" where
  "CreatePool new_id cmd sc sp0 s =
     chk_err (financeWriter sc cmd) (
     let sp = sp0\<lparr>sp_PeriodStart := truncate_us (sp_PeriodStart sp0), sp_PeriodEnd := truncate_us (sp_PeriodEnd sp0)\<rparr>
     in chk_err (PoolSpec_validate sp) (
        case GetPoolByScope s (sp_Level sp) (sp_TenantID sp) (sp_ActorID sp) (sp_PeriodStart sp) of
          Some p \<Rightarrow>
            if bp_Currency p \<noteq> m_Currency (sp_Cap sp) \<or> bp_Cap p \<noteq> m_Amount (sp_Cap sp) \<or> bp_PeriodEnd p \<noteq> sp_PeriodEnd sp
            then Inl ErrIdempotencyConflict else Inr ((p, True), s)
        | None \<Rightarrow>
            let p = \<lparr>bp_ID = new_id, bp_Level = sp_Level sp, bp_TenantID = sp_TenantID sp, bp_ActorID = sp_ActorID sp,
                     bp_PeriodStart = sp_PeriodStart sp, bp_PeriodEnd = sp_PeriodEnd sp, bp_Currency = m_Currency (sp_Cap sp),
                     bp_Cap = m_Amount (sp_Cap sp), bp_Allocated = 0, bp_Revision = 1\<rparr>
            in chk (InsertPool s p) (\<lambda>s1. Inr ((p, False), s1))))"

definition UpdatePoolCap :: "db \<Rightarrow> budget_pool \<Rightarrow> db" where
  "UpdatePoolCap s p = s\<lparr>db_pools := map (\<lambda>x. if bp_ID x = bp_ID p
     then x\<lparr>bp_Cap := bp_Cap p, bp_Revision := bp_Revision p\<rparr> else x) (db_pools s)\<rparr>"

definition AdjustPool ::
  "command_identity \<Rightarrow> scope \<Rightarrow> string \<Rightarrow> u64 \<Rightarrow> money \<Rightarrow> db \<Rightarrow> err + (budget_pool \<times> db)" where
  "AdjustPool cmd sc poolID expected capAmount s =
     chk_err (financeWriter sc cmd) (
     if m_Amount capAmount < 0 then Inl ErrInvalid
     else chk (LockPool s poolID) (\<lambda>locked.
       if bp_Revision locked \<noteq> expected then Inl ErrRevisionConflict
       else if bp_Currency locked \<noteq> m_Currency capAmount then Inl ErrInvalid
       else let p = locked\<lparr>bp_Cap := m_Amount capAmount, bp_Revision := bp_Revision locked + 1\<rparr>
            in Inr (p, UpdatePoolCap s p)))"

definition GetPool :: "scope \<Rightarrow> string \<Rightarrow> db \<Rightarrow> err + budget_pool" where
  "GetPool sc poolID s =
     chk (found (lookup_by bp_ID poolID (db_pools s))) (\<lambda>p. chk_err (financeReader sc (bp_TenantID p)) (Inr p))"

section \<open>Cost caps\<close>

abbreviation cap_scope :: "cost_cap \<Rightarrow> cap_level \<times> string \<times> string \<times> string" where
  "cap_scope c \<equiv> (cc_Level c, cc_TenantID c, cc_ProjectID c, cc_Currency c)"

definition GetCostCap_row :: "db \<Rightarrow> cap_level \<Rightarrow> string \<Rightarrow> string \<Rightarrow> string \<Rightarrow> cost_cap option" where
  "GetCostCap_row s level tenantID projectID currency = lookup_by cap_scope (level, tenantID, projectID, currency) (db_caps s)"

definition InsertCostCap :: "db \<Rightarrow> cost_cap \<Rightarrow> err + db" where
  "InsertCostCap s c =
     (if \<not> currencyPattern (cc_Currency c) then Inl ErrStore
      else if list_ex (\<lambda>x. cc_ID x = cc_ID c \<or> cap_scope x = cap_scope c) (db_caps s) then Inl ErrDuplicateKey
      else Inr (s\<lparr>db_caps := db_caps s @ [c]\<rparr>))"

definition UpdateCostCapLimit :: "db \<Rightarrow> cost_cap \<Rightarrow> db" where
  "UpdateCostCapLimit s c =
     s\<lparr>db_caps := map (\<lambda>x. if cc_ID x = cc_ID c
         then x\<lparr>cc_Cap := cc_Cap c, cc_Revision := cc_Revision c, cc_UpdatedBy := cc_UpdatedBy c, cc_UpdatedAt := cc_UpdatedAt c\<rparr>
         else x) (db_caps s)\<rparr>"

definition check_cap_command :: "cap_level \<Rightarrow> string \<Rightarrow> string \<Rightarrow> money \<Rightarrow> err option" where
  "check_cap_command level tenantID projectID capAmount =
     (if level \<noteq> CapTenant \<and> level \<noteq> CapProject \<and> level \<noteq> CapOperation then Some ErrInvalid
      else if tenantID = [] then Some ErrInvalid
      else if level = CapTenant \<and> projectID \<noteq> [] then Some ErrInvalid
      else if m_Amount capAmount < 0 then Some ErrInvalid
      else None)"

definition SetCostCap ::
  "string \<Rightarrow> instant \<Rightarrow> command_identity \<Rightarrow> scope \<Rightarrow> cap_level \<Rightarrow> string \<Rightarrow> string \<Rightarrow> money \<Rightarrow> u64 option \<Rightarrow> db \<Rightarrow>
   err + (cost_cap \<times> db)" where
  "SetCostCap new_id now cmd sc level tenantID projectID capAmount expected s =
     chk_err (financeWriter sc cmd) (
     chk_err (check_cap_command level tenantID projectID capAmount) (
     case GetCostCap_row s level tenantID projectID (m_Currency capAmount) of
       None \<Rightarrow>
         if expected \<noteq> None then Inl ErrRevisionConflict
         else let c = \<lparr>cc_ID = new_id, cc_Level = level, cc_TenantID = tenantID, cc_ProjectID = projectID,
                       cc_Currency = m_Currency capAmount, cc_Cap = m_Amount capAmount, cc_Reserved = 0, cc_Consumed = 0,
                       cc_Revision = 1, cc_UpdatedBy = cmd_ActorID cmd, cc_UpdatedAt = truncate_us now\<rparr>
              in chk (InsertCostCap s c) (\<lambda>s1. Inr (c, s1))
     | Some f \<Rightarrow>
         chk (found (lookup_by cc_ID (cc_ID f) (db_caps s))) (\<lambda>locked.
           if (case expected of None \<Rightarrow> False | Some x \<Rightarrow> cc_Revision locked \<noteq> x) then Inl ErrRevisionConflict
           else let c = locked\<lparr>cc_Cap := m_Amount capAmount, cc_UpdatedBy := cmd_ActorID cmd, cc_UpdatedAt := truncate_us now,
                               cc_Revision := cc_Revision locked + 1\<rparr>
                in Inr (c, UpdateCostCapLimit s c))))"

definition GetCostCap :: "scope \<Rightarrow> cap_level \<Rightarrow> string \<Rightarrow> string \<Rightarrow> string \<Rightarrow> db \<Rightarrow> err + cost_cap" where
  "GetCostCap sc level tenantID projectID currency s =
     chk_err (financeReader sc tenantID) (found (GetCostCap_row s level tenantID projectID currency))"

end
