(* ===== verification/Grants_Service.thy ===== *)
theory Grants_Service
  imports Ledger
begin

text \<open>
  \<open>internal/application/grants.go\<close>: the projection of the MCP grant policies and the revocation
  barrier, with the queries it issues. Each call is one transaction, tried a second time when it
  loses a race for a unique key. The receipt identity and the policy epoch (a database sequence)
  are arguments.
\<close>

section \<open>Queries\<close>

abbreviation grant_key :: "grant_policy \<Rightarrow> string \<times> u64" where
  "grant_key g \<equiv> (gp_GrantID g, gp_GrantRevision g)"

definition LockGrantPolicy :: "db \<Rightarrow> string \<Rightarrow> u64 \<Rightarrow> grant_policy option" where
  "LockGrantPolicy s grantID rvn = lookup_by grant_key (grantID, rvn) (db_grants s)"

definition GetGrantPolicyByRegisterCommand :: "db \<Rightarrow> string \<Rightarrow> string \<Rightarrow> grant_policy option" where
  "GetGrantPolicyByRegisterCommand s tenantID commandID =
     lookup_by (\<lambda>g. (gp_TenantID g, gp_RegisterCommandID g)) (tenantID, commandID) (db_grants s)"

text \<open>The unique keys of the table: the grant revision, the receipt, the register command of a tenant
  and, once one is set, its revocation command.\<close>

definition grants_clash :: "grant_policy \<Rightarrow> grant_policy \<Rightarrow> bool" where
  "grants_clash x g \<longleftrightarrow> grant_key x = grant_key g \<or> gp_ReceiptID x = gp_ReceiptID g \<or>
     (gp_TenantID x = gp_TenantID g \<and>
       (gp_RegisterCommandID x = gp_RegisterCommandID g \<or>
        (gp_RevocationCommandID g \<noteq> [] \<and> gp_RevocationCommandID x = gp_RevocationCommandID g)))"

text \<open>The \<open>CHECK\<close> constraint of a begun revocation (an empty command is stored as \<open>NULL\<close>).\<close>

definition grants_check :: "grant_policy \<Rightarrow> bool" where
  "grants_check g \<longleftrightarrow> gp_RevocationState g = ''none'' \<or> (gp_FencedAt g \<noteq> None \<and> gp_RevocationCommandID g \<noteq> [])"

definition InsertGrantPolicy :: "u64 \<Rightarrow> db \<Rightarrow> grant_policy \<Rightarrow> err + (grant_policy \<times> db)" where
  "InsertGrantPolicy epoch s g =
     (if \<not> grants_check g then Inl ErrStore
      else if list_ex (\<lambda>x. grants_clash x g) (db_grants s) then Inl ErrDuplicateKey
      else let row = g\<lparr>gp_PolicyEpoch := epoch\<rparr> in Inr (row, s\<lparr>db_grants := db_grants s @ [row]\<rparr>))"

definition revocation_columns :: "grant_policy \<Rightarrow> grant_policy \<Rightarrow> grant_policy" where
  "revocation_columns g x =
     x\<lparr>gp_RevocationState := gp_RevocationState g, gp_FencedAt := gp_FencedAt g, gp_ConvergedAt := gp_ConvergedAt g,
       gp_RevocationCommandID := gp_RevocationCommandID g, gp_RevocationRequestDigest := gp_RevocationRequestDigest g,
       gp_InFlightCalls := gp_InFlightCalls g, gp_UnknownCalls := gp_UnknownCalls g\<rparr>"

definition UpdateGrantRevocation :: "db \<Rightarrow> grant_policy \<Rightarrow> err + db" where
  "UpdateGrantRevocation s g =
     (if \<not> grants_check g then Inl ErrStore
      else if list_ex (\<lambda>x. grant_key x \<noteq> grant_key g \<and> gp_TenantID x = gp_TenantID g \<and> gp_RevocationCommandID g \<noteq> [] \<and>
           gp_RevocationCommandID x = gp_RevocationCommandID g) (db_grants s) then Inl ErrDuplicateKey
      else Inr (s\<lparr>db_grants := map (\<lambda>x. if grant_key x = grant_key g then revocation_columns g x else x) (db_grants s)\<rparr>))"

definition sender :: "string \<Rightarrow> u64 \<Rightarrow> dispatch_state \<Rightarrow> dispatch \<Rightarrow> bool" where
  "sender grantID rvn st d \<longleftrightarrow> d_GrantID d = grantID \<and> d_GrantRevision d = rvn \<and> d_State d = st"

text \<open>The two counts; a \<open>count\<close> that leaves \<open>bigint\<close> is an error of the database.\<close>

definition CountGrantSenders :: "db \<Rightarrow> string \<Rightarrow> u64 \<Rightarrow> err + (u64 \<times> u64)" where
  "CountGrantSenders s grantID rvn =
     (let a = length (filter (sender grantID rvn DispatchAuthorized) (db_dispatches s));
          b = length (filter (sender grantID rvn DispatchUnknown) (db_dispatches s))
      in if int a > MaxInt64 \<or> int b > MaxInt64 then Inl ErrStore else Inr (of_nat a, of_nat b))"

section \<open>Registration\<close>

record registration =
  rg_GrantID :: string
  rg_Revision :: u64
  rg_PolicyDigest :: digest
  rg_ServerID :: string
  rg_Methods :: "string list"
  rg_CostCap :: "money option"
  rg_ExpiresAt :: "instant option"

definition tombstoneDigest :: digest where
  "tombstoneDigest = ''sha256:e3b0c44298fc1c149afbf4c8996fb92427ae41e4649b934ca495991b7852b855''"

definition check_registration :: "registration \<Rightarrow> instant \<Rightarrow> err option" where
  "check_registration reg now =
     (if rg_GrantID reg = [] \<or> rg_Revision reg = 0 \<or> rg_ServerID reg = [] \<or> length (rg_Methods reg) = 0 then Some ErrInvalid
      else case ParseDigest (rg_PolicyDigest reg) of
        Inl _ \<Rightarrow> Some ErrInvalid
      | Inr _ \<Rightarrow>
          if length (remdups_adj (sort (rg_Methods reg))) \<noteq> length (rg_Methods reg) then Some ErrInvalid
          else case rg_ExpiresAt reg of
            Some x \<Rightarrow> if \<not> now < x then Some ErrInvalid else None
          | None \<Rightarrow> None)"

definition register_matches :: "command_identity \<Rightarrow> registration \<Rightarrow> grant_policy \<Rightarrow> bool" where
  "register_matches cmd reg p \<longleftrightarrow> gp_TenantID p = cmd_TenantID cmd \<and> gp_GrantID p = rg_GrantID reg \<and>
     gp_GrantRevision p = rg_Revision reg \<and> gp_PolicyDigest p = rg_PolicyDigest reg"

definition new_policy :: "string \<Rightarrow> command_identity \<Rightarrow> registration \<Rightarrow> grant_policy" where
  "new_policy receipt cmd reg =
     \<lparr>gp_GrantID = rg_GrantID reg, gp_GrantRevision = rg_Revision reg, gp_TenantID = cmd_TenantID cmd,
      gp_PolicyDigest = rg_PolicyDigest reg, gp_ServerID = rg_ServerID reg, gp_Methods = rg_Methods reg,
      gp_CostCap = rg_CostCap reg, gp_ExpiresAt = rg_ExpiresAt reg, gp_PolicyEpoch = 0, gp_ReceiptID = receipt,
      gp_RevocationState = ''none'', gp_Registered = True, gp_RegisterCommandID = cmd_CommandID cmd,
      gp_RegisterRequestDigest = cmd_RequestDigest cmd, gp_RevocationCommandID = [], gp_RevocationRequestDigest = [],
      gp_InFlightCalls = 0, gp_UnknownCalls = 0, gp_FencedAt = None, gp_ConvergedAt = None\<rparr>"

definition register_tx ::
  "string \<Rightarrow> u64 \<Rightarrow> command_identity \<Rightarrow> registration \<Rightarrow> db \<Rightarrow> err + ((grant_policy \<times> bool) \<times> db)" where
  "register_tx receipt epoch cmd reg s =
     (case GetGrantPolicyByRegisterCommand s (cmd_TenantID cmd) (cmd_CommandID cmd) of
        Some p \<Rightarrow>
          if \<not> register_matches cmd reg p \<or> gp_RegisterRequestDigest p \<noteq> cmd_RequestDigest cmd then Inl ErrIdempotencyConflict
          else Inr ((p, True), s)
      | None \<Rightarrow>
          (case LockGrantPolicy s (rg_GrantID reg) (rg_Revision reg) of
             Some c \<Rightarrow>
               if gp_TenantID c \<noteq> cmd_TenantID cmd then Inl ErrNotFound
               else if \<not> gp_Registered c \<or> gp_RevocationState c \<noteq> ''none'' then Inl ErrForbidden
               else if gp_PolicyDigest c \<noteq> rg_PolicyDigest reg then Inl ErrIdempotencyConflict
               else Inr ((c, True), s)
           | None \<Rightarrow> chk (InsertGrantPolicy epoch s (new_policy receipt cmd reg)) (\<lambda>(p, s1). Inr ((p, False), s1))))"

definition Register ::
  "instant \<Rightarrow> string \<Rightarrow> u64 \<Rightarrow> command_identity \<Rightarrow> registration \<Rightarrow> db \<Rightarrow> err + ((grant_policy \<times> bool) \<times> db)" where
  "Register now receipt epoch cmd reg s = chk_err (check_registration reg now) (register_tx receipt epoch cmd reg s)"

section \<open>Revocation\<close>

definition tombstone :: "instant \<Rightarrow> string \<Rightarrow> command_identity \<Rightarrow> string \<Rightarrow> u64 \<Rightarrow> grant_policy" where
  "tombstone now receipt cmd grantID rvn =
     \<lparr>gp_GrantID = grantID, gp_GrantRevision = rvn, gp_TenantID = cmd_TenantID cmd, gp_PolicyDigest = tombstoneDigest,
      gp_ServerID = [], gp_Methods = [], gp_CostCap = None, gp_ExpiresAt = None, gp_PolicyEpoch = 0, gp_ReceiptID = receipt,
      gp_RevocationState = ''converged'', gp_Registered = False, gp_RegisterCommandID = ''revoke:'' @ cmd_CommandID cmd,
      gp_RegisterRequestDigest = cmd_RequestDigest cmd, gp_RevocationCommandID = cmd_CommandID cmd,
      gp_RevocationRequestDigest = cmd_RequestDigest cmd, gp_InFlightCalls = 0, gp_UnknownCalls = 0,
      gp_FencedAt = Some now, gp_ConvergedAt = Some now\<rparr>"

definition BeginRevocation ::
  "instant \<Rightarrow> string \<Rightarrow> u64 \<Rightarrow> command_identity \<Rightarrow> string \<Rightarrow> u64 \<Rightarrow> db \<Rightarrow> err + ((grant_policy \<times> bool) \<times> db)" where
  "BeginRevocation now receipt epoch cmd grantID rvn s =
     (case LockGrantPolicy s grantID rvn of
        None \<Rightarrow> chk (InsertGrantPolicy epoch s (tombstone now receipt cmd grantID rvn)) (\<lambda>(p, s1). Inr ((p, False), s1))
      | Some c \<Rightarrow>
          if gp_TenantID c \<noteq> cmd_TenantID cmd then Inl ErrNotFound
          else if gp_RevocationState c \<noteq> ''none'' then Inr ((c, True), s)
          else chk (CountGrantSenders s grantID rvn) (\<lambda>(inFlight, unknown).
               let p = c\<lparr>gp_RevocationState := ''fenced'', gp_FencedAt := Some now,
                         gp_RevocationCommandID := cmd_CommandID cmd, gp_RevocationRequestDigest := cmd_RequestDigest cmd,
                         gp_InFlightCalls := inFlight, gp_UnknownCalls := unknown\<rparr>
               in chk (UpdateGrantRevocation s p) (\<lambda>s1. Inr ((p, False), s1))))"

definition Revocation :: "instant \<Rightarrow> string \<Rightarrow> u64 \<Rightarrow> db \<Rightarrow> err + (grant_policy \<times> db)" where
  "Revocation now grantID rvn s =
     chk (found (LockGrantPolicy s grantID rvn)) (\<lambda>c.
       if gp_RevocationState c = ''none'' then Inl ErrNotFound
       else if gp_RevocationState c = ''converged'' then Inr (c, s)
       else chk (CountGrantSenders s grantID rvn) (\<lambda>(inFlight, unknown).
            let p0 = c\<lparr>gp_InFlightCalls := inFlight, gp_UnknownCalls := unknown\<rparr>;
                p = (if inFlight = 0 \<and> unknown = 0
                     then p0\<lparr>gp_RevocationState := ''converged'', gp_ConvergedAt := Some now\<rparr>
                     else p0\<lparr>gp_RevocationState := ''converging''\<rparr>)
            in chk (UpdateGrantRevocation s p) (\<lambda>s1. Inr (p, s1))))"

end
