(* ===== verification/Service_Run.thy ===== *)
theory Service_Run
  imports Pools Finance_Admin Grants_Service
begin

text \<open>
  The services as one transition system: any interleaving of the transactions of the dispatch
  service, the financial settlement, the operator commands and the grant barrier, with every other
  transaction of the program between them. An admission is two transactions; the record its
  first answers is kept in \<open>w_pending\<close>, and \<open>w_granted\<close> lists the dispatches whose caller was told
  that it may send.
\<close>

section \<open>The dispatch table only advances\<close>

text \<open>\<open>y\<close> is a later state of the row \<open>x\<close>; a permission is held (authorized or unknown) only if it was
  before or if the step granted it.\<close>

abbreviation permission_held :: "dispatch \<Rightarrow> bool" where
  "permission_held d \<equiv> d_State d = DispatchAuthorized \<or> d_State d = DispatchUnknown"

definition later :: "string option \<Rightarrow> dispatch \<Rightarrow> dispatch \<Rightarrow> bool" where
  "later g x y \<longleftrightarrow> d_ID y = d_ID x \<and> recordBinding y = recordBinding x \<and>
     (d_State y = DispatchPrepared \<longrightarrow> d_State x = DispatchPrepared) \<and>
     (permission_held y \<longrightarrow> permission_held x \<or> g = Some (d_ID y))"

lemma later_refl [simp]: "later g x x"
  by (auto simp: later_def)

lemma later_trans: "later g x y \<Longrightarrow> later g y z \<Longrightarrow> later g x z"
  by (auto simp: later_def)

definition advances :: "string option \<Rightarrow> db \<Rightarrow> db \<Rightarrow> bool" where
  "advances g s s' \<longleftrightarrow> (\<exists>rows new. db_dispatches s' = rows @ new \<and> list_all2 (later g) (db_dispatches s) rows \<and>
     (\<forall>d \<in> set new. \<not> permission_held d))"

lemma advances_insert: "db_dispatches s' = db_dispatches s @ new \<Longrightarrow> \<forall>d \<in> set new. \<not> permission_held d \<Longrightarrow> advances g s s'"
  unfolding advances_def by (intro exI [of _ "db_dispatches s"] exI [of _ new]) (simp add: list_all2_same)

lemma advances_same: "db_dispatches s' = db_dispatches s \<Longrightarrow> advances g s s'"
  by (rule advances_insert [of _ _ "[]"]) simp_all

lemma advances_same_trans: "advances g s s' \<Longrightarrow> db_dispatches s'' = db_dispatches s' \<Longrightarrow> advances g s s''"
  "advances g s' s'' \<Longrightarrow> db_dispatches s' = db_dispatches s \<Longrightarrow> advances g s s''"
  by (simp_all add: advances_def)

lemma advances_trans:
  assumes "advances None s s'" and "advances None s' s''"
  shows "advances None s s''"
proof -
  from assms(1) obtain rows new where A: "db_dispatches s' = rows @ new" "list_all2 (later None) (db_dispatches s) rows"
    "\<forall>d \<in> set new. \<not> permission_held d" by (auto simp: advances_def)
  from assms(2) obtain rows2 new2 where B: "db_dispatches s'' = rows2 @ new2" "list_all2 (later None) (rows @ new) rows2"
    "\<forall>d \<in> set new2. \<not> permission_held d" by (auto simp: advances_def A(1))
  from B(2) obtain us vs where C: "rows2 = us @ vs" "list_all2 (later None) rows us" "list_all2 (later None) new vs"
    by (auto simp: list_all2_append1)
  have "list_all2 (later None) (db_dispatches s) us" using list_all2_trans [OF _ A(2) C(2)] later_trans by blast
  moreover have "\<forall>d \<in> set vs. \<not> permission_held d"
    using list_all2_source [OF C(3)] A(3) by (auto simp: later_def)
  ultimately show ?thesis unfolding advances_def using B(1,3) C(1) by (intro exI [of _ us] exI [of _ "vs @ new2"]) auto
qed

text \<open>How the rows before and after a transaction correspond.\<close>

lemma advances_forward: "advances g s s' \<Longrightarrow> x \<in> set (db_dispatches s) \<Longrightarrow> \<exists>y \<in> set (db_dispatches s'). later g x y"
  unfolding advances_def by (metis UnI1 list_all2_target set_append)

lemma advances_backward:
  "advances g s s' \<Longrightarrow> y \<in> set (db_dispatches s') \<Longrightarrow> permission_held y \<Longrightarrow> \<exists>x \<in> set (db_dispatches s). later g x y"
  unfolding advances_def by (auto dest: list_all2_source)

lemma evolves_binding: "evolves d0 d \<Longrightarrow> recordBinding d = recordBinding d0"
proof -
  assume "evolves d0 d"
  then have "recordBinding (dispatch_columns d d0) = recordBinding d" by (simp add: evolves_def)
  then show ?thesis by (simp add: recordBinding_def dispatch_columns_def)
qed

lemma later_steps:
  "Consume d0 version = Inr d \<Longrightarrow> later (Some (d_ID d)) d0 d" "Dispatch_Deny d0 code = Inr d \<Longrightarrow> later g d0 d"
  "Dispatch_Observe d0 out rep at = Inr (d, settled) \<Longrightarrow> d_State d0 \<notin> {DispatchPrepared, DispatchDenied, DispatchConfirmedNotSent} \<Longrightarrow> later g d0 d"
  "Dispatch_ConfirmNotSent d0 ref charged rep = Inr d \<Longrightarrow> later g d0 d"
  "later g d0 (d0\<lparr>d_Inventory := i\<rparr>)"
  by (auto simp: Consume_def Dispatch_Deny_def Dispatch_Observe_def Dispatch_ConfirmNotSent_def later_def recordBinding_def
      split: if_splits)

lemma advances_update:
  assumes "distinct (map d_ID (db_dispatches s))" and "lookup_by d_ID (d_ID d) (db_dispatches s) = Some d0" and "evolves d0 d"
    and "later g d0 d"
  shows "advances g s (UpdateDispatch s d)"
proof -
  have "later g x (if d_ID x = d_ID d then d else x)" if "x \<in> set (db_dispatches s)" for x
  proof (cases "d_ID x = d_ID d")
    case True
    then have "x = d0" using lookup_by_mem [OF assms(1) that] assms(2) by simp
    then show ?thesis using assms(4) True by simp
  qed simp
  then have "list_all2 (later g) (db_dispatches s) (db_dispatches (UpdateDispatch s d))"
    unfolding UpdateDispatch_rows [OF assms(1-3)] update_by_def by (simp add: list_all2_conv_all_nth)
  then show ?thesis unfolding advances_def by (intro exI [of _ "db_dispatches (UpdateDispatch s d)"] exI [of _ "[]"]) simp
qed

lemma dispatch_ids: "ledger_inv s \<Longrightarrow> distinct (map d_ID (db_dispatches s))"
  by (simp add: ledger_inv_def dispatch_inv_def)

text \<open>What the first transaction of a new call does to the dispatches.\<close>

lemma prepare_fresh_table:
  assumes tx: "prepare_fresh sv now new_id cost_id authority tenantID req s = Inr ((d, go), s')"
  obtains "s' = s" "\<not> go" | "InsertDispatch s d = Inr s'" "\<not> go" "d_State d = DispatchDenied"
    | b s1 c where "go" "InsertDispatch (budget_save s b) d = Inr s1" "s' = InsertCostEntry s1 c" "d_State d = DispatchPrepared"
proof -
  from tx obtain ac0 ops at where
    ctx: "admissionContext sv s (requestBinding req) tenantID authority now = Inr (ac0, ops, at)"
    by (auto simp: prepare_fresh_def fallible)
  define ac where "ac = ac0\<lparr>ac_Price := sv_Price sv (rq_Kind req) (rq_RouteID req) now\<rparr>"
  show thesis
  proof (cases "CheckAdmission req ac True")
    case (Some e)
    with tx ctx obtain code where e: "e = Denial code"
      by (cases e) (auto simp: prepare_fresh_def ac_def)
    from tx ctx Some e that(1,2) show thesis
      by (auto simp: prepare_fresh_def ac_def [symmetric] Let_def fallible DeniedDispatch_def split: if_splits)
  next
    case None
    from tx ctx None that(3) show thesis
      by (auto simp: prepare_fresh_def ac_def [symmetric] Let_def fallible NewDispatch_def)
  qed
qed

lemma admit_prepare_advances:
  assumes "admit_prepare sv now new_id cost_id authority tenantID req s = Inr ((d, go), s')"
  shows "advances None s s' \<and> (go \<longrightarrow> d \<in> set (db_dispatches s'))"
proof (cases "GetDispatchByCall s tenantID (rq_Owner req) (rq_CallID req)")
  case (Some x)
  then show ?thesis using assms
    by (auto simp: admit_prepare_def fallible advances_same GetDispatchByCall_def dest: lookup_by_SomeD)
next
  case None
  with assms have tx: "prepare_fresh sv now new_id cost_id authority tenantID req s = Inr ((d, go), s')"
    by (simp add: admit_prepare_def)
  then show ?thesis
  proof (cases rule: prepare_fresh_table)
    case 1
    then show ?thesis by (simp add: advances_same)
  next
    case 2
    then show ?thesis using advances_insert [of s' s "[d]"] by (simp add: InsertDispatch_Inr)
  next
    case (3 b s1 c)
    then have "db_dispatches s' = db_dispatches s @ [d]" by (simp add: InsertDispatch_Inr)
    then show ?thesis using advances_insert [of s' s "[d]"] 3(4) by simp
  qed
qed


text \<open>What the second transaction of an admission went through.\<close>

lemma admit_consume_table:
  assumes tx: "admit_consume sv now authority tenantID req d version s = Inr ((d', ok), s')"
  obtains "s' = s" "\<not> ok"
    | locked code b where "\<not> ok" "lookup_by d_ID (d_ID d) (db_dispatches s) = Some locked" "Dispatch_Deny locked code = Inr d'"
        "s' = UpdateDispatch (budget_save s b) d'"
    | locked ac0 ops at frozen where "ok" "lookup_by d_ID (d_ID d) (db_dispatches s) = Some locked" "d_State locked = DispatchPrepared"
        "Dispatch_Binds locked tenantID req None = None"
        "admissionContext sv s (recordBinding d) tenantID authority now = Inr (ac0, ops, at)"
        "sv_PriceByRevision sv (d_MeterRevision locked) = Some frozen"
        "CheckAdmission req (ac0\<lparr>ac_Price := Some frozen\<rparr>) False = None"
        "Consume locked version = Inr d'" "s' = UpdateDispatch s d'"
proof -
  from tx obtain ac0 ops at locked where
    ctx: "admissionContext sv s (recordBinding d) tenantID authority now = Inr (ac0, ops, at)"
    and lock: "lookup_by d_ID (d_ID d) (db_dispatches s) = Some locked"
    and binds: "Dispatch_Binds locked tenantID req None = None"
    by (auto simp: admit_consume_def fallible LockDispatch_def)
  show thesis
  proof (cases "d_State locked = DispatchPrepared")
    case False
    then show thesis using that(1) tx ctx lock binds by (auto simp: admit_consume_def LockDispatch_def)
  next
    case True
    with tx ctx lock binds obtain frozen where fp: "sv_PriceByRevision sv (d_MeterRevision locked) = Some frozen"
      by (auto simp: admit_consume_def LockDispatch_def split: option.splits)
    define ac where "ac = ac0\<lparr>ac_Price := Some frozen\<rparr>"
    show thesis
    proof (cases "CheckAdmission req ac False")
      case None
      with tx ctx lock binds True fp have "Consume locked version = Inr d'" "s' = UpdateDispatch s d'" "ok"
        by (auto simp: admit_consume_def LockDispatch_def ac_def fallible)
      with that(3) lock True binds ctx fp None show thesis by (simp add: ac_def)
    next
      case (Some e)
      with tx ctx lock binds True fp obtain code where e: "e = Denial code"
        by (cases e) (auto simp: admit_consume_def LockDispatch_def ac_def)
      with Some tx ctx lock binds True fp obtain b where
        "Dispatch_Deny locked code = Inr d'" "s' = UpdateDispatch (budget_save s b) d'" "\<not> ok"
        by (auto simp: admit_consume_def LockDispatch_def ac_def fallible)
      with that(2) lock show thesis by blast
    qed
  qed
qed

lemma advances_save:
  assumes "ledger_inv s" and "lookup_by d_ID i (db_dispatches s) = Some d0" and "evolves d0 d" and "later g d0 d"
  shows "advances g s (UpdateDispatch (budget_save s b) d)" "advances g s (UpdateDispatch s d)"
proof -
  have row: "lookup_by d_ID (d_ID d) (db_dispatches s) = Some d0"
    using lookup_by_SomeD [OF assms(2)] assms(2) evolves_fixed(1) [OF assms(3)] by simp
  show "advances g s (UpdateDispatch s d)" by (rule advances_update [OF dispatch_ids [OF assms(1)] row assms(3,4)])
  have "advances g (budget_save s b) (UpdateDispatch (budget_save s b) d)"
    by (rule advances_update [OF _ _ assms(3,4)]) (use dispatch_ids [OF assms(1)] row in simp_all)
  then show "advances g s (UpdateDispatch (budget_save s b) d)" by (rule advances_same_trans(2)) simp
qed

lemma admit_consume_advances:
  assumes tx: "admit_consume sv now authority tenantID req d version s = Inr ((d', ok), s')" and inv: "ledger_inv s"
  shows "advances (if ok then Some (d_ID d') else None) s s'"
  using tx
proof (cases rule: admit_consume_table)
  case 1
  then show ?thesis by (simp add: advances_same)
next
  case (2 locked code b)
  then show ?thesis using advances_save(1) [OF inv 2(2) evolves_steps(2) later_steps(2)] by simp
next
  case (3 locked ac0 ops at frozen)
  then show ?thesis using advances_save(2) [OF inv 3(2) evolves_steps(1) later_steps(1)] by simp
qed

lemma markInventoryUncertain_advances:
  assumes "markInventoryUncertain dispatchID s = Inr s'" and "ledger_inv s"
  shows "advances None s s'"
proof -
  from assms(1) obtain d0 where row: "lookup_by d_ID dispatchID (db_dispatches s) = Some d0"
    and s': "s' = s \<or> s' = UpdateDispatch s (d0\<lparr>d_Inventory := InventoryUncertain\<rparr>)"
    by (auto simp: markInventoryUncertain_def LockDispatch_def fallible split: if_splits)
  from s' advances_save(2) [OF assms(2) row evolves_steps(5) later_steps(5)] show ?thesis by (auto simp: advances_same)
qed

lemma Observe_advances:
  assumes tx: "Observe sv now obs_id cost_id rdr dispatchID src sq out usg nativeRef observedAt s = Inr ((d, ex), s')"
    and inv: "ledger_inv s" and ok: "prices_ok sv"
  shows "advances None s s'"
proof (cases "GetUsageObservation s dispatchID src sq")
  case (Some x)
  then have "s' = s" using tx by (auto simp: Observe_def fallible Let_def split: option.splits if_splits)
  then show ?thesis by (simp add: advances_same)
next
  case None
  from Observe_Inr [OF tx None] obtain d0 p ops settled x b1 s2 b2 where
    row: "lookup_by d_ID dispatchID (db_dispatches s) = Some d0"
    and obs: "Dispatch_Observe d0 out (usg \<noteq> None) observedAt = Inr (d, settled)"
    and m: "meter p obs_id cost_id d now (lockBudget s (d_OperationID d0)) (s\<lparr>db_observations := db_observations s @ [x]\<rparr>) = Inr (b1, s2)"
    and s': "s' = settled_rows ops d settled now (UpdateDispatch (budget_save s2 b2) d)"
    by metis
  have st: "d_State d0 \<notin> {DispatchPrepared, DispatchDenied, DispatchConfirmedNotSent}"
    using tx None row by (auto simp: Observe_def fallible Let_def LockDispatch_def split: option.splits if_splits)
  have same: "db_dispatches s2 = db_dispatches s" using m by (auto simp: meter_def fallible Let_def split: if_splits)
  have i: "d_ID d = dispatchID" using evolves_fixed(1) [OF evolves_steps(3) [OF obs]] lookup_by_SomeD [OF row] by simp
  have "advances None (budget_save s2 b2) (UpdateDispatch (budget_save s2 b2) d)"
    by (rule advances_update [OF _ _ evolves_steps(3) [OF obs] later_steps(3) [OF obs st]])
      (use dispatch_ids [OF inv] row i in \<open>simp_all add: same\<close>)
  from advances_same_trans(1) [OF advances_same_trans(2) [OF this]] show ?thesis unfolding s' by (simp add: same)
qed


lemma ConfirmNotSent_advances:
  assumes "ConfirmNotSent verify cmd owner dispatchID evidenceRef evidenceDigest now s = Inr (r, s')" and inv: "ledger_inv s"
  shows "advances None s s'"
  using assms(1)
proof (cases rule: ConfirmNotSent_Inr)
  case 1
  then show ?thesis by (simp add: advances_same)
next
  case (2 d0)
  from 2(2,1) show ?thesis
  proof (cases rule: ConfirmNotSentLocked_Inr)
    case 1
    then show ?thesis by (simp add: advances_same)
  next
    case c: (2 ops d b charged rep)
    have "advances None s (UpdateDispatch (budget_save s b) d)"
      by (rule advances_save(1) [OF inv 2(1) evolves_steps(4) [OF c(1)] later_steps(4) [OF c(1)]])
    then show ?thesis unfolding c(4) by (rule advances_same_trans(1)) simp
  qed
qed

lemma deny_each_advances:
  assumes "deny_each ds b s = Inr (b', s')" and "distinct (map d_ID (db_dispatches s))" and "distinct (map d_ID ds)"
    and "\<And>d. d \<in> set ds \<Longrightarrow> lookup_by d_ID (d_ID d) (db_dispatches s) = Some d"
  shows "advances None s s'"
  using assms
proof (induction ds arbitrary: b s)
  case Nil
  then show ?case by (simp add: advances_same)
next
  case (Cons d ds)
  from Cons.prems(1) obtain d' b1 where
    d': "Dispatch_Deny d ''ATTEMPT_CLOSED'' = Inr d'" and rest: "deny_each ds b1 (UpdateDispatch s d') = Inr (b', s')"
    by (auto simp: fallible)
  note ev = evolves_steps(2) [OF d']
  have row: "lookup_by d_ID (d_ID d') (db_dispatches s) = Some d" using Cons.prems(4) [of d] evolves_fixed(1) [OF ev] by simp
  have rows: "lookup_by d_ID (d_ID x) (db_dispatches (UpdateDispatch s d')) = Some x" if x: "x \<in> set ds" for x
  proof -
    have "d_ID x \<in> d_ID ` set ds" using x by (rule imageI)
    then have "d_ID x \<noteq> d_ID d'" using Cons.prems(3) evolves_fixed(1) [OF ev] by (metis distinct.simps(2) list.simps(9) set_map)
    then show ?thesis using x Cons.prems(4) lookup_UpdateDispatch_other [OF Cons.prems(2) row ev] by simp
  qed
  have "advances None (UpdateDispatch s d') s'"
    by (rule Cons.IH [OF rest _ _ rows]) (use Cons.prems(2,3) in simp_all)
  then show ?case using advances_trans advances_update [OF Cons.prems(2) row ev later_steps(2) [OF d']] by blast
qed

lemma prepared_rows:
  assumes "distinct (map d_ID (db_dispatches s))"
  shows "distinct (map d_ID (ListPreparedDispatchesByAttempt s attemptID))"
    and "d \<in> set (ListPreparedDispatchesByAttempt s attemptID) \<Longrightarrow> lookup_by d_ID (d_ID d) (db_dispatches s) = Some d"
  using assms lookup_by_mem [OF assms]
  by (auto simp: ListPreparedDispatchesByAttempt_def distinct_map inj_on_def distinct_filter)

lemma deny_prepared_advances:
  assumes "deny_prepared operationID attemptID s = Inr s'" and "ledger_inv s"
  shows "advances None s s'"
proof -
  note ids = dispatch_ids [OF assms(2)]
  from assms(1) consider "s' = s"
    | b s1 where "deny_each (ListPreparedDispatchesByAttempt s attemptID) (lockBudget s operationID) s = Inr (b, s1)" "s' = budget_save s1 b"
    by (auto simp: deny_prepared_def Let_def fallible split: if_splits)
  then show ?thesis
  proof cases
    case 1
    then show ?thesis by (simp add: advances_same)
  next
    case (2 b s1)
    have "advances None s s1" by (rule deny_each_advances [OF 2(1) ids prepared_rows [OF ids]])
    then show ?thesis unfolding 2(2) by (rule advances_same_trans(1)) simp
  qed
qed


section \<open>What the dispatch transactions leave alone\<close>

definition aside where
  "aside s = (books s, db_grants s, db_prices s)"

lemma save_row_fixed: "al_ID (save_row as x) = al_ID x \<and> al_PoolID (save_row as x) = al_PoolID x \<and> al_Amount (save_row as x) = al_Amount x"
  unfolding save_row_def by (induction as arbitrary: x) simp_all

lemma foldl_caps_aside:
  "db_pools (foldl UpdateCostCapCounters s cs) = db_pools s" "db_returns (foldl UpdateCostCapCounters s cs) = db_returns s"
  "db_grants (foldl UpdateCostCapCounters s cs) = db_grants s" "db_prices (foldl UpdateCostCapCounters s cs) = db_prices s"
  by (induction cs arbitrary: s) (simp_all add: UpdateCostCapCounters_def)

lemma aside_budget_save [simp]: "aside (budget_save s b) = aside s"
  unfolding aside_def books_def budget_save_allocations
  by (simp add: save_row_fixed) (simp add: budget_save_def foldl_UpdateAllocation foldl_caps_aside)

lemma aside_rows [simp]:
  "aside (UpdateDispatch s d) = aside s" "aside (InsertCostEntry s c) = aside s"
  "aside (s\<lparr>db_observations := x\<rparr>) = aside s" "aside (s\<lparr>db_dispatches := y\<rparr>) = aside s"
  "aside (append_event s ev) = aside s" "aside (UpdateOperation s ops) = aside s"
  by (simp_all add: aside_def books_def UpdateDispatch_def InsertCostEntry_def append_event_def UpdateOperation_def)

lemma aside_settleFinance [simp]: "aside (settled_rows ops d b now s) = aside s"
  by (simp add: settled_rows_def split: prod.split)

lemma aside_InsertDispatch: "InsertDispatch s d = Inr s' \<Longrightarrow> aside s' = aside s"
  by (simp add: InsertDispatch_Inr)

lemma admit_prepare_aside:
  assumes "admit_prepare sv now new_id cost_id authority tenantID req s = Inr ((d, go), s')"
  shows "aside s' = aside s"
proof (cases "GetDispatchByCall s tenantID (rq_Owner req) (rq_CallID req)")
  case (Some x)
  then show ?thesis using assms by (auto simp: admit_prepare_def fallible)
next
  case None
  with assms have "prepare_fresh sv now new_id cost_id authority tenantID req s = Inr ((d, go), s')" by (simp add: admit_prepare_def)
  then show ?thesis by (cases rule: prepare_fresh_table) (auto dest: aside_InsertDispatch)
qed

lemma admit_consume_aside:
  "admit_consume sv now authority tenantID req d version s = Inr ((d', ok), s') \<Longrightarrow> aside s' = aside s"
  by (erule admit_consume_table) simp_all

lemma Observe_aside:
  assumes tx: "Observe sv now obs_id cost_id rdr dispatchID src sq out usg nativeRef observedAt s = Inr ((d, ex), s')"
  shows "aside s' = aside s"
proof (cases "GetUsageObservation s dispatchID src sq")
  case (Some x)
  then show ?thesis using tx by (auto simp: Observe_def fallible Let_def split: option.splits if_splits)
next
  case None
  from tx None show ?thesis
  proof (cases rule: Observe_Inr)
    case (1 d0 p ops settled x b1 s2 b2)
    have "aside s2 = aside s" using 1(6) by (auto simp: meter_def fallible Let_def split: if_splits)
    then show ?thesis by (simp add: 1(8))
  qed
qed

lemma ConfirmNotSent_aside:
  assumes "ConfirmNotSent verify cmd owner dispatchID evidenceRef evidenceDigest now s = Inr (r, s')"
  shows "aside s' = aside s"
  using assms
proof (cases rule: ConfirmNotSent_Inr)
  case (2 d0)
  from 2(2,1) show ?thesis by (cases rule: ConfirmNotSentLocked_Inr) simp_all
qed simp

lemma markInventoryUncertain_aside: "markInventoryUncertain dispatchID s = Inr s' \<Longrightarrow> aside s' = aside s"
  by (auto simp: markInventoryUncertain_def fallible split: if_splits)

lemma deny_each_aside: "deny_each ds b s = Inr (b', s') \<Longrightarrow> aside s' = aside s"
proof (induction ds arbitrary: b s)
  case (Cons d ds)
  from Cons.prems obtain d' b1 where "deny_each ds b1 (UpdateDispatch s d') = Inr (b', s')" by (auto simp: fallible)
  from Cons.IH [OF this] show ?case by simp
qed simp

lemma deny_prepared_aside: "deny_prepared operationID attemptID s = Inr s' \<Longrightarrow> aside s' = aside s"
  by (auto simp: deny_prepared_def Let_def fallible dest: deny_each_aside split: if_splits)

lemma aside_pool_inv: "aside s' = aside s \<Longrightarrow> pool_inv s \<Longrightarrow> pool_inv s'"
  by (rule pool_inv_books) (simp_all add: aside_def)


section \<open>The transition system\<close>

record world =
  w_db :: db
  w_pending :: "dispatch list"
  w_granted :: "string list"

text \<open>Every other transaction of the program: it may change operations, events, attempts, instances,
  launches, stages, effects and closures, and keeps the attempts it finds with their operations.\<close>

definition elsewhere :: "db \<Rightarrow> db \<Rightarrow> bool" where
  "elsewhere s s' \<longleftrightarrow> aside s' = aside s \<and> db_dispatches s' = db_dispatches s \<and> db_allocations s' = db_allocations s \<and>
     db_entries s' = db_entries s \<and>
     (\<forall>i at. lookup_by at_ID i (db_attempts s) = Some at \<longrightarrow>
        (\<exists>at'. lookup_by at_ID i (db_attempts s') = Some at' \<and> at_OperationID at' = at_OperationID at))"

text \<open>A transaction that fails commits nothing and is no step. \<open>RecordFunding\<close>, the only caller of
  \<open>Allocate\<close>, funds an operation before it has an attempt, so before it holds or spends anything.\<close>

inductive svc_step :: "service \<Rightarrow> world \<Rightarrow> world \<Rightarrow> bool" for sv where
  prepare:
    "admit_prepare sv now new_id cost_id authority tenantID req (w_db w) = Inr ((d, go), s') \<Longrightarrow> wf_money (rq_MaxExposure req) \<Longrightarrow>
     svc_step sv w (w\<lparr>w_db := s', w_pending := (if go then d # w_pending w else w_pending w)\<rparr>)"
| consume:
    "d \<in> set (w_pending w) \<Longrightarrow>
     admit_consume sv now authority tenantID req d version (w_db w) = Inr ((d', ok), s') \<Longrightarrow>
     svc_step sv w (w\<lparr>w_db := s', w_granted := (if ok then d_ID d' # w_granted w else w_granted w)\<rparr>)"
| uncertain:
    "markInventoryUncertain dispatchID (w_db w) = Inr s' \<Longrightarrow> svc_step sv w (w\<lparr>w_db := s'\<rparr>)"
| observe:
    "Observe sv now obs_id cost_id rdr dispatchID src sq out usg nativeRef observedAt (w_db w) = Inr ((d, ex), s') \<Longrightarrow>
     svc_step sv w (w\<lparr>w_db := s'\<rparr>)"
| confirm:
    "ConfirmNotSent verify cmd owner dispatchID evidenceRef evidenceDigest now (w_db w) = Inr (r, s') \<Longrightarrow>
     svc_step sv w (w\<lparr>w_db := s'\<rparr>)"
| close:
    "lookup_by at_ID attemptID (db_attempts (w_db w)) = Some at \<Longrightarrow> deny_prepared (at_OperationID at) attemptID (w_db w) = Inr s' \<Longrightarrow>
     svc_step sv w (w\<lparr>w_db := s'\<rparr>)"
| allocate:
    "Allocate fresh_id now sc operationID amount (w_db w) = Inr (a, s') \<Longrightarrow> wf_money amount \<Longrightarrow>
     held (w_db w) operationID = 0 \<Longrightarrow> spent (w_db w) operationID = 0 \<Longrightarrow> svc_step sv w (w\<lparr>w_db := s'\<rparr>)"
| settle:
    "SettleFinance now operationID (w_db w) = Inr (b, s') \<Longrightarrow> svc_step sv w (w\<lparr>w_db := s'\<rparr>)"
| create_pool:
    "CreatePool new_id cmd sc sp (w_db w) = Inr (p, s') \<Longrightarrow> wf_money (sp_Cap sp) \<Longrightarrow> svc_step sv w (w\<lparr>w_db := s'\<rparr>)"
| adjust_pool:
    "AdjustPool cmd sc poolID expected capAmount (w_db w) = Inr (q, s') \<Longrightarrow> wf_money capAmount \<Longrightarrow> svc_step sv w (w\<lparr>w_db := s'\<rparr>)"
| set_cap:
    "SetCostCap new_id now cmd sc level tenantID projectID capAmount expected' (w_db w) = Inr (c, s') \<Longrightarrow>
     svc_step sv w (w\<lparr>w_db := s'\<rparr>)"
| publish_price:
    "PublishPrice digest_of now cmd sc p' (w_db w) = Inr (pr, s') \<Longrightarrow> svc_step sv w (w\<lparr>w_db := s'\<rparr>)"
| withdraw_price:
    "WithdrawPrice now cmd sc rvn (w_db w) = Inr (pr, s') \<Longrightarrow> svc_step sv w (w\<lparr>w_db := s'\<rparr>)"
| register:
    "Register now receipt epoch cmd reg (w_db w) = Inr (gp, s') \<Longrightarrow> svc_step sv w (w\<lparr>w_db := s'\<rparr>)"
| begin_revocation:
    "BeginRevocation now receipt epoch cmd grantID rvn' (w_db w) = Inr (gp, s') \<Longrightarrow> svc_step sv w (w\<lparr>w_db := s'\<rparr>)"
| revocation:
    "Revocation now grantID rvn' (w_db w) = Inr (g, s') \<Longrightarrow> svc_step sv w (w\<lparr>w_db := s'\<rparr>)"
| other:
    "elsewhere (w_db w) s' \<Longrightarrow> svc_step sv w (w\<lparr>w_db := s'\<rparr>)"

inductive svc_run :: "service \<Rightarrow> world \<Rightarrow> world \<Rightarrow> bool" for sv where
  refl: "svc_run sv w w"
| step: "svc_run sv w w' \<Longrightarrow> svc_step sv w' w'' \<Longrightarrow> svc_run sv w w''"

section \<open>The invariant of the services\<close>

definition world_inv :: "world \<Rightarrow> bool" where
  "world_inv w \<longleftrightarrow> ledger_inv (w_db w) \<and> pool_inv (w_db w) \<and> (\<forall>d \<in> set (w_pending w). snapshot (w_db w) d) \<and>
     distinct (w_granted w) \<and>
     (\<forall>i \<in> set (w_granted w). \<exists>x \<in> set (db_dispatches (w_db w)). d_ID x = i \<and> d_State x \<noteq> DispatchPrepared)"

lemma snapshot_advances: "advances g s s' \<Longrightarrow> snapshot s d \<Longrightarrow> snapshot s' d"
proof -
  assume a: "advances g s s'" and "snapshot s d"
  then obtain x where x: "x \<in> set (db_dispatches s)" "d_ID x = d_ID d" "recordBinding x = recordBinding d"
    by (auto simp: snapshot_def)
  from advances_forward [OF a x(1)] obtain y where "y \<in> set (db_dispatches s')" "d_ID y = d_ID x" "recordBinding y = recordBinding x"
    by (auto simp: later_def)
  then show "snapshot s' d" using x(2,3) unfolding snapshot_def by (intro bexI [of _ y]) simp_all
qed

lemma world_inv_move:
  assumes inv: "world_inv w" and A: "advances g (w_db w) s'" "ledger_inv s'" "pool_inv s'"
    and P: "\<forall>d \<in> set ps. d \<in> set (w_pending w) \<or> snapshot s' d"
    and G: "distinct gs" "\<forall>i \<in> set gs. i \<in> set (w_granted w) \<or> (\<exists>x \<in> set (db_dispatches s'). d_ID x = i \<and> d_State x \<noteq> DispatchPrepared)"
  shows "world_inv \<lparr>w_db = s', w_pending = ps, w_granted = gs\<rparr>"
proof -
  have "\<exists>x \<in> set (db_dispatches s'). d_ID x = i \<and> d_State x \<noteq> DispatchPrepared" if i: "i \<in> set (w_granted w)" for i
  proof -
    from inv i obtain x where x: "x \<in> set (db_dispatches (w_db w))" "d_ID x = i" "d_State x \<noteq> DispatchPrepared"
      by (auto simp: world_inv_def)
    from advances_forward [OF A(1) x(1)] x(2,3) show ?thesis unfolding later_def by metis
  qed
  moreover have "snapshot s' d" if "d \<in> set (w_pending w)" for d
    using inv that snapshot_advances [OF A(1)] by (simp add: world_inv_def)
  ultimately show ?thesis using A(2,3) P G by (auto simp: world_inv_def)
qed

lemma world_inv_db:
  assumes "world_inv w" and "advances None (w_db w) s'" "ledger_inv s'" "pool_inv s'"
  shows "world_inv (w\<lparr>w_db := s'\<rparr>)"
proof -
  have "w\<lparr>w_db := s'\<rparr> = \<lparr>w_db = s', w_pending = w_pending w, w_granted = w_granted w\<rparr>" by simp
  then show ?thesis using world_inv_move [OF assms, of "w_pending w" "w_granted w"] assms(1) by (simp add: world_inv_def)
qed


subsection \<open>Allocation and settlement\<close>

definition same_ledger :: "db \<Rightarrow> db \<Rightarrow> bool" where
  "same_ledger s s' \<longleftrightarrow> db_dispatches s' = db_dispatches s \<and> db_allocations s' = db_allocations s \<and>
     db_entries s' = db_entries s \<and> db_attempts s' = db_attempts s"

lemma same_ledger_keeps: "same_ledger s s' \<Longrightarrow> ledger_inv s \<Longrightarrow> ledger_inv s' \<and> advances g s s'"
  unfolding same_ledger_def using ledger_inv_tables advances_same by blast

lemma ledger_wf: "ledger_inv s \<Longrightarrow> \<forall>a \<in> set (db_allocations s). wf_alloc a"
  by (simp add: ledger_inv_def alloc_inv_def)

lemma Allocate_ledger:
  assumes tx: "Allocate new_id now sc operationID amount s = Inr (r, s')" and inv: "ledger_inv s" "pool_inv s" and wf: "wf_money amount"
    and none: "held s operationID = 0" "spent s operationID = 0"
  shows "ledger_inv s' \<and> advances g s s' \<and> db_grants s' = db_grants s"
proof -
  obtain as ex where r: "r = (as, ex)" by (cases r)
  have dp: "distinct (map bp_ID (db_pools s))" using inv(2) by (simp add: pool_inv_def)
  show ?thesis
  proof (cases ex)
    case True
    then have "s' = s" using tx unfolding r Allocate_def
      by (auto simp: chk_Inr_iff Let_def neq_Nil_conv split: if_splits list.splits prod.splits)
    then show ?thesis using inv(1) by (simp add: advances_same)
  next
    case False
    let ?ps = "ListCurrentPools s (m_Currency amount) (sc_TenantID sc) (sc_ActorID sc) now"
    from tx [unfolded r] False dp show ?thesis
    proof (cases rule: Allocate_Inr)
      case (1 ops qs fresh o1 ev s1)
      have ps: "distinct (map bp_ID ?ps)" "\<forall>p \<in> set ?ps. wf_pool p"
        using inv(2) by (auto simp: ListCurrentPools_def pool_inv_def distinct_map inj_on_def distinct_filter)
      note E = allocate_each_effect [OF 1(2) wf ps]
      note I = insert_each_Inr [OF 1(3)]
      have T: "db_allocations s' = db_allocations s @ fresh" "db_dispatches s' = db_dispatches s" "db_entries s' = db_entries s"
          "db_attempts s' = db_attempts s" "db_grants s' = db_grants s"
        using I by (simp_all add: 1(4) append_event_def UpdateOperation_def foldl_UpdatePool)
      have hs: "held s' i = held s i" "spent s' i = spent s i" for i by (simp_all add: held_def spent_def T)
      have "distinct (map al_ID (db_allocations s'))" using I inv(2) by (simp add: T foldl_UpdatePool pool_inv_def)
      moreover have "\<forall>a \<in> set (db_allocations s'). wf_alloc a \<and> al_Reserved a = held s' (al_OperationID a) \<and>
          al_Consumed a = spent s' (al_OperationID a)"
        using inv(1) E none by (auto simp: T hs ledger_inv_def alloc_inv_def)
      ultimately have "alloc_inv s'" by (simp add: alloc_inv_def)
      then have "ledger_inv s'" using inv(1) charges_inv_tables [of s s'] by (simp add: ledger_inv_def dispatch_inv_def T)
      then show ?thesis using T advances_same by blast
    qed
  qed
qed

lemma SettleFinance_ledger:
  assumes tx: "SettleFinance now operationID s = Inr (r, s')" and inv: "ledger_inv s" "pool_inv s"
  shows "same_ledger s s' \<and> db_grants s' = db_grants s"
proof -
  obtain o1 dn where r: "r = (o1, dn)" by (cases r)
  from tx [unfolded r] show ?thesis
  proof (cases rule: SettleFinance_Inr)
    case 1
    then show ?thesis by (simp add: same_ledger_def)
  next
    case (2 ops pools s1 ev)
    have "agrees s pools"
      using inv(2) by (intro lock_pool_map_agrees [OF 2(4)]) (simp_all add: agrees_def pool_inv_def)
    from return_each_keeps [OF 2(7) inv(2) this] ledger_wf [OF inv(1)]
    have "s1 = s\<lparr>db_pools := db_pools s1, db_returns := db_returns s1\<rparr>" by simp
    then obtain x y where "s1 = s\<lparr>db_pools := x, db_returns := y\<rparr>" by blast
    then show ?thesis by (simp add: same_ledger_def 2(9) append_event_def UpdateOperation_def)
  qed
qed

subsection \<open>The operator commands\<close>

lemma sum_list_zero: "\<forall>x \<in> set xs. f x = 0 \<Longrightarrow> sum_list (map f xs) = (0 :: int)"
  by (induction xs) simp_all

lemma unused_pool:
  assumes "pool_inv s" and "i \<notin> bp_ID ` set (db_pools s)"
  shows "given_out s i = 0 \<and> taken_back s i = 0"
proof -
  have a: "al_PoolID a \<noteq> i" if "a \<in> set (db_allocations s)" for a using assms that by (auto simp: pool_inv_def)
  then have "ar_PoolID r \<noteq> i" if "r \<in> set (db_returns s)" for r
    using assms(1) that unfolding pool_inv_def returns_ok_def by metis
  with a show ?thesis unfolding given_out_def taken_back_def by (intro conjI sum_list_zero) auto
qed

lemma CreatePool_keeps:
  assumes tx: "CreatePool new_id cmd sc sp s = Inr (r, s')" and inv: "pool_inv s" and wf: "wf_money (sp_Cap sp)"
  shows "same_ledger s s' \<and> db_grants s' = db_grants s \<and> pool_inv s'"
proof -
  from tx consider "s' = s" | p where "InsertPool s p = Inr s'" "bp_ID p = new_id" "bp_Allocated p = 0" "bp_Cap p = m_Amount (sp_Cap sp)"
    by (auto simp: CreatePool_def fallible Let_def split: option.splits if_splits)
  then show ?thesis
  proof cases
    case 1
    then show ?thesis using inv by (simp add: same_ledger_def)
  next
    case (2 p)
    then have s': "s' = s\<lparr>db_pools := db_pools s @ [p]\<rparr>" "bp_ID p \<notin> bp_ID ` set (db_pools s)"
      by (auto simp: InsertPool_def list_ex_iff split: if_splits)
    have "given_out s (bp_ID p) = 0" "taken_back s (bp_ID p) = 0"
      using unused_pool [OF inv s'(2)] by simp_all
    moreover have "wf_pool p" using 2 wf by (simp add: wf_pool_def wf_money_def int64_defs)
    ultimately have "pool_inv s'" using inv 2 s' by (auto simp: pool_inv_def given_out_def taken_back_def returns_ok_def)
    then show ?thesis by (simp add: s' same_ledger_def)
  qed
qed


lemma AdjustPool_keeps:
  assumes tx: "AdjustPool cmd sc poolID expected capAmount s = Inr (q, s')" and inv: "pool_inv s" and wf: "wf_money capAmount"
  shows "same_ledger s s' \<and> db_grants s' = db_grants s \<and> pool_inv s'"
proof -
  from tx have s': "s' = UpdatePoolCap s q" and q: "bp_Cap q = m_Amount capAmount"
    by (auto simp: AdjustPool_def fallible Let_def split: if_splits)
  define f where "f = (\<lambda>x :: budget_pool. if bp_ID x = bp_ID q then x\<lparr>bp_Cap := bp_Cap q, bp_Revision := bp_Revision q\<rparr> else x)"
  have f: "bp_ID (f x) = bp_ID x" "bp_Allocated (f x) = bp_Allocated x" "wf_pool x \<Longrightarrow> wf_pool (f x)" for x
    using wf q by (simp_all add: f_def wf_pool_def wf_money_def)
  have T: "db_pools s' = map f (db_pools s)" "db_allocations s' = db_allocations s" "db_returns s' = db_returns s"
    by (simp_all add: s' UpdatePoolCap_def f_def)
  have g: "given_out s' i = given_out s i" "taken_back s' i = taken_back s i" for i
    by (simp_all add: given_out_def taken_back_def T)
  have "\<forall>p \<in> set (db_pools s'). wf_pool p \<and> bp_Allocated p = given_out s' (bp_ID p) - taken_back s' (bp_ID p)"
    using inv f unfolding T g pool_inv_def by simp
  moreover have "distinct (map bp_ID (db_pools s'))" "bp_ID ` set (db_pools s') = bp_ID ` set (db_pools s)"
    using inv f(1) unfolding T pool_inv_def by (simp_all add: comp_def image_image)
  moreover have "returns_ok s'" using inv by (simp add: pool_inv_def returns_ok_def T)
  ultimately have "pool_inv s'" using inv unfolding pool_inv_def T(2) by simp
  then show ?thesis by (simp add: same_ledger_def s' UpdatePoolCap_def)
qed

lemma SetCostCap_keeps:
  assumes "SetCostCap new_id now cmd sc level tenantID projectID capAmount expected s = Inr (c, s')"
  shows "same_ledger s s' \<and> aside s' = aside s"
  using assms by (auto simp: SetCostCap_def fallible Let_def InsertCostCap_def UpdateCostCapLimit_def same_ledger_def aside_def books_def
      split: option.splits if_splits)

lemma prices_keep:
  "PublishPrice digest_of now cmd sc p s = Inr (r, s') \<Longrightarrow> same_ledger s s' \<and> books s' = books s \<and> db_grants s' = db_grants s"
  "WithdrawPrice now cmd sc rvn s = Inr (r, s') \<Longrightarrow> same_ledger s s' \<and> books s' = books s \<and> db_grants s' = db_grants s"
   apply (auto simp: PublishPrice_def publish_def InsertPriceRevision_def fallible Let_def same_ledger_def books_def
      split: option.splits if_splits)
  apply (auto simp: WithdrawPrice_def WithdrawPriceRevision_def fallible same_ledger_def books_def split: if_splits)
  done

lemma grants_keep:
  "Register now receipt epoch cmd reg s = Inr (r, s') \<Longrightarrow> same_ledger s s' \<and> books s' = books s"
  "BeginRevocation now receipt epoch cmd grantID rvn s = Inr (r, s') \<Longrightarrow> same_ledger s s' \<and> books s' = books s"
  "Revocation now grantID rvn s = Inr (g, s') \<Longrightarrow> same_ledger s s' \<and> books s' = books s"
proof -
  have ins: "same_ledger s s1 \<and> books s1 = books s" if "InsertGrantPolicy e s g = Inr (g1, s1)" for e g g1 s1
    using that by (auto simp: InsertGrantPolicy_def Let_def same_ledger_def books_def split: if_splits)
  have upd: "same_ledger s s1 \<and> books s1 = books s" if "UpdateGrantRevocation s g = Inr s1" for g s1
    using that by (auto simp: UpdateGrantRevocation_def same_ledger_def books_def split: if_splits)
  have rfl: "same_ledger s s" by (simp add: same_ledger_def)
  show "Register now receipt epoch cmd reg s = Inr (r, s') \<Longrightarrow> same_ledger s s' \<and> books s' = books s"
    using rfl by (auto simp: Register_def register_tx_def fallible dest: ins split: option.splits if_splits)
  show "BeginRevocation now receipt epoch cmd grantID rvn s = Inr (r, s') \<Longrightarrow> same_ledger s s' \<and> books s' = books s"
    using rfl by (auto simp: BeginRevocation_def fallible Let_def dest: ins upd split: option.splits if_splits)
  show "Revocation now grantID rvn s = Inr (g, s') \<Longrightarrow> same_ledger s s' \<and> books s' = books s"
    using rfl by (auto simp: Revocation_def fallible Let_def dest: upd split: if_splits)
qed

lemma elsewhere_keeps:
  assumes "elsewhere s s'" and "ledger_inv s"
  shows "ledger_inv s' \<and> advances g s s'"
proof -
  have T: "db_dispatches s' = db_dispatches s" "db_allocations s' = db_allocations s" "db_entries s' = db_entries s"
    and at: "\<And>i at. lookup_by at_ID i (db_attempts s) = Some at \<Longrightarrow>
      \<exists>at'. lookup_by at_ID i (db_attempts s') = Some at' \<and> at_OperationID at' = at_OperationID at"
    using assms(1) by (simp_all add: elsewhere_def)
  have "dispatch_inv s'" using assms(2) at unfolding ledger_inv_def dispatch_inv_def T by metis
  moreover have "alloc_inv s'" "charges_inv s'"
    using assms(2) charges_inv_tables [OF _ T(3)] by (simp_all add: ledger_inv_def alloc_inv_def held_def spent_def T)
  ultimately show ?thesis using advances_same [OF T(1)] by (simp add: ledger_inv_def)
qed

text \<open>A permission is told to one caller only: the dispatch that is consumed was not granted before.\<close>

lemma granted_row:
  assumes "admit_consume sv now authority tenantID req d version s = Inr ((d', True), s')" and inv: "ledger_inv s"
  shows "d' \<in> set (db_dispatches s')"
  using assms(1)
proof (cases rule: admit_consume_table)
  case (3 locked ac0 ops at frozen)
  have "d_ID d' = d_ID locked" using evolves_fixed(1) [OF evolves_steps(1) [OF 3(8)]] .
  then show ?thesis
    using 3(2) lookup_by_SomeD [OF 3(2)] UpdateDispatch_rows [OF dispatch_ids [OF inv] _ evolves_steps(1) [OF 3(8)]]
    unfolding 3(9) by (force simp: update_by_def)
qed simp_all

lemma consume_first_grant:
  assumes tx: "admit_consume sv now authority tenantID req d version (w_db w) = Inr ((d', ok), s')" and inv: "world_inv w"
  shows "distinct (if ok then d_ID d' # w_granted w else w_granted w) \<and>
    (ok \<longrightarrow> (\<exists>x \<in> set (db_dispatches s'). d_ID x = d_ID d' \<and> d_State x \<noteq> DispatchPrepared))"
  using tx
proof (cases rule: admit_consume_table)
  case (3 locked ac0 ops at frozen)
  have L: "ledger_inv (w_db w)" "distinct (w_granted w)" using inv by (simp_all add: world_inv_def)
  have id': "d_ID d' = d_ID locked" "d_State d' = DispatchAuthorized"
    using 3(8) by (auto simp: Consume_def split: if_splits)
  have m: "locked \<in> set (db_dispatches (w_db w))" "d_ID locked = d_ID d" using lookup_by_SomeD [OF 3(2)] by simp_all
  have "d_ID d' \<notin> set (w_granted w)"
  proof
    assume "d_ID d' \<in> set (w_granted w)"
    then obtain x where x: "x \<in> set (db_dispatches (w_db w))" "d_ID x = d_ID locked" "d_State x \<noteq> DispatchPrepared"
      using inv id'(1) by (auto simp: world_inv_def)
    then have "x = locked" using lookup_by_mem [OF dispatch_ids [OF L(1)] x(1)] 3(2) m(2) by simp
    then show False using x(3) 3(3) by simp
  qed
  moreover have "d' \<in> set (db_dispatches s')" using granted_row [OF _ L(1)] tx 3(1) by simp
  ultimately show ?thesis using L(2) id'(2) by force
qed (use inv in \<open>simp_all add: world_inv_def\<close>)

lemma svc_step_inv:
  assumes "svc_step sv w w'" and inv: "world_inv w" and ok: "prices_ok sv"
  shows "world_inv w'"
proof -
  have L: "ledger_inv (w_db w)" "pool_inv (w_db w)" "distinct (w_granted w)" "\<forall>d \<in> set (w_pending w). snapshot (w_db w) d"
    using inv by (simp_all add: world_inv_def)
  note db = world_inv_db [OF inv] and same = same_ledger_keeps [OF _ L(1)]
  from assms(1) show ?thesis
  proof cases
    case (prepare now new_id cost_id authority tenantID req d go s')
    note P = admit_prepare_advances [OF prepare(2)]
    have snap: "snapshot s' d" if go using P that unfolding snapshot_def by blast
    have "world_inv \<lparr>w_db = s', w_pending = (if go then d # w_pending w else w_pending w), w_granted = w_granted w\<rparr>"
      by (rule world_inv_move [OF inv conjunct1 [OF P] admit_prepare_ledger [OF prepare(2) L(1) prepare(3)]
            aside_pool_inv [OF admit_prepare_aside [OF prepare(2)] L(2)]])
        (use snap L(3) in \<open>auto split: if_splits\<close>)
    moreover have "w' = \<lparr>w_db = s', w_pending = (if go then d # w_pending w else w_pending w), w_granted = w_granted w\<rparr>"
      by (simp add: prepare(1))
    ultimately show ?thesis by simp
  next
    case (consume d now authority tenantID req version d' ok s')
    have snap: "snapshot (w_db w) d" using consume(2) L(4) by blast
    note G = consume_first_grant [OF consume(3) inv]
    have "world_inv \<lparr>w_db = s', w_pending = w_pending w, w_granted = (if ok then d_ID d' # w_granted w else w_granted w)\<rparr>"
      by (rule world_inv_move [OF inv admit_consume_advances [OF consume(3) L(1)] admit_consume_ledger [OF consume(3) L(1) snap]
            aside_pool_inv [OF admit_consume_aside [OF consume(3)] L(2)]])
        (use G in \<open>auto split: if_splits\<close>)
    moreover have "w' = \<lparr>w_db = s', w_pending = w_pending w, w_granted = (if ok then d_ID d' # w_granted w else w_granted w)\<rparr>"
      by (simp add: consume(1))
    ultimately show ?thesis by simp
  next
    case (uncertain dispatchID s')
    show ?thesis unfolding uncertain(1)
      by (rule db [OF markInventoryUncertain_advances [OF uncertain(2) L(1)] markInventoryUncertain_ledger [OF uncertain(2) L(1)]
            aside_pool_inv [OF markInventoryUncertain_aside [OF uncertain(2)] L(2)]])
  next
    case (observe now obs_id cost_id rdr dispatchID src sq out usg nativeRef observedAt d ex s')
    show ?thesis unfolding observe(1)
      by (rule db [OF Observe_advances [OF observe(2) L(1) ok] Observe_ledger [OF observe(2) L(1) ok]
            aside_pool_inv [OF Observe_aside [OF observe(2)] L(2)]])
  next
    case (confirm verify cmd owner dispatchID evidenceRef evidenceDigest now r s')
    show ?thesis unfolding confirm(1)
      by (rule db [OF ConfirmNotSent_advances [OF confirm(2) L(1)] ConfirmNotSent_ledger [OF confirm(2) L(1)]
            aside_pool_inv [OF ConfirmNotSent_aside [OF confirm(2)] L(2)]])
  next
    case (close attemptID at s')
    show ?thesis unfolding close(1)
      by (rule db [OF deny_prepared_advances [OF close(3) L(1)] deny_prepared_ledger [OF close(3,2) L(1)]
            aside_pool_inv [OF deny_prepared_aside [OF close(3)] L(2)]])
  next
    case (allocate fresh_id now sc operationID amount a s')
    show ?thesis unfolding allocate(1)
      using db Allocate_ledger [OF allocate(2) L(1,2) allocate(3-5)] Allocate_keeps_pools [OF allocate(2) L(2) allocate(3)] by blast
  next
    case (settle now operationID b s')
    show ?thesis unfolding settle(1)
      using db same SettleFinance_ledger [OF settle(2) L(1,2)] SettleFinance_keeps_pools [OF settle(2) L(2) ledger_wf [OF L(1)]] by blast
  next
    case (create_pool new_id cmd sc sp p s')
    show ?thesis unfolding create_pool(1) using db same CreatePool_keeps [OF create_pool(2) L(2) create_pool(3)] by blast
  next
    case (adjust_pool cmd sc poolID expected capAmount q s')
    show ?thesis unfolding adjust_pool(1) using db same AdjustPool_keeps [OF adjust_pool(2) L(2) adjust_pool(3)] by blast
  next
    case (set_cap new_id now cmd sc level tenantID projectID capAmount expected' c s')
    show ?thesis unfolding set_cap(1) using db same SetCostCap_keeps [OF set_cap(2)] aside_pool_inv L(2) by blast
  next
    case (publish_price digest_of now cmd sc p' pr s')
    show ?thesis unfolding publish_price(1) using db same prices_keep(1) [OF publish_price(2)] pool_inv_books L(2) by blast
  next
    case (withdraw_price now cmd sc rvn pr s')
    show ?thesis unfolding withdraw_price(1) using db same prices_keep(2) [OF withdraw_price(2)] pool_inv_books L(2) by blast
  next
    case (register now receipt epoch cmd reg gp s')
    show ?thesis unfolding register(1) using db same grants_keep(1) [OF register(2)] pool_inv_books L(2) by blast
  next
    case (begin_revocation now receipt epoch cmd grantID rvn' gp s')
    show ?thesis unfolding begin_revocation(1) using db same grants_keep(2) [OF begin_revocation(2)] pool_inv_books L(2) by blast
  next
    case (revocation now grantID rvn' g s')
    show ?thesis unfolding revocation(1) using db same grants_keep(3) [OF revocation(2)] pool_inv_books L(2) by blast
  next
    case (other s')
    show ?thesis unfolding other(1) using db elsewhere_keeps [OF other(2) L(1)] aside_pool_inv L(2) other(2) elsewhere_def by blast
  qed
qed


lemma svc_run_trans: "svc_run sv w w' \<Longrightarrow> svc_run sv w' w'' \<Longrightarrow> svc_run sv w w''"
  by (rotate_tac, induction rule: svc_run.induct) (auto intro: svc_run.step)

lemma svc_run_inv: "svc_run sv w w' \<Longrightarrow> world_inv w \<Longrightarrow> prices_ok sv \<Longrightarrow> world_inv w'"
  by (induction rule: svc_run.induct) (auto intro: svc_step_inv)

text \<open>A new installation: pools that have given out nothing, and no dispatch, allocation, cost entry or
  return.\<close>

definition installed :: "world \<Rightarrow> bool" where
  "installed w \<longleftrightarrow> db_dispatches (w_db w) = [] \<and> db_allocations (w_db w) = [] \<and> db_entries (w_db w) = [] \<and>
     db_returns (w_db w) = [] \<and> db_grants (w_db w) = [] \<and> w_pending w = [] \<and> w_granted w = [] \<and>
     distinct (map bp_ID (db_pools (w_db w))) \<and>
     (\<forall>p \<in> set (db_pools (w_db w)). wf_pool p \<and> bp_Allocated p = 0)"

lemma installed_inv: "installed w \<Longrightarrow> world_inv w"
  by (auto simp: installed_def world_inv_def ledger_inv_def alloc_inv_def dispatch_inv_def charges_inv_def charged_amount_def
      charged_entries_def pool_inv_def returns_ok_def given_out_def taken_back_def int64_defs)

end
