(* ===== verification/Scenario.thy ===== *)
theory Scenario
  imports Service_Run
begin

text \<open>
  A concrete run of the services, evaluated step by step: an operation is funded from three pools,
  a tool call is registered, prepared, admitted and reported, and its grant is revoked. The
  witnesses of the properties of the services are taken from it.
\<close>

section \<open>The installation\<close>

definition tool_price :: price where
  "tool_price = sample_price\<lparr>p_Kind := DispatchTool, p_Provider := [], p_Model := []\<rparr>"

definition shop :: service where
  "shop = \<lparr>sv_Price = (\<lambda>kind route now. if kind = DispatchTool \<and> route = ''route'' then Some tool_price else None),
     sv_PriceByRevision = (\<lambda>r. if r = ''r1'' then Some tool_price else None), sv_QueuePool = (\<lambda>_. []), sv_capsRequired = False\<rparr>"

definition pool_row :: "string \<Rightarrow> budget_level \<Rightarrow> string \<Rightarrow> string \<Rightarrow> budget_pool" where
  "pool_row i l t a = \<lparr>bp_ID = i, bp_Level = l, bp_TenantID = t, bp_ActorID = a, bp_PeriodStart = 0, bp_PeriodEnd = 1000000,
     bp_Currency = ''USD'', bp_Cap = 900, bp_Allocated = 0, bp_Revision = 1\<rparr>"

definition db0 :: db where
  "db0 = \<lparr>db_operations = [sample_operation], db_events = [], db_attempts = [sample_attempt], db_instances = [], db_dispatches = [],
     db_allocations = [], db_caps = [], db_grants = [], db_observations = [], db_entries = [], db_closures = [],
     db_pools = [pool_row ''p1'' LevelPlatform [] [], pool_row ''p2'' LevelTenant ''t'' [], pool_row ''p3'' LevelActor ''t'' ''a''],
     db_returns = [], db_prices = [], db_launches = [], db_stages = [], db_effects = []\<rparr>"

definition after :: "err + ('a \<times> db) \<Rightarrow> db" where
  "after x = (case x of Inr (_, s) \<Rightarrow> s | Inl _ \<Rightarrow> db0)"

definition answer :: "err + (('a \<times> bool) \<times> db) \<Rightarrow> 'a option \<times> bool" where
  "answer x = (case x of Inr ((v, b), _) \<Rightarrow> (Some v, b) | Inl _ \<Rightarrow> (None, False))"

definition operator_cmd :: command_identity where
  "operator_cmd = \<lparr>cmd_TenantID = ''t'', cmd_CommandID = ''k1'', cmd_ActorID = ''a'', cmd_RequestDigest = ''q''\<rparr>"

definition tool_registration :: registration where
  "tool_registration = \<lparr>rg_GrantID = ''g1'', rg_Revision = 1, rg_PolicyDigest = tombstoneDigest, rg_ServerID = ''srv'',
     rg_Methods = [''call''], rg_CostCap = None, rg_ExpiresAt = None\<rparr>"

definition tool_request :: admission_request where
  "tool_request = sample_request\<lparr>rq_Kind := DispatchTool, rq_Provider := [], rq_Model := [], rq_GrantID := ''g1'', rq_GrantRevision := 1,
     rq_ServerID := ''srv'', rq_Method := ''call''\<rparr>"

definition allocation_id :: "nat \<Rightarrow> string" where
  "allocation_id n = ''al'' @ replicate n (CHR ''x'')"

definition no_decision :: decision where
  "no_decision = \<lparr>dc_Allow = False, dc_Revision = [], dc_ReasonCode = [], dc_FreshUntil = 0\<rparr>"

abbreviation "step1 \<equiv> Allocate allocation_id 50 \<lparr>sc_TenantID = ''t'', sc_ProjectID = ''p'', sc_ActorID = ''a'', sc_Roles = []\<rparr> ''op_1''
  \<lparr>m_Currency = ''USD'', m_Amount = 800\<rparr> db0"

definition db1 :: db where
  "db1 = after step1"

abbreviation "step2 \<equiv> Register 60 ''rc1'' 7 operator_cmd tool_registration db1"

definition db2 :: db where
  "db2 = after step2"

text \<open>The database before the call, row by row.\<close>

lemma db2_rows [code]: "db2 = \<lparr>db_operations = [\<lparr>op_ID = ''op_1'', op_TenantID = ''t'', op_ProjectID = ''p'', op_ActorID = ''a'',
     op_CommandID = ''c'', op_Kind = KindGeneration, op_Subject = \<lparr>sj_ProfileID = ''gen'', sj_SubjectDigest =
     ''lineage'', sj_BriefID = ''brief'', sj_SourceRevision = ''r7'', sj_SourceHandle = [], sj_SourceOperationID = ''op_0'',
     sj_PackageVersion = ''1.2.0''\<rparr>, op_SemanticDigest = ''dig'', op_Lifecycle = LifecycleRunning, op_Phase =
     ''running'', op_Control = ControlNone, op_Cleanup = CleanupNotRequired, op_Finance = FinanceFunded, op_FailureCode = [],
     op_Revision = 6, op_NextEventSeq = 7, op_ExecutionEpoch = 1, op_RecoveryEpoch = 1, op_Deadline = 1000000, op_Intake =
     IntakeConfirmed, op_IntakeVersion = ''v'', op_Relay = RelayStarted, op_RelayRunID = ''run'', op_CreatedAt = 0,
     op_UpdatedAt = 50, op_ActiveDeadline = None, op_Lease = \<lparr>ls_State = LeaseHeld, ls_LeaseID = ''l'', ls_Fence = 1,
     ls_ExpiresAt = Some 800000, ls_Occurrence = 1\<rparr>, op_DefinitionActivation = ''d1'', op_Preparation = None,
     op_CandidateEffectID = []\<rparr>], db_events = [\<lparr>ev_OperationID = ''op_1'', ev_EventSeq = 6, ev_TransitionID =
     ''allocation:al'', ev_EventType = EventOperationChanged, ev_Revision = 6, ev_Payload = \<lparr>pl_Lifecycle =
     LifecycleRunning, pl_Phase = ''running'', pl_Control = ControlNone, pl_Cleanup = CleanupNotRequired, pl_Finance =
     FinanceFunded, pl_FailureCode = [], pl_Step = [], pl_Visit = [], pl_AttemptOrdinal = [], pl_Verdict = VerdictUnset,
     pl_VerdictCode = [], pl_Node = [], pl_NodeState = [], pl_Round = [], pl_OutcomeCode = []\<rparr>, ev_OccurredAt = 50,
     ev_PriorLifecycle = Some LifecycleRunning\<rparr>], db_attempts = [\<lparr>at_ID = ''att_1'', at_OperationID = ''op_1'',
     at_TenantID = ''t'', at_StepID = ''s'', at_VisitOrdinal = 1, at_AttemptOrdinal = 1, at_ProfileID = ''job'',
     at_ExecutionEpoch = 1, at_CommandID = ''c2'', at_RequestDigest = ''d2'', at_State = AttemptRunning, at_Outcome =
     OutcomeUnset, at_Cleanup = None, at_FailureCode = [], at_AcceptedStageID = [], at_Deadline = 900000, at_CreatedAt = 10,
     at_UpdatedAt = 10\<rparr>], db_instances = [], db_dispatches = [], db_allocations = [\<lparr>al_ID = ''al'', al_PoolID =
     ''p1'', al_OperationID = ''op_1'', al_Currency = ''USD'', al_Amount = 800, al_Reserved = 0, al_Consumed = 0, al_Revision
     = 1, al_CreatedAt = 50\<rparr>, \<lparr>al_ID = ''alx'', al_PoolID = ''p2'', al_OperationID = ''op_1'', al_Currency =
     ''USD'', al_Amount = 800, al_Reserved = 0, al_Consumed = 0, al_Revision = 1, al_CreatedAt = 50\<rparr>, \<lparr>al_ID =
     ''alxx'', al_PoolID = ''p3'', al_OperationID = ''op_1'', al_Currency = ''USD'', al_Amount = 800, al_Reserved = 0,
     al_Consumed = 0, al_Revision = 1, al_CreatedAt = 50\<rparr>], db_caps = [], db_grants = [\<lparr>gp_GrantID = ''g1'',
     gp_GrantRevision = 1, gp_TenantID = ''t'', gp_PolicyDigest =
     ''sha256:e3b0c44298fc1c149afbf4c8996fb92427ae41e4649b934ca495991b7852b855'', gp_ServerID = ''srv'', gp_Methods =
     [''call''], gp_CostCap = None, gp_ExpiresAt = None, gp_PolicyEpoch = 7, gp_ReceiptID = ''rc1'', gp_RevocationState =
     ''none'', gp_Registered = True, gp_RegisterCommandID = ''k1'', gp_RegisterRequestDigest = ''q'', gp_RevocationCommandID
     = [], gp_RevocationRequestDigest = [], gp_InFlightCalls = 0, gp_UnknownCalls = 0, gp_FencedAt = None, gp_ConvergedAt =
     None\<rparr>], db_observations = [], db_entries = [], db_closures = [], db_pools = [\<lparr>bp_ID = ''p1'', bp_Level =
     LevelPlatform, bp_TenantID = [], bp_ActorID = [], bp_PeriodStart = 0, bp_PeriodEnd = 1000000, bp_Currency = ''USD'',
     bp_Cap = 900, bp_Allocated = 800, bp_Revision = 2\<rparr>, \<lparr>bp_ID = ''p2'', bp_Level = LevelTenant, bp_TenantID =
     ''t'', bp_ActorID = [], bp_PeriodStart = 0, bp_PeriodEnd = 1000000, bp_Currency = ''USD'', bp_Cap = 900, bp_Allocated =
     800, bp_Revision = 2\<rparr>, \<lparr>bp_ID = ''p3'', bp_Level = LevelActor, bp_TenantID = ''t'', bp_ActorID = ''a'',
     bp_PeriodStart = 0, bp_PeriodEnd = 1000000, bp_Currency = ''USD'', bp_Cap = 900, bp_Allocated = 800, bp_Revision =
     2\<rparr>], db_returns = [], db_prices = [], db_launches = [], db_stages = [], db_effects = []\<rparr>"
  by code_simp

abbreviation "step3 \<equiv> admit_prepare shop 100 ''d1'' ''ce1'' no_decision ''t'' tool_request db2"

definition db3 :: db where
  "db3 = after step3"

text \<open>The record the admission answers.\<close>

definition call1 :: dispatch where
  "call1 = NewDispatch ''d1'' tool_request
     \<lparr>ac_Now = 100, ac_Operation = None, ac_Attempt = None, ac_Instance = None, ac_Price = None, ac_Authority = no_decision, ac_Grant = None,
      ac_Allocations = [], ac_Overspent = False, ac_Original = None, ac_AdmissionClosed = False, ac_LeaseRequired = False, ac_Caps = [],
      ac_CapsRequired = False\<rparr> sample_operation sample_attempt tool_price"

abbreviation "step4 \<equiv> admit_consume shop 110 no_decision ''t'' tool_request call1 ''v1'' db3"

definition db4 :: db where
  "db4 = after step4"

abbreviation "step5 \<equiv> Observe shop 120 ''ob1'' ''ce2'' \<lparr>rd_TenantID = ''t'', rd_Owner = []\<rparr> ''d1'' ''meter'' 1 DispatchSucceeded
  (Some \<lparr>u_Input = 1000000, u_Output = 2000000, u_Reasoning = 0, u_CachedInput = 0\<rparr>) [] 119 db4"

definition db5 :: db where
  "db5 = after step5"

text \<open>The database after the report.\<close>

lemma db5_rows [code]: "db5 = \<lparr>db_operations = [\<lparr>op_ID = ''op_1'', op_TenantID = ''t'', op_ProjectID = ''p'', op_ActorID = ''a'',
     op_CommandID = ''c'', op_Kind = KindGeneration, op_Subject = \<lparr>sj_ProfileID = ''gen'', sj_SubjectDigest =
     ''lineage'', sj_BriefID = ''brief'', sj_SourceRevision = ''r7'', sj_SourceHandle = [], sj_SourceOperationID = ''op_0'',
     sj_PackageVersion = ''1.2.0''\<rparr>, op_SemanticDigest = ''dig'', op_Lifecycle = LifecycleRunning, op_Phase =
     ''running'', op_Control = ControlNone, op_Cleanup = CleanupNotRequired, op_Finance = FinanceFunded, op_FailureCode = [],
     op_Revision = 6, op_NextEventSeq = 7, op_ExecutionEpoch = 1, op_RecoveryEpoch = 1, op_Deadline = 1000000, op_Intake =
     IntakeConfirmed, op_IntakeVersion = ''v'', op_Relay = RelayStarted, op_RelayRunID = ''run'', op_CreatedAt = 0,
     op_UpdatedAt = 50, op_ActiveDeadline = None, op_Lease = \<lparr>ls_State = LeaseHeld, ls_LeaseID = ''l'', ls_Fence = 1,
     ls_ExpiresAt = Some 800000, ls_Occurrence = 1\<rparr>, op_DefinitionActivation = ''d1'', op_Preparation = None,
     op_CandidateEffectID = []\<rparr>], db_events = [\<lparr>ev_OperationID = ''op_1'', ev_EventSeq = 6, ev_TransitionID =
     ''allocation:al'', ev_EventType = EventOperationChanged, ev_Revision = 6, ev_Payload = \<lparr>pl_Lifecycle =
     LifecycleRunning, pl_Phase = ''running'', pl_Control = ControlNone, pl_Cleanup = CleanupNotRequired, pl_Finance =
     FinanceFunded, pl_FailureCode = [], pl_Step = [], pl_Visit = [], pl_AttemptOrdinal = [], pl_Verdict = VerdictUnset,
     pl_VerdictCode = [], pl_Node = [], pl_NodeState = [], pl_Round = [], pl_OutcomeCode = []\<rparr>, ev_OccurredAt = 50,
     ev_PriorLifecycle = Some LifecycleRunning\<rparr>], db_attempts = [\<lparr>at_ID = ''att_1'', at_OperationID = ''op_1'',
     at_TenantID = ''t'', at_StepID = ''s'', at_VisitOrdinal = 1, at_AttemptOrdinal = 1, at_ProfileID = ''job'',
     at_ExecutionEpoch = 1, at_CommandID = ''c2'', at_RequestDigest = ''d2'', at_State = AttemptRunning, at_Outcome =
     OutcomeUnset, at_Cleanup = None, at_FailureCode = [], at_AcceptedStageID = [], at_Deadline = 900000, at_CreatedAt = 10,
     at_UpdatedAt = 10\<rparr>], db_instances = [], db_dispatches = [\<lparr>d_ID = ''d1'', d_Kind = DispatchTool, d_TenantID
     = ''t'', d_OperationID = ''op_1'', d_AttemptID = ''att_1'', d_InstanceID = [], d_CallID = ''call_1'', d_Owner =
     ''proxy'', d_RequestDigest = ''rd'', d_RouteID = ''route'', d_GrantID = ''g1'', d_GrantRevision = 1, d_ExecutionEpoch =
     1, d_State = DispatchObserved, d_Outcome = DispatchSucceeded, d_DenialCode = [], d_Reserved = \<lparr>m_Currency =
     ''USD'', m_Amount = 400\<rparr>, d_MeterRevision = ''r1'', d_SupersedesCallID = [], d_EvidenceRef = [], d_Inventory =
     InventoryConfirmed, d_InventoryVersion = ''v1'', d_Deadline = 500000, d_AdmittedAt = 100, d_ObservedAt = Some 119,
     d_ArgumentDigest = [], d_SideEffecting = False\<rparr>], db_allocations = [\<lparr>al_ID = ''al'', al_PoolID = ''p1'',
     al_OperationID = ''op_1'', al_Currency = ''USD'', al_Amount = 800, al_Reserved = 0, al_Consumed = 33, al_Revision = 4,
     al_CreatedAt = 50\<rparr>, \<lparr>al_ID = ''alx'', al_PoolID = ''p2'', al_OperationID = ''op_1'', al_Currency =
     ''USD'', al_Amount = 800, al_Reserved = 0, al_Consumed = 33, al_Revision = 4, al_CreatedAt = 50\<rparr>, \<lparr>al_ID =
     ''alxx'', al_PoolID = ''p3'', al_OperationID = ''op_1'', al_Currency = ''USD'', al_Amount = 800, al_Reserved = 0,
     al_Consumed = 33, al_Revision = 4, al_CreatedAt = 50\<rparr>], db_caps = [], db_grants = [\<lparr>gp_GrantID = ''g1'',
     gp_GrantRevision = 1, gp_TenantID = ''t'', gp_PolicyDigest =
     ''sha256:e3b0c44298fc1c149afbf4c8996fb92427ae41e4649b934ca495991b7852b855'', gp_ServerID = ''srv'', gp_Methods =
     [''call''], gp_CostCap = None, gp_ExpiresAt = None, gp_PolicyEpoch = 7, gp_ReceiptID = ''rc1'', gp_RevocationState =
     ''none'', gp_Registered = True, gp_RegisterCommandID = ''k1'', gp_RegisterRequestDigest = ''q'', gp_RevocationCommandID
     = [], gp_RevocationRequestDigest = [], gp_InFlightCalls = 0, gp_UnknownCalls = 0, gp_FencedAt = None, gp_ConvergedAt =
     None\<rparr>], db_observations = [\<lparr>uo_ID = ''ob1'', uo_DispatchID = ''d1'', uo_Source = ''meter'', uo_Sequence =
     1, uo_NativeReference = [], uo_Usage = Some \<lparr>u_Input = 1000000, u_Output = 2000000, u_Reasoning = 0,
     u_CachedInput = 0\<rparr>, uo_CostRevision = ''r1'', uo_ObservedAt = 119\<rparr>], db_entries = [\<lparr>ce_ID =
     ''ce1'', ce_OperationID = ''op_1'', ce_DispatchID = ''d1'', ce_ObservationID = [], ce_Kind = CostEstimate, ce_Amount =
     \<lparr>m_Currency = ''USD'', m_Amount = 400\<rparr>, ce_CorrectionOf = [], ce_CreatedAt = 100\<rparr>, \<lparr>ce_ID =
     ''ce2'', ce_OperationID = ''op_1'', ce_DispatchID = ''d1'', ce_ObservationID = ''ob1'', ce_Kind = CostActual, ce_Amount
     = \<lparr>m_Currency = ''USD'', m_Amount = 33\<rparr>, ce_CorrectionOf = [], ce_CreatedAt = 120\<rparr>], db_closures =
     [], db_pools = [\<lparr>bp_ID = ''p1'', bp_Level = LevelPlatform, bp_TenantID = [], bp_ActorID = [], bp_PeriodStart = 0,
     bp_PeriodEnd = 1000000, bp_Currency = ''USD'', bp_Cap = 900, bp_Allocated = 800, bp_Revision = 2\<rparr>, \<lparr>bp_ID
     = ''p2'', bp_Level = LevelTenant, bp_TenantID = ''t'', bp_ActorID = [], bp_PeriodStart = 0, bp_PeriodEnd = 1000000,
     bp_Currency = ''USD'', bp_Cap = 900, bp_Allocated = 800, bp_Revision = 2\<rparr>, \<lparr>bp_ID = ''p3'', bp_Level =
     LevelActor, bp_TenantID = ''t'', bp_ActorID = ''a'', bp_PeriodStart = 0, bp_PeriodEnd = 1000000, bp_Currency = ''USD'',
     bp_Cap = 900, bp_Allocated = 800, bp_Revision = 2\<rparr>], db_returns = [], db_prices = [], db_launches = [], db_stages
     = [], db_effects = []\<rparr>"
  by code_simp

abbreviation "step6 \<equiv> BeginRevocation 130 ''rc2'' 8 operator_cmd ''g1'' 1 db5"

definition db6 :: db where
  "db6 = after step6"

abbreviation "step7 \<equiv> Revocation 140 ''g1'' 1 db6"

definition db7 :: db where
  "db7 = after step7"

definition second_cmd :: command_identity where
  "second_cmd = operator_cmd\<lparr>cmd_CommandID := ''k2''\<rparr>"

abbreviation "step8 \<equiv> Register 150 ''rc3'' 9 second_cmd (tool_registration\<lparr>rg_GrantID := ''g2''\<rparr>) db7"

definition db8 :: db where
  "db8 = after step8"

definition second_request :: admission_request where
  "second_request = tool_request\<lparr>rq_GrantID := ''g2'', rq_CallID := ''call_2''\<rparr>"

abbreviation "step9 \<equiv> admit_prepare shop 160 ''d2'' ''ce3'' no_decision ''t'' second_request db8"

definition db9 :: db where
  "db9 = after step9"

definition call2 :: dispatch where
  "call2 = call1\<lparr>d_ID := ''d2'', d_CallID := ''call_2'', d_GrantID := ''g2'', d_AdmittedAt := 160\<rparr>"

abbreviation "step10 \<equiv> admit_consume shop 170 no_decision ''t'' second_request call2 ''v2'' db9"

definition db10 :: db where
  "db10 = after step10"

section \<open>The run\<close>

lemma after_Inr: "\<not> isl x \<Longrightarrow> \<exists>r. x = Inr (r, after x)"
  by (cases x) (auto simp: after_def)

lemma answer_Inr: "snd (answer x) \<Longrightarrow> x = Inr ((the (fst (answer x)), True), after x)"
  by (cases x) (auto simp: answer_def after_def)

text \<open>Every step succeeds, and the admissions go on.\<close>

lemma step1_evaluated: "\<not> isl step1"
  by code_simp

lemma step2_evaluated: "\<not> isl step2"
  by code_simp

lemma step3_evaluated: "answer step3 = (Some call1, True)"
  by code_simp

lemma step4_evaluated: "snd (answer step4)"
  by code_simp

lemma step5_evaluated: "\<not> isl step5"
  by code_simp

lemma step6_evaluated: "\<not> isl step6"
  by code_simp

lemma step7_evaluated: "\<not> isl step7"
  by code_simp

lemma step8_evaluated: "\<not> isl step8"
  by code_simp

lemma step9_evaluated: "answer step9 = (Some call2, True)"
  by code_simp

lemma step10_evaluated: "snd (answer step10)"
  by code_simp

lemmas steps_evaluated = step1_evaluated step2_evaluated step3_evaluated step4_evaluated step5_evaluated step6_evaluated step7_evaluated step8_evaluated step9_evaluated step10_evaluated

definition world0 :: world where
  "world0 = \<lparr>w_db = db0, w_pending = [], w_granted = []\<rparr>"

definition sent1 :: dispatch where
  "sent1 = the (fst (answer step4))"

definition world4 :: world where
  "world4 = \<lparr>w_db = db4, w_pending = [call1], w_granted = [d_ID sent1]\<rparr>"

definition world5 :: world where
  "world5 = \<lparr>w_db = db5, w_pending = [call1], w_granted = [d_ID sent1]\<rparr>"

definition world7 :: world where
  "world7 = \<lparr>w_db = db7, w_pending = [call1], w_granted = [d_ID sent1]\<rparr>"

definition world9 :: world where
  "world9 = \<lparr>w_db = db9, w_pending = [call2, call1], w_granted = [d_ID sent1]\<rparr>"

lemma shop_prices: "prices_ok shop"
  by (auto simp: prices_ok_def shop_def tool_price_def sample_price_def Price_Validate_def currencyPattern_def is_upper_def
      check_unit_price_def UsageCategories_def split: if_splits)

lemma world0_installed: "installed world0"
  by (simp add: installed_def world0_def db0_def pool_row_def wf_pool_def int64_defs)

lemma run_to_4: "svc_run shop world0 world4"
proof -
  let ?w = "\<lambda>s p g. \<lparr>w_db = s, w_pending = p, w_granted = g\<rparr>"
  have 1: "svc_step shop (?w db0 [] []) (?w db1 [] [])"
  proof -
    obtain r where r: "step1 = Inr (r, db1)" using after_Inr [OF steps_evaluated(1)] by (auto simp: db1_def)
    have "svc_step shop (?w db0 [] []) ((?w db0 [] [])\<lparr>w_db := db1\<rparr>)"
    proof (rule svc_step.allocate)
      show "Allocate allocation_id 50 \<lparr>sc_TenantID = ''t'', sc_ProjectID = ''p'', sc_ActorID = ''a'', sc_Roles = []\<rparr> ''op_1''
        \<lparr>m_Currency = ''USD'', m_Amount = 800\<rparr> (w_db (?w db0 [] [])) = Inr (r, db1)" using r by simp
    qed (simp_all add: wf_money_def int64_defs held_def spent_def db0_def)
    then show ?thesis by simp
  qed
  have 2: "svc_step shop (?w db1 [] []) (?w db2 [] [])"
  proof -
    obtain r where "step2 = Inr (r, db2)" using after_Inr [OF steps_evaluated(2)] by (auto simp: db2_def)
    from svc_step.register [of _ _ _ _ _ "?w db1 [] []", simplified, OF this] show ?thesis by simp
  qed
  have 3: "svc_step shop (?w db2 [] []) (?w db3 [call1] [])"
  proof -
    have "step3 = Inr ((call1, True), db3)" using answer_Inr [of step3] steps_evaluated(3) by (simp add: db3_def)
    from svc_step.prepare [of _ _ _ _ _ _ _ "?w db2 [] []", simplified, OF this] show ?thesis
      by (simp add: tool_request_def sample_request_def wf_money_def int64_defs)
  qed
  have 4: "svc_step shop (?w db3 [call1] []) (?w db4 [call1] [d_ID sent1])"
  proof -
    have "step4 = Inr ((sent1, True), db4)" unfolding sent1_def db4_def by (rule answer_Inr [OF steps_evaluated(4)])
    from svc_step.consume [of call1 "?w db3 [call1] []", simplified, OF this] show ?thesis by simp
  qed
  show ?thesis unfolding world0_def world4_def
    using svc_run.step [OF svc_run.step [OF svc_run.step [OF svc_run.step [OF svc_run.refl 1] 2] 3] 4] .
qed

lemma run_to_5: "svc_run shop world0 world5"
proof -
  obtain d ex where "step5 = Inr ((d, ex), db5)" using after_Inr [OF steps_evaluated(5)] by (auto simp: db5_def)
  from svc_step.observe [of _ _ _ _ _ _ _ _ _ _ _ _ world4, unfolded world4_def, simplified, OF this]
  have 5: "svc_step shop world4 world5" by (simp add: world4_def world5_def)
  show ?thesis using svc_run.step [OF run_to_4 5] .
qed

lemma run_5_to_7: "svc_run shop world5 world7"
proof -
  let ?w = "\<lambda>s. \<lparr>w_db = s, w_pending = [call1], w_granted = [d_ID sent1]\<rparr>"
  obtain r where r: "step6 = Inr (r, db6)" using after_Inr [OF steps_evaluated(6)] by (auto simp: db6_def)
  from svc_step.begin_revocation [of _ _ _ _ _ _ "?w db5", simplified, OF r] have 6: "svc_step shop (?w db5) (?w db6)" by simp
  obtain q where q: "step7 = Inr (q, db7)" using after_Inr [OF steps_evaluated(7)] by (auto simp: db7_def)
  from svc_step.revocation [of _ _ _ "?w db6", simplified, OF q] have 7: "svc_step shop (?w db6) (?w db7)" by simp
  show ?thesis unfolding world5_def world7_def using svc_run.step [OF svc_run.step [OF svc_run.refl 6] 7] .
qed

lemma run_7_to_9: "svc_run shop world7 world9"
proof -
  let ?w = "\<lambda>s p. \<lparr>w_db = s, w_pending = p, w_granted = [d_ID sent1]\<rparr>"
  obtain r where r: "step8 = Inr (r, db8)" using after_Inr [OF steps_evaluated(8)] by (auto simp: db8_def)
  from svc_step.register [of _ _ _ _ _ "?w db7 [call1]", simplified, OF r] have 8: "svc_step shop (?w db7 [call1]) (?w db8 [call1])" by simp
  have p: "step9 = Inr ((call2, True), db9)" using answer_Inr [of step9] steps_evaluated(9) by (simp add: db9_def)
  from svc_step.prepare [of _ _ _ _ _ _ _ "?w db8 [call1]", simplified, OF p]
  have 9: "svc_step shop (?w db8 [call1]) (?w db9 [call2, call1])"
    by (simp add: second_request_def tool_request_def sample_request_def wf_money_def int64_defs)
  show ?thesis unfolding world7_def world9_def using svc_run.step [OF svc_run.step [OF svc_run.refl 8] 9] .
qed

end
