(* ===== verification/Accounting.thy ===== *)
theory Accounting
  imports Service_Run Scenario
begin

text \<open>
  What the transition system of the services guarantees: the accounting is exact, a permission is
  told once, the pools balance, and a revoked grant admits nothing.
\<close>

section \<open>Grant policies along a run\<close>

lemma revocation_columns_fixed [simp]:
  "gp_GrantID (revocation_columns g x) = gp_GrantID x" "gp_GrantRevision (revocation_columns g x) = gp_GrantRevision x"
  "gp_RevocationState (revocation_columns g x) = gp_RevocationState g"
  by (simp_all add: revocation_columns_def)

text \<open>A revocation that has begun is never undone, and one that converged stays converged.\<close>

definition barrier_kept :: "db \<Rightarrow> db \<Rightarrow> bool" where
  "barrier_kept s s' \<longleftrightarrow> (\<forall>g r row. LockGrantPolicy s g r = Some row \<longrightarrow>
     (\<exists>row'. LockGrantPolicy s' g r = Some row' \<and>
        (gp_RevocationState row \<noteq> ''none'' \<longrightarrow> gp_RevocationState row' \<noteq> ''none'') \<and>
        (gp_RevocationState row = ''converged'' \<longrightarrow> gp_RevocationState row' = ''converged'')))"

lemma barrier_same: "db_grants s' = db_grants s \<Longrightarrow> barrier_kept s s'"
  by (simp add: barrier_kept_def LockGrantPolicy_def)

lemma barrier_insert: "InsertGrantPolicy e s g = Inr (g', s') \<Longrightarrow> barrier_kept s s'"
  by (auto simp: InsertGrantPolicy_def Let_def barrier_kept_def LockGrantPolicy_def lookup_by_append split: if_splits option.splits)

lemma lookup_UpdateGrantRevocation:
  assumes "UpdateGrantRevocation s p = Inr s'"
  shows "LockGrantPolicy s' g r =
    (if (g, r) = grant_key p then map_option (revocation_columns p) (LockGrantPolicy s g r) else LockGrantPolicy s g r)"
proof -
  have "db_grants s' = map (\<lambda>x. if grant_key x = grant_key p then revocation_columns p x else x) (db_grants s)"
    using assms by (auto simp: UpdateGrantRevocation_def split: if_splits)
  moreover have "lookup_by grant_key (g, r) (map (\<lambda>x. if grant_key x = grant_key p then revocation_columns p x else x) xs) =
      (if (g, r) = grant_key p then map_option (revocation_columns p) (lookup_by grant_key (g, r) xs) else lookup_by grant_key (g, r) xs)" for xs
    by (induction xs) auto
  ultimately show ?thesis by (simp add: LockGrantPolicy_def)
qed

lemma barrier_update:
  assumes "UpdateGrantRevocation s p = Inr s'" and "LockGrantPolicy s (gp_GrantID p) (gp_GrantRevision p) = Some c"
    and "gp_RevocationState p \<noteq> ''none''" and "gp_RevocationState c = ''converged'' \<Longrightarrow> gp_RevocationState p = ''converged''"
  shows "barrier_kept s s'"
  unfolding barrier_kept_def
proof (intro allI impI)
  fix g r row assume row: "LockGrantPolicy s g r = Some row"
  show "\<exists>row'. LockGrantPolicy s' g r = Some row' \<and>
      (gp_RevocationState row \<noteq> ''none'' \<longrightarrow> gp_RevocationState row' \<noteq> ''none'') \<and>
      (gp_RevocationState row = ''converged'' \<longrightarrow> gp_RevocationState row' = ''converged'')"
  proof (cases "(g, r) = grant_key p")
    case True
    then have "row = c" using row assms(2) by simp
    then show ?thesis using True row assms(3,4) lookup_UpdateGrantRevocation [OF assms(1), of g r]
      by (intro exI [of _ "revocation_columns p row"]) simp
  next
    case False
    then have "LockGrantPolicy s' g r = Some row" using row lookup_UpdateGrantRevocation [OF assms(1), of g r] by auto
    then show ?thesis by blast
  qed
qed

lemma LockGrantPolicy_key: "LockGrantPolicy s g r = Some c \<Longrightarrow> gp_GrantID c = g \<and> gp_GrantRevision c = r"
  unfolding LockGrantPolicy_def by (drule lookup_by_SomeD) simp

lemma Register_barrier: "Register now receipt epoch cmd reg s = Inr (x, s') \<Longrightarrow> barrier_kept s s'"
  by (auto simp: Register_def register_tx_def fallible intro: barrier_same dest: barrier_insert split: option.splits if_splits)

lemma BeginRevocation_barrier: "BeginRevocation now receipt epoch cmd g r s = Inr (x, s') \<Longrightarrow> barrier_kept s s'"
proof (cases "LockGrantPolicy s g r")
  case None
  then show "BeginRevocation now receipt epoch cmd g r s = Inr (x, s') \<Longrightarrow> barrier_kept s s'"
    by (auto simp: BeginRevocation_def fallible dest: barrier_insert)
next
  case (Some c)
  assume tx: "BeginRevocation now receipt epoch cmd g r s = Inr (x, s')"
  show ?thesis
  proof (cases "gp_RevocationState c = ''none''")
    case False
    then show ?thesis using tx Some by (auto simp: BeginRevocation_def intro: barrier_same split: if_splits)
  next
    case True
    with tx Some obtain p where p: "UpdateGrantRevocation s p = Inr s'" "gp_GrantID p = gp_GrantID c"
      "gp_GrantRevision p = gp_GrantRevision c" "gp_RevocationState p = ''fenced''"
      by (auto simp: BeginRevocation_def fallible Let_def split: if_splits)
    show ?thesis by (rule barrier_update [OF p(1), of c]) (use p Some True LockGrantPolicy_key [OF Some] in simp_all)
  qed
qed

text \<open>The answer of \<open>Revocation\<close>.\<close>

lemma Revocation_Inr:
  assumes "Revocation now g r s = Inr (p, s')"
  obtains "s' = s" "LockGrantPolicy s g r = Some p" "gp_RevocationState p = ''converged''"
    | c a b where "LockGrantPolicy s g r = Some c" "gp_RevocationState c \<noteq> ''none''" "gp_RevocationState c \<noteq> ''converged''"
        "CountGrantSenders s g r = Inr (a, b)" "UpdateGrantRevocation s p = Inr s'" "gp_GrantID p = g" "gp_GrantRevision p = r"
        "gp_RevocationState p = (if a = 0 \<and> b = 0 then ''converged'' else ''converging'')"
proof -
  from assms obtain c where c: "LockGrantPolicy s g r = Some c" "gp_RevocationState c \<noteq> ''none''"
    by (auto simp: Revocation_def fallible split: if_splits)
  note key = LockGrantPolicy_key [OF c(1)]
  show thesis
  proof (cases "gp_RevocationState c = ''converged''")
    case True
    then show thesis using that(1) assms c by (auto simp: Revocation_def)
  next
    case False
    with assms c obtain a b where ab: "CountGrantSenders s g r = Inr (a, b)"
      and u: "UpdateGrantRevocation s p = Inr s'"
      and p: "p = (if a = 0 \<and> b = 0
          then (c\<lparr>gp_InFlightCalls := a, gp_UnknownCalls := b\<rparr>)\<lparr>gp_RevocationState := ''converged'', gp_ConvergedAt := Some now\<rparr>
          else (c\<lparr>gp_InFlightCalls := a, gp_UnknownCalls := b\<rparr>)\<lparr>gp_RevocationState := ''converging''\<rparr>)"
      by (auto simp: Revocation_def Let_def chk_Inr_iff)
    from that(2) [OF c False ab u] key show thesis by (simp add: p)
  qed
qed

lemma Revocation_barrier: "Revocation now g r s = Inr (p, s') \<Longrightarrow> barrier_kept s s'"
proof (erule Revocation_Inr)
  assume "s' = s"
  then show ?thesis by (simp add: barrier_same)
next
  fix c a b
  assume "LockGrantPolicy s g r = Some c" "gp_RevocationState c \<noteq> ''converged''" "UpdateGrantRevocation s p = Inr s'"
    "gp_GrantID p = g" "gp_GrantRevision p = r" "gp_RevocationState p = (if a = 0 \<and> b = 0 then ''converged'' else ''converging'')"
  then show ?thesis by (intro barrier_update [of s p s' c]) simp_all
qed


section \<open>The steps, seen from a grant\<close>

text \<open>A step grants a permission, works on the grant policies, or does neither.\<close>

lemma aside_grants: "aside s' = aside s \<Longrightarrow> db_grants s' = db_grants s"
  by (simp add: aside_def)

lemma svc_step_effect:
  assumes "svc_step sv w w'" and inv: "world_inv w" and ok: "prices_ok sv"
  obtains (quiet) "w_granted w' = w_granted w" "advances None (w_db w) (w_db w')" "db_grants (w_db w') = db_grants (w_db w)"
    | (registers) now receipt epoch cmd reg x where "Register now receipt epoch cmd reg (w_db w) = Inr (x, w_db w')"
        "w_granted w' = w_granted w"
    | (revokes) now receipt epoch cmd g r x where "BeginRevocation now receipt epoch cmd g r (w_db w) = Inr (x, w_db w')"
        "w_granted w' = w_granted w"
    | (reads) now g r p where "Revocation now g r (w_db w) = Inr (p, w_db w')" "w_granted w' = w_granted w"
    | (grants) now authority tenantID req d version d' where "snapshot (w_db w) d" "w_granted w' = d_ID d' # w_granted w"
        "admit_consume sv now authority tenantID req d version (w_db w) = Inr ((d', True), w_db w')"
proof -
  have L: "ledger_inv (w_db w)" "pool_inv (w_db w)" "\<forall>d \<in> set (w_pending w). snapshot (w_db w) d"
    using inv by (simp_all add: world_inv_def)
  note same = same_ledger_keeps [OF _ L(1)]
  from assms(1) show thesis
  proof cases
    case (prepare now new_id cost_id authority tenantID req d go s')
    with quiet admit_prepare_advances [OF prepare(2)] aside_grants [OF admit_prepare_aside [OF prepare(2)]] show thesis by simp
  next
    case (consume d now authority tenantID req version d' ok' s')
    then have "snapshot (w_db w) d" using L(3) by blast
    with consume quiet grants [of d d'] admit_consume_advances [OF consume(3) L(1)] aside_grants [OF admit_consume_aside [OF consume(3)]]
    show thesis by (cases ok') simp_all
  next
    case (uncertain dispatchID s')
    with quiet markInventoryUncertain_advances [OF uncertain(2) L(1)] aside_grants [OF markInventoryUncertain_aside [OF uncertain(2)]]
    show thesis by simp
  next
    case (observe now obs_id cost_id rdr dispatchID src sq out usg nativeRef observedAt d ex s')
    with quiet Observe_advances [OF observe(2) L(1) ok] aside_grants [OF Observe_aside [OF observe(2)]] show thesis by simp
  next
    case (confirm verify cmd owner dispatchID evidenceRef evidenceDigest now r s')
    with quiet ConfirmNotSent_advances [OF confirm(2) L(1)] aside_grants [OF ConfirmNotSent_aside [OF confirm(2)]] show thesis by simp
  next
    case (close attemptID at s')
    with quiet deny_prepared_advances [OF close(3) L(1)] aside_grants [OF deny_prepared_aside [OF close(3)]] show thesis by simp
  next
    case (allocate fresh_id now sc operationID amount a s')
    with quiet Allocate_ledger [OF allocate(2) L(1,2) allocate(3-5)] show thesis by simp
  next
    case (settle now operationID b s')
    with quiet same SettleFinance_ledger [OF settle(2) L(1,2)] show thesis by simp
  next
    case (create_pool new_id cmd sc sp p s')
    with quiet same CreatePool_keeps [OF create_pool(2) L(2) create_pool(3)] show thesis by simp
  next
    case (adjust_pool cmd sc poolID expected capAmount q s')
    with quiet same AdjustPool_keeps [OF adjust_pool(2) L(2) adjust_pool(3)] show thesis by simp
  next
    case (set_cap new_id now cmd sc level tenantID projectID capAmount expected' c s')
    with quiet same SetCostCap_keeps [OF set_cap(2)] aside_grants [of s' "w_db w"] show thesis by simp
  next
    case (publish_price digest_of now cmd sc p' pr s')
    with quiet same prices_keep(1) [OF publish_price(2)] show thesis by simp
  next
    case (withdraw_price now cmd sc rvn pr s')
    with quiet same prices_keep(2) [OF withdraw_price(2)] show thesis by simp
  next
    case (register now receipt epoch cmd reg gp s')
    with registers show thesis by simp
  next
    case (begin_revocation now receipt epoch cmd grantID rvn' gp s')
    with revokes show thesis by simp
  next
    case (revocation now grantID rvn' g s')
    with reads show thesis by simp
  next
    case (other s')
    with quiet elsewhere_keeps [OF other(2) L(1)] aside_grants [of s' "w_db w"] show thesis by (simp add: elsewhere_def)
  qed
qed

lemma svc_step_barrier:
  assumes "svc_step sv w w'" and "world_inv w" and "prices_ok sv"
  shows "barrier_kept (w_db w) (w_db w')"
  using assms
proof (cases rule: svc_step_effect)
  case (grants now authority tenantID req d version d')
  then show ?thesis using aside_grants [OF admit_consume_aside [OF grants(3)]] barrier_same by blast
qed (auto intro: barrier_same Register_barrier BeginRevocation_barrier Revocation_barrier)

text \<open>The grant policy under which a permission for a tool call is consumed: current, and not fenced.\<close>

lemma consume_grant_open:
  assumes tx: "admit_consume sv now authority tenantID req d version s = Inr ((d', True), s')"
    and inv: "ledger_inv s" and snap: "snapshot s d" and tool: "d_Kind d' = DispatchTool"
  obtains row where "LockGrantPolicy s (d_GrantID d') (d_GrantRevision d') = Some row" "gp_RevocationState row = ''none''"
  using tx
proof (cases rule: admit_consume_table)
  case (3 locked ac0 ops at frozen)
  note ids = dispatch_ids [OF inv]
  have rb: "recordBinding locked = recordBinding d"
    using snap 3(2) lookup_by_mem [OF ids] unfolding snapshot_def by force
  have b': "recordBinding d' = recordBinding locked" using evolves_binding [OF evolves_steps(1) [OF 3(8)]] .
  then have rbd: "recordBinding d = recordBinding d'" using rb by simp
  have kind: "bi_Kind (recordBinding d) = DispatchTool" using rbd tool by (simp add: recordBinding_def)
  have "rq_Kind req = d_Kind locked" using 3(4) by (auto simp: Dispatch_Binds_def split: if_splits)
  moreover have "d_Kind locked = DispatchTool" using arg_cong [OF b', of bi_Kind] tool by (simp add: recordBinding_def)
  ultimately have rk: "rq_Kind req = DispatchTool" by simp
  have g: "ac_Grant ac0 = LockGrantPolicy s (d_GrantID d') (d_GrantRevision d')"
    using 3(5) kind unfolding rbd
    by (auto simp: admissionContext_def Let_def fallible ShareLockGrantPolicy_def LockGrantPolicy_def recordBinding_def split: if_splits)
  from CheckAdmission_None [OF 3(7)] obtain ops' p where "check_kind req (ac0\<lparr>ac_Price := Some frozen\<rparr>) ops' p = None" by metis
  from check_kind_None [OF this] rk obtain row where row: "ac_Grant ac0 = Some row"
    "Permits row (op_TenantID ops') (rq_ServerID req) (rq_Method req) (rq_MaxExposure req) now = None"
    using admissionContext_Inr(10) [OF 3(5)] by auto
  from row(2) have "gp_RevocationState row = ''none''" by (auto simp: Permits_def split: if_splits)
  with that row(1) g show thesis by simp
qed simp_all


section \<open>Revocation\<close>













lemma barrier_run:
  assumes "svc_run sv w w'" and "world_inv w" and "prices_ok sv"
  shows "barrier_kept (w_db w) (w_db w')"
  using assms
proof (induction rule: svc_run.induct)
  case (refl w)
  then show ?case by (simp add: barrier_same)
next
  case (step w w' w'')
  then have "barrier_kept (w_db w') (w_db w'')" using svc_step_barrier svc_run_inv by blast
  with step show ?case unfolding barrier_kept_def by meson
qed


section \<open>Properties\<close>



text \<open>C2: A permission to send is told once. From a new installation, after any interleaving of the
  services' transactions, no dispatch was granted to two callers, and every granted dispatch is
  on record and will never again be found prepared.\<close>

theorem granted_once:
  assumes "installed w" and "prices_ok sv" and "svc_run sv w w'"
  shows "distinct (w_granted w') \<and>
    (\<forall>i \<in> set (w_granted w'). \<exists>d \<in> set (db_dispatches (w_db w')). d_ID d = i \<and> d_State d \<noteq> DispatchPrepared)"
  using svc_run_inv [OF assms(3) installed_inv [OF assms(1)] assms(2)] by (simp add: world_inv_def)

theorem granted_once_witness: "w_granted world5 = [''d1''] \<and> distinct (w_granted world5)"
proof -
  have "w_granted world5 = [''d1'']" by code_simp
  then show ?thesis using granted_once [OF world0_installed shop_prices run_to_5] by simp
qed

text \<open>C3: The pools balance. From a new installation, whatever ran, every pool has given out the sum of
  the amounts of its allocations less what was returned to it, no allocation returned twice or
  more than its amount, and the balance is never negative.\<close>

theorem pools_balance:
  assumes "installed w" and "prices_ok sv" and "svc_run sv w w'"
  shows "distinct (map ar_AllocationID (db_returns (w_db w'))) \<and>
    (\<forall>r \<in> set (db_returns (w_db w')). \<exists>a \<in> set (db_allocations (w_db w')).
       al_ID a = ar_AllocationID r \<and> al_PoolID a = ar_PoolID r \<and> 0 \<le> ar_Amount r \<and> ar_Amount r \<le> al_Amount a) \<and>
    (\<forall>p \<in> set (db_pools (w_db w')). 0 \<le> bp_Allocated p \<and>
       bp_Allocated p = (\<Sum>a \<leftarrow> db_allocations (w_db w'). if al_PoolID a = bp_ID p then al_Amount a else 0) -
         (\<Sum>r \<leftarrow> db_returns (w_db w'). if ar_PoolID r = bp_ID p then ar_Amount r else 0))"
proof -
  have "pool_inv (w_db w')" using svc_run_inv [OF assms(3) installed_inv [OF assms(1)] assms(2)] by (simp add: world_inv_def)
  then show ?thesis unfolding pool_inv_def returns_ok_def given_out_def taken_back_def wf_pool_def by blast
qed

theorem pools_balance_witness:
  "bp_Allocated (hd (db_pools (w_db world5))) = 800 \<and>
   (\<Sum>a \<leftarrow> db_allocations (w_db world5). if al_PoolID a = bp_ID (hd (db_pools (w_db world5))) then al_Amount a else 0) -
   (\<Sum>r \<leftarrow> db_returns (w_db world5). if ar_PoolID r = bp_ID (hd (db_pools (w_db world5))) then ar_Amount r else 0) = 800"
proof -
  let ?p = "hd (db_pools (w_db world5))"
  have p: "?p \<in> set (db_pools (w_db world5))" "bp_Allocated ?p = 800" by code_simp+
  from pools_balance [OF world0_installed shop_prices run_to_5] p(1)
  have "bp_Allocated ?p = (\<Sum>a \<leftarrow> db_allocations (w_db world5). if al_PoolID a = bp_ID ?p then al_Amount a else 0) -
    (\<Sum>r \<leftarrow> db_returns (w_db world5). if ar_PoolID r = bp_ID ?p then ar_Amount r else 0)" by blast
  with p(2) show ?thesis by (simp only: refl simp_thms)
qed

text \<open>C6: A revoked grant admits nothing. Once the revocation of a grant revision has begun, no later
  transaction tells the caller of a tool call under that revision that it may send, whatever
  was prepared before.\<close>

theorem revoked_grant_admits_nothing:
  assumes "installed w" and "prices_ok sv" and "svc_run sv w w1"
    and "LockGrantPolicy (w_db w1) g r = Some row" and "gp_RevocationState row \<noteq> ''none''" and "svc_run sv w1 w2"
    and "d \<in> set (w_pending w2)" and "admit_consume sv now authority tenantID req d version (w_db w2) = Inr ((d', True), s')"
    and "d_Kind d' = DispatchTool"
  shows "(d_GrantID d', d_GrantRevision d') \<noteq> (g, r)"
proof
  assume key: "(d_GrantID d', d_GrantRevision d') = (g, r)"
  have inv1: "world_inv w1" using svc_run_inv [OF assms(3) installed_inv [OF assms(1)] assms(2)] .
  have inv2: "ledger_inv (w_db w2)" "snapshot (w_db w2) d"
    using svc_run_inv [OF assms(6) inv1 assms(2)] assms(7) by (simp_all add: world_inv_def)
  obtain row2 where row2: "LockGrantPolicy (w_db w2) g r = Some row2" "gp_RevocationState row2 \<noteq> ''none''"
    using barrier_run [OF assms(6) inv1 assms(2)] assms(4,5) unfolding barrier_kept_def by blast
  from consume_grant_open [OF assms(8) inv2 assms(9)] key row2 show False by force
qed

theorem revoked_grant_admits_nothing_witness:
  "gp_RevocationState (the (LockGrantPolicy (w_db world7) ''g1'' 1)) = ''converged'' \<and>
   (d_GrantID (the (fst (answer step10))), d_GrantRevision (the (fst (answer step10)))) \<noteq> (''g1'', 1)"
proof -
  have run: "svc_run shop world0 world7" using svc_run_trans run_to_5 run_5_to_7 by blast
  have row: "LockGrantPolicy (w_db world7) ''g1'' 1 \<noteq> None" "gp_RevocationState (the (LockGrantPolicy (w_db world7) ''g1'' 1)) = ''converged''"
    by code_simp+
  then obtain r where r: "LockGrantPolicy (w_db world7) ''g1'' 1 = Some r" "gp_RevocationState r \<noteq> ''none''" by auto
  have pend: "call2 \<in> set (w_pending world9)" by (simp add: world9_def)
  have tx: "admit_consume shop 170 no_decision ''t'' second_request call2 ''v2'' (w_db world9) = Inr ((the (fst (answer step10)), True), after step10)"
    using answer_Inr [OF steps_evaluated(10)] by (simp add: world9_def)
  have kind: "d_Kind (the (fst (answer step10))) = DispatchTool" by code_simp
  from revoked_grant_admits_nothing [OF world0_installed shop_prices run r run_7_to_9 pend tx kind] row(2) show ?thesis by blast
qed



end
