(* ===== verification/Settlement.thy ===== *)
theory Settlement
  imports Scenario
begin

text \<open>
  Financial settlement always completes: an operation whose dispatches are all settled can return
  what it has left to its pools, and does so once.
\<close>

section \<open>A pool covers what its allocations have not returned\<close>

lemma pool_covers_unreturned:
  assumes inv: "pool_inv s" and a: "a \<in> set (db_allocations s)" and new: "\<not> HasAllocationReturn s (al_ID a)"
  shows "al_Amount a \<le> given_out s (al_PoolID a) - taken_back s (al_PoolID a)"
proof -
  let ?A = "set (db_allocations s)" and ?R = "set (db_returns s)" and ?i = "al_PoolID a"
  let ?g = "\<lambda>x. if al_PoolID x = ?i then al_Amount x else 0" and ?h = "\<lambda>r. if ar_PoolID r = ?i then ar_Amount r else 0"
  have dA: "distinct (db_allocations s)" "inj_on al_ID ?A" and dR: "distinct (db_returns s)" "inj_on ar_AllocationID ?R"
    using inv by (simp_all add: pool_inv_def returns_ok_def distinct_map)
  have ref: "\<forall>r \<in> ?R. \<exists>x. x \<in> ?A \<and> al_ID x = ar_AllocationID r \<and> al_PoolID x = ar_PoolID r \<and> 0 \<le> ar_Amount r \<and> ar_Amount r \<le> al_Amount x"
    using inv by (auto simp: pool_inv_def returns_ok_def)
  then obtain f where f: "\<forall>r \<in> ?R. f r \<in> ?A \<and> al_ID (f r) = ar_AllocationID r \<and> al_PoolID (f r) = ar_PoolID r \<and>
      0 \<le> ar_Amount r \<and> ar_Amount r \<le> al_Amount (f r)"
    by (auto dest!: bchoice)
  have inj: "inj_on f ?R" using f dR(2) unfolding inj_on_def by metis
  have sub: "f ` ?R \<subseteq> ?A - {a}"
  proof
    fix x assume "x \<in> f ` ?R"
    then obtain r where r: "r \<in> ?R" "x = f r" by blast
    have "ar_AllocationID r \<in> ar_AllocationID ` ?R" using r(1) by (rule imageI)
    then have "ar_AllocationID r \<noteq> al_ID a" using new unfolding HasAllocationReturn_iff by metis
    then have "x \<noteq> a" using f r by auto
    moreover have "x \<in> ?A" using f r by blast
    ultimately show "x \<in> ?A - {a}" by blast
  qed
  have pos: "0 \<le> ?g x" if "x \<in> ?A" for x using inv that by (simp add: pool_inv_def)
  have "taken_back s ?i = sum ?h ?R"
    unfolding taken_back_def using dR(1) by (simp add: sum_list_distinct_conv_sum_set)
  also have "\<dots> \<le> sum (\<lambda>r. ?g (f r)) ?R" by (rule sum_mono) (use f in auto)
  also have "\<dots> = sum ?g (f ` ?R)" using sum.reindex [OF inj, of ?g] by (simp add: comp_def)
  also have "\<dots> \<le> sum ?g (?A - {a})" by (rule sum_mono2) (use sub pos in auto)
  also have "\<dots> = sum ?g ?A - al_Amount a" using a by (simp add: sum_diff1)
  also have "sum ?g ?A = given_out s ?i" unfolding given_out_def using dA(1) by (simp add: sum_list_distinct_conv_sum_set)
  finally show ?thesis by simp
qed

section \<open>Every step of the settlement succeeds\<close>

lemma lock_pool_map_completes:
  assumes "set is \<subseteq> bp_ID ` set (db_pools s)"
  shows "\<exists>pools. lock_pool_map s is m = Inr pools \<and> dom pools = dom m \<union> set is"
  using assms
proof (induction "is" arbitrary: m)
  case Nil
  then show ?case by simp
next
  case (Cons i "is")
  then have "i \<in> bp_ID ` set (db_pools s)" by simp
  then obtain p where p: "LockPool s i = Inr p"
    using lookup_by_None_iff [of bp_ID i "db_pools s"] by (cases "lookup_by bp_ID i (db_pools s)") (auto simp: LockPool_def)
  from Cons.prems have "set is \<subseteq> bp_ID ` set (db_pools s)" by simp
  from Cons.IH [OF this, of "m(i \<mapsto> p)"] p show ?case by (simp del: fun_upd_apply)
qed

lemma return_each_completes:
  assumes "pool_inv s" and "agrees s pools"
    and "\<forall>a \<in> set as. a \<in> set (db_allocations s) \<and> wf_alloc a \<and> al_Reserved a = 0 \<and> al_PoolID a \<in> dom pools"
  shows "\<exists>s'. return_each as pools now s = Inr s'"
  using assms
proof (induction as arbitrary: pools s)
  case Nil
  then show ?case by simp
next
  case (Cons a as)
  have a: "a \<in> set (db_allocations s)" "wf_alloc a" "al_Reserved a = 0" using Cons.prems(3) by simp_all
  obtain p where p: "pools (al_PoolID a) = Some p" using Cons.prems(3) by auto
  show ?case
  proof (cases "HasAllocationReturn s (al_ID a)")
    case True
    then show ?thesis using Cons by simp
  next
    case False
    have am: "0 \<le> al_Amount a" using Cons.prems(1) a(1) by (simp add: pool_inv_def)
    define u where "u = max 0 (al_Amount a - al_Consumed a)"
    have u: "ReturnUnspent a = Inr u" "0 \<le> u" "u \<le> al_Amount a"
      using ReturnUnspent_eq [OF a(2)] a(2,3) am by (auto simp: u_def wf_alloc_def)
    from Cons.prems(2) p have "wf_pool p \<and> (\<exists>x \<in> set (db_pools s). bp_ID x = al_PoolID a \<and> bp_Allocated x = bp_Allocated p)"
      by (simp add: agrees_def)
    then obtain x where x: "wf_pool p" "x \<in> set (db_pools s)" "bp_ID x = al_PoolID a" "bp_Allocated x = bp_Allocated p" by blast
    have "bp_Allocated x = given_out s (al_PoolID a) - taken_back s (al_PoolID a)"
      using Cons.prems(1) x(2,3) by (simp add: pool_inv_def)
    then have "u \<le> bp_Allocated p" using pool_covers_unreturned [OF Cons.prems(1) a(1) False] u(3) x(4) by simp
    then obtain p' where p': "Pool_Return p u = Inr p'" using Pool_Return_iff [OF x(1)] u(2) by blast
    let ?s = "(UpdatePool s p')\<lparr>db_returns := db_returns s @ [return_of a u now]\<rparr>"
    have ins: "InsertAllocationReturn (UpdatePool s p') a u now = Inr ?s"
      using False by (simp add: InsertAllocationReturn_def return_of_def UpdatePool_def HasAllocationReturn_def)
    note one = return_one [OF Cons.prems(1) a(1,2) False u(1) p Cons.prems(2) p', of now]
    have "\<forall>b \<in> set as. b \<in> set (db_allocations ?s) \<and> wf_alloc b \<and> al_Reserved b = 0 \<and> al_PoolID b \<in> dom (pools(al_PoolID a \<mapsto> p'))"
      using Cons.prems(3) by (auto simp: UpdatePool_def)
    from Cons.IH [OF one this] False u(1) p p' ins show ?thesis by (simp del: fun_upd_apply)
  qed
qed

lemma Transition_finance:
  assumes "Transition ops c now (finance_moved f) = (o1, ev)"
  shows "op_ID o1 = op_ID ops \<and> op_Finance o1 = f \<and> op_Lifecycle o1 = op_Lifecycle ops"
  using assms by (auto simp: Transition_def finance_moved_def Let_def)

lemma settled_rests:
  assumes "lookup_by op_ID operationID (db_operations s) = Some o1" and "op_Finance o1 = FinanceSettled"
  shows "SettleFinance now operationID s = Inr ((o1, False), s)"
  using assms by (simp add: SettleFinance_def financeSettleable_def)

text \<open>The log has no event under the next sequence number of the operation or under the transition.\<close>

definition unnumbered :: "db \<Rightarrow> operation \<Rightarrow> string \<Rightarrow> bool" where
  "unnumbered s ops c \<longleftrightarrow> \<not> list_ex (\<lambda>e. ev_OperationID e = op_ID ops \<and>
     (ev_EventSeq e = op_NextEventSeq ops \<or> ev_TransitionID e = c)) (db_events s)"

lemma Transition_event_fresh:
  assumes "Transition ops c now (finance_moved f) = (o1, ev)" and "unnumbered s ops c" and "db_events s' = db_events s"
  shows "event_fresh s' ev"
  using assms by (auto simp: Transition_def finance_moved_def Let_def unnumbered_def event_fresh_def)

lemma SettleFinance_completes:
  assumes inv: "ledger_inv s" "pool_inv s" and op: "lookup_by op_ID operationID (db_operations s) = Some ops"
    and sb: "financeSettleable ops" and st: "\<not> HasUnsettledDispatch s operationID" and log: "unnumbered s ops ''finance:settled''"
  obtains o1 s' where "SettleFinance now operationID s = Inr ((o1, True), s')" "op_Finance o1 = FinanceSettled"
    "lookup_by op_ID operationID (db_operations s') = Some o1"
    "\<forall>a \<in> set (LockAllocations s operationID). HasAllocationReturn s' (al_ID a)"
proof -
  let ?as = "LockAllocations s operationID"
  have "held s operationID = 0"
    unfolding held_def using st
    by (intro sum_list_zero) (auto simp: HasUnsettledDispatch_def hold_of_def holding_def list_ex_iff)
  then have res: "\<forall>a \<in> set ?as. al_Reserved a = 0" using inv(1) by (simp add: ledger_inv_def alloc_inv_def)
  obtain pools where pools: "lock_pool_map s (sort (map al_PoolID ?as)) Map.empty = Inr pools" "dom pools = al_PoolID ` set ?as"
    using lock_pool_map_completes [of "sort (map al_PoolID ?as)" s Map.empty] inv(2) by (auto simp: pool_inv_def)
  have ag: "agrees s pools"
    using inv(2) by (intro lock_pool_map_agrees [OF pools(1)]) (simp_all add: agrees_def pool_inv_def)
  have rows: "\<forall>a \<in> set ?as. a \<in> set (db_allocations s) \<and> wf_alloc a \<and> al_Reserved a = 0 \<and> al_PoolID a \<in> dom pools"
    using res ledger_wf [OF inv(1)] pools(2) by simp
  from return_each_completes [OF inv(2) ag rows] obtain s1 where s1: "return_each ?as pools now s = Inr s1" by blast
  have "\<forall>a \<in> set ?as. a \<in> set (db_allocations s) \<and> wf_alloc a" using rows by blast
  from return_each_keeps [OF s1 inv(2) ag this] have R: "s1 = s\<lparr>db_pools := db_pools s1, db_returns := db_returns s1\<rparr>"
    "\<forall>a \<in> set ?as. HasAllocationReturn s1 (al_ID a)" by blast+
  obtain o1 ev where t: "Transition ops ''finance:settled'' now (finance_moved FinanceSettled) = (o1, ev)" by fastforce
  note T = Transition_finance [OF t]
  let ?s' = "append_event (UpdateOperation s1 o1) ev"
  have ops1: "db_operations s1 = db_operations s" by (subst R(1)) simp
  have ev1: "db_events (UpdateOperation s1 o1) = db_events s" unfolding UpdateOperation_def by (subst R(1)) simp
  have "operationID = op_ID ops" using lookup_by_SomeD [OF op] by simp
  then have "lookup_by op_ID operationID (db_operations ?s') = Some o1"
    using op T lookup_by_None_iff [of op_ID operationID "db_operations s"]
    by (simp add: append_event_def UpdateOperation_def ops1 lookup_update_by)
  moreover have "SettleFinance now operationID s = Inr ((o1, True), ?s')"
    using op sb pools(1) st res s1 t Transition_event_fresh [OF t log, of "UpdateOperation s1 o1"] ev1
    by (simp add: SettleFinance_def LockOperation_def Let_def list_ex_iff InsertEvent_def del: set_LockAllocations)
  moreover have "\<forall>a \<in> set ?as. HasAllocationReturn ?s' (al_ID a)"
    using R(2) by (simp add: HasAllocationReturn_def append_event_def UpdateOperation_def)
  ultimately show thesis using that T by blast
qed


section \<open>Properties\<close>

text \<open>C29: Financial settlement always completes. From a new installation, whatever ran, once an
  operation is terminal and funded, none of its dispatches is prepared, authorized or unknown and
  its event log holds neither its next sequence number nor an earlier settlement,
  \<open>SettleFinance\<close> succeeds: the operation's finance is settled, each of its allocations has
  returned to its pool, and a further call leaves everything as it is.\<close>

theorem settlement_completes:
  assumes "installed w" and "prices_ok sv" and "svc_run sv w w'"
    and "lookup_by op_ID operationID (db_operations (w_db w')) = Some ops" and "financeSettleable ops"
    and "\<not> HasUnsettledDispatch (w_db w') operationID" and "unnumbered (w_db w') ops ''finance:settled''"
  shows "\<exists>o1 s'. SettleFinance now operationID (w_db w') = Inr ((o1, True), s') \<and> op_Finance o1 = FinanceSettled \<and>
    (\<forall>a \<in> set (db_allocations (w_db w')). al_OperationID a = operationID \<longrightarrow> HasAllocationReturn s' (al_ID a)) \<and>
    SettleFinance now2 operationID s' = Inr ((o1, False), s')"
proof -
  have inv: "ledger_inv (w_db w')" "pool_inv (w_db w')"
    using svc_run_inv [OF assms(3) installed_inv [OF assms(1)] assms(2)] by (simp_all add: world_inv_def)
  obtain o1 s' where S: "SettleFinance now operationID (w_db w') = Inr ((o1, True), s')" "op_Finance o1 = FinanceSettled"
    "lookup_by op_ID operationID (db_operations s') = Some o1"
    "\<forall>a \<in> set (LockAllocations (w_db w') operationID). HasAllocationReturn s' (al_ID a)"
    using SettleFinance_completes [OF inv assms(4-7)] .
  from settled_rests [OF S(3,2)] S show ?thesis by auto
qed

text \<open>The operation of the scenario succeeds.\<close>

definition done_operation :: operation where
  "done_operation = (the (lookup_by op_ID ''op_1'' (db_operations db5)))\<lparr>op_Lifecycle := LifecycleSucceeded\<rparr>"

definition done_world :: world where
  "done_world = world5\<lparr>w_db := db5\<lparr>db_operations := [done_operation]\<rparr>\<rparr>"

lemma done_run: "svc_run shop world0 done_world"
proof -
  have "elsewhere (w_db world5) (db5\<lparr>db_operations := [done_operation]\<rparr>)"
    by (simp add: elsewhere_def aside_def books_def world5_def)
  from svc_run.step [OF run_to_5 svc_step.other [OF this]] show ?thesis by (simp add: done_world_def)
qed

theorem settlement_completes_witness:
  "\<exists>o1 s'. SettleFinance 200 ''op_1'' (w_db done_world) = Inr ((o1, True), s') \<and> op_Finance o1 = FinanceSettled"
proof -
  have "op_ID done_operation = ''op_1'' \<and> financeSettleable done_operation \<and> \<not> HasUnsettledDispatch (w_db done_world) ''op_1'' \<and>
      unnumbered (w_db done_world) done_operation ''finance:settled''"
    by code_simp
  then have "lookup_by op_ID ''op_1'' (db_operations (w_db done_world)) = Some done_operation" "financeSettleable done_operation"
    "\<not> HasUnsettledDispatch (w_db done_world) ''op_1''" "unnumbered (w_db done_world) done_operation ''finance:settled''"
    by (simp_all add: done_world_def)
  from settlement_completes [OF world0_installed shop_prices done_run this, of 200 300] show ?thesis by blast
qed

end
