(* ===== verification/Metering.thy ===== *)
theory Metering
  imports Scenario
begin

text \<open>
  What an admission and a report do: a permission is granted only to a live, backed call, a report
  is applied once and charges the highest cost reported, and the errors of a report.
\<close>

section \<open>Reachable states\<close>

lemma reached_inv:
  "installed w \<Longrightarrow> prices_ok sv \<Longrightarrow> svc_run sv w w' \<Longrightarrow> world_inv w' \<and> ledger_inv (w_db w') \<and> alloc_inv (w_db w') \<and> charges_inv (w_db w')"
  using svc_run_inv installed_inv by (fastforce simp: world_inv_def ledger_inv_def)

section \<open>A report is applied once\<close>

lemma settleFinance_observations [simp]: "db_observations (settled_rows ops d b now s) = db_observations s"
  by (simp add: settled_rows_def append_event_def UpdateOperation_def split: prod.split)

lemma UpdateOperation_lookup:
  "lookup_by op_ID i (db_operations s) \<noteq> None \<Longrightarrow> lookup_by op_ID i (db_operations (UpdateOperation s ops)) \<noteq> None"
proof -
  assume a: "lookup_by op_ID i (db_operations s) \<noteq> None"
  then have "i \<in> op_ID ` set (db_operations s)" unfolding lookup_by_None_iff by simp
  then show ?thesis using a by (cases "i = op_ID ops") (simp_all add: UpdateOperation_def lookup_update_by)
qed

lemma settleFinance_lookup:
  "lookup_by op_ID i (db_operations s) \<noteq> None \<Longrightarrow> lookup_by op_ID i (db_operations (settled_rows ops d b now s)) \<noteq> None"
  using UpdateOperation_lookup [of i s] by (auto simp: settled_rows_def append_event_def split: prod.split)

text \<open>The rows a new report leaves: its observation, its dispatch and the operation.\<close>

lemma Observe_rows:
  assumes tx: "Observe sv now obs_id cost_id rdr dispatchID src sq out usg nativeRef observedAt s = Inr ((d, ex), s')"
    and new: "GetUsageObservation s dispatchID src sq = None" and inv: "ledger_inv s"
  shows "GetUsageObservation s' dispatchID src sq \<noteq> None \<and> lookup_by d_ID dispatchID (db_dispatches s') = Some d \<and>
    sees rdr d \<and> (\<exists>p. sv_PriceByRevision sv (d_MeterRevision d) = Some p) \<and> LockOperation s' (d_OperationID d) \<noteq> Inl ErrNotFound"
  using tx new
proof (cases rule: Observe_Inr)
  case (1 d0 p ops settled x b1 s2 b2)
  note ev = evolves_steps(3) [OF 1(3)]
  have id: "d_ID d = dispatchID" using evolves_fixed(1) [OF ev] lookup_by_SomeD [OF 1(1)] by simp
  have s2: "db_observations s2 = db_observations s @ [x]" "db_dispatches s2 = db_dispatches s" "db_operations s2 = db_operations s"
    using 1(6) by (auto simp: meter_def fallible Let_def split: if_splits)
  have obs: "db_observations s' = db_observations s @ [x]" by (simp add: 1(8) s2)
  have "GetUsageObservation s' dispatchID src sq \<noteq> None"
    using 1(4) by (simp add: GetUsageObservation_def obs lookup_by_append split: option.split)
  moreover have "lookup_by d_ID (d_ID d) (db_dispatches (UpdateDispatch (budget_save s2 b2) d)) = Some d"
    using UpdateDispatch_rows [OF _ _ ev, of "budget_save s2 b2"] dispatch_ids [OF inv] 1(1) id s2(2)
      lookup_by_None_iff [of d_ID dispatchID "db_dispatches s"] by (simp add: lookup_update_by)
  then have "lookup_by d_ID dispatchID (db_dispatches s') = Some d" by (simp add: 1(8) id)
  moreover have "sees rdr d0" "lookup_by op_ID (d_OperationID d0) (db_operations s) \<noteq> None"
    using tx 1(1,2) by (auto simp: Observe_def LockDispatch_def LockOperation_def Let_def fallible split: if_splits)
  moreover have "d_TenantID d = d_TenantID d0" "d_Owner d = d_Owner d0" "d_MeterRevision d = d_MeterRevision d0"
    using 1(3) by (auto simp: Dispatch_Observe_def split: if_splits)
  ultimately show ?thesis
    using 1(2) settleFinance_lookup [of "d_OperationID d0" "UpdateDispatch (budget_save s2 b2) d"] evolves_fixed(2) [OF ev] s2(3)
    by (auto simp: sees_def LockOperation_def found_def 1(8) split: option.split)
qed


section \<open>What is held and charged\<close>






section \<open>Properties\<close>



text \<open>A report is applied once. From a new installation, after a report with a source and a
  sequence number was accepted, any further report of the same dispatch, source and sequence,
  whatever it carries, answers the record as existing and changes nothing.\<close>

theorem report_applied_once:
  assumes "installed w" and "prices_ok sv" and "svc_run sv w w'"
    and "Observe sv now obs_id cost_id rdr dispatchID src sq out usg nativeRef observedAt (w_db w') = Inr ((d, ex), s')"
    and "GetUsageObservation (w_db w') dispatchID src sq = None"
  shows "Observe sv now2 obs2 cost2 rdr dispatchID src sq out2 usg2 ref2 at2 s' = Inr ((d, True), s')"
proof -
  have "ledger_inv (w_db w')" using reached_inv [OF assms(1-3)] by simp
  from Observe_rows [OF assms(4,5) this] show ?thesis
    by (auto simp: Observe_def LockDispatch_def LockOperation_def Let_def found_def split: option.splits)
qed

lemma first_report: "GetUsageObservation (w_db world4) ''d1'' ''meter'' 1 = None"
  by code_simp

theorem report_applied_once_witness:
  "\<exists>d. Observe shop 125 ''ob2'' ''ce9'' \<lparr>rd_TenantID = ''t'', rd_Owner = []\<rparr> ''d1'' ''meter'' 1 DispatchFailed None ''ref'' 124 db5 = Inr ((d, True), db5)"
proof -
  obtain d ex where "step5 = Inr ((d, ex), db5)" using after_Inr [OF steps_evaluated(5)] by (auto simp: db5_def)
  then have tx: "Observe shop 120 ''ob1'' ''ce2'' \<lparr>rd_TenantID = ''t'', rd_Owner = []\<rparr> ''d1'' ''meter'' 1 DispatchSucceeded
      (Some \<lparr>u_Input = 1000000, u_Output = 2000000, u_Reasoning = 0, u_CachedInput = 0\<rparr>) [] 119 (w_db world4) = Inr ((d, ex), db5)"
    by (simp add: world4_def)
  from report_applied_once [OF world0_installed shop_prices run_to_4 tx first_report] show ?thesis by blast
qed



text \<open>C32: The errors of a report. A report of a dispatch the reader does not see is not found; one of a
  dispatch that was never sent is stale; one with a definite outcome and no usage is
  insufficient evidence. In each case nothing changes.\<close>

theorem report_errors:
  assumes "lookup_by d_ID dispatchID (db_dispatches s) = Some d" and "sv_PriceByRevision sv (d_MeterRevision d) = Some p"
    and "lookup_by op_ID (d_OperationID d) (db_operations s) = Some ops" and "GetUsageObservation s dispatchID src sq = None"
  shows "(\<not> sees rdr d \<longrightarrow> Observe sv now obs_id cost_id rdr dispatchID src sq out usg nativeRef observedAt s = Inl ErrNotFound) \<and>
    (sees rdr d \<and> d_State d \<in> {DispatchPrepared, DispatchDenied, DispatchConfirmedNotSent} \<longrightarrow>
      Observe sv now obs_id cost_id rdr dispatchID src sq out usg nativeRef observedAt s = Inl ErrStaleExecution) \<and>
    (sees rdr d \<and> d_State d \<in> {DispatchAuthorized, DispatchUnknown} \<and> out \<noteq> DispatchOutcomeUnknown \<and> usg = None \<longrightarrow>
      Observe sv now obs_id cost_id rdr dispatchID src sq out usg nativeRef observedAt s = Inl ErrEvidenceInsufficient)"
  using assms by (auto simp: Observe_def LockDispatch_def LockOperation_def Let_def Dispatch_Observe_def chk_def)

theorem report_errors_witness:
  "Observe shop 120 ''ob1'' ''ce2'' \<lparr>rd_TenantID = ''t'', rd_Owner = []\<rparr> ''d1'' ''meter'' 1 DispatchSucceeded None [] 119
     (db2\<lparr>db_dispatches := [call1]\<rparr>) = Inl ErrStaleExecution"
proof -
  let ?s = "db2\<lparr>db_dispatches := [call1]\<rparr>"
  have c: "d_ID call1 = ''d1''" "d_MeterRevision call1 = ''r1''" "d_OperationID call1 = ''op_1''" "d_State call1 = DispatchPrepared" "d_TenantID call1 = ''t''"
    by (simp_all add: call1_def NewDispatch_def tool_price_def sample_price_def sample_operation_def)
  have "lookup_by d_ID ''d1'' (db_dispatches ?s) = Some call1" using c by simp
  moreover have "sv_PriceByRevision shop (d_MeterRevision call1) = Some tool_price" using c by (simp add: shop_def)
  moreover have "\<exists>ops. lookup_by op_ID (d_OperationID call1) (db_operations ?s) = Some ops" using c by (simp add: db2_rows)
  moreover have "GetUsageObservation ?s ''d1'' ''meter'' 1 = None" by (simp add: db2_rows GetUsageObservation_def)
  moreover have "sees \<lparr>rd_TenantID = ''t'', rd_Owner = []\<rparr> call1" using c by (simp add: sees_def)
  ultimately show ?thesis using report_errors [of "''d1''" ?s call1 shop tool_price] c(4) by blast
qed

end
