(* ===== verification/Archive.thy ===== *)
theory Archive
  imports Attempt
begin

text \<open>
  \<open>internal/domain/archive.go\<close>: the inspection of an archive artifact at the transfer boundary.
  The readers of \<open>archive/zip\<close>, \<open>archive/tar\<close> and \<open>compress/gzip\<close> are a parameter (record
  \<open>readers\<close>): what they list of the bytes. The Unicode tables behind \<open>strings.ToLower\<close> and
  \<open>strings.TrimSpace\<close> are parameters too, and every theorem holds whatever functions they are.
  \<open>strings.Split\<close>, \<open>strings.Join\<close> and \<open>path.Clean\<close> are written out. A refusal is the error
  class and the reason code its message carries.
\<close>

section \<open>Strings and paths\<close>

primrec Split :: "char \<Rightarrow> string \<Rightarrow> string list" where
  "Split sep [] = [[]]"
| "Split sep (c # cs) =
     (if c = sep then [] # Split sep cs
      else (case Split sep cs of [] \<Rightarrow> [[c]] | x # xs \<Rightarrow> (c # x) # xs))"

fun Join :: "char \<Rightarrow> string list \<Rightarrow> string" where
  "Join sep [] = []"
| "Join sep [x] = x"
| "Join sep (x # y # xs) = x @ sep # Join sep (y # xs)"

text \<open>\<open>path.Clean\<close>. The output buffer is kept reversed, so that its last byte is the head; \<open>unwind\<close>
  is the backtracking over the last element of the output, and \<open>dotdot\<close> the length of the output
  that must not be backtracked into.\<close>

fun unwind :: "nat \<Rightarrow> string \<Rightarrow> string" where
  "unwind dotdot [] = []"
| "unwind dotdot (c # cs) = (if length cs > dotdot \<and> c \<noteq> CHR ''/'' then unwind dotdot cs else cs)"

function clean_loop :: "bool \<Rightarrow> nat \<Rightarrow> string \<Rightarrow> string \<Rightarrow> string" where
  "clean_loop rooted dotdot out [] = out"
| "clean_loop rooted dotdot out (c # cs) =
     (if c = CHR ''/'' then clean_loop rooted dotdot out cs
      else if c = CHR ''.'' \<and> (cs = [] \<or> hd cs = CHR ''/'') then clean_loop rooted dotdot out cs
      else if c = CHR ''.'' \<and> hd cs = CHR ''.'' \<and> (tl cs = [] \<or> hd (tl cs) = CHR ''/'') then
        (if length out > dotdot then clean_loop rooted dotdot (unwind dotdot out) (tl cs)
         else if \<not> rooted then
           let out' = ''..'' @ (if out \<noteq> [] then CHR ''/'' # out else out)
           in clean_loop rooted (length out') out' (tl cs)
         else clean_loop rooted dotdot out (tl cs))
      else let out' = (if rooted \<and> length out \<noteq> 1 \<or> \<not> rooted \<and> length out \<noteq> 0 then CHR ''/'' # out else out)
           in clean_loop rooted dotdot (rev (takeWhile (\<lambda>x. x \<noteq> CHR ''/'') (c # cs)) @ out')
                (dropWhile (\<lambda>x. x \<noteq> CHR ''/'') (c # cs)))"
  by pat_completeness auto

lemma dropWhile_shorter: "P c \<Longrightarrow> length (dropWhile P (c # cs)) < Suc (length cs)"
  using length_dropWhile_le [of P cs] by simp

termination clean_loop
  by (relation "measure (\<lambda>(_, _, _, rest). length rest)")
    (auto simp: less_Suc_eq_le length_dropWhile_le)

definition Clean :: "string \<Rightarrow> string" where
  "Clean pth =
     (if pth = [] then ''.''
      else let rooted = (hd pth = CHR ''/'');
               out = (if rooted then clean_loop True 1 [CHR ''/''] (tl pth) else clean_loop False 0 [] pth)
           in if out = [] then ''.'' else rev out)"

section \<open>Entry paths\<close>

type_synonym fault = "err \<times> string"

abbreviation ReasonPathEscape :: string where
  "ReasonPathEscape \<equiv> ''PATH_ESCAPE''"

abbreviation ReasonArchiveInvalid :: string where
  "ReasonArchiveInvalid \<equiv> ''ARCHIVE_INVALID''"

definition containedPath :: "string \<Rightarrow> fault + string" where
  "containedPath name =
     (if name = [] then Inl (ErrInvalid, ReasonPathEscape)
      else if CHR 0x5C \<in> set name \<or> CHR 0x00 \<in> set name then Inl (ErrInvalid, ReasonPathEscape)
      else if hd name = CHR ''/'' \<or> (length name > 1 \<and> name ! 1 = CHR '':'') then Inl (ErrInvalid, ReasonPathEscape)
      else if list_ex (\<lambda>seg. seg = ''..'') (Split CHR ''/'' name) then Inl (ErrInvalid, ReasonPathEscape)
      else let clean = Clean name
           in if clean = ''.'' \<or> clean = ''..'' \<or> take 3 clean = ''../'' then Inl (ErrInvalid, ReasonPathEscape)
              else Inr clean)"

record path_entry =
  pe_spelling :: string
  pe_dir :: bool

type_synonym path_set = "string \<rightharpoonup> path_entry"

text \<open>The paths an entry names: each of its ancestors and itself, with whether it is a directory.\<close>

definition levels :: "string \<Rightarrow> bool \<Rightarrow> (string \<times> bool) list" where
  "levels clean isDir =
     (let segs = Split CHR ''/'' clean
      in map (\<lambda>i. (Join CHR ''/'' (take (i + 1) segs), i < length segs - 1 \<or> isDir)) [0..<length segs])"

definition add_level :: "(string \<Rightarrow> string) \<Rightarrow> path_set \<Rightarrow> string \<Rightarrow> bool \<Rightarrow> fault + path_set" where
  "add_level ToLower s p dir =
     (case s (ToLower p) of
        None \<Rightarrow> Inr (s(ToLower p \<mapsto> \<lparr>pe_spelling = p, pe_dir = dir\<rparr>))
      | Some prev \<Rightarrow>
          if pe_spelling prev \<noteq> p then Inl (ErrInvalid, ReasonArchiveInvalid)
          else if pe_dir prev \<noteq> dir then Inl (ErrInvalid, ReasonArchiveInvalid)
          else if \<not> dir then Inl (ErrInvalid, ReasonArchiveInvalid)
          else Inr s)"

fun add_levels :: "(string \<Rightarrow> string) \<Rightarrow> path_set \<Rightarrow> (string \<times> bool) list \<Rightarrow> fault + path_set" where
  "add_levels ToLower s [] = Inr s"
| "add_levels ToLower s ((p, dir) # ls) =
     (case add_level ToLower s p dir of Inl e \<Rightarrow> Inl e | Inr s' \<Rightarrow> add_levels ToLower s' ls)"

definition pathSet_add :: "(string \<Rightarrow> string) \<Rightarrow> path_set \<Rightarrow> string \<Rightarrow> bool \<Rightarrow> fault + path_set" where
  "pathSet_add ToLower s clean isDir = add_levels ToLower s (levels clean isDir)"

section \<open>Listings\<close>

record archive_limits =
  MaxEntries :: int
  MaxUncompressed :: int

text \<open>A file of a zip directory, with \<open>Mode()\<close> as the bits of \<open>os.FileMode\<close>.\<close>

record zip_file =
  zf_Name :: string
  zf_Mode :: "32 word"
  zf_UncompressedSize64 :: u64

definition ModeDir :: "32 word" where "ModeDir = 0x80000000"
definition ModeSymlink :: "32 word" where "ModeSymlink = 0x08000000"

text \<open>\<open>ModeDevice\<close>, \<open>ModeNamedPipe\<close>, \<open>ModeSocket\<close> and \<open>ModeCharDevice\<close> together.\<close>

definition ModeSpecial :: "32 word" where "ModeSpecial = 0x07200000"

definition has_mode :: "zip_file \<Rightarrow> 32 word \<Rightarrow> bool" where
  "has_mode f bits \<longleftrightarrow> and (zf_Mode f) bits \<noteq> 0"

fun zip_entries ::
  "(string \<Rightarrow> string) \<Rightarrow> archive_limits \<Rightarrow> path_set \<Rightarrow> u64 \<Rightarrow> zip_file list \<Rightarrow> fault option" where
  "zip_entries ToLower limits seen running [] = None"
| "zip_entries ToLower limits seen running (f # fs) =
     (case containedPath (zf_Name f) of Inl e \<Rightarrow> Some e
      | Inr clean \<Rightarrow>
          if has_mode f ModeSymlink then Some (ErrInvalid, ReasonPathEscape)
          else if has_mode f ModeSpecial then Some (ErrInvalid, ReasonArchiveInvalid)
          else (case pathSet_add ToLower seen clean (has_mode f ModeDir) of Inl e \<Rightarrow> Some e
            | Inr seen' \<Rightarrow>
                let running' = running + zf_UncompressedSize64 f
                in if MaxUncompressed limits > 0 \<and> running' > of_int (MaxUncompressed limits)
                   then Some (ErrInvalid, ReasonArchiveInvalid)
                   else zip_entries ToLower limits seen' running' fs))"

definition checkZip :: "(string \<Rightarrow> string) \<Rightarrow> zip_file list option \<Rightarrow> archive_limits \<Rightarrow> fault option" where
  "checkZip ToLower r limits =
     (case r of
        None \<Rightarrow> Some (ErrInvalid, ReasonArchiveInvalid)
      | Some fs \<Rightarrow>
          if MaxEntries limits > 0 \<and> int (length fs) > MaxEntries limits then Some (ErrInvalid, ReasonArchiveInvalid)
          else zip_entries ToLower limits Map.empty 0 fs)"

text \<open>What successive calls of \<open>tar.Reader.Next\<close> answer, up to the end of the archive: a header, with
  whether the body that follows can be read to its declared size, or a read error.\<close>

record tar_header =
  th_Name :: string
  th_Typeflag :: char
  th_Size :: int

datatype tar_item = TarHeader tar_header bool | TarUnreadable

abbreviation TypeLink :: char where "TypeLink \<equiv> CHR ''1''"
abbreviation TypeSymlink :: char where "TypeSymlink \<equiv> CHR ''2''"
abbreviation TypeChar :: char where "TypeChar \<equiv> CHR ''3''"
abbreviation TypeBlock :: char where "TypeBlock \<equiv> CHR ''4''"
abbreviation TypeDir :: char where "TypeDir \<equiv> CHR ''5''"
abbreviation TypeFifo :: char where "TypeFifo \<equiv> CHR ''6''"

fun tar_entries ::
  "(string \<Rightarrow> string) \<Rightarrow> archive_limits \<Rightarrow> path_set \<Rightarrow> int \<Rightarrow> int \<Rightarrow> tar_item list \<Rightarrow> fault option" where
  "tar_entries ToLower limits seen running entries [] = None"
| "tar_entries ToLower limits seen running entries (TarUnreadable # its) = Some (ErrInvalid, ReasonArchiveInvalid)"
| "tar_entries ToLower limits seen running entries (TarHeader h body # its) =
     (let entries' = entries + 1
      in if MaxEntries limits > 0 \<and> entries' > MaxEntries limits then Some (ErrInvalid, ReasonArchiveInvalid)
         else case containedPath (th_Name h) of Inl e \<Rightarrow> Some e
          | Inr clean \<Rightarrow>
              if th_Typeflag h = TypeSymlink \<or> th_Typeflag h = TypeLink then Some (ErrInvalid, ReasonPathEscape)
              else if th_Typeflag h = TypeChar \<or> th_Typeflag h = TypeBlock \<or> th_Typeflag h = TypeFifo
                then Some (ErrInvalid, ReasonArchiveInvalid)
              else (case pathSet_add ToLower seen clean (th_Typeflag h = TypeDir) of Inl e \<Rightarrow> Some e
                | Inr seen' \<Rightarrow>
                    if th_Typeflag h = TypeDir then tar_entries ToLower limits seen' running entries' its
                    else let running' = wrap64 (running + th_Size h)
                         in if MaxUncompressed limits > 0 \<and> running' > MaxUncompressed limits
                            then Some (ErrInvalid, ReasonArchiveInvalid)
                            else if \<not> body then Some (ErrInvalid, ReasonArchiveInvalid)
                            else tar_entries ToLower limits seen' running' entries' its))"

definition checkTar :: "(string \<Rightarrow> string) \<Rightarrow> tar_item list \<Rightarrow> archive_limits \<Rightarrow> fault option" where
  "checkTar ToLower its limits = tar_entries ToLower limits Map.empty 0 0 its"

section \<open>The bytes of an artifact\<close>

record readers =
  rd_ToLower :: "string \<Rightarrow> string"
  rd_TrimSpace :: "string \<Rightarrow> string"
  rd_zip :: "string \<Rightarrow> zip_file list option"
  rd_tar :: "string \<Rightarrow> tar_item list"
  rd_tgz :: "string \<Rightarrow> tar_item list option"

definition archiveZip :: string where "archiveZip = ''zip''"
definition archiveTar :: string where "archiveTar = ''tar''"
definition archiveTgz :: string where "archiveTgz = ''tgz''"

text \<open>\<open>ArchiveMediaTypes\<close>; a media type it does not hold has the empty format.\<close>

definition ArchiveMediaTypes :: "string \<Rightarrow> string" where
  "ArchiveMediaTypes m =
     (if m = ''application/zip'' then archiveZip
      else if m = ''application/x-tar'' then archiveTar
      else if m = ''application/gzip'' then archiveTgz
      else if m = ''application/x-gzip'' then archiveTgz
      else if m = ''application/x-tar+gzip'' then archiveTgz
      else [])"

definition declared_format :: "readers \<Rightarrow> string \<Rightarrow> string" where
  "declared_format rd mediaType = ArchiveMediaTypes (rd_ToLower rd (rd_TrimSpace rd (hd (Split CHR '';'' mediaType))))"

definition tarHeaderVerifies :: "readers \<Rightarrow> string \<Rightarrow> bool" where
  "tarHeaderVerifies rd blk =
     (if blk = replicate 512 (CHR 0x00) then False
      else (case rd_tar rd blk of TarHeader h body # _ \<Rightarrow> True | _ \<Rightarrow> False))"

definition DetectArchive :: "readers \<Rightarrow> string \<Rightarrow> string" where
  "DetectArchive rd data =
     (if length data \<ge> 2 \<and> data ! 0 = CHR 0x1F \<and> data ! 1 = CHR 0x8B then archiveTgz
      else if length data \<ge> 4 \<and> data ! 0 = CHR ''P'' \<and> data ! 1 = CHR ''K'' \<and>
        (data ! 2 = CHR 0x03 \<and> data ! 3 = CHR 0x04 \<or> data ! 2 = CHR 0x05 \<and> data ! 3 = CHR 0x06 \<or>
         data ! 2 = CHR 0x07 \<and> data ! 3 = CHR 0x08) then archiveZip
      else if length data \<ge> 512 \<and> (take 5 (drop 257 data) = ''ustar'' \<or> tarHeaderVerifies rd (take 512 data)) then archiveTar
      else [])"

definition CheckArchive :: "readers \<Rightarrow> artifact_class \<Rightarrow> string \<Rightarrow> string \<Rightarrow> archive_limits \<Rightarrow> fault option" where
  "CheckArchive rd cls mediaType data limits =
     (let declared = declared_format rd mediaType;
          detected = DetectArchive rd data
      in if cls = ArtifactSource \<and> detected = [] then Some (ErrInvalid, ReasonArchiveInvalid)
         else if declared \<noteq> [] \<and> detected = [] then Some (ErrInvalid, ReasonArchiveInvalid)
         else if declared \<noteq> [] \<and> detected \<noteq> declared then Some (ErrInvalid, ReasonArchiveInvalid)
         else if detected = [] then None
         else if detected = archiveZip then checkZip (rd_ToLower rd) (rd_zip rd data) limits
         else if detected = archiveTar then checkTar (rd_ToLower rd) (rd_tar rd data) limits
         else if detected = archiveTgz then
           (case rd_tgz rd data of None \<Rightarrow> Some (ErrInvalid, ReasonArchiveInvalid)
            | Some its \<Rightarrow> checkTar (rd_ToLower rd) its limits)
         else None)"

definition NeedsArchiveCheck :: "readers \<Rightarrow> artifact_class \<Rightarrow> string \<Rightarrow> bool" where
  "NeedsArchiveCheck rd cls mediaType =
     (if cls = ArtifactSource then True else declared_format rd mediaType \<noteq> [])"

section \<open>Normalized paths\<close>

lemma Split_step:
  "Split sep s = takeWhile (\<lambda>x. x \<noteq> sep) s # (case dropWhile (\<lambda>x. x \<noteq> sep) s of [] \<Rightarrow> [] | _ # r \<Rightarrow> Split sep r)"
  by (induction s) (auto split: list.splits)

lemma Split_nonempty [simp]: "Split sep s \<noteq> []"
  by (subst Split_step) simp

lemma Split_no_sep: "x \<in> set (Split sep s) \<Longrightarrow> sep \<notin> set x"
  by (induction s arbitrary: x) (auto split: list.splits if_splits)

lemma Join_Split [simp]: "Join sep (Split sep s) = s"
proof (induction s)
  case (Cons c s)
  obtain x xs where "Split sep s = x # xs" using Split_nonempty by (metis list.exhaust)
  then show ?case using Cons by (cases xs) auto
qed simp

lemma Split_append: "sep \<notin> set x \<Longrightarrow> Split sep (x @ sep # s) = x # Split sep s"
  by (induction x) auto

lemma Split_plain: "sep \<notin> set x \<Longrightarrow> Split sep x = [x]"
  by (induction x) auto

lemma Split_Join: "xs \<noteq> [] \<Longrightarrow> list_all (\<lambda>x. sep \<notin> set x) xs \<Longrightarrow> Split sep (Join sep xs) = xs"
  by (induction sep xs rule: Join.induct) (auto simp: Split_plain Split_append)

text \<open>The segments that name something: neither empty nor the current directory.\<close>

definition named :: "string \<Rightarrow> bool" where
  "named seg \<longleftrightarrow> seg \<noteq> [] \<and> seg \<noteq> ''.''"

definition segments :: "string \<Rightarrow> string list" where
  "segments name = filter named (Split CHR ''/'' name)"

definition push_segment :: "string \<Rightarrow> string \<Rightarrow> string" where
  "push_segment seg out = rev seg @ (if out \<noteq> [] then CHR ''/'' # out else out)"

lemma segments_simps [simp]:
  "segments [] = []" "segments (CHR ''/'' # s) = segments s" "segments ''.'' = []"
  "segments (CHR ''.'' # CHR ''/'' # s) = segments s"
  by (simp_all add: segments_def named_def)

lemma filter_Split_step:
  assumes "P (takeWhile (\<lambda>x. x \<noteq> sep) s)" and "\<not> P []"
  shows "filter P (Split sep s) = takeWhile (\<lambda>x. x \<noteq> sep) s # filter P (Split sep (dropWhile (\<lambda>x. x \<noteq> sep) s))"
proof (cases "dropWhile (\<lambda>x. x \<noteq> sep) s")
  case Nil
  show ?thesis by (subst Split_step) (simp only: Nil list.case filter.simps assms if_True if_False Split.simps)
next
  case (Cons a r)
  then have "a = sep" using hd_dropWhile [of "\<lambda>x. x \<noteq> sep" s] by auto
  then show ?thesis by (subst Split_step) (simp only: Cons list.case filter.simps assms if_True if_False Split.simps simp_thms)
qed

lemma segments_step:
  assumes "named (takeWhile (\<lambda>x. x \<noteq> CHR ''/'') s)"
  shows "segments s = takeWhile (\<lambda>x. x \<noteq> CHR ''/'') s # segments (dropWhile (\<lambda>x. x \<noteq> CHR ''/'') s)"
  unfolding segments_def by (rule filter_Split_step) (use assms in \<open>simp_all add: named_def\<close>)

lemma Split_dropWhile:
  assumes "x \<in> set (Split sep (dropWhile (\<lambda>c. c \<noteq> sep) s))"
  shows "x = [] \<or> x \<in> set (Split sep s)"
proof (cases "dropWhile (\<lambda>c. c \<noteq> sep) s")
  case Nil
  with assms have "x \<in> set (Split sep [])" by (simp only:)
  then show ?thesis by simp
next
  case (Cons a r)
  then have "a = sep" using hd_dropWhile [of "\<lambda>c. c \<noteq> sep" s] by auto
  then show ?thesis using assms Cons by (subst Split_step) auto
qed

lemma clean_loop_segments:
  "''..'' \<notin> set (Split CHR ''/'' rest) \<Longrightarrow> clean_loop False 0 out rest = fold push_segment (segments rest) out"
proof (induction False "0 :: nat" out rest rule: clean_loop.induct)
  case (1 out)
  then show ?case by simp
next
  case (2 out c cs)
  let ?w = "takeWhile (\<lambda>x. x \<noteq> CHR ''/'') (c # cs)" and ?r = "dropWhile (\<lambda>x. x \<noteq> CHR ''/'') (c # cs)"
  consider (sep) "c = CHR ''/''" | (dot) "c = CHR ''.''" "cs = [] \<or> hd cs = CHR ''/''"
    | (up) "c = CHR ''.''" "cs \<noteq> []" "hd cs = CHR ''.''" "tl cs = [] \<or> hd (tl cs) = CHR ''/''"
    | (seg) "c \<noteq> CHR ''/''" "named ?w" "\<not> (c = CHR ''.'' \<and> (cs = [] \<or> hd cs = CHR ''/''))"
        "\<not> (c = CHR ''.'' \<and> hd cs = CHR ''.'' \<and> (tl cs = [] \<or> hd (tl cs) = CHR ''/''))"
    by (cases cs) (auto simp: named_def)
  then show ?case
  proof cases
    case sep
    then show ?thesis using "2.hyps"(1) "2.prems" by simp
  next
    case dot
    then show ?thesis using "2.hyps"(2) "2.prems" by (cases cs) auto
  next
    case up
    then have "''..'' \<in> set (Split CHR ''/'' (c # cs))" by (cases cs; cases "tl cs") auto
    then show ?thesis using "2.prems" by blast
  next
    case seg
    have "''..'' \<notin> set (Split CHR ''/'' ?r)" using Split_dropWhile "2.prems" by blast
    moreover have "clean_loop False 0 out (c # cs) = clean_loop False 0 (push_segment ?w out) ?r"
      unfolding clean_loop.simps(2) if_not_P [OF seg(1)] if_not_P [OF seg(3)] if_not_P [OF seg(4)]
      by (simp add: push_segment_def)
    moreover have "segments (c # cs) = ?w # segments ?r" by (rule segments_step [OF seg(2)])
    ultimately show ?thesis using "2.hyps"(6) [OF seg(1) seg(3) seg(4) refl] by (simp add: push_segment_def)
  qed
qed

lemma fold_push_segment:
  "list_all named segs \<Longrightarrow> out \<noteq> [] \<Longrightarrow> segs \<noteq> [] \<Longrightarrow> fold push_segment segs out = rev (Join CHR ''/'' segs) @ CHR ''/'' # out"
proof (induction "CHR ''/''" segs arbitrary: out rule: Join.induct)
  case (3 x y xs)
  have "push_segment x out \<noteq> []" using 3(3) by (simp add: push_segment_def)
  then show ?case using 3(1) [of "push_segment x out"] 3(2,3) by (simp add: push_segment_def)
qed (auto simp: push_segment_def)

lemma Clean_segments:
  assumes "pth \<noteq> []" and "hd pth \<noteq> CHR ''/''" and "''..'' \<notin> set (Split CHR ''/'' pth)"
  shows "Clean pth = (if segments pth = [] then ''.'' else Join CHR ''/'' (segments pth))"
proof (cases "segments pth")
  case Nil
  then show ?thesis using assms clean_loop_segments [OF assms(3), of "[]"] by (simp add: Clean_def)
next
  case (Cons x xs)
  have n: "list_all named (x # xs)" unfolding Cons [symmetric] by (simp add: segments_def list_all_iff)
  then have x: "x \<noteq> []" by (simp add: named_def)
  have "fold push_segment (x # xs) [] = rev (Join CHR ''/'' (x # xs))"
    using n x fold_push_segment [of xs "rev x"] by (cases xs) (auto simp: push_segment_def)
  moreover have "Join CHR ''/'' (x # xs) \<noteq> []" using x by (cases xs) auto
  ultimately show ?thesis using assms clean_loop_segments [OF assms(3), of "[]"] Cons by (simp add: Clean_def)
qed

section \<open>Entry paths against a reference\<close>

text \<open>The names an archive may hold: relative, without a backslash, a NUL, a drive letter or an upward
  segment, and naming something.\<close>

definition admissible_name :: "string \<Rightarrow> bool" where
  "admissible_name name \<longleftrightarrow>
     name \<noteq> [] \<and> hd name \<noteq> CHR ''/'' \<and> CHR 0x5C \<notin> set name \<and> CHR 0x00 \<notin> set name \<and>
     \<not> (length name > 1 \<and> name ! 1 = CHR '':'') \<and> ''..'' \<notin> set (Split CHR ''/'' name) \<and> segments name \<noteq> []"

definition normal_form :: "string \<Rightarrow> string" where
  "normal_form name = Join CHR ''/'' (segments name)"

lemma segments_plain: "seg \<in> set (segments name) \<Longrightarrow> named seg \<and> CHR ''/'' \<notin> set seg"
  using Split_no_sep by (auto simp: segments_def)

lemma Split_normal_form: "segments name \<noteq> [] \<Longrightarrow> Split CHR ''/'' (normal_form name) = segments name"
  unfolding normal_form_def by (rule Split_Join) (auto simp: list_all_iff segments_plain)

lemma normal_form_inside:
  assumes "segments name \<noteq> []" and "''..'' \<notin> set (Split CHR ''/'' name)"
  shows "normal_form name \<noteq> ''.''" "normal_form name \<noteq> ''..''" "take 3 (normal_form name) \<noteq> ''../''"
proof -
  let ?n = "normal_form name"
  have s: "Split CHR ''/'' ?n = segments name" by (rule Split_normal_form [OF assms(1)])
  have up: "''..'' \<notin> set (segments name)" using assms(2) by (simp add: segments_def)
  show "?n \<noteq> ''.''"
  proof
    assume "?n = ''.''"
    then have "segments name = [''.'']" using s by simp
    then have "named ''.''" using segments_plain [of "''.''" name] by simp
    then show False by (simp add: named_def)
  qed
  show "?n \<noteq> ''..''"
  proof
    assume "?n = ''..''"
    then have "segments name = [''..'']" using s by simp
    then show False using up by simp
  qed
  show "take 3 ?n \<noteq> ''../''"
  proof
    assume "take 3 ?n = ''../''"
    then have "?n = ''..'' @ CHR ''/'' # drop 3 ?n" by (metis append_take_drop_id append_Cons append_Nil)
    then have "Split CHR ''/'' ?n = ''..'' # Split CHR ''/'' (drop 3 ?n)" using Split_append [of "CHR ''/''" "''..''" "drop 3 ?n"] by simp
    then show False using s up by (metis list.set_intros(1))
  qed
qed

lemma containedPath_char:
  "containedPath name =
     (if admissible_name name then Inr (normal_form name) else Inl (ErrInvalid, ReasonPathEscape))"
proof (cases "name = [] \<or> hd name = CHR ''/'' \<or> ''..'' \<in> set (Split CHR ''/'' name)")
  case True
  then show ?thesis by (auto simp: containedPath_def admissible_name_def list_ex_iff)
next
  case False
  then have "Clean name = (if segments name = [] then ''.'' else normal_form name)"
    by (simp add: Clean_segments normal_form_def)
  moreover have "\<not> list_ex (\<lambda>seg. seg = ''..'') (Split CHR ''/'' name)" using False by (auto simp: list_ex_iff)
  ultimately show ?thesis using False normal_form_inside [of name]
    by (auto simp: containedPath_def admissible_name_def Let_def)
qed

text \<open>The drive letter is looked for in the raw name only.\<close>

lemma drive_letter_behind_dot: "containedPath ''./c:/x'' = Inr ''c:/x'' \<and> containedPath ''c:/x'' = Inl (ErrInvalid, ReasonPathEscape)"
  by code_simp

section \<open>Path sets against a reference\<close>

text \<open>Two paths of a listing, the first named before the second, agree when they differ by more than
  case or are the same directory.\<close>

definition agree :: "(string \<Rightarrow> string) \<Rightarrow> string \<times> bool \<Rightarrow> string \<times> bool \<Rightarrow> bool" where
  "agree ToLower x y \<longleftrightarrow> (ToLower (fst x) = ToLower (fst y) \<longrightarrow> fst x = fst y \<and> snd x \<and> snd y)"

definition indexed :: "(string \<Rightarrow> string) \<Rightarrow> path_set \<Rightarrow> (string \<times> bool) list \<Rightarrow> bool" where
  "indexed ToLower s L \<longleftrightarrow>
     (\<forall>k e. s k = Some e \<longrightarrow> (pe_spelling e, pe_dir e) \<in> set L \<and> ToLower (pe_spelling e) = k) \<and>
     (\<forall>p d. (p, d) \<in> set L \<longrightarrow> s (ToLower p) = Some \<lparr>pe_spelling = p, pe_dir = d\<rparr>)"

lemma indexed_empty [simp]: "indexed ToLower Map.empty []"
  by (simp add: indexed_def)

lemma add_level_indexed:
  assumes "indexed ToLower s L"
  shows "if list_all (\<lambda>x. agree ToLower x (p, d)) L
    then \<exists>s'. add_level ToLower s p d = Inr s' \<and> indexed ToLower s' (L @ [(p, d)])
    else \<exists>e. add_level ToLower s p d = Inl e"
proof (cases "s (ToLower p)")
  case None
  then have "ToLower q \<noteq> ToLower p" if "(q, e) \<in> set L" for q e
    using assms that by (metis indexed_def option.distinct(1))
  then have "list_all (\<lambda>x. agree ToLower x (p, d)) L" by (auto simp: list_all_iff agree_def)
  moreover have "indexed ToLower (s(ToLower p \<mapsto> \<lparr>pe_spelling = p, pe_dir = d\<rparr>)) (L @ [(p, d)])"
    using assms \<open>\<And>e q. (q, e) \<in> set L \<Longrightarrow> ToLower q \<noteq> ToLower p\<close> by (auto simp: indexed_def)
  ultimately show ?thesis using None by (simp add: add_level_def)
next
  case (Some prev)
  then have prev: "(pe_spelling prev, pe_dir prev) \<in> set L" "ToLower (pe_spelling prev) = ToLower p"
    using assms by (auto simp: indexed_def)
  have only: "x = (pe_spelling prev, pe_dir prev)" if "x \<in> set L" "ToLower (fst x) = ToLower p" for x
  proof (cases x)
    case (Pair a b)
    then have "s (ToLower a) = Some \<lparr>pe_spelling = a, pe_dir = b\<rparr>" using assms that(1) by (simp add: indexed_def)
    then show ?thesis using Some that(2) Pair by simp
  qed
  have "list_all (\<lambda>x. agree ToLower x (p, d)) L \<longleftrightarrow> pe_spelling prev = p \<and> pe_dir prev \<and> d"
  proof
    assume "list_all (\<lambda>x. agree ToLower x (p, d)) L"
    then have "agree ToLower (pe_spelling prev, pe_dir prev) (p, d)" using prev(1) unfolding list_all_iff by (rule bspec)
    then show "pe_spelling prev = p \<and> pe_dir prev \<and> d" using prev(2) by (simp add: agree_def)
  next
    assume h: "pe_spelling prev = p \<and> pe_dir prev \<and> d"
    have "agree ToLower x (p, d)" if "x \<in> set L" for x
      using only [OF that] h by (cases "ToLower (fst x) = ToLower p") (simp_all add: agree_def)
    then show "list_all (\<lambda>x. agree ToLower x (p, d)) L" by (simp add: list_all_iff)
  qed
  moreover have "indexed ToLower s (L @ [(p, d)])" if "pe_spelling prev = p" "pe_dir prev" d
    using assms that Some prev by (auto simp: indexed_def)
  ultimately show ?thesis using Some by (auto simp: add_level_def)
qed

definition agree_all :: "(string \<Rightarrow> string) \<Rightarrow> (string \<times> bool) list \<Rightarrow> (string \<times> bool) list \<Rightarrow> bool" where
  "agree_all ToLower L ls \<longleftrightarrow> list_all (\<lambda>y. list_all (\<lambda>x. agree ToLower x y) L) ls \<and> sorted_wrt (agree ToLower) ls"

lemma agree_all_Nil [simp]: "agree_all ToLower L []" "agree_all ToLower [] ls \<longleftrightarrow> sorted_wrt (agree ToLower) ls"
  by (simp_all add: agree_all_def list_all_iff)

lemma agree_all_append:
  "agree_all ToLower L (xs @ ys) \<longleftrightarrow> agree_all ToLower L xs \<and> agree_all ToLower (L @ xs) ys"
  by (auto simp: agree_all_def sorted_wrt_append list_all_iff)

lemma add_levels_indexed:
  "indexed ToLower s L \<Longrightarrow>
     if agree_all ToLower L ls then \<exists>s'. add_levels ToLower s ls = Inr s' \<and> indexed ToLower s' (L @ ls)
     else \<exists>e. add_levels ToLower s ls = Inl e"
proof (induction ls arbitrary: s L)
  case (Cons x ls)
  obtain p d where x: "x = (p, d)" by (cases x)
  have step: "agree_all ToLower L (x # ls) \<longleftrightarrow> list_all (\<lambda>y. agree ToLower y (p, d)) L \<and> agree_all ToLower (L @ [(p, d)]) ls"
    using agree_all_append [of ToLower L "[x]" ls] by (simp add: x agree_all_def)
  from add_level_indexed [OF Cons(2), of p d] consider
    (ok) s' where "list_all (\<lambda>y. agree ToLower y (p, d)) L" "add_level ToLower s p d = Inr s'" "indexed ToLower s' (L @ [(p, d)])"
    | (bad) e where "\<not> list_all (\<lambda>y. agree ToLower y (p, d)) L" "add_level ToLower s p d = Inl e"
    by (metis (full_types))
  then show ?case
  proof cases
    case ok
    have "add_levels ToLower s (x # ls) = add_levels ToLower s' ls" by (simp add: x ok(2))
    moreover have "L @ x # ls = (L @ [(p, d)]) @ ls" by (simp add: x)
    ultimately show ?thesis using Cons(1) [OF ok(3)] ok(1) unfolding step by (simp only: simp_thms)
  next
    case bad
    then show ?thesis using step by (simp add: x)
  qed
qed simp

section \<open>Zip listings\<close>

definition zip_levels :: "zip_file \<Rightarrow> (string \<times> bool) list" where
  "zip_levels f = levels (normal_form (zf_Name f)) (has_mode f ModeDir)"

definition zip_plain :: "zip_file \<Rightarrow> bool" where
  "zip_plain f \<longleftrightarrow> admissible_name (zf_Name f) \<and> \<not> has_mode f ModeSymlink \<and> \<not> has_mode f ModeSpecial"

text \<open>The declared sizes added up, entry by entry, in 64 bits.\<close>

definition zip_totals_within :: "archive_limits \<Rightarrow> u64 \<Rightarrow> zip_file list \<Rightarrow> bool" where
  "zip_totals_within limits run fs \<longleftrightarrow>
     MaxUncompressed limits \<le> 0 \<or>
     list_all (\<lambda>n. run + sum_list (map zf_UncompressedSize64 (take (Suc n) fs)) \<le> of_int (MaxUncompressed limits)) [0..<length fs]"

lemma list_all_upt_Suc: "list_all P [0..<Suc n] \<longleftrightarrow> P 0 \<and> list_all (\<lambda>i. P (Suc i)) [0..<n]"
  by (auto simp: list_all_iff less_Suc_eq_0_disj simp del: upt_Suc)

lemma zip_totals_within_simps [simp]:
  "zip_totals_within limits run []"
  "zip_totals_within limits run (f # fs) \<longleftrightarrow>
     (MaxUncompressed limits \<le> 0 \<or> run + zf_UncompressedSize64 f \<le> of_int (MaxUncompressed limits)) \<and>
     zip_totals_within limits (run + zf_UncompressedSize64 f) fs"
  by (auto simp: zip_totals_within_def list_all_upt_Suc add.assoc simp del: upt_Suc)

lemma zip_entries_exact:
  "indexed ToLower s L \<Longrightarrow>
     zip_entries ToLower limits s run fs = None \<longleftrightarrow>
       list_all zip_plain fs \<and> agree_all ToLower L (concat (map zip_levels fs)) \<and> zip_totals_within limits run fs"
proof (induction fs arbitrary: s L run)
  case (Cons f fs)
  let ?add = "pathSet_add ToLower s (normal_form (zf_Name f)) (has_mode f ModeDir)"
  have split: "agree_all ToLower L (concat (map zip_levels (f # fs))) \<longleftrightarrow>
      agree_all ToLower L (zip_levels f) \<and> agree_all ToLower (L @ zip_levels f) (concat (map zip_levels fs))"
    by (simp add: agree_all_append)
  from add_levels_indexed [OF Cons(2), of "zip_levels f"] consider
    (ok) s' where "agree_all ToLower L (zip_levels f)" "?add = Inr s'" "indexed ToLower s' (L @ zip_levels f)"
    | (bad) e where "\<not> agree_all ToLower L (zip_levels f)" "?add = Inl e"
    by (metis (full_types) pathSet_add_def zip_levels_def)
  then show ?case
  proof cases
    case ok
    note ih = Cons(1) [OF ok(3), of "run + zf_UncompressedSize64 f"]
    show ?thesis unfolding split using ok(1,2)
      by (auto simp: containedPath_char zip_plain_def Let_def ih not_less not_le)
  next
    case bad
    then show ?thesis unfolding split by (simp add: containedPath_char Let_def)
  qed
qed simp

text \<open>A zip archive is accepted exactly when its directory can be read, does not list more entries
  than the bound, every entry has an admissible name and is neither a link nor a special file, no
  two paths it names, ancestors included, differ only by case, are a file and a directory or are
  the same file twice, and the declared sizes, added up in 64 bits, never exceed the bound.\<close>

theorem checkZip_exact:
  "checkZip ToLower r limits = None \<longleftrightarrow>
     (\<exists>fs. r = Some fs \<and> (MaxEntries limits \<le> 0 \<or> int (length fs) \<le> MaxEntries limits) \<and> list_all zip_plain fs \<and>
        sorted_wrt (agree ToLower) (concat (map zip_levels fs)) \<and> zip_totals_within limits 0 fs)"
  using zip_entries_exact [OF indexed_empty, of ToLower limits 0]
  by (auto simp: checkZip_def split: option.splits)

lemma unat_sum_bounded:
  fixes ws :: "u64 list"
  shows "sum_list (map uint ws) < 2 ^ 64 \<Longrightarrow> uint (sum_list ws) = sum_list (map uint ws)"
proof (induction ws)
  case (Cons w ws)
  have "0 \<le> sum_list (map uint ws)" by (rule sum_list_nonneg) auto
  moreover have "0 \<le> uint w" by simp
  moreover have "uint w + sum_list (map uint ws) < 2 ^ 64" using Cons(2) by simp
  moreover from this \<open>0 \<le> uint w\<close> have "sum_list (map uint ws) < 2 ^ 64" by linarith
  ultimately show ?case using Cons by (simp add: uint_word_ariths mod_pos_pos_trivial)
qed simp

lemma zip_totals_last:
  assumes "zip_totals_within limits 0 fs" and "MaxUncompressed limits > 0" and "fs \<noteq> []"
  shows "sum_list (map zf_UncompressedSize64 fs) \<le> of_int (MaxUncompressed limits)"
proof -
  have "\<forall>n \<in> set [0..<length fs]. sum_list (map zf_UncompressedSize64 (take (Suc n) fs)) \<le> of_int (MaxUncompressed limits)"
    using assms(1,2) by (simp add: zip_totals_within_def list_all_iff)
  moreover have "length fs - 1 \<in> set [0..<length fs]" using assms(3) by (simp add: Suc_le_eq)
  ultimately have "sum_list (map zf_UncompressedSize64 (take (Suc (length fs - 1)) fs)) \<le> of_int (MaxUncompressed limits)" by (rule bspec)
  then show ?thesis using assms(3) by simp
qed

text \<open>C40: The size bound of a zip archive. With a bound set, the declared sizes of an accepted archive
  sum to at most the bound, or to 2 to the 64 and more: the running total is 64 bits wide and is
  not checked for overflow.\<close>

theorem zip_declared_size:
  assumes "checkZip ToLower (Some fs) limits = None" and "MaxUncompressed limits > 0" and "int64 (MaxUncompressed limits)"
  shows "sum_list (map (uint \<circ> zf_UncompressedSize64) fs) \<le> MaxUncompressed limits \<or>
    2 ^ 64 \<le> sum_list (map (uint \<circ> zf_UncompressedSize64) fs)"
proof (cases "fs = []")
  case True
  then show ?thesis using assms(2) by simp
next
  case False
  have "zip_totals_within limits 0 fs" using assms(1) zip_entries_exact [OF indexed_empty, of ToLower limits 0 fs]
    by (simp add: checkZip_def split: if_splits)
  from zip_totals_last [OF this assms(2) False]
  have "uint (sum_list (map zf_UncompressedSize64 fs)) \<le> uint (of_int (MaxUncompressed limits) :: u64)"
    by (simp add: word_le_def)
  moreover have "uint (of_int (MaxUncompressed limits) :: u64) = MaxUncompressed limits"
    using assms(2,3) by (simp add: int64_defs uint_word_of_int_eq take_bit_int_eq_self)
  ultimately show ?thesis using unat_sum_bounded [of "map zf_UncompressedSize64 fs"]
    by (cases "sum_list (map uint (map zf_UncompressedSize64 fs)) < 2 ^ 64") simp_all
qed

section \<open>Tar listings\<close>

fun tar_plain :: "tar_item \<Rightarrow> bool" where
  "tar_plain TarUnreadable = False"
| "tar_plain (TarHeader h body) \<longleftrightarrow> admissible_name (th_Name h) \<and>
     th_Typeflag h \<notin> set [TypeSymlink, TypeLink, TypeChar, TypeBlock, TypeFifo] \<and> (th_Typeflag h = TypeDir \<or> body)"

fun tar_levels :: "tar_item \<Rightarrow> (string \<times> bool) list" where
  "tar_levels TarUnreadable = []"
| "tar_levels (TarHeader h body) = levels (normal_form (th_Name h)) (th_Typeflag h = TypeDir)"

fun tar_totals_within :: "archive_limits \<Rightarrow> int \<Rightarrow> tar_item list \<Rightarrow> bool" where
  "tar_totals_within limits run (TarHeader h body # its) \<longleftrightarrow>
     (if th_Typeflag h = TypeDir then tar_totals_within limits run its
      else (MaxUncompressed limits \<le> 0 \<or> wrap64 (run + th_Size h) \<le> MaxUncompressed limits) \<and>
           tar_totals_within limits (wrap64 (run + th_Size h)) its)"
| "tar_totals_within limits run its = True"

lemma tar_entries_exact:
  "indexed ToLower s L \<Longrightarrow> MaxEntries limits \<le> 0 \<or> n \<le> MaxEntries limits \<Longrightarrow>
     tar_entries ToLower limits s run n its = None \<longleftrightarrow>
       (MaxEntries limits \<le> 0 \<or> n + int (length its) \<le> MaxEntries limits) \<and>
       list_all tar_plain its \<and> agree_all ToLower L (concat (map tar_levels its)) \<and> tar_totals_within limits run its"
proof (induction its arbitrary: s L run n)
  case (Cons it its)
  show ?case
  proof (cases it)
    case TarUnreadable
    then show ?thesis by simp
  next
    case (TarHeader h body)
    let ?add = "pathSet_add ToLower s (normal_form (th_Name h)) (th_Typeflag h = TypeDir)"
    have split: "agree_all ToLower L (concat (map tar_levels (it # its))) \<longleftrightarrow>
        agree_all ToLower L (tar_levels it) \<and> agree_all ToLower (L @ tar_levels it) (concat (map tar_levels its))"
      by (simp add: agree_all_append)
    from add_levels_indexed [OF Cons(2), of "tar_levels it"] consider
      (ok) s' where "agree_all ToLower L (tar_levels it)" "?add = Inr s'" "indexed ToLower s' (L @ tar_levels it)"
      | (bad) e where "\<not> agree_all ToLower L (tar_levels it)" "?add = Inl e"
      unfolding TarHeader by (metis (full_types) pathSet_add_def tar_levels.simps(2))
    then show ?thesis
    proof cases
      case ok
      show ?thesis
      proof (cases "MaxEntries limits > 0 \<and> n + 1 > MaxEntries limits")
        case True
        then show ?thesis by (auto simp: TarHeader)
      next
        case False
        then have "MaxEntries limits \<le> 0 \<or> n + 1 \<le> MaxEntries limits" by linarith
        then have ih: "tar_entries ToLower limits s' r (n + 1) its = None \<longleftrightarrow>
            (MaxEntries limits \<le> 0 \<or> n + 1 + int (length its) \<le> MaxEntries limits) \<and> list_all tar_plain its \<and>
            agree_all ToLower (L @ tar_levels it) (concat (map tar_levels its)) \<and> tar_totals_within limits r its" for r
          by (rule Cons(1) [OF ok(3)])
        show ?thesis unfolding split using False ok(1,2)
          by (auto simp: containedPath_char TarHeader Let_def not_less not_le ih [unfolded TarHeader] simp flip: add.assoc)
      qed
    next
      case bad
      then show ?thesis unfolding split by (auto simp: TarHeader containedPath_char Let_def)
    qed
  qed
qed simp

lemma checkTar_exact:
  "checkTar ToLower its limits = None \<longleftrightarrow>
     (MaxEntries limits \<le> 0 \<or> int (length its) \<le> MaxEntries limits) \<and> list_all tar_plain its \<and>
     sorted_wrt (agree ToLower) (concat (map tar_levels its)) \<and> tar_totals_within limits 0 its"
proof -
  have "MaxEntries limits \<le> 0 \<or> 0 \<le> MaxEntries limits" by linarith
  from tar_entries_exact [OF indexed_empty this] show ?thesis by (simp add: checkTar_def)
qed

section \<open>What an accepted artifact holds\<close>

text \<open>The entries of the archive an artifact is, by the format its bytes carry.\<close>

fun tar_names :: "tar_item list \<Rightarrow> (string \<times> bool) list" where
  "tar_names [] = []"
| "tar_names (TarHeader h body # its) = (th_Name h, th_Typeflag h = TypeDir) # tar_names its"
| "tar_names (TarUnreadable # its) = tar_names its"

definition archive_entries :: "readers \<Rightarrow> string \<Rightarrow> (string \<times> bool) list option" where
  "archive_entries rd data =
     (let fmt = DetectArchive rd data
      in if fmt = archiveZip then map_option (map (\<lambda>f. (zf_Name f, has_mode f ModeDir))) (rd_zip rd data)
         else if fmt = archiveTar then Some (tar_names (rd_tar rd data))
         else if fmt = archiveTgz then map_option tar_names (rd_tgz rd data)
         else None)"

text \<open>A listing that unpacks inside its root without one entry overwriting another, on a file system
  that folds case or not.\<close>

definition unpacks_safely :: "readers \<Rightarrow> archive_limits \<Rightarrow> (string \<times> bool) list \<Rightarrow> bool" where
  "unpacks_safely rd limits es \<longleftrightarrow>
     (MaxEntries limits \<le> 0 \<or> int (length es) \<le> MaxEntries limits) \<and> list_all (\<lambda>(name, dir). admissible_name name) es \<and>
     sorted_wrt (agree (rd_ToLower rd)) (concat (map (\<lambda>(name, dir). levels (normal_form name) dir) es))"

lemma zip_unpacks_safely:
  assumes "checkZip (rd_ToLower rd) r limits = None"
  shows "\<exists>es. map_option (map (\<lambda>f. (zf_Name f, has_mode f ModeDir))) r = Some es \<and> unpacks_safely rd limits es"
proof -
  obtain fs where "r = Some fs" and "MaxEntries limits \<le> 0 \<or> int (length fs) \<le> MaxEntries limits" "list_all zip_plain fs"
    and "sorted_wrt (agree (rd_ToLower rd)) (concat (map zip_levels fs))"
    using assms zip_entries_exact [OF indexed_empty, of "rd_ToLower rd" limits 0]
    by (auto simp: checkZip_def split: option.splits if_splits)
  then show ?thesis by (auto simp: unpacks_safely_def list_all_iff zip_plain_def zip_levels_def [abs_def] comp_def)
qed

lemma tar_names_plain:
  "list_all tar_plain its \<Longrightarrow> length (tar_names its) = length its \<and> list_all (\<lambda>(name, dir). admissible_name name) (tar_names its) \<and>
     map (\<lambda>(name, dir). levels (normal_form name) dir) (tar_names its) = map tar_levels its"
  by (induction its rule: tar_names.induct) auto

lemma tar_unpacks_safely:
  "checkTar (rd_ToLower rd) its limits = None \<Longrightarrow> unpacks_safely rd limits (tar_names its)"
  using tar_names_plain [of its] by (simp add: checkTar_exact unpacks_safely_def)

text \<open>C39: Whatever media type and class were declared, an artifact that passes the inspection either
  carries no archive signature, is not of class source and was not declared as an archive, or
  is an archive of the declared format whose entries all have admissible names and do not
  collide, at most as many as the bound.\<close>

theorem CheckArchive_safe:
  assumes "CheckArchive rd cls mediaType data limits = None"
  shows "DetectArchive rd data = [] \<and> \<not> NeedsArchiveCheck rd cls mediaType \<or>
    (declared_format rd mediaType = [] \<or> declared_format rd mediaType = DetectArchive rd data) \<and>
    (\<exists>es. archive_entries rd data = Some es \<and> unpacks_safely rd limits es)"
proof -
  have f: "archiveZip \<noteq> []" "archiveTar \<noteq> []" "archiveTgz \<noteq> []" "archiveZip \<noteq> archiveTar" "archiveZip \<noteq> archiveTgz"
    "archiveTar \<noteq> archiveTgz" by (simp_all add: archiveZip_def archiveTar_def archiveTgz_def)
  have "DetectArchive rd data = [] \<or> DetectArchive rd data = archiveZip \<or> DetectArchive rd data = archiveTar \<or>
    DetectArchive rd data = archiveTgz" by (simp add: DetectArchive_def)
  then show ?thesis using assms zip_unpacks_safely [of rd "rd_zip rd data" limits] tar_unpacks_safely [of rd _ limits] f
    by (auto simp: CheckArchive_def NeedsArchiveCheck_def archive_entries_def Let_def split: if_splits option.splits)
qed

definition sample_readers :: readers where
  "sample_readers = \<lparr>rd_ToLower = id, rd_TrimSpace = id,
     rd_zip = (\<lambda>_. Some [\<lparr>zf_Name = ''src/'', zf_Mode = ModeDir, zf_UncompressedSize64 = 0\<rparr>,
                         \<lparr>zf_Name = ''src/a.ts'', zf_Mode = 0, zf_UncompressedSize64 = 10\<rparr>,
                         \<lparr>zf_Name = ''b.ts'', zf_Mode = 0, zf_UncompressedSize64 = - 5\<rparr>]),
     rd_tar = (\<lambda>_. []), rd_tgz = (\<lambda>_. None)\<rparr>"

definition sample_zip :: string where
  "sample_zip = [CHR ''P'', CHR ''K'', CHR 0x03, CHR 0x04]"

definition sample_limits :: archive_limits where
  "sample_limits = \<lparr>MaxEntries = 5, MaxUncompressed = 100\<rparr>"

lemma sample_zip_accepted: "CheckArchive sample_readers ArtifactSource ''application/zip'' sample_zip sample_limits = None"
  by code_simp

theorem CheckArchive_safe_witness:
  "\<exists>es. archive_entries sample_readers sample_zip = Some es \<and> unpacks_safely sample_readers sample_limits es"
proof -
  have "DetectArchive sample_readers sample_zip \<noteq> []" by code_simp
  then show ?thesis using CheckArchive_safe [OF sample_zip_accepted] by blast
qed

text \<open>The sample archive declares more than 2 to the 64 bytes and passes a bound of 100.\<close>

lemma zip_total_wraps:
  "checkZip id (rd_zip sample_readers sample_zip) sample_limits = None"
  "sum_list (map (uint \<circ> zf_UncompressedSize64) (the (rd_zip sample_readers sample_zip))) > MaxUncompressed sample_limits"
  by code_simp+

theorem zip_declared_size_witness:
  "2 ^ 64 \<le> sum_list (map (uint \<circ> zf_UncompressedSize64) (the (rd_zip sample_readers sample_zip)))"
proof -
  have "rd_zip sample_readers sample_zip = Some (the (rd_zip sample_readers sample_zip))" by (simp add: sample_readers_def)
  then have "checkZip id (Some (the (rd_zip sample_readers sample_zip))) sample_limits = None" using zip_total_wraps(1) by simp
  moreover have "0 < MaxUncompressed sample_limits" "int64 (MaxUncompressed sample_limits)"
    by (simp_all add: sample_limits_def int64_defs)
  ultimately show ?thesis using zip_declared_size zip_total_wraps(2) by (meson not_less)
qed

text \<open>C38: Path containment. An entry name is accepted exactly when it is relative, has no
  backslash, NUL, drive letter or upward segment and names something, and the path returned is
  its named segments joined by single slashes, as \<open>path.Clean\<close> computes it byte by byte.\<close>

theorem containedPath_exact:
  "containedPath name =
     (if admissible_name name then Inr (normal_form name) else Inl (ErrInvalid, ReasonPathEscape))"
  by (rule containedPath_char)

end
