(* ===== verification/Control_Store.thy ===== *)
theory Control_Store
  imports Store Artifact Preview Release
begin

text \<open>
  The rows of the execution, generation and operation services and the queries they issue, beside
  the tables of \<open>Store\<close>: attempts, launches, physical instances and accepted stages are tables of
  \<open>Store\<close> already; permits, resource pools, fundings, commands, settlement intents, transfers, stage
  artifacts and briefs are added. An insertion is refused when a primary key, a \<open>UNIQUE\<close>
  constraint or a \<open>CHECK\<close> of the schema refuses it.
\<close>

section \<open>The database\<close>

record cdb =
  c_db :: db
  c_permits :: "permit list"
  c_resource_pools :: "resource_pool list"
  c_fundings :: "funding list"
  c_commands :: "command list"
  c_settlements :: "settlement_intent list"
  c_transfers :: "transfer list"
  c_stage_artifacts :: "stage_artifact list"
  c_briefs :: "brief list"
  c_previews :: "preview list"
  c_releases :: "release list"
  c_lineages :: "lineage_identity list"
  c_effect_observations :: "effect_observation list"

text \<open>\<open>in_db c x\<close> commits the core tables of a fallible step.\<close>

definition in_db :: "cdb \<Rightarrow> err + db \<Rightarrow> err + cdb" where
  "in_db c x = (case x of Inl e \<Rightarrow> Inl e | Inr s \<Rightarrow> Inr (c\<lparr>c_db := s\<rparr>))"

lemma in_db_Inr_iff [fallible]: "in_db c x = Inr c' \<longleftrightarrow> (\<exists>s. x = Inr s \<and> c' = c\<lparr>c_db := s\<rparr>)"
  by (auto simp: in_db_def split: sum.split)

lemma in_db_Inr [simp]: "in_db c (Inr s) = Inr (c\<lparr>c_db := s\<rparr>)"
  by (simp add: in_db_def)

section \<open>Attempts\<close>

definition GetAttemptByCommand :: "db \<Rightarrow> string \<Rightarrow> string \<Rightarrow> attempt option" where
  "GetAttemptByCommand s operationID commandID =
     lookup_by (\<lambda>a. (at_OperationID a, at_CommandID a)) (operationID, commandID) (db_attempts s)"

definition GetAttempt :: "db \<Rightarrow> string \<Rightarrow> err + attempt" where
  "GetAttempt s attemptID = found (lookup_by at_ID attemptID (db_attempts s))"

definition CountAttempts :: "db \<Rightarrow> string \<Rightarrow> string \<Rightarrow> u64 \<Rightarrow> u64" where
  "CountAttempts s operationID stepID visit =
     of_nat (length (filter (\<lambda>a. at_OperationID a = operationID \<and> at_StepID a = stepID \<and> at_VisitOrdinal a = visit) (db_attempts s)))"

definition HasOpenAttempt :: "db \<Rightarrow> string \<Rightarrow> bool" where
  "HasOpenAttempt s operationID = list_ex (\<lambda>a. at_OperationID a = operationID \<and> at_State a \<noteq> AttemptClosed) (db_attempts s)"

definition HasUnknownAttempt :: "db \<Rightarrow> string \<Rightarrow> string \<Rightarrow> bool" where
  "HasUnknownAttempt s operationID exceptAttemptID =
     list_ex (\<lambda>a. at_OperationID a = operationID \<and> at_ID a \<noteq> exceptAttemptID \<and>
        (at_Cleanup a = Some CleanupUnknown \<or> at_Outcome a = OutcomeUnknown)) (db_attempts s)"

definition InsertAttempt :: "db \<Rightarrow> attempt \<Rightarrow> err + db" where
  "InsertAttempt s a =
     (if \<not> bigint_ok (at_VisitOrdinal a) \<or> \<not> bigint_ok (at_AttemptOrdinal a) \<or> at_AttemptOrdinal a = 0 then Inl ErrStore
      else if list_ex (\<lambda>x. at_ID x = at_ID a \<or>
          at_OperationID x = at_OperationID a \<and>
            (at_CommandID x = at_CommandID a \<or>
             at_StepID x = at_StepID a \<and> at_VisitOrdinal x = at_VisitOrdinal a \<and> at_AttemptOrdinal x = at_AttemptOrdinal a))
          (db_attempts s) then Inl ErrDuplicateKey
      else Inr (s\<lparr>db_attempts := db_attempts s @ [a]\<rparr>))"

definition attempt_columns :: "attempt \<Rightarrow> attempt \<Rightarrow> attempt" where
  "attempt_columns a x =
     x\<lparr>at_State := at_State a, at_Outcome := at_Outcome a, at_Cleanup := at_Cleanup a, at_FailureCode := at_FailureCode a,
       at_AcceptedStageID := at_AcceptedStageID a, at_UpdatedAt := at_UpdatedAt a\<rparr>"

definition UpdateAttempt :: "db \<Rightarrow> attempt \<Rightarrow> db" where
  "UpdateAttempt s a =
     s\<lparr>db_attempts := map (\<lambda>x. if at_ID x = at_ID a then attempt_columns a x else x) (db_attempts s)\<rparr>"

section \<open>Launches\<close>

definition GetLaunchByCommand :: "db \<Rightarrow> string \<Rightarrow> string \<Rightarrow> launch option" where
  "GetLaunchByCommand s attemptID commandID =
     lookup_by (\<lambda>l. (ln_AttemptID l, ln_CommandID l)) (attemptID, commandID) (db_launches s)"

definition GetLaunchByKey :: "db \<Rightarrow> string \<Rightarrow> string \<Rightarrow> launch option" where
  "GetLaunchByKey s backend launchKey =
     lookup_by (\<lambda>l. (ln_Backend l, ln_LaunchKey l)) (backend, launchKey) (db_launches s)"

definition LockLaunch :: "db \<Rightarrow> string \<Rightarrow> err + launch" where
  "LockLaunch s launchID = found (lookup_by ln_ID launchID (db_launches s))"

definition InsertLaunch :: "db \<Rightarrow> launch \<Rightarrow> err + db" where
  "InsertLaunch s l =
     (if \<not> digestPattern (ln_ImageDigest l) then Inl ErrStore
      else if list_ex (\<lambda>x. ln_ID x = ln_ID l \<or> ln_Backend x = ln_Backend l \<and> ln_LaunchKey x = ln_LaunchKey l \<or>
          ln_AttemptID x = ln_AttemptID l \<and> ln_CommandID x = ln_CommandID l) (db_launches s) then Inl ErrDuplicateKey
      else Inr (s\<lparr>db_launches := db_launches s @ [l]\<rparr>))"

definition UpdateLaunchInventory :: "db \<Rightarrow> launch \<Rightarrow> db" where
  "UpdateLaunchInventory s l =
     s\<lparr>db_launches := map (\<lambda>x. if ln_ID x = ln_ID l
         then x\<lparr>ln_Inventory := ln_Inventory l, ln_InventoryVersion := ln_InventoryVersion l, ln_UpdatedAt := ln_UpdatedAt l\<rparr>
         else x) (db_launches s)\<rparr>"

section \<open>Physical instances and stages\<close>

definition GetInstanceByPod :: "db \<Rightarrow> string \<Rightarrow> string \<Rightarrow> inst option" where
  "GetInstanceByPod s backend podUID = lookup_by (\<lambda>i. (inst_Backend i, inst_PodUID i)) (backend, podUID) (db_instances s)"

definition LockInstance :: "db \<Rightarrow> string \<Rightarrow> err + inst" where
  "LockInstance s instanceID = found (lookup_by inst_ID instanceID (db_instances s))"

definition HasCurrentInstance :: "db \<Rightarrow> string \<Rightarrow> bool" where
  "HasCurrentInstance s attemptID = list_ex (\<lambda>i. inst_AttemptID i = attemptID \<and> inst_Current i) (db_instances s)"

definition InsertInstance :: "db \<Rightarrow> inst \<Rightarrow> err + db" where
  "InsertInstance s i =
     (if list_ex (\<lambda>x. inst_ID x = inst_ID i \<or> inst_Backend x = inst_Backend i \<and> inst_PodUID x = inst_PodUID i \<or>
         inst_Current x \<and> inst_Current i \<and> inst_AttemptID x = inst_AttemptID i) (db_instances s) then Inl ErrDuplicateKey
      else Inr (s\<lparr>db_instances := db_instances s @ [i]\<rparr>))"

definition UpdateInstanceObservation :: "db \<Rightarrow> inst \<Rightarrow> db" where
  "UpdateInstanceObservation s i =
     s\<lparr>db_instances := map (\<lambda>x. if inst_ID x = inst_ID i
         then x\<lparr>inst_Phase := inst_Phase i, inst_ExitCode := inst_ExitCode i, inst_ObservedAt := inst_ObservedAt i\<rparr> else x)
       (db_instances s)\<rparr>"

definition GetStageByAttempt :: "db \<Rightarrow> string \<Rightarrow> stage option" where
  "GetStageByAttempt s attemptID = lookup_by (\<lambda>st. (st_AttemptID st, st_PhaseOrdinal st)) (attemptID, 1) (db_stages s)"

definition InsertStage :: "db \<Rightarrow> stage \<Rightarrow> err + db" where
  "InsertStage s st =
     (if \<not> digestPattern (st_ResultDigest st) \<or> st_Verdict st = VerdictUnset then Inl ErrStore
      else if list_ex (\<lambda>x. st_ID x = st_ID st \<or>
          st_AttemptID x = st_AttemptID st \<and> st_PhaseOrdinal x = st_PhaseOrdinal st) (db_stages s) then Inl ErrDuplicateKey
      else Inr (s\<lparr>db_stages := db_stages s @ [st]\<rparr>))"

definition ListStageArtifacts :: "cdb \<Rightarrow> string \<Rightarrow> stage_artifact list" where
  "ListStageArtifacts c stageID = sort_key sa_Handle (filter (\<lambda>a. sa_StageID a = stageID) (c_stage_artifacts c))"

definition InsertStageArtifact :: "cdb \<Rightarrow> stage_artifact \<Rightarrow> err + cdb" where
  "InsertStageArtifact c a =
     (if \<not> digestPattern (sa_Digest a) \<or> sa_SizeBytes a < 0 then Inl ErrStore
      else if list_ex (\<lambda>x. sa_StageID x = sa_StageID a \<and> sa_TransferID x = sa_TransferID a) (c_stage_artifacts c)
        then Inl ErrDuplicateKey
      else Inr (c\<lparr>c_stage_artifacts := c_stage_artifacts c @ [a]\<rparr>))"

section \<open>Effects, transfers and events\<close>

definition HasUnresolvedEffect :: "db \<Rightarrow> string \<Rightarrow> bool" where
  "HasUnresolvedEffect s operationID =
     list_ex (\<lambda>e. e_OperationID e = operationID \<and> (e_State e = EffectPermitted \<or> e_State e = EffectUnknown)) (db_effects s)"

definition GetTransfer :: "cdb \<Rightarrow> string \<Rightarrow> transfer option" where
  "GetTransfer c transferID = lookup_by t_ID transferID (c_transfers c)"

definition GetTransferByHandle :: "cdb \<Rightarrow> string \<Rightarrow> transfer option" where
  "GetTransferByHandle c handle = lookup_by t_Handle handle (c_transfers c)"

definition GetEventByTransition :: "db \<Rightarrow> string \<Rightarrow> string \<Rightarrow> event option" where
  "GetEventByTransition s operationID transitionID =
     lookup_by (\<lambda>e. (ev_OperationID e, ev_TransitionID e)) (operationID, transitionID) (db_events s)"

definition ListEvents :: "db \<Rightarrow> string \<Rightarrow> u64 \<Rightarrow> nat \<Rightarrow> event list" where
  "ListEvents s operationID afterSeq lim =
     take lim (sort_key ev_EventSeq (filter (\<lambda>e. ev_OperationID e = operationID \<and> ev_EventSeq e > afterSeq) (db_events s)))"

section \<open>Permits, fundings, commands and settlements\<close>

definition LockResourcePool :: "cdb \<Rightarrow> string \<Rightarrow> resource_pool option" where
  "LockResourcePool c poolID = lookup_by rp_ID poolID (c_resource_pools c)"

definition UpsertResourcePool :: "cdb \<Rightarrow> resource_pool \<Rightarrow> err + cdb" where
  "UpsertResourcePool c p =
     (if rp_Capacity p < 0 \<or> rp_ReservedControl p < 0 then Inl ErrStore
      else Inr (c\<lparr>c_resource_pools :=
        (if LockResourcePool c (rp_ID p) = None then c_resource_pools c @ [p] else update_by rp_ID p (c_resource_pools c))\<rparr>))"

definition CountActivePermits :: "cdb \<Rightarrow> string \<Rightarrow> int" where
  "CountActivePermits c poolID =
     int (length (filter (\<lambda>p. pm_PoolID p = poolID \<and> pm_State p = PermitActive) (c_permits c)))"

definition GetActivePermit :: "cdb \<Rightarrow> string \<Rightarrow> string \<Rightarrow> string \<Rightarrow> permit option" where
  "GetActivePermit c poolID ownerKind ownerID =
     find (\<lambda>p. pm_PoolID p = poolID \<and> pm_OwnerKind p = ownerKind \<and> pm_OwnerID p = ownerID \<and> pm_State p = PermitActive)
       (c_permits c)"

definition InsertPermit :: "cdb \<Rightarrow> permit \<Rightarrow> err + cdb" where
  "InsertPermit c p =
     (if LockResourcePool c (pm_PoolID p) = None then Inl ErrStore
      else if list_ex (\<lambda>x. pm_ID x = pm_ID p \<or> pm_State x = PermitActive \<and> pm_State p = PermitActive \<and>
          pm_PoolID x = pm_PoolID p \<and> pm_OwnerKind x = pm_OwnerKind p \<and> pm_OwnerID x = pm_OwnerID p) (c_permits c)
        then Inl ErrDuplicateKey
      else Inr (c\<lparr>c_permits := c_permits c @ [p]\<rparr>))"

definition ReleasePermits :: "cdb \<Rightarrow> string \<Rightarrow> string \<Rightarrow> instant \<Rightarrow> string \<Rightarrow> cdb" where
  "ReleasePermits c ownerKind ownerID now evidence =
     c\<lparr>c_permits := map (\<lambda>p. if pm_OwnerKind p = ownerKind \<and> pm_OwnerID p = ownerID \<and> pm_State p = PermitActive
         then p\<lparr>pm_State := PermitReleased, pm_ReleasedAt := Some now, pm_ReleaseEvidence := evidence\<rparr> else p) (c_permits c)\<rparr>"

definition GetFunding :: "cdb \<Rightarrow> string \<Rightarrow> funding option" where
  "GetFunding c operationID = lookup_by fu_OperationID operationID (c_fundings c)"

definition InsertFunding :: "cdb \<Rightarrow> funding \<Rightarrow> err + cdb" where
  "InsertFunding c f =
     (if m_Amount (fu_Amount f) < 0 then Inl ErrStore
      else if GetFunding c (fu_OperationID f) \<noteq> None then Inl ErrDuplicateKey
      else Inr (c\<lparr>c_fundings := c_fundings c @ [f]\<rparr>))"

abbreviation command_key :: "command \<Rightarrow> string \<times> string" where
  "command_key m \<equiv> (cm_TenantID m, cm_CommandID m)"

definition GetCommand :: "cdb \<Rightarrow> string \<Rightarrow> string \<Rightarrow> err + command" where
  "GetCommand c tenantID commandID = found (lookup_by command_key (tenantID, commandID) (c_commands c))"

definition InsertCommand :: "cdb \<Rightarrow> command \<Rightarrow> err + cdb" where
  "InsertCommand c m =
     (if \<not> digestPattern (cm_RequestDigest m) \<or> (case cm_Kind m of CommandKindOther _ \<Rightarrow> True | _ \<Rightarrow> False) then Inl ErrStore
      else if list_ex (\<lambda>x. command_key x = command_key m) (c_commands c) then Inl ErrDuplicateKey
      else Inr (c\<lparr>c_commands := c_commands c @ [m]\<rparr>))"

definition UpdateCommand :: "cdb \<Rightarrow> command \<Rightarrow> cdb" where
  "UpdateCommand c m =
     c\<lparr>c_commands := map (\<lambda>x. if command_key x = command_key m
         then x\<lparr>cm_Outcome := cm_Outcome m, cm_ReasonCode := cm_ReasonCode m, cm_OperationRevision := cm_OperationRevision m,
                cm_SettledAt := cm_SettledAt m, cm_Relay := cm_Relay m\<rparr> else x) (c_commands c)\<rparr>"

definition SettlePendingCommands :: "cdb \<Rightarrow> string \<Rightarrow> command_kind \<Rightarrow> command_outcome \<Rightarrow> revision \<Rightarrow> instant \<Rightarrow> cdb" where
  "SettlePendingCommands c operationID kind out rvn now =
     c\<lparr>c_commands := map (\<lambda>x. if cm_OperationID x = operationID \<and> cm_Kind x = kind \<and> cm_Outcome x = OutcomePending
         then x\<lparr>cm_Outcome := out, cm_OperationRevision := rvn, cm_SettledAt := Some now\<rparr> else x) (c_commands c)\<rparr>"

definition GetOperationSettlement :: "cdb \<Rightarrow> string \<Rightarrow> settlement_intent option" where
  "GetOperationSettlement c operationID = lookup_by si_OperationID operationID (c_settlements c)"

definition InsertOperationSettlement :: "cdb \<Rightarrow> settlement_intent \<Rightarrow> err + cdb" where
  "InsertOperationSettlement c x =
     (if GetOperationSettlement c (si_OperationID x) \<noteq> None then Inl ErrDuplicateKey
      else Inr (c\<lparr>c_settlements := c_settlements c @ [x]\<rparr>))"

definition GetBrief :: "cdb \<Rightarrow> string \<Rightarrow> brief option" where
  "GetBrief c briefID = lookup_by br_ID briefID (c_briefs c)"

section \<open>Previews, releases and lineages\<close>

definition GetPreview :: "cdb \<Rightarrow> string \<Rightarrow> preview option" where
  "GetPreview c operationID = lookup_by pv_OperationID operationID (c_previews c)"

definition InsertPreview :: "cdb \<Rightarrow> preview \<Rightarrow> err + cdb" where
  "InsertPreview c p =
     (if GetPreview c (pv_OperationID p) \<noteq> None then Inl ErrDuplicateKey else Inr (c\<lparr>c_previews := c_previews c @ [p]\<rparr>))"

text \<open>\<open>UpdatePreview\<close> and \<open>UpdateRelease\<close> change the row only under the expected revision and report
  whether they did; the tenant, the lineage and the base of the row stay.\<close>

definition preview_columns :: "preview \<Rightarrow> preview \<Rightarrow> preview" where
  "preview_columns p x =
     p\<lparr>pv_OperationID := pv_OperationID x, pv_TenantID := pv_TenantID x, pv_SubjectDigest := pv_SubjectDigest x,
       pv_BaseRevision := pv_BaseRevision x\<rparr>"

definition UpdatePreview :: "cdb \<Rightarrow> preview \<Rightarrow> u64 \<Rightarrow> bool \<times> cdb" where
  "UpdatePreview c p expected =
     (list_ex (\<lambda>x. pv_OperationID x = pv_OperationID p \<and> pv_Revision x = expected) (c_previews c),
      c\<lparr>c_previews := map (\<lambda>x. if pv_OperationID x = pv_OperationID p \<and> pv_Revision x = expected then preview_columns p x else x)
        (c_previews c)\<rparr>)"

definition GetRelease :: "cdb \<Rightarrow> string \<Rightarrow> release option" where
  "GetRelease c operationID = lookup_by rl_OperationID operationID (c_releases c)"

definition InsertRelease :: "cdb \<Rightarrow> release \<Rightarrow> err + cdb" where
  "InsertRelease c p =
     (if GetRelease c (rl_OperationID p) \<noteq> None then Inl ErrDuplicateKey else Inr (c\<lparr>c_releases := c_releases c @ [p]\<rparr>))"

definition release_columns :: "release \<Rightarrow> release \<Rightarrow> release" where
  "release_columns p x =
     p\<lparr>rl_OperationID := rl_OperationID x, rl_TenantID := rl_TenantID x, rl_Lineage := rl_Lineage x,
       rl_SourceRevision := rl_SourceRevision x\<rparr>"

definition UpdateRelease :: "cdb \<Rightarrow> release \<Rightarrow> u64 \<Rightarrow> bool \<times> cdb" where
  "UpdateRelease c p expected =
     (list_ex (\<lambda>x. rl_OperationID x = rl_OperationID p \<and> rl_Revision x = expected) (c_releases c),
      c\<lparr>c_releases := map (\<lambda>x. if rl_OperationID x = rl_OperationID p \<and> rl_Revision x = expected then release_columns p x else x)
        (c_releases c)\<rparr>)"

definition GetLineageIdentity :: "cdb \<Rightarrow> string \<Rightarrow> digest \<Rightarrow> lineage_identity option" where
  "GetLineageIdentity c tenantID lineage = lookup_by (\<lambda>l. (li_TenantID l, li_Lineage l)) (tenantID, lineage) (c_lineages c)"

definition GetEffect :: "db \<Rightarrow> string \<Rightarrow> effect option" where
  "GetEffect s effectID = lookup_by e_ID effectID (db_effects s)"

definition GetEffectObservation :: "cdb \<Rightarrow> string \<Rightarrow> string \<Rightarrow> u64 \<Rightarrow> effect_observation option" where
  "GetEffectObservation c effectID src sq =
     lookup_by (\<lambda>x. (eo_EffectID x, eo_Source x, eo_Sequence x)) (effectID, src, sq) (c_effect_observations c)"

text \<open>Stages in the order of their acceptance, and the source of the last certified one. Where rows tie the
  query may answer any of them; the model takes the first inserted.\<close>

definition ListStagesByOperation :: "db \<Rightarrow> string \<Rightarrow> stage list" where
  "ListStagesByOperation s operationID = sort_key st_AcceptedAt (filter (\<lambda>st. st_OperationID st = operationID) (db_stages s))"

definition GetCertifiedSourceArtifact :: "cdb \<Rightarrow> string \<Rightarrow> stage_artifact option" where
  "GetCertifiedSourceArtifact c operationID =
     (let certified = filter (\<lambda>st. st_Verdict st = VerdictCertified) (rev (ListStagesByOperation (c_db c) operationID));
          sources = concat (map (\<lambda>st. filter (\<lambda>a. sa_StageID a = st_ID st \<and> sa_Class a = ArtifactSource) (c_stage_artifacts c)) certified)
      in case sources of [] \<Rightarrow> None | a # _ \<Rightarrow> Some a)"

section \<open>Operations in scope\<close>

definition GetOperationScoped :: "db \<Rightarrow> string \<Rightarrow> string \<Rightarrow> err + operation" where
  "GetOperationScoped s operationID tenantID =
     chk (found (lookup_by op_ID operationID (db_operations s))) (\<lambda>ops.
       if op_TenantID ops \<noteq> tenantID then Inl ErrNotFound else Inr ops)"

definition scopedOperation :: "db \<Rightarrow> scope \<Rightarrow> string \<Rightarrow> err + operation" where
  "scopedOperation s sc operationID =
     chk (GetOperationScoped s operationID (sc_TenantID sc)) (\<lambda>ops. if Sees sc ops then Inr ops else Inl ErrNotFound)"

text \<open>The write of a transition: the row and its event, whose payload is bound to the attempt, the
  stage or the progress report first.\<close>

definition write_transition ::
  "operation \<Rightarrow> string \<Rightarrow> instant \<Rightarrow> (operation \<Rightarrow> operation) \<Rightarrow> (changed_payload \<Rightarrow> changed_payload) \<Rightarrow> db \<Rightarrow>
   err + ((operation \<times> event) \<times> db)" where
  "write_transition ops transitionID now f bind s =
     (let (o1, ev) = Transition ops transitionID now f;
          ev1 = ev\<lparr>ev_Payload := bind (ev_Payload ev)\<rparr>
      in chk (InsertEvent (UpdateOperation s o1) ev1) (\<lambda>s1. Inr ((o1, ev1), s1)))"

lemma write_transition_row:
  "write_transition ops t now f bind s = Inr (x, s1) \<Longrightarrow> db_operations s1 = update_by op_ID (fst (Transition ops t now f)) (db_operations s)"
  by (cases "Transition ops t now f") (auto simp: write_transition_def Let_def fallible append_event_def UpdateOperation_def)

end
