(* ===== verification/Execution_Service.thy ===== *)
theory Execution_Service
  imports Control_Store Dispatch_Service
begin

text \<open>
  \<open>internal/application/execution.go\<close>, \<open>execution_settlement.go\<close> and \<open>execution_progress.go\<close>:
  attempts, launches, physical instances, accepted results, the close of an attempt and the
  settlement of an operation. Each definition is one transaction; a call that writes to the
  inventory between two transactions (\<open>PrepareLaunch\<close>) is two definitions. The reviewed profiles
  are a map, as in the service; the digest function, the schema validation and the decoding of a
  result manifest and the reviewed job profiles are parameters (record \<open>result_services\<close>).
  \<open>settleFinanceAfter\<close> is a further transaction, \<open>SettleFinance\<close> of the finance service.
\<close>

type_synonym profiles = "string \<rightharpoonup> profile"

definition multiStep :: "profiles \<Rightarrow> operation \<Rightarrow> bool" where
  "multiStep ps ops = (case ps (sj_ProfileID (op_Subject ops)) of None \<Rightarrow> False | Some p \<Rightarrow> pf_MultiStep p)"

definition unresolvedEffects :: "db \<Rightarrow> string \<Rightarrow> bool" where
  "unresolvedEffects s operationID = (if HasUnresolvedEffect s operationID then True else HasUnsettledDispatch s operationID)"

definition admissionOpen :: "db \<Rightarrow> string \<Rightarrow> err option" where
  "admissionOpen s tenantID = (if IsAdmissionClosed s tenantID then Some ErrStaleExecution else None)"

section \<open>Attempts\<close>

definition bootstrapGate :: "profiles \<Rightarrow> instant \<Rightarrow> operation \<Rightarrow> cdb \<Rightarrow> err option" where
  "bootstrapGate ps now ops c =
     (case ps (sj_ProfileID (op_Subject ops)) of
        None \<Rightarrow> None
      | Some p \<Rightarrow>
          if \<not> pf_MultiStep p then None
          else if op_Finance ops = FinanceExposureUnknown then Some ErrEffectUncertain
          else if unresolvedEffects (c_db c) (op_ID ops) then Some ErrEffectUncertain
          else if pf_QueuePool p = [] then None
          else if GetActivePermit c (pf_QueuePool p) ''operation'' (op_ID ops) = None then Some ErrStaleExecution
          else if GetFunding c (op_ID ops) = None then Some ErrBudgetExhausted
          else if \<not> Lease_Valid (op_Lease ops) now then Some ErrStaleExecution
          else None)"

text \<open>The profile's window shortens the deadline of a new attempt.\<close>

definition attempt_window :: "profiles \<Rightarrow> instant \<Rightarrow> operation \<Rightarrow> attempt \<Rightarrow> attempt" where
  "attempt_window ps now ops a =
     (case ps (sj_ProfileID (op_Subject ops)) of
        None \<Rightarrow> a
      | Some p \<Rightarrow> if pf_AttemptWindow p > 0 \<and> now + pf_AttemptWindow p < at_Deadline a
                  then a\<lparr>at_Deadline := truncate_us (now + pf_AttemptWindow p)\<rparr> else a)"

definition OpenAttempt ::
  "profiles \<Rightarrow> string \<Rightarrow> instant \<Rightarrow> command_identity \<Rightarrow> string \<Rightarrow> string \<Rightarrow> u64 \<Rightarrow> string \<Rightarrow> cdb \<Rightarrow> err + ((attempt \<times> bool) \<times> cdb)" where
  "OpenAttempt ps new_id now cmd operationID stepID visit profileID c =
     (let s = c_db c
      in chk (LockOperation s operationID) (\<lambda>ops.
         if op_TenantID ops \<noteq> cmd_TenantID cmd then Inl ErrNotFound
         else case GetAttemptByCommand s (op_ID ops) (cmd_CommandID cmd) of
           Some fnd \<Rightarrow> if at_RequestDigest fnd \<noteq> cmd_RequestDigest cmd then Inl ErrIdempotencyConflict else Inr ((fnd, True), c)
         | None \<Rightarrow>
             chk_err (admissionOpen s (op_TenantID ops)) (
             chk_err (bootstrapGate ps now ops c) (
             chk (NewAttempt new_id ops cmd stepID visit (CountAttempts s (op_ID ops) stepID visit + 1) profileID now) (\<lambda>fresh0.
             let fresh = attempt_window ps now ops fresh0
             in chk (InsertAttempt s fresh) (\<lambda>s1.
                chk (write_transition ops (''attempt:'' @ at_ID fresh @ '':opened'') now attempt_opened
                       (\<lambda>p. BindAttempt p (Some fresh)) s1) (\<lambda>(_, s2).
                Inr ((fresh, False), c\<lparr>c_db := s2\<rparr>))))))))"

definition lockOperationThenAttempt :: "db \<Rightarrow> string \<Rightarrow> string \<Rightarrow> err + (operation \<times> attempt)" where
  "lockOperationThenAttempt s attemptID tenantID =
     chk (GetAttempt s attemptID) (\<lambda>peek.
     if at_TenantID peek \<noteq> tenantID then Inl ErrNotFound
     else chk (LockOperation s (at_OperationID peek)) (\<lambda>ops.
          chk (LockAttempt s attemptID) (\<lambda>at. Inr (ops, at))))"

section \<open>Launches\<close>

text \<open>\<open>PrepareLaunch\<close> up to the inventory write.\<close>

definition PrepareLaunch ::
  "string \<Rightarrow> instant \<Rightarrow> command_identity \<Rightarrow> string \<Rightarrow> string \<Rightarrow> string \<Rightarrow> digest \<Rightarrow> instant \<Rightarrow> cdb \<Rightarrow> err + ((launch \<times> bool) \<times> cdb)" where
  "PrepareLaunch new_id now cmd attemptID launchKey backend img deadline c =
     (let s = c_db c
      in chk (lockOperationThenAttempt s attemptID (cmd_TenantID cmd)) (\<lambda>(ops, at).
         case GetLaunchByCommand s (at_ID at) (cmd_CommandID cmd) of
           Some fnd \<Rightarrow> if ln_RequestDigest fnd \<noteq> cmd_RequestDigest cmd then Inl ErrIdempotencyConflict else Inr ((fnd, True), c)
         | None \<Rightarrow>
             chk_err (case GetLaunchByKey s backend launchKey of
                        Some byKey \<Rightarrow> if ln_AttemptID byKey \<noteq> at_ID at then Some ErrIdempotencyConflict else None
                      | None \<Rightarrow> None) (
             chk_err (admissionOpen s (op_TenantID ops)) (
             chk (NewLaunch new_id ops at cmd launchKey backend img deadline now) (\<lambda>fresh.
             chk (InsertLaunch s fresh) (\<lambda>s1.
             let at1 = at\<lparr>at_State := AttemptLaunchPrepared, at_UpdatedAt := now\<rparr>
             in chk (write_transition ops (''launch:'' @ ln_ID fresh) now launch_prepared
                       (\<lambda>p. BindAttempt p (Some at1)) (UpdateAttempt s1 at1)) (\<lambda>(_, s2).
                Inr ((fresh, False), c\<lparr>c_db := s2\<rparr>))))))))"

text \<open>The transaction of \<open>confirmLaunch\<close>, after the inventory answered \<open>version\<close>.\<close>

definition confirmLaunch :: "instant \<Rightarrow> launch \<Rightarrow> string \<Rightarrow> string \<Rightarrow> cdb \<Rightarrow> err + (launch \<times> cdb)" where
  "confirmLaunch now l tenantID version c =
     (let s = c_db c
      in chk (lockOperationThenAttempt s (ln_AttemptID l) tenantID) (\<lambda>(ops, at).
         chk (LockLaunch s (ln_ID l)) (\<lambda>locked.
         if ln_Inventory locked = InventoryConfirmed then Inr (locked, c)
         else if FencedForNewDispatch ops then Inl ErrStaleExecution
         else if ln_ExecutionEpoch locked \<noteq> op_ExecutionEpoch ops \<or> at_ExecutionEpoch at \<noteq> op_ExecutionEpoch ops
           then Inl ErrStaleExecution
         else if at_State at \<noteq> AttemptLaunchPrepared \<and> at_State at \<noteq> AttemptOpen then Inl ErrStaleExecution
         else if \<not> now < ln_Deadline locked \<or> \<not> now < at_Deadline at then Inl ErrStaleExecution
         else let l1 = locked\<lparr>ln_Inventory := InventoryConfirmed, ln_InventoryVersion := version, ln_UpdatedAt := now\<rparr>
              in Inr (l1, c\<lparr>c_db := UpdateLaunchInventory s l1\<rparr>))))"

section \<open>Physical instances\<close>

definition RegisterInstance ::
  "string \<Rightarrow> instant \<Rightarrow> command_identity \<Rightarrow> string \<Rightarrow> string \<Rightarrow> string \<Rightarrow> string \<Rightarrow> string \<Rightarrow> digest \<Rightarrow> cdb \<Rightarrow>
   err + ((inst \<times> bool) \<times> cdb)" where
  "RegisterInstance new_id now cmd attemptID launchKey backend jobUID podUID img c =
     (let s = c_db c
      in chk (lockOperationThenAttempt s attemptID (cmd_TenantID cmd)) (\<lambda>(ops, at).
         case GetInstanceByPod s backend podUID of
           Some fnd \<Rightarrow> if inst_AttemptID fnd \<noteq> at_ID at then Inl ErrStaleExecution else Inr ((fnd, True), c)
         | None \<Rightarrow>
             chk (found (GetLaunchByKey s backend launchKey)) (\<lambda>l.
             if ln_AttemptID l \<noteq> at_ID at \<or> ln_Inventory l \<noteq> InventoryConfirmed then Inl ErrStaleExecution
             else chk (NewInstance new_id l jobUID podUID img (HasCurrentInstance s (at_ID at)) now) (\<lambda>fresh.
             chk (InsertInstance s fresh) (\<lambda>s1.
             if inst_Current fresh \<and> at_State at \<noteq> AttemptClosed
             then let at1 = at\<lparr>at_State := AttemptRunning, at_UpdatedAt := now\<rparr>
                  in chk (write_transition ops (''instance:'' @ inst_ID fresh @ '':registered'') now (phase_moved ''running'')
                            (\<lambda>p. BindAttempt p (Some at1)) (UpdateAttempt s1 at1)) (\<lambda>(_, s2).
                     Inr ((fresh, False), c\<lparr>c_db := s2\<rparr>))
             else Inr ((fresh, False), c\<lparr>c_db := s1\<rparr>))))))"

definition ObserveInstance ::
  "string \<Rightarrow> string \<Rightarrow> string \<Rightarrow> instance_phase \<Rightarrow> int option \<Rightarrow> instant \<Rightarrow> cdb \<Rightarrow> err + (inst \<times> cdb)" where
  "ObserveInstance tenantID attemptID instanceID phase exitCode observedAt c =
     (let s = c_db c
      in chk (LockInstance s instanceID) (\<lambda>locked.
         if inst_AttemptID locked \<noteq> attemptID then Inl ErrNotFound
         else chk (GetAttempt s attemptID) (\<lambda>at.
              if at_TenantID at \<noteq> tenantID then Inl ErrNotFound
              else let i = locked\<lparr>inst_Phase := phase, inst_ExitCode := exitCode, inst_ObservedAt := Some observedAt\<rparr>
                   in Inr (i, c\<lparr>c_db := UpdateInstanceObservation s i\<rparr>))))"

section \<open>Results\<close>

text \<open>What \<open>json.Unmarshal\<close> reads of a result manifest.\<close>

record declared_output =
  do_Class :: string
  do_Digest :: string
  do_SizeBytes :: string
  do_Handle :: string

record declared_manifest =
  dm_LaunchID :: string
  dm_AttemptID :: string
  dm_JobKind :: string
  dm_ProfileID :: string
  dm_Verdict :: verdict
  dm_FailureCode :: string
  dm_Outputs :: "declared_output list"

record result_services =
  rs_DigestOf :: "string \<Rightarrow> digest"
  rs_ValidateResultManifest :: "string \<Rightarrow> bool"
  rs_Unmarshal :: "string \<Rightarrow> declared_manifest option"
  rs_JobProfile :: "string \<Rightarrow> job_profile option"

definition declared_to_output :: "declared_output \<Rightarrow> err + manifest_output" where
  "declared_to_output x =
     (case ParseRevision (do_SizeBytes x) of
        Inl _ \<Rightarrow> Inl ErrInvalid
      | Inr sz \<Rightarrow> Inr \<lparr>mo_Class = do_Class x, mo_Digest = do_Digest x, mo_SizeBytes = wrap64 (uint sz), mo_Handle = do_Handle x\<rparr>)"

definition parseResultManifest :: "result_services \<Rightarrow> string \<Rightarrow> err + result_manifest" where
  "parseResultManifest rs manifest =
     (case rs_Unmarshal rs manifest of
        None \<Rightarrow> Inl ErrInvalid
      | Some d \<Rightarrow>
          chk (map_err declared_to_output (dm_Outputs d)) (\<lambda>outs.
            Inr \<lparr>rm_LaunchID = dm_LaunchID d, rm_AttemptID = dm_AttemptID d, rm_JobKind = dm_JobKind d,
                 rm_ProfileID = dm_ProfileID d, rm_Verdict = dm_Verdict d, rm_FailureCode = dm_FailureCode d, rm_Outputs = outs\<rparr>))"

fun bind_each ::
  "cdb \<Rightarrow> operation \<Rightarrow> attempt \<Rightarrow> result_manifest \<Rightarrow> job_profile \<Rightarrow> string list \<Rightarrow> manifest_output list \<Rightarrow> err + stage_artifact list" where
  "bind_each c ops at m prof seen [] = Inr []"
| "bind_each c ops at m prof seen (out # outs) =
     (if mo_Handle out = []
      then chk_err (EmbeddedOutput prof out (rm_Verdict m)) (bind_each c ops at m prof seen outs)
      else if mo_Handle out \<in> set seen then Inl ErrInvalid
      else case GetTransferByHandle c (mo_Handle out) of
        None \<Rightarrow> Inl ErrStaleExecution
      | Some t \<Rightarrow>
          chk (BindArtifact out (Some t) ops at) (\<lambda>a.
          chk (bind_each c ops at m prof (mo_Handle out # seen) outs) (\<lambda>as. Inr (a # as))))"

definition BindOutputs :: "cdb \<Rightarrow> operation \<Rightarrow> attempt \<Rightarrow> result_manifest \<Rightarrow> job_profile \<Rightarrow> err + stage_artifact list" where
  "BindOutputs c ops at m prof =
     chk_err (Delivers m prof) (bind_each c ops at m prof [] (rm_Outputs m))"

fun insert_artifacts :: "string \<Rightarrow> stage_artifact list \<Rightarrow> cdb \<Rightarrow> err + cdb" where
  "insert_artifacts stageID [] c = Inr c"
| "insert_artifacts stageID (a # as) c =
     chk (InsertStageArtifact c (a\<lparr>sa_StageID := stageID\<rparr>)) (insert_artifacts stageID as)"

text \<open>The checks of \<open>AcceptResult\<close> before its transaction, then the transaction.\<close>

definition check_result ::
  "result_services \<Rightarrow> string \<Rightarrow> string \<Rightarrow> verdict \<Rightarrow> string \<Rightarrow> digest \<Rightarrow> string \<Rightarrow> err + (result_manifest \<times> job_profile)" where
  "check_result rs attemptID profileID vd failureCode resultDigest manifest =
     (if rs_DigestOf rs manifest \<noteq> resultDigest then Inl ErrInvalid
      else if \<not> rs_ValidateResultManifest rs manifest then Inl ErrInvalid
      else chk (parseResultManifest rs manifest) (\<lambda>m.
           case rs_JobProfile rs profileID of
             None \<Rightarrow> Inl ErrStaleExecution
           | Some prof \<Rightarrow> chk_err (Claims m attemptID profileID vd failureCode prof) (Inr (m, prof))))"

definition AcceptResult ::
  "result_services \<Rightarrow> string \<Rightarrow> instant \<Rightarrow> command_identity \<Rightarrow> string \<Rightarrow> string \<Rightarrow> string \<Rightarrow> verdict \<Rightarrow> string \<Rightarrow> digest \<Rightarrow> string \<Rightarrow>
   string \<Rightarrow> u64 option \<Rightarrow> cdb \<Rightarrow> err + ((stage \<times> bool) \<times> cdb)" where
  "AcceptResult rs new_id now cmd attemptID instanceID profileID vd failureCode resultDigest manifest observer observerEpoch c =
     chk (check_result rs attemptID profileID vd failureCode resultDigest manifest) (\<lambda>(m, prof).
     let s = c_db c
     in chk (lockOperationThenAttempt s attemptID (cmd_TenantID cmd)) (\<lambda>(ops, at).
        case GetStageByAttempt s (at_ID at) of
          Some fnd \<Rightarrow>
            if st_ResultDigest fnd \<noteq> resultDigest \<or> st_InstanceID fnd \<noteq> instanceID then Inl ErrIdempotencyConflict
            else Inr ((fnd\<lparr>st_Artifacts := ListStageArtifacts c (st_ID fnd)\<rparr>, True), c)
        | None \<Rightarrow>
            chk (LockInstance s instanceID) (\<lambda>i.
            chk (AcceptStage new_id ops at i cmd profileID vd failureCode resultDigest manifest observer observerEpoch now) (\<lambda>fresh.
            chk_err (ProducedBy m (Some i)) (
            chk (BindOutputs c ops at m prof) (\<lambda>bound.
            chk (InsertStage s fresh) (\<lambda>s1.
            chk (insert_artifacts (st_ID fresh) bound (c\<lparr>c_db := s1\<rparr>)) (\<lambda>c1.
            let at1 = at\<lparr>at_State := AttemptResultAccepted, at_AcceptedStageID := st_ID fresh, at_UpdatedAt := now\<rparr>
            in chk (write_transition ops (''stage:'' @ st_ID fresh) now (phase_moved ''result_accepted'')
                      (\<lambda>p. BindStage (BindAttempt p (Some at1)) (Some fresh)) (UpdateAttempt (c_db c1) at1)) (\<lambda>(_, s2).
               Inr ((fresh\<lparr>st_Artifacts := map (\<lambda>a. a\<lparr>sa_StageID := st_ID fresh\<rparr>) bound\<rparr>, False), c1\<lparr>c_db := s2\<rparr>))))))))))"

definition GetAcceptedStage :: "result_services \<Rightarrow> string \<Rightarrow> string \<Rightarrow> string \<Rightarrow> cdb \<Rightarrow> err + stage" where
  "GetAcceptedStage rs attemptID tenantID operationID c =
     chk_err (if tenantID \<noteq> [] \<or> operationID \<noteq> []
              then (case GetAttempt (c_db c) attemptID of
                      Inl e \<Rightarrow> Some e
                    | Inr at \<Rightarrow> if tenantID \<noteq> [] \<and> at_TenantID at \<noteq> tenantID then Some ErrNotFound
                                else if operationID \<noteq> [] \<and> at_OperationID at \<noteq> operationID then Some ErrNotFound
                                else None)
              else None) (
     chk (found (GetStageByAttempt (c_db c) attemptID)) (\<lambda>st.
     if st_ResultManifest st \<noteq> [] \<and> rs_DigestOf rs (st_ResultManifest st) \<noteq> st_ResultDigest st then Inl ErrIntegrity
     else Inr (st\<lparr>st_Artifacts := ListStageArtifacts c (st_ID st)\<rparr>)))"

section \<open>Settlement\<close>

definition lifecycle_string :: "lifecycle \<Rightarrow> string" where
  "lifecycle_string l = (case l of LifecycleSucceeded \<Rightarrow> ''succeeded'' | LifecycleFailed \<Rightarrow> ''failed'' | LifecycleCanceled \<Rightarrow> ''canceled''
     | LifecycleAccepted \<Rightarrow> ''accepted'' | LifecycleRunning \<Rightarrow> ''running'' | LifecycleWaiting \<Rightarrow> ''waiting''
     | LifecycleReconciling \<Rightarrow> ''reconciling'' | LifecycleSuspended \<Rightarrow> ''suspended'')"

definition settleTerminal :: "operation \<Rightarrow> instant \<Rightarrow> cdb \<Rightarrow> cdb" where
  "settleTerminal ops now c =
     (let settle = (\<lambda>c. if op_Control ops = ControlCancelApplied
            then SettlePendingCommands c (op_ID ops) CommandCancel OutcomeApplied (op_Revision ops) now else c)
      in if Lifecycle_Terminal (op_Lifecycle ops)
         then (if HasOpenAttempt (c_db c) (op_ID ops) \<or> unresolvedEffects (c_db c) (op_ID ops) \<or>
                  HasUnknownAttempt (c_db c) (op_ID ops) [] \<or> op_Cleanup ops = CleanupUnknown \<or> op_Finance ops = FinanceExposureUnknown
               then c
               else settle (ReleasePermits c ''operation'' (op_ID ops) now (''operation:'' @ lifecycle_string (op_Lifecycle ops))))
         else settle c)"

definition obligationsOpen :: "db \<Rightarrow> operation \<Rightarrow> bool \<times> bool" where
  "obligationsOpen s ops =
     (let unresolved = unresolvedEffects s (op_ID ops);
          unknownAttempt = HasUnknownAttempt s (op_ID ops) []
      in (unresolved \<or> unknownAttempt \<or> op_Finance ops = FinanceExposureUnknown \<or> op_Cleanup ops = CleanupUnknown, unknownAttempt))"

text \<open>The close of an attempt: the transition it records, or none when it answers an earlier close.\<close>

definition close_transition ::
  "operation \<Rightarrow> attempt \<Rightarrow> attempt_outcome \<Rightarrow> cleanup_state \<Rightarrow> bool \<Rightarrow> bool \<Rightarrow> err + string option" where
  "close_transition ops at out cleanup unresolved unknownAttempt =
     (if at_State at \<noteq> AttemptClosed then Inr (Some (''attempt:'' @ at_ID at @ '':closed''))
      else if at_Outcome at \<noteq> out then Inl ErrIdempotencyConflict
      else if CanSettleCleanup at out cleanup then Inr (Some (''attempt:'' @ at_ID at @ '':cleanup-settled''))
      else if op_Lifecycle ops = LifecycleReconciling \<and> \<not> unresolved \<and> \<not> unknownAttempt \<and> cleanup \<noteq> CleanupUnknown \<and> out \<noteq> OutcomeUnknown
        then Inr (Some (''attempt:'' @ at_ID at @ '':obligations-settled''))
      else Inr None)"

definition CloseAttempt ::
  "profiles \<Rightarrow> instant \<Rightarrow> command_identity \<Rightarrow> string \<Rightarrow> attempt_outcome \<Rightarrow> cleanup_state \<Rightarrow> string \<Rightarrow> cdb \<Rightarrow>
   err + ((attempt \<times> operation \<times> bool) \<times> cdb)" where
  "CloseAttempt ps now cmd attemptID out cleanup failureCode c =
     (let s = c_db c
      in chk (lockOperationThenAttempt s attemptID (cmd_TenantID cmd)) (\<lambda>(ops, at).
         let unresolved = (unresolvedEffects s (op_ID ops) \<or> op_Finance ops = FinanceExposureUnknown);
             unknownAttempt = HasUnknownAttempt s (op_ID ops) (at_ID at)
         in chk (close_transition ops at out cleanup unresolved unknownAttempt) (\<lambda>tr.
            case tr of
              None \<Rightarrow> Inr ((at, ops, True), settleTerminal ops now c)
            | Some transition \<Rightarrow>
                let st = GetStageByAttempt s (at_ID at)
                in chk (deny_prepared (op_ID ops) (at_ID at) s) (\<lambda>s1.
                   let at1 = (snd (SettleClose ops at st out cleanup failureCode (multiStep ps ops)))\<lparr>at_UpdatedAt := now\<rparr>;
                       (o1, ev) = Transition ops transition now
                         (attempt_closed at st out cleanup failureCode (multiStep ps ops) unresolved unknownAttempt);
                       ev1 = ev\<lparr>ev_Payload := BindAttempt (ev_Payload ev) (Some at1)\<rparr>;
                       c1 = settleTerminal o1 now (c\<lparr>c_db := UpdateOperation (UpdateAttempt s1 at1) o1\<rparr>)
                   in chk (InsertEvent (c_db c1) ev1) (\<lambda>s2. Inr ((at1, o1, False), c1\<lparr>c_db := s2\<rparr>))))))"

definition SettleFromIntent :: "profiles \<Rightarrow> instant \<Rightarrow> string \<Rightarrow> cdb \<Rightarrow> err + (bool \<times> cdb)" where
  "SettleFromIntent ps now operationID c =
     (let s = c_db c
      in chk (LockOperation s operationID) (\<lambda>ops.
         if op_Lifecycle ops \<noteq> LifecycleReconciling \<or> \<not> multiStep ps ops then Inr (False, c)
         else case GetOperationSettlement c operationID of
           None \<Rightarrow> Inr (False, c)
         | Some intent \<Rightarrow>
             if HasOpenAttempt s (op_ID ops) then Inr (False, c)
             else if fst (obligationsOpen s ops) then Inr (False, c)
             else chk (SettleOperation ops (si_Outcome intent) (si_FailureCode intent) (si_Phase intent)) (\<lambda>_.
                  let (o1, ev) = Transition ops (''settle:'' @ si_CommandID intent @ '':terminal'') now
                        (settlement_applied (si_Outcome intent) (si_FailureCode intent) (si_Phase intent));
                      c1 = settleTerminal o1 now (c\<lparr>c_db := UpdateOperation s o1\<rparr>)
                  in chk (InsertEvent (c_db c1) ev) (\<lambda>s2. Inr (True, c1\<lparr>c_db := s2\<rparr>)))))"

text \<open>The stored intent of a settlement: whether it is to be inserted, or the earlier answer.\<close>

datatype settle_plan = SettleExisting | SettleRecord bool

definition settle_intent :: "cdb \<Rightarrow> settlement_intent \<Rightarrow> bool \<Rightarrow> err + settle_plan" where
  "settle_intent c intent unresolved =
     (case GetOperationSettlement c (si_OperationID intent) of
        Some stored \<Rightarrow> if stored \<noteq> intent then Inl ErrIdempotencyConflict
                       else if unresolved then Inr SettleExisting else Inr (SettleRecord False)
      | None \<Rightarrow>
          if si_Outcome intent \<noteq> OperationSucceeded \<and> si_Outcome intent \<noteq> OperationFailed \<and> si_Outcome intent \<noteq> OperationCanceled
          then Inl ErrInvalid else Inr (SettleRecord True))"

definition ExecSettleOperation ::
  "profiles \<Rightarrow> instant \<Rightarrow> command_identity \<Rightarrow> string \<Rightarrow> operation_outcome \<Rightarrow> string \<Rightarrow> string \<Rightarrow> cdb \<Rightarrow> err + ((operation \<times> bool) \<times> cdb)" where
  "ExecSettleOperation ps now cmd operationID out failureCode phase c =
     (let s = c_db c
      in chk (LockOperation s operationID) (\<lambda>ops.
         if op_TenantID ops \<noteq> cmd_TenantID cmd then Inl ErrNotFound
         else if \<not> multiStep ps ops then Inl ErrInvalid
         else if Lifecycle_Terminal (op_Lifecycle ops) then Inr ((ops, True), settleTerminal ops now c)
         else if HasOpenAttempt s (op_ID ops) then Inl ErrStaleExecution
         else let (unresolved, unknownAttempt) = obligationsOpen s ops;
                  intent = \<lparr>si_OperationID = operationID, si_CommandID = cmd_CommandID cmd, si_RequestDigest = cmd_RequestDigest cmd,
                            si_Outcome = out, si_FailureCode = failureCode, si_Phase = phase\<rparr>
              in chk (settle_intent c intent unresolved) (\<lambda>plan.
                 case plan of
                   SettleExisting \<Rightarrow> Inr ((ops, True), c)
                 | SettleRecord insertIntent \<Rightarrow>
                     chk (if unresolved then Inr ops else SettleOperation ops out failureCode phase) (\<lambda>_.
                     let (o1, ev) = (if unresolved
                           then Transition ops (''settle:'' @ cmd_CommandID cmd @ '':pending'') now (settlement_pending unknownAttempt phase)
                           else Transition ops (''settle:'' @ cmd_CommandID cmd @ '':terminal'') now
                                  (settlement_applied out failureCode phase));
                         c1 = settleTerminal o1 now (c\<lparr>c_db := UpdateOperation s o1\<rparr>)
                     in chk (if insertIntent then InsertOperationSettlement c1 intent else Inr c1) (\<lambda>c2.
                        chk (InsertEvent (c_db c2) ev) (\<lambda>s2. Inr ((o1, False), c2\<lparr>c_db := s2\<rparr>)))))))"

section \<open>Progress\<close>

definition progressNodes :: "string list" where
  "progressNodes = [''planner'', ''retrieve'', ''code'', ''review'', ''validate'']"

definition progressStates :: "string list" where
  "progressStates = [''started'', ''completed'', ''failed'', ''skipped'']"

definition RecordAttemptProgress ::
  "instant \<Rightarrow> command_identity \<Rightarrow> string \<Rightarrow> string \<Rightarrow> u64 \<Rightarrow> string \<Rightarrow> string \<Rightarrow> string \<Rightarrow> string \<Rightarrow> cdb \<Rightarrow> err + ((event \<times> bool) \<times> cdb)" where
  "RecordAttemptProgress now cmd attemptID instanceID executionEpoch node state round outcomeCode c =
     (if node \<notin> set progressNodes \<or> state \<notin> set progressStates then Inl ErrInvalid
      else if round \<noteq> [] \<and> (case ParseRevision round of Inl _ \<Rightarrow> True | Inr _ \<Rightarrow> False) then Inl ErrInvalid
      else let transition = ''progress:'' @ attemptID @ '':'' @ node @ '':'' @ round @ '':'' @ state;
               s = c_db c
           in chk (lockOperationThenAttempt s attemptID (cmd_TenantID cmd)) (\<lambda>(ops, at).
              case GetEventByTransition s (op_ID ops) transition of
                Some fnd \<Rightarrow> if pl_OutcomeCode (ev_Payload fnd) \<noteq> outcomeCode then Inl ErrIdempotencyConflict else Inr ((fnd, True), c)
              | None \<Rightarrow>
                  if at_State at \<noteq> AttemptLaunchPrepared \<and> at_State at \<noteq> AttemptRunning then Inl ErrStaleExecution
                  else if at_ExecutionEpoch at \<noteq> executionEpoch \<or> op_ExecutionEpoch ops \<noteq> executionEpoch then Inl ErrStaleExecution
                  else if Lifecycle_Terminal (op_Lifecycle ops) \<or> op_Lifecycle ops = LifecycleReconciling then Inl ErrStaleExecution
                  else chk (LockInstance s instanceID) (\<lambda>i.
                       if inst_AttemptID i \<noteq> at_ID at \<or> \<not> inst_Current i then Inl ErrStaleExecution
                       else chk (write_transition ops transition now id
                              (\<lambda>p. BindProgress (BindAttempt p (Some at)) node state round outcomeCode) s) (\<lambda>((_, ev), s1).
                            Inr ((ev, False), c\<lparr>c_db := s1\<rparr>)))))"

end
