(* ===== verification/Operations_Service.thy ===== *)
theory Operations_Service
  imports Execution_Service
begin

text \<open>
  \<open>internal/application/operations.go\<close>: the acceptance of an operation with the bindings it checks,
  the confirmation of its intake, the tracked commands and the event pages; and the committed
  projections of \<open>previews.go\<close> and \<open>releases.go\<close>. \<open>Create\<close> is the transaction that accepts; a command
  raced by another replica is tried once more by the caller and finds the accepted row. The version
  the inventory answers is an argument of \<open>confirmIntake\<close>.
\<close>

section \<open>Sources\<close>

record operation_source =
  os_Source :: stage_artifact
  os_Lineage :: digest
  os_Revision :: string

definition candidate_revision :: "cdb \<Rightarrow> string \<Rightarrow> string option" where
  "candidate_revision c effectID =
     (case GetEffectObservation c effectID ''workflow'' 1 of
        Some x \<Rightarrow> Some (eo_ReceiptDigest x)
      | None \<Rightarrow> map_option eo_ReceiptDigest (GetEffectObservation c effectID ''workflow-query'' 1))"

definition resolveSource :: "cdb \<Rightarrow> operation \<Rightarrow> err + (operation_source \<times> bool)" where
  "resolveSource c ops =
     (if op_Kind ops = KindPreviewBuild then
        chk (found (GetTransferByHandle c (sj_SourceHandle (op_Subject ops)))) (\<lambda>t.
        let src = \<lparr>sa_StageID = [], sa_TransferID = t_ID t, sa_Handle = t_Handle t, sa_Class = t_Class t, sa_Digest = t_ActualDigest t,
                   sa_SizeBytes = t_ActualSize t, sa_ObjectVersion = t_ObjectVersion t\<rparr>;
            (rvn, saved) = (case GetPreview c (op_ID ops) of
               Some p \<Rightarrow> if pv_SourceRevision p \<noteq> [] then (pv_SourceRevision p, True) else (sj_SourceRevision (op_Subject ops), False)
             | None \<Rightarrow> (sj_SourceRevision (op_Subject ops), False))
        in Inr (\<lparr>os_Source = src, os_Lineage = sj_SubjectDigest (op_Subject ops), os_Revision = rvn\<rparr>, saved))
      else if op_Kind ops = KindGeneration \<or> op_Kind ops = KindRefinement then
        chk (found (GetCertifiedSourceArtifact c (op_ID ops))) (\<lambda>a.
        let (rvn, saved) = (if op_CandidateEffectID ops = [] then ([], False)
               else case candidate_revision c (op_CandidateEffectID ops) of Some r \<Rightarrow> (r, True) | None \<Rightarrow> ([], False))
        in Inr (\<lparr>os_Source = a, os_Lineage = sj_SubjectDigest (op_Subject ops), os_Revision = rvn\<rparr>, saved))
      else Inl ErrNotFound)"

definition Previews_Source :: "string \<Rightarrow> string \<Rightarrow> cdb \<Rightarrow> err + operation_source" where
  "Previews_Source tenantID operationID c =
     chk (GetOperationScoped (c_db c) operationID tenantID) (\<lambda>ops. chk (resolveSource c ops) (\<lambda>(src, _). Inr src))"

section \<open>Acceptance\<close>

definition verifyPromptTransfer :: "cdb \<Rightarrow> scope \<Rightarrow> preparation_intake \<Rightarrow> err option" where
  "verifyPromptTransfer c sc i =
     (case GetTransfer c (ab_TransferID (pi_Prompt i)) of
        None \<Rightarrow> Some ErrInvalid
      | Some t \<Rightarrow>
          if t_TenantID t \<noteq> sc_TenantID sc then Some ErrInvalid
          else if t_State t \<noteq> TransferFinalized \<or> t_Class t \<noteq> ArtifactPrompt then Some ErrInvalid
          else if t_ActualDigest t \<noteq> ab_Digest (pi_Prompt i) then Some ErrInvalid
          else if t_OperationID t \<noteq> [] then Some ErrInvalid
          else None)"

definition verifySourceArtifact :: "cdb \<Rightarrow> scope \<Rightarrow> subject \<Rightarrow> err option" where
  "verifySourceArtifact c sc sj =
     (case GetTransferByHandle c (sj_SourceHandle sj) of
        None \<Rightarrow> Some ErrInvalid
      | Some t \<Rightarrow>
          if t_TenantID t \<noteq> sc_TenantID sc then Some ErrInvalid
          else if t_State t \<noteq> TransferFinalized \<or> t_Class t \<noteq> ArtifactSource then Some ErrInvalid
          else if t_OperationID t \<noteq> [] then Some ErrInvalid
          else None)"

definition verifyBriefBinding :: "cdb \<Rightarrow> scope \<Rightarrow> string \<Rightarrow> err option" where
  "verifyBriefBinding c sc briefID =
     (case GetBrief c briefID of
        None \<Rightarrow> Some ErrInvalid
      | Some b \<Rightarrow>
          (case StartsGeneration b (sc_TenantID sc) of
             Some ErrNotFound \<Rightarrow> Some ErrInvalid
           | Some e \<Rightarrow> Some e
           | None \<Rightarrow>
               (case scopedOperation (c_db c) sc (br_OperationID b) of
                  Inl e \<Rightarrow> Some e
                | Inr prep \<Rightarrow> if op_Lifecycle prep \<noteq> LifecycleSucceeded then Some ErrStaleExecution else None)))"

definition releaseSource :: "cdb \<Rightarrow> scope \<Rightarrow> subject \<Rightarrow> err + string" where
  "releaseSource c sc sj =
     (case scopedOperation (c_db c) sc (sj_SourceOperationID sj) of
        Inl e \<Rightarrow> Inl (if e = ErrNotFound then ErrInvalid else e)
      | Inr src \<Rightarrow>
          (case resolveSource c src of
             Inl e \<Rightarrow> Inl (if e = ErrNotFound then ErrInvalid else e)
           | Inr (out, saved) \<Rightarrow>
               if os_Lineage out \<noteq> sj_SubjectDigest sj then Inl ErrInvalid
               else if \<not> saved \<or> os_Revision out = [] then Inl ErrInvalid
               else if os_Revision out \<noteq> sj_SourceRevision sj then Inl ErrInvalid
               else if GetLineageIdentity c (sc_TenantID sc) (sj_SubjectDigest sj) = None then Inl ErrInvalid
               else Inr (sa_Handle (os_Source out))))"

text \<open>The shape of a request, by the kind of the operation.\<close>

definition checkSubjectShape :: "operation_kind \<Rightarrow> subject \<Rightarrow> preparation_intake option \<Rightarrow> err option" where
  "checkSubjectShape kind sj intake =
     (if (case kind of
            KindPreparation \<Rightarrow> intake = None
          | KindGeneration \<Rightarrow> intake \<noteq> None \<or> sj_BriefID sj = []
          | KindRefinement \<Rightarrow> intake \<noteq> None \<or> sj_BriefID sj = []
          | KindPreviewBuild \<Rightarrow> intake \<noteq> None \<or> sj_BriefID sj \<noteq> [] \<or> sj_SourceRevision sj = [] \<or> sj_SourceHandle sj = []
          | KindRelease \<Rightarrow> intake \<noteq> None \<or> sj_BriefID sj \<noteq> [] \<or> sj_SourceHandle sj \<noteq> [] \<or>
              sj_SourceOperationID sj = [] \<or> sj_SourceRevision sj = [] \<or> sj_PackageVersion sj = []
          | _ \<Rightarrow> intake \<noteq> None \<or> sj_SourceHandle sj \<noteq> []) then Some ErrInvalid
      else if kind \<noteq> KindRelease \<and> (sj_SourceOperationID sj \<noteq> [] \<or> sj_PackageVersion sj \<noteq> []) then Some ErrInvalid
      else None)"

definition GetOperationByCommand :: "db \<Rightarrow> string \<Rightarrow> string \<Rightarrow> operation option" where
  "GetOperationByCommand s tenantID commandID =
     lookup_by (\<lambda>ops. (op_TenantID ops, op_CommandID ops)) (tenantID, commandID) (db_operations s)"

definition InsertOperation :: "db \<Rightarrow> operation \<Rightarrow> err + db" where
  "InsertOperation s ops =
     (if \<not> digestPattern (sj_SubjectDigest (op_Subject ops)) \<or> \<not> digestPattern (op_SemanticDigest ops) then Inl ErrStore
      else if list_ex (\<lambda>x. op_ID x = op_ID ops \<or> op_TenantID x = op_TenantID ops \<and> op_CommandID x = op_CommandID ops) (db_operations s)
        then Inl ErrDuplicateKey
      else Inr (s\<lparr>db_operations := db_operations s @ [ops]\<rparr>))"

definition Create ::
  "profiles \<Rightarrow> string \<Rightarrow> instant \<Rightarrow> command_identity \<Rightarrow> scope \<Rightarrow> operation_kind \<Rightarrow> subject \<Rightarrow> preparation_intake option \<Rightarrow> cdb \<Rightarrow>
   err + ((operation \<times> bool) \<times> cdb)" where
  "Create ps new_id now cmd sc kind sj intake c =
     (let s = c_db c
      in if sc_TenantID sc \<noteq> cmd_TenantID cmd then Inl ErrInvalid
         else case ps (sj_ProfileID sj) of
           None \<Rightarrow> Inl ErrProfileUnqualified
         | Some prof \<Rightarrow>
             chk_err (checkSubjectShape kind sj intake) (
             case GetOperationByCommand s (cmd_TenantID cmd) (cmd_CommandID cmd) of
               Some fnd \<Rightarrow> if op_SemanticDigest fnd \<noteq> cmd_RequestDigest cmd then Inl ErrIdempotencyConflict else Inr ((fnd, True), c)
             | None \<Rightarrow>
                 if IsAdmissionClosed s (sc_TenantID sc) then Inl ErrStaleExecution
                 else chk (NewOperation new_id cmd sc kind sj prof now) (\<lambda>fresh.
                 chk_err (case intake of None \<Rightarrow> None | Some i \<Rightarrow> verifyPromptTransfer c sc i) (
                 chk_err (if sj_BriefID sj \<noteq> [] then verifyBriefBinding c sc (sj_BriefID sj) else None) (
                 chk_err (if sj_SourceHandle sj \<noteq> [] then verifySourceArtifact c sc sj else None) (
                 chk (if kind = KindRelease then chk (releaseSource c sc sj) (\<lambda>h. Inr (Some h)) else Inr None) (\<lambda>handle.
                 let (ops, ev) = accepted_row fresh intake handle now
                 in chk (InsertOperation s ops) (\<lambda>s1.
                    chk (InsertEvent s1 ev) (\<lambda>s2. Inr ((ops, False), c\<lparr>c_db := s2\<rparr>))))))))))"

definition confirmIntake :: "instant \<Rightarrow> string \<Rightarrow> string \<Rightarrow> cdb \<Rightarrow> err + (operation \<times> cdb)" where
  "confirmIntake now operationID version c =
     (let s = c_db c
      in chk (LockOperation s operationID) (\<lambda>locked.
         if op_Intake locked = IntakeConfirmed then Inr (locked, c)
         else chk (write_transition locked ''intake_confirmed'' now (intake_confirmed version) id s) (\<lambda>((o1, _), s1).
              Inr (o1, c\<lparr>c_db := s1\<rparr>))))"

section \<open>Reads\<close>

definition Operations_Get :: "scope \<Rightarrow> string \<Rightarrow> cdb \<Rightarrow> err + operation" where
  "Operations_Get sc operationID c = scopedOperation (c_db c) sc operationID"

definition LineageIdentity :: "cdb \<Rightarrow> operation \<Rightarrow> component_identity option" where
  "LineageIdentity c ops =
     (if op_Kind ops \<noteq> KindPreviewBuild \<and> op_Kind ops \<noteq> KindRelease then None
      else map_option li_Identity (GetLineageIdentity c (op_TenantID ops) (sj_SubjectDigest (op_Subject ops))))"

record event_page =
  ep_Events :: "event list"
  ep_CoveredEventSeq :: u64
  ep_ResetRequired :: bool
  ep_Final :: bool

definition Operations_ListEvents :: "scope \<Rightarrow> string \<Rightarrow> u64 \<Rightarrow> int \<Rightarrow> cdb \<Rightarrow> err + event_page" where
  "Operations_ListEvents sc operationID afterSeq lim c =
     (let lim' = (if lim \<le> 0 \<or> lim > 1000 then 200 else lim)
      in chk (scopedOperation (c_db c) sc operationID) (\<lambda>ops.
         let page = \<lparr>ep_Events = [], ep_CoveredEventSeq = CoveredEventSeq ops, ep_ResetRequired = False,
                     ep_Final = (Lifecycle_Terminal (op_Lifecycle ops) \<and> \<not> financeSettleable ops)\<rparr>
         in if afterSeq > CoveredEventSeq ops then Inr (page\<lparr>ep_ResetRequired := True\<rparr>)
            else Inr (page\<lparr>ep_Events := ListEvents (c_db c) operationID afterSeq (nat lim')\<rparr>)))"

definition Operations_GetCommand :: "scope \<Rightarrow> string \<Rightarrow> string \<Rightarrow> cdb \<Rightarrow> err + command" where
  "Operations_GetCommand sc operationID commandID c =
     chk (GetCommand c (sc_TenantID sc) commandID) (\<lambda>fnd.
     if cm_OperationID fnd \<noteq> operationID then Inl ErrNotFound
     else chk (scopedOperation (c_db c) sc operationID) (\<lambda>_. Inr fnd))"

section \<open>Commands\<close>

definition submitted ::
  "command_identity \<Rightarrow> operation \<Rightarrow> command_kind \<Rightarrow> revision \<Rightarrow> string \<Rightarrow> instant \<Rightarrow> command_outcome \<Rightarrow> string \<Rightarrow> command_relay_state \<Rightarrow>
   revision \<Rightarrow> command" where
  "submitted cmd ops kind expected targetActivation now out reason relay rvn =
     \<lparr>cm_TenantID = cmd_TenantID cmd, cm_CommandID = cmd_CommandID cmd, cm_OperationID = op_ID ops, cm_ActorID = cmd_ActorID cmd,
      cm_Kind = kind, cm_ExpectedRevision = expected, cm_RequestDigest = cmd_RequestDigest cmd,
      cm_TargetDefinitionActivation = targetActivation, cm_Outcome = out, cm_ReasonCode = reason, cm_OperationRevision = rvn,
      cm_AcceptedAt = now, cm_SettledAt = (if out \<noteq> OutcomePending then Some now else None), cm_Relay = relay\<rparr>"

definition SubmitCommand ::
  "profiles \<Rightarrow> instant \<Rightarrow> command_identity \<Rightarrow> scope \<Rightarrow> string \<Rightarrow> command_kind \<Rightarrow> revision \<Rightarrow> string \<Rightarrow> cdb \<Rightarrow>
   err + ((command \<times> bool) \<times> cdb)" where
  "SubmitCommand ps now cmd sc operationID kind expected targetActivation c =
     (let s = c_db c
      in if sc_TenantID sc \<noteq> cmd_TenantID cmd then Inl ErrInvalid
         else case lookup_by command_key (cmd_TenantID cmd, cmd_CommandID cmd) (c_commands c) of
           Some fnd \<Rightarrow>
             if cm_RequestDigest fnd \<noteq> cmd_RequestDigest cmd \<or> cm_OperationID fnd \<noteq> operationID then Inl ErrIdempotencyConflict
             else Inr ((fnd, True), c)
         | None \<Rightarrow>
             chk (scopedOperation s sc operationID) (\<lambda>scoped.
             chk (LockOperation s (op_ID scoped)) (\<lambda>ops.
             if kind \<noteq> CommandCancel then
               (case ps (sj_ProfileID (op_Subject ops)) of
                  None \<Rightarrow> Inl ErrProfileUnqualified
                | Some prof \<Rightarrow>
                    chk (DecideControl ops prof kind expected targetActivation now) (\<lambda>d.
                    if cn_Relay d then
                      chk (write_transition ops (''cmd:'' @ cmd_CommandID cmd) now (control_relayed kind) id s) (\<lambda>((o1, _), s1).
                      let m = submitted cmd ops kind expected targetActivation now (cn_Outcome d) (cn_ReasonCode d)
                                CommandRelayPending (op_Revision o1)
                      in chk (InsertCommand (c\<lparr>c_db := s1\<rparr>) m) (\<lambda>c1. Inr ((m, False), c1)))
                    else
                      let m = submitted cmd ops kind expected targetActivation now (cn_Outcome d) (cn_ReasonCode d)
                                CommandRelayNone (op_Revision ops)
                      in chk (InsertCommand c m) (\<lambda>c1. Inr ((m, False), c1))))
             else
               let quiescent = SendersQuiescent ops (HasOpenAttempt s (op_ID ops) \<or> unresolvedEffects s (op_ID ops))
               in chk (DecideCancel ops expected quiescent) (\<lambda>d.
                  if cd_Applied d then
                    let (o1, ev) = Transition ops (''cmd:'' @ cmd_CommandID cmd) now (cancel_installed quiescent);
                        c1 = settleTerminal o1 now (c\<lparr>c_db := UpdateOperation s o1\<rparr>);
                        m = submitted cmd ops kind expected targetActivation now (cd_Outcome d) (cd_ReasonCode d)
                              CommandRelayNone (op_Revision o1)
                    in chk (InsertEvent (c_db c1) ev) (\<lambda>s2.
                       chk (InsertCommand (c1\<lparr>c_db := s2\<rparr>) m) (\<lambda>c2. Inr ((m, False), c2)))
                  else
                    let m = submitted cmd ops kind expected targetActivation now (cd_Outcome d) (cd_ReasonCode d)
                              CommandRelayNone (op_Revision ops)
                    in chk (InsertCommand c m) (\<lambda>c1. Inr ((m, False), c1))))))"

section \<open>Projections\<close>

definition Previews_Record ::
  "instant \<Rightarrow> command_identity \<Rightarrow> string \<Rightarrow> preview_rec \<Rightarrow> cdb \<Rightarrow> err + ((preview \<times> bool) \<times> cdb)" where
  "Previews_Record now cmd operationID r c =
     chk (LockOperation (c_db c) operationID) (\<lambda>ops.
     if op_TenantID ops \<noteq> cmd_TenantID cmd then Inl ErrNotFound
     else chk_err (if op_Kind ops = KindPreviewBuild
                   then (case GetTransferByHandle c (sj_SourceHandle (op_Subject ops)) of
                           None \<Rightarrow> Some ErrNotFound
                         | Some t \<Rightarrow> if t_ActualDigest t \<noteq> pr_SourceDigest r then Some ErrInvalid else None)
                   else None) (
          chk (ApplyPreview ops (GetPreview c operationID) r now) (\<lambda>(nxt, same).
          if same then Inr ((nxt, True), c)
          else case GetPreview c operationID of
            None \<Rightarrow> (case InsertPreview c nxt of
                        Inl e \<Rightarrow> Inl (if e = ErrDuplicateKey then ErrRevisionConflict else e)
                      | Inr c1 \<Rightarrow> Inr ((nxt, False), c1))
          | Some cur \<Rightarrow> (let (ok, c1) = UpdatePreview c nxt (pv_Revision cur)
                         in if ok then Inr ((nxt, False), c1) else Inl ErrRevisionConflict))))"

definition Previews_Get :: "string \<Rightarrow> string \<Rightarrow> cdb \<Rightarrow> err + preview" where
  "Previews_Get tenantID operationID c =
     chk (found (GetPreview c operationID)) (\<lambda>p. if pv_TenantID p \<noteq> tenantID then Inl ErrNotFound else Inr p)"

fun certificationOf :: "cdb \<Rightarrow> stage list \<Rightarrow> release_certification option" where
  "certificationOf c [] = None"
| "certificationOf c (st # sts) =
     (if st_Verdict st \<noteq> VerdictCertified then certificationOf c sts else CertificationOf (ListStageArtifacts c (st_ID st)))"

definition releaseEffects :: "cdb \<Rightarrow> string list \<Rightarrow> release_effects" where
  "releaseEffects c ids = (\<lambda>i. if i \<noteq> [] \<and> i \<in> set ids then GetEffect (c_db c) i else None)"

definition release_normal :: "release_rec \<Rightarrow> release_rec" where
  "release_normal r =
     r\<lparr>rr_ApprovalDeadline := map_option truncate_us (rr_ApprovalDeadline r),
       rr_Approval := map_option (\<lambda>a. a\<lparr>ap_DecidedAt := map_option truncate_us (ap_DecidedAt a)\<rparr>) (rr_Approval r)\<rparr>"

definition Releases_Record ::
  "(string \<Rightarrow> string) \<Rightarrow> instant \<Rightarrow> command_identity \<Rightarrow> string \<Rightarrow> release_rec \<Rightarrow> cdb \<Rightarrow> err + ((release \<times> bool) \<times> cdb)" where
  "Releases_Record sha256 now cmd operationID r0 c =
     (let r = release_normal r0
      in chk (LockOperation (c_db c) operationID) (\<lambda>ops.
         if op_TenantID ops \<noteq> cmd_TenantID cmd then Inl ErrNotFound
         else
           let cur = GetRelease c operationID;
               cert = (if rr_Subject r \<noteq> None \<and> (case cur of None \<Rightarrow> True | Some x \<Rightarrow> rl_Subject x = None)
                 then map_option (\<lambda>k. case GetLineageIdentity c (op_TenantID ops) (sj_SubjectDigest (op_Subject ops)) of
                        Some l \<Rightarrow> k\<lparr>rc_Allocated := Some (li_Identity l)\<rparr> | None \<Rightarrow> k)
                      (certificationOf c (rev (ListStagesByOperation (c_db c) operationID)))
                 else None);
               effects = releaseEffects c [rr_ReviewEffectID r, rt_EffectID (rr_Npm r), rt_EffectID (rr_Browser r), rt_EffectID (rr_Activation r)]
           in chk (ApplyRelease sha256 ops cur r cert effects now) (\<lambda>(nxt, same).
              if same then Inr ((nxt, True), c)
              else case cur of
                None \<Rightarrow> (case InsertRelease c nxt of
                            Inl e \<Rightarrow> Inl (if e = ErrDuplicateKey then ErrRevisionConflict else e)
                          | Inr c1 \<Rightarrow> Inr ((nxt, False), c1))
              | Some x \<Rightarrow> (let (ok, c1) = UpdateRelease c nxt (rl_Revision x)
                           in if ok then Inr ((nxt, False), c1) else Inl ErrRevisionConflict))))"

definition Releases_Get :: "string \<Rightarrow> string \<Rightarrow> cdb \<Rightarrow> err + release" where
  "Releases_Get tenantID operationID c =
     chk (found (GetRelease c operationID)) (\<lambda>p. if rl_TenantID p \<noteq> tenantID then Inl ErrNotFound else Inr p)"

end
