(* ===== verification/Generation_Service.thy ===== *)
theory Generation_Service
  imports Execution_Service Finance_Service
begin

text \<open>
  \<open>internal/application/generation.go\<close>: execution permits from bounded pools, lease reports, the
  funding occurrence and the answers to relayed control commands. \<open>RecordFunding\<close> reads, allocates
  through the dispatch service and records; it is one definition per transaction.
\<close>

definition Generations_profile :: "profiles \<Rightarrow> operation \<Rightarrow> err + profile" where
  "Generations_profile ps ops = (case ps (sj_ProfileID (op_Subject ops)) of None \<Rightarrow> Inl ErrProfileUnqualified | Some p \<Rightarrow> Inr p)"

fun InstallPools :: "resource_pool list \<Rightarrow> cdb \<Rightarrow> err + cdb" where
  "InstallPools [] c = Inr c"
| "InstallPools (p # ps) c = chk (UpsertResourcePool c p) (InstallPools ps)"

section \<open>Permits\<close>

record permit_answer =
  pw_Granted :: bool
  pw_Permit :: "permit option"
  pw_ActiveDeadline :: "instant option"
  pw_QueueDeadline :: instant
  pw_QueuedAhead :: int

definition permit_brief :: "cdb \<Rightarrow> operation \<Rightarrow> err option" where
  "permit_brief c ops =
     (if sj_BriefID (op_Subject ops) = [] then None
      else case GetBrief c (sj_BriefID (op_Subject ops)) of None \<Rightarrow> Some ErrNotFound | Some b \<Rightarrow> StartsGeneration b (op_TenantID ops))"

text \<open>The pool and its active permits, read only when the operation holds no permit.\<close>

definition permit_pool :: "cdb \<Rightarrow> profile \<Rightarrow> permit option \<Rightarrow> resource_pool option \<times> int" where
  "permit_pool c prof hold =
     (if hold = None \<and> pf_QueuePool prof \<noteq> []
      then (case LockResourcePool c (pf_QueuePool prof) of
              None \<Rightarrow> (None, 0)
            | Some p \<Rightarrow> (Some p, CountActivePermits c (rp_ID p)))
      else (None, 0))"

definition RequestExecutionPermitOnce ::
  "profiles \<Rightarrow> string \<Rightarrow> instant \<Rightarrow> command_identity \<Rightarrow> string \<Rightarrow> cdb \<Rightarrow> err + (permit_answer \<times> cdb)" where
  "RequestExecutionPermitOnce ps new_id now cmd operationID c =
     (let s = c_db c
      in chk (LockOperation s operationID) (\<lambda>ops.
         if op_TenantID ops \<noteq> cmd_TenantID cmd then Inl ErrNotFound
         else chk (Generations_profile ps ops) (\<lambda>prof.
              chk_err (admissionOpen s (op_TenantID ops)) (
              chk_err (permit_brief c ops) (
              let hold = GetActivePermit c (pf_QueuePool prof) ''operation'' (op_ID ops);
                  (pool, active) = permit_pool c prof hold
              in chk (DecidePermit new_id ops prof pool active hold now) (\<lambda>d.
                 let ans = \<lparr>pw_Granted = pd_Granted d, pw_Permit = pd_Permit d, pw_ActiveDeadline = pd_ActiveDeadline d,
                            pw_QueueDeadline = op_Deadline ops, pw_QueuedAhead = 0\<rparr>
                 in if \<not> pd_Granted d then
                      (if op_Phase ops \<noteq> ''queued''
                       then chk (write_transition ops (''queue:'' @ cmd_CommandID cmd @ '':r'' @ Revision_String (op_Revision ops)) now
                                   (phase_moved ''queued'') id s) (\<lambda>(_, s1).
                            Inr (ans\<lparr>pw_QueuedAhead := active\<rparr>, c\<lparr>c_db := s1\<rparr>))
                       else Inr (ans\<lparr>pw_QueuedAhead := active\<rparr>, c))
                    else if hold \<noteq> None then Inr (ans, c)
                    else (case pd_Permit d of
                       None \<Rightarrow> Inl ErrStore
                     | Some p \<Rightarrow>
                         chk (InsertPermit c p) (\<lambda>c1.
                         chk (write_transition ops (''permit:'' @ pm_ID p) now (permit_granted d) id (c_db c1)) (\<lambda>((o1, _), s1).
                         Inr (ans\<lparr>pw_ActiveDeadline := op_ActiveDeadline o1\<rparr>, c1\<lparr>c_db := s1\<rparr>))))))))))"

section \<open>Leases\<close>

definition Generations_RecordLease ::
  "profiles \<Rightarrow> instant \<Rightarrow> command_identity \<Rightarrow> string \<Rightarrow> u64 \<Rightarrow> lease_state \<Rightarrow> string \<Rightarrow> u64 \<Rightarrow> instant option \<Rightarrow> cdb \<Rightarrow>
   err + ((operation \<times> bool) \<times> cdb)" where
  "Generations_RecordLease ps now cmd operationID occurrence state leaseID fence expiresAt c =
     (let s = c_db c
      in chk (LockOperation s operationID) (\<lambda>locked.
         if op_TenantID locked \<noteq> cmd_TenantID cmd then Inl ErrNotFound
         else chk (Generations_profile ps locked) (\<lambda>_.
              chk (RecordLease locked occurrence state leaseID fence expiresAt) (\<lambda>(_, changed).
              if \<not> changed then Inr ((locked, True), c)
              else chk (write_transition locked (''lease:'' @ cmd_CommandID cmd) now
                          (lease_recorded occurrence state leaseID fence expiresAt) id s) (\<lambda>((o1, _), s1).
                   Inr ((o1, False), c\<lparr>c_db := s1\<rparr>))))))"

section \<open>Funding\<close>

datatype funding_plan = FundingExisting funding | FundingNeeded operation money

definition RecordFunding_read :: "profiles \<Rightarrow> command_identity \<Rightarrow> string \<Rightarrow> cdb \<Rightarrow> err + funding_plan" where
  "RecordFunding_read ps cmd operationID c =
     chk (GetOperationScoped (c_db c) operationID (cmd_TenantID cmd)) (\<lambda>ops.
     chk (Generations_profile ps ops) (\<lambda>prof.
     case GetFunding c (op_ID ops) of
       Some fnd \<Rightarrow>
         if fu_RequestDigest fnd \<noteq> cmd_RequestDigest cmd \<or> fu_CommandID fnd \<noteq> cmd_CommandID cmd then Inl ErrIdempotencyConflict
         else Inr (FundingExisting fnd)
     | None \<Rightarrow> (case pf_Funding prof of None \<Rightarrow> Inl ErrProfileUnqualified | Some m \<Rightarrow> Inr (FundingNeeded ops m))))"

definition RecordFunding_allocate :: "(nat \<Rightarrow> string) \<Rightarrow> instant \<Rightarrow> operation \<Rightarrow> money \<Rightarrow> cdb \<Rightarrow> err + cdb" where
  "RecordFunding_allocate new_id now ops amount c =
     chk (Allocate new_id now \<lparr>sc_TenantID = op_TenantID ops, sc_ProjectID = op_ProjectID ops, sc_ActorID = op_ActorID ops, sc_Roles = []\<rparr>
            (op_ID ops) amount (c_db c)) (\<lambda>(_, s). Inr (c\<lparr>c_db := s\<rparr>))"

definition RecordFunding_record :: "instant \<Rightarrow> command_identity \<Rightarrow> operation \<Rightarrow> money \<Rightarrow> cdb \<Rightarrow> err + ((funding \<times> bool) \<times> cdb)" where
  "RecordFunding_record now cmd ops amount c =
     chk (LockOperation (c_db c) (op_ID ops)) (\<lambda>_.
     case GetFunding c (op_ID ops) of
       Some fnd \<Rightarrow> Inr ((fnd, True), c)
     | None \<Rightarrow>
         let fresh = \<lparr>fu_OperationID = op_ID ops, fu_CommandID = cmd_CommandID cmd, fu_RequestDigest = cmd_RequestDigest cmd,
                      fu_Amount = amount, fu_FundedAt = now\<rparr>
         in chk (InsertFunding c fresh) (\<lambda>c1. Inr ((fresh, False), c1)))"

section \<open>Control commands\<close>

fun command_outcome_string :: "command_outcome \<Rightarrow> string" where
  "command_outcome_string OutcomePending = ''pending''"
| "command_outcome_string OutcomeApplied = ''applied''"
| "command_outcome_string OutcomeBlocked = ''blocked''"
| "command_outcome_string OutcomeRejected = ''rejected''"

definition RecordCommandRelay ::
  "instant \<Rightarrow> string \<Rightarrow> string \<Rightarrow> command_outcome \<Rightarrow> string \<Rightarrow> cdb \<Rightarrow> err + (command \<times> cdb)" where
  "RecordCommandRelay now tenantID commandID out0 reason0 c =
     chk (GetCommand c tenantID commandID) (\<lambda>peek.
     chk (LockOperation (c_db c) (cm_OperationID peek)) (\<lambda>ops.
     chk (GetCommand c tenantID commandID) (\<lambda>locked.
     if cm_Outcome locked \<noteq> OutcomePending then Inr (locked, c)
     else if out0 = OutcomePending then Inl ErrInvalid
     else let out = relay_outcome ops out0;
              reason = (if Lifecycle_Terminal (op_Lifecycle ops) \<or> op_Control ops = ControlCancelPending \<or> op_Control ops = ControlCancelApplied
                        then ''SUPERSEDED_BY_OPERATION_FENCE'' else reason0)
          in chk (write_transition ops (''cmd:'' @ commandID @ '':'' @ command_outcome_string out) now
                    (\<lambda>x. ApplyControl x (cm_Kind locked) out (cm_TargetDefinitionActivation locked)) id (c_db c)) (\<lambda>((o1, _), s1).
             let m = locked\<lparr>cm_Outcome := out, cm_ReasonCode := reason, cm_SettledAt := Some now, cm_Relay := CommandRelaySettled,
                            cm_OperationRevision := op_Revision o1\<rparr>
             in Inr (m, UpdateCommand (c\<lparr>c_db := s1\<rparr>) m)))))"

definition MarkCommandRelay :: "string \<Rightarrow> string \<Rightarrow> command_relay_state \<Rightarrow> cdb \<Rightarrow> err + cdb" where
  "MarkCommandRelay tenantID commandID state c =
     chk (GetCommand c tenantID commandID) (\<lambda>locked.
     if cm_Outcome locked \<noteq> OutcomePending \<or> cm_Relay locked = CommandRelaySettled then Inr c
     else Inr (UpdateCommand c (locked\<lparr>cm_Relay := state\<rparr>)))"

section \<open>Reads\<close>

record generation_view =
  gv_Operation :: operation
  gv_Profile :: profile
  gv_Brief :: "brief option"
  gv_Permit :: "permit option"
  gv_Funding :: "funding option"

definition GetPermitByOwner :: "cdb \<Rightarrow> string \<Rightarrow> string \<Rightarrow> permit option" where
  "GetPermitByOwner c ownerKind ownerID =
     (case rev (sort_key pm_GrantedAt (filter (\<lambda>p. pm_OwnerKind p = ownerKind \<and> pm_OwnerID p = ownerID) (c_permits c))) of
        [] \<Rightarrow> None | p # _ \<Rightarrow> Some p)"

definition Generations_Get :: "profiles \<Rightarrow> string \<Rightarrow> string \<Rightarrow> cdb \<Rightarrow> err + generation_view" where
  "Generations_Get ps tenantID operationID c =
     chk (GetOperationScoped (c_db c) operationID tenantID) (\<lambda>ops.
     if op_Kind ops \<noteq> KindGeneration \<and> op_Kind ops \<noteq> KindRefinement then Inl ErrNotFound
     else chk (Generations_profile ps ops) (\<lambda>prof.
          chk (if sj_BriefID (op_Subject ops) = [] then Inr None
               else chk (found (GetBrief c (sj_BriefID (op_Subject ops)))) (\<lambda>b. Inr (Some b))) (\<lambda>b.
          Inr \<lparr>gv_Operation = ops, gv_Profile = prof, gv_Brief = b, gv_Permit = GetPermitByOwner c ''operation'' (op_ID ops),
               gv_Funding = GetFunding c (op_ID ops)\<rparr>)))"

end
