(* ===== verification/Control_Run.thy ===== *)
theory Control_Run
  imports Operations_Service Generation_Service Pools History
begin

text \<open>
  The transactions of the control plane over one database, and how each of them refines the life of
  an operation: a transaction leaves the operation rows and the event log alone, advances one row
  by one step of \<open>Lifecycle\<close> and writes its event, or brings one row into being.
\<close>

section \<open>How a transaction moves the operation rows\<close>

inductive moves :: "db \<Rightarrow> db \<Rightarrow> bool" where
  rest: "db_operations s' = db_operations s \<Longrightarrow> db_events s' = db_events s \<Longrightarrow> moves s s'"
| advance: "lookup_by op_ID (op_ID ops) (db_operations s) = Some ops \<Longrightarrow> op_step ops e ops' \<Longrightarrow>
     db_operations s' = update_by op_ID ops' (db_operations s) \<Longrightarrow> db_events s' = db_events s @ [e] \<Longrightarrow> moves s s'"
| born: "op_born ops e \<Longrightarrow> lookup_by op_ID (op_ID ops) (db_operations s) = None \<Longrightarrow>
     db_operations s' = db_operations s @ [ops] \<Longrightarrow> db_events s' = db_events s @ [e] \<Longrightarrow> moves s s'"

text \<open>A binding of an event's payload keeps what the life cycle reads of it.\<close>

definition payload_kept :: "(changed_payload \<Rightarrow> changed_payload) \<Rightarrow> bool" where
  "payload_kept bind \<longleftrightarrow> (\<forall>p. pl_Lifecycle (bind p) = pl_Lifecycle p \<and> pl_Control (bind p) = pl_Control p)"

lemma payload_kept_simps [simp]:
  "payload_kept id" "payload_kept (\<lambda>p. p)" "payload_kept (\<lambda>p. BindAttempt p a)" "payload_kept (\<lambda>p. BindStage (BindAttempt p a) st)"
  "payload_kept (\<lambda>p. BindProgress (BindAttempt p a) node state round outcomeCode)"
  by (simp_all add: payload_kept_def BindAttempt_def BindStage_def BindProgress_def split: option.splits)

lemma moves_append:
  assumes "Transition ops t now f = (o1, ev)" and "op_change ops f" and "lookup_by op_ID i (db_operations s) = Some ops"
    and "payload_kept bind" and "db_operations s0 = db_operations s" and "db_events s0 = db_events s"
  shows "moves s (append_event (UpdateOperation s0 o1) (ev\<lparr>ev_Payload := bind (ev_Payload ev)\<rparr>))"
proof (rule moves.advance)
  show "lookup_by op_ID (op_ID ops) (db_operations s) = Some ops" using assms(3) lookup_by_SomeD by fastforce
  show "op_step ops (ev\<lparr>ev_Payload := bind (ev_Payload ev)\<rparr>) o1"
    by (rule op_step.step [OF assms(2,1)]) (use assms(4) in \<open>simp add: same_event_def payload_kept_def\<close>)
qed (use assms(5,6) in \<open>simp_all add: append_event_def UpdateOperation_def\<close>)

lemma moves_insert:
  assumes "InsertEvent (UpdateOperation s0 o1) ev = Inr s1" and "Transition ops t now f = (o1, ev)" and "op_change ops f"
    and "lookup_by op_ID i (db_operations s) = Some ops" and "db_operations s0 = db_operations s" and "db_events s0 = db_events s"
  shows "moves s s1"
proof -
  have "s1 = append_event (UpdateOperation s0 o1) (ev\<lparr>ev_Payload := id (ev_Payload ev)\<rparr>)" using assms(1) by (simp add: fallible)
  then show ?thesis using moves_append [OF assms(2-4) _ assms(5,6), of id] by simp
qed

lemma moves_write:
  assumes "write_transition ops t now f bind s0 = Inr (x, s1)" and "lookup_by op_ID i (db_operations s) = Some ops" and "op_change ops f"
    and "payload_kept bind" and "db_operations s0 = db_operations s" and "db_events s0 = db_events s"
  shows "moves s s1"
proof -
  obtain o1 ev where t: "Transition ops t now f = (o1, ev)" by fastforce
  then have "s1 = append_event (UpdateOperation s0 o1) (ev\<lparr>ev_Payload := bind (ev_Payload ev)\<rparr>)"
    using assms(1) by (auto simp: write_transition_def Let_def fallible)
  then show ?thesis using moves_append [OF t assms(3,2,4-6)] by simp
qed

text \<open>Most transactions leave attempts, launches, instances and stages alone.\<close>

definition exec_rows where
  "exec_rows s = (db_attempts s, db_launches s, db_instances s, db_stages s)"

lemma exec_rows_frames [simp]:
  "exec_rows (UpdateOperation s ops) = exec_rows s" "exec_rows (append_event s e) = exec_rows s"
  "exec_rows (s\<lparr>db_operations := os\<rparr>) = exec_rows s"
  by (simp_all add: exec_rows_def UpdateOperation_def append_event_def)

definition quiet :: "db \<Rightarrow> db \<Rightarrow> bool" where
  "quiet s s' \<longleftrightarrow> moves s s' \<and> exec_rows s' = exec_rows s"

lemma quiet_rest: "db_operations s' = db_operations s \<Longrightarrow> db_events s' = db_events s \<Longrightarrow> exec_rows s' = exec_rows s \<Longrightarrow> quiet s s'"
  by (simp add: quiet_def moves.rest)

lemma quiet_same [simp]: "quiet s s"
  by (simp add: quiet_rest)

lemma quiet_append:
  assumes "Transition ops t now f = (o1, ev)" and "op_change ops f" and "lookup_by op_ID i (db_operations s) = Some ops"
    and "payload_kept bind" and "db_operations s0 = db_operations s" and "db_events s0 = db_events s" and "exec_rows s0 = exec_rows s"
  shows "quiet s (append_event (UpdateOperation s0 o1) (ev\<lparr>ev_Payload := bind (ev_Payload ev)\<rparr>))"
  unfolding quiet_def using moves_append [OF assms(1-6)] assms(7) by simp

lemma quiet_insert:
  assumes "InsertEvent (UpdateOperation s0 o1) ev = Inr s1" and "Transition ops t now f = (o1, ev)" and "op_change ops f"
    and "lookup_by op_ID i (db_operations s) = Some ops" and "db_operations s0 = db_operations s" and "db_events s0 = db_events s"
    and "exec_rows s0 = exec_rows s"
  shows "quiet s s1"
  unfolding quiet_def using moves_insert [OF assms(1-6)] assms(1,7) by (simp add: fallible)

lemma quiet_write:
  assumes "write_transition ops t now f bind s0 = Inr (x, s1)" and "lookup_by op_ID i (db_operations s) = Some ops" and "op_change ops f"
    and "payload_kept bind" and "db_operations s0 = db_operations s" and "db_events s0 = db_events s" and "exec_rows s0 = exec_rows s"
  shows "quiet s s1"
  unfolding quiet_def using moves_write [OF assms(1-6)] assms(1,7)
  by (auto simp: write_transition_def Let_def fallible split: prod.splits)

named_theorems table_frames "what a write leaves alone"

lemma update_frames [simp, table_frames]:
  "db_operations (UpdateAttempt s a) = db_operations s" "db_events (UpdateAttempt s a) = db_events s"
  "db_operations (UpdateLaunchInventory s l) = db_operations s" "db_events (UpdateLaunchInventory s l) = db_events s"
  "db_operations (UpdateInstanceObservation s i) = db_operations s" "db_events (UpdateInstanceObservation s i) = db_events s"
  by (simp_all add: UpdateAttempt_def UpdateLaunchInventory_def UpdateInstanceObservation_def)

lemma insert_frames [table_frames]:
  "InsertAttempt s a = Inr s' \<Longrightarrow> s' = s\<lparr>db_attempts := db_attempts s @ [a]\<rparr>"
  "InsertLaunch s l = Inr s' \<Longrightarrow> s' = s\<lparr>db_launches := db_launches s @ [l]\<rparr>"
  "InsertInstance s i = Inr s' \<Longrightarrow> s' = s\<lparr>db_instances := db_instances s @ [i]\<rparr>"
  "InsertStage s st = Inr s' \<Longrightarrow> s' = s\<lparr>db_stages := db_stages s @ [st]\<rparr>"
  by (auto simp: InsertAttempt_def InsertLaunch_def InsertInstance_def InsertStage_def split: if_splits)

lemma insert_artifacts_db: "insert_artifacts stageID as c = Inr c' \<Longrightarrow> c_db c' = c_db c"
  by (induction as arbitrary: c) (auto simp: fallible InsertStageArtifact_def split: if_splits)

lemma settleTerminal_db [simp]: "c_db (settleTerminal ops now c) = c_db c"
  by (simp add: settleTerminal_def Let_def ReleasePermits_def SettlePendingCommands_def)

lemma lockOperationThenAttempt_Inr:
  "lockOperationThenAttempt s attemptID tenantID = Inr (ops, at) \<Longrightarrow>
     lookup_by at_ID attemptID (db_attempts s) = Some at \<and> lookup_by op_ID (at_OperationID at) (db_operations s) = Some ops \<and>
     at_TenantID at = tenantID"
  by (auto simp: lockOperationThenAttempt_def GetAttempt_def LockAttempt_def LockOperation_def fallible split: if_splits)

section \<open>The execution service\<close>

lemma OpenAttempt_Inr:
  assumes "OpenAttempt ps new_id now cmd operationID stepID visit profileID c = Inr (r, c')"
  obtains "c' = c" | ops a at s1 t x s2 where "lookup_by op_ID operationID (db_operations (c_db c)) = Some ops"
    "NewAttempt new_id ops cmd stepID visit (CountAttempts (c_db c) (op_ID ops) stepID visit + 1) profileID now = Inr a"
    "bootstrapGate ps now ops c = None" "at = attempt_window ps now ops a" "InsertAttempt (c_db c) at = Inr s1"
    "write_transition ops t now attempt_opened (\<lambda>p. BindAttempt p (Some at)) s1 = Inr (x, s2)" "c' = c\<lparr>c_db := s2\<rparr>"
proof -
  from assms obtain ops where ops: "lookup_by op_ID operationID (db_operations (c_db c)) = Some ops"
    by (auto simp: OpenAttempt_def LockOperation_def Let_def fallible)
  show thesis
  proof (cases "GetAttemptByCommand (c_db c) (op_ID ops) (cmd_CommandID cmd)")
    case (Some fnd)
    then have "c' = c" using assms ops by (auto simp: OpenAttempt_def LockOperation_def Let_def split: if_splits)
    then show thesis by (rule that(1))
  next
    case None
    with assms ops obtain a s1 x s2 where
      "NewAttempt new_id ops cmd stepID visit (CountAttempts (c_db c) (op_ID ops) stepID visit + 1) profileID now = Inr a"
      "bootstrapGate ps now ops c = None" "InsertAttempt (c_db c) (attempt_window ps now ops a) = Inr s1"
      "write_transition ops (''attempt:'' @ at_ID (attempt_window ps now ops a) @ '':opened'') now attempt_opened
         (\<lambda>p. BindAttempt p (Some (attempt_window ps now ops a))) s1 = Inr (x, s2)" "c' = c\<lparr>c_db := s2\<rparr>"
      by (auto simp: OpenAttempt_def LockOperation_def Let_def fallible split: if_splits)
    then show thesis by (rule that(2) [OF ops _ _ refl])
  qed
qed

lemma OpenAttempt_moves:
  assumes "OpenAttempt ps new_id now cmd operationID stepID visit profileID c = Inr (r, c')"
  shows "moves (c_db c) (c_db c')"
  using assms
proof (cases rule: OpenAttempt_Inr)
  case (2 ops a at s1 t x s2)
  show ?thesis unfolding 2(7)
    using moves_write [OF 2(6,1) op_change.OpenAttempt [OF 2(2)]] insert_frames(1) [OF 2(5)] by simp
qed (simp add: moves.rest)

lemma PrepareLaunch_Inr:
  assumes "PrepareLaunch new_id now cmd attemptID launchKey backend img deadline c = Inr (r, c')"
  obtains "c' = c" | ops at at1 l s1 t x s2 where
    "lookup_by at_ID attemptID (db_attempts (c_db c)) = Some at" "lookup_by op_ID (at_OperationID at) (db_operations (c_db c)) = Some ops"
    "NewLaunch new_id ops at cmd launchKey backend img deadline now = Inr l" "InsertLaunch (c_db c) l = Inr s1"
    "at1 = at\<lparr>at_State := AttemptLaunchPrepared, at_UpdatedAt := now\<rparr>"
    "write_transition ops t now launch_prepared (\<lambda>p. BindAttempt p (Some at1)) (UpdateAttempt s1 at1) = Inr (x, s2)" "c' = c\<lparr>c_db := s2\<rparr>"
proof -
  from assms obtain ops at where L: "lockOperationThenAttempt (c_db c) attemptID (cmd_TenantID cmd) = Inr (ops, at)"
    by (auto simp: PrepareLaunch_def Let_def fallible)
  note rows = lockOperationThenAttempt_Inr [OF L]
  show thesis
  proof (cases "GetLaunchByCommand (c_db c) (at_ID at) (cmd_CommandID cmd)")
    case (Some fnd)
    then have "c' = c" using assms L by (auto simp: PrepareLaunch_def Let_def split: if_splits)
    then show thesis by (rule that(1))
  next
    case None
    with assms L obtain l s1 x s2 where
      "NewLaunch new_id ops at cmd launchKey backend img deadline now = Inr l" "InsertLaunch (c_db c) l = Inr s1"
      "write_transition ops (''launch:'' @ ln_ID l) now launch_prepared
         (\<lambda>p. BindAttempt p (Some (at\<lparr>at_State := AttemptLaunchPrepared, at_UpdatedAt := now\<rparr>)))
         (UpdateAttempt s1 (at\<lparr>at_State := AttemptLaunchPrepared, at_UpdatedAt := now\<rparr>)) = Inr (x, s2)" "c' = c\<lparr>c_db := s2\<rparr>"
      by (auto simp: PrepareLaunch_def Let_def fallible split: if_splits)
    then show thesis using rows by (intro that(2) [OF _ _ _ _ refl]) blast+
  qed
qed

lemma PrepareLaunch_moves:
  assumes "PrepareLaunch new_id now cmd attemptID launchKey backend img deadline c = Inr (r, c')"
  shows "moves (c_db c) (c_db c')"
  using assms
proof (cases rule: PrepareLaunch_Inr)
  case (2 ops at at1 l s1 t x s2)
  show ?thesis unfolding 2(7)
    using moves_write [OF 2(6,2) op_change.PrepareLaunch [OF 2(3)]] insert_frames(2) [OF 2(4)] by simp
qed (simp add: moves.rest)

lemma confirmLaunch_Inr:
  assumes "confirmLaunch now l tenantID version c = Inr (r, c')"
  obtains "c' = c" | ops at locked where
    "lookup_by at_ID (ln_AttemptID l) (db_attempts (c_db c)) = Some at" "lookup_by op_ID (at_OperationID at) (db_operations (c_db c)) = Some ops"
    "lookup_by ln_ID (ln_ID l) (db_launches (c_db c)) = Some locked" "\<not> FencedForNewDispatch ops"
    "ln_ExecutionEpoch locked = op_ExecutionEpoch ops" "at_ExecutionEpoch at = op_ExecutionEpoch ops"
    "r = locked\<lparr>ln_Inventory := InventoryConfirmed, ln_InventoryVersion := version, ln_UpdatedAt := now\<rparr>"
    "c' = c\<lparr>c_db := UpdateLaunchInventory (c_db c) r\<rparr>"
proof -
  from assms obtain ops at locked where L: "lockOperationThenAttempt (c_db c) (ln_AttemptID l) tenantID = Inr (ops, at)"
    and K: "lookup_by ln_ID (ln_ID l) (db_launches (c_db c)) = Some locked"
    by (auto simp: confirmLaunch_def LockLaunch_def Let_def fallible)
  note rows = lockOperationThenAttempt_Inr [OF L]
  show thesis
  proof (cases "ln_Inventory locked = InventoryConfirmed")
    case True
    then have "c' = c" using assms L K by (auto simp: confirmLaunch_def LockLaunch_def Let_def)
    then show thesis by (rule that(1))
  next
    case False
    with assms L K have "\<not> FencedForNewDispatch ops" "ln_ExecutionEpoch locked = op_ExecutionEpoch ops" "at_ExecutionEpoch at = op_ExecutionEpoch ops"
      "r = locked\<lparr>ln_Inventory := InventoryConfirmed, ln_InventoryVersion := version, ln_UpdatedAt := now\<rparr>"
      "c' = c\<lparr>c_db := UpdateLaunchInventory (c_db c) r\<rparr>"
      by (auto simp: confirmLaunch_def LockLaunch_def Let_def split: if_splits)
    then show thesis using rows K by (intro that(2) [of at ops locked]) blast+
  qed
qed

lemma confirmLaunch_moves:
  "confirmLaunch now l tenantID version c = Inr (r, c') \<Longrightarrow> moves (c_db c) (c_db c')"
  by (erule confirmLaunch_Inr) (simp_all add: moves.rest)

lemma RegisterInstance_Inr:
  assumes "RegisterInstance new_id now cmd attemptID launchKey backend jobUID podUID img c = Inr (r, c')"
  obtains "c' = c" | ops at l i s1 where
    "lookup_by at_ID attemptID (db_attempts (c_db c)) = Some at" "lookup_by op_ID (at_OperationID at) (db_operations (c_db c)) = Some ops"
    "GetLaunchByKey (c_db c) backend launchKey = Some l" "ln_AttemptID l = at_ID at" "ln_Inventory l = InventoryConfirmed"
    "NewInstance new_id l jobUID podUID img (HasCurrentInstance (c_db c) (at_ID at)) now = Inr i" "InsertInstance (c_db c) i = Inr s1"
    "\<not> (inst_Current i \<and> at_State at \<noteq> AttemptClosed)" "c' = c\<lparr>c_db := s1\<rparr>"
  | ops at at1 l i s1 t x s2 where
    "lookup_by at_ID attemptID (db_attempts (c_db c)) = Some at" "lookup_by op_ID (at_OperationID at) (db_operations (c_db c)) = Some ops"
    "GetLaunchByKey (c_db c) backend launchKey = Some l" "ln_AttemptID l = at_ID at" "ln_Inventory l = InventoryConfirmed"
    "NewInstance new_id l jobUID podUID img (HasCurrentInstance (c_db c) (at_ID at)) now = Inr i" "InsertInstance (c_db c) i = Inr s1"
    "inst_Current i" "at_State at \<noteq> AttemptClosed" "at1 = at\<lparr>at_State := AttemptRunning, at_UpdatedAt := now\<rparr>"
    "write_transition ops t now (phase_moved ''running'') (\<lambda>p. BindAttempt p (Some at1)) (UpdateAttempt s1 at1) = Inr (x, s2)"
    "c' = c\<lparr>c_db := s2\<rparr>"
proof -
  from assms obtain ops at where L: "lockOperationThenAttempt (c_db c) attemptID (cmd_TenantID cmd) = Inr (ops, at)"
    by (auto simp: RegisterInstance_def Let_def fallible)
  note rows = lockOperationThenAttempt_Inr [OF L]
  show thesis
  proof (cases "GetInstanceByPod (c_db c) backend podUID")
    case (Some fnd)
    then have "c' = c" using assms L by (auto simp: RegisterInstance_def Let_def split: if_splits)
    then show thesis by (rule that(1))
  next
    case None
    with assms L obtain l i s1 where
      B: "GetLaunchByKey (c_db c) backend launchKey = Some l" "ln_AttemptID l = at_ID at" "ln_Inventory l = InventoryConfirmed"
      "NewInstance new_id l jobUID podUID img (HasCurrentInstance (c_db c) (at_ID at)) now = Inr i" "InsertInstance (c_db c) i = Inr s1"
      by (auto simp: RegisterInstance_def Let_def fallible split: if_splits)
    show thesis
    proof (cases "inst_Current i \<and> at_State at \<noteq> AttemptClosed")
      case False
      with assms L None B have "c' = c\<lparr>c_db := s1\<rparr>" by (auto simp: RegisterInstance_def Let_def)
      then show thesis using rows B False by (intro that(2)) auto
    next
      case True
      with assms L None B obtain x s2 where
        "write_transition ops (''instance:'' @ inst_ID i @ '':registered'') now (phase_moved ''running'')
           (\<lambda>p. BindAttempt p (Some (at\<lparr>at_State := AttemptRunning, at_UpdatedAt := now\<rparr>)))
           (UpdateAttempt s1 (at\<lparr>at_State := AttemptRunning, at_UpdatedAt := now\<rparr>)) = Inr (x, s2)" "c' = c\<lparr>c_db := s2\<rparr>"
        by (auto simp: RegisterInstance_def Let_def fallible)
      then show thesis using rows B True by (intro that(3) [OF _ _ B _ _ refl]) blast+
    qed
  qed
qed

lemma RegisterInstance_moves:
  assumes "RegisterInstance new_id now cmd attemptID launchKey backend jobUID podUID img c = Inr (r, c')"
  shows "moves (c_db c) (c_db c')"
  using assms
proof (cases rule: RegisterInstance_Inr)
  case (2 ops at l i s1)
  then show ?thesis by (simp add: insert_frames(3) [OF 2(7)] moves.rest)
next
  case (3 ops at at1 l i s1 t x s2)
  show ?thesis unfolding 3(12)
    using moves_write [OF 3(11,2) op_change.RegisterInstance [OF 3(6,8,9)]] insert_frames(3) [OF 3(7)] by simp
qed (simp add: moves.rest)

lemma ObserveInstance_Inr:
  assumes "ObserveInstance tenantID attemptID instanceID phase exitCode observedAt c = Inr (r, c')"
  obtains locked where "lookup_by inst_ID instanceID (db_instances (c_db c)) = Some locked"
    "r = locked\<lparr>inst_Phase := phase, inst_ExitCode := exitCode, inst_ObservedAt := Some observedAt\<rparr>"
    "c' = c\<lparr>c_db := UpdateInstanceObservation (c_db c) r\<rparr>"
  using assms by (auto simp: ObserveInstance_def LockInstance_def Let_def fallible split: if_splits)

lemma ObserveInstance_moves:
  "ObserveInstance tenantID attemptID instanceID phase exitCode observedAt c = Inr (r, c') \<Longrightarrow> moves (c_db c) (c_db c')"
  by (erule ObserveInstance_Inr) (simp add: moves.rest)

lemma AcceptResult_Inr:
  assumes "AcceptResult rs new_id now cmd attemptID instanceID profileID vd failureCode resultDigest manifest observer observerEpoch c = Inr (r, c')"
  obtains "c' = c" | ops at at1 i st m prof bound s1 c1 t x s2 where
    "check_result rs attemptID profileID vd failureCode resultDigest manifest = Inr (m, prof)"
    "lookup_by at_ID attemptID (db_attempts (c_db c)) = Some at" "lookup_by op_ID (at_OperationID at) (db_operations (c_db c)) = Some ops"
    "lookup_by inst_ID instanceID (db_instances (c_db c)) = Some i"
    "AcceptStage new_id ops at i cmd profileID vd failureCode resultDigest manifest observer observerEpoch now = Inr st"
    "ProducedBy m (Some i) = None" "BindOutputs c ops at m prof = Inr bound" "InsertStage (c_db c) st = Inr s1"
    "insert_artifacts (st_ID st) bound (c\<lparr>c_db := s1\<rparr>) = Inr c1"
    "at1 = at\<lparr>at_State := AttemptResultAccepted, at_AcceptedStageID := st_ID st, at_UpdatedAt := now\<rparr>"
    "write_transition ops t now (phase_moved ''result_accepted'') (\<lambda>p. BindStage (BindAttempt p (Some at1)) (Some st))
       (UpdateAttempt s1 at1) = Inr (x, s2)" "c' = c1\<lparr>c_db := s2\<rparr>"
proof -
  from assms obtain m prof ops at where M: "check_result rs attemptID profileID vd failureCode resultDigest manifest = Inr (m, prof)"
    and L: "lockOperationThenAttempt (c_db c) attemptID (cmd_TenantID cmd) = Inr (ops, at)"
    by (auto simp: AcceptResult_def Let_def fallible)
  note rows = lockOperationThenAttempt_Inr [OF L]
  show thesis
  proof (cases "GetStageByAttempt (c_db c) (at_ID at)")
    case (Some fnd)
    then have "c' = c" using assms M L by (auto simp: AcceptResult_def Let_def split: if_splits)
    then show thesis by (rule that(1))
  next
    case None
    with assms M L obtain i st bound s1 c1 x s2 where
      S: "lookup_by inst_ID instanceID (db_instances (c_db c)) = Some i"
      "AcceptStage new_id ops at i cmd profileID vd failureCode resultDigest manifest observer observerEpoch now = Inr st"
      "ProducedBy m (Some i) = None" "BindOutputs c ops at m prof = Inr bound" "InsertStage (c_db c) st = Inr s1"
      "insert_artifacts (st_ID st) bound (c\<lparr>c_db := s1\<rparr>) = Inr c1"
      and W: "write_transition ops (''stage:'' @ st_ID st) now (phase_moved ''result_accepted'')
        (\<lambda>p. BindStage (BindAttempt p (Some (at\<lparr>at_State := AttemptResultAccepted, at_AcceptedStageID := st_ID st, at_UpdatedAt := now\<rparr>))) (Some st))
        (UpdateAttempt (c_db c1) (at\<lparr>at_State := AttemptResultAccepted, at_AcceptedStageID := st_ID st, at_UpdatedAt := now\<rparr>)) = Inr (x, s2)"
      "c' = c1\<lparr>c_db := s2\<rparr>"
      by (auto simp: AcceptResult_def LockInstance_def Let_def fallible)
    have "c_db c1 = s1" using insert_artifacts_db [OF S(6)] by simp
    then show thesis using rows W by (intro that(2) [OF M _ _ S refl]) simp_all
  qed
qed

lemma AcceptResult_moves:
  assumes "AcceptResult rs new_id now cmd attemptID instanceID profileID vd failureCode resultDigest manifest observer observerEpoch c = Inr (r, c')"
  shows "moves (c_db c) (c_db c')"
  using assms
proof (cases rule: AcceptResult_Inr)
  case (2 ops at at1 i st m prof bound s1 c1 t x s2)
  show ?thesis unfolding 2(12)
    using moves_write [OF 2(11,3) op_change.AcceptResult [OF 2(5)]] insert_frames(4) [OF 2(8)] by simp
qed (simp add: moves.rest)
text \<open>The tables the control plane keeps; the ledger transactions of the dispatch service leave them alone.\<close>

definition control_rows where
  "control_rows s = (db_operations s, db_events s, db_attempts s, db_launches s, db_instances s, db_stages s)"

lemma control_rows_frames [simp]:
  "control_rows (UpdateDispatch s d) = control_rows s" "control_rows (InsertCostEntry s e) = control_rows s"
  "control_rows (UpdateAllocation s a) = control_rows s" "control_rows (UpdateCostCapCounters s k) = control_rows s"
  "control_rows (s\<lparr>db_observations := x\<rparr>) = control_rows s" "control_rows (s\<lparr>db_dispatches := y\<rparr>) = control_rows s"
  by (simp_all add: control_rows_def UpdateDispatch_def InsertCostEntry_def UpdateAllocation_def UpdateCostCapCounters_def)

lemma control_rows_save [simp]: "control_rows (budget_save s b) = control_rows s"
proof -
  have "control_rows (foldl UpdateAllocation s as) = control_rows s" for s as by (induction as arbitrary: s) simp_all
  moreover have "control_rows (foldl UpdateCostCapCounters s cs) = control_rows s" for s cs by (induction cs arbitrary: s) simp_all
  ultimately show ?thesis by (simp add: budget_save_def)
qed

lemma deny_each_rows: "deny_each ds b s = Inr (b', s') \<Longrightarrow> control_rows s' = control_rows s"
proof (induction ds arbitrary: b s)
  case (Cons d ds)
  from Cons.prems obtain d' b1 where "deny_each ds b1 (UpdateDispatch s d') = Inr (b', s')" by (auto simp: fallible)
  from Cons.IH [OF this] show ?case by simp
qed simp

lemma deny_prepared_rows: "deny_prepared operationID attemptID s = Inr s' \<Longrightarrow> control_rows s' = control_rows s"
  by (auto simp: deny_prepared_def Let_def fallible dest: deny_each_rows split: if_splits)

lemma deny_prepared_frame:
  assumes "deny_prepared operationID attemptID s = Inr s'"
  shows "db_operations s' = db_operations s" "db_events s' = db_events s" "db_attempts s' = db_attempts s" "db_launches s' = db_launches s"
    "db_instances s' = db_instances s" "db_stages s' = db_stages s"
  using deny_prepared_rows [OF assms] by (simp_all add: control_rows_def)

text \<open>The transition a close records is one the life cycle knows.\<close>

lemma close_transition_records:
  "close_transition ops at out cleanup unresolved unknownAttempt = Inr (Some t) \<Longrightarrow>
     close_records ops at out cleanup unresolved unknownAttempt"
  by (auto simp: close_transition_def close_records_def split: if_splits)

lemma CloseAttempt_Inr:
  assumes "CloseAttempt ps now cmd attemptID out cleanup failureCode c = Inr (r, c')"
  obtains ops at where "lookup_by at_ID attemptID (db_attempts (c_db c)) = Some at"
      "lookup_by op_ID (at_OperationID at) (db_operations (c_db c)) = Some ops" "c' = settleTerminal ops now c"
  | ops at at1 st unresolved unknownAttempt t s1 o1 ev s2 c1 bind where
    "lookup_by at_ID attemptID (db_attempts (c_db c)) = Some at" "lookup_by op_ID (at_OperationID at) (db_operations (c_db c)) = Some ops"
    "unresolved = (unresolvedEffects (c_db c) (op_ID ops) \<or> op_Finance ops = FinanceExposureUnknown)"
    "close_records ops at out cleanup unresolved unknownAttempt" "deny_prepared (op_ID ops) (at_ID at) (c_db c) = Inr s1"
    "at1 = (snd (SettleClose ops at st out cleanup failureCode (multiStep ps ops)))\<lparr>at_UpdatedAt := now\<rparr>"
    "Transition ops t now (attempt_closed at st out cleanup failureCode (multiStep ps ops) unresolved unknownAttempt) = (o1, ev)"
    "payload_kept bind" "c1 = settleTerminal o1 now (c\<lparr>c_db := UpdateOperation (UpdateAttempt s1 at1) o1\<rparr>)"
    "InsertEvent (UpdateOperation (UpdateAttempt s1 at1) o1) (ev\<lparr>ev_Payload := bind (ev_Payload ev)\<rparr>) = Inr s2" "c' = c1\<lparr>c_db := s2\<rparr>"
proof -
  from assms obtain ops at where L: "lockOperationThenAttempt (c_db c) attemptID (cmd_TenantID cmd) = Inr (ops, at)"
    by (auto simp: CloseAttempt_def Let_def fallible)
  note rows = lockOperationThenAttempt_Inr [OF L]
  define unresolved where "unresolved = (unresolvedEffects (c_db c) (op_ID ops) \<or> op_Finance ops = FinanceExposureUnknown)"
  define unknownAttempt where "unknownAttempt = HasUnknownAttempt (c_db c) (op_ID ops) (at_ID at)"
  define st where "st = GetStageByAttempt (c_db c) (at_ID at)"
  define at1 where "at1 = (snd (SettleClose ops at st out cleanup failureCode (multiStep ps ops)))\<lparr>at_UpdatedAt := now\<rparr>"
  note defs = unresolved_def unknownAttempt_def st_def at1_def
  from assms L obtain tr where tr: "close_transition ops at out cleanup unresolved unknownAttempt = Inr tr"
    by (auto simp: CloseAttempt_def Let_def fallible defs)
  show thesis
  proof (cases tr)
    case None
    then have "c' = settleTerminal ops now c" using assms L tr by (simp add: CloseAttempt_def Let_def defs)
    then show thesis using rows that(1) by blast
  next
    case (Some t)
    obtain o1 ev where T: "Transition ops t now (attempt_closed at st out cleanup failureCode (multiStep ps ops) unresolved unknownAttempt) = (o1, ev)"
      by fastforce
    from assms L tr Some T obtain s1 s2 where
      D: "deny_prepared (op_ID ops) (at_ID at) (c_db c) = Inr s1"
      and I: "InsertEvent (UpdateOperation (UpdateAttempt s1 at1) o1) (ev\<lparr>ev_Payload := BindAttempt (ev_Payload ev) (Some at1)\<rparr>) = Inr s2"
      and c': "c' = (settleTerminal o1 now (c\<lparr>c_db := UpdateOperation (UpdateAttempt s1 at1) o1\<rparr>))\<lparr>c_db := s2\<rparr>"
      by (auto simp: CloseAttempt_def Let_def chk_Inr_iff unresolved_def [symmetric] unknownAttempt_def [symmetric] st_def [symmetric]
          at1_def [symmetric])
    show thesis
      by (rule that(2) [where bind = "\<lambda>p. BindAttempt p (Some at1)", OF _ _ unresolved_def _ D at1_def T _ refl I c'])
        (use rows close_transition_records [OF tr [unfolded Some]] in simp_all)
  qed
qed

lemma CloseAttempt_moves:
  assumes "CloseAttempt ps now cmd attemptID out cleanup failureCode c = Inr (r, c')"
  shows "moves (c_db c) (c_db c')"
  using assms
proof (cases rule: CloseAttempt_Inr)
  case (2 ops at at1 st unresolved unknownAttempt t s1 o1 ev s2 c1 bind)
  note F = deny_prepared_frame [OF 2(5)]
  define prof :: profile where "prof = undefined\<lparr>pf_MultiStep := multiStep ps ops\<rparr>"
  have ch: "op_change ops (attempt_closed at st out cleanup failureCode (multiStep ps ops) unresolved unknownAttempt)"
    using op_change.CloseAttempt [OF 2(4,3), of st failureCode prof] by (simp add: prof_def)
  have "s2 = append_event (UpdateOperation (UpdateAttempt s1 at1) o1) (ev\<lparr>ev_Payload := bind (ev_Payload ev)\<rparr>)"
    using 2(10) by (simp add: fallible)
  then show ?thesis using moves_append [OF 2(7) ch 2(2,8), of "UpdateAttempt s1 at1"] by (simp add: 2(11) F)
qed (simp add: moves.rest)

lemma SettleFromIntent_Inr:
  assumes "SettleFromIntent ps now operationID c = Inr (r, c')"
  obtains "c' = c" | ops out failureCode phase o' t o1 ev s2 where "lookup_by op_ID operationID (db_operations (c_db c)) = Some ops"
    "op_Lifecycle ops = LifecycleReconciling" "\<not> HasOpenAttempt (c_db c) (op_ID ops)" "\<not> fst (obligationsOpen (c_db c) ops)"
    "SettleOperation ops out failureCode phase = Inr o'"
    "Transition ops t now (settlement_applied out failureCode phase) = (o1, ev)"
    "InsertEvent (UpdateOperation (c_db c) o1) ev = Inr s2"
    "c' = (settleTerminal o1 now (c\<lparr>c_db := UpdateOperation (c_db c) o1\<rparr>))\<lparr>c_db := s2\<rparr>"
proof -
  from assms obtain ops where ops: "lookup_by op_ID operationID (db_operations (c_db c)) = Some ops"
    by (auto simp: SettleFromIntent_def LockOperation_def Let_def fallible)
  show thesis
  proof (cases "op_Lifecycle ops \<noteq> LifecycleReconciling \<or> \<not> multiStep ps ops \<or> GetOperationSettlement c operationID = None \<or>
      HasOpenAttempt (c_db c) (op_ID ops) \<or> fst (obligationsOpen (c_db c) ops)")
    case True
    then have "c' = c" using assms ops
      by (elim disjE) (auto simp: SettleFromIntent_def LockOperation_def Let_def split: option.splits if_splits)
    then show thesis by (rule that(1))
  next
    case False
    then obtain intent where i: "GetOperationSettlement c operationID = Some intent" by auto
    obtain o1 ev where T: "Transition ops (''settle:'' @ si_CommandID intent @ '':terminal'') now
        (settlement_applied (si_Outcome intent) (si_FailureCode intent) (si_Phase intent)) = (o1, ev)" by fastforce
    from assms ops False i T obtain o' s2 where
      "SettleOperation ops (si_Outcome intent) (si_FailureCode intent) (si_Phase intent) = Inr o'"
      "InsertEvent (UpdateOperation (c_db c) o1) ev = Inr s2"
      "c' = (settleTerminal o1 now (c\<lparr>c_db := UpdateOperation (c_db c) o1\<rparr>))\<lparr>c_db := s2\<rparr>"
      by (simp add: SettleFromIntent_def LockOperation_def Let_def chk_Inr_iff) blast
    then show thesis using False by (intro that(2) [OF ops _ _ _ _ T]) auto
  qed
qed

lemma SettleFromIntent_quiet:
  assumes "SettleFromIntent ps now operationID c = Inr (r, c')"
  shows "quiet (c_db c) (c_db c')"
  using assms
proof (cases rule: SettleFromIntent_Inr)
  case (2 ops out failureCode phase o' t o1 ev s2)
  have "op_change ops (settlement_applied out failureCode phase)"
    using 2(5) by (intro op_change.SettleOperation_applied) (simp_all add: 2(2) Lifecycle_Terminal_def)
  from quiet_insert [OF 2(7,6) this 2(1)] show ?thesis by (simp add: 2(8))
qed simp

lemma ExecSettleOperation_quiet:
  assumes "ExecSettleOperation ps now cmd operationID out failureCode phase c = Inr (r, c')"
  shows "quiet (c_db c) (c_db c')"
proof -
  from assms obtain ops where ops: "lookup_by op_ID operationID (db_operations (c_db c)) = Some ops"
    by (auto simp: ExecSettleOperation_def LockOperation_def Let_def fallible)
  consider "c_db c' = c_db c" | t f o1 ev where
    "op_change ops f" "Transition ops t now f = (o1, ev)" "InsertEvent (UpdateOperation (c_db c) o1) ev = Inr (c_db c')"
  proof (cases "Lifecycle_Terminal (op_Lifecycle ops) \<or> multiStep ps ops = False \<or> HasOpenAttempt (c_db c) (op_ID ops)")
    case True
    then show thesis using assms ops that(1)
      by (auto simp: ExecSettleOperation_def LockOperation_def Let_def fallible split: if_splits)
  next
    case False
    obtain unresolved unknownAttempt where U: "obligationsOpen (c_db c) ops = (unresolved, unknownAttempt)" by fastforce
    show thesis
    proof (cases unresolved)
      case True
      obtain o1 ev where T: "Transition ops (''settle:'' @ cmd_CommandID cmd @ '':pending'') now (settlement_pending unknownAttempt phase) = (o1, ev)"
        by fastforce
      have "c_db c' = c_db c \<or> InsertEvent (UpdateOperation (c_db c) o1) ev = Inr (c_db c')"
        using assms ops False U True T
        by (auto simp: ExecSettleOperation_def LockOperation_def Let_def fallible settle_intent_def InsertOperationSettlement_def
            split: if_splits option.splits settle_plan.splits)
      then show thesis using that(1) that(2) [OF op_change.SettleOperation_pending T] False by blast
    next
      case F: False
      obtain o1 ev where T: "Transition ops (''settle:'' @ cmd_CommandID cmd @ '':terminal'') now (settlement_applied out failureCode phase) = (o1, ev)"
        by fastforce
      have "\<exists>o'. SettleOperation ops out failureCode phase = Inr o' \<and> InsertEvent (UpdateOperation (c_db c) o1) ev = Inr (c_db c')"
        using assms ops False U F T
        by (auto simp: ExecSettleOperation_def LockOperation_def Let_def fallible settle_intent_def InsertOperationSettlement_def
            split: if_splits option.splits settle_plan.splits)
      then show thesis using that(2) [OF op_change.SettleOperation_applied T] False by blast
    qed
  qed
  then show ?thesis
  proof cases
    case (2 t f o1 ev)
    from quiet_insert [OF 2(3,2,1) ops] show ?thesis by simp
  qed simp
qed

lemma RecordAttemptProgress_quiet:
  assumes "RecordAttemptProgress now cmd attemptID instanceID executionEpoch node state round outcomeCode c = Inr (r, c')"
  shows "quiet (c_db c) (c_db c')"
proof -
  from assms obtain ops at where L: "lockOperationThenAttempt (c_db c) attemptID (cmd_TenantID cmd) = Inr (ops, at)"
    by (auto simp: RecordAttemptProgress_def Let_def fallible split: if_splits)
  note rows = lockOperationThenAttempt_Inr [OF L]
  consider "c' = c" | t x s1 where "\<not> Lifecycle_Terminal (op_Lifecycle ops)" "op_Lifecycle ops \<noteq> LifecycleReconciling"
    "write_transition ops t now id (\<lambda>p. BindProgress (BindAttempt p (Some at)) node state round outcomeCode) (c_db c) = Inr (x, s1)" "c_db c' = s1"
    using assms L by (auto simp: RecordAttemptProgress_def Let_def fallible split: if_splits option.splits)
  then show ?thesis
  proof cases
    case (2 t x s1)
    from quiet_write [OF 2(3) _ op_change.RecordProgress [OF 2(1,2)], of "at_OperationID at" "c_db c"] rows show ?thesis by (simp add: 2(4))
  qed simp
qed

section \<open>The operations service\<close>

lemma write_frames:
  "InsertCommand c m = Inr c' \<Longrightarrow> c_db c' = c_db c" "InsertPermit c p = Inr c' \<Longrightarrow> c_db c' = c_db c"
  "InsertFunding c f = Inr c' \<Longrightarrow> c_db c' = c_db c"
  by (auto simp: InsertCommand_def InsertPermit_def InsertFunding_def split: if_splits)

lemma UpdateCommand_db [simp]: "c_db (UpdateCommand c m) = c_db c"
  by (simp add: UpdateCommand_def)

lemma Create_Inr:
  assumes "Create ps new_id now cmd sc kind sj intake c = Inr ((r, ex), c')"
  obtains "c' = c" | prof fresh handle ev s1 s2 where "NewOperation new_id cmd sc kind sj prof now = Inr fresh"
    "accepted_row fresh intake handle now = (r, ev)" "InsertOperation (c_db c) r = Inr s1" "InsertEvent s1 ev = Inr s2"
    "c' = c\<lparr>c_db := s2\<rparr>"
proof -
  from assms obtain prof where prof: "ps (sj_ProfileID sj) = Some prof" "sc_TenantID sc = cmd_TenantID cmd" "checkSubjectShape kind sj intake = None"
    by (auto simp: Create_def Let_def chk_err_Inr_iff split: if_splits option.splits)
  show thesis
  proof (cases "GetOperationByCommand (c_db c) (cmd_TenantID cmd) (cmd_CommandID cmd)")
    case (Some fnd)
    then have "c' = c" using assms prof by (auto simp: Create_def Let_def split: if_splits)
    then show thesis by (rule that(1))
  next
    case None
    with assms prof obtain fresh handle where N: "NewOperation new_id cmd sc kind sj prof now = Inr fresh"
      and rest: "(let (ops, ev) = accepted_row fresh intake handle now
                 in chk (InsertOperation (c_db c) ops) (\<lambda>s1.
                    chk (InsertEvent s1 ev) (\<lambda>s2. Inr ((ops, False), c\<lparr>c_db := s2\<rparr>)))) = Inr ((r, ex), c')"
      by (auto simp: Create_def Let_def chk_Inr_iff [of "NewOperation _ _ _ _ _ _ _"] chk_err_Inr_iff
          chk_Inr_iff [of "if _ then _ else Inr None"] split: if_splits)
    obtain o1 ev where "accepted_row fresh intake handle now = (o1, ev)" by fastforce
    with rest obtain s1 s2 where "accepted_row fresh intake handle now = (r, ev)" "InsertOperation (c_db c) r = Inr s1"
      "InsertEvent s1 ev = Inr s2" "c' = c\<lparr>c_db := s2\<rparr>"
      by (auto simp: chk_Inr_iff)
    then show thesis by (rule that(2) [OF N])
  qed
qed

lemma Create_quiet:
  assumes "Create ps new_id now cmd sc kind sj intake c = Inr ((r, ex), c')"
  shows "quiet (c_db c) (c_db c')"
  using assms
proof (cases rule: Create_Inr)
  case (2 prof fresh handle ev s1 s2)
  have I: "s1 = (c_db c)\<lparr>db_operations := db_operations (c_db c) @ [r]\<rparr>" "lookup_by op_ID (op_ID r) (db_operations (c_db c)) = None"
    using 2(3) by (auto simp: InsertOperation_def list_ex_iff lookup_by_def find_None_iff split: if_splits)
  have "s2 = append_event s1 ev" using 2(4) by (simp add: fallible)
  then show ?thesis unfolding 2(5)
    using moves.born [OF op_born.accepted [OF 2(1,2)] I(2), of s2] by (simp add: quiet_def) (simp add: I(1) append_event_def)
qed simp

lemma confirmIntake_quiet:
  assumes "confirmIntake now operationID version c = Inr (r, c')"
  shows "quiet (c_db c) (c_db c')"
proof -
  from assms obtain ops where ops: "lookup_by op_ID operationID (db_operations (c_db c)) = Some ops"
    by (auto simp: confirmIntake_def LockOperation_def Let_def fallible)
  show ?thesis
  proof (cases "op_Intake ops = IntakeConfirmed")
    case True
    then show ?thesis using assms ops by (auto simp: confirmIntake_def LockOperation_def Let_def)
  next
    case False
    with assms ops obtain x s1 where W: "write_transition ops ''intake_confirmed'' now (intake_confirmed version) id (c_db c) = Inr (x, s1)"
      "c' = c\<lparr>c_db := s1\<rparr>"
      by (auto simp: confirmIntake_def LockOperation_def Let_def fallible)
    from quiet_write [OF W(1) ops op_change.confirmIntake [OF False]] show ?thesis by (simp add: W(2))
  qed
qed

lemma SubmitCommand_quiet:
  assumes "SubmitCommand ps now cmd sc operationID kind expected targetActivation c = Inr (r, c')"
  shows "quiet (c_db c) (c_db c')"
proof (cases "lookup_by command_key (cmd_TenantID cmd, cmd_CommandID cmd) (c_commands c)")
  case (Some fnd)
  then show ?thesis using assms by (auto simp: SubmitCommand_def Let_def split: if_splits)
next
  case None
  with assms obtain scoped ops where O: "sc_TenantID sc = cmd_TenantID cmd" "scopedOperation (c_db c) sc operationID = Inr scoped"
    "lookup_by op_ID (op_ID scoped) (db_operations (c_db c)) = Some ops"
    by (auto simp: SubmitCommand_def Let_def LockOperation_def fallible split: if_splits)
  show ?thesis
  proof (cases "kind = CommandCancel")
    case False
    with assms None O obtain prof d where D: "DecideControl ops prof kind expected targetActivation now = Inr d" "ps (sj_ProfileID (op_Subject ops)) = Some prof"
      by (auto simp: SubmitCommand_def Let_def LockOperation_def fallible split: option.splits)
    show ?thesis
    proof (cases "cn_Relay d")
      case True
      with assms None O False D obtain x s1 where
        W: "write_transition ops (''cmd:'' @ cmd_CommandID cmd) now (control_relayed kind) id (c_db c) = Inr (x, s1)" "c_db c' = s1"
        by (auto simp: SubmitCommand_def Let_def LockOperation_def fallible dest!: write_frames)
      from quiet_write [OF W(1) O(3) op_change.SubmitCommand_control [OF D(1) True False]] show ?thesis by (simp add: W(2))
    next
      case F: False
      with assms None O False D have "c_db c' = c_db c"
        by (auto simp: SubmitCommand_def Let_def LockOperation_def fallible dest!: write_frames)
      then show ?thesis by simp
    qed
  next
    case True
    let ?q = "SendersQuiescent ops (HasOpenAttempt (c_db c) (op_ID ops) \<or> unresolvedEffects (c_db c) (op_ID ops))"
    from assms None O True obtain d where D: "DecideCancel ops expected ?q = Inr d"
      by (auto simp: SubmitCommand_def Let_def LockOperation_def fallible)
    show ?thesis
    proof (cases "cd_Applied d")
      case A: True
      obtain o1 ev where T: "Transition ops (''cmd:'' @ cmd_CommandID cmd) now (cancel_installed ?q) = (o1, ev)" by fastforce
      have "\<exists>s2. InsertEvent (UpdateOperation (c_db c) o1) ev = Inr s2 \<and> c_db c' = s2"
        using assms None O True D A T by (auto simp: SubmitCommand_def Let_def LockOperation_def chk_Inr_iff dest!: write_frames)
      then obtain s2 where I: "InsertEvent (UpdateOperation (c_db c) o1) ev = Inr s2" "c_db c' = s2" by blast
      from quiet_insert [OF I(1) T op_change.SubmitCommand_cancel [OF refl D A] O(3)] show ?thesis by (simp add: I(2))
    next
      case False
      with assms None O True D have "c_db c' = c_db c"
        by (auto simp: SubmitCommand_def Let_def LockOperation_def fallible dest!: write_frames)
      then show ?thesis by simp
    qed
  qed
qed

section \<open>The generation service\<close>

lemma DecidePermit_pool:
  "DecidePermit new_id ops prof pool active None now = Inr d \<Longrightarrow>
     \<exists>p. pool = Some p \<and> rp_ID p = pf_QueuePool prof \<and> (pd_Granted d \<longleftrightarrow> Pool_Available p active) \<and>
       (pd_Granted d \<longrightarrow> (\<exists>pm. pd_Permit d = Some pm \<and> pm_ID pm = new_id \<and> pm_PoolID pm = rp_ID p \<and> pm_State pm = PermitActive \<and>
          pm_OwnerKind pm = ''operation'' \<and> pm_OwnerID pm = op_ID ops \<and> pm_FenceEpoch pm = op_ExecutionEpoch ops))"
  by (auto simp: DecidePermit_def split: if_splits option.splits)

lemma permit_pool_None:
  "permit_pool c prof None = (Some p, active) \<Longrightarrow> LockResourcePool c (pf_QueuePool prof) = Some p \<and> active = CountActivePermits c (rp_ID p)"
  by (auto simp: permit_pool_def split: if_splits option.splits)

lemma RequestExecutionPermitOnce_Inr:
  assumes "RequestExecutionPermitOnce ps new_id now cmd operationID c = Inr (r, c')"
  obtains "c' = c" | ops prof pool active hold d t x s1 where "lookup_by op_ID operationID (db_operations (c_db c)) = Some ops"
    "DecidePermit new_id ops prof pool active hold now = Inr d" "\<not> pd_Granted d" "op_Phase ops \<noteq> ''queued''"
    "write_transition ops t now (phase_moved ''queued'') id (c_db c) = Inr (x, s1)" "c' = c\<lparr>c_db := s1\<rparr>"
  | ops prof pool d p c1 t x s1 where "lookup_by op_ID operationID (db_operations (c_db c)) = Some ops"
    "LockResourcePool c (pf_QueuePool prof) = Some pool"
    "DecidePermit new_id ops prof (Some pool) (CountActivePermits c (rp_ID pool)) None now = Inr d" "pd_Granted d" "pd_Permit d = Some p"
    "InsertPermit c p = Inr c1" "write_transition ops t now (permit_granted d) id (c_db c) = Inr (x, s1)" "c' = c1\<lparr>c_db := s1\<rparr>"
proof -
  from assms obtain ops prof where O: "lookup_by op_ID operationID (db_operations (c_db c)) = Some ops" "op_TenantID ops = cmd_TenantID cmd"
    "Generations_profile ps ops = Inr prof" "admissionOpen (c_db c) (op_TenantID ops) = None" "permit_brief c ops = None"
    by (auto simp: RequestExecutionPermitOnce_def LockOperation_def Let_def fallible split: if_splits)
  define hold where "hold = GetActivePermit c (pf_QueuePool prof) ''operation'' (op_ID ops)"
  obtain pool active where P: "permit_pool c prof hold = (pool, active)" by fastforce
  note tx = assms [unfolded RequestExecutionPermitOnce_def LockOperation_def Let_def O(1)]
  from tx O P obtain d where D: "DecidePermit new_id ops prof pool active hold now = Inr d"
    by (auto simp: chk_Inr_iff hold_def)
  note known = tx O P D hold_def [symmetric]
  consider "pd_Granted d \<and> hold \<noteq> None \<or> \<not> pd_Granted d \<and> op_Phase ops = ''queued''" | "\<not> pd_Granted d" "op_Phase ops \<noteq> ''queued''"
    | "pd_Granted d" "hold = None" by blast
  then show thesis
  proof cases
    case 1
    then have "c' = c" using known by (auto simp: chk_Inr_iff)
    then show thesis by (rule that(1))
  next
    case 2
    with known obtain x s1 where "write_transition ops (''queue:'' @ cmd_CommandID cmd @ '':r'' @ Revision_String (op_Revision ops)) now
        (phase_moved ''queued'') id (c_db c) = Inr (x, s1)" "c' = c\<lparr>c_db := s1\<rparr>"
      by (auto simp: chk_Inr_iff)
    then show thesis by (rule that(2) [OF O(1) D 2])
  next
    case 3
    with DecidePermit_pool [of new_id ops prof pool active now d] D obtain q pm where q: "pool = Some q" "pd_Permit d = Some pm" by blast
    note L = permit_pool_None [of c prof q active] P q(1) 3(2)
    from 3 q known obtain c1 x s1 where W: "InsertPermit c pm = Inr c1"
      "write_transition ops (''permit:'' @ pm_ID pm) now (permit_granted d) id (c_db c1) = Inr (x, s1)" "c' = c1\<lparr>c_db := s1\<rparr>"
      by (auto simp: chk_Inr_iff)
    show thesis
      by (rule that(3) [OF O(1) _ _ 3(1) q(2) W(1) _ W(3), of prof q])
        (use L D W(2) write_frames(2) [OF W(1)] in auto)
  qed
qed

lemma RequestExecutionPermitOnce_quiet:
  assumes "RequestExecutionPermitOnce ps new_id now cmd operationID c = Inr (r, c')"
  shows "quiet (c_db c) (c_db c')"
  using assms
proof (cases rule: RequestExecutionPermitOnce_Inr)
  case (2 ops prof pool active hold d t x s1)
  show ?thesis using quiet_write [OF 2(5,1) op_change.PermitQueued [OF 2(2-4)]] by (simp add: 2(6))
next
  case (3 ops prof pool d p c1 t x s1)
  show ?thesis using quiet_write [OF 3(7,1) op_change.PermitGranted [OF 3(3,4)]] by (simp add: 3(8))
qed simp

lemma Generations_RecordLease_quiet:
  assumes "Generations_RecordLease ps now cmd operationID occurrence state leaseID fence expiresAt c = Inr (r, c')"
  shows "quiet (c_db c) (c_db c')"
proof -
  from assms obtain ops o' changed where O: "lookup_by op_ID operationID (db_operations (c_db c)) = Some ops"
    "RecordLease ops occurrence state leaseID fence expiresAt = Inr (o', changed)"
    by (auto simp: Generations_RecordLease_def LockOperation_def Let_def fallible split: if_splits)
  show ?thesis
  proof (cases changed)
    case True
    with assms O obtain x s1 where W: "write_transition ops (''lease:'' @ cmd_CommandID cmd) now
        (lease_recorded occurrence state leaseID fence expiresAt) id (c_db c) = Inr (x, s1)" "c' = c\<lparr>c_db := s1\<rparr>"
      by (auto simp: Generations_RecordLease_def LockOperation_def Let_def fallible split: if_splits)
    from quiet_write [OF W(1) O(1) op_change.RecordLease_changed] O(2) True show ?thesis by (simp add: W(2))
  next
    case False
    with assms O have "c' = c" by (auto simp: Generations_RecordLease_def LockOperation_def Let_def fallible split: if_splits)
    then show ?thesis by simp
  qed
qed

lemma RecordCommandRelay_quiet:
  assumes "RecordCommandRelay now tenantID commandID out reason c = Inr (r, c')"
  shows "quiet (c_db c) (c_db c')"
proof -
  from assms obtain peek ops where O: "GetCommand c tenantID commandID = Inr peek" "lookup_by op_ID (cm_OperationID peek) (db_operations (c_db c)) = Some ops"
    by (auto simp: RecordCommandRelay_def LockOperation_def fallible)
  show ?thesis
  proof (cases "cm_Outcome peek = OutcomePending")
    case True
    with assms O obtain x s1 where out: "out \<noteq> OutcomePending" and W: "write_transition ops
         (''cmd:'' @ commandID @ '':'' @ command_outcome_string (relay_outcome ops out)) now
         (\<lambda>x. ApplyControl x (cm_Kind peek) (relay_outcome ops out) (cm_TargetDefinitionActivation peek)) id (c_db c) = Inr (x, s1)" "c_db c' = s1"
      by (auto simp: RecordCommandRelay_def LockOperation_def Let_def chk_Inr_iff split: if_splits)
    from quiet_write [OF W(1) O(2) op_change.RecordCommandRelay [OF out]] show ?thesis by (simp add: W(2))
  next
    case False
    then show ?thesis using assms O by (auto simp: RecordCommandRelay_def LockOperation_def)
  qed
qed

end
