(* ===== verification/Control_Plane.thy ===== *)
theory Control_Plane
  imports Control_Run Service_Run
begin

text \<open>
  The control plane as one transition system over one database: a step is one committed transaction
  of a service. Its invariants relate the rows of an operation: the event log to the row it
  describes, and attempts, launches, instances and accepted stages to each other.
\<close>


section \<open>The dispatch and finance services\<close>

lemma control_rows_eq:
  assumes "control_rows s' = control_rows s"
  shows "db_operations s' = db_operations s" "db_events s' = db_events s" "db_attempts s' = db_attempts s" "db_launches s' = db_launches s"
    "db_instances s' = db_instances s" "db_stages s' = db_stages s" "exec_rows s' = exec_rows s"
  using assms by (simp_all add: control_rows_def exec_rows_def)

lemma settleFinance_quiet:
  assumes "settleFinance ops d settled now s0 = Inr s'" and "lookup_by op_ID i (db_operations s) = Some ops" and "control_rows s0 = control_rows s"
  shows "quiet s s'"
proof -
  note rows = control_rows_eq [OF assms(3)]
  consider "s' = s0" | t f o1 ev where "op_change ops f" "Transition ops t now f = (o1, ev)" "InsertEvent (UpdateOperation s0 o1) ev = Inr s'"
    using assms(1) op_change.ExposureUnknown [of ops] op_change.ExposureSettled [of ops]
    by (auto simp: settleFinance_def split: if_splits prod.splits)
  then show ?thesis
  proof cases
    case (2 t f o1 ev)
    from quiet_insert [OF 2(3,2,1) assms(2) rows(1,2,7)] show ?thesis .
  qed (simp add: quiet_rest rows)
qed

lemma meter_rows: "meter p obs_id cost_id d now b s = Inr (b', s') \<Longrightarrow> control_rows s' = control_rows s"
  by (auto simp: meter_def fallible Let_def split: if_splits)

lemma Observe_quiet:
  assumes "Observe sv now obs_id cost_id rdr dispatchID src sq out usg nativeRef observedAt s = Inr (r, s')"
  shows "quiet s s'"
proof -
  from assms obtain d0 p ops where O: "lookup_by d_ID dispatchID (db_dispatches s) = Some d0" "sv_PriceByRevision sv (d_MeterRevision d0) = Some p"
    "lookup_by op_ID (d_OperationID d0) (db_operations s) = Some ops" "sees rdr d0"
    by (auto simp: Observe_def LockDispatch_def LockOperation_def Let_def fallible split: if_splits option.splits)
  show ?thesis
  proof (cases "GetUsageObservation s dispatchID src sq")
    case (Some x)
    then show ?thesis using assms O by (auto simp: Observe_def LockDispatch_def LockOperation_def Let_def)
  next
    case None
    with assms O obtain d settled s1 b1 s2 b2 where
      1: "InsertUsageObservation s \<lparr>uo_ID = obs_id, uo_DispatchID = d_ID d, uo_Source = src, uo_Sequence = sq,
         uo_NativeReference = nativeRef, uo_Usage = usg, uo_CostRevision = p_Revision p, uo_ObservedAt = observedAt\<rparr> = Inr s1"
      "meter p obs_id cost_id d now (lockBudget s (d_OperationID d0)) s1 = Inr (b1, s2)"
      "settleFinance ops d settled now (UpdateDispatch (budget_save s2 b2) d) = Inr s'"
      by (auto simp: Observe_def LockDispatch_def LockOperation_def Let_def chk_Inr_iff split: if_splits)
    show ?thesis
      by (rule settleFinance_quiet [OF 1(3) O(3)]) (simp add: meter_rows [OF 1(2)] InsertUsageObservation_Inr [OF 1(1)])
  qed
qed

lemma ConfirmNotSentLocked_quiet:
  assumes "ConfirmNotSentLocked operationID dispatchID evidenceRef guard now s = Inr (r, s')"
  shows "quiet s s'"
proof -
  from assms obtain ops d0 where O: "lookup_by op_ID operationID (db_operations s) = Some ops" "lookup_by d_ID dispatchID (db_dispatches s) = Some d0"
    "guard ops = None"
    by (auto simp: ConfirmNotSentLocked_def LockDispatch_def LockOperation_def Let_def fallible split: if_splits)
  show ?thesis
  proof (cases "d_State d0 = DispatchConfirmedNotSent")
    case True
    then show ?thesis using assms O
      by (auto simp: ConfirmNotSentLocked_def LockDispatch_def LockOperation_def Let_def fallible)
  next
    case False
    with assms O obtain d s1 where S: "settleFinance ops d True now (UpdateDispatch s1 d) = Inr s'" "control_rows s1 = control_rows s"
      by (auto simp: ConfirmNotSentLocked_def LockDispatch_def LockOperation_def Let_def chk_Inr_iff split: if_splits)
    show ?thesis by (rule settleFinance_quiet [OF S(1) O(1)]) (simp add: S(2))
  qed
qed

lemma ConfirmNotSent_quiet:
  "ConfirmNotSent verify cmd owner dispatchID evidenceRef evidenceDigest now s = Inr (r, s') \<Longrightarrow> quiet s s'"
  by (erule ConfirmNotSent_Inr) (auto intro: dest: ConfirmNotSentLocked_quiet)

lemma pools_rows:
  "control_rows (foldl UpdatePool s qs) = control_rows s" "control_rows (UpdatePool s p) = control_rows s"
  by (simp_all add: foldl_UpdatePool control_rows_def UpdatePool_def)

lemma Allocate_quiet:
  assumes "Allocate new_id now sc operationID amount s = Inr (r, s')"
  shows "quiet s s'"
proof -
  from assms obtain ops qs as fresh where O: "lookup_by op_ID operationID (db_operations s) = Some ops" "\<not> FencedForNewDispatch ops"
    and rest: "(case fresh of [] \<Rightarrow> Inr ((as, True), s) | a0 # _ \<Rightarrow>
             chk (insert_each (foldl UpdatePool s qs) fresh) (\<lambda>s1.
             let (o1, ev) = Transition ops (''allocation:'' @ al_ID a0) now (finance_moved FinanceFunded)
             in chk (InsertEvent (UpdateOperation s1 o1) ev) (\<lambda>s2. Inr ((as, False), s2)))) = Inr (r, s')"
    by (auto simp: Allocate_def LockOperation_def Let_def fallible split: if_splits)
  show ?thesis
  proof (cases fresh)
    case (Cons a0 rs)
    obtain o1 ev where T: "Transition ops (''allocation:'' @ al_ID a0) now (finance_moved FinanceFunded) = (o1, ev)" by fastforce
    with rest Cons obtain s1 where I: "insert_each (foldl UpdatePool s qs) fresh = Inr s1" "InsertEvent (UpdateOperation s1 o1) ev = Inr s'"
      by (auto simp: chk_Inr_iff)
    have "control_rows s1 = control_rows s" using insert_each_Inr [OF I(1)] pools_rows(1) [of s qs] by (simp add: control_rows_def)
    from quiet_insert [OF I(2) T op_change.Allocate [OF O(2)] O(1) control_rows_eq(1,2,7) [OF this]] show ?thesis .
  qed (use rest in \<open>simp add:\<close>)
qed

lemma return_each_rows: "return_each as pools now s = Inr s' \<Longrightarrow> control_rows s' = control_rows s"
proof (induction as pools now s rule: return_each.induct)
  case (2 a as pools now s)
  show ?case
  proof (cases "HasAllocationReturn s (al_ID a)")
    case False
    with 2(3) obtain unspent p p' s1 where R: "ReturnUnspent a = Inr unspent" "pools (al_PoolID a) = Some p" "Pool_Return p unspent = Inr p'"
      "InsertAllocationReturn (UpdatePool s p') a unspent now = Inr s1" "return_each as (pools(al_PoolID a \<mapsto> p')) now s1 = Inr s'"
      by (auto simp: chk_Inr_iff split: option.splits)
    have "control_rows s1 = control_rows s" using R(4) pools_rows(2) [of s p'] by (auto simp: InsertAllocationReturn_def control_rows_def split: if_splits)
    then show ?thesis using 2(2) [OF False R(2,5)] by simp
  qed (use 2 in simp)
qed simp

lemma SettleFinance_quiet:
  assumes "SettleFinance now operationID s = Inr (r, s')"
  shows "quiet s s'"
proof -
  obtain o1 dn where r: "r = (o1, dn)" by (cases r)
  from assms [unfolded r] show ?thesis
  proof (cases rule: SettleFinance_Inr)
    case (2 ops pools s1 ev)
    from quiet_append [OF 2(8) op_change.SettleFinance [OF 2(3)] 2(2) _ control_rows_eq(1,2,7) [OF return_each_rows [OF 2(7)]], of id]
    show ?thesis by (simp add: 2(9))
  qed simp
qed

lemma prepare_fresh_rows:
  "prepare_fresh sv now new_id cost_id authority tenantID req s = Inr ((d, go), s') \<Longrightarrow> control_rows s' = control_rows s"
  by (erule prepare_fresh_table) (simp_all add: InsertDispatch_Inr)

lemma admission_rows:
  "admit_prepare sv now new_id cost_id authority tenantID req s = Inr ((d, go), s') \<Longrightarrow> control_rows s' = control_rows s"
  "admit_consume sv now authority tenantID req d0 version s = Inr ((d1, ok), s') \<Longrightarrow> control_rows s' = control_rows s"
  "markInventoryUncertain dispatchID s = Inr s' \<Longrightarrow> control_rows s' = control_rows s"
proof -
  assume tx: "admit_prepare sv now new_id cost_id authority tenantID req s = Inr ((d, go), s')"
  show "control_rows s' = control_rows s"
  proof (cases "GetDispatchByCall s tenantID (rq_Owner req) (rq_CallID req)")
    case (Some x)
    then show ?thesis using tx by (auto simp: admit_prepare_def fallible)
  next
    case None
    then show ?thesis using tx by (simp add: admit_prepare_def prepare_fresh_rows)
  qed
next
  assume "admit_consume sv now authority tenantID req d0 version s = Inr ((d1, ok), s')"
  then show "control_rows s' = control_rows s" by (rule admit_consume_table) simp_all
next
  assume "markInventoryUncertain dispatchID s = Inr s'"
  then show "control_rows s' = control_rows s" by (auto simp: markInventoryUncertain_def fallible split: if_splits)
qed

section \<open>The transition system\<close>

text \<open>One rule per transaction. A transaction that fails commits nothing and is no step. Admissions,
  reports and operator commands of the ledger are the rules \<open>ledger\<close> (they leave the control rows
  alone: \<open>admission_rows\<close>), \<open>observe\<close>, \<open>confirm\<close> and \<open>finance\<close>; the services without a model of
  their own here (effects, preparation, relay, recovery) are the rule \<open>other\<close>: they move one
  operation row by a step of its life cycle, or restore one, and write its event.\<close>

inductive ctl_step :: "profiles \<Rightarrow> service \<Rightarrow> result_services \<Rightarrow> cdb \<Rightarrow> cdb \<Rightarrow> bool" for ps sv rs where
  create: "Create ps new_id now cmd sc kind sj intake c = Inr ((r, ex), c') \<Longrightarrow> ctl_step ps sv rs c c'"
| confirm_intake: "confirmIntake now operationID version c = Inr (r, c') \<Longrightarrow> ctl_step ps sv rs c c'"
| submit: "SubmitCommand ps now cmd sc operationID kind expected targetActivation c = Inr (r, c') \<Longrightarrow> ctl_step ps sv rs c c'"
| open_attempt: "OpenAttempt ps new_id now cmd operationID stepID visit profileID c = Inr (r, c') \<Longrightarrow> ctl_step ps sv rs c c'"
| prepare_launch: "PrepareLaunch new_id now cmd attemptID launchKey backend img deadline c = Inr (r, c') \<Longrightarrow> ctl_step ps sv rs c c'"
| confirm_launch: "confirmLaunch now l tenantID version c = Inr (r, c') \<Longrightarrow> ctl_step ps sv rs c c'"
| register: "RegisterInstance new_id now cmd attemptID launchKey backend jobUID podUID img c = Inr (r, c') \<Longrightarrow> ctl_step ps sv rs c c'"
| observe_instance: "ObserveInstance tenantID attemptID instanceID phase exitCode observedAt c = Inr (r, c') \<Longrightarrow> ctl_step ps sv rs c c'"
| accept_result: "AcceptResult rs new_id now cmd attemptID instanceID profileID vd failureCode resultDigest manifest observer observerEpoch c =
     Inr (r, c') \<Longrightarrow> ctl_step ps sv rs c c'"
| close_attempt: "CloseAttempt ps now cmd attemptID out cleanup failureCode c = Inr (r, c') \<Longrightarrow> ctl_step ps sv rs c c'"
| settle_intent: "SettleFromIntent ps now operationID c = Inr (r, c') \<Longrightarrow> ctl_step ps sv rs c c'"
| settle: "ExecSettleOperation ps now cmd operationID out failureCode phase c = Inr (r, c') \<Longrightarrow> ctl_step ps sv rs c c'"
| progress: "RecordAttemptProgress now cmd attemptID instanceID executionEpoch node state round outcomeCode c = Inr (r, c') \<Longrightarrow>
     ctl_step ps sv rs c c'"
| permit: "RequestExecutionPermitOnce ps new_id now cmd operationID c = Inr (r, c') \<Longrightarrow> ctl_step ps sv rs c c'"
| lease: "Generations_RecordLease ps now cmd operationID occurrence state leaseID fence expiresAt c = Inr (r, c') \<Longrightarrow> ctl_step ps sv rs c c'"
| fund: "RecordFunding_allocate fresh_id now ops amount c = Inr c' \<Longrightarrow> ctl_step ps sv rs c c'"
| funded: "RecordFunding_record now cmd ops amount c = Inr (r, c') \<Longrightarrow> ctl_step ps sv rs c c'"
| command_relay: "RecordCommandRelay now tenantID commandID out reason c = Inr (r, c') \<Longrightarrow> ctl_step ps sv rs c c'"
| mark_relay: "MarkCommandRelay tenantID commandID state c = Inr c' \<Longrightarrow> ctl_step ps sv rs c c'"
| preview: "Previews_Record now cmd operationID pr c = Inr (r, c') \<Longrightarrow> ctl_step ps sv rs c c'"
| release: "Releases_Record sha256 now cmd operationID rr c = Inr (r, c') \<Longrightarrow> ctl_step ps sv rs c c'"
| observe: "Observe sv now obs_id cost_id rdr dispatchID src sq out usg nativeRef observedAt (c_db c) = Inr (r, s') \<Longrightarrow>
     ctl_step ps sv rs c (c\<lparr>c_db := s'\<rparr>)"
| confirm: "ConfirmNotSent verify cmd owner dispatchID evidenceRef evidenceDigest now (c_db c) = Inr (r, s') \<Longrightarrow>
     ctl_step ps sv rs c (c\<lparr>c_db := s'\<rparr>)"
| finance: "SettleFinance now operationID (c_db c) = Inr (r, s') \<Longrightarrow> ctl_step ps sv rs c (c\<lparr>c_db := s'\<rparr>)"
| ledger: "control_rows s' = control_rows (c_db c) \<Longrightarrow> ctl_step ps sv rs c (c\<lparr>c_db := s'\<rparr>)"
| other: "quiet (c_db c) (c_db c') \<Longrightarrow> c_permits c' = c_permits c \<Longrightarrow> c_resource_pools c' = c_resource_pools c \<Longrightarrow> ctl_step ps sv rs c c'"

inductive ctl_run :: "profiles \<Rightarrow> service \<Rightarrow> result_services \<Rightarrow> cdb \<Rightarrow> cdb \<Rightarrow> bool" for ps sv rs where
  idle: "ctl_run ps sv rs c c"
| tick: "ctl_run ps sv rs c c1 \<Longrightarrow> ctl_step ps sv rs c1 c2 \<Longrightarrow> ctl_run ps sv rs c c2"

text \<open>A small calculus for what every committed outcome of a transaction satisfies: one rule per
  construct the transactions are written with.\<close>

definition ends :: "('c \<Rightarrow> bool) \<Rightarrow> err + ('r \<times> 'c) \<Rightarrow> bool" where
  "ends P m \<longleftrightarrow> (\<forall>r c'. m = Inr (r, c') \<longrightarrow> P c')"

lemma endsD: "ends P m \<Longrightarrow> m = Inr (r, c') \<Longrightarrow> P c'"
  by (simp add: ends_def)

lemma ends_rules:
  "ends P (Inl e)" "P c \<Longrightarrow> ends P (Inr (r, c))"
  "(\<And>x. m = Inr x \<Longrightarrow> ends P (k x)) \<Longrightarrow> ends P (chk m k)"
  "(e' = None \<Longrightarrow> ends P m') \<Longrightarrow> ends P (chk_err e' m')"
  "(b \<Longrightarrow> ends P x) \<Longrightarrow> (\<not> b \<Longrightarrow> ends P y) \<Longrightarrow> ends P (if b then x else y)"
  "(\<And>v w. z = (v, w) \<Longrightarrow> ends P (f v w)) \<Longrightarrow> ends P (case z of (v, w) \<Rightarrow> f v w)"
  "(u = None \<Longrightarrow> ends P n) \<Longrightarrow> (\<And>v. u = Some v \<Longrightarrow> ends P (g v)) \<Longrightarrow> ends P (case u of None \<Rightarrow> n | Some v \<Rightarrow> g v)"
  "(\<And>e. q = Inl e \<Longrightarrow> ends P (h e)) \<Longrightarrow> (\<And>v. q = Inr v \<Longrightarrow> ends P (j v)) \<Longrightarrow> ends P (case q of Inl e \<Rightarrow> h e | Inr v \<Rightarrow> j v)"
  "(\<And>v. v = t \<Longrightarrow> ends P (l v)) \<Longrightarrow> ends P (let v = t in l v)"
  "(\<And>v w. z' = (v, w) \<Longrightarrow> ends P (f' v w s)) \<Longrightarrow> ends P ((case z' of (v, w) \<Rightarrow> f' v w) s)"
  by (auto simp: ends_def chk_Inr_iff chk_err_Inr_iff split: prod.split option.split sum.split)

lemma projection_writes:
  "InsertPreview c p = Inr c' \<Longrightarrow> c_db c' = c_db c \<and> c_permits c' = c_permits c \<and> c_resource_pools c' = c_resource_pools c"
  "UpdatePreview c p rvn = (ok, c') \<Longrightarrow> c_db c' = c_db c \<and> c_permits c' = c_permits c \<and> c_resource_pools c' = c_resource_pools c"
  "InsertRelease c rl = Inr c' \<Longrightarrow> c_db c' = c_db c \<and> c_permits c' = c_permits c \<and> c_resource_pools c' = c_resource_pools c"
  "UpdateRelease c rl rvn = (ok, c') \<Longrightarrow> c_db c' = c_db c \<and> c_permits c' = c_permits c \<and> c_resource_pools c' = c_resource_pools c"
  "InsertFunding c f = Inr c' \<Longrightarrow> c_db c' = c_db c \<and> c_permits c' = c_permits c \<and> c_resource_pools c' = c_resource_pools c"
  by (auto simp: InsertPreview_def UpdatePreview_def InsertRelease_def UpdateRelease_def InsertFunding_def Let_def split: if_split_asm)

lemma projection_frame:
  "ends (\<lambda>c'. c_db c' = c_db c \<and> c_permits c' = c_permits c \<and> c_resource_pools c' = c_resource_pools c)
     (RecordFunding_record now cmd ops amount c)"
  "ends (\<lambda>c'. c_db c' = c_db c \<and> c_permits c' = c_permits c \<and> c_resource_pools c' = c_resource_pools c)
     (Previews_Record now cmd operationID pr c)"
  "ends (\<lambda>c'. c_db c' = c_db c \<and> c_permits c' = c_permits c \<and> c_resource_pools c' = c_resource_pools c)
     (Releases_Record sha256 now cmd operationID rr c)"
  unfolding RecordFunding_record_def Previews_Record_def Releases_Record_def
  by (intro ends_rules; (simp; fail)?; blast dest: projection_writes)+

lemma MarkCommandRelay_frame:
  "MarkCommandRelay tenantID commandID state c = Inr c' \<Longrightarrow>
     c_db c' = c_db c \<and> c_permits c' = c_permits c \<and> c_resource_pools c' = c_resource_pools c"
  by (auto simp: MarkCommandRelay_def UpdateCommand_def fallible split: if_splits)

lemma quiet_moves: "quiet s s' \<Longrightarrow> moves s s'"
  by (simp add: quiet_def)

lemmas step_moves = OpenAttempt_moves PrepareLaunch_moves confirmLaunch_moves RegisterInstance_moves ObserveInstance_moves
  AcceptResult_moves CloseAttempt_moves

lemmas step_quiet = Create_quiet confirmIntake_quiet SubmitCommand_quiet SettleFromIntent_quiet ExecSettleOperation_quiet
  RecordAttemptProgress_quiet RequestExecutionPermitOnce_quiet Generations_RecordLease_quiet RecordCommandRelay_quiet
  Observe_quiet ConfirmNotSent_quiet SettleFinance_quiet

lemma quiet_eq: "s' = s \<Longrightarrow> quiet s s'"
  by simp

lemma projection_quiet:
  "RecordFunding_record now cmd ops amount c = Inr (r, c') \<Longrightarrow> quiet (c_db c) (c_db c')"
  "MarkCommandRelay tenantID commandID state c = Inr c' \<Longrightarrow> quiet (c_db c) (c_db c')"
  "Previews_Record now cmd operationID pr c = Inr (r1, c') \<Longrightarrow> quiet (c_db c) (c_db c')"
  "Releases_Record sha256 now cmd operationID rr c = Inr (r2, c') \<Longrightarrow> quiet (c_db c) (c_db c')"
  "control_rows s' = control_rows s \<Longrightarrow> quiet s s'"
  by (blast intro: quiet_eq quiet_rest dest: control_rows_eq MarkCommandRelay_frame endsD [OF projection_frame(1)]
      endsD [OF projection_frame(2)] endsD [OF projection_frame(3)])+

lemma fund_quiet: "RecordFunding_allocate fresh_id now ops amount c = Inr c' \<Longrightarrow> quiet (c_db c) (c_db c')"
  by (auto simp: RecordFunding_allocate_def fallible dest: Allocate_quiet)

lemmas step_moves_all = step_moves step_quiet [THEN quiet_moves] projection_quiet [THEN quiet_moves] fund_quiet [THEN quiet_moves]
  quiet_moves

lemma ctl_step_moves: "ctl_step ps sv rs c c' \<Longrightarrow> moves (c_db c) (c_db c')"
  by (induction rule: ctl_step.induct) (simp?, erule step_moves_all)+

section \<open>The event log refines the life of the operations\<close>

definition events_of :: "string \<Rightarrow> db \<Rightarrow> event list" where
  "events_of i s = filter (\<lambda>e. ev_OperationID e = i) (db_events s)"

definition log_inv :: "db \<Rightarrow> bool" where
  "log_inv s \<longleftrightarrow> distinct (map op_ID (db_operations s)) \<and> ev_OperationID ` set (db_events s) \<subseteq> op_ID ` set (db_operations s) \<and>
     (\<forall>ops \<in> set (db_operations s). op_history (events_of (op_ID ops) s) ops)"

lemma op_step_ids:
  assumes "op_step ops e ops'"
  shows "op_ID ops' = op_ID ops \<and> ev_OperationID e = op_ID ops"
  using assms
proof (cases rule: op_step.cases)
  case (step f transitionID now e0)
  from Transition_fields (1, 7) [OF step(2) op_change_frame [OF step(1)]] step(3) show ?thesis
    by (simp add: frame_def same_event_def)
qed

lemma log_inv_moves:
  assumes "moves s s'" and "log_inv s"
  shows "log_inv s'"
  using assms(1)
proof cases
  case rest
  then show ?thesis using assms(2) by (simp add: log_inv_def events_of_def)
next
  case (advance ops e ops')
  note ids = op_step_ids [OF advance(2)]
  have row: "ops \<in> set (db_operations s)" using lookup_by_SomeD [OF advance(1)] by simp
  have E: "events_of i s' = (if i = op_ID ops then events_of i s @ [e] else events_of i s)" for i
    by (auto simp: events_of_def advance(4) ids)
  show ?thesis unfolding log_inv_def
  proof (intro conjI ballI)
    show "distinct (map op_ID (db_operations s'))" using assms(2) by (simp add: advance(3) log_inv_def)
    show "ev_OperationID ` set (db_events s') \<subseteq> op_ID ` set (db_operations s')"
    proof -
      have "op_ID ` set (db_operations s') = op_ID ` set (db_operations s)" by (simp add: advance(3) flip: set_map)
      then show ?thesis using assms(2) row ids by (auto simp: advance(4) log_inv_def)
    qed
    fix x assume "x \<in> set (db_operations s')"
    then consider "x = ops'" | "x \<in> set (db_operations s)" "op_ID x \<noteq> op_ID ops"
      using ids by (auto simp: advance(3) update_by_def split: if_splits)
    then show "op_history (events_of (op_ID x) s') x"
    proof cases
      case 1
      then show ?thesis using assms(2) row ids by (auto simp: E log_inv_def intro: op_history.grown [OF _ advance(2)])
    qed (use assms(2) in \<open>simp add: E log_inv_def\<close>)
  qed
next
  case (born ops e)
  note F = op_born_fields [OF born(1)]
  have new: "op_ID ops \<notin> op_ID ` set (db_operations s)" using born(2) by (auto simp: lookup_by_def find_None_iff)
  have "ev_OperationID e' \<noteq> op_ID ops" if "e' \<in> set (db_events s)" for e' 
  proof
    assume "ev_OperationID e' = op_ID ops"
    then have "op_ID ops \<in> ev_OperationID ` set (db_events s)" using that by force
    then show False using assms(2) new by (auto simp: log_inv_def)
  qed
  then have none: "events_of (op_ID ops) s = []" by (simp add: events_of_def)
  show ?thesis using assms(2) new none F op_history.born [OF born(1)]
    by (auto simp: log_inv_def events_of_def born(3,4))
qed

text \<open>What every transaction keeps holds in every later database.\<close>

locale kept_by_transactions =
  fixes inv :: "cdb \<Rightarrow> bool"
  assumes kept: "ctl_step ps sv rs c c' \<Longrightarrow> inv c \<Longrightarrow> inv c'"
begin

lemma kept_run: "ctl_run ps sv rs c c' \<Longrightarrow> inv c \<Longrightarrow> inv c'"
  by (induction rule: ctl_run.induct) (auto intro: kept)

end

interpretation log_plane: kept_by_transactions "\<lambda>c. log_inv (c_db c)"
  by unfold_locales (blast intro: log_inv_moves ctl_step_moves)

lemmas ctl_run_log = log_plane.kept_run

end
