(* ===== verification/Execution_Plane.thy ===== *)
theory Execution_Plane
  imports Control_Plane
begin

text \<open>
  The execution rows of the control plane: which attempt, launch, physical instance and accepted
  stage belong together in every reachable database.
\<close>

section \<open>Attempts, launches, instances and results\<close>

definition launch_backed :: "db \<Rightarrow> launch \<Rightarrow> bool" where
  "launch_backed s l \<longleftrightarrow> (\<exists>a \<in> set (db_attempts s). at_ID a = ln_AttemptID l \<and> at_ExecutionEpoch a = ln_ExecutionEpoch l \<and>
     ln_Deadline l \<le> at_Deadline a)"

definition instance_backed :: "db \<Rightarrow> inst \<Rightarrow> bool" where
  "instance_backed s i \<longleftrightarrow> (\<exists>l \<in> set (db_launches s). ln_ID l = inst_LaunchID i \<and> ln_AttemptID l = inst_AttemptID i \<and>
     ln_Inventory l = InventoryConfirmed \<and> ln_ImageDigest l = inst_ImageDigest i)"

definition stage_backed :: "db \<Rightarrow> stage \<Rightarrow> bool" where
  "stage_backed s st \<longleftrightarrow> st_PhaseOrdinal st = 1 \<and>
     (\<exists>i \<in> set (db_instances s). inst_ID i = st_InstanceID st \<and> inst_AttemptID i = st_AttemptID st \<and> inst_Current i) \<and>
     (\<exists>a \<in> set (db_attempts s). at_ID a = st_AttemptID st \<and> at_AcceptedStageID a = st_ID st \<and> at_ExecutionEpoch a = st_ExecutionEpoch st \<and>
        st_AcceptedAt st \<le> at_Deadline a \<and> (at_State a = AttemptResultAccepted \<or> at_State a = AttemptClosed))"

definition one_current :: "inst list \<Rightarrow> bool" where
  "one_current is \<longleftrightarrow> distinct (map inst_AttemptID (filter inst_Current is))"

definition exec_inv :: "db \<Rightarrow> bool" where
  "exec_inv s \<longleftrightarrow> distinct (map at_ID (db_attempts s)) \<and> distinct (map ln_ID (db_launches s)) \<and> distinct (map inst_ID (db_instances s)) \<and>
     one_current (db_instances s) \<and> distinct (map st_AttemptID (db_stages s)) \<and> list_all (launch_backed s) (db_launches s) \<and>
     list_all (instance_backed s) (db_instances s) \<and> list_all (stage_backed s) (db_stages s)"

lemma exec_inv_frame: "exec_rows s' = exec_rows s \<Longrightarrow> exec_inv s \<Longrightarrow> exec_inv s'"
  by (simp add: exec_rows_def exec_inv_def launch_backed_def [abs_def] instance_backed_def [abs_def] stage_backed_def [abs_def])

lemma exec_inv_InsertAttempt:
  assumes "InsertAttempt s a = Inr s'" and "exec_inv s"
  shows "exec_inv s'"
proof -
  note s' = insert_frames(1) [OF assms(1)]
  have "at_ID a \<notin> at_ID ` set (db_attempts s)" using assms(1) by (auto simp: InsertAttempt_def list_ex_iff split: if_splits)
  then show ?thesis using assms(2)
    by (auto simp: s' exec_inv_def list_all_iff launch_backed_def instance_backed_def stage_backed_def)
qed

lemma exec_inv_InsertLaunch:
  assumes "InsertLaunch s l = Inr s'" and "exec_inv s" and "launch_backed s l"
  shows "exec_inv s'"
proof -
  note s' = insert_frames(2) [OF assms(1)]
  have "ln_ID l \<notin> ln_ID ` set (db_launches s)" using assms(1) by (auto simp: InsertLaunch_def list_ex_iff split: if_splits)
  then show ?thesis using assms(2,3)
    by (auto simp: s' exec_inv_def list_all_iff launch_backed_def instance_backed_def stage_backed_def)
qed

lemma exec_inv_InsertInstance:
  assumes "InsertInstance s i = Inr s'" and "exec_inv s" and "instance_backed s i"
  shows "exec_inv s'"
proof -
  note s' = insert_frames(3) [OF assms(1)]
  have "inst_ID i \<notin> inst_ID ` set (db_instances s)" and "inst_Current i \<Longrightarrow> inst_AttemptID i \<notin> inst_AttemptID ` set (filter inst_Current (db_instances s))"
    using assms(1) by (auto simp: InsertInstance_def list_ex_iff split: if_splits)
  then show ?thesis using assms(2,3)
    by (auto simp: s' exec_inv_def one_current_def list_all_iff launch_backed_def instance_backed_def stage_backed_def)
qed

text \<open>The rows an update finds are the same but for the columns it writes.\<close>

lemma exec_inv_confirm:
  assumes "exec_inv s" and "ln_Inventory l = InventoryConfirmed"
  shows "exec_inv (UpdateLaunchInventory s l)"
proof -
  define f where "f x = (if ln_ID x = ln_ID l
     then x\<lparr>ln_Inventory := ln_Inventory l, ln_InventoryVersion := ln_InventoryVersion l, ln_UpdatedAt := ln_UpdatedAt l\<rparr> else x)" for x :: launch
  have f [simp]: "ln_ID (f x) = ln_ID x" "ln_AttemptID (f x) = ln_AttemptID x" "ln_ExecutionEpoch (f x) = ln_ExecutionEpoch x"
      "ln_Deadline (f x) = ln_Deadline x" "ln_ImageDigest (f x) = ln_ImageDigest x"
      "ln_Inventory x = InventoryConfirmed \<Longrightarrow> ln_Inventory (f x) = InventoryConfirmed" for x
    using assms(2) by (simp_all add: f_def)
  have u: "UpdateLaunchInventory s l = s\<lparr>db_launches := map f (db_launches s)\<rparr>" by (simp add: UpdateLaunchInventory_def f_def [abs_def])
  have "instance_backed (UpdateLaunchInventory s l) i" if "instance_backed s i" for i
    using that f(6) by (fastforce simp: u instance_backed_def)
  then show ?thesis using assms(1) by (auto simp: u exec_inv_def list_all_iff launch_backed_def stage_backed_def comp_def)
qed

lemma exec_inv_observe:
  assumes "exec_inv s"
  shows "exec_inv (UpdateInstanceObservation s i)"
proof -
  define f where "f x = (if inst_ID x = inst_ID i
     then x\<lparr>inst_Phase := inst_Phase i, inst_ExitCode := inst_ExitCode i, inst_ObservedAt := inst_ObservedAt i\<rparr> else x)" for x :: inst
  have f [simp]: "inst_ID (f x) = inst_ID x" "inst_AttemptID (f x) = inst_AttemptID x" "inst_LaunchID (f x) = inst_LaunchID x"
      "inst_ImageDigest (f x) = inst_ImageDigest x" "inst_Current (f x) = inst_Current x" for x
    by (simp_all add: f_def)
  have "UpdateInstanceObservation s i = s\<lparr>db_instances := map f (db_instances s)\<rparr>" by (simp add: UpdateInstanceObservation_def f_def [abs_def])
  then show ?thesis using assms
    by (auto simp: exec_inv_def one_current_def list_all_iff launch_backed_def instance_backed_def stage_backed_def comp_def filter_map)
qed

text \<open>An attempt whose result is accepted keeps its stage and stays accepted or closed.\<close>

definition keeps_stage :: "db \<Rightarrow> attempt \<Rightarrow> bool" where
  "keeps_stage s a \<longleftrightarrow> (\<forall>st \<in> set (db_stages s). st_AttemptID st = at_ID a \<longrightarrow>
     at_AcceptedStageID a = st_ID st \<and> (at_State a = AttemptResultAccepted \<or> at_State a = AttemptClosed))"

lemma exec_inv_UpdateAttempt:
  assumes "exec_inv s" and "keeps_stage s a"
  shows "exec_inv (UpdateAttempt s a)"
proof -
  define f where "f x = (if at_ID x = at_ID a then attempt_columns a x else x)" for x
  have f [simp]: "at_ID (f x) = at_ID x" "at_ExecutionEpoch (f x) = at_ExecutionEpoch x" "at_Deadline (f x) = at_Deadline x" for x
    by (simp_all add: f_def attempt_columns_def)
  have g: "at_AcceptedStageID (f x) = st_ID st \<and> (at_State (f x) = AttemptResultAccepted \<or> at_State (f x) = AttemptClosed)"
    if "st \<in> set (db_stages s)" "at_ID x = st_AttemptID st" "at_AcceptedStageID x = st_ID st"
      "at_State x = AttemptResultAccepted \<or> at_State x = AttemptClosed" for x st
    using that assms(2) by (auto simp: f_def attempt_columns_def keeps_stage_def)
  have u: "UpdateAttempt s a = s\<lparr>db_attempts := map f (db_attempts s)\<rparr>" by (simp add: UpdateAttempt_def f_def [abs_def])
  have "stage_backed (UpdateAttempt s a) st" if "st \<in> set (db_stages s)" for st
    using assms(1) that g [OF that] by (fastforce simp: u exec_inv_def list_all_iff stage_backed_def)
  then show ?thesis using assms(1)
    by (auto simp: u exec_inv_def list_all_iff launch_backed_def instance_backed_def comp_def)
qed
lemma write_exec: "write_transition ops t now f bind s = Inr (x, s') \<Longrightarrow> exec_rows s' = exec_rows s"
  by (auto simp: write_transition_def Let_def fallible split: prod.splits)

lemma no_stage_keeps: "\<forall>st \<in> set (db_stages s). st_AttemptID st \<noteq> at_ID a \<Longrightarrow> keeps_stage s a"
  by (simp add: keeps_stage_def)

lemma attempt_row:
  assumes "exec_inv s" and "lookup_by at_ID attemptID (db_attempts s) = Some a" and "st \<in> set (db_stages s)" and "st_AttemptID st = at_ID a"
  shows "at_AcceptedStageID a = st_ID st" and "at_State a = AttemptResultAccepted \<or> at_State a = AttemptClosed"
    and "HasCurrentInstance s (at_ID a)"
proof -
  have a: "a \<in> set (db_attempts s)" using lookup_by_SomeD [OF assms(2)] by simp
  from assms(1,3,4) obtain b where b: "b \<in> set (db_attempts s)" "at_ID b = at_ID a" "at_AcceptedStageID b = st_ID st"
    "at_State b = AttemptResultAccepted \<or> at_State b = AttemptClosed"
    by (auto simp: exec_inv_def list_all_iff stage_backed_def)
  have "b = a" using assms(1) a b(1,2) by (auto simp: exec_inv_def distinct_map dest: inj_onD)
  with b show "at_AcceptedStageID a = st_ID st" "at_State a = AttemptResultAccepted \<or> at_State a = AttemptClosed" by auto
  have "stage_backed s st" using assms(1,3) by (simp add: exec_inv_def list_all_iff)
  then show "HasCurrentInstance s (at_ID a)" using assms(4) by (auto simp: stage_backed_def HasCurrentInstance_def list_ex_iff)
qed

lemma OpenAttempt_exec:
  assumes "OpenAttempt ps new_id now cmd operationID stepID visit profileID c = Inr (r, c')" and "exec_inv (c_db c)"
  shows "exec_inv (c_db c')"
  using assms(1)
proof (cases rule: OpenAttempt_Inr)
  case (2 ops a at s1 t x s2)
  from exec_inv_frame [OF write_exec [OF 2(6)] exec_inv_InsertAttempt [OF 2(5) assms(2)]] show ?thesis by (simp add: 2(7))
qed (use assms(2) in simp)

lemma NewLaunch_fields:
  "NewLaunch new_id ops at cmd launchKey backend img deadline now = Inr l \<Longrightarrow>
     ln_AttemptID l = at_ID at \<and> ln_ExecutionEpoch l = at_ExecutionEpoch at \<and> ln_Deadline l \<le> at_Deadline at \<and>
     (at_State at = AttemptOpen \<or> at_State at = AttemptLaunchPrepared)"
  by (auto simp: NewLaunch_def Let_def split: if_splits)

lemma PrepareLaunch_exec:
  assumes "PrepareLaunch new_id now cmd attemptID launchKey backend img deadline c = Inr (r, c')" and "exec_inv (c_db c)"
  shows "exec_inv (c_db c')"
  using assms(1)
proof (cases rule: PrepareLaunch_Inr)
  case (2 ops at at1 l s1 t x s2)
  note L = NewLaunch_fields [OF 2(3)]
  have a: "at \<in> set (db_attempts (c_db c))" using lookup_by_SomeD [OF 2(1)] by simp
  then have "launch_backed (c_db c) l" using L by (auto simp: launch_backed_def)
  then have 1: "exec_inv s1" by (rule exec_inv_InsertLaunch [OF 2(4) assms(2)])
  have "keeps_stage s1 at1"
    using attempt_row(2) [OF assms(2) 2(1)] L by (intro no_stage_keeps) (auto simp: insert_frames(2) [OF 2(4)] 2(5))
  from exec_inv_frame [OF write_exec [OF 2(6)] exec_inv_UpdateAttempt [OF 1 this]] show ?thesis by (simp add: 2(7))
qed (use assms(2) in simp)

lemma confirmLaunch_exec:
  assumes "confirmLaunch now l tenantID version c = Inr (r, c')" and "exec_inv (c_db c)"
  shows "exec_inv (c_db c')"
  using assms(1) by (cases rule: confirmLaunch_Inr) (use assms(2) in \<open>simp_all add: exec_inv_confirm\<close>)

lemma RegisterInstance_exec:
  assumes "RegisterInstance new_id now cmd attemptID launchKey backend jobUID podUID img c = Inr (r, c')" and "exec_inv (c_db c)"
  shows "exec_inv (c_db c')"
proof -
  have inserted: "exec_inv s1" if "GetLaunchByKey (c_db c) backend launchKey = Some l" "ln_Inventory l = InventoryConfirmed"
      "NewInstance new_id l jobUID podUID img b now = Inr i" "InsertInstance (c_db c) i = Inr s1" for l i s1 b
  proof (rule exec_inv_InsertInstance [OF that(4) assms(2)])
    have "l \<in> set (db_launches (c_db c))" using lookup_by_SomeD that(1) by (fastforce simp: GetLaunchByKey_def)
    then show "instance_backed (c_db c) i" using that(2,3) by (auto simp: instance_backed_def NewInstance_def split: if_splits)
  qed
  from assms(1) show ?thesis
  proof (cases rule: RegisterInstance_Inr)
    case (2 ops at l i s1)
    then show ?thesis using inserted [OF 2(3,5,6,7)] by simp
  next
    case (3 ops at at1 l i s1 t x s2)
    have "\<not> HasCurrentInstance (c_db c) (at_ID at)" using 3(6,8) by (auto simp: NewInstance_def split: if_splits)
    then have "keeps_stage s1 at1"
      using attempt_row(3) [OF assms(2) 3(1)] by (intro no_stage_keeps) (auto simp: insert_frames(3) [OF 3(7)] 3(10))
    from exec_inv_frame [OF write_exec [OF 3(11)] exec_inv_UpdateAttempt [OF inserted [OF 3(3,5,6,7)] this]] show ?thesis by (simp add: 3(12))
  qed (use assms(2) in simp)
qed

lemma ObserveInstance_exec:
  "ObserveInstance tenantID attemptID instanceID phase exitCode observedAt c = Inr (r, c') \<Longrightarrow> exec_inv (c_db c) \<Longrightarrow> exec_inv (c_db c')"
  by (erule ObserveInstance_Inr) (simp add: exec_inv_observe)

lemma AcceptStage_fields:
  "AcceptStage new_id ops at i cmd profileID vd failureCode resultDigest manifest observer observerEpoch now = Inr st \<Longrightarrow>
     inst_Current i \<and> inst_AttemptID i = at_ID at \<and> st_AttemptID st = at_ID at \<and> st_InstanceID st = inst_ID i \<and> st_PhaseOrdinal st = 1 \<and>
     st_ExecutionEpoch st = at_ExecutionEpoch at \<and> st_AcceptedAt st \<le> at_Deadline at"
  by (auto simp: AcceptStage_def split: if_splits)

text \<open>The stage and the attempt it settles are written together.\<close>

lemma exec_inv_accept:
  assumes inv: "exec_inv s" and ins: "InsertStage s st = Inr s1"
    and a: "a \<in> set (db_attempts s)" "st_AttemptID st = at_ID a" "st_ExecutionEpoch st = at_ExecutionEpoch a" "st_AcceptedAt st \<le> at_Deadline a"
    and i: "i \<in> set (db_instances s)" "inst_Current i" "inst_AttemptID i = at_ID a" "st_InstanceID st = inst_ID i" "st_PhaseOrdinal st = 1"
    and a1: "at_ID a1 = at_ID a" "at_AcceptedStageID a1 = st_ID st" "at_State a1 = AttemptResultAccepted"
  shows "exec_inv (UpdateAttempt s1 a1)"
proof -
  note s1 = insert_frames(4) [OF ins]
  have ord: "st_PhaseOrdinal x = 1" if "x \<in> set (db_stages s)" for x using that inv by (auto simp: exec_inv_def list_all_iff stage_backed_def)
  have none: "\<forall>x \<in> set (db_stages s). st_AttemptID x \<noteq> at_ID a1"
    using ins ord i(5) a(2) a1(1) by (auto simp: InsertStage_def list_ex_iff split: if_splits)
  note U = exec_inv_UpdateAttempt [OF inv no_stage_keeps [OF none]]
  have "UpdateAttempt s1 a1 = (UpdateAttempt s a1)\<lparr>db_stages := db_stages s @ [st]\<rparr>" by (simp add: s1 UpdateAttempt_def)
  moreover have "attempt_columns a1 a \<in> set (db_attempts (UpdateAttempt s a1))" using a(1) a1(1) by (force simp: UpdateAttempt_def)
  then have "stage_backed (UpdateAttempt s a1) st"
    using i a a1 unfolding stage_backed_def by (intro conjI bexI [of _ i] bexI [of _ "attempt_columns a1 a"])
      (auto simp: attempt_columns_def UpdateAttempt_def)
  moreover have "st_AttemptID st \<notin> st_AttemptID ` set (db_stages s)" using none a(2) a1(1) by auto
  ultimately show ?thesis using U
    by (auto simp: exec_inv_def list_all_iff launch_backed_def instance_backed_def stage_backed_def UpdateAttempt_def)
qed

lemma AcceptResult_exec:
  assumes "AcceptResult rs new_id now cmd attemptID instanceID profileID vd failureCode resultDigest manifest observer observerEpoch c = Inr (r, c')"
    and "exec_inv (c_db c)"
  shows "exec_inv (c_db c')"
  using assms(1)
proof (cases rule: AcceptResult_Inr)
  case (2 ops at at1 i st m prof bound s1 c1 t x s2)
  note F = AcceptStage_fields [OF 2(5)]
  have "exec_inv (UpdateAttempt s1 at1)"
    by (rule exec_inv_accept [OF assms(2) 2(8), of at i])
      (use F lookup_by_SomeD [OF 2(2)] lookup_by_SomeD [OF 2(4)] 2(10) in simp_all)
  from exec_inv_frame [OF write_exec [OF 2(11)] this] show ?thesis by (simp add: 2(12))
qed (use assms(2) in simp)

lemma CloseAttempt_exec:
  assumes "CloseAttempt ps now cmd attemptID out cleanup failureCode c = Inr (r, c')" and "exec_inv (c_db c)"
  shows "exec_inv (c_db c')"
  using assms(1)
proof (cases rule: CloseAttempt_Inr)
  case (2 ops at at1 st unresolved unknownAttempt t s1 o1 ev s2 c1 bind)
  have rows: "exec_rows s1 = exec_rows (c_db c)" using control_rows_eq(7) [OF deny_prepared_rows [OF 2(5)]] .
  have 1: "exec_inv s1" by (rule exec_inv_frame [OF rows assms(2)])
  have "at_ID at1 = at_ID at" "at_AcceptedStageID at1 = at_AcceptedStageID at" "at_State at1 = AttemptClosed"
    by (simp_all add: 2(6) SettleClose_def Let_def)
  then have "keeps_stage s1 at1"
    using attempt_row(1) [OF assms(2) 2(1)] rows by (auto simp: keeps_stage_def exec_rows_def)
  from exec_inv_UpdateAttempt [OF 1 this] have "exec_inv s2"
    by (rule exec_inv_frame [rotated]) (use 2(10) in \<open>simp add: fallible\<close>)
  then show ?thesis by (simp add: 2(11))
qed (use assms(2) in simp)

lemmas step_exec = OpenAttempt_exec PrepareLaunch_exec confirmLaunch_exec RegisterInstance_exec ObserveInstance_exec
  AcceptResult_exec CloseAttempt_exec

lemma quiet_exec: "quiet s s' \<Longrightarrow> exec_inv s \<Longrightarrow> exec_inv s'"
  unfolding quiet_def using exec_inv_frame by blast

lemmas step_exec_all = step_exec step_quiet [THEN quiet_exec] projection_quiet [THEN quiet_exec] fund_quiet [THEN quiet_exec] quiet_exec

lemma ctl_step_exec: "ctl_step ps sv rs c c' \<Longrightarrow> exec_inv (c_db c) \<Longrightarrow> exec_inv (c_db c')"
  by (induction rule: ctl_step.induct) (simp?, erule (1) step_exec_all)+

interpretation exec_plane: kept_by_transactions "\<lambda>c. exec_inv (c_db c)"
  by unfold_locales (rule ctl_step_exec)

lemmas ctl_run_exec = exec_plane.kept_run

section \<open>After a cancel\<close>

definition attempts_of :: "string \<Rightarrow> db \<Rightarrow> string list" where
  "attempts_of i s = map at_ID (filter (\<lambda>a. at_OperationID a = i) (db_attempts s))"

definition launches_of :: "string \<Rightarrow> db \<Rightarrow> string list" where
  "launches_of i s = map ln_ID (filter (\<lambda>l. ln_OperationID l = i) (db_launches s))"

text \<open>What a transaction may add to the work of operation \<open>i\<close>: something only while its row is not fenced.\<close>

definition starts :: "string \<Rightarrow> db \<Rightarrow> db \<Rightarrow> bool" where
  "starts i s s' \<longleftrightarrow> attempts_of i s' = attempts_of i s \<and> launches_of i s' = launches_of i s \<or>
     (\<exists>ops \<in> set (db_operations s). op_ID ops = i \<and> \<not> FencedForNewDispatch ops)"

lemma starts_same: "exec_rows s' = exec_rows s \<Longrightarrow> starts i s s'"
  by (simp add: starts_def attempts_of_def launches_of_def exec_rows_def)

lemma work_frames:
  "exec_rows s' = exec_rows s \<Longrightarrow> attempts_of i s' = attempts_of i s" "exec_rows s' = exec_rows s \<Longrightarrow> launches_of i s' = launches_of i s"
  by (simp_all add: attempts_of_def launches_of_def exec_rows_def)

lemma UpdateAttempt_work [simp]: "attempts_of i (UpdateAttempt s a) = attempts_of i s" "launches_of i (UpdateAttempt s a) = launches_of i s"
proof -
  have "map at_ID (filter (\<lambda>a. at_OperationID a = i) (map (\<lambda>x. if at_ID x = at_ID a then attempt_columns a x else x) xs)) =
      map at_ID (filter (\<lambda>a. at_OperationID a = i) xs)" for xs
    by (induction xs) (auto simp: attempt_columns_def)
  then show "attempts_of i (UpdateAttempt s a) = attempts_of i s" by (simp add: attempts_of_def UpdateAttempt_def)
qed (simp add: launches_of_def UpdateAttempt_def)

lemma UpdateLaunch_work [simp]: "launches_of i (UpdateLaunchInventory s l) = launches_of i s"
proof -
  have "map ln_ID (filter (\<lambda>a. ln_OperationID a = i) (map (\<lambda>x. if ln_ID x = ln_ID l
         then x\<lparr>ln_Inventory := ln_Inventory l, ln_InventoryVersion := ln_InventoryVersion l, ln_UpdatedAt := ln_UpdatedAt l\<rparr> else x) xs)) =
      map ln_ID (filter (\<lambda>a. ln_OperationID a = i) xs)" for xs
    by (induction xs) auto
  then show ?thesis by (simp add: launches_of_def UpdateLaunchInventory_def)
qed

lemma insert_work [simp]:
  "attempts_of i (UpdateLaunchInventory s l) = attempts_of i s"
  "attempts_of i (UpdateInstanceObservation s x) = attempts_of i s" "launches_of i (UpdateInstanceObservation s x) = launches_of i s"
  "attempts_of i (s\<lparr>db_instances := is\<rparr>) = attempts_of i s" "launches_of i (s\<lparr>db_instances := is\<rparr>) = launches_of i s"
  "attempts_of i (s\<lparr>db_stages := sts\<rparr>) = attempts_of i s" "launches_of i (s\<lparr>db_stages := sts\<rparr>) = launches_of i s"
  "launches_of i (s\<lparr>db_attempts := db_attempts s @ [a]\<rparr>) = launches_of i s"
  "attempts_of i (s\<lparr>db_attempts := db_attempts s @ [a]\<rparr>) = (if at_OperationID a = i then attempts_of i s @ [at_ID a] else attempts_of i s)"
  "attempts_of i (s\<lparr>db_launches := db_launches s @ [l]\<rparr>) = attempts_of i s"
  "launches_of i (s\<lparr>db_launches := db_launches s @ [l]\<rparr>) = (if ln_OperationID l = i then launches_of i s @ [ln_ID l] else launches_of i s)"
  by (simp_all add: attempts_of_def launches_of_def UpdateLaunchInventory_def UpdateInstanceObservation_def)

lemma new_work_unfenced:
  "NewAttempt new_id ops cmd stepID visit ordinal profileID now = Inr a \<Longrightarrow> \<not> FencedForNewDispatch ops \<and> at_OperationID a = op_ID ops"
  "NewLaunch new_id ops at cmd launchKey backend img deadline now = Inr l \<Longrightarrow> \<not> FencedForNewDispatch ops \<and> ln_OperationID l = op_ID ops"
  by (auto simp: NewAttempt_def NewLaunch_def Let_def split: if_splits)

lemma attempt_window_OperationID [simp]: "at_OperationID (attempt_window ps now ops a) = at_OperationID a"
  by (simp add: attempt_window_def split: option.split)

lemma OpenAttempt_starts:
  assumes "OpenAttempt ps new_id now cmd operationID stepID visit profileID c = Inr (r, c')"
  shows "starts i (c_db c) (c_db c')"
  using assms
proof (cases rule: OpenAttempt_Inr)
  case (2 ops a at s1 t x s2)
  note W = work_frames [OF write_exec [OF 2(6)], of i] insert_frames(1) [OF 2(5)] and N = new_work_unfenced(1) [OF 2(2)]
  show ?thesis using N lookup_by_SomeD [OF 2(1)] by (auto simp: starts_def 2(4,7) W)
qed (simp add: starts_same)

lemma PrepareLaunch_starts:
  assumes "PrepareLaunch new_id now cmd attemptID launchKey backend img deadline c = Inr (r, c')"
  shows "starts i (c_db c) (c_db c')"
  using assms
proof (cases rule: PrepareLaunch_Inr)
  case (2 ops at at1 l s1 t x s2)
  note W = work_frames [OF write_exec [OF 2(6)], of i] insert_frames(2) [OF 2(4)] and N = new_work_unfenced(2) [OF 2(3)]
  show ?thesis using N lookup_by_SomeD [OF 2(2)] by (auto simp: starts_def 2(7) W)
qed (simp add: starts_same)

lemma confirmLaunch_starts: "confirmLaunch now l tenantID version c = Inr (r, c') \<Longrightarrow> starts i (c_db c) (c_db c')"
  by (erule confirmLaunch_Inr) (simp_all add: starts_def)

lemma RegisterInstance_starts:
  assumes "RegisterInstance new_id now cmd attemptID launchKey backend jobUID podUID img c = Inr (r, c')"
  shows "starts i (c_db c) (c_db c')"
  using assms
proof (cases rule: RegisterInstance_Inr)
  case (2 ops at l ins s1)
  then show ?thesis by (simp add: starts_def insert_frames(3) [OF 2(7)])
next
  case (3 ops at at1 l ins s1 t x s2)
  then show ?thesis by (simp add: starts_def work_frames [OF write_exec [OF 3(11)]] insert_frames(3) [OF 3(7)])
qed (simp add: starts_same)

lemma ObserveInstance_starts:
  "ObserveInstance tenantID attemptID instanceID phase exitCode observedAt c = Inr (r, c') \<Longrightarrow> starts i (c_db c) (c_db c')"
  by (erule ObserveInstance_Inr) (simp add: starts_def)

lemma AcceptResult_starts:
  assumes "AcceptResult rs new_id now cmd attemptID instanceID profileID vd failureCode resultDigest manifest observer observerEpoch c = Inr (r, c')"
  shows "starts i (c_db c) (c_db c')"
  using assms
proof (cases rule: AcceptResult_Inr)
  case (2 ops at at1 ins st m prof bound s1 c1 t x s2)
  then show ?thesis by (simp add: starts_def work_frames [OF write_exec [OF 2(11)]] insert_frames(4) [OF 2(8)])
qed (simp add: starts_same)

lemma CloseAttempt_starts:
  assumes "CloseAttempt ps now cmd attemptID out cleanup failureCode c = Inr (r, c')"
  shows "starts i (c_db c) (c_db c')"
  using assms
proof (cases rule: CloseAttempt_Inr)
  case (2 ops at at1 st unresolved unknownAttempt t s1 o1 ev s2 c1 bind)
  have "exec_rows s1 = exec_rows (c_db c)" using control_rows_eq(7) [OF deny_prepared_rows [OF 2(5)]] .
  note A = work_frames [OF this, of i]
  have "exec_rows s2 = exec_rows (UpdateAttempt s1 at1)" using 2(10) by (simp add: fallible)
  note B = work_frames [OF this, of i]
  show ?thesis by (simp add: starts_def 2(11) A B)
qed (simp add: starts_same)

lemmas step_starts = OpenAttempt_starts PrepareLaunch_starts confirmLaunch_starts RegisterInstance_starts ObserveInstance_starts
  AcceptResult_starts CloseAttempt_starts

lemma quiet_starts: "quiet s s' \<Longrightarrow> starts i s s'"
  by (simp add: quiet_def starts_same)

lemmas step_starts_all = step_starts step_quiet [THEN quiet_starts] projection_quiet [THEN quiet_starts] fund_quiet [THEN quiet_starts]
  quiet_starts

lemma ctl_step_starts: "ctl_step ps sv rs c c' \<Longrightarrow> starts i (c_db c) (c_db c')"
  by (induction rule: ctl_step.induct) (simp?, erule step_starts_all)+

text \<open>The row of a canceled operation stays, and stays canceled.\<close>

lemma moves_row:
  assumes "moves s s'" and "lookup_by op_ID i (db_operations s) = Some ops"
  shows "\<exists>ops'. lookup_by op_ID i (db_operations s') = Some ops' \<and> (ops' = ops \<or> (\<exists>e. op_step ops e ops'))"
  using assms(1)
proof cases
  case rest
  then show ?thesis using assms(2) by simp
next
  case (advance o1 e o2)
  note ids = op_step_ids [OF advance(2)]
  have "op_ID o2 \<in> op_ID ` set (db_operations s)" using lookup_by_SomeD [OF advance(1)] ids by force
  then show ?thesis using assms(2) advance(1,2) ids by (auto simp: advance(3) lookup_update_by)
next
  case (born o1 e)
  then show ?thesis using assms(2) by (auto simp: lookup_by_append)
qed

lemma canceled_stays:
  assumes "ctl_run ps sv rs c c'" and "log_inv (c_db c)" and "lookup_by op_ID i (db_operations (c_db c)) = Some ops" and "cancel_requested ops"
  shows "\<exists>ops'. lookup_by op_ID i (db_operations (c_db c')) = Some ops' \<and> control_inv ops' \<and> cancel_requested ops' \<and>
    attempts_of i (c_db c') = attempts_of i (c_db c) \<and> launches_of i (c_db c') = launches_of i (c_db c)"
  using assms
proof (induction rule: ctl_run.induct)
  case (idle c)
  then have "op_history (events_of (op_ID ops) (c_db c)) ops" using lookup_by_SomeD [OF idle(2)] by (auto simp: log_inv_def)
  then show ?case using idle control_inv_history by blast
next
  case (tick c c1 c2)
  from tick.IH [OF tick.prems] obtain o1 where o1: "lookup_by op_ID i (db_operations (c_db c1)) = Some o1" "control_inv o1" "cancel_requested o1"
    "attempts_of i (c_db c1) = attempts_of i (c_db c)" "launches_of i (c_db c1) = launches_of i (c_db c)" by blast
  from moves_row [OF ctl_step_moves [OF tick.hyps(2)] o1(1)] obtain o2 where
    o2: "lookup_by op_ID i (db_operations (c_db c2)) = Some o2" "control_inv o2" "cancel_requested o2"
    using o1(2,3) op_step_control_inv by blast
  have "distinct (map op_ID (db_operations (c_db c1)))" using ctl_run_log [OF tick.hyps(1) tick.prems(1)] by (simp add: log_inv_def)
  then have "x = o1" if "x \<in> set (db_operations (c_db c1))" "op_ID x = i" for x
    using that o1(1) lookup_by_SomeD [OF o1(1)] by (auto simp: distinct_map dest: inj_onD)
  then have "attempts_of i (c_db c2) = attempts_of i (c_db c1) \<and> launches_of i (c_db c2) = launches_of i (c_db c1)"
    using ctl_step_starts [OF tick.hyps(2), of i] cancel_requested_fenced [OF o1(3)] by (auto simp: starts_def)
  then show ?case using o1(4,5) o2 by auto
qed

end
