(* ===== verification/Capacity.thy ===== *)
theory Capacity
  imports Execution_Plane
begin

text \<open>
  Execution permits of the generation service: a pool never holds more active permits than its
  capacity less the reserve, an operation holds at most one per pool, and a permit is released only
  once nothing of its operation is still running or unresolved.
\<close>

section \<open>How a transaction moves the permits\<close>

text \<open>Nothing of an operation runs or is unresolved any more.\<close>

definition settled_down :: "db \<Rightarrow> operation \<Rightarrow> bool" where
  "settled_down s ops \<longleftrightarrow> Lifecycle_Terminal (op_Lifecycle ops) \<and> \<not> HasOpenAttempt s (op_ID ops) \<and> \<not> unresolvedEffects s (op_ID ops) \<and>
     \<not> HasUnknownAttempt s (op_ID ops) [] \<and> op_Cleanup ops \<noteq> CleanupUnknown \<and> op_Finance ops \<noteq> FinanceExposureUnknown"

definition releases :: "cdb \<Rightarrow> cdb \<Rightarrow> bool" where
  "releases c c' \<longleftrightarrow> (\<exists>ops now evidence. c_permits c' = c_permits (ReleasePermits c ''operation'' (op_ID ops) now evidence) \<and>
     lookup_by op_ID (op_ID ops) (db_operations (c_db c')) = Some ops \<and> settled_down (c_db c') ops)"

definition grants :: "cdb \<Rightarrow> cdb \<Rightarrow> bool" where
  "grants c c' \<longleftrightarrow> (\<exists>pool p. c_permits c' = c_permits c @ [p] \<and> LockResourcePool c (rp_ID pool) = Some pool \<and> pm_PoolID p = rp_ID pool \<and>
     Pool_Available pool (CountActivePermits c (rp_ID pool)) \<and> (\<exists>c1. InsertPermit c p = Inr c1))"

definition permit_step :: "cdb \<Rightarrow> cdb \<Rightarrow> bool" where
  "permit_step c c' \<longleftrightarrow> c_resource_pools c' = c_resource_pools c \<and> (c_permits c' = c_permits c \<or> releases c c' \<or> grants c c')"

lemma permit_same: "c_resource_pools c' = c_resource_pools c \<Longrightarrow> c_permits c' = c_permits c \<Longrightarrow> permit_step c c'"
  by (simp add: permit_step_def)

text \<open>The rows \<open>settled_down\<close> reads, which writing an event leaves alone.\<close>

lemma settled_down_append [simp]: "settled_down (append_event s e) ops = settled_down s ops"
  by (simp add: settled_down_def append_event_def HasOpenAttempt_def unresolvedEffects_def HasUnresolvedEffect_def HasUnsettledDispatch_def
      HasUnknownAttempt_def)

lemma settleTerminal_permits:
  "c_resource_pools (settleTerminal ops now c) = c_resource_pools c"
  "c_permits (settleTerminal ops now c) = c_permits c \<or>
     settled_down (c_db c) ops \<and> (\<exists>ev. c_permits (settleTerminal ops now c) = c_permits (ReleasePermits c ''operation'' (op_ID ops) now ev))"
  by (auto simp: settleTerminal_def settled_down_def Let_def ReleasePermits_def SettlePendingCommands_def)

lemma settleTerminal_step:
  assumes "c_resource_pools c' = c_resource_pools c" and "c_permits c' = c_permits (settleTerminal ops now c1)"
    and "c_permits c1 = c_permits c" and "c_resource_pools c1 = c_resource_pools c"
    and "lookup_by op_ID (op_ID ops) (db_operations (c_db c')) = Some ops"
    and "settled_down (c_db c') ops = settled_down (c_db c1) ops"
  shows "permit_step c c'"
  using settleTerminal_permits(2) [of ops now c1] assms unfolding permit_step_def releases_def
  by (auto simp: ReleasePermits_def)

lemma Transition_ID: "Transition ops t now f = (o1, ev) \<Longrightarrow> op_change ops f \<Longrightarrow> op_ID o1 = op_ID ops"
  by (drule Transition_fields(1) [OF _ op_change_frame]) (simp_all add: frame_def)

lemma terminal_written:
  assumes "lookup_by op_ID i (db_operations (c_db c)) = Some ops" and "Transition ops t now f = (o1, ev)" and "op_change ops f"
    and "db_operations s0 = db_operations (c_db c)" and "InsertEvent (UpdateOperation s0 o1) ev' = Inr s2"
    and "c_db c' = s2" and "c_permits c' = c_permits (settleTerminal o1 now (c\<lparr>c_db := UpdateOperation s0 o1\<rparr>))"
    and "c_resource_pools c' = c_resource_pools c"
  shows "permit_step c c'"
proof (rule settleTerminal_step [OF assms(8,7)])
  have s2: "s2 = append_event (UpdateOperation s0 o1) ev'" using assms(5) by (simp add: fallible)
  have "op_ID o1 = op_ID ops" by (rule Transition_ID [OF assms(2,3)])
  then have "op_ID o1 = i" and "i \<in> op_ID ` set (db_operations (c_db c))" using lookup_by_SomeD [OF assms(1)] by force+
  then show "lookup_by op_ID (op_ID o1) (db_operations (c_db c')) = Some o1"
    using assms(1) by (simp add: assms(4,6) s2 append_event_def UpdateOperation_def lookup_update_by)
qed (use assms(5,6) in \<open>simp_all add: fallible\<close>)

lemma terminal_again:
  assumes "lookup_by op_ID i (db_operations (c_db c)) = Some ops"
  shows "permit_step c (settleTerminal ops now c)"
  by (rule settleTerminal_step [of _ c ops now c])
    (use lookup_by_SomeD [OF assms] assms in \<open>simp_all add: settleTerminal_permits(1)\<close>)

lemma write_frames_permits:
  "InsertCommand c m = Inr c' \<Longrightarrow> c_permits c' = c_permits c \<and> c_resource_pools c' = c_resource_pools c"
  "InsertOperationSettlement c si = Inr c' \<Longrightarrow> c_permits c' = c_permits c \<and> c_resource_pools c' = c_resource_pools c \<and> c_db c' = c_db c"
  "insert_artifacts stageID as c = Inr c' \<Longrightarrow> c_permits c' = c_permits c \<and> c_resource_pools c' = c_resource_pools c"
proof -
  show "insert_artifacts stageID as c = Inr c' \<Longrightarrow> c_permits c' = c_permits c \<and> c_resource_pools c' = c_resource_pools c"
    by (induction as arbitrary: c) (auto simp: fallible InsertStageArtifact_def split: if_splits)
qed (auto simp: InsertCommand_def InsertOperationSettlement_def split: if_splits)

lemma plain_permits:
  "ends (permit_step c) (confirmIntake now operationID version c)"
  "ends (permit_step c) (RecordAttemptProgress now cmd attemptID instanceID executionEpoch node state round outcomeCode c)"
  "ends (permit_step c) (Generations_RecordLease ps now cmd operationID occurrence lease leaseID fence expiresAt c)"
  "ends (permit_step c) (RecordCommandRelay now tenantID commandID out reason c)"
  unfolding confirmIntake_def RecordAttemptProgress_def Generations_RecordLease_def RecordCommandRelay_def
  by (intro ends_rules; simp add: permit_same UpdateCommand_def)+

lemma attempt_permits:
  "Create ps new_id now cmd sc kind sj intake c = Inr ((r1, ex), c') \<Longrightarrow> permit_step c c'"
  "OpenAttempt ps new_id now cmd operationID stepID visit profileID c = Inr (r3, c') \<Longrightarrow> permit_step c c'"
  "PrepareLaunch new_id now cmd attemptID launchKey backend img deadline c = Inr (r4, c') \<Longrightarrow> permit_step c c'"
  "confirmLaunch now l tenantID version c = Inr (r5, c') \<Longrightarrow> permit_step c c'"
  "RegisterInstance new_id now cmd attemptID launchKey backend jobUID podUID img c = Inr (r6, c') \<Longrightarrow> permit_step c c'"
  "ObserveInstance tenantID attemptID instanceID phase exitCode observedAt c = Inr (r7, c') \<Longrightarrow> permit_step c c'"
  by (rule permit_same; erule Create_Inr OpenAttempt_Inr PrepareLaunch_Inr confirmLaunch_Inr RegisterInstance_Inr ObserveInstance_Inr; simp)+

lemma AcceptResult_permits:
  assumes "AcceptResult rs new_id now cmd attemptID instanceID profileID vd failureCode resultDigest manifest observer observerEpoch c = Inr (r, c')"
  shows "permit_step c c'"
  using assms
proof (cases rule: AcceptResult_Inr)
  case (2 ops at at1 i st m prof bound s1 c1 t x s2)
  then show ?thesis using write_frames_permits(3) [OF 2(9)] by (simp add: permit_same)
qed (simp add: permit_same)

lemma CloseAttempt_permits:
  assumes "CloseAttempt ps now cmd attemptID out cleanup failureCode c = Inr (r, c')"
  shows "permit_step c c'"
  using assms
proof (cases rule: CloseAttempt_Inr)
  case (1 ops at)
  then show ?thesis
by (simp add: terminal_again)
next
  case (2 ops at at1 st unresolved unknownAttempt t s1 o1 ev s2 c1 bind)
  have ch: "op_change ops (attempt_closed at st out cleanup failureCode (multiStep ps ops) unresolved unknownAttempt)"
    using op_change.CloseAttempt [OF 2(4,3), of st failureCode "undefined\<lparr>pf_MultiStep := multiStep ps ops\<rparr>"] by simp
  show ?thesis
    by (rule terminal_written [OF 2(2,7) ch _ 2(10)])
      (simp_all add: 2(9,11) settleTerminal_permits(1) deny_prepared_frame [OF 2(5)])
qed

lemma SettleFromIntent_permits:
  assumes "SettleFromIntent ps now operationID c = Inr (r, c')"
  shows "permit_step c c'"
  using assms
proof (cases rule: SettleFromIntent_Inr)
  case (2 ops out failureCode phase o' t o1 ev s2)
  have "op_change ops (settlement_applied out failureCode phase)"
    using 2(5) by (intro op_change.SettleOperation_applied) (simp_all add: 2(2) Lifecycle_Terminal_def)
  then show ?thesis
    by (rule terminal_written [OF 2(1,6) _ _ 2(7)]) (simp_all add: 2(8) settleTerminal_permits(1))
qed (simp add: permit_same)


lemma ends_plan:
  "(p = SettleExisting \<Longrightarrow> ends P m) \<Longrightarrow> (\<And>b. p = SettleRecord b \<Longrightarrow> ends P (k b)) \<Longrightarrow>
     ends P (case p of SettleExisting \<Rightarrow> m | SettleRecord b \<Rightarrow> k b)"
  by (cases p) simp_all

lemma ExecSettleOperation_permits: "ends (permit_step c) (ExecSettleOperation ps now cmd operationID out failureCode phase c)"
proof -
  have leaf: "permit_step c (c2\<lparr>c_db := s2\<rparr>)"
    if "lookup_by op_ID operationID (db_operations (c_db c)) = Some ops" "Transition ops t now f = (o1, ev)" "op_change ops f"
      "(if b then InsertOperationSettlement (settleTerminal o1 now (c\<lparr>c_db := UpdateOperation (c_db c) o1\<rparr>)) si
        else Inr (settleTerminal o1 now (c\<lparr>c_db := UpdateOperation (c_db c) o1\<rparr>))) = Inr c2" "InsertEvent (c_db c2) ev = Inr s2"
    for ops t f o1 ev b si c2 s2
  proof -
    have c2: "c_permits c2 = c_permits (settleTerminal o1 now (c\<lparr>c_db := UpdateOperation (c_db c) o1\<rparr>)) \<and>
        c_resource_pools c2 = c_resource_pools c \<and> c_db c2 = UpdateOperation (c_db c) o1"
      using that(4) by (auto split: if_splits dest!: write_frames_permits(2) simp: settleTerminal_permits(1))
    show ?thesis
      by (rule terminal_written [OF that(1-3) _ that(5) [unfolded conjunct2 [OF conjunct2 [OF c2]]]]) (simp_all add: c2)
  qed
  show ?thesis unfolding ExecSettleOperation_def Let_def
  proof (intro ends_rules ends_plan, goal_cases)
    case (1 ops)
    then show ?case by (simp add: terminal_again LockOperation_def found_Inr_iff)
  next
    case (3 ops unresolved unknownAttempt plan ins x o1 ev c2 s2)
    have "\<exists>t f. op_change ops f \<and> Transition ops t now f = (o1, ev)"
    proof (cases unresolved)
      case True
      then show ?thesis using 3(4,10) op_change.SettleOperation_pending [of ops unknownAttempt phase] by auto
    next
      case False
      then show ?thesis using 3(4,9,10) op_change.SettleOperation_applied [of ops out failureCode phase] by auto
    qed
    then obtain t f where "op_change ops f" "Transition ops t now f = (o1, ev)" by blast
    then show ?case using 3 leaf [of ops t f o1 ev] by (simp add: LockOperation_def found_Inr_iff)
  qed (simp add: permit_same)
qed

lemma SubmitCommand_permits: "ends (permit_step c) (SubmitCommand ps now cmd sc operationID kind expected targetActivation c)"
  unfolding SubmitCommand_def Let_def
proof (intro ends_rules, goal_cases)
  case (3 scoped ops d o1 ev s2 c2)
  note * = op_change.SubmitCommand_cancel [OF HOL.refl 3(6,7)]
  show ?case
    by (rule terminal_written [OF _ 3(8) * _ 3(9) [simplified]])
      (use 3 write_frames_permits(1) [OF 3(10)] write_frames(1) [OF 3(10)] in \<open>simp_all add: LockOperation_def found_Inr_iff settleTerminal_permits(1)\<close>)
qed (auto simp: permit_same dest!: write_frames_permits(1))

lemma RequestExecutionPermitOnce_permits:
  assumes "RequestExecutionPermitOnce ps new_id now cmd operationID c = Inr (r, c')"
  shows "permit_step c c'"
  using assms
proof (cases rule: RequestExecutionPermitOnce_Inr)
  case (3 ops prof pool d p c1 t x s1)
  have pid: "rp_ID pool = pf_QueuePool prof" using lookup_by_SomeD 3(2) by (fastforce simp: LockResourcePool_def)
  from DecidePermit_pool [OF 3(3)] 3(4,5) have "pm_PoolID p = rp_ID pool" "Pool_Available pool (CountActivePermits c (rp_ID pool))" by auto
  moreover have "c1 = c\<lparr>c_permits := c_permits c @ [p]\<rparr>" using 3(6) by (auto simp: InsertPermit_def split: if_splits)
  ultimately have "grants c c'" unfolding grants_def using 3(2,6,8) pid by (intro exI [of _ pool] exI [of _ p]) auto
  then show ?thesis using \<open>c1 = _\<close> by (simp add: permit_step_def 3(8))
qed (simp_all add: permit_same)

lemma projection_permits:
  "RecordFunding_record now cmd ops amount c = Inr (r, c') \<Longrightarrow> permit_step c c'"
  "MarkCommandRelay tenantID commandID state c = Inr c' \<Longrightarrow> permit_step c c'"
  "Previews_Record now cmd operationID pr c = Inr (r1, c') \<Longrightarrow> permit_step c c'"
  "Releases_Record sha256 now cmd operationID rr c = Inr (r2, c') \<Longrightarrow> permit_step c c'"
  "RecordFunding_allocate fresh_id now ops amount c = Inr c' \<Longrightarrow> permit_step c c'"
proof -
  show "RecordFunding_allocate fresh_id now ops amount c = Inr c' \<Longrightarrow> permit_step c c'"
    by (auto simp: RecordFunding_allocate_def fallible permit_same)
qed (blast intro: permit_same dest: MarkCommandRelay_frame endsD [OF projection_frame(1)] endsD [OF projection_frame(2)]
      endsD [OF projection_frame(3)])+

lemmas step_permits = attempt_permits AcceptResult_permits CloseAttempt_permits SettleFromIntent_permits
  plain_permits [THEN endsD] ExecSettleOperation_permits [THEN endsD] SubmitCommand_permits [THEN endsD]
  RequestExecutionPermitOnce_permits projection_permits

lemma permit_same_db [simp]: "permit_step c (c\<lparr>c_db := s\<rparr>)"
  by (simp add: permit_same)

lemma ctl_step_permits: "ctl_step ps sv rs c c' \<Longrightarrow> permit_step c c'"
  by (induction rule: ctl_step.induct) ((erule step_permits | simp add: permit_same))+

section \<open>The bound\<close>

text \<open>A pool as the schema holds it: two 32-bit columns, neither negative.\<close>

definition pool_columns_ok :: "resource_pool \<Rightarrow> bool" where
  "pool_columns_ok p \<longleftrightarrow> 0 \<le> rp_Capacity p \<and> rp_Capacity p < 2 ^ 31 \<and> 0 \<le> rp_ReservedControl p \<and> rp_ReservedControl p < 2 ^ 31"

definition within :: "cdb \<Rightarrow> bool" where
  "within c \<longleftrightarrow> (\<forall>i p. LockResourcePool c i = Some p \<longrightarrow> pool_columns_ok p \<and>
     CountActivePermits c i \<le> max 0 (rp_Capacity p - rp_ReservedControl p))"
definition one_permit :: "cdb \<Rightarrow> bool" where
  "one_permit c \<longleftrightarrow> distinct (map (\<lambda>p. (pm_PoolID p, pm_OwnerKind p, pm_OwnerID p)) (filter (\<lambda>p. pm_State p = PermitActive) (c_permits c)))"

lemma Pool_Available_bound:
  "pool_columns_ok p \<Longrightarrow> Pool_Available p n \<Longrightarrow> n < rp_Capacity p - rp_ReservedControl p"
  by (simp add: Pool_Available_def wrap32_def pool_columns_ok_def)

text \<open>A release only removes active permits.\<close>

lemma released_active:
  fixes k
  defines "active \<equiv> filter (\<lambda>p. pm_State p = PermitActive)"
  shows "\<exists>Q. map k (active (c_permits (ReleasePermits c kind owner now ev))) = map k (filter Q (active (c_permits c)))"
proof -
  have "active (map (\<lambda>p. if pm_OwnerKind p = kind \<and> pm_OwnerID p = owner \<and> pm_State p = PermitActive
      then p\<lparr>pm_State := PermitReleased, pm_ReleasedAt := Some now, pm_ReleaseEvidence := ev\<rparr> else p) ps) =
    filter (\<lambda>p. \<not> (pm_OwnerKind p = kind \<and> pm_OwnerID p = owner)) (active ps)" for ps
    unfolding active_def by (induction ps) auto
  then show ?thesis unfolding ReleasePermits_def by (intro exI [of _ "\<lambda>p. \<not> (pm_OwnerKind p = kind \<and> pm_OwnerID p = owner)"]) simp
qed

lemma count_released: "CountActivePermits (c\<lparr>c_permits := c_permits (ReleasePermits c kind owner now ev)\<rparr>) i \<le> CountActivePermits c i"
proof -
  have "length (filter (\<lambda>p. pm_PoolID p = i \<and> pm_State p = PermitActive) (map (\<lambda>p. if pm_OwnerKind p = kind \<and> pm_OwnerID p = owner \<and>
      pm_State p = PermitActive then p\<lparr>pm_State := PermitReleased, pm_ReleasedAt := Some now, pm_ReleaseEvidence := ev\<rparr> else p) ps)) \<le>
    length (filter (\<lambda>p. pm_PoolID p = i \<and> pm_State p = PermitActive) ps)" for ps
    by (induction ps) auto
  then show ?thesis by (simp add: CountActivePermits_def ReleasePermits_def)
qed

lemma permit_step_within:
  assumes "permit_step c c'" and "within c"
  shows "within c'"
proof -
  have pools: "LockResourcePool c' i = LockResourcePool c i" for i using assms(1) by (simp add: permit_step_def LockResourcePool_def)
  have count: "CountActivePermits c' i \<le> max 0 (rp_Capacity p - rp_ReservedControl p)"
    if p: "LockResourcePool c i = Some p" for i p
  proof -
    have bound: "CountActivePermits c i \<le> max 0 (rp_Capacity p - rp_ReservedControl p)" "pool_columns_ok p" using assms(2) p by (auto simp: within_def)
    consider "c_permits c' = c_permits c" | "releases c c'" | "grants c c'" using assms(1) by (auto simp: permit_step_def)
    then show ?thesis
    proof cases
      case 1
      then show ?thesis using bound by (simp add: CountActivePermits_def)
    next
      case 2
      then obtain ops :: operation and now ev where "c_permits c' = c_permits (ReleasePermits c ''operation'' (op_ID ops) now ev)" by (auto simp: releases_def)
      then have "CountActivePermits c' i \<le> CountActivePermits c i"
        using count_released [of c "''operation''" "op_ID ops" now ev i] by (simp add: CountActivePermits_def)
      then show ?thesis using bound by simp
    next
      case 3
      then obtain pool pm where g: "c_permits c' = c_permits c @ [pm]" "LockResourcePool c (rp_ID pool) = Some pool" "pm_PoolID pm = rp_ID pool"
        "Pool_Available pool (CountActivePermits c (rp_ID pool))" by (auto simp: grants_def)
      show ?thesis
      proof (cases "i = rp_ID pool")
        case True
        then have "p = pool" using p g(2) by simp
        then show ?thesis using Pool_Available_bound [of pool "CountActivePermits c i"] g True bound(2) by (auto simp: CountActivePermits_def)
      next
        case False
        then show ?thesis using bound g by (simp add: CountActivePermits_def)
      qed
    qed
  qed
  then show ?thesis using assms(2) by (auto simp: within_def pools)
qed

lemma permit_step_one:
  assumes "permit_step c c'" and "one_permit c"
  shows "one_permit c'"
proof -
  let ?k = "\<lambda>p. (pm_PoolID p, pm_OwnerKind p, pm_OwnerID p)" and ?active = "filter (\<lambda>p. pm_State p = PermitActive)"
  consider "c_permits c' = c_permits c" | "releases c c'" | "grants c c'" using assms(1) by (auto simp: permit_step_def)
  then show ?thesis
  proof cases
    case 2
    then obtain ops :: operation and now ev where "c_permits c' = c_permits (ReleasePermits c ''operation'' (op_ID ops) now ev)" by (auto simp: releases_def)
    with released_active [of ?k c "''operation''" "op_ID ops" now ev] obtain Q where
      "map ?k (?active (c_permits c')) = map ?k (filter Q (?active (c_permits c)))" by auto
    then show ?thesis using distinct_map_filter [of ?k "?active (c_permits c)" Q] assms(2)
      by (simp add: one_permit_def del: filter_filter)
  next
    case 3
    then obtain pm c1 where g: "c_permits c' = c_permits c @ [pm]" "InsertPermit c pm = Inr c1" by (auto simp: grants_def)
    then have "pm_State pm = PermitActive \<Longrightarrow> ?k pm \<notin> ?k ` set (?active (c_permits c))"
      by (auto simp: InsertPermit_def list_ex_iff split: if_splits)
    then show ?thesis using assms(2) g(1) by (auto simp: one_permit_def)
  qed (use assms(2) in \<open>simp add: one_permit_def\<close>)
qed

interpretation capacity_plane: kept_by_transactions "\<lambda>c. within c \<and> one_permit c"
  by unfold_locales (blast intro: permit_step_within permit_step_one ctl_step_permits)

lemmas ctl_run_permits = capacity_plane.kept_run

lemma permit_lost:
  assumes "permit_step c c'" and "p \<in> set (c_permits c)" and "p \<notin> set (c_permits c')"
  shows "\<exists>ops. lookup_by op_ID (pm_OwnerID p) (db_operations (c_db c')) = Some ops \<and> settled_down (c_db c') ops"
proof -
  from assms(1) assms(2,3) have "releases c c'" by (auto simp: permit_step_def grants_def)
  then obtain ops now ev where r: "c_permits c' = c_permits (ReleasePermits c ''operation'' (op_ID ops) now ev)"
    "lookup_by op_ID (op_ID ops) (db_operations (c_db c')) = Some ops" "settled_down (c_db c') ops" by (auto simp: releases_def)
  have "pm_OwnerID p = op_ID ops" using assms(2,3) by (force simp: r(1) ReleasePermits_def)
  with r show ?thesis by auto
qed

end
