(* ===== verification/Control_Scenario.thy ===== *)
theory Control_Scenario
  imports Capacity Scenario
begin

text \<open>
  Two concrete runs of the control plane, evaluated transaction by transaction: a local check that
  is created, executed once, and either accepted or canceled; and a generation that is granted an
  execution permit and canceled. The witnesses of the control plane's properties are taken from them.
\<close>

section \<open>The installation\<close>

definition sample_digest :: digest where
  "sample_digest = ''sha256:'' @ replicate 64 (CHR ''a'')"

definition plane_profiles :: profiles where
  "plane_profiles = [''check'' \<mapsto> check_profile\<lparr>pf_OperationDeadline := 1000000000\<rparr>,
     ''gen'' \<mapsto> check_profile\<lparr>pf_ID := ''gen'', pf_Kind := KindGeneration, pf_OperationDeadline := 1000000000, pf_QueuePool := ''gpu'',
       pf_ActiveWindow := 500000000\<rparr>]"

definition plane_results :: result_services where
  "plane_results =
     \<lparr>rs_DigestOf = (\<lambda>_. sample_digest), rs_ValidateResultManifest = (\<lambda>m. m = ''manifest''),
      rs_Unmarshal = (\<lambda>m. if m = ''manifest''
        then Some \<lparr>dm_LaunchID = ''ln_1'', dm_AttemptID = ''att_1'', dm_JobKind = ''check'', dm_ProfileID = ''job'', dm_Verdict = VerdictCertified,
               dm_FailureCode = [], dm_Outputs = []\<rparr> else None),
      rs_JobProfile = [''job'' \<mapsto> \<lparr>jp_ID = ''job'', jp_JobKind = ''check'', jp_CandidateCode = False, jp_ExpectedResult = None\<rparr>]\<rparr>"

definition plane_scope :: scope where
  "plane_scope = \<lparr>sc_TenantID = ''t'', sc_ProjectID = ''p'', sc_ActorID = ''a'', sc_Roles = []\<rparr>"

definition plane_cmd :: "string \<Rightarrow> command_identity" where
  "plane_cmd i = \<lparr>cmd_TenantID = ''t'', cmd_CommandID = i, cmd_ActorID = ''a'', cmd_RequestDigest = sample_digest\<rparr>"

definition plane_subject :: subject where
  "plane_subject = \<lparr>sj_ProfileID = ''check'', sj_SubjectDigest = sample_digest, sj_BriefID = [], sj_SourceRevision = [], sj_SourceHandle = [],
     sj_SourceOperationID = [], sj_PackageVersion = []\<rparr>"

definition plane0 :: cdb where
  "plane0 = \<lparr>c_db = db0\<lparr>db_operations := [], db_attempts := [], db_pools := []\<rparr>, c_permits = [],
     c_resource_pools = [\<lparr>rp_ID = ''gpu'', rp_Class = [], rp_Capacity = 3, rp_ReservedControl = 2\<rparr>], c_fundings = [], c_commands = [], c_settlements = [],
     c_transfers = [], c_stage_artifacts = [], c_briefs = [], c_previews = [], c_releases = [], c_lineages = [], c_effect_observations = []\<rparr>"

text \<open>A script of transactions, which stops at the first that fails.\<close>

fun commits :: "(cdb \<Rightarrow> err + cdb) list \<Rightarrow> cdb \<Rightarrow> err + cdb" where
  "commits [] c = Inr c"
| "commits (t # ts) c = chk (t c) (commits ts)"

definition committed :: "err + ('a \<times> cdb) \<Rightarrow> err + cdb" where
  "committed x = (case x of Inl e \<Rightarrow> Inl e | Inr (_, c) \<Rightarrow> Inr c)"

lemma committed_Inr: "committed x = Inr c \<longleftrightarrow> (\<exists>r. x = Inr (r, c))"
  by (cases x) (auto simp: committed_def)

definition transaction :: "(cdb \<Rightarrow> err + cdb) \<Rightarrow> bool" where
  "transaction t \<longleftrightarrow> (\<forall>c c'. t c = Inr c' \<longrightarrow> ctl_step plane_profiles shop plane_results c c')"

lemma ctl_run_trans: "ctl_run ps sv rs c1 c2 \<Longrightarrow> ctl_run ps sv rs c c1 \<Longrightarrow> ctl_run ps sv rs c c2"
  by (induction rule: ctl_run.induct) (auto intro: ctl_run.tick)

lemma commits_run: "list_all transaction ts \<Longrightarrow> commits ts c = Inr c' \<Longrightarrow> ctl_run plane_profiles shop plane_results c c'"
proof (induction ts arbitrary: c)
  case Nil
  then show ?case by (simp add: ctl_run.idle)
next
  case (Cons t ts)
  then obtain c1 where "t c = Inr c1" "commits ts c1 = Inr c'" by (auto simp: chk_Inr_iff)
  with Cons show ?case using ctl_run_trans [OF Cons.IH ctl_run.tick [OF ctl_run.idle]] by (auto simp: transaction_def)
qed

definition script_open :: "(cdb \<Rightarrow> err + cdb) list" where
  "script_open =
     [\<lambda>c. committed (Create plane_profiles ''op_1'' 0 (plane_cmd ''k1'') plane_scope KindLocalCheck plane_subject None c),
      \<lambda>c. committed (confirmIntake 1 ''op_1'' ''v1'' c),
      \<lambda>c. committed (OpenAttempt plane_profiles ''att_1'' 2 (plane_cmd ''k2'') ''op_1'' ''s'' 1 ''job'' c)]"

definition script_launch :: "(cdb \<Rightarrow> err + cdb) list" where
  "script_launch =
     [\<lambda>c. committed (PrepareLaunch ''ln_1'' 3 (plane_cmd ''k3'') ''att_1'' ''key'' ''k8s'' sample_digest 500000000 c),
      \<lambda>c. committed (confirmLaunch 4 \<lparr>ln_ID = ''ln_1'', ln_AttemptID = ''att_1'', ln_OperationID = ''op_1'', ln_LaunchKey = ''key'',
         ln_Backend = ''k8s'', ln_ProfileID = ''job'', ln_ImageDigest = sample_digest, ln_ExecutionEpoch = 1, ln_LaunchEpoch = 1,
         ln_Deadline = 500000000, ln_CommandID = ''k3'', ln_RequestDigest = sample_digest, ln_Inventory = InventoryPending,
         ln_InventoryVersion = [], ln_CreatedAt = 3, ln_UpdatedAt = 3\<rparr> ''t'' ''v2'' c),
      \<lambda>c. committed (RegisterInstance ''i_1'' 5 (plane_cmd ''k4'') ''att_1'' ''key'' ''k8s'' ''uid'' ''pod'' sample_digest c)]"

definition script_result :: "(cdb \<Rightarrow> err + cdb) list" where
  "script_result =
     [\<lambda>c. committed (AcceptResult plane_results ''st_1'' 6 (plane_cmd ''k5'') ''att_1'' ''i_1'' ''job'' VerdictCertified [] sample_digest ''manifest'' ''obs'' None c)]"

definition script_cancel :: "(cdb \<Rightarrow> err + cdb) list" where
  "script_cancel =
     [\<lambda>c. committed (SubmitCommand plane_profiles 6 (plane_cmd ''k7'') plane_scope ''op_1'' CommandCancel 5 [] c)]"

definition script_canceled :: "(cdb \<Rightarrow> err + cdb) list" where
  "script_canceled =
     [\<lambda>c. committed (ObserveInstance ''t'' ''att_1'' ''i_1'' PhaseFailed (Some 137) 7 c)]"

definition script_permit :: "(cdb \<Rightarrow> err + cdb) list" where
  "script_permit = [\<lambda>c. committed (RequestExecutionPermitOnce plane_profiles ''pm_1'' 3 (plane_cmd ''g1'') ''op_1'' c)]"

definition script_drop :: "(cdb \<Rightarrow> err + cdb) list" where
  "script_drop = [\<lambda>c. committed (SubmitCommand plane_profiles 4 (plane_cmd ''g2'') plane_scope ''op_1'' CommandCancel 3 [] c)]"

lemma scripts: "list_all transaction script_open" "list_all transaction script_launch" "list_all transaction script_result" "list_all transaction script_cancel"
  "list_all transaction script_canceled" "list_all transaction script_permit" "list_all transaction script_drop"
  unfolding script_open_def script_launch_def script_result_def script_cancel_def script_canceled_def script_permit_def script_drop_def list.pred_inject transaction_def committed_Inr
  by (auto intro: ctl_step.intros)

lemma projr_call: "\<not> isl x \<Longrightarrow> x = Inr (fst (projr x), snd (projr x))"
  by (cases x) simp_all

section \<open>The rows the runs leave\<close>

definition plane_op :: "lifecycle \<Rightarrow> string \<Rightarrow> control_state \<Rightarrow> cleanup_state \<Rightarrow> relay_state \<Rightarrow> u64 \<Rightarrow> instant \<Rightarrow> operation" where
  "plane_op lc ph ct cl rl n now =
     \<lparr>op_ID = ''op_1'', op_TenantID = ''t'', op_ProjectID = ''p'', op_ActorID = ''a'', op_CommandID = ''k1'', op_Kind = KindLocalCheck,
      op_Subject = plane_subject, op_SemanticDigest = sample_digest, op_Lifecycle = lc, op_Phase = ph, op_Control = ct, op_Cleanup = cl,
      op_Finance = FinanceNotFunded, op_FailureCode = [], op_Revision = n, op_NextEventSeq = n + 1, op_ExecutionEpoch = 1,
      op_RecoveryEpoch = 1, op_Deadline = 1000000000, op_Intake = IntakeConfirmed, op_IntakeVersion = ''v1'', op_Relay = rl,
      op_RelayRunID = [], op_CreatedAt = 0, op_UpdatedAt = now, op_ActiveDeadline = None,
      op_Lease = \<lparr>ls_State = LeaseNone, ls_LeaseID = [], ls_Fence = 0, ls_ExpiresAt = None, ls_Occurrence = 0\<rparr>,
      op_DefinitionActivation = [], op_Preparation = None, op_CandidateEffectID = []\<rparr>"

definition plane_event ::
  "u64 \<Rightarrow> string \<Rightarrow> lifecycle \<Rightarrow> string \<Rightarrow> control_state \<Rightarrow> cleanup_state \<Rightarrow> bool \<Rightarrow> verdict \<Rightarrow> instant \<Rightarrow> lifecycle \<Rightarrow> event" where
  "plane_event n t lc ph ct cl bound vd now prior =
     \<lparr>ev_OperationID = ''op_1'', ev_EventSeq = n, ev_TransitionID = t, ev_EventType = EventOperationChanged, ev_Revision = n,
      ev_Payload = \<lparr>pl_Lifecycle = lc, pl_Phase = ph, pl_Control = ct, pl_Cleanup = cl, pl_Finance = FinanceNotFunded, pl_FailureCode = [],
        pl_Step = (if bound then ''s'' else []), pl_Visit = (if bound then ''1'' else []), pl_AttemptOrdinal = (if bound then ''1'' else []),
        pl_Verdict = vd, pl_VerdictCode = [], pl_Node = [], pl_NodeState = [], pl_Round = [], pl_OutcomeCode = []\<rparr>,
      ev_OccurredAt = now, ev_PriorLifecycle = Some prior\<rparr>"

definition plane_attempt :: "attempt_state \<Rightarrow> attempt_outcome \<Rightarrow> cleanup_state option \<Rightarrow> string \<Rightarrow> instant \<Rightarrow> attempt" where
  "plane_attempt st out cl stageID now =
     \<lparr>at_ID = ''att_1'', at_OperationID = ''op_1'', at_TenantID = ''t'', at_StepID = ''s'', at_VisitOrdinal = 1, at_AttemptOrdinal = 1,
      at_ProfileID = ''job'', at_ExecutionEpoch = 1, at_CommandID = ''k2'', at_RequestDigest = sample_digest, at_State = st, at_Outcome = out,
      at_Cleanup = cl, at_FailureCode = [], at_AcceptedStageID = stageID, at_Deadline = 1000000000, at_CreatedAt = 2, at_UpdatedAt = now\<rparr>"

definition plane_launch :: "inventory_state \<Rightarrow> string \<Rightarrow> instant \<Rightarrow> launch" where
  "plane_launch inventory version now =
     \<lparr>ln_ID = ''ln_1'', ln_AttemptID = ''att_1'', ln_OperationID = ''op_1'', ln_LaunchKey = ''key'', ln_Backend = ''k8s'', ln_ProfileID = ''job'',
      ln_ImageDigest = sample_digest, ln_ExecutionEpoch = 1, ln_LaunchEpoch = 1, ln_Deadline = 500000000, ln_CommandID = ''k3'',
      ln_RequestDigest = sample_digest, ln_Inventory = inventory, ln_InventoryVersion = version, ln_CreatedAt = 3, ln_UpdatedAt = now\<rparr>"

definition plane_inst :: inst where
  "plane_inst =
     \<lparr>inst_ID = ''i_1'', inst_AttemptID = ''att_1'', inst_LaunchID = ''ln_1'', inst_LaunchKey = ''key'', inst_Backend = ''k8s'',
      inst_JobUID = ''uid'', inst_PodUID = ''pod'', inst_ImageDigest = sample_digest, inst_LaunchEpoch = 1, inst_Phase = PhasePending,
      inst_ExitCode = None, inst_Current = True, inst_RegisteredAt = 5, inst_ObservedAt = None\<rparr>"

definition plane_stage :: stage where
  "plane_stage =
     \<lparr>st_ID = ''st_1'', st_AttemptID = ''att_1'', st_InstanceID = ''i_1'', st_OperationID = ''op_1'', st_PhaseOrdinal = 1, st_ProfileID = ''job'',
      st_Verdict = VerdictCertified, st_FailureCode = [], st_ResultDigest = sample_digest, st_ResultManifest = ''manifest'',
      st_ObserverIdentity = ''obs'', st_CommandID = ''k5'', st_RequestDigest = sample_digest, st_AcceptedAt = 6, st_ExecutionEpoch = 1,
      st_RecoveryEpoch = 1, st_Artifacts = []\<rparr>"

definition plane_cancel :: "string \<Rightarrow> revision \<Rightarrow> command_outcome \<Rightarrow> revision \<Rightarrow> instant \<Rightarrow> instant option \<Rightarrow> command" where
  "plane_cancel i expected out rvn acceptedAt settledAt =
     \<lparr>cm_TenantID = ''t'', cm_CommandID = i, cm_OperationID = ''op_1'', cm_ActorID = ''a'', cm_Kind = CommandCancel,
      cm_ExpectedRevision = expected, cm_RequestDigest = sample_digest, cm_TargetDefinitionActivation = [], cm_Outcome = out,
      cm_ReasonCode = [], cm_OperationRevision = rvn, cm_AcceptedAt = acceptedAt, cm_SettledAt = settledAt, cm_Relay = CommandRelayNone\<rparr>"

definition log3 :: "event list" where
  "log3 = [plane_event 1 ''accepted'' LifecycleAccepted ''intake'' ControlNone CleanupNotRequired False VerdictUnset 0 LifecycleAccepted,
     plane_event 2 ''intake_confirmed'' LifecycleAccepted ''accepted'' ControlNone CleanupNotRequired False VerdictUnset 1 LifecycleAccepted,
     plane_event 3 ''attempt:att_1:opened'' LifecycleRunning ''attempt_open'' ControlNone CleanupNotRequired True VerdictUnset 2 LifecycleAccepted]"

definition log5 :: "event list" where
  "log5 = log3 @
     [plane_event 4 ''launch:ln_1'' LifecycleRunning ''launch_prepared'' ControlNone CleanupPending True VerdictUnset 3 LifecycleRunning,
      plane_event 5 ''instance:i_1:registered'' LifecycleRunning ''running'' ControlNone CleanupPending True VerdictUnset 5 LifecycleRunning]"

definition plane1 :: cdb where
  "plane1 = plane0\<lparr>c_db := (c_db plane0)
     \<lparr>db_operations := [plane_op LifecycleRunning ''attempt_open'' ControlNone CleanupNotRequired RelayPending 3 2], db_events := log3,
      db_attempts := [plane_attempt AttemptOpen OutcomeUnset None [] 2]\<rparr>\<rparr>"

definition plane2 :: cdb where
  "plane2 = plane0\<lparr>c_db := (c_db plane0)
     \<lparr>db_operations := [plane_op LifecycleRunning ''running'' ControlNone CleanupPending RelayPending 5 5], db_events := log5,
      db_attempts := [plane_attempt AttemptRunning OutcomeUnset None [] 5], db_launches := [plane_launch InventoryConfirmed ''v2'' 4],
      db_instances := [plane_inst]\<rparr>\<rparr>"

definition plane3 :: cdb where
  "plane3 = plane0\<lparr>c_db := (c_db plane0)
     \<lparr>db_operations := [plane_op LifecycleRunning ''result_accepted'' ControlNone CleanupPending RelayPending 6 6],
      db_events := log5 @
        [plane_event 6 ''stage:st_1'' LifecycleRunning ''result_accepted'' ControlNone CleanupPending True VerdictCertified 6 LifecycleRunning],
      db_attempts := [plane_attempt AttemptResultAccepted OutcomeUnset None ''st_1'' 6],
      db_launches := [plane_launch InventoryConfirmed ''v2'' 4], db_instances := [plane_inst], db_stages := [plane_stage]\<rparr>\<rparr>"

definition plane4 :: cdb where
  "plane4 = plane2\<lparr>c_db := (c_db plane2)
     \<lparr>db_operations := [plane_op LifecycleRunning ''cancel_pending'' ControlCancelPending CleanupPending RelaySettled 6 6],
      db_events := log5 @
        [plane_event 6 ''cmd:k7'' LifecycleRunning ''cancel_pending'' ControlCancelPending CleanupPending False VerdictUnset 6 LifecycleRunning]\<rparr>,
      c_commands := [plane_cancel ''k7'' 5 OutcomePending 6 6 None]\<rparr>"

definition plane5 :: cdb where
  "plane5 = plane4\<lparr>c_db := (c_db plane4)
     \<lparr>db_instances := [plane_inst\<lparr>inst_Phase := PhaseFailed, inst_ExitCode := Some 137, inst_ObservedAt := Some 7\<rparr>]\<rparr>\<rparr>"

text \<open>The generation, and the permit it is granted and releases.\<close>

definition plane_gen :: "lifecycle \<Rightarrow> string \<Rightarrow> control_state \<Rightarrow> relay_state \<Rightarrow> u64 \<Rightarrow> instant \<Rightarrow> instant option \<Rightarrow> operation" where
  "plane_gen lc ph ct rl n now active = (plane_op lc ph ct CleanupNotRequired rl n now)
     \<lparr>op_Kind := KindGeneration, op_Subject := plane_subject\<lparr>sj_ProfileID := ''gen''\<rparr>, op_ActiveDeadline := active\<rparr>"

definition plane_permit :: permit where
  "plane_permit = \<lparr>pm_ID = ''pm_1'', pm_PoolID = ''gpu'', pm_OwnerKind = ''operation'', pm_OwnerID = ''op_1'', pm_FenceEpoch = 1,
     pm_State = PermitActive, pm_GrantedAt = 3, pm_ReleasedAt = None, pm_ReleaseEvidence = []\<rparr>"

definition gen0 :: cdb where
  "gen0 = plane0\<lparr>c_db := (c_db plane0)\<lparr>db_operations := [plane_gen LifecycleAccepted ''accepted'' ControlNone RelayPending 2 1 None]\<rparr>\<rparr>"

definition gen1 :: cdb where
  "gen1 = plane0\<lparr>c_db := (c_db plane0)
     \<lparr>db_operations := [plane_gen LifecycleRunning ''admitted'' ControlNone RelayPending 3 3 (Some 500000000)],
      db_events := [plane_event 3 ''permit:pm_1'' LifecycleRunning ''admitted'' ControlNone CleanupNotRequired False VerdictUnset 3 LifecycleAccepted]\<rparr>,
      c_permits := [plane_permit]\<rparr>"

definition gen2 :: cdb where
  "gen2 = gen1\<lparr>c_db := (c_db gen1)
     \<lparr>db_operations := [plane_gen LifecycleCanceled ''canceled'' ControlCancelApplied RelaySettled 4 4 (Some 500000000)],
      db_events := db_events (c_db gen1) @
        [plane_event 4 ''cmd:g2'' LifecycleCanceled ''canceled'' ControlCancelApplied CleanupNotRequired False VerdictUnset 4 LifecycleRunning]\<rparr>,
      c_permits := [plane_permit\<lparr>pm_State := PermitReleased, pm_ReleasedAt := Some 4, pm_ReleaseEvidence := ''operation:canceled''\<rparr>],
      c_commands := [plane_cancel ''g2'' 3 OutcomeApplied 4 4 (Some 4)]\<rparr>"

section \<open>The runs\<close>

lemma run_open: "commits script_open plane0 = Inr plane1"
  by code_simp

lemma run_launch: "commits script_launch plane1 = Inr plane2"
  by code_simp

lemma run_result: "commits script_result plane2 = Inr plane3"
  by code_simp

lemma run_cancel: "commits script_cancel plane2 = Inr plane4"
  by code_simp

lemma run_canceled: "commits script_canceled plane4 = Inr plane5"
  by code_simp

lemma run_permit: "commits script_permit gen0 = Inr gen1"
  by code_simp

lemma run_drop: "commits script_drop gen1 = Inr gen2"
  by code_simp

abbreviation plane_run :: "cdb \<Rightarrow> cdb \<Rightarrow> bool" where
  "plane_run \<equiv> ctl_run plane_profiles shop plane_results"

lemma plane_run_3: "plane_run plane0 plane3"
  using commits_run [OF scripts(1) run_open] commits_run [OF scripts(2) run_launch] commits_run [OF scripts(3) run_result]
  by (blast intro: ctl_run_trans)

lemma plane_run_4: "plane_run plane0 plane4"
  using commits_run [OF scripts(1) run_open] commits_run [OF scripts(2) run_launch] commits_run [OF scripts(4) run_cancel]
  by (blast intro: ctl_run_trans)

lemma plane_run_5: "plane_run plane4 plane5"
  using commits_run [OF scripts(5) run_canceled] .

lemma gen_run_1: "plane_run gen0 gen1"
  using commits_run [OF scripts(6) run_permit] .

lemma gen_step_2: "ctl_step plane_profiles shop plane_results gen1 gen2"
  using scripts(7) run_drop by (auto simp: script_drop_def transaction_def chk_Inr_iff)

end
