(* ===== verification/Control_Properties.thy ===== *)
theory Control_Properties
  imports Control_Scenario
begin

text \<open>
  The properties of the control plane as a whole, over every sequence of its transactions.
\<close>

section \<open>The event feed\<close>

lemma filter_is_drop:
  assumes "\<And>k. k < length xs \<Longrightarrow> P (xs ! k) \<longleftrightarrow> n \<le> k"
  shows "filter P xs = drop n xs"
proof -
  have 1: "filter P (take n xs) = []" using assms by (auto simp: filter_empty_conv in_set_conv_nth)
  have 2: "filter P (drop n xs) = drop n xs" using assms by (auto simp: filter_id_conv in_set_conv_nth)
  show ?thesis using filter_append [of P "take n xs" "drop n xs"] 1 2 by simp
qed

lemma numbered_after:
  fixes f :: "'a \<Rightarrow> u64"
  assumes "\<And>k. k < length xs \<Longrightarrow> f (xs ! k) = of_nat (Suc k)" and "length xs < 2 ^ 64"
  shows "filter (\<lambda>x. f x > a) xs = drop (unat a) xs" and "sorted (map f xs)"
proof -
  have u: "unat (f (xs ! k)) = Suc k" if "k < length xs" for k
    using that assms by (simp add: unsigned_of_nat take_bit_nat_eq_self del: of_nat_Suc)
  show "filter (\<lambda>x. f x > a) xs = drop (unat a) xs" by (rule filter_is_drop) (simp add: word_less_nat_alt u less_Suc_eq_le)
  show "sorted (map f xs)" unfolding sorted_iff_nth_mono by (simp add: word_le_nat_alt u)
qed

lemma ListEvents_log:
  assumes "log_ok (events_of i s) ops" and "length (db_events s) < 2 ^ 64"
  shows "ListEvents s i afterSeq lim = take lim (drop (unat afterSeq) (events_of i s))"
proof -
  let ?es = "events_of i s"
  have len: "length ?es < 2 ^ 64" using assms(2) by (simp add: events_of_def le_less_trans [OF length_filter_le])
  have num: "ev_EventSeq (?es ! k) = of_nat (Suc k)" if "k < length ?es" for k using assms(1) that by (simp add: log_ok_def)
  note N = numbered_after [of ?es ev_EventSeq, OF num len]
  have "filter (\<lambda>e. ev_OperationID e = i \<and> ev_EventSeq e > afterSeq) (db_events s) = drop (unat afterSeq) ?es"
    using N(1) [of afterSeq] by (simp add: events_of_def conj_commute)
  moreover have "sorted (map ev_EventSeq (drop (unat afterSeq) ?es))" using N(2) sorted_wrt_drop [of "(\<le>)" "map ev_EventSeq ?es" "unat afterSeq"] by (simp add: drop_map)
  ultimately show ?thesis by (simp add: ListEvents_def sort_key_id_if_sorted)
qed

section \<open>The properties\<close>

lemma distinct_keyD: "distinct (map f xs) \<Longrightarrow> x \<in> set xs \<Longrightarrow> y \<in> set xs \<Longrightarrow> f x = f y \<Longrightarrow> x = y"
  by (auto simp: distinct_map dest: inj_onD)

lemma empty_log: "db_operations s = [] \<Longrightarrow> db_events s = [] \<Longrightarrow> log_inv s"
  by (simp add: log_inv_def)

text \<open>C8: The event log refines the life of the operations: in every database the services reach from
  an empty one, the events of an operation, in the order they were written, are a history of its
  life cycle that ends in its row, no other row has its identity, and no event is without a row.\<close>

theorem log_refines_lifecycle:
  assumes "ctl_run ps sv rs c c'" and "db_operations (c_db c) = []" and "db_events (c_db c) = []" and "ops \<in> set (db_operations (c_db c'))"
  shows "op_history (filter (\<lambda>e. ev_OperationID e = op_ID ops) (db_events (c_db c'))) ops \<and>
    (\<forall>x \<in> set (db_operations (c_db c')). op_ID x = op_ID ops \<longrightarrow> x = ops) \<and>
    ev_OperationID ` set (db_events (c_db c')) \<subseteq> op_ID ` set (db_operations (c_db c'))"
proof -
  have "log_inv (c_db c')" using ctl_run_log [OF assms(1) empty_log [OF assms(2,3)]] .
  then show ?thesis using assms(4) by (auto simp: log_inv_def events_of_def distinct_map dest: inj_onD)
qed

lemma plane0_empty: "db_operations (c_db plane0) = []" "db_events (c_db plane0) = []" "db_attempts (c_db plane0) = []"
  "db_launches (c_db plane0) = []" "db_instances (c_db plane0) = []" "db_stages (c_db plane0) = []"
  by (simp_all add: plane0_def db0_def)

lemma plane3_rows: "db_operations (c_db plane3) = [plane_op LifecycleRunning ''result_accepted'' ControlNone CleanupPending RelayPending 6 6]"
  "db_stages (c_db plane3) = [plane_stage]" "length (db_events (c_db plane3)) = 6"
  by (simp_all add: plane3_def log5_def log3_def)

theorem log_refines_lifecycle_witness:
  "op_history (filter (\<lambda>e. ev_OperationID e = ''op_1'') (db_events (c_db plane3)))
     (plane_op LifecycleRunning ''result_accepted'' ControlNone CleanupPending RelayPending 6 6)"
proof -
  have "op_ID (plane_op LifecycleRunning ''result_accepted'' ControlNone CleanupPending RelayPending 6 6) = ''op_1''" by (simp add: plane_op_def)
  then show ?thesis using log_refines_lifecycle [OF plane_run_3 plane0_empty(1,2), of "plane_op LifecycleRunning ''result_accepted'' ControlNone
      CleanupPending RelayPending 6 6"] by (simp add: plane3_rows)
qed

text \<open>C28: Reading the event feed neither skips nor repeats an event: a page read after sequence number
  \<open>afterSeq\<close> is the next events of the operation's log in order, at most as many as asked for (200 for
  a limit outside 1 to 1000), numbered \<open>afterSeq + 1\<close> and on; the page says how many events there are,
  and a reset is required exactly of a reader that is ahead of the log.\<close>

theorem event_feed_exact:
  assumes "ctl_run ps sv rs c c'" and "db_operations (c_db c) = []" and "db_events (c_db c) = []" and "length (db_events (c_db c')) < 2 ^ 64"
    and "Operations_ListEvents sc operationID afterSeq lim c' = Inr page"
  defines "es \<equiv> filter (\<lambda>e. ev_OperationID e = operationID) (db_events (c_db c'))"
  shows "ep_Events page = take (if lim \<le> 0 \<or> lim > 1000 then 200 else nat lim) (drop (unat afterSeq) es) \<and>
    (\<forall>k < length (ep_Events page). ev_EventSeq (ep_Events page ! k) = afterSeq + of_nat (Suc k)) \<and>
    ep_CoveredEventSeq page = of_nat (length es) \<and> (ep_ResetRequired page \<longleftrightarrow> unat afterSeq > length es)"
proof -
  let ?n = "if lim \<le> 0 \<or> lim > 1000 then 200 else nat lim"
  have es: "es = events_of operationID (c_db c')" by (simp add: es_def events_of_def)
  from assms(5) obtain ops where row: "lookup_by op_ID operationID (db_operations (c_db c')) = Some ops"
    and page: "page = (if afterSeq > CoveredEventSeq ops
        then \<lparr>ep_Events = [], ep_CoveredEventSeq = CoveredEventSeq ops, ep_ResetRequired = True,
              ep_Final = (Lifecycle_Terminal (op_Lifecycle ops) \<and> \<not> financeSettleable ops)\<rparr>
        else \<lparr>ep_Events = ListEvents (c_db c') operationID afterSeq ?n, ep_CoveredEventSeq = CoveredEventSeq ops, ep_ResetRequired = False,
              ep_Final = (Lifecycle_Terminal (op_Lifecycle ops) \<and> \<not> financeSettleable ops)\<rparr>)"
    by (auto simp: Operations_ListEvents_def scopedOperation_def GetOperationScoped_def Let_def fallible split: if_splits)
  have "log_inv (c_db c')" using ctl_run_log [OF assms(1) empty_log [OF assms(2,3)]] .
  then have ok: "log_ok es ops" using lookup_by_SomeD [OF row] by (auto simp: es log_inv_def intro: log_ok_history)
  have len: "length es < 2 ^ 64" using assms(4) by (simp add: es_def le_less_trans [OF length_filter_le])
  have cov: "CoveredEventSeq ops = of_nat (length es)" using ok by (simp add: log_ok_def)
  have past: "afterSeq > CoveredEventSeq ops \<longleftrightarrow> unat afterSeq > length es"
    using len by (simp add: cov word_less_nat_alt unsigned_of_nat take_bit_nat_eq_self)
  have events: "ep_Events page = take ?n (drop (unat afterSeq) es)"
    using ListEvents_log [OF ok [unfolded es] assms(4), of afterSeq ?n] past by (auto simp: page es)
  have "ev_EventSeq (es ! (unat afterSeq + k)) = of_nat (Suc (unat afterSeq + k))" if "unat afterSeq + k < length es" for k
    using ok that by (simp add: log_ok_def)
  moreover have "ep_Events page ! k = es ! (unat afterSeq + k) \<and> unat afterSeq + k < length es" if "k < length (ep_Events page)" for k
    using that by (auto simp: events)
  ultimately have "\<forall>k < length (ep_Events page). ev_EventSeq (ep_Events page ! k) = afterSeq + of_nat (Suc k)"
    by (simp add: algebra_simps)
  then show ?thesis using events past cov by (simp add: page)
qed

theorem event_feed_exact_witness:
  "(case Operations_ListEvents plane_scope ''op_1'' 2 3 plane3 of Inl _ \<Rightarrow> False | Inr page \<Rightarrow>
     length (ep_Events page) = 3 \<and> ev_EventSeq (ep_Events page ! 0) = 3 \<and> \<not> ep_ResetRequired page)"
proof -
  have "\<not> isl (Operations_ListEvents plane_scope ''op_1'' 2 3 plane3)" by code_simp
  then obtain page where p: "Operations_ListEvents plane_scope ''op_1'' 2 3 plane3 = Inr page"
    by (cases "Operations_ListEvents plane_scope ''op_1'' 2 3 plane3") simp_all
  have six: "length (filter (\<lambda>e. ev_OperationID e = ''op_1'') (db_events (c_db plane3))) = 6"
    by (simp add: plane3_def log5_def log3_def plane_event_def)
  have "length (db_events (c_db plane3)) < 2 ^ 64" by (simp add: plane3_rows)
  note F = event_feed_exact [OF plane_run_3 plane0_empty(1,2) this p]
  have len: "length (ep_Events page) = 3" using conjunct1 [OF F] six by simp
  have "\<not> ep_ResetRequired page" using F six by simp
  then show ?thesis using conjunct1 [OF conjunct2 [OF F], rule_format, of 0] len by (simp add: p)
qed

text \<open>C9: A result counts only for the execution that produced it. In every database the services
  reach from one without executions, an accepted stage belongs to one attempt, which names it and has
  taken no other, and to the one current physical instance of that attempt, started from a launch of
  the attempt whose inventory write was confirmed and whose image the instance reported; the stage,
  the attempt and the launch are of one execution epoch, and the stage was accepted before the
  attempt's deadline.\<close>

theorem accepted_result_is_backed:
  assumes "ctl_run ps sv rs c c'" and "db_attempts (c_db c) = []" and "db_launches (c_db c) = []" and "db_instances (c_db c) = []"
    and "db_stages (c_db c) = []" and "st \<in> set (db_stages (c_db c'))"
  shows "\<exists>a \<in> set (db_attempts (c_db c')). \<exists>i \<in> set (db_instances (c_db c')). \<exists>l \<in> set (db_launches (c_db c')).
    at_ID a = st_AttemptID st \<and> at_AcceptedStageID a = st_ID st \<and> (at_State a = AttemptResultAccepted \<or> at_State a = AttemptClosed) \<and>
    inst_ID i = st_InstanceID st \<and> inst_AttemptID i = at_ID a \<and> inst_Current i \<and>
    ln_ID l = inst_LaunchID i \<and> ln_AttemptID l = at_ID a \<and> ln_Inventory l = InventoryConfirmed \<and> ln_ImageDigest l = inst_ImageDigest i \<and>
    at_ExecutionEpoch a = st_ExecutionEpoch st \<and> ln_ExecutionEpoch l = st_ExecutionEpoch st \<and> st_AcceptedAt st \<le> at_Deadline a \<and>
    (\<forall>st' \<in> set (db_stages (c_db c')). st_AttemptID st' = st_AttemptID st \<longrightarrow> st' = st) \<and>
    (\<forall>j \<in> set (db_instances (c_db c')). inst_AttemptID j = at_ID a \<and> inst_Current j \<longrightarrow> j = i)"
proof -
  let ?s = "c_db c'"
  have "exec_inv (c_db c)" using assms(2-5) by (simp add: exec_inv_def one_current_def)
  then have inv: "exec_inv ?s" using ctl_run_exec [OF assms(1)] by blast
  have "stage_backed ?s st" using inv assms(6) by (simp add: exec_inv_def list_all_iff)
  then obtain a i where a: "a \<in> set (db_attempts ?s)" "at_ID a = st_AttemptID st" "at_AcceptedStageID a = st_ID st"
      "at_ExecutionEpoch a = st_ExecutionEpoch st" "st_AcceptedAt st \<le> at_Deadline a" "at_State a = AttemptResultAccepted \<or> at_State a = AttemptClosed"
    and i: "i \<in> set (db_instances ?s)" "inst_ID i = st_InstanceID st" "inst_AttemptID i = st_AttemptID st" "inst_Current i"
    by (auto simp: stage_backed_def)
  have "instance_backed ?s i" using inv i(1) by (simp add: exec_inv_def list_all_iff)
  then obtain l where l: "l \<in> set (db_launches ?s)" "ln_ID l = inst_LaunchID i" "ln_AttemptID l = inst_AttemptID i"
      "ln_Inventory l = InventoryConfirmed" "ln_ImageDigest l = inst_ImageDigest i"
    by (auto simp: instance_backed_def)
  have "launch_backed ?s l" using inv l(1) by (simp add: exec_inv_def list_all_iff)
  then obtain b where b: "b \<in> set (db_attempts ?s)" "at_ID b = ln_AttemptID l" "at_ExecutionEpoch b = ln_ExecutionEpoch l"
    by (auto simp: launch_backed_def)
  have ba: "b = a" using inv by (intro distinct_keyD [of at_ID "db_attempts ?s"]) (simp_all add: exec_inv_def a b l i)
  have st: "st' = st" if "st' \<in> set (db_stages ?s)" "st_AttemptID st' = st_AttemptID st" for st'
    using inv that assms(6) by (intro distinct_keyD [of st_AttemptID "db_stages ?s"]) (simp_all add: exec_inv_def)
  have j: "j = i" if "j \<in> set (db_instances ?s)" "inst_AttemptID j = at_ID a" "inst_Current j" for j
    using inv that i a(2) by (intro distinct_keyD [of inst_AttemptID "filter inst_Current (db_instances ?s)"]) (simp_all add: exec_inv_def one_current_def)
  have epoch: "ln_ExecutionEpoch l = st_ExecutionEpoch st" using a(4) b(3) ba by simp
  show ?thesis
  proof (rule bexI [OF _ a(1)], rule bexI [OF _ i(1)], rule bexI [OF _ l(1)], intro conjI)
    show "\<forall>st' \<in> set (db_stages ?s). st_AttemptID st' = st_AttemptID st \<longrightarrow> st' = st" using st by blast
    show "\<forall>j \<in> set (db_instances ?s). inst_AttemptID j = at_ID a \<and> inst_Current j \<longrightarrow> j = i" using j by blast
  qed (use a i l epoch in simp_all)
qed

theorem accepted_result_is_backed_witness:
  "\<exists>a. a \<in> set (db_attempts (c_db plane3)) \<and> at_ID a = ''att_1'' \<and> at_AcceptedStageID a = ''st_1''"
proof -
  have "plane_stage \<in> set (db_stages (c_db plane3))" by (simp add: plane3_rows)
  note B = accepted_result_is_backed [OF plane_run_3 plane0_empty(3-6) this]
  have "st_AttemptID plane_stage = ''att_1''" "st_ID plane_stage = ''st_1''" by (simp_all add: plane_stage_def)
  then show ?thesis using B by metis
qed





text \<open>C12: Capacity is given back only when nothing of the operation can still use it: a transaction
  after which an active permit is no longer there leaves its operation terminal, with no open
  attempt, no unresolved dispatch or effect, no attempt of unknown outcome or cleanup, its cleanup
  known and its exposure known.\<close>

theorem permit_released_when_settled:
  assumes "ctl_step ps sv rs c c'" and "p \<in> set (c_permits c)" and "pm_State p = PermitActive" and "p \<notin> set (c_permits c')"
  shows "\<exists>ops. lookup_by op_ID (pm_OwnerID p) (db_operations (c_db c')) = Some ops \<and> Lifecycle_Terminal (op_Lifecycle ops) \<and>
    \<not> HasOpenAttempt (c_db c') (op_ID ops) \<and> \<not> HasUnresolvedEffect (c_db c') (op_ID ops) \<and> \<not> HasUnsettledDispatch (c_db c') (op_ID ops) \<and>
    \<not> HasUnknownAttempt (c_db c') (op_ID ops) [] \<and> op_Cleanup ops \<noteq> CleanupUnknown \<and> op_Finance ops \<noteq> FinanceExposureUnknown"
  using permit_lost [OF ctl_step_permits [OF assms(1)] assms(2,4)] by (auto simp: settled_down_def unresolvedEffects_def split: if_splits)

theorem permit_released_when_settled_witness:
  "plane_permit \<notin> set (c_permits gen2) \<and>
   (\<exists>ops. lookup_by op_ID ''op_1'' (db_operations (c_db gen2)) = Some ops \<and> Lifecycle_Terminal (op_Lifecycle ops))"
proof -
  have 1: "plane_permit \<in> set (c_permits gen1)" "pm_State plane_permit = PermitActive" "plane_permit \<notin> set (c_permits gen2)"
    "pm_OwnerID plane_permit = ''op_1''"
    by (simp_all add: gen1_def gen2_def plane_permit_def)
  from permit_released_when_settled [OF gen_step_2 1(1-3)] 1(3,4) show ?thesis by auto
qed

end
