(* ===== verification/Effects_Service.thy ===== *)
theory Effects_Service
  imports Operations_Service
begin

text \<open>
  \<open>internal/application/effects.go\<close>: the guarded business-write obligation. \<open>Prepare\<close> is two
  transactions with the write of the obligation between them; the first is \<open>effect_prepare\<close>, the
  second \<open>effect_consume\<close>, and \<open>Effects_Prepare\<close> is their composition with the answer of the
  inventory as an argument. \<open>leaseProtected\<close> names the profiles with a queue pool. The upstream's
  answer to an original-identity query is an argument of \<open>QueryOriginal\<close>.
\<close>

section \<open>Queries\<close>

abbreviation effect_command :: "effect \<Rightarrow> string \<times> string" where
  "effect_command e \<equiv> (e_TenantID e, e_CommandID e)"

abbreviation effect_key :: "effect \<Rightarrow> string \<times> effect_kind \<times> u64" where
  "effect_key e \<equiv> (e_OperationID e, e_Kind e, e_Occurrence e)"

definition GetEffectByCommand :: "db \<Rightarrow> string \<Rightarrow> string \<Rightarrow> effect option" where
  "GetEffectByCommand s tenantID commandID = lookup_by effect_command (tenantID, commandID) (db_effects s)"

definition GetEffectByOccurrence :: "db \<Rightarrow> string \<Rightarrow> effect_kind \<Rightarrow> u64 \<Rightarrow> effect option" where
  "GetEffectByOccurrence s operationID kind occurrence = lookup_by effect_key (operationID, kind, occurrence) (db_effects s)"

definition LockEffect :: "db \<Rightarrow> string \<Rightarrow> err + effect" where
  "LockEffect s effectID = found (lookup_by e_ID effectID (db_effects s))"

text \<open>The row keeps a lease fence only beside a lease. The occurrence is a positive \<open>bigint\<close>, the
  digest and the kind are checked, and a command identity is unique where it is not empty.\<close>

definition stored_effect :: "effect \<Rightarrow> effect" where
  "stored_effect e = e\<lparr>e_LeaseFence := (if e_LeaseID e = [] then 0 else e_LeaseFence e)\<rparr>"

definition InsertEffect :: "db \<Rightarrow> effect \<Rightarrow> err + db" where
  "InsertEffect s e =
     (if \<not> known_effect_kind (e_Kind e) \<or> e_Occurrence e = 0 \<or> \<not> bigint_ok (e_Occurrence e) \<or> \<not> digestPattern (e_RequestDigest e)
        then Inl ErrStore
      else if list_ex (\<lambda>x. e_ID x = e_ID e \<or> effect_key x = effect_key e \<or>
          e_CommandID e \<noteq> [] \<and> effect_command x = effect_command e) (db_effects s) then Inl ErrDuplicateKey
      else Inr (s\<lparr>db_effects := db_effects s @ [stored_effect e]\<rparr>))"

definition effect_columns :: "effect \<Rightarrow> effect \<Rightarrow> effect" where
  "effect_columns e x =
     x\<lparr>e_State := e_State e, e_Outcome := e_Outcome e, e_DenialCode := e_DenialCode e, e_OutcomeRef := e_OutcomeRef e,
       e_QueryRef := e_QueryRef e, e_Inventory := e_Inventory e, e_InventoryVersion := e_InventoryVersion e,
       e_RecoveryEpoch := e_RecoveryEpoch e, e_ObservedAt := e_ObservedAt e, e_UpdatedAt := e_UpdatedAt e\<rparr>"

definition UpdateEffect :: "db \<Rightarrow> effect \<Rightarrow> db" where
  "UpdateEffect s e = s\<lparr>db_effects := map (\<lambda>x. if e_ID x = e_ID e then effect_columns e x else x) (db_effects s)\<rparr>"

fun definite_or_unknown :: "effect_outcome \<Rightarrow> bool" where
  "definite_or_unknown (EffectOutcomeOther s) = False"
| "definite_or_unknown _ = True"

definition InsertEffectObservation :: "cdb \<Rightarrow> effect_observation \<Rightarrow> err + cdb" where
  "InsertEffectObservation c x =
     (if \<not> bigint_ok (eo_Sequence x) \<or> \<not> definite_or_unknown (eo_Outcome x) then Inl ErrStore
      else if list_ex (\<lambda>y. eo_ID y = eo_ID x \<or>
          (eo_EffectID y, eo_Source y, eo_Sequence y) = (eo_EffectID x, eo_Source x, eo_Sequence x)) (c_effect_observations c)
        then Inl ErrDuplicateKey
      else Inr (c\<lparr>c_effect_observations := c_effect_observations c @ [x]\<rparr>))"

text \<open>A lineage that has an identity keeps it; the answer says whether the row was inserted.\<close>

definition InsertLineageIdentity :: "cdb \<Rightarrow> lineage_identity \<Rightarrow> err + (bool \<times> cdb)" where
  "InsertLineageIdentity c l =
     (if \<not> digestPattern (li_Lineage l) then Inl ErrStore
      else if GetLineageIdentity c (li_TenantID l) (li_Lineage l) \<noteq> None then Inr (False, c)
      else Inr (True, c\<lparr>c_lineages := c_lineages c @ [l]\<rparr>))"

section \<open>Admission\<close>

definition effectContext ::
  "(string \<Rightarrow> bool) \<Rightarrow> string \<Rightarrow> string \<Rightarrow> string \<Rightarrow> instant \<Rightarrow> cdb \<Rightarrow> err + (effect_context \<times> operation)" where
  "effectContext leaseProtected operationID attemptID tenantID now c =
     chk (LockOperation (c_db c) operationID) (\<lambda>ops.
       if op_TenantID ops \<noteq> tenantID then Inl ErrNotFound
       else let rel = (if op_Kind ops = KindRelease then GetRelease c (op_ID ops) else None)
            in Inr (\<lparr>ec_Now = now, ec_Operation = Some ops,
                 ec_Attempt = (if attemptID \<noteq> [] then lookup_by at_ID attemptID (db_attempts (c_db c)) else None),
                 ec_AdmissionClosed = IsAdmissionClosed (c_db c) (op_TenantID ops),
                 ec_LeaseRequired = leaseProtected (sj_ProfileID (op_Subject ops)), ec_Release = rel,
                 ec_ReleaseEffects = (case rel of None \<Rightarrow> (\<lambda>_. None)
                   | Some p \<Rightarrow> releaseEffects c [rl_ReviewEffectID p, rt_EffectID (rl_Npm p), rt_EffectID (rl_Browser p), rt_EffectID (rl_Activation p)])\<rparr>,
               ops))"

definition bindLineage :: "operation \<Rightarrow> instant \<Rightarrow> effect_request \<Rightarrow> cdb \<Rightarrow> err + cdb" where
  "bindLineage ops now req c =
     (if \<not> BindsLineage ops req then Inr c
      else chk (found (GetBrief c (sj_BriefID (op_Subject ops)))) (\<lambda>b.
        case br_Component b of
          None \<Rightarrow> Inr c
        | Some ci \<Rightarrow>
            chk (InsertLineageIdentity c \<lparr>li_TenantID = op_TenantID ops, li_Lineage = sj_SubjectDigest (op_Subject ops), li_Identity = ci,
                   li_OperationID = op_ID ops, li_BriefID = br_ID b, li_RecordedAt = now\<rparr>) (\<lambda>(inserted, c1).
              if inserted then Inr c1
              else chk (found (GetLineageIdentity c1 (op_TenantID ops) (sj_SubjectDigest (op_Subject ops)))) (\<lambda>recorded.
                chk_err (CheckLineageIdentity recorded ci) (Inr c1)))))"

definition effect_request_digest :: "command_identity \<Rightarrow> effect_request \<Rightarrow> effect_request" where
  "effect_request_digest cmd req = (if er_RequestDigest req = [] then req\<lparr>er_RequestDigest := cmd_RequestDigest cmd\<rparr> else req)"

text \<open>The record a reentered request answers, and whether it goes on.\<close>

definition effect_reenter :: "effect \<Rightarrow> command_identity \<Rightarrow> effect_request \<Rightarrow> cdb \<Rightarrow> err + ((effect \<times> bool) \<times> cdb)" where
  "effect_reenter e cmd req c =
     chk_err (Effect_Binds e (cmd_TenantID cmd) req (cmd_RequestDigest cmd)) (Inr ((e, e_State e = EffectPrepared), c))"

definition effect_record ::
  "string \<Rightarrow> instant \<Rightarrow> command_identity \<Rightarrow> effect_request \<Rightarrow> operation \<Rightarrow> cdb \<Rightarrow> err + ((effect \<times> bool) \<times> cdb)" where
  "effect_record new_id now cmd req ops c =
     (let fresh = NewEffect new_id req ops now cmd
      in chk (InsertEffect (c_db c) fresh) (\<lambda>s1.
         if BindsLineage ops req \<and> op_CandidateEffectID ops = []
         then chk (write_transition ops (''candidate:'' @ e_ID fresh) now (candidate_recorded (e_ID fresh)) id s1) (\<lambda>(_, s2).
              Inr ((fresh, True), c\<lparr>c_db := s2\<rparr>))
         else Inr ((fresh, True), c\<lparr>c_db := s1\<rparr>)))"

definition effect_prepare ::
  "(string \<Rightarrow> bool) \<Rightarrow> string \<Rightarrow> instant \<Rightarrow> command_identity \<Rightarrow> effect_request \<Rightarrow> cdb \<Rightarrow> err + ((effect \<times> bool) \<times> cdb)" where
  "effect_prepare leaseProtected new_id now cmd req c =
     (case GetEffectByCommand (c_db c) (cmd_TenantID cmd) (cmd_CommandID cmd) of
        Some fnd \<Rightarrow> effect_reenter fnd cmd req c
      | None \<Rightarrow>
          chk (effectContext leaseProtected (er_OperationID req) (er_AttemptID req) (cmd_TenantID cmd) now c) (\<lambda>(ec, ops).
          case GetEffectByOccurrence (c_db c) (op_ID ops) (er_Kind req) (er_Occurrence req) of
            Some other \<Rightarrow>
              if e_CommandID other \<noteq> cmd_CommandID cmd then Inl ErrIdempotencyConflict else effect_reenter other cmd req c
          | None \<Rightarrow>
              (case chk_err (CheckEffect req ec) (bindLineage ops now req c) of
                 Inl (Denial code) \<Rightarrow>
                   (let e = DeniedEffect new_id req ops now cmd code
                    in chk (InsertEffect (c_db c) e) (\<lambda>s1. Inr ((e, False), c\<lparr>c_db := s1\<rparr>)))
               | Inl e \<Rightarrow> Inl e
               | Inr c1 \<Rightarrow> effect_record new_id now cmd req ops c1)))"

definition effect_consume ::
  "(string \<Rightarrow> bool) \<Rightarrow> instant \<Rightarrow> command_identity \<Rightarrow> effect_request \<Rightarrow> effect \<Rightarrow> string \<Rightarrow> cdb \<Rightarrow> err + ((effect \<times> bool) \<times> cdb)" where
  "effect_consume leaseProtected now cmd req e version c =
     chk (effectContext leaseProtected (e_OperationID e) (e_AttemptID e) (cmd_TenantID cmd) now c) (\<lambda>(ec, ops).
     chk (LockEffect (c_db c) (e_ID e)) (\<lambda>locked.
     chk_err (Effect_Binds locked (cmd_TenantID cmd) req (cmd_RequestDigest cmd))
     (if e_State locked \<noteq> EffectPrepared then Inr ((locked, False), c)
      else let l1 = locked\<lparr>e_UpdatedAt := now\<rparr>
           in case CheckEffect (Effect_Request l1) ec of
             Some (Denial code) \<Rightarrow>
               chk (Effect_Deny l1 code) (\<lambda>d0.
               let d = d0\<lparr>e_Inventory := InventoryConfirmed, e_InventoryVersion := version\<rparr>
               in Inr ((d, False), c\<lparr>c_db := UpdateEffect (c_db c) d\<rparr>))
           | Some e \<Rightarrow> Inl e
           | None \<Rightarrow> chk (Effect_Permit l1 version) (\<lambda>d. Inr ((d, True), c\<lparr>c_db := UpdateEffect (c_db c) d\<rparr>)))))"

definition effect_uncertain :: "instant \<Rightarrow> string \<Rightarrow> cdb \<Rightarrow> err + cdb" where
  "effect_uncertain now effectID c =
     chk (LockEffect (c_db c) effectID) (\<lambda>e.
       if e_State e \<noteq> EffectPrepared \<or> e_Inventory e \<noteq> InventoryPending then Inr c
       else Inr (c\<lparr>c_db := UpdateEffect (c_db c) (e\<lparr>e_Inventory := InventoryUncertain, e_UpdatedAt := now\<rparr>)\<rparr>))"

record effect_permit =
  ep_Effect :: effect
  ep_Permitted :: bool
  ep_DenialCode :: string

text \<open>The whole call: \<open>put\<close> is the answer of the inventory to the published obligation. A failed
  write is marked, and the mark's own failure only logged.\<close>

definition Effects_Prepare ::
  "(string \<Rightarrow> bool) \<Rightarrow> string \<Rightarrow> instant \<Rightarrow> instant \<Rightarrow> (effect \<Rightarrow> err + string) \<Rightarrow> command_identity \<Rightarrow> effect_request \<Rightarrow> cdb \<Rightarrow>
   (err + effect_permit) \<times> cdb" where
  "Effects_Prepare leaseProtected new_id now later put cmd req0 c =
     (let req = effect_request_digest cmd req0
      in if er_RequestDigest req \<noteq> cmd_RequestDigest cmd then (Inl ErrInvalid, c)
         else case effect_prepare leaseProtected new_id now cmd req c of
           Inl e \<Rightarrow> (Inl e, c)
         | Inr ((e, False), c1) \<Rightarrow> (Inr \<lparr>ep_Effect = e, ep_Permitted = False, ep_DenialCode = e_DenialCode e\<rparr>, c1)
         | Inr ((e, True), c1) \<Rightarrow>
             (case put e of
                Inl _ \<Rightarrow> (Inl ErrEffectUncertain, case effect_uncertain later (e_ID e) c1 of Inl _ \<Rightarrow> c1 | Inr c2 \<Rightarrow> c2)
              | Inr version \<Rightarrow>
                  (case effect_consume leaseProtected later cmd req e version c1 of
                     Inl x \<Rightarrow> (Inl x, c1)
                   | Inr ((d, ok), c2) \<Rightarrow> (Inr \<lparr>ep_Effect = d, ep_Permitted = ok, ep_DenialCode = e_DenialCode d\<rparr>, c2))))"

section \<open>Outcomes\<close>

definition Effects_Get :: "string \<Rightarrow> string \<Rightarrow> string \<Rightarrow> effect_kind option \<Rightarrow> u64 \<Rightarrow> cdb \<Rightarrow> err + effect" where
  "Effects_Get tenantID effectID operationID kind occurrence c =
     chk (if effectID \<noteq> [] then found (GetEffect (c_db c) effectID)
          else if operationID \<noteq> [] \<and> kind \<noteq> None \<and> occurrence > 0
            then found (GetEffectByOccurrence (c_db c) operationID (the kind) occurrence)
          else Inl ErrInvalid) (\<lambda>e.
       if e_TenantID e \<noteq> tenantID then Inl ErrNotFound else Inr e)"

definition Effects_Observe ::
  "string \<Rightarrow> instant \<Rightarrow> string \<Rightarrow> string \<Rightarrow> string \<Rightarrow> u64 \<Rightarrow> effect_outcome \<Rightarrow> string \<Rightarrow> string \<Rightarrow> instant \<Rightarrow> cdb \<Rightarrow>
   err + ((effect \<times> bool) \<times> cdb)" where
  "Effects_Observe obs_id now tenantID effectID src sq out receiptDigest nativeRef observedAt c =
     chk (found (GetEffect (c_db c) effectID)) (\<lambda>peek.
     if e_TenantID peek \<noteq> tenantID then Inl ErrNotFound
     else chk (LockOperation (c_db c) (e_OperationID peek)) (\<lambda>_.
          chk (LockEffect (c_db c) effectID) (\<lambda>locked.
          if GetEffectObservation c (e_ID locked) src sq \<noteq> None then Inr ((locked, True), c)
          else chk (Effect_Observe locked out receiptDigest observedAt) (\<lambda>(e0, _).
               let e = e0\<lparr>e_UpdatedAt := now\<rparr>
               in chk (InsertEffectObservation c \<lparr>eo_ID = obs_id, eo_EffectID = e_ID e, eo_Source = src, eo_Sequence = sq, eo_Outcome = out,
                         eo_ReceiptDigest = receiptDigest, eo_NativeReference = nativeRef, eo_ObservedAt = observedAt\<rparr>) (\<lambda>c1.
                  Inr ((e, False), c1\<lparr>c_db := UpdateEffect (c_db c1) e\<rparr>))))))"

record outcome_report =
  or_Known :: bool
  or_Source :: string
  or_Sequence :: u64
  or_Outcome :: effect_outcome
  or_ReceiptRef :: string
  or_NativeReference :: string
  or_ObservedAt :: instant

definition no_report :: outcome_report where
  "no_report = \<lparr>or_Known = False, or_Source = [], or_Sequence = 0, or_Outcome = EffectOutcomeOther [], or_ReceiptRef = [],
     or_NativeReference = [], or_ObservedAt = 0\<rparr>"

definition QueryOriginal ::
  "(effect \<Rightarrow> err + outcome_report) \<Rightarrow> string \<Rightarrow> instant \<Rightarrow> string \<Rightarrow> string \<Rightarrow> cdb \<Rightarrow> err + ((effect \<times> outcome_report) \<times> cdb)" where
  "QueryOriginal QueryEffect obs_id now tenantID effectID c =
     chk (Effects_Get tenantID effectID [] None 0 c) (\<lambda>e.
     if \<not> Effect_Unresolved e then Inr ((e, no_report), c)
     else chk (QueryEffect e) (\<lambda>rep.
          if \<not> or_Known rep then Inr ((e, rep), c)
          else chk (Effects_Observe obs_id now tenantID (e_ID e) (or_Source rep) (or_Sequence rep) (or_Outcome rep) (or_ReceiptRef rep)
                     (or_NativeReference rep) (or_ObservedAt rep) c) (\<lambda>((e1, _), c1).
               Inr ((e1, rep), c1))))"

end
