(* ===== verification/Effects_Run.thy ===== *)
theory Effects_Run
  imports Effects_Service Control_Plane
begin

text \<open>
  The ledger of guarded mutations under any interleaving of its transactions: the two halves of
  \<open>Prepare\<close>, the mark of a failed inventory write, observations, the resolutions of the recovery
  service and every other transaction of the program. The permits the callers were told of are
  the second component of a state.
\<close>

section \<open>What each transaction does\<close>

lemma InsertLineageIdentity_Inr:
  "InsertLineageIdentity c l = Inr (b, c') \<Longrightarrow> c' = (if b then c\<lparr>c_lineages := c_lineages c @ [l]\<rparr> else c)"
  by (auto simp: InsertLineageIdentity_def split: if_splits)

lemma bindLineage_Inr:
  assumes "bindLineage ops now req c = Inr c'"
  shows "\<exists>ls. c' = c\<lparr>c_lineages := ls\<rparr>"
proof (cases "BindsLineage ops req")
  case True
  with assms obtain b where b: "GetBrief c (sj_BriefID (op_Subject ops)) = Some b" by (auto simp: bindLineage_def fallible)
  show ?thesis
  proof (cases "br_Component b")
    case None
    then show ?thesis using assms True b by (intro exI [of _ "c_lineages c"]) (simp add: bindLineage_def)
  next
    case (Some ci)
    with assms True b obtain ins c1 where "InsertLineageIdentity c \<lparr>li_TenantID = op_TenantID ops, li_Lineage = sj_SubjectDigest (op_Subject ops),
        li_Identity = ci, li_OperationID = op_ID ops, li_BriefID = br_ID b, li_RecordedAt = now\<rparr> = Inr (ins, c1)" "c' = c1"
      by (auto simp: bindLineage_def chk_Inr_iff chk_err_Inr_iff split: if_splits)
    then show ?thesis using InsertLineageIdentity_Inr by (cases ins) (force intro: exI [of _ "c_lineages c"])+
  qed
qed (use assms in \<open>auto simp: bindLineage_def intro: exI [of _ "c_lineages c"]\<close>)

lemma bindLineage_frame:
  "bindLineage ops now req c = Inr c' \<Longrightarrow> c_db c' = c_db c \<and> c_permits c' = c_permits c \<and> c_resource_pools c' = c_resource_pools c"
  by (drule bindLineage_Inr) auto

lemma effect_prepare_Inr:
  assumes "effect_prepare leaseProtected new_id now cmd req c = Inr ((e, go), c')"
  obtains (reentered) "c' = c"
  | (denied) s1 where "InsertEffect (c_db c) e = Inr s1" "e_State e = EffectDenied" "c' = c\<lparr>c_db := s1\<rparr>" "\<not> go"
  | (recorded) ops ec c1 s1 where "effectContext leaseProtected (er_OperationID req) (er_AttemptID req) (cmd_TenantID cmd) now c = Inr (ec, ops)"
      "CheckEffect req ec = None" "bindLineage ops now req c = Inr c1" "e = NewEffect new_id req ops now cmd"
      "InsertEffect (c_db c) e = Inr s1" "c' = c1\<lparr>c_db := s1\<rparr> \<or> (BindsLineage ops req \<and> op_CandidateEffectID ops = [] \<and>
         (\<exists>x s2. write_transition ops (''candidate:'' @ e_ID e) now (candidate_recorded (e_ID e)) id s1 = Inr (x, s2) \<and> c' = c1\<lparr>c_db := s2\<rparr>))"
proof (cases "GetEffectByCommand (c_db c) (cmd_TenantID cmd) (cmd_CommandID cmd)")
  case (Some fnd)
  then have "c' = c" using assms by (simp add: effect_prepare_def effect_reenter_def fallible)
  then show thesis by (rule reentered)
next
  case none: None
  from assms none obtain ec ops where ctx: "effectContext leaseProtected (er_OperationID req) (er_AttemptID req) (cmd_TenantID cmd) now c = Inr (ec, ops)"
    by (auto simp: effect_prepare_def fallible)
  show thesis
  proof (cases "GetEffectByOccurrence (c_db c) (op_ID ops) (er_Kind req) (er_Occurrence req)")
    case (Some other)
    then have "c' = c" using assms none ctx by (simp add: effect_prepare_def effect_reenter_def fallible split: if_splits)
    then show thesis by (rule reentered)
  next
    case None
    note tx = assms [unfolded effect_prepare_def none option.case ctx chk_Inr prod.case None]
    show thesis
    proof (cases "chk_err (CheckEffect req ec) (bindLineage ops now req c)")
      case (Inl x)
      then obtain code where "x = Denial code" using tx by (cases x) simp_all
      with tx Inl denied show thesis by (auto simp: Let_def chk_Inr_iff DeniedEffect_def)
    next
      case (Inr c1)
      then have bound: "CheckEffect req ec = None" "bindLineage ops now req c = Inr c1" by (simp_all add: fallible)
      from tx Inr have "effect_record new_id now cmd req ops c1 = Inr ((e, go), c')" by simp
      then show thesis using recorded [OF ctx bound] bindLineage_frame [OF bound(2)]
        by (auto simp: effect_record_def Let_def chk_Inr_iff split: if_splits)
    qed
  qed
qed

lemma effectContext_Inr:
  "effectContext leaseProtected operationID attemptID tenantID now c = Inr (ec, ops) \<Longrightarrow>
     lookup_by op_ID operationID (db_operations (c_db c)) = Some ops \<and> op_TenantID ops = tenantID \<and> ec_Operation ec = Some ops \<and> ec_Now ec = now \<and>
     ec_AdmissionClosed ec = IsAdmissionClosed (c_db c) (op_TenantID ops) \<and> ec_LeaseRequired ec = leaseProtected (sj_ProfileID (op_Subject ops)) \<and>
     ec_Attempt ec = (if attemptID \<noteq> [] then lookup_by at_ID attemptID (db_attempts (c_db c)) else None)"
  by (auto simp: effectContext_def LockOperation_def Let_def fallible split: if_splits)

lemma effect_consume_Inr:
  assumes "effect_consume leaseProtected now cmd req e0 version c = Inr ((e, ok), c')"
  obtains (spent) "c' = c" "\<not> ok" "e_State e \<noteq> EffectPrepared"
  | (denied) locked where "lookup_by e_ID (e_ID e0) (db_effects (c_db c)) = Some locked" "e_State locked = EffectPrepared" "\<not> ok"
      "e_ID e = e_ID locked" "e_State e = EffectDenied" "c' = c\<lparr>c_db := UpdateEffect (c_db c) e\<rparr>"
  | (permitted) locked ec ops where "lookup_by e_ID (e_ID e0) (db_effects (c_db c)) = Some locked" "e_State locked = EffectPrepared" "ok"
      "effectContext leaseProtected (e_OperationID e0) (e_AttemptID e0) (cmd_TenantID cmd) now c = Inr (ec, ops)"
      "Effect_Binds locked (cmd_TenantID cmd) req (cmd_RequestDigest cmd) = None" "CheckEffect (Effect_Request locked) ec = None"
      "e = locked\<lparr>e_UpdatedAt := now, e_State := EffectPermitted, e_Inventory := InventoryConfirmed, e_InventoryVersion := version\<rparr>"
      "c' = c\<lparr>c_db := UpdateEffect (c_db c) e\<rparr>"
proof -
  from assms obtain ec ops locked where ctx: "effectContext leaseProtected (e_OperationID e0) (e_AttemptID e0) (cmd_TenantID cmd) now c = Inr (ec, ops)"
    and row: "lookup_by e_ID (e_ID e0) (db_effects (c_db c)) = Some locked"
    and binds: "Effect_Binds locked (cmd_TenantID cmd) req (cmd_RequestDigest cmd) = None"
    by (auto simp: effect_consume_def LockEffect_def fallible)
  note tx = assms [unfolded effect_consume_def LockEffect_def ctx row binds found_Some chk_Inr chk_err_None prod.case Let_def]
  have req: "Effect_Request (locked\<lparr>e_UpdatedAt := now\<rparr>) = Effect_Request locked" by (simp add: Effect_Request_def)
  show thesis
  proof (cases "e_State locked = EffectPrepared")
    case False
    then show thesis using tx spent by simp
  next
    case True
    show thesis
    proof (cases "CheckEffect (Effect_Request locked) ec")
      case None
      then show thesis using tx True permitted [OF row True _ ctx binds] by (auto simp: req Effect_Permit_def)
    next
      case (Some x)
      then obtain code where "x = Denial code" using tx True by (cases x) (simp_all add: req)
      then show thesis using tx True Some denied [OF row True] by (auto simp: req Effect_Deny_def)
    qed
  qed
qed

lemma Effects_Observe_Inr:
  assumes "Effects_Observe obs_id now tenantID effectID src sq out receiptDigest nativeRef observedAt c = Inr ((e, existing), c')"
  obtains (known) "c' = c"
  | (applied) locked e0 b where "lookup_by e_ID effectID (db_effects (c_db c)) = Some locked" "Effect_Observe locked out receiptDigest observedAt = Inr (e0, b)"
      "e = e0\<lparr>e_UpdatedAt := now\<rparr>" "c_db c' = UpdateEffect (c_db c) e" "c_permits c' = c_permits c" "c_resource_pools c' = c_resource_pools c"
proof -
  from assms obtain locked where row: "lookup_by e_ID effectID (db_effects (c_db c)) = Some locked"
    by (auto simp: Effects_Observe_def LockEffect_def GetEffect_def fallible split: if_splits)
  show thesis
  proof (cases "GetEffectObservation c (e_ID locked) src sq")
    case (Some x)
    then have "c' = c" using assms row by (auto simp: Effects_Observe_def LockEffect_def GetEffect_def fallible split: if_splits)
    then show thesis by (rule known)
  next
    case None
    then show thesis using assms row applied
      by (auto simp: Effects_Observe_def LockEffect_def GetEffect_def Let_def fallible InsertEffectObservation_def split: if_splits)
  qed
qed

lemma Effect_Observe_ids:
  "Effect_Observe l out ref at = Inr (e, b) \<Longrightarrow> e_ID e = e_ID l \<and> e_State e \<noteq> EffectPrepared \<and> e_Inventory e = e_Inventory l"
  by (cases out) (auto simp: Effect_Observe_def split: if_splits)

section \<open>The transition system\<close>

inductive effects_step :: "(string \<Rightarrow> bool) \<Rightarrow> cdb \<times> effect list \<Rightarrow> cdb \<times> effect list \<Rightarrow> bool" for leaseProtected where
  prepare: "effect_prepare leaseProtected new_id now cmd req c = Inr (r, c') \<Longrightarrow> effects_step leaseProtected (c, ps) (c', ps)"
| permit: "effect_consume leaseProtected now cmd req e0 version c = Inr ((e, True), c') \<Longrightarrow> effects_step leaseProtected (c, ps) (c', e # ps)"
| refuse: "effect_consume leaseProtected now cmd req e0 version c = Inr ((e, False), c') \<Longrightarrow> effects_step leaseProtected (c, ps) (c', ps)"
| uncertain: "effect_uncertain now effectID c = Inr c' \<Longrightarrow> effects_step leaseProtected (c, ps) (c', ps)"
| observe: "Effects_Observe obs_id now tenantID effectID src sq out receiptDigest nativeRef observedAt c = Inr (r, c') \<Longrightarrow>
     effects_step leaseProtected (c, ps) (c', ps)"
| not_sent: "LockEffect (c_db c) effectID = Inr locked \<Longrightarrow> Effect_ConfirmNotSent locked evidenceRef = Inr e \<Longrightarrow>
     db_effects (c_db c') = db_effects (UpdateEffect (c_db c) (e\<lparr>e_UpdatedAt := now\<rparr>)) \<Longrightarrow> effects_step leaseProtected (c, ps) (c', ps)"
| restore: "InsertEffect (c_db c) e = Inr s' \<Longrightarrow> e_State e = EffectUnknown \<Longrightarrow> db_effects (c_db c') = db_effects s' \<Longrightarrow>
     effects_step leaseProtected (c, ps) (c', ps)"
| rest: "db_effects (c_db c') = db_effects (c_db c) \<Longrightarrow> effects_step leaseProtected (c, ps) (c', ps)"

inductive effects_run :: "(string \<Rightarrow> bool) \<Rightarrow> cdb \<times> effect list \<Rightarrow> cdb \<times> effect list \<Rightarrow> bool" for leaseProtected where
  idle: "effects_run leaseProtected w w"
| tick: "effects_run leaseProtected w w1 \<Longrightarrow> effects_step leaseProtected w1 w2 \<Longrightarrow> effects_run leaseProtected w w2"

section \<open>The invariant\<close>

text \<open>A permit is backed by a row of its mutation that is no longer prepared and whose obligation is
  published.\<close>

definition permit_row :: "effect list \<Rightarrow> effect \<Rightarrow> bool" where
  "permit_row rows p \<longleftrightarrow> (\<exists>x \<in> set rows. e_ID x = e_ID p \<and> effect_key x = effect_key p \<and> e_State x \<noteq> EffectPrepared \<and>
     e_Inventory x = InventoryConfirmed)"

definition effects_inv :: "effect list \<Rightarrow> effect list \<Rightarrow> bool" where
  "effects_inv rows ps \<longleftrightarrow> distinct (map e_ID rows) \<and> distinct (map effect_key rows) \<and> distinct (map e_ID ps) \<and> list_all (permit_row rows) ps"

lemma effects_inv_insert:
  assumes "InsertEffect s e = Inr s'" and "effects_inv (db_effects s) ps"
  shows "effects_inv (db_effects s') ps"
  using assms by (fastforce simp: InsertEffect_def effects_inv_def permit_row_def stored_effect_def list_ex_iff list_all_iff split: if_splits)

lemma effects_inv_update:
  assumes "effects_inv (db_effects s) ps" and "lookup_by e_ID (e_ID e) (db_effects s) = Some l"
    and "e_State e = EffectPrepared \<Longrightarrow> e_State l = EffectPrepared"
    and "e_State l \<noteq> EffectPrepared \<Longrightarrow> e_Inventory e = e_Inventory l"
  shows "effects_inv (db_effects (UpdateEffect s e)) ps"
proof -
  define f where "f x = (if e_ID x = e_ID e then effect_columns e x else x)" for x
  have f [simp]: "e_ID (f x) = e_ID x" "effect_key (f x) = effect_key x" for x
    by (simp_all add: f_def effect_columns_def)
  have rows: "db_effects (UpdateEffect s e) = map f (db_effects s)" by (simp add: UpdateEffect_def f_def [abs_def])
  have "permit_row (map f (db_effects s)) p" if p: "permit_row (db_effects s) p" for p
  proof -
    from p obtain x where x: "x \<in> set (db_effects s)" "e_ID x = e_ID p" "effect_key x = effect_key p" "e_State x \<noteq> EffectPrepared"
      "e_Inventory x = InventoryConfirmed" by (auto simp: permit_row_def)
    have "x = l" if "e_ID x = e_ID e" using assms(1,2) lookup_by_mem [OF _ x(1), of e_ID] that by (simp add: effects_inv_def)
    then have "e_State (f x) \<noteq> EffectPrepared \<and> e_Inventory (f x) = InventoryConfirmed"
      using x(4,5) assms(3,4) by (auto simp: f_def effect_columns_def)
    then show ?thesis unfolding permit_row_def using x(1-3) f by (intro bexI [of _ "f x"]) auto
  qed
  then show ?thesis using assms(1) by (auto simp: rows effects_inv_def list_all_iff comp_def)
qed

lemma effects_inv_permit:
  assumes "effects_inv (db_effects s) ps" and "lookup_by e_ID i (db_effects s) = Some l" and "e_State l = EffectPrepared"
    and "e = l\<lparr>e_UpdatedAt := now, e_State := EffectPermitted, e_Inventory := InventoryConfirmed, e_InventoryVersion := version\<rparr>"
  shows "effects_inv (db_effects (UpdateEffect s e)) (e # ps)"
proof -
  have id: "e_ID e = e_ID l" and key: "effect_key e = effect_key l" by (simp_all add: assms(4))
  have l: "l \<in> set (db_effects s)" "lookup_by e_ID (e_ID e) (db_effects s) = Some l" using lookup_by_SomeD [OF assms(2)] assms(2) id by simp_all
  have "e_ID e \<notin> e_ID ` set ps"
  proof
    assume "e_ID e \<in> e_ID ` set ps"
    then obtain x where "x \<in> set (db_effects s)" "e_ID x = e_ID l" "e_State x \<noteq> EffectPrepared"
      using assms(1) id by (auto simp: effects_inv_def permit_row_def list_all_iff)
    moreover from this have "x = l" using assms(1) l(1) lookup_by_mem [of e_ID "db_effects s"] by (metis effects_inv_def option.inject)
    ultimately show False using assms(3) by simp
  qed
  moreover have "permit_row (db_effects (UpdateEffect s e)) e"
  proof -
    have "effect_columns e l \<in> set (db_effects (UpdateEffect s e))" using l(1) id by (force simp: UpdateEffect_def)
    then show ?thesis unfolding permit_row_def
      by (rule bexI [rotated]) (simp add: effect_columns_def assms(4))
  qed
  moreover have "effects_inv (db_effects (UpdateEffect s e)) ps"
    by (rule effects_inv_update [OF assms(1) l(2)]) (simp_all add: assms(3,4))
  ultimately show ?thesis by (simp add: effects_inv_def)
qed

lemma effects_inv_step:
  assumes "effects_step leaseProtected w w'" and "effects_inv (db_effects (c_db (fst w))) (snd w)"
  shows "effects_inv (db_effects (c_db (fst w'))) (snd w')"
  using assms
proof cases
  case (prepare new_id now cmd req c r c' ps)
  obtain e go where r: "r = (e, go)" by (cases r)
  from prepare(3) [unfolded r] show ?thesis
  proof (cases rule: effect_prepare_Inr)
    case (recorded ops ec c1 s1)
    then have "db_effects (c_db c') = db_effects s1"
      by (auto simp: write_transition_def Let_def fallible append_event_def UpdateOperation_def split: prod.splits)
    then show ?thesis using effects_inv_insert [OF recorded(5)] assms(2) prepare by simp
  qed (use assms(2) prepare effects_inv_insert in auto)
next
  case (permit now cmd req e0 version c e c' ps)
  from permit(3) show ?thesis
  proof (cases rule: effect_consume_Inr)
    case (permitted locked ec ops)
    then show ?thesis using effects_inv_permit [OF _ permitted(1,2,7)] assms(2) permit by simp
  qed simp_all
next
  case (refuse now cmd req e0 version c e c' ps)
  from refuse(3) show ?thesis
  proof (cases rule: effect_consume_Inr)
    case (denied locked)
    have "lookup_by e_ID (e_ID e) (db_effects (c_db c)) = Some locked" using denied(1,4) lookup_by_SomeD [OF denied(1)] by simp
    then show ?thesis using effects_inv_update [of "c_db c" ps e locked] denied assms(2) refuse by simp
  qed (use assms(2) refuse in simp_all)
next
  case (uncertain now effectID c c' ps)
  then consider "c' = c" | e where "lookup_by e_ID effectID (db_effects (c_db c)) = Some e" "e_State e = EffectPrepared"
    "c' = c\<lparr>c_db := UpdateEffect (c_db c) (e\<lparr>e_Inventory := InventoryUncertain, e_UpdatedAt := now\<rparr>)\<rparr>"
    by (auto simp: effect_uncertain_def LockEffect_def fallible split: if_splits)
  then show ?thesis
  proof cases
    case (2 e)
    have "lookup_by e_ID (e_ID e) (db_effects (c_db c)) = Some e" using 2(1) lookup_by_SomeD [OF 2(1)] by simp
    then show ?thesis using effects_inv_update [of "c_db c" ps "e\<lparr>e_Inventory := InventoryUncertain, e_UpdatedAt := now\<rparr>" e] 2 assms(2) uncertain
      by simp
  qed (use assms(2) uncertain in simp)
next
  case (observe obs_id now tenantID effectID src sq out receiptDigest nativeRef observedAt c r c' ps)
  obtain e ex where r: "r = (e, ex)" by (cases r)
  from observe(3) [unfolded r] show ?thesis
  proof (cases rule: Effects_Observe_Inr)
    case (applied locked e0 b)
    note O = Effect_Observe_ids [OF applied(2)]
    have "lookup_by e_ID (e_ID e) (db_effects (c_db c)) = Some locked" using applied(1,3) lookup_by_SomeD [OF applied(1)] O by simp
    then show ?thesis using effects_inv_update [of "c_db c" ps e locked] applied O assms(2) observe by simp
  qed (use assms(2) observe in simp)
next
  case (not_sent c effectID locked evidenceRef e c' now ps)
  have row: "lookup_by e_ID effectID (db_effects (c_db c)) = Some locked" using not_sent(3) by (simp add: LockEffect_def fallible)
  have e: "e_ID e = e_ID locked" "e_State e = EffectConfirmedNotSent" "e_Inventory e = e_Inventory locked"
    using not_sent(4) by (auto simp: Effect_ConfirmNotSent_def split: if_splits)
  have "lookup_by e_ID (e_ID e) (db_effects (c_db c)) = Some locked" using row lookup_by_SomeD [OF row] e by simp
  then show ?thesis using effects_inv_update [of "c_db c" ps "e\<lparr>e_UpdatedAt := now\<rparr>" locked] e assms(2) not_sent by simp
next
  case (restore c e s' c' ps)
  then show ?thesis using effects_inv_insert [OF restore(3)] assms(2) by simp
next
  case rest
  then show ?thesis using assms(2) by simp
qed

lemma effects_inv_run:
  assumes "effects_run leaseProtected w w'" and "effects_inv (db_effects (c_db (fst w))) (snd w)"
  shows "effects_inv (db_effects (c_db (fst w'))) (snd w')"
  using assms by (induction rule: effects_run.induct) (auto intro: effects_inv_step)

end
