(* ===== verification/Effects_Properties.thy ===== *)
theory Effects_Properties
  imports Effects_Run Control_Scenario
begin

text \<open>
  The properties of the guarded mutations, and that their transactions are steps of the control plane.
\<close>

section \<open>The effect transactions are steps of the control plane\<close>

lemma effect_writes [simp]:
  "db_operations (UpdateEffect s e) = db_operations s" "db_events (UpdateEffect s e) = db_events s" "exec_rows (UpdateEffect s e) = exec_rows s"
  by (simp_all add: UpdateEffect_def exec_rows_def)

lemma InsertEffect_frame:
  "InsertEffect s e = Inr s' \<Longrightarrow> db_operations s' = db_operations s \<and> db_events s' = db_events s \<and> exec_rows s' = exec_rows s"
  by (auto simp: InsertEffect_def exec_rows_def split: if_splits)

lemma effect_prepare_ctl:
  assumes "effect_prepare leaseProtected new_id now cmd req c = Inr (r, c')"
  shows "ctl_step ps sv rs c c'"
proof -
  obtain e go where r: "r = (e, go)" by (cases r)
  from assms [unfolded r] show ?thesis
  proof (cases rule: effect_prepare_Inr)
    case reentered
    then show ?thesis by (intro ctl_step.other) simp_all
  next
    case (denied s1)
    then show ?thesis using InsertEffect_frame [OF denied(1)] by (intro ctl_step.other) (simp_all add: quiet_rest)
  next
    case (recorded ops ec c1 s1)
    note F = InsertEffect_frame [OF recorded(5)] and L = bindLineage_frame [OF recorded(3)] and O = effectContext_Inr [OF recorded(1)]
    have "quiet (c_db c) (c_db c')"
      using recorded(6)
    proof (elim disjE conjE exE)
      fix x s2
      assume w: "write_transition ops (''candidate:'' @ e_ID e) now (candidate_recorded (e_ID e)) id s1 = Inr (x, s2)" "c' = c1\<lparr>c_db := s2\<rparr>"
        and b: "BindsLineage ops req" "op_CandidateEffectID ops = []"
      have "op_change ops (candidate_recorded (e_ID e))" using op_change.RecordCandidate [OF recorded(2) _ b] O by simp
      from quiet_write [OF w(1) _ this, of "er_OperationID req" "c_db c"] show ?thesis using O F by (simp add: w(2))
    qed (use F in \<open>simp add: quiet_rest\<close>)
    moreover have "c_permits c' = c_permits c" "c_resource_pools c' = c_resource_pools c" using recorded(6) L by auto
    ultimately show ?thesis by (rule ctl_step.other)
  qed
qed

lemma effect_consume_ctl:
  assumes "effect_consume leaseProtected now cmd req e0 version c = Inr (r, c')"
  shows "ctl_step ps sv rs c c'"
proof -
  obtain e ok where r: "r = (e, ok)" by (cases r)
  from assms [unfolded r] show ?thesis
    by (cases rule: effect_consume_Inr) (intro ctl_step.other; simp add: quiet_rest)+
qed

lemma Effects_Observe_ctl:
  assumes "Effects_Observe obs_id now tenantID effectID src sq out receiptDigest nativeRef observedAt c = Inr (r, c')"
  shows "ctl_step ps sv rs c c'"
proof -
  obtain e ex where r: "r = (e, ex)" by (cases r)
  from assms [unfolded r] show ?thesis
    by (cases rule: Effects_Observe_Inr) (intro ctl_step.other; simp add: quiet_rest)+
qed


section \<open>A call is a run\<close>

lemma Effects_Prepare_run:
  assumes "Effects_Prepare leaseProtected new_id now now2 put cmd req c = (res, c')"
  shows "effects_run leaseProtected (c, []) (c', case res of Inl _ \<Rightarrow> [] | Inr p \<Rightarrow> if ep_Permitted p then [ep_Effect p] else [])"
proof (cases "er_RequestDigest (effect_request_digest cmd req) = cmd_RequestDigest cmd")
  case False
  then show ?thesis using assms by (auto simp: Effects_Prepare_def Let_def intro: effects_run.idle)
next
  case True
  note tx = assms [unfolded Effects_Prepare_def Let_def] True
  show ?thesis
  proof (cases "effect_prepare leaseProtected new_id now cmd (effect_request_digest cmd req) c")
    case (Inl x)
    then show ?thesis using tx by (auto intro: effects_run.idle)
  next
    case (Inr z)
    obtain e go c1 where z: "z = ((e, go), c1)" by (metis prod.collapse)
    have first: "effects_run leaseProtected (c, []) (c1, [])"
      by (rule effects_run.tick [OF effects_run.idle effects_step.prepare [OF Inr [unfolded z]]])
    show ?thesis
    proof (cases "go \<and> (\<exists>v. put e = Inr v)")
      case False
      then show ?thesis using tx Inr z first effects_run.tick [OF first effects_step.uncertain]
        by (cases go; cases "put e") (auto split: sum.splits)
    next
      case True
      then obtain v where v: "go" "put e = Inr v" by blast
      show ?thesis
      proof (cases "effect_consume leaseProtected now2 cmd (effect_request_digest cmd req) e v c1")
        case (Inl x)
        then show ?thesis using tx Inr z v first by auto
      next
        case second: (Inr y)
        obtain d ok c2 where y: "y = ((d, ok), c2)" by (metis prod.collapse)
        then show ?thesis using tx Inr z v second y
            effects_run.tick [OF first effects_step.permit] effects_run.tick [OF first effects_step.refuse]
          by (cases ok) auto
      qed
    qed
  qed
qed

section \<open>The properties\<close>

text \<open>C4: A guarded mutation is permitted at most once. Under any interleaving of requests, retries,
  inventory failures, observations, recovery and every other transaction, no two callers are told that
  they may perform the same mutation (operation, kind and occurrence); a permit is only told for a
  recorded mutation that is no longer prepared and whose obligation is published in the inventory.\<close>

theorem effect_permitted_once:
  assumes "effects_run leaseProtected (c, []) (c', ps)" and "db_effects (c_db c) = []"
  shows "distinct (map (\<lambda>p. (e_OperationID p, e_Kind p, e_Occurrence p)) ps) \<and>
    (\<forall>p \<in> set ps. \<exists>x \<in> set (db_effects (c_db c')). e_ID x = e_ID p \<and> e_OperationID x = e_OperationID p \<and> e_Kind x = e_Kind p \<and>
       e_Occurrence x = e_Occurrence p \<and> e_State x \<noteq> EffectPrepared \<and> e_Inventory x = InventoryConfirmed)"
proof -
  have inv: "effects_inv (db_effects (c_db c')) ps" using effects_inv_run [OF assms(1)] assms(2) by (simp add: effects_inv_def)
  have rows: "\<exists>x \<in> set (db_effects (c_db c')). e_ID x = e_ID p \<and> effect_key x = effect_key p \<and> e_State x \<noteq> EffectPrepared \<and>
      e_Inventory x = InventoryConfirmed" if "p \<in> set ps" for p
    using inv that by (simp add: effects_inv_def permit_row_def list_all_iff)
  have keys: "inj_on effect_key (set (db_effects (c_db c')))" and ids: "distinct (map e_ID ps)"
    using inv by (simp_all add: effects_inv_def distinct_map)
  have "inj_on effect_key (set ps)"
  proof (rule inj_onI)
    fix p q assume pq: "p \<in> set ps" "q \<in> set ps" "effect_key p = effect_key q"
    obtain x where x: "x \<in> set (db_effects (c_db c'))" "e_ID x = e_ID p" "effect_key x = effect_key p" using rows [OF pq(1)] by blast
    obtain y where y: "y \<in> set (db_effects (c_db c'))" "e_ID y = e_ID q" "effect_key y = effect_key q" using rows [OF pq(2)] by blast
    have "x = y" using x(3) y(3) pq(3) by (intro inj_onD [OF keys _ x(1) y(1)]) simp
    then have "e_ID p = e_ID q" using x(2) y(2) by simp
    then show "p = q" using ids pq(1,2) by (auto simp: distinct_map dest: inj_onD)
  qed
  moreover have "distinct ps" using ids by (simp add: distinct_map)
  ultimately have "distinct (map effect_key ps)" by (simp add: distinct_map)
  moreover have "\<exists>x \<in> set (db_effects (c_db c')). e_ID x = e_ID p \<and> e_OperationID x = e_OperationID p \<and> e_Kind x = e_Kind p \<and>
       e_Occurrence x = e_Occurrence p \<and> e_State x \<noteq> EffectPrepared \<and> e_Inventory x = InventoryConfirmed" if "p \<in> set ps" for p
    using rows [OF that] by simp
  ultimately show ?thesis by blast
qed

definition write_request :: effect_request where
  "write_request = \<lparr>er_OperationID = ''op_1'', er_AttemptID = ''att_1'', er_Owner = ''worker'', er_Kind = EffectBusinessWrite, er_Occurrence = 1,
     er_CanonicalSubject = ''page:1'', er_ExpectedRevision = [], er_RequestDigest = [], er_ExecutionEpoch = 1, er_LeaseID = [], er_LeaseFence = 0,
     er_LeaseExpiresAt = 0, er_Deadline = 5000\<rparr>"

definition write_call :: "(err + effect_permit) \<times> cdb" where
  "write_call = Effects_Prepare (\<lambda>_. False) ''ef_1'' 3 4 (\<lambda>_. Inr ''v9'') (plane_cmd ''w1'') write_request plane1"

lemma write_call_permitted: "(case fst write_call of Inl _ \<Rightarrow> False | Inr p \<Rightarrow> ep_Permitted p \<and> e_ID (ep_Effect p) = ''ef_1'')"
  unfolding write_call_def by code_simp

theorem effect_permitted_once_witness:
  "\<exists>x. x \<in> set (db_effects (c_db (snd write_call))) \<and> e_ID x = ''ef_1'' \<and> e_State x \<noteq> EffectPrepared"
proof -
  obtain res c' where w: "write_call = (res, c')" by (cases write_call)
  then obtain p where p: "res = Inr p" "ep_Permitted p" "e_ID (ep_Effect p) = ''ef_1''" using write_call_permitted by (cases res) (auto simp: w)
  have "effects_run (\<lambda>_. False) (plane1, []) (c', [ep_Effect p])"
    using Effects_Prepare_run [OF w [unfolded write_call_def]] p by simp
  moreover have "db_effects (c_db plane1) = []" by (simp add: plane1_def plane0_def db0_def)
  ultimately show ?thesis using effect_permitted_once [of "\<lambda>_. False" plane1 c' "[ep_Effect p]"] p(3) by (auto simp: w)
qed






section \<open>Lineage identities\<close>

lemma InsertLineageIdentity_kept:
  assumes "InsertLineageIdentity c l = Inr (b, c')"
  shows "GetLineageIdentity c t lin = Some x \<Longrightarrow> GetLineageIdentity c' t lin = Some x"
    and "b \<Longrightarrow> GetLineageIdentity c' (li_TenantID l) (li_Lineage l) = Some l"
  using assms by (auto simp: InsertLineageIdentity_def GetLineageIdentity_def lookup_by_append split: if_splits option.splits)

lemma bindLineage_identity:
  assumes "bindLineage ops now req c = Inr c'"
  shows "GetLineageIdentity c t lin = Some x \<Longrightarrow> GetLineageIdentity c' t lin = Some x"
    and "BindsLineage ops req \<Longrightarrow> GetBrief c (sj_BriefID (op_Subject ops)) = Some b \<Longrightarrow> br_Component b = Some ci \<Longrightarrow>
      \<exists>l. GetLineageIdentity c' (op_TenantID ops) (sj_SubjectDigest (op_Subject ops)) = Some l \<and> li_Identity l = ci"
proof -
  let ?l = "\<lambda>b ci. \<lparr>li_TenantID = op_TenantID ops, li_Lineage = sj_SubjectDigest (op_Subject ops), li_Identity = ci, li_OperationID = op_ID ops,
     li_BriefID = br_ID b, li_RecordedAt = now\<rparr>"
  have bound: "\<exists>ins. InsertLineageIdentity c (?l b ci) = Inr (ins, c') \<and> (ins \<or>
      (\<exists>l. GetLineageIdentity c' (op_TenantID ops) (sj_SubjectDigest (op_Subject ops)) = Some l \<and> li_Identity l = ci))"
    if "BindsLineage ops req" "GetBrief c (sj_BriefID (op_Subject ops)) = Some b" "br_Component b = Some ci" for b ci
    using assms that by (auto simp: bindLineage_def chk_Inr_iff chk_err_Inr_iff found_Inr_iff CheckLineageIdentity_def split: if_splits)
  show "GetLineageIdentity c' t lin = Some x" if g: "GetLineageIdentity c t lin = Some x"
  proof (cases "\<exists>b ci. BindsLineage ops req \<and> GetBrief c (sj_BriefID (op_Subject ops)) = Some b \<and> br_Component b = Some ci")
    case True
    then obtain b ci where "BindsLineage ops req" "GetBrief c (sj_BriefID (op_Subject ops)) = Some b" "br_Component b = Some ci" by blast
    from bound [OF this] show ?thesis using InsertLineageIdentity_kept(1) g by blast
  next
    case False
    then have "c' = c" using assms by (auto simp: bindLineage_def found_Inr_iff chk_Inr_iff split: if_splits option.splits)
    then show ?thesis using g by simp
  qed
  assume "BindsLineage ops req" "GetBrief c (sj_BriefID (op_Subject ops)) = Some b" "br_Component b = Some ci"
  from bound [OF this] show "\<exists>l. GetLineageIdentity c' (op_TenantID ops) (sj_SubjectDigest (op_Subject ops)) = Some l \<and> li_Identity l = ci"
    using InsertLineageIdentity_kept(2) by fastforce
qed

text \<open>C16: The identity of a component lineage is fixed once. No transaction that prepares a mutation changes
  an identity that a lineage has; a candidate registration of a generation whose frozen brief allocates
  a component identity is recorded as prepared only if that identity is the one of its lineage.\<close>

theorem lineage_identity_fixed:
  assumes "effect_prepare leaseProtected new_id now cmd req c = Inr ((e, go), c')"
  shows "(\<forall>t lin l. GetLineageIdentity c t lin = Some l \<longrightarrow> GetLineageIdentity c' t lin = Some l) \<and>
    (\<forall>ops b ci. go \<and> db_effects (c_db c') \<noteq> db_effects (c_db c) \<and> lookup_by op_ID (er_OperationID req) (db_operations (c_db c)) = Some ops \<and>
       BindsLineage ops req \<and> GetBrief c (sj_BriefID (op_Subject ops)) = Some b \<and> br_Component b = Some ci \<longrightarrow>
       (\<exists>l. GetLineageIdentity c' (op_TenantID ops) (sj_SubjectDigest (op_Subject ops)) = Some l \<and> li_Identity l = ci))"
  using assms
proof (cases rule: effect_prepare_Inr)
  case (denied s1)
  then show ?thesis by (simp add: GetLineageIdentity_def)
next
  case (recorded ops ec c1 s1)
  have "GetLineageIdentity c' t lin = GetLineageIdentity c1 t lin" for t lin using recorded(6) by (auto simp: GetLineageIdentity_def)
  then show ?thesis using bindLineage_identity [OF recorded(3)] effectContext_Inr [OF recorded(1)] by simp
qed simp

definition brief_1 :: brief where
  "brief_1 = \<lparr>br_ID = ''br_1'', br_OperationID = ''op_0'', br_TenantID = ''t'', br_Revision = 1, br_Brief = \<lparr>ab_TransferID = ''tr_1'', ab_Digest = sample_digest\<rparr>,
     br_Handle = ''h'', br_RequirementsDigest = sample_digest, br_SourceRevisions = [], br_BrandDigests = [], br_AssetDigests = [], br_State = BriefCurrent,
     br_CommandID = ''k'', br_RequestDigest = sample_digest, br_FrozenAt = 0,
     br_Component = Some \<lparr>ci_ComponentID = ''hero'', ci_PuckType = ''Hero'', ci_PackageName = ''hero''\<rparr>\<rparr>"

definition candidate_op :: operation where
  "candidate_op = (plane_op LifecycleRunning ''attempt_open'' ControlNone CleanupNotRequired RelayPending 3 2)
     \<lparr>op_Kind := KindGeneration, op_Subject := plane_subject\<lparr>sj_BriefID := ''br_1''\<rparr>\<rparr>"

definition candidate_plane :: cdb where
  "candidate_plane = plane1\<lparr>c_briefs := [brief_1], c_db := (c_db plane1)\<lparr>db_operations := [candidate_op]\<rparr>\<rparr>"

definition candidate_request :: effect_request where
  "candidate_request = write_request\<lparr>er_CanonicalSubject := ''source:'' @ sample_digest, er_RequestDigest := sample_digest\<rparr>"

definition candidate_call :: "err + ((effect \<times> bool) \<times> cdb)" where
  "candidate_call = effect_prepare (\<lambda>_. False) ''ef_1'' 3 (plane_cmd ''w1'') candidate_request candidate_plane"

theorem lineage_identity_fixed_witness:
  "(case candidate_call of Inl _ \<Rightarrow> False | Inr ((e, go), c') \<Rightarrow>
     (\<exists>l. GetLineageIdentity c' ''t'' sample_digest = Some l \<and> ci_ComponentID (li_Identity l) = ''hero''))"
proof -
  have "(case candidate_call of Inl _ \<Rightarrow> False | Inr ((e, go), c') \<Rightarrow> go \<and> db_effects (c_db c') \<noteq> [])" unfolding candidate_call_def by code_simp
  then obtain e c' where w: "candidate_call = Inr ((e, True), c')" "db_effects (c_db c') \<noteq> []" by (auto split: sum.splits)
  have "db_effects (c_db candidate_plane) = []" "lookup_by op_ID (er_OperationID candidate_request) (db_operations (c_db candidate_plane)) = Some candidate_op"
    "BindsLineage candidate_op candidate_request" "GetBrief candidate_plane (sj_BriefID (op_Subject candidate_op)) = Some brief_1"
    "br_Component brief_1 = Some \<lparr>ci_ComponentID = ''hero'', ci_PuckType = ''Hero'', ci_PackageName = ''hero''\<rparr>"
    "op_TenantID candidate_op = ''t''" "sj_SubjectDigest (op_Subject candidate_op) = sample_digest"
    by (simp_all add: candidate_plane_def candidate_op_def candidate_request_def write_request_def plane1_def plane0_def db0_def plane_op_def
        plane_subject_def BindsLineage_def GetBrief_def brief_1_def)
  with lineage_identity_fixed [OF w(1) [unfolded candidate_call_def]] w(2) show ?thesis by (fastforce simp: w(1))
qed

end
