(* ===== verification/Preparation_Service.thy ===== *)
theory Preparation_Service
  imports Operations_Service
begin

text \<open>
  \<open>internal/application/preparation.go\<close>: question rounds, accepted answers and the frozen brief of
  a Preparation. The tables of question sets and answers are added to the database of
  \<open>Control_Store\<close>; the JSON encoding of a row's questions and references is left out. A transaction
  that fails on a duplicate key is repeated by the service; here it is the error.
\<close>

record pdb =
  p_c :: cdb
  p_question_sets :: "question_set list"
  p_answers :: "answer list"

section \<open>Queries\<close>

definition InsertQuestionSet :: "pdb \<Rightarrow> question_set \<Rightarrow> err + pdb" where
  "InsertQuestionSet d q =
     (if \<not> bigint_ok (qs_Revision q) \<or> qs_Revision q = 0 \<or> \<not> bigint_ok (qs_Round q) \<or> qs_Round q = 0 then Inl ErrStore
      else if list_ex (\<lambda>x. qs_ID x = qs_ID q \<or> qs_OperationID x = qs_OperationID q \<and>
          (qs_Round x = qs_Round q \<or> qs_CommandID x = qs_CommandID q \<or> qs_State x = QuestionSetOpen \<and> qs_State q = QuestionSetOpen))
          (p_question_sets d) then Inl ErrDuplicateKey
      else Inr (d\<lparr>p_question_sets := p_question_sets d @ [q]\<rparr>))"

definition LockQuestionSet :: "pdb \<Rightarrow> string \<Rightarrow> question_set option" where
  "LockQuestionSet d i = lookup_by qs_ID i (p_question_sets d)"

definition GetQuestionSetByCommand :: "pdb \<Rightarrow> string \<Rightarrow> string \<Rightarrow> question_set option" where
  "GetQuestionSetByCommand d operationID commandID =
     lookup_by (\<lambda>q. (qs_OperationID q, qs_CommandID q)) (operationID, commandID) (p_question_sets d)"

definition OpenQuestionSet :: "pdb \<Rightarrow> string \<Rightarrow> question_set option" where
  "OpenQuestionSet d operationID = find (\<lambda>q. qs_OperationID q = operationID \<and> qs_State q = QuestionSetOpen) (p_question_sets d)"

definition ListQuestionSets :: "pdb \<Rightarrow> string \<Rightarrow> question_set list" where
  "ListQuestionSets d operationID = sort_key qs_Round (filter (\<lambda>q. qs_OperationID q = operationID) (p_question_sets d))"

definition UpdateQuestionSetState :: "pdb \<Rightarrow> string \<Rightarrow> question_set_state \<Rightarrow> pdb" where
  "UpdateQuestionSetState d i state =
     d\<lparr>p_question_sets := map (\<lambda>x. if qs_ID x = i then x\<lparr>qs_State := state\<rparr> else x) (p_question_sets d)\<rparr>"

definition InsertAnswer :: "pdb \<Rightarrow> answer \<Rightarrow> err + pdb" where
  "InsertAnswer d a =
     (if \<not> digestPattern (ab_Digest (an_Answer a)) \<or> LockQuestionSet d (an_QuestionSetID a) = None then Inl ErrStore
      else if list_ex (\<lambda>x. an_ID x = an_ID a \<or> (an_TenantID x, an_CommandID x) = (an_TenantID a, an_CommandID a) \<or>
          (an_QuestionSetID x, an_QuestionSetRevision x) = (an_QuestionSetID a, an_QuestionSetRevision a)) (p_answers d)
        then Inl ErrDuplicateKey
      else Inr (d\<lparr>p_answers := p_answers d @ [a]\<rparr>))"

definition GetAnswerByCommand :: "pdb \<Rightarrow> string \<Rightarrow> string \<Rightarrow> answer option" where
  "GetAnswerByCommand d tenantID commandID = lookup_by (\<lambda>a. (an_TenantID a, an_CommandID a)) (tenantID, commandID) (p_answers d)"

definition LockAnswer :: "pdb \<Rightarrow> string \<Rightarrow> answer option" where
  "LockAnswer d answerID = lookup_by an_ID answerID (p_answers d)"

definition GetAnswerByQuestionSet :: "pdb \<Rightarrow> string \<Rightarrow> u64 \<Rightarrow> answer option" where
  "GetAnswerByQuestionSet d questionSetID rvn =
     lookup_by (\<lambda>a. (an_QuestionSetID a, an_QuestionSetRevision a)) (questionSetID, rvn) (p_answers d)"

definition ListAnswers :: "pdb \<Rightarrow> string \<Rightarrow> answer list" where
  "ListAnswers d operationID = sort_key an_AcceptedAt (filter (\<lambda>a. an_OperationID a = operationID) (p_answers d))"

definition UpdateAnswerRelay :: "pdb \<Rightarrow> string \<Rightarrow> answer_relay_state \<Rightarrow> instant option \<Rightarrow> pdb" where
  "UpdateAnswerRelay d answerID state at =
     d\<lparr>p_answers := map (\<lambda>x. if an_ID x = answerID then x\<lparr>an_Relay := state, an_RelayedAt := at\<rparr> else x) (p_answers d)\<rparr>"

definition InsertBrief :: "cdb \<Rightarrow> brief \<Rightarrow> err + cdb" where
  "InsertBrief c b =
     (if \<not> bigint_ok (br_Revision b) \<or> br_Revision b = 0 \<or> \<not> digestPattern (ab_Digest (br_Brief b)) \<or> \<not> digestPattern (br_RequirementsDigest b)
        then Inl ErrStore
      else if list_ex (\<lambda>x. br_ID x = br_ID b \<or> br_OperationID x = br_OperationID b \<and>
          (br_Revision x = br_Revision b \<or> br_CommandID x = br_CommandID b \<or> br_State x = BriefCurrent \<and> br_State b = BriefCurrent)) (c_briefs c)
        then Inl ErrDuplicateKey
      else Inr (c\<lparr>c_briefs := c_briefs c @ [b]\<rparr>))"

definition GetBriefByCommand :: "cdb \<Rightarrow> string \<Rightarrow> string \<Rightarrow> brief option" where
  "GetBriefByCommand c operationID commandID = lookup_by (\<lambda>b. (br_OperationID b, br_CommandID b)) (operationID, commandID) (c_briefs c)"

definition GetCurrentBrief :: "cdb \<Rightarrow> string \<Rightarrow> brief option" where
  "GetCurrentBrief c operationID = find (\<lambda>b. br_OperationID b = operationID \<and> br_State b = BriefCurrent) (c_briefs c)"

definition CountBriefs :: "cdb \<Rightarrow> string \<Rightarrow> u64" where
  "CountBriefs c operationID = of_nat (length (filter (\<lambda>b. br_OperationID b = operationID) (c_briefs c)))"

definition SupersedeBriefs :: "cdb \<Rightarrow> string \<Rightarrow> cdb" where
  "SupersedeBriefs c operationID =
     c\<lparr>c_briefs := map (\<lambda>b. if br_OperationID b = operationID \<and> br_State b = BriefCurrent then b\<lparr>br_State := BriefSuperseded\<rparr> else b) (c_briefs c)\<rparr>"

section \<open>Reads\<close>

record preparation_view =
  vw_Operation :: operation
  vw_PromptHandle :: string
  vw_QuestionSets :: "question_set list"
  vw_Brief :: "brief option"
  vw_Bounds :: "clarification_bounds option"

definition Preparations_Get :: "profiles \<Rightarrow> string \<Rightarrow> string \<Rightarrow> pdb \<Rightarrow> err + preparation_view" where
  "Preparations_Get ps tenantID operationID d =
     chk (GetOperationScoped (c_db (p_c d)) operationID tenantID) (\<lambda>ops.
       case op_Preparation ops of
         None \<Rightarrow> Inl ErrNotFound
       | Some intake \<Rightarrow>
           if op_Kind ops \<noteq> KindPreparation then Inl ErrNotFound
           else Inr \<lparr>vw_Operation = ops,
             vw_PromptHandle = (case GetTransfer (p_c d) (ab_TransferID (pi_Prompt intake)) of None \<Rightarrow> [] | Some t \<Rightarrow> t_Handle t),
             vw_QuestionSets = ListQuestionSets d (op_ID ops), vw_Brief = GetCurrentBrief (p_c d) (op_ID ops),
             vw_Bounds = map_option pf_Clarification (ps (sj_ProfileID (op_Subject ops)))\<rparr>)"

definition Preparations_GetAnswer :: "string \<Rightarrow> string \<Rightarrow> string \<Rightarrow> string \<Rightarrow> pdb \<Rightarrow> err + answer" where
  "Preparations_GetAnswer tenantID operationID answerID questionSetID d =
     chk (if answerID \<noteq> [] then found (LockAnswer d answerID)
          else if questionSetID \<noteq> [] then chk (found (LockQuestionSet d questionSetID)) (\<lambda>q. found (GetAnswerByQuestionSet d (qs_ID q) (qs_Revision q)))
          else Inl ErrInvalid) (\<lambda>a.
       if an_TenantID a \<noteq> tenantID \<or> an_OperationID a \<noteq> operationID then Inl ErrNotFound else Inr a)"

definition Preparations_GetBrief :: "string \<Rightarrow> string \<Rightarrow> pdb \<Rightarrow> err + brief" where
  "Preparations_GetBrief tenantID briefID d =
     chk (found (GetBrief (p_c d) briefID)) (\<lambda>b. if br_TenantID b \<noteq> tenantID then Inl ErrNotFound else Inr b)"

section \<open>Questions and answers\<close>

definition RecordQuestionSet ::
  "profiles \<Rightarrow> string \<Rightarrow> instant \<Rightarrow> command_identity \<Rightarrow> string \<Rightarrow> u64 \<Rightarrow> question list \<Rightarrow> pdb \<Rightarrow> err + ((question_set \<times> bool) \<times> pdb)" where
  "RecordQuestionSet ps new_id now cmd operationID round questions d =
     (let s = c_db (p_c d)
      in chk (LockOperation s operationID) (\<lambda>ops.
         if op_TenantID ops \<noteq> cmd_TenantID cmd then Inl ErrNotFound
         else case GetQuestionSetByCommand d (op_ID ops) (cmd_CommandID cmd) of
           Some fnd \<Rightarrow> if qs_RequestDigest fnd \<noteq> cmd_RequestDigest cmd then Inl ErrIdempotencyConflict else Inr ((fnd, True), d)
         | None \<Rightarrow>
             chk_err (admissionOpen s (op_TenantID ops)) (
             case ps (sj_ProfileID (op_Subject ops)) of
               None \<Rightarrow> Inl ErrProfileUnqualified
             | Some prof \<Rightarrow>
                 chk (NewQuestionSet new_id ops prof cmd round questions (OpenQuestionSet d (op_ID ops) \<noteq> None) now) (\<lambda>fresh.
                 chk (InsertQuestionSet d fresh) (\<lambda>d1.
                 chk (write_transition ops (''questions:'' @ qs_ID fresh) now questions_asked id s) (\<lambda>(_, s1).
                 Inr ((fresh, False), d1\<lparr>p_c := (p_c d1)\<lparr>c_db := s1\<rparr>\<rparr>)))))))"

definition SubmitAnswer ::
  "string \<Rightarrow> instant \<Rightarrow> command_identity \<Rightarrow> scope \<Rightarrow> string \<Rightarrow> string \<Rightarrow> u64 \<Rightarrow> artifact_binding \<Rightarrow> pdb \<Rightarrow> err + ((answer \<times> bool) \<times> pdb)" where
  "SubmitAnswer new_id now cmd sc operationID questionSetID rvn binding d =
     (if sc_TenantID sc \<noteq> cmd_TenantID cmd then Inl ErrInvalid
      else case GetAnswerByCommand d (cmd_TenantID cmd) (cmd_CommandID cmd) of
        Some fnd \<Rightarrow>
          if an_RequestDigest fnd \<noteq> cmd_RequestDigest cmd \<or> an_OperationID fnd \<noteq> operationID then Inl ErrIdempotencyConflict
          else Inr ((fnd, True), d)
      | None \<Rightarrow>
          let s = c_db (p_c d)
          in chk (scopedOperation s sc operationID) (\<lambda>scoped.
             chk (LockOperation s (op_ID scoped)) (\<lambda>ops.
             chk (found (LockQuestionSet d questionSetID)) (\<lambda>q.
             if qs_OperationID q \<noteq> op_ID ops then Inl ErrNotFound
             else if GetAnswerByQuestionSet d (qs_ID q) (qs_Revision q) \<noteq> None then Inl ErrIdempotencyConflict
             else case GetTransfer (p_c d) (ab_TransferID binding) of
               None \<Rightarrow> Inl ErrInvalid
             | Some t \<Rightarrow>
                 chk (NewAnswer new_id ops q (Some t) cmd rvn binding now) (\<lambda>fresh.
                 chk (InsertAnswer d fresh) (\<lambda>d1.
                 let d2 = UpdateQuestionSetState d1 (qs_ID q) QuestionSetAnswered
                 in chk (write_transition ops (''answer:'' @ an_ID fresh) now question_answered id s) (\<lambda>(_, s1).
                    Inr ((fresh, False), d2\<lparr>p_c := (p_c d2)\<lparr>c_db := s1\<rparr>\<rparr>))))))))"

definition RecordAnswerRelay :: "instant \<Rightarrow> string \<Rightarrow> string \<Rightarrow> answer_relay_state \<Rightarrow> pdb \<Rightarrow> err + (answer \<times> pdb)" where
  "RecordAnswerRelay now tenantID answerID state d =
     chk (found (LockAnswer d answerID)) (\<lambda>locked.
       if an_TenantID locked \<noteq> tenantID then Inl ErrNotFound
       else if an_Relay locked = AnswerRelayApplied \<or> an_Relay locked = AnswerRelayRejected then Inr (locked, d)
       else Inr (locked\<lparr>an_Relay := state, an_RelayedAt := Some now\<rparr>, UpdateAnswerRelay d (an_ID locked) state (Some now)))"

section \<open>The brief\<close>

definition RecordBrief ::
  "string \<Rightarrow> instant \<Rightarrow> command_identity \<Rightarrow> string \<Rightarrow> artifact_binding \<Rightarrow> digest \<Rightarrow> source_reference list \<Rightarrow> content_digest list \<Rightarrow>
   content_digest list \<Rightarrow> component_identity option \<Rightarrow> pdb \<Rightarrow> err + ((brief \<times> bool) \<times> pdb)" where
  "RecordBrief new_id now cmd operationID binding requirements sources brands assets component d =
     (let c = p_c d
      in chk (LockOperation (c_db c) operationID) (\<lambda>ops.
         if op_TenantID ops \<noteq> cmd_TenantID cmd then Inl ErrNotFound
         else case GetBriefByCommand c (op_ID ops) (cmd_CommandID cmd) of
           Some fnd \<Rightarrow> if br_RequestDigest fnd \<noteq> cmd_RequestDigest cmd then Inl ErrIdempotencyConflict else Inr ((fnd, True), d)
         | None \<Rightarrow>
             (case GetTransfer c (ab_TransferID binding) of
                None \<Rightarrow> Inl ErrInvalid
              | Some t \<Rightarrow>
                  chk (NewBrief new_id ops (Some t) cmd (CountBriefs c (op_ID ops) + 1) binding requirements sources brands assets component now) (\<lambda>fresh.
                  chk (InsertBrief (SupersedeBriefs c (op_ID ops)) fresh) (\<lambda>c1.
                  chk (write_transition ops (''brief:'' @ br_ID fresh) now (brief_frozen (br_ID fresh)) id (c_db c1)) (\<lambda>(_, s1).
                  Inr ((fresh, False), d\<lparr>p_c := c1\<lparr>c_db := s1\<rparr>\<rparr>)))))))"

end
