(* ===== verification/Preparation_Run.thy ===== *)
theory Preparation_Run
  imports Preparation_Service Control_Plane
begin

text \<open>
  The questions, answers and briefs of Preparations under any interleaving of the service's
  transactions with every other transaction of the program.
\<close>

section \<open>What each transaction does\<close>

lemma InsertQuestionSet_Inr:
  assumes "InsertQuestionSet d q = Inr d'"
  shows "d' = d\<lparr>p_question_sets := p_question_sets d @ [q]\<rparr> \<and> qs_ID q \<notin> qs_ID ` set (p_question_sets d) \<and>
    (qs_State q = QuestionSetOpen \<longrightarrow> qs_OperationID q \<notin> qs_OperationID ` set (filter (\<lambda>x. qs_State x = QuestionSetOpen) (p_question_sets d)))"
  using assms by (auto simp: InsertQuestionSet_def list_ex_iff split: if_splits)

lemma InsertAnswer_Inr:
  assumes "InsertAnswer d a = Inr d'"
  shows "d' = d\<lparr>p_answers := p_answers d @ [a]\<rparr> \<and> an_ID a \<notin> an_ID ` set (p_answers d) \<and>
    (an_QuestionSetID a, an_QuestionSetRevision a) \<notin> (\<lambda>x. (an_QuestionSetID x, an_QuestionSetRevision x)) ` set (p_answers d)"
  using assms by (auto simp: InsertAnswer_def list_ex_iff split: if_splits)

lemma InsertBrief_Inr:
  assumes "InsertBrief c b = Inr c'"
  shows "c' = c\<lparr>c_briefs := c_briefs c @ [b]\<rparr> \<and> br_ID b \<notin> br_ID ` set (c_briefs c)"
  using assms by (auto simp: InsertBrief_def list_ex_iff split: if_splits)

lemma RecordQuestionSet_Inr:
  assumes "RecordQuestionSet ps new_id now cmd operationID round questions d = Inr ((q, existing), d')"
  obtains (known) "d' = d" "existing" "q \<in> set (p_question_sets d)"
  | (asked) ops prof t x s1 where "lookup_by op_ID operationID (db_operations (c_db (p_c d))) = Some ops" "\<not> existing"
      "\<not> IsAdmissionClosed (c_db (p_c d)) (op_TenantID ops)"
      "NewQuestionSet new_id ops prof cmd round questions (OpenQuestionSet d (op_ID ops) \<noteq> None) now = Inr q"
      "InsertQuestionSet d q = Inr (d\<lparr>p_question_sets := p_question_sets d @ [q]\<rparr>)"
      "write_transition ops t now questions_asked id (c_db (p_c d)) = Inr (x, s1)"
      "d' = d\<lparr>p_question_sets := p_question_sets d @ [q], p_c := (p_c d)\<lparr>c_db := s1\<rparr>\<rparr>"
proof -
  from assms obtain ops where ops: "lookup_by op_ID operationID (db_operations (c_db (p_c d))) = Some ops"
    by (auto simp: RecordQuestionSet_def LockOperation_def Let_def fallible)
  show thesis
  proof (cases "GetQuestionSetByCommand d (op_ID ops) (cmd_CommandID cmd)")
    case (Some fnd)
    then have "d' = d \<and> existing \<and> q = fnd" using assms ops by (auto simp: RecordQuestionSet_def LockOperation_def Let_def split: if_splits)
    then show thesis using known lookup_by_SomeD Some by (fastforce simp: GetQuestionSetByCommand_def)
  next
    case None
    with assms ops obtain prof fresh d1 t x s1 where T: "admissionOpen (c_db (p_c d)) (op_TenantID ops) = None"
      "NewQuestionSet new_id ops prof cmd round questions (OpenQuestionSet d (op_ID ops) \<noteq> None) now = Inr fresh" "InsertQuestionSet d fresh = Inr d1"
      "write_transition ops t now questions_asked id (c_db (p_c d)) = Inr (x, s1)" "q = fresh" "\<not> existing" "d' = d1\<lparr>p_c := (p_c d1)\<lparr>c_db := s1\<rparr>\<rparr>"
      by (auto simp: RecordQuestionSet_def LockOperation_def Let_def chk_Inr_iff chk_err_Inr_iff split: if_splits option.splits)
    note I = InsertQuestionSet_Inr [OF T(3)]
    show thesis using asked [OF ops T(6)] T I by (auto simp: admissionOpen_def split: if_splits)
  qed
qed

lemma SubmitAnswer_Inr:
  assumes "SubmitAnswer new_id now cmd sc operationID questionSetID rvn binding d = Inr ((a, existing), d')"
  obtains (known) "d' = d" "existing" "a \<in> set (p_answers d)"
  | (accepted) ops q tr t x s1 where "lookup_by op_ID operationID (db_operations (c_db (p_c d))) = Some ops" "\<not> existing"
      "lookup_by qs_ID questionSetID (p_question_sets d) = Some q" "NewAnswer new_id ops q (Some tr) cmd rvn binding now = Inr a"
      "InsertAnswer d a = Inr (d\<lparr>p_answers := p_answers d @ [a]\<rparr>)"
      "write_transition ops t now question_answered id (c_db (p_c d)) = Inr (x, s1)"
      "d' = (UpdateQuestionSetState (d\<lparr>p_answers := p_answers d @ [a]\<rparr>) (qs_ID q) QuestionSetAnswered)\<lparr>p_c := (p_c d)\<lparr>c_db := s1\<rparr>\<rparr>"
proof (cases "GetAnswerByCommand d (cmd_TenantID cmd) (cmd_CommandID cmd)")
  case (Some fnd)
  then have "d' = d \<and> existing \<and> a = fnd" using assms by (auto simp: SubmitAnswer_def split: if_splits)
  then show thesis using known lookup_by_SomeD Some by (fastforce simp: GetAnswerByCommand_def)
next
  case None
  from assms None obtain ops q where O: "lookup_by op_ID operationID (db_operations (c_db (p_c d))) = Some ops" "op_ID ops = operationID"
    "lookup_by qs_ID questionSetID (p_question_sets d) = Some q" "scopedOperation (c_db (p_c d)) sc operationID = Inr ops"
    by (auto simp: SubmitAnswer_def LockOperation_def LockQuestionSet_def scopedOperation_def GetOperationScoped_def Let_def fallible
        split: if_splits dest!: lookup_by_SomeD)
  note tx = assms [unfolded SubmitAnswer_def None option.case Let_def O(4) chk_Inr LockOperation_def O(2) O(1) LockQuestionSet_def O(3) found_Some]
  from tx obtain tr d1 t x s1 where T: "NewAnswer new_id ops q (Some tr) cmd rvn binding now = Inr a" "InsertAnswer d a = Inr d1"
      "write_transition ops t now question_answered id (c_db (p_c d)) = Inr (x, s1)" "\<not> existing"
      "d' = (UpdateQuestionSetState d1 (qs_ID q) QuestionSetAnswered)\<lparr>p_c := (p_c (UpdateQuestionSetState d1 (qs_ID q) QuestionSetAnswered))\<lparr>c_db := s1\<rparr>\<rparr>"
    by (auto simp: chk_Inr_iff split: if_splits option.splits)
  then show thesis using accepted [OF O(1) T(4) O(3) T(1)] InsertAnswer_Inr [OF T(2)] by (auto simp: UpdateQuestionSetState_def)
qed

lemma RecordBrief_Inr:
  assumes "RecordBrief new_id now cmd operationID binding requirements sources brands assets component d = Inr ((b, existing), d')"
  obtains (known) "d' = d" "existing" "b \<in> set (c_briefs (p_c d))"
  | (frozen) ops tr t x c1 s1 where "lookup_by op_ID operationID (db_operations (c_db (p_c d))) = Some ops" "\<not> existing"
      "NewBrief new_id ops (Some tr) cmd (CountBriefs (p_c d) (op_ID ops) + 1) binding requirements sources brands assets component now = Inr b"
      "InsertBrief (SupersedeBriefs (p_c d) (op_ID ops)) b = Inr c1"
      "write_transition ops t now (brief_frozen (br_ID b)) id (c_db (p_c d)) = Inr (x, s1)" "d' = d\<lparr>p_c := c1\<lparr>c_db := s1\<rparr>\<rparr>"
proof -
  from assms obtain ops where ops: "lookup_by op_ID operationID (db_operations (c_db (p_c d))) = Some ops"
    by (auto simp: RecordBrief_def LockOperation_def Let_def fallible)
  show thesis
  proof (cases "GetBriefByCommand (p_c d) (op_ID ops) (cmd_CommandID cmd)")
    case (Some fnd)
    then have "d' = d \<and> existing \<and> b = fnd" using assms ops by (auto simp: RecordBrief_def LockOperation_def Let_def split: if_splits)
    then show thesis using known lookup_by_SomeD Some by (fastforce simp: GetBriefByCommand_def)
  next
    case None
    with assms ops obtain tr c1 t x s1 where T:
      "NewBrief new_id ops (Some tr) cmd (CountBriefs (p_c d) (op_ID ops) + 1) binding requirements sources brands assets component now = Inr b"
      "InsertBrief (SupersedeBriefs (p_c d) (op_ID ops)) b = Inr c1" "\<not> existing"
      "write_transition ops t now (brief_frozen (br_ID b)) id (c_db c1) = Inr (x, s1)" "d' = d\<lparr>p_c := c1\<lparr>c_db := s1\<rparr>\<rparr>"
      by (auto simp: RecordBrief_def LockOperation_def Let_def chk_Inr_iff split: if_splits option.splits)
    have "c_db c1 = c_db (p_c d)" using InsertBrief_Inr [OF T(2)] by (simp add: SupersedeBriefs_def)
    then show thesis using frozen [OF ops T(3,1,2) _ T(5)] T(4) by simp
  qed
qed

section \<open>The transactions are steps of the control plane\<close>

lemma preparation_ctl:
  assumes "c_db c1 = c_db c" and "c_permits c1 = c_permits c" and "c_resource_pools c1 = c_resource_pools c"
    and "write_transition ops t now f id (c_db c) = Inr (x, s1)" and "lookup_by op_ID i (db_operations (c_db c)) = Some ops" and "op_change ops f"
  shows "ctl_step ps sv rs c (c1\<lparr>c_db := s1\<rparr>)"
  using quiet_write [OF assms(4,5,6)] assms(2,3) by (intro ctl_step.other) simp_all

lemma ctl_stutter: "ctl_step ps sv rs c c"
  by (rule ctl_step.other) simp_all

lemma RecordQuestionSet_ctl:
  assumes "RecordQuestionSet ps new_id now cmd operationID round questions d = Inr (r, d')"
  shows "ctl_step ps' sv rs (p_c d) (p_c d')"
proof -
  obtain q ex where r: "r = (q, ex)" by (cases r)
  from assms [unfolded r] show ?thesis
  proof (cases rule: RecordQuestionSet_Inr)
    case (asked ops prof t x s1)
    from preparation_ctl [OF HOL.refl HOL.refl HOL.refl asked(6,1) op_change.RecordQuestionSet [OF asked(4)]] show ?thesis by (simp add: asked(7))
  qed (simp add: ctl_stutter)
qed

lemma SubmitAnswer_ctl:
  assumes "SubmitAnswer new_id now cmd sc operationID questionSetID rvn binding d = Inr (r, d')"
  shows "ctl_step ps sv rs (p_c d) (p_c d')"
proof -
  obtain a ex where r: "r = (a, ex)" by (cases r)
  from assms [unfolded r] show ?thesis
  proof (cases rule: SubmitAnswer_Inr)
    case (accepted ops q tr t x s1)
    from preparation_ctl [OF HOL.refl HOL.refl HOL.refl accepted(6,1) op_change.SubmitAnswer [OF accepted(4)]] show ?thesis by (simp add: accepted(7))
  qed (simp add: ctl_stutter)
qed

lemma RecordBrief_ctl:
  assumes "RecordBrief new_id now cmd operationID binding requirements sources brands assets component d = Inr (r, d')"
  shows "ctl_step ps sv rs (p_c d) (p_c d')"
proof -
  obtain b ex where r: "r = (b, ex)" by (cases r)
  from assms [unfolded r] show ?thesis
  proof (cases rule: RecordBrief_Inr)
    case (frozen ops tr t x c1 s1)
    have "c_db c1 = c_db (p_c d)" "c_permits c1 = c_permits (p_c d)" "c_resource_pools c1 = c_resource_pools (p_c d)"
      using InsertBrief_Inr [OF frozen(4)] by (simp_all add: SupersedeBriefs_def)
    from preparation_ctl [OF this frozen(5,1) op_change.RecordBrief [OF frozen(3)]] show ?thesis by (simp add: frozen(6))
  qed (simp add: ctl_stutter)
qed

section \<open>The transition system\<close>

inductive prep_step :: "profiles \<Rightarrow> pdb \<Rightarrow> pdb \<Rightarrow> bool" for ps where
  ask: "RecordQuestionSet ps new_id now cmd operationID round questions d = Inr (r, d') \<Longrightarrow> prep_step ps d d'"
| answer: "SubmitAnswer new_id now cmd sc operationID questionSetID rvn binding d = Inr (r, d') \<Longrightarrow> prep_step ps d d'"
| relay: "RecordAnswerRelay now tenantID answerID state d = Inr (r, d') \<Longrightarrow> prep_step ps d d'"
| freeze: "RecordBrief new_id now cmd operationID binding requirements sources brands assets component d = Inr (r, d') \<Longrightarrow> prep_step ps d d'"
| rest: "p_question_sets d' = p_question_sets d \<Longrightarrow> p_answers d' = p_answers d \<Longrightarrow> prep_step ps d d'"

inductive prep_run :: "profiles \<Rightarrow> pdb \<Rightarrow> pdb \<Rightarrow> bool" for ps where
  idle: "prep_run ps d d"
| tick: "prep_run ps d d1 \<Longrightarrow> prep_step ps d1 d2 \<Longrightarrow> prep_run ps d d2"

text \<open>An answer answers a set of its operation in time, and an answered set has an answer.\<close>

definition answers_set :: "question_set list \<Rightarrow> answer \<Rightarrow> bool" where
  "answers_set qs a \<longleftrightarrow> (\<exists>q \<in> set qs. qs_ID q = an_QuestionSetID a \<and> qs_Revision q = an_QuestionSetRevision a \<and>
     qs_OperationID q = an_OperationID a \<and> qs_TenantID q = an_TenantID a \<and> qs_State q = QuestionSetAnswered \<and> an_AcceptedAt a < qs_ExpiresAt q)"

definition has_answer :: "answer list \<Rightarrow> question_set \<Rightarrow> bool" where
  "has_answer as q \<longleftrightarrow> (qs_State q = QuestionSetAnswered \<longrightarrow> (\<exists>a \<in> set as. an_QuestionSetID a = qs_ID q))"

definition prep_inv :: "pdb \<Rightarrow> bool" where
  "prep_inv d \<longleftrightarrow> distinct (map qs_ID (p_question_sets d)) \<and>
     distinct (map qs_OperationID (filter (\<lambda>q. qs_State q = QuestionSetOpen) (p_question_sets d))) \<and>
     distinct (map an_ID (p_answers d)) \<and> distinct (map an_QuestionSetID (p_answers d)) \<and>
     list_all (answers_set (p_question_sets d)) (p_answers d) \<and> list_all (has_answer (p_answers d)) (p_question_sets d)"

lemma prep_inv_ask:
  assumes "prep_inv d" and "InsertQuestionSet d q = Inr d'" and "qs_State q = QuestionSetOpen"
  shows "prep_inv d'"
  using assms(1,3) InsertQuestionSet_Inr [OF assms(2)] by (auto simp: prep_inv_def list_all_iff answers_set_def has_answer_def)

lemma distinct_filter_map:
  assumes "distinct (map f (filter P xs))" and "\<And>x. f (g x) = f x" and "\<And>x. P (g x) \<Longrightarrow> P x"
  shows "distinct (map f (filter P (map g xs)))"
proof -
  have "distinct (map f (filter P xs)) \<Longrightarrow>
      distinct (map f (filter P (map g xs))) \<and> f ` set (filter P (map g xs)) \<subseteq> f ` set (filter P xs)"
    using assms(2,3) by (induction xs) auto
  then show ?thesis using assms(1) by blast
qed

lemma prep_inv_answer:
  assumes "prep_inv d" and "InsertAnswer d a = Inr d1" and "lookup_by qs_ID (qs_ID q) (p_question_sets d) = Some q" and "qs_State q = QuestionSetOpen"
    and "an_QuestionSetID a = qs_ID q" "an_QuestionSetRevision a = qs_Revision q" "an_OperationID a = qs_OperationID q" "an_TenantID a = qs_TenantID q"
    and "an_AcceptedAt a < qs_ExpiresAt q"
  shows "prep_inv (UpdateQuestionSetState d1 (qs_ID q) QuestionSetAnswered)"
proof -
  define f where "f x = (if qs_ID x = qs_ID q then x\<lparr>qs_State := QuestionSetAnswered\<rparr> else x)" for x :: question_set
  have f [simp]: "qs_ID (f x) = qs_ID x" "qs_OperationID (f x) = qs_OperationID x" "qs_Revision (f x) = qs_Revision x" "qs_TenantID (f x) = qs_TenantID x"
      "qs_ExpiresAt (f x) = qs_ExpiresAt x" "qs_State x = QuestionSetAnswered \<Longrightarrow> qs_State (f x) = QuestionSetAnswered" for x
    by (auto simp: f_def split: if_splits)
  have open_before: "qs_State (f x) = QuestionSetOpen \<Longrightarrow> qs_State x = QuestionSetOpen" for x by (auto simp: f_def split: if_splits)
  note I = InsertAnswer_Inr [OF assms(2)]
  have sets: "p_question_sets (UpdateQuestionSetState d1 (qs_ID q) QuestionSetAnswered) = map f (p_question_sets d)"
    and answers: "p_answers (UpdateQuestionSetState d1 (qs_ID q) QuestionSetAnswered) = p_answers d @ [a]"
    using I by (simp_all add: UpdateQuestionSetState_def f_def [abs_def])
  have q: "q \<in> set (p_question_sets d)" using lookup_by_SomeD [OF assms(3)] by simp
  have uniq: "x = q" if "x \<in> set (p_question_sets d)" "qs_ID x = qs_ID q" for x
    using lookup_by_mem [of qs_ID, OF conjunct1 [OF assms(1) [unfolded prep_inv_def]] that(1)] assms(3) that(2) by (metis option.inject)
  have "qs_ID q \<notin> an_QuestionSetID ` set (p_answers d)"
  proof
    assume "qs_ID q \<in> an_QuestionSetID ` set (p_answers d)"
    then obtain b where b: "b \<in> set (p_answers d)" "an_QuestionSetID b = qs_ID q" by auto
    then have "answers_set (p_question_sets d) b" using assms(1) by (simp add: prep_inv_def list_all_iff)
    then obtain x where "x \<in> set (p_question_sets d)" "qs_ID x = qs_ID q" "qs_State x = QuestionSetAnswered"
      using b(2) by (auto simp: answers_set_def)
    then show False using uniq [of x] assms(4) by simp
  qed
  moreover have "answers_set (map f (p_question_sets d)) a"
    unfolding answers_set_def using q assms(5-9) by (intro bexI [of _ "f q"]) (auto simp: f_def)
  moreover have "answers_set (map f (p_question_sets d)) b" if "answers_set (p_question_sets d) b" for b
  proof -
    from that obtain x where "x \<in> set (p_question_sets d)" "qs_ID x = an_QuestionSetID b" "qs_Revision x = an_QuestionSetRevision b"
      "qs_OperationID x = an_OperationID b" "qs_TenantID x = an_TenantID b" "qs_State x = QuestionSetAnswered" "an_AcceptedAt b < qs_ExpiresAt x"
      by (auto simp: answers_set_def)
    then show ?thesis unfolding answers_set_def by (intro bexI [of _ "f x"]) simp_all
  qed
  moreover have "has_answer (p_answers d @ [a]) (f x)" if "x \<in> set (p_question_sets d)" for x
    using assms(1,5) that by (auto simp: prep_inv_def list_all_iff has_answer_def f_def)
  moreover have "distinct (map qs_OperationID (filter (\<lambda>q. qs_State q = QuestionSetOpen) (map f (p_question_sets d))))"
    by (rule distinct_filter_map [OF conjunct1 [OF conjunct2 [OF assms(1) [unfolded prep_inv_def]]]]) (simp, erule open_before)
  ultimately show ?thesis using assms(1,5) conjunct1 [OF conjunct2 [OF I]] unfolding prep_inv_def sets answers
    by (auto simp: list_all_iff comp_def)
qed

lemma prep_inv_relay:
  assumes "prep_inv d"
  shows "prep_inv (UpdateAnswerRelay d i state at)"
proof -
  define f where "f x = (if an_ID x = i then x\<lparr>an_Relay := state, an_RelayedAt := at\<rparr> else x)" for x :: answer
  have f [simp]: "an_ID (f x) = an_ID x" "an_QuestionSetID (f x) = an_QuestionSetID x" "answers_set qs (f x) = answers_set qs x" for x qs
    by (simp_all add: f_def answers_set_def)
  have "UpdateAnswerRelay d i state at = d\<lparr>p_answers := map f (p_answers d)\<rparr>" by (simp add: UpdateAnswerRelay_def f_def [abs_def])
  then show ?thesis using assms by (auto simp: prep_inv_def list_all_iff comp_def has_answer_def)
qed

lemma prep_inv_tables:
  "p_question_sets d' = p_question_sets d \<Longrightarrow> p_answers d' = p_answers d \<Longrightarrow> prep_inv d' = prep_inv d"
  by (simp add: prep_inv_def)

lemma NewQuestionSet_open: "NewQuestionSet new_id ops prof cmd round questions ex now = Inr q \<Longrightarrow> qs_State q = QuestionSetOpen \<and> qs_OperationID q = op_ID ops"
  by (auto simp: NewQuestionSet_def Let_def split: if_splits)

lemma NewAnswer_set:
  assumes "NewAnswer new_id ops q t cmd rvn binding now = Inr a"
  shows "qs_State q = QuestionSetOpen \<and> an_QuestionSetID a = qs_ID q \<and> an_QuestionSetRevision a = qs_Revision q \<and> an_OperationID a = qs_OperationID q \<and>
    an_TenantID a = qs_TenantID q \<and> an_AcceptedAt a < qs_ExpiresAt q \<and> an_Relay a = AnswerRelayPending"
  using assms by (auto simp: NewAnswer_def QuestionSet_Expired_def split: if_splits option.splits)

lemma RecordAnswerRelay_Inr:
  assumes "RecordAnswerRelay now tenantID answerID state d = Inr (a, d')"
  obtains "d' = d" | locked where "lookup_by an_ID answerID (p_answers d) = Some locked" "an_Relay locked \<noteq> AnswerRelayApplied" "an_Relay locked \<noteq> AnswerRelayRejected"
    "d' = UpdateAnswerRelay d answerID state (Some now)"
proof -
  from assms obtain locked where row: "lookup_by an_ID answerID (p_answers d) = Some locked" by (auto simp: RecordAnswerRelay_def LockAnswer_def fallible)
  have "an_ID locked = answerID" using lookup_by_SomeD [OF row] by simp
  then have "d' = d \<or> an_Relay locked \<noteq> AnswerRelayApplied \<and> an_Relay locked \<noteq> AnswerRelayRejected \<and> d' = UpdateAnswerRelay d answerID state (Some now)"
    using assms row by (auto simp: RecordAnswerRelay_def LockAnswer_def split: if_splits)
  then show thesis using that row by blast
qed

lemma prep_inv_step:
  assumes "prep_step ps d d'" and "prep_inv d"
  shows "prep_inv d'"
  using assms(1)
proof cases
  case (ask new_id now cmd operationID round questions r)
  obtain q ex where r: "r = (q, ex)" by (cases r)
  from ask [unfolded r] show ?thesis
  proof (cases rule: RecordQuestionSet_Inr)
    case (asked ops prof t x s1)
    have "prep_inv (d\<lparr>p_question_sets := p_question_sets d @ [q]\<rparr>)" using prep_inv_ask [OF assms(2) asked(5)] NewQuestionSet_open [OF asked(4)] by simp
    then show ?thesis by (simp add: asked(7) prep_inv_def)
  qed (simp add: assms(2))
next
  case (answer new_id now cmd sc operationID questionSetID rvn binding r)
  obtain a ex where r: "r = (a, ex)" by (cases r)
  from answer [unfolded r] show ?thesis
  proof (cases rule: SubmitAnswer_Inr)
    case (accepted ops q tr t x s1)
    note N = NewAnswer_set [OF accepted(4)]
    have q: "lookup_by qs_ID (qs_ID q) (p_question_sets d) = Some q" using accepted(3) lookup_by_SomeD [OF accepted(3)] by simp
    have "prep_inv (UpdateQuestionSetState (d\<lparr>p_answers := p_answers d @ [a]\<rparr>) (qs_ID q) QuestionSetAnswered)"
      by (rule prep_inv_answer [OF assms(2) accepted(5) q]) (use N in simp_all)
    then show ?thesis by (simp add: accepted(7) prep_inv_def)
  qed (simp add: assms(2))
next
  case (relay now tenantID answerID state r)
  then show ?thesis using assms(2) by (cases rule: RecordAnswerRelay_Inr) (simp_all add: prep_inv_relay)
next
  case (freeze new_id now cmd operationID binding requirements sources brands assets component r)
  obtain b ex where r: "r = (b, ex)" by (cases r)
  from freeze [unfolded r] show ?thesis using assms(2) by (cases rule: RecordBrief_Inr) (simp_all add: prep_inv_def)
next
  case rest
  then show ?thesis using assms(2) by (simp add: prep_inv_def)
qed

lemma prep_inv_run: "prep_run ps d d' \<Longrightarrow> prep_inv d \<Longrightarrow> prep_inv d'"
  by (induction rule: prep_run.induct) (auto intro: prep_inv_step)

end
