(* ===== verification/Preparation_Properties.thy ===== *)
theory Preparation_Properties
  imports Preparation_Run Control_Scenario
begin

text \<open>
  The properties of the preparation service, and a concrete clarification: one round asked and
  answered, and the same answer given after a recovery fence.
\<close>

section \<open>A clarification\<close>

definition prep_profiles :: profiles where
  "prep_profiles = [''prep'' \<mapsto> check_profile\<lparr>pf_ID := ''prep'', pf_Kind := KindPreparation,
     pf_Clarification := \<lparr>cb_MaxRounds = 2, cb_MaxQuestions = 3, cb_Wait = 100000\<rparr>\<rparr>]"

definition prep_op :: operation where
  "prep_op = (plane_op LifecycleRunning ''attempt_open'' ControlNone CleanupNotRequired RelayStarted 3 2)
     \<lparr>op_Kind := KindPreparation, op_Subject := plane_subject\<lparr>sj_ProfileID := ''prep''\<rparr>,
      op_Preparation := Some \<lparr>pi_Prompt = \<lparr>ab_TransferID = ''tr_0'', ab_Digest = sample_digest\<rparr>, pi_BrandReferences = [], pi_AssetReferences = []\<rparr>\<rparr>"

definition sample_transfer :: "string \<Rightarrow> artifact_class \<Rightarrow> transfer" where
  "sample_transfer i cl =
     \<lparr>t_ID = i, t_TenantID = ''t'', t_ActorID = ''a'', t_OperationID = ''op_1'', t_AttemptID = [], t_Class = cl, t_MediaType = ''text/plain'',
      t_ExpectedDigest = sample_digest, t_ExpectedSize = 4, t_Handle = ''h_'' @ i, t_State = TransferFinalized, t_ObjectKey = ''k'', t_ObjectVersion = ''v'',
      t_ActualSize = 4, t_ActualDigest = sample_digest, t_ReasonCode = [], t_CommandID = ''c_'' @ i, t_RequestDigest = sample_digest,
      t_FinalizeCommandID = ''f'', t_FinalizeRequestDigest = sample_digest, t_ExecutionEpoch = 1, t_RecoveryEpoch = 1, t_Deadline = 1000, t_CreatedAt = 0,
      t_UpdatedAt = 1, t_FinalizedAt = Some 1\<rparr>"

definition prep0 :: pdb where
  "prep0 = \<lparr>p_c = plane0\<lparr>c_db := (c_db plane0)\<lparr>db_operations := [prep_op]\<rparr>,
       c_transfers := [sample_transfer ''tr_1'' ArtifactAnswer, sample_transfer ''tr_2'' ArtifactBrief]\<rparr>,
     p_question_sets = [], p_answers = []\<rparr>"

definition ask_call :: "err + ((question_set \<times> bool) \<times> pdb)" where
  "ask_call = RecordQuestionSet prep_profiles ''qs_1'' 1000 (plane_cmd ''q1'') ''op_1'' 1 [\<lparr>q_ID = ''a'', q_Text = ''Which colour?''\<rparr>] prep0"

definition prep1 :: pdb where
  "prep1 = snd (projr ask_call)"

definition answer_in :: "pdb \<Rightarrow> err + ((answer \<times> bool) \<times> pdb)" where
  "answer_in = SubmitAnswer ''an_1'' 2000 (plane_cmd ''q2'') plane_scope ''op_1'' ''qs_1'' 1 \<lparr>ab_TransferID = ''tr_1'', ab_Digest = sample_digest\<rparr>"

definition prep2 :: pdb where
  "prep2 = snd (projr (answer_in prep1))"

lemma clarification_calls: "\<not> isl ask_call" "\<not> isl (answer_in prep1)"
  unfolding prep1_def ask_call_def answer_in_def by code_simp+

lemma clarification_run: "prep_run prep_profiles prep0 prep1" "prep_run prep_profiles prep0 prep2"
proof -
  have "prep_step prep_profiles prep0 prep1"
    using prep_step.ask [OF projr_call [OF clarification_calls(1), unfolded ask_call_def]] by (simp add: prep1_def ask_call_def)
  then show 1: "prep_run prep_profiles prep0 prep1" by (rule prep_run.tick [OF prep_run.idle])
  have "prep_step prep_profiles prep1 prep2"
    using prep_step.answer [OF projr_call [OF clarification_calls(2), unfolded answer_in_def]] by (simp add: prep2_def answer_in_def)
  then show "prep_run prep_profiles prep0 prep2" by (rule prep_run.tick [OF 1])
qed

section \<open>The properties\<close>

text \<open>C14: Questions and answers match. In every database the services reach from one without questions,
  an operation waits on at most one open question set; an accepted answer names the revision of a
  question set of its own operation and tenant, was accepted before that set expired, and the set is
  answered; and every answered set has exactly one answer.\<close>

theorem answers_match_questions:
  assumes "prep_run ps d d'" and "p_question_sets d = []" and "p_answers d = []"
  shows "distinct (map qs_OperationID (filter (\<lambda>q. qs_State q = QuestionSetOpen) (p_question_sets d'))) \<and>
    (\<forall>a \<in> set (p_answers d'). \<exists>q \<in> set (p_question_sets d'). qs_ID q = an_QuestionSetID a \<and> qs_Revision q = an_QuestionSetRevision a \<and>
       qs_OperationID q = an_OperationID a \<and> qs_TenantID q = an_TenantID a \<and> qs_State q = QuestionSetAnswered \<and> an_AcceptedAt a < qs_ExpiresAt q) \<and>
    (\<forall>q \<in> set (p_question_sets d'). qs_State q = QuestionSetAnswered \<longrightarrow> (\<exists>!a. a \<in> set (p_answers d') \<and> an_QuestionSetID a = qs_ID q))"
proof -
  have inv: "prep_inv d'" by (rule prep_inv_run [OF assms(1)]) (simp add: prep_inv_def assms(2,3))
  have "\<exists>!a. a \<in> set (p_answers d') \<and> an_QuestionSetID a = qs_ID q"
    if q: "q \<in> set (p_question_sets d')" "qs_State q = QuestionSetAnswered" for q
  proof -
    have "\<exists>a \<in> set (p_answers d'). an_QuestionSetID a = qs_ID q" using inv q by (auto simp: prep_inv_def list_all_iff has_answer_def)
    moreover have "inj_on an_QuestionSetID (set (p_answers d'))" using inv by (simp add: prep_inv_def distinct_map)
    ultimately show ?thesis by (metis inj_onD)
  qed
  then show ?thesis using inv unfolding prep_inv_def list_all_iff answers_set_def by blast
qed

theorem answers_match_questions_witness:
  "length (p_answers prep2) = 1 \<and> (\<exists>q. q \<in> set (p_question_sets prep2) \<and> qs_State q = QuestionSetAnswered)"
proof -
  have len: "length (p_answers prep2) = 1" unfolding prep2_def prep1_def ask_call_def answer_in_def by code_simp
  then obtain a where "a \<in> set (p_answers prep2)" by (cases "p_answers prep2") simp_all
  moreover have "p_question_sets prep0 = []" "p_answers prep0 = []" by (simp_all add: prep0_def)
  ultimately show ?thesis using answers_match_questions [OF clarification_run(2)] len by blast
qed

text \<open>C26: Freezing a brief retires the ones before it. After a new brief of a Preparation is recorded it is
  the operation's current brief and the one its subject binds; every other brief of the operation is
  superseded and starts no generation, and the briefs of other operations are as they were.\<close>

theorem brief_supersedes:
  assumes "RecordBrief new_id now cmd operationID binding requirements sources brands assets component d = Inr ((b, False), d')"
  shows "GetCurrentBrief (p_c d') operationID = Some b \<and> GetBrief (p_c d') (br_ID b) = Some b \<and>
    (\<exists>ops. lookup_by op_ID operationID (db_operations (c_db (p_c d'))) = Some ops \<and> sj_BriefID (op_Subject ops) = br_ID b) \<and>
    (\<forall>x \<in> set (c_briefs (p_c d')). br_OperationID x = operationID \<and> x \<noteq> b \<longrightarrow>
       br_State x = BriefSuperseded \<and> StartsGeneration x (br_TenantID x) = Some ErrStaleExecution) \<and>
    filter (\<lambda>x. br_OperationID x \<noteq> operationID) (c_briefs (p_c d')) = filter (\<lambda>x. br_OperationID x \<noteq> operationID) (c_briefs (p_c d))"
  using assms(1)
proof (cases rule: RecordBrief_Inr)
  case (frozen ops tr t x c1 s1)
  have id: "op_ID ops = operationID" using lookup_by_SomeD [OF frozen(1)] by simp
  define f where "f y = (if br_OperationID y = operationID \<and> br_State y = BriefCurrent then y\<lparr>br_State := BriefSuperseded\<rparr> else y)" for y :: brief
  have f: "br_OperationID (f y) = br_OperationID y" "br_ID (f y) = br_ID y" "br_OperationID y = operationID \<Longrightarrow> br_State (f y) = BriefSuperseded"
      "br_OperationID y \<noteq> operationID \<Longrightarrow> f y = y" for y
    by (cases "br_State y"; simp add: f_def)+
  have b: "br_OperationID b = operationID" "br_State b = BriefCurrent"
    using frozen(3) id by (auto simp: NewBrief_def split: if_splits option.splits)
  note I = InsertBrief_Inr [OF frozen(4)]
  have rows: "c_briefs (p_c d') = map f (c_briefs (p_c d)) @ [b]" and new: "br_ID b \<notin> br_ID ` set (map f (c_briefs (p_c d)))"
    using I id by (simp_all add: frozen(6) SupersedeBriefs_def f_def [abs_def])
  have "find (\<lambda>y. br_OperationID y = operationID \<and> br_State y = BriefCurrent) (map f ys) = None" for ys
    using f(1,3) by (auto simp: find_None_iff)
  then have cur: "GetCurrentBrief (p_c d') operationID = Some b" using b by (simp add: GetCurrentBrief_def rows find_append)
  have "lookup_by br_ID (br_ID b) (map f (c_briefs (p_c d))) = None" using new by (simp only: lookup_by_None_iff not_False_eq_True)
  then have get: "GetBrief (p_c d') (br_ID b) = Some b" by (simp add: GetBrief_def rows lookup_by_append)
  have "op_ID (fst (Transition ops t now (brief_frozen (br_ID b)))) = operationID"
    "sj_BriefID (op_Subject (fst (Transition ops t now (brief_frozen (br_ID b))))) = br_ID b"
    using id by (simp_all add: Transition_def Let_def brief_frozen_def)
  then have row: "\<exists>ops. lookup_by op_ID operationID (db_operations (c_db (p_c d'))) = Some ops \<and> sj_BriefID (op_Subject ops) = br_ID b"
    using lookup_update_same [OF frozen(1)] by (simp add: frozen(6) write_transition_row [OF frozen(5)])
  have others: "filter (\<lambda>x. br_OperationID x \<noteq> operationID) (map f ys) = filter (\<lambda>x. br_OperationID x \<noteq> operationID) ys" for ys
    by (induction ys) (simp_all add: f)
  show ?thesis using cur get row others b f(1,3) by (auto simp: rows StartsGeneration_def)
qed simp

definition brief_call :: "err + ((brief \<times> bool) \<times> pdb)" where
  "brief_call = RecordBrief ''br_1'' 3000 (plane_cmd ''b1'') ''op_1'' \<lparr>ab_TransferID = ''tr_2'', ab_Digest = sample_digest\<rparr> sample_digest [] [] [] None prep0"

theorem brief_supersedes_witness:
  "(case brief_call of Inl _ \<Rightarrow> False | Inr ((b, existing), d') \<Rightarrow> \<not> existing \<and> GetCurrentBrief (p_c d') ''op_1'' = Some b)"
proof -
  have "(case brief_call of Inl _ \<Rightarrow> False | Inr ((b, existing), d') \<Rightarrow> \<not> existing)" unfolding brief_call_def by code_simp
  then obtain b d' where w: "brief_call = Inr ((b, False), d')" by (auto split: sum.splits)
  from brief_supersedes [OF w [unfolded brief_call_def]] show ?thesis by (simp add: w)
qed

text \<open>C27: An answer runs the operation again, whatever it was doing. Accepting an answer takes the operation
  to the running lifecycle also when a recovery fence had made it reconciling: it is then no longer
  fenced for new dispatches unless its lease is lost.\<close>

theorem answer_lifts_fence:
  assumes "SubmitAnswer new_id now cmd sc operationID questionSetID rvn binding d = Inr ((a, False), d')"
  shows "\<exists>ops ops'. lookup_by op_ID operationID (db_operations (c_db (p_c d))) = Some ops \<and>
    lookup_by op_ID operationID (db_operations (c_db (p_c d'))) = Some ops' \<and> op_Lifecycle ops' = LifecycleRunning \<and> op_Phase ops' = ''answered'' \<and>
    op_ExecutionEpoch ops' = op_ExecutionEpoch ops \<and> op_RecoveryEpoch ops' = op_RecoveryEpoch ops \<and>
    (FencedForNewDispatch ops' \<longleftrightarrow> ls_State (op_Lease ops) = LeaseLost)"
  using assms
proof (cases rule: SubmitAnswer_Inr)
  case (accepted ops q tr t x s1)
  have id: "op_ID ops = operationID" using lookup_by_SomeD [OF accepted(1)] by simp
  have ctl: "op_Control ops = ControlNone" using accepted(4) by (auto simp: NewAnswer_def split: if_splits option.splits)
  define ops' where "ops' = fst (Transition ops t now question_answered)"
  have o': "op_ID ops' = operationID" "op_Lifecycle ops' = LifecycleRunning" "op_Phase ops' = ''answered''" "op_Control ops' = ControlNone"
    "op_ExecutionEpoch ops' = op_ExecutionEpoch ops" "op_RecoveryEpoch ops' = op_RecoveryEpoch ops" "op_Lease ops' = op_Lease ops"
    using id ctl by (simp_all add: ops'_def Transition_def Let_def question_answered_def)
  have "db_operations s1 = update_by op_ID ops' (db_operations (c_db (p_c d)))"
    unfolding ops'_def by (rule write_transition_row [OF accepted(6)])
  then have "lookup_by op_ID operationID (db_operations (c_db (p_c d'))) = Some ops'"
    using lookup_update_same [OF accepted(1) o'(1)] by (simp add: accepted(7))
  moreover have "FencedForNewDispatch ops' \<longleftrightarrow> ls_State (op_Lease ops) = LeaseLost"
    by (simp add: FencedForNewDispatch_def o' Lifecycle_Terminal_def)
  ultimately show ?thesis using accepted(1) o' by blast
qed simp

definition fenced_prep :: pdb where
  "fenced_prep = prep1\<lparr>p_c := (p_c prep1)\<lparr>c_db := (c_db (p_c prep1))\<lparr>db_operations := map (recovery_fence 2) (db_operations (c_db (p_c prep1)))\<rparr>\<rparr>\<rparr>"

theorem answer_lifts_fence_witness:
  "(case lookup_by op_ID ''op_1'' (db_operations (c_db (p_c fenced_prep))) of None \<Rightarrow> False | Some ops \<Rightarrow> FencedForNewDispatch ops) \<and>
   (case answer_in fenced_prep of Inl _ \<Rightarrow> False | Inr (_, d') \<Rightarrow>
     (\<exists>ops'. lookup_by op_ID ''op_1'' (db_operations (c_db (p_c d'))) = Some ops' \<and> \<not> FencedForNewDispatch ops'))"
proof -
  have 1: "(case lookup_by op_ID ''op_1'' (db_operations (c_db (p_c fenced_prep))) of None \<Rightarrow> False | Some ops \<Rightarrow>
      FencedForNewDispatch ops \<and> ls_State (op_Lease ops) \<noteq> LeaseLost)"
    unfolding fenced_prep_def prep1_def ask_call_def by code_simp
  have "(case answer_in fenced_prep of Inl _ \<Rightarrow> False | Inr ((a, existing), d') \<Rightarrow> \<not> existing)"
    unfolding fenced_prep_def prep1_def ask_call_def answer_in_def by code_simp
  then obtain a d' where w: "answer_in fenced_prep = Inr ((a, False), d')" by (auto split: sum.splits)
  from answer_lifts_fence [OF w [unfolded answer_in_def]] 1 show ?thesis by (auto simp: w split: option.splits)
qed

end
