(* ===== verification/Artifacts_Service.thy ===== *)
theory Artifacts_Service
  imports Preparation_Service Archive
begin

text \<open>
  \<open>internal/application/artifacts.go\<close>: scoped artifact transfers. The object store is a record of
  the functions of the port \<open>ArtifactStore\<close>; a capability is a value of a type of its own. A call
  that reads the object between two transactions takes the store as an argument. \<open>Finalize\<close> may
  refuse and still commit the refusal, so it answers an outcome beside the database. The reason
  code of a failed archive check is the one \<open>CheckArchive\<close> names in its error. The semaphore that
  bounds concurrent archive checks only delays a call and is left out.
\<close>

section \<open>Queries\<close>

definition GetTransferByCommand :: "cdb \<Rightarrow> string \<Rightarrow> string \<Rightarrow> transfer option" where
  "GetTransferByCommand c tenantID commandID = lookup_by (\<lambda>t. (t_TenantID t, t_CommandID t)) (tenantID, commandID) (c_transfers c)"

definition known_class :: "artifact_class \<Rightarrow> bool" where
  "known_class cl \<longleftrightarrow> cl \<in> set ArtifactClasses"

definition InsertTransfer :: "cdb \<Rightarrow> transfer \<Rightarrow> err + cdb" where
  "InsertTransfer c t =
     (if \<not> known_class (t_Class t) \<or> \<not> digestPattern (t_ExpectedDigest t) \<or> t_ExpectedSize t < 0 \<or>
         \<not> bigint_ok (t_ExecutionEpoch t) \<or> t_ExecutionEpoch t = 0 \<or> \<not> bigint_ok (t_RecoveryEpoch t) \<or> t_RecoveryEpoch t = 0 then Inl ErrStore
      else if list_ex (\<lambda>x. t_ID x = t_ID t \<or> t_Handle x = t_Handle t \<or> (t_TenantID x, t_CommandID x) = (t_TenantID t, t_CommandID t)) (c_transfers c)
        then Inl ErrDuplicateKey
      else Inr (c\<lparr>c_transfers := c_transfers c @ [t]\<rparr>))"

definition transfer_columns :: "transfer \<Rightarrow> transfer \<Rightarrow> transfer" where
  "transfer_columns t x =
     x\<lparr>t_State := t_State t, t_ObjectVersion := t_ObjectVersion t, t_ReasonCode := t_ReasonCode t, t_FinalizedAt := t_FinalizedAt t,
       t_ActualSize := (if t_State t = TransferFinalized then t_ActualSize t else 0), t_ActualDigest := t_ActualDigest t,
       t_FinalizeCommandID := t_FinalizeCommandID t, t_FinalizeRequestDigest := t_FinalizeRequestDigest t, t_UpdatedAt := t_UpdatedAt t\<rparr>"

definition UpdateTransfer :: "cdb \<Rightarrow> transfer \<Rightarrow> cdb" where
  "UpdateTransfer c t = c\<lparr>c_transfers := map (\<lambda>x. if t_ID x = t_ID t then transfer_columns t x else x) (c_transfers c)\<rparr>"

definition GetStageArtifactByTransfer :: "cdb \<Rightarrow> string \<Rightarrow> string \<Rightarrow> stage_artifact option" where
  "GetStageArtifactByTransfer c transferID operationID =
     find (\<lambda>a. sa_TransferID a = transferID \<and> list_ex (\<lambda>st. st_ID st = sa_StageID a \<and> st_OperationID st = operationID) (db_stages (c_db c)))
       (c_stage_artifacts c)"

section \<open>Limits and capabilities\<close>

record 'k object_store =
  os_UploadCapability :: "string \<Rightarrow> string \<Rightarrow> int \<Rightarrow> instant \<Rightarrow> err + 'k"
  os_Read :: "string \<Rightarrow> string \<Rightarrow> int \<Rightarrow> err + (string \<times> object_facts)"
  os_Verify :: "string \<Rightarrow> string \<Rightarrow> int \<Rightarrow> err + object_facts"
  os_DownloadCapability :: "string \<Rightarrow> string \<Rightarrow> instant \<Rightarrow> err + 'k"

record artifact_limits =
  xl_MaxObjectBytes :: int
  xl_MaxWindow :: duration
  xl_CapabilityTTL :: duration
  xl_Archive :: archive_limits

definition NewArtifacts_limits :: "artifact_limits \<Rightarrow> artifact_limits" where
  "NewArtifacts_limits l0 =
     (let l1 = (if xl_MaxObjectBytes l0 \<le> 0 then l0\<lparr>xl_MaxObjectBytes := 67108864\<rparr> else l0);
          l2 = (if xl_MaxWindow l1 \<le> 0 then l1\<lparr>xl_MaxWindow := 86400000000000\<rparr> else l1);
          l3 = (if xl_CapabilityTTL l2 \<le> 0 then l2\<lparr>xl_CapabilityTTL := 900000000000\<rparr> else l2);
          l4 = (if MaxEntries (xl_Archive l3) \<le> 0 then l3\<lparr>xl_Archive := (xl_Archive l3)\<lparr>MaxEntries := 10000\<rparr>\<rparr> else l3)
      in if MaxUncompressed (xl_Archive l4) \<le> 0
         then l4\<lparr>xl_Archive := (xl_Archive l4)\<lparr>MaxUncompressed := wrap64 (4 * xl_MaxObjectBytes l4)\<rparr>\<rparr> else l4)"

definition capability :: "'k object_store \<Rightarrow> artifact_limits \<Rightarrow> instant \<Rightarrow> transfer \<Rightarrow> err + 'k option" where
  "capability st lim now t =
     (if t_State t \<noteq> TransferBegun then Inr None
      else let expires = (if now + xl_CapabilityTTL lim > t_Deadline t then t_Deadline t else now + xl_CapabilityTTL lim)
           in if \<not> expires > now then Inr None
              else case os_UploadCapability st (t_ObjectKey t) (t_MediaType t) (t_ExpectedSize t) expires of
                Inl _ \<Rightarrow> Inl ErrUnavailable
              | Inr k \<Rightarrow> Inr (Some k))"

section \<open>Begin\<close>

text \<open>The operation and attempt of a bound transfer, locked.\<close>

definition bound_rows :: "string \<Rightarrow> string \<Rightarrow> cdb \<Rightarrow> err + (operation option \<times> attempt option)" where
  "bound_rows operationID attemptID c =
     (if operationID = [] then Inr (None, None)
      else chk (LockOperation (c_db c) operationID) (\<lambda>ops.
           if attemptID = [] then Inr (Some ops, None)
           else chk (LockAttempt (c_db c) attemptID) (\<lambda>at. Inr (Some ops, Some at))))"

definition reissuable :: "instant \<Rightarrow> transfer \<Rightarrow> cdb \<Rightarrow> err + bool" where
  "reissuable now t c =
     (if t_State t \<noteq> TransferBegun then Inr False
      else chk (bound_rows (t_OperationID t) (t_AttemptID t) c) (\<lambda>(ops, at).
           Inr (Reissuable t \<lparr>sx_Now = now, sx_Operation = ops, sx_Attempt = at, sx_Instance = None\<rparr> = None)))"

definition begin_rows :: "scope \<Rightarrow> transfer_request \<Rightarrow> cdb \<Rightarrow> err + (operation option \<times> attempt option)" where
  "begin_rows sc req c =
     (if tr_OperationID req = [] then Inr (None, None)
      else chk (LockOperation (c_db c) (tr_OperationID req)) (\<lambda>ops.
           if op_TenantID ops \<noteq> sc_TenantID sc then Inl ErrNotFound
           else if tr_AttemptID req = [] then Inr (Some ops, None)
           else chk (LockAttempt (c_db c) (tr_AttemptID req)) (\<lambda>at. Inr (Some ops, Some at))))"

text \<open>The transaction of \<open>Begin\<close>: the transfer, whether it existed, and whether its capability is
  issued.\<close>

definition begin_transfer ::
  "artifact_limits \<Rightarrow> string \<Rightarrow> string \<Rightarrow> instant \<Rightarrow> command_identity \<Rightarrow> scope \<Rightarrow> transfer_request \<Rightarrow> cdb \<Rightarrow>
   err + ((transfer \<times> bool \<times> bool) \<times> cdb)" where
  "begin_transfer lim new_id new_handle now cmd sc req c =
     (case GetTransferByCommand c (cmd_TenantID cmd) (cmd_CommandID cmd) of
        Some fnd \<Rightarrow>
          chk_err (Transfer_Binds fnd sc req (cmd_RequestDigest cmd)) (
          chk (reissuable now fnd c) (\<lambda>issue. Inr ((fnd, True, issue), c)))
      | None \<Rightarrow>
          chk (begin_rows sc req c) (\<lambda>(ops, at).
          chk (NewTransfer new_id new_handle cmd sc req \<lparr>tc_Now = now, tc_Operation = ops, tc_Attempt = at,
                 tc_Limits = \<lparr>tl_MaxObjectBytes = xl_MaxObjectBytes lim, tl_MaxWindow = xl_MaxWindow lim\<rparr>\<rparr>) (\<lambda>fresh.
          chk (InsertTransfer c fresh) (\<lambda>c1. Inr ((fresh, False, True), c1)))))"

definition Artifacts_Begin ::
  "'k object_store option \<Rightarrow> artifact_limits \<Rightarrow> string \<Rightarrow> string \<Rightarrow> instant \<Rightarrow> instant \<Rightarrow> command_identity \<Rightarrow> scope \<Rightarrow> transfer_request \<Rightarrow> cdb \<Rightarrow>
   (err + (transfer \<times> bool \<times> 'k option)) \<times> cdb" where
  "Artifacts_Begin objects lim new_id new_handle now later cmd sc req c =
     (case objects of
        None \<Rightarrow> (Inl ErrUnavailable, c)
      | Some st \<Rightarrow>
          if sc_TenantID sc \<noteq> cmd_TenantID cmd then (Inl ErrInvalid, c)
          else case begin_transfer lim new_id new_handle now cmd sc req c of
            Inl e \<Rightarrow> (Inl e, c)
          | Inr ((t, existing, issue), c1) \<Rightarrow>
              if \<not> issue then (Inr (t, existing, None), c1)
              else (case capability st lim later t of Inl e \<Rightarrow> (Inl e, c1) | Inr k \<Rightarrow> (Inr (t, existing, k), c1)))"

section \<open>Reads\<close>

definition find_transfer :: "string \<Rightarrow> string \<Rightarrow> cdb \<Rightarrow> err + transfer" where
  "find_transfer transferID handle c =
     (if transferID \<noteq> [] then found (GetTransfer c transferID)
      else if handle \<noteq> [] then found (GetTransferByHandle c handle)
      else Inl ErrInvalid)"

definition Artifacts_Get :: "scope \<Rightarrow> string \<Rightarrow> string \<Rightarrow> cdb \<Rightarrow> err + transfer" where
  "Artifacts_Get sc transferID handle c =
     chk (find_transfer transferID handle c) (\<lambda>t. if \<not> Transfer_InScope t (sc_TenantID sc) then Inl ErrNotFound else Inr t)"

definition Artifacts_Resolve :: "'k object_store option \<Rightarrow> artifact_limits \<Rightarrow> instant \<Rightarrow> string \<Rightarrow> string \<Rightarrow> cdb \<Rightarrow> err + (transfer \<times> 'k)" where
  "Artifacts_Resolve objects lim now handle instanceID c =
     (case objects of
        None \<Rightarrow> Inl ErrUnavailable
      | Some st \<Rightarrow>
          chk (found (GetTransferByHandle c handle)) (\<lambda>t.
          chk (LockInstance (c_db c) instanceID) (\<lambda>i.
          chk (if t_OperationID t \<noteq> [] then map_sum id Some (GetOperationScoped (c_db c) (t_OperationID t) (t_TenantID t)) else Inr None) (\<lambda>ops.
          chk (if t_AttemptID t \<noteq> [] then map_sum id Some (GetAttempt (c_db c) (t_AttemptID t)) else Inr None) (\<lambda>at.
          chk_err (Resolvable t \<lparr>sx_Now = now, sx_Operation = ops, sx_Attempt = at, sx_Instance = Some i\<rparr>) (
          chk (capability st lim now t) (\<lambda>k. case k of None \<Rightarrow> Inl ErrStaleExecution | Some x \<Rightarrow> Inr (t, x))))))))"

section \<open>Finalize\<close>

text \<open>The transaction \<open>settle\<close>: the transfer, whether it was finalized already, and the outcome that
  is answered although the transaction commits.\<close>

definition settle_transfer ::
  "instant \<Rightarrow> command_identity \<Rightarrow> string \<Rightarrow> string \<Rightarrow> object_facts option \<Rightarrow> (err \<times> string) option \<Rightarrow> cdb \<Rightarrow>
   err + ((transfer \<times> bool \<times> err option) \<times> cdb)" where
  "settle_transfer now cmd transferID objectVersion facts verification c =
     chk (found (GetTransfer c transferID)) (\<lambda>locked.
     chk (bound_rows (t_OperationID locked) (t_AttemptID locked) c) (\<lambda>(ops, at).
     if t_State locked = TransferFinalized then Inr ((locked, True, Reenters locked cmd objectVersion), c)
     else case Finalizable locked \<lparr>sx_Now = now, sx_Operation = ops, sx_Attempt = at, sx_Instance = None\<rparr> of
       (t1, Some e) \<Rightarrow> Inr ((t1, False, Some e), UpdateTransfer c t1)
     | (t1, None) \<Rightarrow>
         (case verification of
            Some (e, reason) \<Rightarrow>
              (let t2 = Transfer_Reject t1 reason now in Inr ((t2, False, Some e), UpdateTransfer c t2))
          | None \<Rightarrow>
              (case facts of
                 None \<Rightarrow> Inr ((t1, False, Some ErrInvalid), c)
               | Some f \<Rightarrow> (let (t2, outcome) = Finalize t1 cmd f now in Inr ((t2, False, outcome), UpdateTransfer c t2))))))"

definition settle_answer :: "err + ((transfer \<times> bool \<times> err option) \<times> cdb) \<Rightarrow> cdb \<Rightarrow> (err + (transfer \<times> bool)) \<times> cdb" where
  "settle_answer r c =
     (case r of
        Inl e \<Rightarrow> (Inl e, c)
      | Inr ((t, existing, None), c1) \<Rightarrow> (Inr (t, existing), c1)
      | Inr ((t, existing, Some e), c1) \<Rightarrow> (Inl e, c1))"

definition matches :: "transfer \<Rightarrow> object_facts \<Rightarrow> bool" where
  "matches t f \<longleftrightarrow> of_Size f = t_ExpectedSize t \<and> of_Digest f = t_ExpectedDigest t"

text \<open>Step 2: the facts of the object version, and its bytes when they are to be checked as an archive.\<close>

definition read_object :: "'k object_store \<Rightarrow> transfer \<Rightarrow> string \<Rightarrow> err + (object_facts \<times> string option)" where
  "read_object st t version =
     (case os_Read st (t_ObjectKey t) version (t_ExpectedSize t) of
        Inl e \<Rightarrow> Inl e
      | Inr (body, facts) \<Rightarrow> Inr (facts, if matches t facts then Some body else None))"

definition inspect_object :: "'k object_store \<Rightarrow> readers \<Rightarrow> transfer \<Rightarrow> string \<Rightarrow> err + (object_facts \<times> string option)" where
  "inspect_object st rd t version =
     (if NeedsArchiveCheck rd (t_Class t) (t_MediaType t) then read_object st t version
      else case os_Verify st (t_ObjectKey t) version (t_ExpectedSize t) of
        Inl e \<Rightarrow> Inl e
      | Inr facts \<Rightarrow>
          if matches t facts \<and> DetectArchive rd (of_Head facts) \<noteq> [] then read_object st t version else Inr (facts, None))"

definition verify_object :: "readers \<Rightarrow> artifact_limits \<Rightarrow> transfer \<Rightarrow> object_facts \<Rightarrow> string option \<Rightarrow> (err \<times> string) option" where
  "verify_object rd lim t facts body =
     (if \<not> matches t facts then None
      else case body of None \<Rightarrow> None | Some b \<Rightarrow> CheckArchive rd (t_Class t) (t_MediaType t) b (xl_Archive lim))"

definition finalizing_instance :: "string \<Rightarrow> transfer \<Rightarrow> cdb \<Rightarrow> err option" where
  "finalizing_instance instanceID t c =
     (if instanceID \<noteq> [] \<and> t_AttemptID t \<noteq> []
      then (case LockInstance (c_db c) instanceID of
              Inl e \<Rightarrow> Some e
            | Inr i \<Rightarrow> if inst_AttemptID i \<noteq> t_AttemptID t \<or> \<not> inst_Current i then Some ErrStaleExecution else None)
      else None)"

definition Artifacts_Finalize ::
  "'k object_store option \<Rightarrow> readers \<Rightarrow> artifact_limits \<Rightarrow> instant \<Rightarrow> instant \<Rightarrow> command_identity \<Rightarrow> string \<Rightarrow> string \<Rightarrow> string \<Rightarrow> string \<Rightarrow> cdb \<Rightarrow>
   (err + (transfer \<times> bool)) \<times> cdb" where
  "Artifacts_Finalize objects rd lim now later cmd transferID handle objectVersion instanceID c =
     (case objects of
        None \<Rightarrow> (Inl ErrUnavailable, c)
      | Some st \<Rightarrow>
          if objectVersion = [] then (Inl ErrInvalid, c)
          else case find_transfer transferID handle c of
            Inl e \<Rightarrow> (Inl e, c)
          | Inr peek \<Rightarrow>
              if \<not> Transfer_InScope peek (cmd_TenantID cmd) then (Inl ErrNotFound, c)
              else case t_State peek of
                TransferFinalized \<Rightarrow> (case Reenters peek cmd objectVersion of Some e \<Rightarrow> (Inl e, c) | None \<Rightarrow> (Inr (peek, True), c))
              | TransferBegun \<Rightarrow>
                  (case finalizing_instance instanceID peek c of
                     Some e \<Rightarrow> (Inl e, c)
                   | None \<Rightarrow>
                       if \<not> now < t_Deadline peek
                       then settle_answer (settle_transfer later cmd (t_ID peek) objectVersion None (Some (ErrStaleExecution, ReasonDeadlineExceeded)) c) c
                       else case inspect_object st rd peek objectVersion of
                         Inl ErrNotFound \<Rightarrow> (Inl ErrInvalid, c)
                       | Inl ErrInvalid \<Rightarrow>
                           settle_answer (settle_transfer later cmd (t_ID peek) objectVersion None (Some (ErrInvalid, ReasonSizeMismatch)) c) c
                       | Inl _ \<Rightarrow> (Inl ErrUnavailable, c)
                       | Inr (facts, body) \<Rightarrow>
                           settle_answer (settle_transfer later cmd (t_ID peek) objectVersion (Some facts) (verify_object rd lim peek facts body) c) c)
              | _ \<Rightarrow> (Inl ErrStaleExecution, c))"

section \<open>Trusted reads\<close>

definition readerAuthority :: "operation \<Rightarrow> string \<Rightarrow> instant \<Rightarrow> cdb \<Rightarrow> err option" where
  "readerAuthority ops instanceID now c =
     (case LockInstance (c_db c) instanceID of
        Inl e \<Rightarrow> Some e
      | Inr i \<Rightarrow>
          (case GetAttempt (c_db c) (inst_AttemptID i) of
             Inl e \<Rightarrow> Some e
           | Inr at \<Rightarrow>
               if at_OperationID at \<noteq> op_ID ops then Some ErrNotFound
               else if \<not> inst_Current i then Some ErrStaleExecution
               else if at_State at \<noteq> AttemptLaunchPrepared \<and> at_State at \<noteq> AttemptRunning then Some ErrStaleExecution
               else if at_ExecutionEpoch at \<noteq> op_ExecutionEpoch ops then Some ErrStaleExecution
               else if FencedForNewDispatch ops then Some ErrStaleExecution
               else if \<not> now < at_Deadline at then Some ErrStaleExecution
               else None))"

definition artifactRelationship :: "operation \<Rightarrow> transfer \<Rightarrow> pdb \<Rightarrow> err option" where
  "artifactRelationship ops t d =
     (if t_TenantID t \<noteq> op_TenantID ops then Some ErrNotFound
      else if (case op_Preparation ops of None \<Rightarrow> False | Some intake \<Rightarrow> ab_TransferID (pi_Prompt intake) = t_ID t) then None
      else if op_Kind ops = KindPreparation \<and> list_ex (\<lambda>a. ab_TransferID (an_Answer a) = t_ID t) (ListAnswers d (op_ID ops)) then None
      else if sj_BriefID (op_Subject ops) \<noteq> [] \<and>
        (case GetBrief (p_c d) (sj_BriefID (op_Subject ops)) of None \<Rightarrow> False
         | Some b \<Rightarrow> ab_TransferID (br_Brief b) = t_ID t \<and> br_TenantID b = op_TenantID ops) then None
      else if (op_Kind ops = KindPreviewBuild \<or> op_Kind ops = KindRelease) \<and> sj_SourceHandle (op_Subject ops) \<noteq> [] \<and>
        sj_SourceHandle (op_Subject ops) = t_Handle t then None
      else if GetStageArtifactByTransfer (p_c d) (t_ID t) (op_ID ops) \<noteq> None then None
      else Some ErrStaleExecution)"

definition Artifacts_Read ::
  "'k object_store option \<Rightarrow> artifact_limits \<Rightarrow> instant \<Rightarrow> string \<Rightarrow> string \<Rightarrow> string \<Rightarrow> string \<Rightarrow> string \<Rightarrow> pdb \<Rightarrow> err + (transfer \<times> 'k)" where
  "Artifacts_Read objects lim now tenantID handle transferID operationID instanceID d =
     (case objects of
        None \<Rightarrow> Inl ErrUnavailable
      | Some st \<Rightarrow>
          chk (find_transfer transferID handle (p_c d)) (\<lambda>t.
          if t_TenantID t \<noteq> tenantID then Inl ErrNotFound
          else chk (GetOperationScoped (c_db (p_c d)) operationID tenantID) (\<lambda>ops.
               if t_State t \<noteq> TransferFinalized then Inl ErrStaleExecution
               else chk_err (if instanceID \<noteq> [] then readerAuthority ops instanceID now (p_c d) else None) (
                    chk_err (artifactRelationship ops t d) (
                    case os_DownloadCapability st (t_ObjectKey t) (t_ObjectVersion t) (now + xl_CapabilityTTL lim) of
                      Inl _ \<Rightarrow> Inl ErrUnavailable
                    | Inr k \<Rightarrow> Inr (t, k))))))"

end
