(* ===== verification/Artifacts_Properties.thy ===== *)
theory Artifacts_Properties
  imports Artifacts_Service Preparation_Properties
begin

text \<open>
  The transfers under any interleaving of \<open>Begin\<close>, \<open>settle\<close> and the other transactions of the
  program, and what an answer of \<open>Finalize\<close> and of \<open>Read\<close> rests on.
\<close>

section \<open>The transition system\<close>

inductive transfer_step :: "artifact_limits \<Rightarrow> cdb \<Rightarrow> cdb \<Rightarrow> bool" for lim where
  start: "begin_transfer lim new_id new_handle now cmd sc req c = Inr (r, c') \<Longrightarrow> transfer_step lim c c'"
| settle: "settle_transfer now cmd transferID objectVersion facts verification c = Inr (r, c') \<Longrightarrow> transfer_step lim c c'"
| rest: "c_transfers c' = c_transfers c \<Longrightarrow> transfer_step lim c c'"

inductive transfer_run :: "artifact_limits \<Rightarrow> cdb \<Rightarrow> cdb \<Rightarrow> bool" for lim where
  idle: "transfer_run lim c c"
| tick: "transfer_run lim c c1 \<Longrightarrow> transfer_step lim c1 c2 \<Longrightarrow> transfer_run lim c c2"

text \<open>A settled transfer: what it carries agrees with what was announced, or nothing was accepted.\<close>

definition transfer_sound :: "transfer \<Rightarrow> bool" where
  "transfer_sound t \<longleftrightarrow>
     (if t_State t = TransferFinalized
      then t_ActualSize t = t_ExpectedSize t \<and> t_ActualDigest t = t_ExpectedDigest t \<and> t_ObjectVersion t \<noteq> [] \<and>
        (case t_FinalizedAt t of None \<Rightarrow> False | Some at \<Rightarrow> at < t_Deadline t)
      else t_ActualSize t = 0 \<and> t_ActualDigest t = [] \<and> t_ObjectVersion t = [] \<and> t_FinalizedAt t = None)"

lemma transfer_sound_iff:
  "transfer_sound t \<longleftrightarrow>
     (if t_State t = TransferFinalized
      then t_ActualSize t = t_ExpectedSize t \<and> t_ActualDigest t = t_ExpectedDigest t \<and> t_ObjectVersion t \<noteq> [] \<and>
        (\<exists>at. t_FinalizedAt t = Some at \<and> at < t_Deadline t)
      else t_ActualSize t = 0 \<and> t_ActualDigest t = [] \<and> t_ObjectVersion t = [] \<and> t_FinalizedAt t = None)"
  by (cases "t_FinalizedAt t") (simp_all add: transfer_sound_def)

definition transfers_inv :: "transfer list \<Rightarrow> bool" where
  "transfers_inv ts \<longleftrightarrow> distinct (map t_ID ts) \<and> distinct (map t_Handle ts) \<and>
     distinct (map (\<lambda>t. (t_TenantID t, t_CommandID t)) ts) \<and> list_all transfer_sound ts"

section \<open>What each transaction does\<close>

lemma NewTransfer_Inr:
  "NewTransfer new_id new_handle cmd s req tc = Inr t \<Longrightarrow> transfer_sound t \<and> t_State t = TransferBegun"
  by (auto simp: NewTransfer_def Let_def transfer_sound_def split: sum.splits if_splits)

lemma begin_transfer_Inr:
  assumes "begin_transfer lim new_id new_handle now cmd sc req c = Inr (r, c')"
  obtains (existing) "c' = c"
  | (fresh) t where "c' = c\<lparr>c_transfers := c_transfers c @ [t]\<rparr>" "transfer_sound t" "t_State t = TransferBegun"
      "t_ID t \<notin> t_ID ` set (c_transfers c)" "t_Handle t \<notin> t_Handle ` set (c_transfers c)"
      "(t_TenantID t, t_CommandID t) \<notin> (\<lambda>t. (t_TenantID t, t_CommandID t)) ` set (c_transfers c)"
proof (cases "GetTransferByCommand c (cmd_TenantID cmd) (cmd_CommandID cmd)")
  case (Some x)
  then have "c' = c" using assms by (auto simp: begin_transfer_def fallible)
  then show thesis by (rule existing)
next
  case None
  then obtain t tc where "NewTransfer new_id new_handle cmd sc req tc = Inr t" "InsertTransfer c t = Inr c'"
    using assms by (auto simp: begin_transfer_def fallible)
  moreover from this have "c' = c\<lparr>c_transfers := c_transfers c @ [t]\<rparr>" "t_ID t \<notin> t_ID ` set (c_transfers c)"
      "t_Handle t \<notin> t_Handle ` set (c_transfers c)"
      "(t_TenantID t, t_CommandID t) \<notin> (\<lambda>t. (t_TenantID t, t_CommandID t)) ` set (c_transfers c)"
    by (force simp: InsertTransfer_def list_ex_iff split: if_splits)+
  ultimately show thesis using fresh [of t] NewTransfer_Inr by blast
qed

lemma Finalizable_Some: "Finalizable t sx = (t1, Some e) \<Longrightarrow> t_State t \<noteq> TransferFinalized \<and> t_ID t1 = t_ID t \<and>
    (t_State t \<noteq> TransferBegun \<longrightarrow> t1 = t) \<and> t_ActualDigest t1 = t_ActualDigest t \<and> t_ObjectVersion t1 = t_ObjectVersion t \<and>
    t_FinalizedAt t1 = t_FinalizedAt t \<and> t_State t1 \<noteq> TransferFinalized"
  by (auto simp: Finalizable_def split: transfer_state.splits if_splits option.splits)

lemma Finalizable_None: "Finalizable t sx = (t1, None) \<Longrightarrow> t_State t \<noteq> TransferFinalized \<Longrightarrow>
    t1 = t \<and> t_State t = TransferBegun \<and> sx_Now sx < t_Deadline t \<and> Transfer_current t sx = None"
  by (auto simp: Finalizable_def split: transfer_state.splits if_splits option.splits)

lemma Finalize_row:
  assumes "Finalize t cmd f now = (t2, out)" and "t_State t = TransferBegun" and "transfer_sound t" and "now < t_Deadline t"
  shows "transfer_sound (transfer_columns t2 t) \<and> t_ID t2 = t_ID t"
  using assms by (auto simp: Finalize_def transfer_sound_def transfer_columns_def split: if_splits)

lemma settle_transfer_Inr:
  assumes "settle_transfer now cmd transferID objectVersion facts verification c = Inr ((t, existing, out), c')" and "transfers_inv (c_transfers c)"
  obtains (unchanged) "c' = c" "out = None \<Longrightarrow> existing"
  | (updated) locked where "GetTransfer c transferID = Some locked" "c' = UpdateTransfer c t" "t_ID t = t_ID locked"
      "t_State locked \<noteq> TransferFinalized" "transfer_sound (transfer_columns t locked)"
      "t_State locked \<noteq> TransferBegun \<Longrightarrow> transfer_columns t locked = locked" "\<not> existing"
      "out = None \<Longrightarrow> \<exists>f. facts = Some f \<and> verification = None \<and> Finalize locked cmd f now = (t, None) \<and> now < t_Deadline locked"
proof -
  from assms(1) obtain locked ops at where row: "GetTransfer c transferID = Some locked"
    and rows: "bound_rows (t_OperationID locked) (t_AttemptID locked) c = Inr (ops, at)"
    by (auto simp: settle_transfer_def fallible)
  have sound: "transfer_sound locked" using assms(2) lookup_by_SomeD [OF row [unfolded GetTransfer_def]]
    by (simp add: transfers_inv_def list_all_iff)
  define sx where "sx = \<lparr>sx_Now = now, sx_Operation = ops, sx_Attempt = at, sx_Instance = None\<rparr>"
  note tx = assms(1) [unfolded settle_transfer_def row rows found_Some chk_Inr prod.case, folded sx_def]
  show thesis
  proof (cases "t_State locked = TransferFinalized")
    case True
    then show thesis using tx unchanged by auto
  next
    case False
    obtain t1 e where fin: "Finalizable locked sx = (t1, e)" by (cases "Finalizable locked sx")
    show thesis
    proof (cases e)
      case (Some x)
      note F = Finalizable_Some [OF fin [unfolded Some]]
      have t: "t = t1" "c' = UpdateTransfer c t1" "out = Some x" "\<not> existing" using tx False fin Some by auto
      have col: "transfer_sound (transfer_columns t1 locked)" "t_State locked \<noteq> TransferBegun \<Longrightarrow> transfer_columns t1 locked = locked"
        using sound F False by (auto simp: transfer_columns_def transfer_sound_def split: if_splits)
      show thesis by (rule updated [OF row]) (use t F False col in auto)
    next
      case None
      note F = Finalizable_None [OF fin [unfolded None] False]
      have now: "sx_Now sx = now" by (simp add: sx_def)
      show thesis
      proof (cases verification)
        case v: (Some p)
        then have t: "t = Transfer_Reject locked (snd p) now" "c' = UpdateTransfer c t" "out = Some (fst p)" "\<not> existing"
          using tx False fin None F by (auto simp: Let_def split: prod.splits)
        have "transfer_sound (transfer_columns t locked)" "t_ID t = t_ID locked"
          using sound F False by (auto simp: t(1) transfer_columns_def transfer_sound_def Transfer_Reject_def)
        then show thesis using updated [OF row] t F False by auto
      next
        case v: None
        show thesis
        proof (cases facts)
          case None
          then show thesis using tx False fin \<open>e = None\<close> v unchanged by auto
        next
          case (Some f)
          obtain t2 o2 where fz: "Finalize locked cmd f now = (t2, o2)" by (cases "Finalize locked cmd f now")
          have t: "t = t2" "c' = UpdateTransfer c t2" "out = o2" "\<not> existing" using tx False fin \<open>e = None\<close> v Some F fz by auto
          note R = Finalize_row [OF fz _ sound]
          show thesis by (rule updated [OF row]) (use t F R now False fz v Some in auto)
        qed
      qed
    qed
  qed
qed

section \<open>The invariant\<close>

lemma transfers_inv_update:
  assumes inv: "transfers_inv (c_transfers c)" and row: "GetTransfer c i = Some locked" "t_ID t = t_ID locked"
    and sound: "transfer_sound (transfer_columns t locked)"
  shows "transfers_inv (c_transfers (UpdateTransfer c t))"
    and "x \<in> set (c_transfers c) \<Longrightarrow> (if x = locked then transfer_columns t locked else x) \<in> set (c_transfers (UpdateTransfer c t))"
proof -
  define f where "f x = (if t_ID x = t_ID t then transfer_columns t x else x)" for x
  have f: "t_ID (f x) = t_ID x" "t_Handle (f x) = t_Handle x" "t_TenantID (f x) = t_TenantID x" "t_CommandID (f x) = t_CommandID x" for x
    by (simp_all add: f_def transfer_columns_def)
  have rows: "c_transfers (UpdateTransfer c t) = map f (c_transfers c)" by (simp add: UpdateTransfer_def f_def [abs_def])
  have mem: "locked \<in> set (c_transfers c)" using lookup_by_SomeD [OF row(1) [unfolded GetTransfer_def]] by simp
  have inj: "inj_on t_ID (set (c_transfers c))" using inv by (simp add: transfers_inv_def distinct_map)
  have at: "f x = (if x = locked then transfer_columns t locked else x)" if "x \<in> set (c_transfers c)" for x
    using inj_onD [OF inj _ that mem] row(2) by (auto simp: f_def)
  have "transfer_sound (f x)" if "x \<in> set (c_transfers c)" for x
    using at [OF that] that inv sound by (simp add: transfers_inv_def list_all_iff)
  then show "transfers_inv (c_transfers (UpdateTransfer c t))" using inv by (simp add: rows transfers_inv_def list_all_iff comp_def f)
  show "(if x = locked then transfer_columns t locked else x) \<in> set (c_transfers (UpdateTransfer c t))" if "x \<in> set (c_transfers c)"
    using at [OF that] that by (simp only: rows set_map) (metis imageI)
qed

lemma transfer_step_inv:
  assumes "transfer_step lim c c'" and inv: "transfers_inv (c_transfers c)"
  shows "transfers_inv (c_transfers c') \<and> (\<forall>t \<in> set (c_transfers c). t_State t \<noteq> TransferBegun \<longrightarrow> t \<in> set (c_transfers c'))"
  using assms(1)
proof cases
  case (start new_id new_handle now cmd sc req r)
  then show ?thesis
  proof (cases rule: begin_transfer_Inr)
    case (fresh t)
    then show ?thesis using inv by (simp add: transfers_inv_def)
  qed (use inv in simp)
next
  case (settle now cmd transferID objectVersion facts verification r)
  obtain t ex out where r: "r = (t, ex, out)" by (cases r)
  from settle [unfolded r] inv show ?thesis
  proof (cases rule: settle_transfer_Inr)
    case (updated locked)
    have "t' \<in> set (c_transfers c')" if "t' \<in> set (c_transfers c)" "t_State t' \<noteq> TransferBegun" for t'
      using transfers_inv_update(2) [OF inv updated(1,3,5) that(1)] updated(6) that(2) by (simp add: updated(2) split: if_splits)
    then show ?thesis using transfers_inv_update(1) [OF inv updated(1,3,5)] by (simp add: updated(2))
  qed (use inv in simp)
qed (use inv in simp)

lemma transfer_run_inv:
  assumes "transfer_run lim c c'" and "transfers_inv (c_transfers c)"
  shows "transfers_inv (c_transfers c') \<and> (\<forall>t \<in> set (c_transfers c). t_State t \<noteq> TransferBegun \<longrightarrow> t \<in> set (c_transfers c'))"
  using assms
proof (induction rule: transfer_run.induct)
  case (tick c c1 c2)
  then show ?case using transfer_step_inv [OF tick.hyps(2)] by blast
qed simp

section \<open>The transfers of a run\<close>

definition upload_limits :: artifact_limits where
  "upload_limits = \<lparr>xl_MaxObjectBytes = 1000, xl_MaxWindow = 100000, xl_CapabilityTTL = 500, xl_Archive = sample_limits\<rparr>"

definition upload_request :: transfer_request where
  "upload_request = \<lparr>tr_Class = ArtifactSource, tr_MediaType = ''application/zip'', tr_ExpectedDigest = sample_digest, tr_ExpectedSize = 4,
     tr_OperationID = [], tr_AttemptID = [], tr_Deadline = 50000\<rparr>"

definition upload_call :: "err + ((transfer \<times> bool \<times> bool) \<times> cdb)" where
  "upload_call = begin_transfer upload_limits ''tr_1'' ''h_1'' 1000 (plane_cmd ''u1'') plane_scope upload_request plane0"

definition upload1 :: cdb where
  "upload1 = snd (projr upload_call)"

definition upload_store :: "unit object_store" where
  "upload_store = \<lparr>os_UploadCapability = (\<lambda>_ _ _ _. Inr ()),
     os_Read = (\<lambda>key version _. if version = ''v1''
       then Inr (sample_zip, \<lparr>of_Version = ''v1'', of_Size = 4, of_Digest = sample_digest, of_Head = sample_zip\<rparr>) else Inl ErrNotFound),
     os_Verify = (\<lambda>key version _. if version = ''v1''
       then Inr \<lparr>of_Version = ''v1'', of_Size = 4, of_Digest = sample_digest, of_Head = sample_zip\<rparr> else Inl ErrNotFound),
     os_DownloadCapability = (\<lambda>_ _ _. Inr ())\<rparr>"

definition finalize_call :: "err + ((transfer \<times> bool \<times> err option) \<times> cdb)" where
  "finalize_call = settle_transfer 3000 (plane_cmd ''u2'') ''tr_1'' ''v1''
     (Some \<lparr>of_Version = ''v1'', of_Size = 4, of_Digest = sample_digest, of_Head = sample_zip\<rparr>) None upload1"

definition upload2 :: cdb where
  "upload2 = snd (projr finalize_call)"

lemma upload_calls: "\<not> isl upload_call" "\<not> isl finalize_call"
  unfolding finalize_call_def upload1_def upload_call_def by code_simp+

lemma upload_run: "transfer_run upload_limits plane0 upload1" "transfer_run upload_limits upload1 upload2"
  using transfer_step.start [OF projr_call [OF upload_calls(1), unfolded upload_call_def]]
    transfer_step.settle [OF projr_call [OF upload_calls(2), unfolded finalize_call_def]]
  by (auto simp: upload1_def upload2_def upload_call_def finalize_call_def intro: transfer_run.intros)

section \<open>The properties\<close>

text \<open>C13: A finalized artifact is the one that was announced, for good. In every run from a database without
  transfers, the identifiers, handles and commands of the transfers are unique; a finalized transfer has
  the size and digest it was begun with, names an object version and was finalized before its deadline;
  a transfer that is not finalized carries no object; and a transfer that left the begun state, finalized,
  rejected or expired, never changes again.\<close>

theorem finalized_is_announced:
  assumes "transfer_run lim c c1" and "transfer_run lim c1 c2" and "c_transfers c = []"
  shows "distinct (map t_ID (c_transfers c2)) \<and> distinct (map t_Handle (c_transfers c2)) \<and>
    distinct (map (\<lambda>t. (t_TenantID t, t_CommandID t)) (c_transfers c2)) \<and>
    (\<forall>t \<in> set (c_transfers c2). if t_State t = TransferFinalized
       then t_ActualSize t = t_ExpectedSize t \<and> t_ActualDigest t = t_ExpectedDigest t \<and> t_ObjectVersion t \<noteq> [] \<and>
         (\<exists>at. t_FinalizedAt t = Some at \<and> at < t_Deadline t)
       else t_ActualSize t = 0 \<and> t_ObjectVersion t = [] \<and> t_FinalizedAt t = None) \<and>
    (\<forall>t \<in> set (c_transfers c1). t_State t \<noteq> TransferBegun \<longrightarrow> t \<in> set (c_transfers c2))"
proof -
  have "transfers_inv (c_transfers c)" by (simp add: transfers_inv_def assms(3))
  then have "transfers_inv (c_transfers c1)" using transfer_run_inv [OF assms(1)] by blast
  note end_inv = transfer_run_inv [OF assms(2) this]
  have "\<forall>t \<in> set (c_transfers c2). transfer_sound t" using end_inv by (simp add: transfers_inv_def list_all_iff)
  then show ?thesis using end_inv unfolding transfers_inv_def transfer_sound_iff by auto
qed

theorem finalized_is_announced_witness:
  "length (c_transfers upload2) = 1 \<and> (\<exists>t. t \<in> set (c_transfers upload2) \<and> t_State t = TransferFinalized \<and> t_ActualSize t = t_ExpectedSize t)"
proof -
  have 1: "(case c_transfers upload2 of [t] \<Rightarrow> t_State t = TransferFinalized | _ \<Rightarrow> False)"
    unfolding upload2_def finalize_call_def upload1_def upload_call_def by code_simp
  then obtain t where t: "c_transfers upload2 = [t]" "t_State t = TransferFinalized" by (auto split: list.splits)
  have "c_transfers plane0 = []" by (simp add: plane0_def)
  from finalized_is_announced [OF upload_run this] t show ?thesis by auto
qed

lemma settle_answer_Inr: "settle_answer r c = (Inr (t, b), c') \<Longrightarrow> r = Inr ((t, b, None), c')"
  by (auto simp: settle_answer_def split: sum.splits option.splits)

lemma inspect_object_Inr:
  assumes "inspect_object st rd t version = Inr (facts, body)" and "matches t facts"
    and "NeedsArchiveCheck rd (t_Class t) (t_MediaType t) \<or> (\<exists>seen. os_Verify st (t_ObjectKey t) version (t_ExpectedSize t) = Inr seen \<and>
      matches t seen \<and> DetectArchive rd (of_Head seen) \<noteq> [])"
  shows "\<exists>b. body = Some b \<and> os_Read st (t_ObjectKey t) version (t_ExpectedSize t) = Inr (b, facts)"
  using assms by (auto simp: inspect_object_def read_object_def split: sum.splits if_splits)

lemma inspect_object_facts:
  "inspect_object st rd t version = Inr (facts, body) \<Longrightarrow>
     os_Verify st (t_ObjectKey t) version (t_ExpectedSize t) = Inr facts \<or>
     (\<exists>b. os_Read st (t_ObjectKey t) version (t_ExpectedSize t) = Inr (b, facts))"
  by (auto simp: inspect_object_def read_object_def split: sum.splits if_splits)

text \<open>How a transfer becomes finalized.\<close>

lemma Artifacts_Finalize_Inr:
  assumes "Artifacts_Finalize (Some st) rd lim now now2 cmd transferID handle objectVersion instanceID c = (Inr (t, False), c')"
  obtains peek facts body where "find_transfer transferID handle c = Inr peek" "Transfer_InScope peek (cmd_TenantID cmd)" "t_State peek = TransferBegun"
    "inspect_object st rd peek objectVersion = Inr (facts, body)" "finalizing_instance instanceID peek c = None" "now < t_Deadline peek"
    "settle_transfer now2 cmd (t_ID peek) objectVersion (Some facts) (verify_object rd lim peek facts body) c = Inr ((t, False, None), c')"
proof -
  from assms obtain peek where peek: "find_transfer transferID handle c = Inr peek" "Transfer_InScope peek (cmd_TenantID cmd)"
    by (auto simp: Artifacts_Finalize_def split: if_splits sum.splits)
  note tx = assms [unfolded Artifacts_Finalize_def, simplified peek option.case sum.case]
  have begun: "t_State peek = TransferBegun" using tx by (cases "t_State peek") (auto split: if_splits option.splits)
  note tx1 = tx [unfolded begun transfer_state.case]
  have inst: "finalizing_instance instanceID peek c = None" using tx1 by (auto split: if_splits option.splits)
  have refused: "settle_answer (settle_transfer now2 cmd i v None (Some p) c) c \<noteq> (Inr (t, False), c')" for i v p
  proof
    assume "settle_answer (settle_transfer now2 cmd i v None (Some p) c) c = (Inr (t, False), c')"
    from settle_answer_Inr [OF this] show False
      by (cases p) (auto simp: settle_transfer_def Let_def fallible split: if_splits prod.splits option.splits)
  qed
  have in_time: "now < t_Deadline peek" using tx1 inst refused by (auto split: if_splits)
  show thesis
  proof (cases "inspect_object st rd peek objectVersion")
    case (Inl e)
    then have False using tx1 inst in_time refused by (cases e) (auto split: if_splits)
    then show thesis ..
  next
    case (Inr fb)
    obtain facts body where fb: "fb = (facts, body)" by (cases fb)
    have "settle_transfer now2 cmd (t_ID peek) objectVersion (Some facts) (verify_object rd lim peek facts body) c = Inr ((t, False, None), c')"
      by (rule settle_answer_Inr) (use tx1 inst in_time Inr fb in \<open>auto split: if_splits\<close>)
    then show thesis using that peek begun Inr fb inst in_time by blast
  qed
qed

text \<open>C24: Only verified bytes are finalized. When \<open>Finalize\<close> newly finalizes a transfer, the object store reported
  for the named version exactly the announced size and digest; and when the class or media type asks for an
  archive, or the stored head looks like one, the bytes the store returned passed the archive check. The row is then
  finalized with those facts, before the deadline.\<close>

theorem finalize_verified:
  assumes "Artifacts_Finalize (Some st) rd lim now now2 cmd transferID handle objectVersion instanceID c = (Inr (t, False), c')"
    and "transfers_inv (c_transfers c)"
  shows "\<exists>facts. (os_Verify st (t_ObjectKey t) objectVersion (t_ExpectedSize t) = Inr facts \<or>
       (\<exists>b. os_Read st (t_ObjectKey t) objectVersion (t_ExpectedSize t) = Inr (b, facts))) \<and>
     of_Size facts = t_ExpectedSize t \<and> of_Digest facts = t_ExpectedDigest t \<and> t_ObjectVersion t = of_Version facts \<and>
     (NeedsArchiveCheck rd (t_Class t) (t_MediaType t) \<or>
      (\<exists>seen. os_Verify st (t_ObjectKey t) objectVersion (t_ExpectedSize t) = Inr seen \<and> matches t seen \<and> DetectArchive rd (of_Head seen) \<noteq> []) \<longrightarrow>
      (\<exists>b. os_Read st (t_ObjectKey t) objectVersion (t_ExpectedSize t) = Inr (b, facts) \<and>
        CheckArchive rd (t_Class t) (t_MediaType t) b (xl_Archive lim) = None)) \<and>
     GetTransfer c' (t_ID t) = Some t \<and> t_State t = TransferFinalized \<and> t_TenantID t = cmd_TenantID cmd \<and> now2 < t_Deadline t"
  using assms(1)
proof (cases rule: Artifacts_Finalize_Inr)
  case (1 peek facts body)
  have row: "lookup_by t_ID (t_ID peek) (c_transfers c) = Some peek"
  proof -
    have "peek \<in> set (c_transfers c)" using 1(1) lookup_by_SomeD [of t_ID transferID "c_transfers c"] lookup_by_SomeD [of t_Handle handle "c_transfers c"]
      by (auto simp: find_transfer_def GetTransfer_def GetTransferByHandle_def fallible split: if_splits)
    then show ?thesis using assms(2) lookup_by_mem [of t_ID "c_transfers c"] by (simp add: transfers_inv_def)
  qed
  from 1(7) assms(2) show ?thesis
  proof (cases rule: settle_transfer_Inr)
    case (updated locked)
    have l: "locked = peek" using updated(1) row by (simp add: GetTransfer_def)
    from updated(8) l have v: "verify_object rd lim peek facts body = None" and fin: "Finalize peek cmd facts now2 = (t, None)" and "now2 < t_Deadline peek"
      by auto
    then have t: "of_Size facts = t_ExpectedSize peek" "of_Digest facts = t_ExpectedDigest peek" "now2 < t_Deadline t"
      "t_ObjectKey t = t_ObjectKey peek" "t_ExpectedSize t = t_ExpectedSize peek" "t_ExpectedDigest t = t_ExpectedDigest peek" "t_Class t = t_Class peek"
      "t_MediaType t = t_MediaType peek" "t_ObjectVersion t = of_Version facts" "t_State t = TransferFinalized" "t_TenantID t = t_TenantID peek"
      "transfer_columns t peek = t" "t_ID t = t_ID peek"
      by (auto simp: Finalize_def transfer_columns_def split: if_splits)
    have m: "matches peek facts" "matches t = matches peek" using t by (auto simp: matches_def fun_eq_iff)
    have "GetTransfer c' (t_ID t) = Some t" using transfers_inv_update(1) [OF assms(2) updated(1,3,5)]
        transfers_inv_update(2) [OF assms(2) updated(1,3,5), of peek] l t(12,13) lookup_by_SomeD [OF row]
        lookup_by_mem [of t_ID "c_transfers c'" t]
      by (simp add: updated(2) GetTransfer_def transfers_inv_def)
    moreover have "\<exists>b. os_Read st (t_ObjectKey t) objectVersion (t_ExpectedSize t) = Inr (b, facts) \<and>
        CheckArchive rd (t_Class t) (t_MediaType t) b (xl_Archive lim) = None"
      if "NeedsArchiveCheck rd (t_Class t) (t_MediaType t) \<or>
      (\<exists>seen. os_Verify st (t_ObjectKey t) objectVersion (t_ExpectedSize t) = Inr seen \<and> matches t seen \<and> DetectArchive rd (of_Head seen) \<noteq> [])"
      using inspect_object_Inr [OF 1(4) m(1)] that v m by (auto simp: t verify_object_def)
    ultimately show ?thesis using inspect_object_facts [OF 1(4)] t 1(2) by (intro exI [of _ facts]) (simp add: Transfer_InScope_def)
  qed simp
qed

theorem finalize_verified_witness:
  "(case Artifacts_Finalize (Some upload_store) sample_readers upload_limits 2000 3000 (plane_cmd ''u2'') ''tr_1'' [] ''v1'' [] upload1 of
      (Inr (t, existing), c') \<Rightarrow> \<not> existing \<and> GetTransfer c' ''tr_1'' = Some t \<and> t_State t = TransferFinalized | _ \<Rightarrow> False)"
proof -
  have "(case Artifacts_Finalize (Some upload_store) sample_readers upload_limits 2000 3000 (plane_cmd ''u2'') ''tr_1'' [] ''v1'' [] upload1 of
      (Inr (t, existing), c') \<Rightarrow> \<not> existing \<and> t_ID t = ''tr_1'' | _ \<Rightarrow> False)"
    unfolding upload1_def upload_call_def by code_simp
  then obtain t c' where w: "Artifacts_Finalize (Some upload_store) sample_readers upload_limits 2000 3000 (plane_cmd ''u2'') ''tr_1'' [] ''v1'' [] upload1 =
      (Inr (t, False), c')" "t_ID t = ''tr_1''" by (auto split: sum.splits prod.splits)
  have "transfers_inv (c_transfers plane0)" by (simp add: plane0_def transfers_inv_def)
  then have "transfers_inv (c_transfers upload1)" using transfer_run_inv [OF upload_run(1)] by blast
  from finalize_verified [OF w(1) this] w show ?thesis by auto
qed

text \<open>C25: What a reader is given. A download capability is answered only for a finalized transfer of the caller's tenant
  that the named operation of that tenant is related to: its prompt, an answer, its brief, its source or an output of one
  of its stages; and a job instance is answered only while it is the current instance of a prepared or running attempt of
  that operation, at the operation's epoch, before the attempt's deadline and while the operation is not fenced.\<close>

theorem read_authorized:
  assumes "Artifacts_Read (Some st) lim now tenantID handle transferID operationID instanceID d = Inr (t, k)"
  shows "find_transfer transferID handle (p_c d) = Inr t \<and> t_TenantID t = tenantID \<and> t_State t = TransferFinalized \<and>
    (\<exists>ops. lookup_by op_ID operationID (db_operations (c_db (p_c d))) = Some ops \<and> op_TenantID ops = tenantID \<and>
      ((\<exists>intake. op_Preparation ops = Some intake \<and> ab_TransferID (pi_Prompt intake) = t_ID t) \<or>
       (op_Kind ops = KindPreparation \<and> (\<exists>a \<in> set (ListAnswers d (op_ID ops)). ab_TransferID (an_Answer a) = t_ID t)) \<or>
       (\<exists>b. GetBrief (p_c d) (sj_BriefID (op_Subject ops)) = Some b \<and> ab_TransferID (br_Brief b) = t_ID t \<and> br_TenantID b = tenantID) \<or>
       (op_Kind ops \<in> {KindPreviewBuild, KindRelease} \<and> sj_SourceHandle (op_Subject ops) = t_Handle t) \<or>
       (\<exists>a \<in> set (c_stage_artifacts (p_c d)). \<exists>s \<in> set (db_stages (c_db (p_c d))). sa_TransferID a = t_ID t \<and> st_ID s = sa_StageID a \<and>
          st_OperationID s = op_ID ops)) \<and>
      (instanceID \<noteq> [] \<longrightarrow> (\<exists>i at. lookup_by inst_ID instanceID (db_instances (c_db (p_c d))) = Some i \<and>
         lookup_by at_ID (inst_AttemptID i) (db_attempts (c_db (p_c d))) = Some at \<and> at_OperationID at = op_ID ops \<and> inst_Current i \<and>
         at_State at \<in> {AttemptLaunchPrepared, AttemptRunning} \<and> at_ExecutionEpoch at = op_ExecutionEpoch ops \<and>
         \<not> FencedForNewDispatch ops \<and> now < at_Deadline at)))"
proof -
  from assms obtain ops where tr: "find_transfer transferID handle (p_c d) = Inr t" "t_TenantID t = tenantID" "t_State t = TransferFinalized"
    and ops: "lookup_by op_ID operationID (db_operations (c_db (p_c d))) = Some ops" "op_TenantID ops = tenantID"
    and auth: "instanceID \<noteq> [] \<Longrightarrow> readerAuthority ops instanceID now (p_c d) = None" and rel: "artifactRelationship ops t d = None"
    by (auto simp: Artifacts_Read_def GetOperationScoped_def fallible split: if_splits sum.splits)
  have related: "(\<exists>intake. op_Preparation ops = Some intake \<and> ab_TransferID (pi_Prompt intake) = t_ID t) \<or>
       (op_Kind ops = KindPreparation \<and> (\<exists>a \<in> set (ListAnswers d (op_ID ops)). ab_TransferID (an_Answer a) = t_ID t)) \<or>
       (\<exists>b. GetBrief (p_c d) (sj_BriefID (op_Subject ops)) = Some b \<and> ab_TransferID (br_Brief b) = t_ID t \<and> br_TenantID b = tenantID) \<or>
       (op_Kind ops \<in> {KindPreviewBuild, KindRelease} \<and> sj_SourceHandle (op_Subject ops) = t_Handle t) \<or>
       (\<exists>a \<in> set (c_stage_artifacts (p_c d)). \<exists>s \<in> set (db_stages (c_db (p_c d))). sa_TransferID a = t_ID t \<and> st_ID s = sa_StageID a \<and>
          st_OperationID s = op_ID ops)"
    using rel ops(2) unfolding artifactRelationship_def
    by (auto simp: list_ex_iff GetStageArtifactByTransfer_def split: if_splits option.splits dest!: find_SomeD)
  have "\<exists>i at. lookup_by inst_ID instanceID (db_instances (c_db (p_c d))) = Some i \<and>
         lookup_by at_ID (inst_AttemptID i) (db_attempts (c_db (p_c d))) = Some at \<and> at_OperationID at = op_ID ops \<and> inst_Current i \<and>
         at_State at \<in> {AttemptLaunchPrepared, AttemptRunning} \<and> at_ExecutionEpoch at = op_ExecutionEpoch ops \<and>
         \<not> FencedForNewDispatch ops \<and> now < at_Deadline at" if "instanceID \<noteq> []"
    using auth [OF that] by (auto simp: readerAuthority_def LockInstance_def GetAttempt_def fallible split: sum.splits if_splits)
  then show ?thesis using tr ops related by blast
qed

theorem read_authorized_witness:
  "(case Artifacts_Read (Some upload_store) upload_limits 2500 ''t'' [] ''tr_1'' ''op_1'' [] prep2 of
      Inl _ \<Rightarrow> False | Inr (t, k) \<Rightarrow> t_State t = TransferFinalized \<and> t_TenantID t = ''t'')"
proof -
  have "\<not> isl (Artifacts_Read (Some upload_store) upload_limits 2500 ''t'' [] ''tr_1'' ''op_1'' [] prep2)"
    unfolding prep2_def prep1_def ask_call_def answer_in_def by code_simp
  then obtain t k where w: "Artifacts_Read (Some upload_store) upload_limits 2500 ''t'' [] ''tr_1'' ''op_1'' [] prep2 = Inr (t, k)"
    by (metis projr_call)
  from read_authorized [OF w] show ?thesis by (simp add: w)
qed

end
