(* ===== verification/Obligations.thy ===== *)
theory Obligations
  imports Effects_Service
begin

text \<open>
  \<open>internal/application/obligations.go\<close>: the five classes of durable external obligations, their
  inventory keys, the records published under them and the reading back of a record. The library
  functions \<open>json.Marshal\<close>, \<open>json.Unmarshal\<close>, \<open>Time.Format\<close> and \<open>time.Parse\<close> (both with
  \<open>RFC3339Nano\<close>) are the fields of a record of functions; \<open>Unmarshal\<close> answers \<open>None\<close> for its error. The
  texts of errors are left out, and with them the names a list of missing bindings would print
  beyond the list itself.
\<close>

section \<open>Keys\<close>

definition ClassIntake :: string where "ClassIntake = ''intake''"
definition ClassJobLaunch :: string where "ClassJobLaunch = ''job-launch''"
definition ClassModelDispatch :: string where "ClassModelDispatch = ''model-dispatch''"
definition ClassToolDispatch :: string where "ClassToolDispatch = ''tool-dispatch''"
definition ClassBusinessWrite :: string where "ClassBusinessWrite = ''business-write''"

lemmas class_names = ClassIntake_def ClassJobLaunch_def ClassModelDispatch_def ClassToolDispatch_def ClassBusinessWrite_def

definition ObligationClasses :: "string list" where
  "ObligationClasses = [ClassIntake, ClassJobLaunch, ClassModelDispatch, ClassToolDispatch, ClassBusinessWrite]"

definition ObligationKey :: "string \<Rightarrow> string \<Rightarrow> string" where
  "ObligationKey cls i = cls @ ''/'' @ i"

text \<open>\<open>strings.Cut\<close>: the text before and after the first separator, \<open>None\<close> when there is none.\<close>

fun Cut :: "char \<Rightarrow> string \<Rightarrow> (string \<times> string) option" where
  "Cut sep [] = None"
| "Cut sep (c # cs) = (if c = sep then Some ([], cs) else map_option (\<lambda>(a, b). (c # a, b)) (Cut sep cs))"

lemma Cut_join: "sep \<notin> set a \<Longrightarrow> Cut sep (a @ sep # b) = Some (a, b)"
  by (induction a) auto

lemma Cut_Some: "Cut sep s = Some (a, b) \<Longrightarrow> s = a @ sep # b \<and> sep \<notin> set a"
  by (induction s arbitrary: a) (auto split: if_splits)

definition ParseObligationKey :: "string \<Rightarrow> (string \<times> string) option" where
  "ParseObligationKey key =
     (case Cut (CHR ''/'') key of
        None \<Rightarrow> None
      | Some (cls, i) \<Rightarrow>
          if i = [] \<or> CHR ''/'' \<in> set i then None
          else if list_ex (\<lambda>c. c = cls) ObligationClasses then Some (cls, i) else None)"

section \<open>Records\<close>

record intake_record =
  ir_Class :: string
  ir_CommandID :: string
  ir_OperationID :: string
  ir_Kind :: string
  ir_TenantID :: string
  ir_ProjectID :: string
  ir_ProfileID :: string
  ir_SubjectDigest :: string
  ir_RequestDigest :: string
  ir_CreatedAt :: string
  ir_ExecutionEpoch :: u64

record launch_record =
  lr_Class :: string
  lr_LaunchID :: string
  lr_AttemptID :: string
  lr_OperationID :: string
  lr_TenantID :: string
  lr_LaunchKey :: string
  lr_Backend :: string
  lr_ProfileID :: string
  lr_ImageDigest :: string
  lr_ExecutionEpoch :: u64
  lr_LaunchEpoch :: u64
  lr_Deadline :: string
  lr_CreatedAt :: string

record dispatch_record =
  dr_Class :: string
  dr_DispatchID :: string
  dr_CallID :: string
  dr_Owner :: string
  dr_TenantID :: string
  dr_OperationID :: string
  dr_AttemptID :: string
  dr_InstanceID :: string
  dr_RouteID :: string
  dr_GrantID :: string
  dr_GrantRevision :: u64
  dr_RequestDigest :: string
  dr_Currency :: string
  dr_Exposure :: string
  dr_MeterRevision :: string
  dr_ExecutionEpoch :: u64
  dr_Deadline :: string
  dr_AdmittedAt :: string
  dr_ArgumentDigest :: string
  dr_SideEffecting :: bool

record effect_obligation =
  fr_Class :: string
  fr_EffectID :: string
  fr_CommandID :: string
  fr_OperationID :: string
  fr_AttemptID :: string
  fr_TenantID :: string
  fr_Kind :: string
  fr_Occurrence :: u64
  fr_Owner :: string
  fr_CanonicalSubject :: string
  fr_ExpectedRevision :: string
  fr_RequestDigest :: string
  fr_ExecutionEpoch :: u64
  fr_LeaseID :: string
  fr_LeaseFence :: u64
  fr_Deadline :: string
  fr_CreatedAt :: string

record 'b codecs =
  cd_MarshalIntake :: "intake_record \<Rightarrow> 'b"
  cd_UnmarshalIntake :: "'b \<Rightarrow> intake_record option"
  cd_MarshalLaunch :: "launch_record \<Rightarrow> 'b"
  cd_UnmarshalLaunch :: "'b \<Rightarrow> launch_record option"
  cd_MarshalDispatch :: "dispatch_record \<Rightarrow> 'b"
  cd_UnmarshalDispatch :: "'b \<Rightarrow> dispatch_record option"
  cd_MarshalEffect :: "effect_obligation \<Rightarrow> 'b"
  cd_UnmarshalEffect :: "'b \<Rightarrow> effect_obligation option"
  cd_Format :: "instant \<Rightarrow> string"
  cd_Parse :: "string \<Rightarrow> instant option"

fun operation_kind_string :: "operation_kind \<Rightarrow> string" where
  "operation_kind_string KindPreparation = ''preparation''"
| "operation_kind_string KindGeneration = ''generation''"
| "operation_kind_string KindRefinement = ''refinement''"
| "operation_kind_string KindPreviewBuild = ''preview_build''"
| "operation_kind_string KindRelease = ''release''"
| "operation_kind_string KindLocalCheck = ''local_check''"

fun effect_kind_string :: "effect_kind \<Rightarrow> string" where
  "effect_kind_string EffectBusinessWrite = ''business_write''"
| "effect_kind_string EffectPublication = ''publication''"
| "effect_kind_string EffectActivation = ''activation''"
| "effect_kind_string EffectReview = ''review''"
| "effect_kind_string (EffectKindOther s) = s"

section \<open>Publishing\<close>

definition intake_record_of :: "'b codecs \<Rightarrow> operation \<Rightarrow> intake_record" where
  "intake_record_of cd ops =
     \<lparr>ir_Class = ClassIntake, ir_CommandID = op_CommandID ops, ir_OperationID = op_ID ops, ir_Kind = operation_kind_string (op_Kind ops),
      ir_TenantID = op_TenantID ops, ir_ProjectID = op_ProjectID ops, ir_ProfileID = sj_ProfileID (op_Subject ops),
      ir_SubjectDigest = sj_SubjectDigest (op_Subject ops), ir_RequestDigest = op_SemanticDigest ops, ir_CreatedAt = cd_Format cd (op_CreatedAt ops),
      ir_ExecutionEpoch = op_ExecutionEpoch ops\<rparr>"

definition intakeObligation :: "'b codecs \<Rightarrow> operation \<Rightarrow> string \<times> 'b" where
  "intakeObligation cd ops = (ObligationKey ClassIntake (op_ID ops), cd_MarshalIntake cd (intake_record_of cd ops))"

definition launch_record_of :: "'b codecs \<Rightarrow> launch \<Rightarrow> string \<Rightarrow> launch_record" where
  "launch_record_of cd l tenantID =
     \<lparr>lr_Class = ClassJobLaunch, lr_LaunchID = ln_ID l, lr_AttemptID = ln_AttemptID l, lr_OperationID = ln_OperationID l, lr_TenantID = tenantID,
      lr_LaunchKey = ln_LaunchKey l, lr_Backend = ln_Backend l, lr_ProfileID = ln_ProfileID l, lr_ImageDigest = ln_ImageDigest l,
      lr_ExecutionEpoch = ln_ExecutionEpoch l, lr_LaunchEpoch = ln_LaunchEpoch l, lr_Deadline = cd_Format cd (ln_Deadline l),
      lr_CreatedAt = cd_Format cd (ln_CreatedAt l)\<rparr>"

definition launchObligation :: "'b codecs \<Rightarrow> launch \<Rightarrow> string \<Rightarrow> string \<times> 'b" where
  "launchObligation cd l tenantID = (ObligationKey ClassJobLaunch (ln_ID l), cd_MarshalLaunch cd (launch_record_of cd l tenantID))"

definition dispatch_class :: "dispatch_kind \<Rightarrow> string" where
  "dispatch_class k = (if k = DispatchTool then ClassToolDispatch else ClassModelDispatch)"

definition dispatch_record_of :: "'b codecs \<Rightarrow> dispatch \<Rightarrow> dispatch_record" where
  "dispatch_record_of cd d =
     \<lparr>dr_Class = dispatch_class (d_Kind d), dr_DispatchID = d_ID d, dr_CallID = d_CallID d, dr_Owner = d_Owner d, dr_TenantID = d_TenantID d,
      dr_OperationID = d_OperationID d, dr_AttemptID = d_AttemptID d, dr_InstanceID = d_InstanceID d, dr_RouteID = d_RouteID d,
      dr_GrantID = d_GrantID d, dr_GrantRevision = d_GrantRevision d, dr_RequestDigest = d_RequestDigest d,
      dr_Currency = m_Currency (d_Reserved d), dr_Exposure = AmountString (d_Reserved d), dr_MeterRevision = d_MeterRevision d,
      dr_ExecutionEpoch = d_ExecutionEpoch d, dr_Deadline = cd_Format cd (d_Deadline d), dr_AdmittedAt = cd_Format cd (d_AdmittedAt d),
      dr_ArgumentDigest = d_ArgumentDigest d, dr_SideEffecting = d_SideEffecting d\<rparr>"

definition dispatchObligation :: "'b codecs \<Rightarrow> dispatch \<Rightarrow> string \<times> 'b" where
  "dispatchObligation cd d = (ObligationKey (dispatch_class (d_Kind d)) (d_ID d), cd_MarshalDispatch cd (dispatch_record_of cd d))"

definition effect_record_of :: "'b codecs \<Rightarrow> effect \<Rightarrow> effect_obligation" where
  "effect_record_of cd e =
     \<lparr>fr_Class = ClassBusinessWrite, fr_EffectID = e_ID e, fr_CommandID = e_CommandID e, fr_OperationID = e_OperationID e,
      fr_AttemptID = e_AttemptID e, fr_TenantID = e_TenantID e, fr_Kind = effect_kind_string (e_Kind e), fr_Occurrence = e_Occurrence e,
      fr_Owner = e_Owner e, fr_CanonicalSubject = e_CanonicalSubject e, fr_ExpectedRevision = e_ExpectedRevision e,
      fr_RequestDigest = e_RequestDigest e, fr_ExecutionEpoch = e_ExecutionEpoch e, fr_LeaseID = e_LeaseID e, fr_LeaseFence = e_LeaseFence e,
      fr_Deadline = cd_Format cd (e_Deadline e), fr_CreatedAt = cd_Format cd (e_CreatedAt e)\<rparr>"

definition effectObligation :: "'b codecs \<Rightarrow> effect \<Rightarrow> string \<times> 'b" where
  "effectObligation cd e = (ObligationKey ClassBusinessWrite (e_ID e), cd_MarshalEffect cd (effect_record_of cd e))"

section \<open>Reading back\<close>

record obligation =
  ob_Class :: string
  ob_ID :: string
  ob_TenantID :: string
  ob_RecordedAt :: instant
  ob_Intake :: "intake_record option"
  ob_Launch :: "launch_record option"
  ob_Dispatch :: "dispatch_record option"
  ob_Effect :: "effect_obligation option"

definition required :: "(string \<times> string) list \<Rightarrow> string list" where
  "required pairs = map fst (filter (\<lambda>(name, v). v = []) pairs)"

text \<open>The bindings a class requires; \<open>when\<close> appends the name of a missing number.\<close>

abbreviation missing_when :: "bool \<Rightarrow> string \<Rightarrow> string list" where
  "missing_when b name \<equiv> (if b then [name] else [])"

definition intake_missing :: "intake_record \<Rightarrow> string list" where
  "intake_missing r = required [(''commandId'', ir_CommandID r), (''operationId'', ir_OperationID r), (''kind'', ir_Kind r), (''tenantId'', ir_TenantID r),
     (''profileId'', ir_ProfileID r), (''subjectDigest'', ir_SubjectDigest r), (''requestDigest'', ir_RequestDigest r), (''createdAt'', ir_CreatedAt r)]"

definition launch_missing :: "launch_record \<Rightarrow> string list" where
  "launch_missing r = required [(''launchId'', lr_LaunchID r), (''attemptId'', lr_AttemptID r), (''operationId'', lr_OperationID r), (''tenantId'', lr_TenantID r),
     (''launchKey'', lr_LaunchKey r), (''backend'', lr_Backend r), (''profileId'', lr_ProfileID r), (''imageDigest'', lr_ImageDigest r),
     (''deadline'', lr_Deadline r), (''createdAt'', lr_CreatedAt r)] @
     missing_when (lr_ExecutionEpoch r = 0) ''executionEpoch'' @ missing_when (lr_LaunchEpoch r = 0) ''launchEpoch''"

definition dispatch_missing :: "string \<Rightarrow> dispatch_record \<Rightarrow> string list" where
  "dispatch_missing cls r = required [(''dispatchId'', dr_DispatchID r), (''callId'', dr_CallID r), (''owner'', dr_Owner r), (''tenantId'', dr_TenantID r),
     (''operationId'', dr_OperationID r), (''attemptId'', dr_AttemptID r), (''requestDigest'', dr_RequestDigest r), (''currency'', dr_Currency r),
     (''exposure'', dr_Exposure r), (''meterRevision'', dr_MeterRevision r), (''deadline'', dr_Deadline r), (''admittedAt'', dr_AdmittedAt r)] @
     missing_when (cls = ClassModelDispatch \<and> dr_RouteID r = []) ''routeId'' @ missing_when (cls = ClassToolDispatch \<and> dr_GrantID r = []) ''grantId'' @
     missing_when (dr_ExecutionEpoch r = 0) ''executionEpoch''"

definition effect_missing :: "effect_obligation \<Rightarrow> string list" where
  "effect_missing r = required [(''effectId'', fr_EffectID r), (''commandId'', fr_CommandID r), (''operationId'', fr_OperationID r), (''tenantId'', fr_TenantID r),
     (''kind'', fr_Kind r), (''owner'', fr_Owner r), (''canonicalSubject'', fr_CanonicalSubject r), (''requestDigest'', fr_RequestDigest r),
     (''deadline'', fr_Deadline r), (''createdAt'', fr_CreatedAt r)] @
     missing_when (fr_Occurrence r = 0) ''occurrence'' @ missing_when (fr_ExecutionEpoch r = 0) ''executionEpoch''"

text \<open>The class record of a body: the obligation without its time, the recorded time, class and
  identity, and the missing bindings.\<close>

definition decode_record :: "'b codecs \<Rightarrow> string \<Rightarrow> string \<Rightarrow> 'b \<Rightarrow> (obligation \<times> string \<times> string \<times> string \<times> string list) option" where
  "decode_record cd cls i body =
     (let o0 = \<lparr>ob_Class = cls, ob_ID = i, ob_TenantID = [], ob_RecordedAt = 0, ob_Intake = None, ob_Launch = None, ob_Dispatch = None, ob_Effect = None\<rparr>
      in if cls = ClassIntake
         then map_option (\<lambda>r. (o0\<lparr>ob_Intake := Some r, ob_TenantID := ir_TenantID r\<rparr>, ir_CreatedAt r, ir_Class r, ir_OperationID r, intake_missing r))
                (cd_UnmarshalIntake cd body)
         else if cls = ClassJobLaunch
         then map_option (\<lambda>r. (o0\<lparr>ob_Launch := Some r, ob_TenantID := lr_TenantID r\<rparr>, lr_CreatedAt r, lr_Class r, lr_LaunchID r, launch_missing r))
                (cd_UnmarshalLaunch cd body)
         else if cls = ClassModelDispatch \<or> cls = ClassToolDispatch
         then map_option (\<lambda>r. (o0\<lparr>ob_Dispatch := Some r, ob_TenantID := dr_TenantID r\<rparr>, dr_AdmittedAt r, dr_Class r, dr_DispatchID r, dispatch_missing cls r))
                (cd_UnmarshalDispatch cd body)
         else map_option (\<lambda>r. (o0\<lparr>ob_Effect := Some r, ob_TenantID := fr_TenantID r\<rparr>, fr_CreatedAt r, fr_Class r, fr_EffectID r, effect_missing r))
                (cd_UnmarshalEffect cd body))"

definition DecodeObligation :: "'b codecs \<Rightarrow> string \<Rightarrow> 'b \<Rightarrow> err + obligation" where
  "DecodeObligation cd key body =
     (case ParseObligationKey key of
        None \<Rightarrow> Inl ErrInvalid
      | Some (cls, i) \<Rightarrow>
          (case decode_record cd cls i body of
             None \<Rightarrow> Inl ErrIntegrity
           | Some (o0, recorded, recordClass, recordID, missing) \<Rightarrow>
               if recordClass \<noteq> cls \<or> recordID \<noteq> i then Inl ErrIntegrity
               else if missing \<noteq> [] then Inl ErrIntegrity
               else case cd_Parse cd recorded of None \<Rightarrow> Inl ErrIntegrity | Some t \<Rightarrow> Inr (o0\<lparr>ob_RecordedAt := t\<rparr>)))"

section \<open>Keys and bindings\<close>

lemma slash_class: "cls \<in> set ObligationClasses \<Longrightarrow> CHR ''/'' \<notin> set cls"
  by (auto simp: ObligationClasses_def class_names)

lemma ParseObligationKey_iff:
  "ParseObligationKey key = Some (cls, i) \<longleftrightarrow> key = ObligationKey cls i \<and> cls \<in> set ObligationClasses \<and> i \<noteq> [] \<and> CHR ''/'' \<notin> set i"
proof
  assume "ParseObligationKey key = Some (cls, i)"
  then show "key = ObligationKey cls i \<and> cls \<in> set ObligationClasses \<and> i \<noteq> [] \<and> CHR ''/'' \<notin> set i"
    by (auto simp: ParseObligationKey_def ObligationKey_def list_ex_iff dest: Cut_Some split: option.splits if_splits)
next
  assume "key = ObligationKey cls i \<and> cls \<in> set ObligationClasses \<and> i \<noteq> [] \<and> CHR ''/'' \<notin> set i"
  then show "ParseObligationKey key = Some (cls, i)"
    using Cut_join [OF slash_class, of cls i] by (auto simp: ParseObligationKey_def ObligationKey_def list_ex_iff)
qed

lemma required_Nil_iff: "required pairs = [] \<longleftrightarrow> (\<forall>p \<in> set pairs. snd p \<noteq> [])"
  by (auto simp: required_def filter_empty_conv)

end
