(* ===== verification/Recovery.thy ===== *)
theory Recovery
  imports Obligations
begin

text \<open>
  \<open>internal/domain/recovery.go\<close>: recovery runs over a rollback window, the progress of their
  enumeration, findings and operator dispositions. The free text \<open>Detail\<close> of a finding is left out.
\<close>

datatype recovery_phase = RecoveryFenced | RecoveryEnumerating | RecoveryReconciling | RecoveryRestricted | RecoveryReopened

abbreviation ScopeAll :: string where
  "ScopeAll \<equiv> ''*''"

record recovery_run =
  rr_ID :: string
  rr_ScopeKey :: string
  rr_TenantID :: string
  rr_CommandID :: string
  rr_ActorID :: string
  rr_RequestDigest :: digest
  rr_RecoveryEpoch :: u64
  rr_Phase :: recovery_phase
  rr_WindowStart :: instant
  rr_WindowEnd :: instant
  rr_Skew :: duration
  rr_Reason :: string
  rr_FencedCount :: u64
  rr_CreatedAt :: instant
  rr_UpdatedAt :: instant
  rr_ReopenedAt :: "instant option"

definition Covers :: "recovery_run \<Rightarrow> instant \<Rightarrow> bool" where
  "Covers r t \<longleftrightarrow> \<not> t < rr_WindowStart r + - rr_Skew r \<and> \<not> t > rr_WindowEnd r + rr_Skew r"

definition Run_InScope :: "recovery_run \<Rightarrow> string \<Rightarrow> bool" where
  "Run_InScope r tenantID \<longleftrightarrow> rr_ScopeKey r = ScopeAll \<or> rr_TenantID r = tenantID"

definition NewRecoveryRun ::
  "string \<Rightarrow> command_identity \<Rightarrow> string \<Rightarrow> u64 \<Rightarrow> instant \<Rightarrow> instant \<Rightarrow> duration \<Rightarrow> string \<Rightarrow> instant \<Rightarrow> err + recovery_run" where
  "NewRecoveryRun new_id cmd scopeKey epoch windowStart windowEnd skew reason now =
     (if scopeKey = [] then Inl ErrInvalid
      else if \<not> windowEnd > windowStart then Inl ErrInvalid
      else if skew < 0 then Inl ErrInvalid
      else let tenant = (if scopeKey = ScopeAll then [] else scopeKey)
           in Inr \<lparr>rr_ID = new_id, rr_ScopeKey = scopeKey, rr_TenantID = tenant, rr_CommandID = cmd_CommandID cmd, rr_ActorID = cmd_ActorID cmd,
                rr_RequestDigest = cmd_RequestDigest cmd, rr_RecoveryEpoch = epoch, rr_Phase = RecoveryFenced, rr_WindowStart = truncate_us windowStart,
                rr_WindowEnd = truncate_us windowEnd, rr_Skew = skew, rr_Reason = reason, rr_FencedCount = 0, rr_CreatedAt = now, rr_UpdatedAt = now,
                rr_ReopenedAt = None\<rparr>)"

record recovery_progress =
  pg_RunID :: string
  pg_Class :: string
  pg_Cursor :: string
  pg_Complete :: bool
  pg_Seen :: u64

datatype finding_status =
  FindingPresent | FindingMissing | FindingRestored | FindingResolved | FindingUnresolved | FindingDisposed | FindingOutsideScope

definition Finding_Settled :: "finding_status \<Rightarrow> bool" where
  "Finding_Settled s \<longleftrightarrow> s = FindingPresent \<or> s = FindingResolved \<or> s = FindingDisposed \<or> s = FindingOutsideScope"

record recovery_finding =
  fi_ID :: string
  fi_RunID :: string
  fi_Class :: string
  fi_ObligationID :: string
  fi_TenantID :: string
  fi_InventoryKey :: string
  fi_InventoryVersion :: string
  fi_RecordedAt :: instant
  fi_Status :: finding_status
  fi_Outcome :: string
  fi_EvidenceRef :: string
  fi_CreatedAt :: instant
  fi_UpdatedAt :: instant
  fi_LaunchKey :: string

datatype disposition_decision = DisposeConfirmNotSent | DisposeResolveSucceeded | DisposeResolveFailed | DisposeRetainExposure

fun decision_string :: "disposition_decision \<Rightarrow> string" where
  "decision_string DisposeConfirmNotSent = ''confirm_not_sent''"
| "decision_string DisposeResolveSucceeded = ''resolve_succeeded''"
| "decision_string DisposeResolveFailed = ''resolve_failed''"
| "decision_string DisposeRetainExposure = ''retain_exposure''"

record disposition =
  di_ID :: string
  di_Class :: string
  di_ObligationID :: string
  di_TenantID :: string
  di_RunID :: string
  di_RecoveryEpoch :: u64
  di_CommandID :: string
  di_ActorID :: string
  di_RequestDigest :: digest
  di_Decision :: disposition_decision
  di_EvidenceRef :: string
  di_EvidenceDigest :: digest
  di_Reason :: string
  di_DecidedAt :: instant

text \<open>What the window covers, in terms of the requested one: the ends are rounded down to a
  microsecond, so everything up to a microsecond before the widened end is covered.\<close>

lemma Covers_NewRecoveryRun:
  assumes "NewRecoveryRun new_id cmd scopeKey epoch windowStart windowEnd skew reason now = Inr r"
    and "windowStart - skew \<le> t" and "t \<le> windowEnd + skew - 1000"
  shows "Covers r t"
proof -
  have "truncate_us windowStart \<le> windowStart" "windowEnd < truncate_us windowEnd + 1000" using truncate_us_near [of windowEnd] by simp_all
  moreover from assms(1) have "rr_WindowStart r = truncate_us windowStart" "rr_WindowEnd r = truncate_us windowEnd" "rr_Skew r = skew"
    by (auto simp: NewRecoveryRun_def Let_def split: if_splits)
  ultimately show ?thesis using assms(2,3) by (simp only: Covers_def) linarith
qed

end
