(* ===== verification/Recovery_Service.thy ===== *)
theory Recovery_Service
  imports Recovery "HOL-Library.Product_Lexorder"
begin

text \<open>
  \<open>internal/application/recovery.go\<close> and \<open>recovery_enumeration.go\<close>, with
  the queries of \<open>adapters/postgres/recovery.go\<close>. The tables of the service stand beside the rest
  of the database. The inventory is a pair of functions: a page of a listing, and the body and version
  of an object. The order of the text columns is the database's, given by an argument \<open>coll\<close> that
  maps a text to its rank in that order; the operations a run fences are taken in table order, since
  no row depends on another's turn. The epoch sequence only advances with a commit in the model; a
  gap left by a transaction that failed changes nothing.
\<close>

section \<open>Tables and queries\<close>

record rdb =
  r_c :: cdb
  r_runs :: "recovery_run list"
  r_progress :: "recovery_progress list"
  r_findings :: "recovery_finding list"
  r_dispositions :: "disposition list"
  r_epochs :: u64

abbreviation r_db :: "rdb \<Rightarrow> db" where
  "r_db d \<equiv> c_db (r_c d)"

definition put_db :: "db \<Rightarrow> rdb \<Rightarrow> rdb" where
  "put_db s d = d\<lparr>r_c := (r_c d)\<lparr>c_db := s\<rparr>\<rparr>"

definition GetLaunch :: "db \<Rightarrow> string \<Rightarrow> launch option" where
  "GetLaunch s launchID = lookup_by ln_ID launchID (db_launches s)"

definition GetRecoveryRunByCommand :: "rdb \<Rightarrow> string \<Rightarrow> string \<Rightarrow> recovery_run option" where
  "GetRecoveryRunByCommand d scopeKey commandID = lookup_by (\<lambda>r. (rr_ScopeKey r, rr_CommandID r)) (scopeKey, commandID) (r_runs d)"

definition GetRecoveryRun :: "rdb \<Rightarrow> string \<Rightarrow> err + recovery_run" where
  "GetRecoveryRun d runID = found (lookup_by rr_ID runID (r_runs d))"

definition LockRecoveryRun :: "rdb \<Rightarrow> string \<Rightarrow> err + recovery_run" where
  "LockRecoveryRun d runID = found (lookup_by rr_ID runID (r_runs d))"

definition AnyAdmissionClosed :: "db \<Rightarrow> bool" where
  "AnyAdmissionClosed s = list_ex (\<lambda>c. cl_ReopenedAt c = None) (db_closures s)"

definition NextRecoveryEpoch :: "rdb \<Rightarrow> err + (u64 \<times> rdb)" where
  "NextRecoveryEpoch d = (let n = r_epochs d + 1 in if \<not> bigint_ok n then Inl ErrStore else Inr (n, d\<lparr>r_epochs := n\<rparr>))"

text \<open>The clock uncertainty is stored in whole microseconds.\<close>

definition stored_run :: "recovery_run \<Rightarrow> recovery_run" where
  "stored_run r = r\<lparr>rr_Skew := truncate_us (rr_Skew r)\<rparr>"

definition InsertRecoveryRun :: "rdb \<Rightarrow> recovery_run \<Rightarrow> err + rdb" where
  "InsertRecoveryRun d r =
     (if \<not> digestPattern (rr_RequestDigest r) \<or> rr_RecoveryEpoch r = 0 \<or> \<not> bigint_ok (rr_RecoveryEpoch r) \<or> \<not> rr_WindowEnd r > rr_WindowStart r \<or>
         rr_Skew r < 0 then Inl ErrStore
      else if list_ex (\<lambda>x. rr_ID x = rr_ID r \<or> (rr_ScopeKey x, rr_CommandID x) = (rr_ScopeKey r, rr_CommandID r)) (r_runs d) then Inl ErrDuplicateKey
      else Inr (d\<lparr>r_runs := r_runs d @ [stored_run r]\<rparr>))"

definition UpdateRecoveryRun :: "rdb \<Rightarrow> recovery_run \<Rightarrow> rdb" where
  "UpdateRecoveryRun d r =
     d\<lparr>r_runs := map (\<lambda>x. if rr_ID x = rr_ID r
         then x\<lparr>rr_Phase := rr_Phase r, rr_FencedCount := rr_FencedCount r, rr_UpdatedAt := rr_UpdatedAt r, rr_ReopenedAt := rr_ReopenedAt r\<rparr>
         else x) (r_runs d)\<rparr>"

definition ListActiveOperations :: "db \<Rightarrow> string \<Rightarrow> operation list" where
  "ListActiveOperations s scopeKey =
     filter (\<lambda>o1. op_Lifecycle o1 \<in> {LifecycleAccepted, LifecycleRunning, LifecycleWaiting, LifecycleReconciling, LifecycleSuspended} \<and>
       (scopeKey = ScopeAll \<or> op_TenantID o1 = scopeKey)) (db_operations s)"

definition GetRecoveryProgress :: "rdb \<Rightarrow> string \<Rightarrow> string \<Rightarrow> err + recovery_progress" where
  "GetRecoveryProgress d runID cls = found (lookup_by (\<lambda>p. (pg_RunID p, pg_Class p)) (runID, cls) (r_progress d))"

definition UpsertRecoveryProgress :: "rdb \<Rightarrow> recovery_progress \<Rightarrow> rdb" where
  "UpsertRecoveryProgress d p =
     (if list_ex (\<lambda>x. (pg_RunID x, pg_Class x) = (pg_RunID p, pg_Class p)) (r_progress d)
      then d\<lparr>r_progress := update_by (\<lambda>x. (pg_RunID x, pg_Class x)) p (r_progress d)\<rparr>
      else d\<lparr>r_progress := r_progress d @ [p]\<rparr>)"

definition ListRecoveryProgress :: "rdb \<Rightarrow> string \<Rightarrow> recovery_progress list" where
  "ListRecoveryProgress d runID = filter (\<lambda>p. pg_RunID p = runID) (r_progress d)"

definition GetFinding :: "rdb \<Rightarrow> string \<Rightarrow> err + recovery_finding" where
  "GetFinding d findingID = found (lookup_by fi_ID findingID (r_findings d))"

definition LockFinding :: "rdb \<Rightarrow> string \<Rightarrow> err + recovery_finding" where
  "LockFinding d findingID = found (lookup_by fi_ID findingID (r_findings d))"

abbreviation finding_key :: "recovery_finding \<Rightarrow> string \<times> string \<times> string" where
  "finding_key f \<equiv> (fi_RunID f, fi_Class f, fi_ObligationID f)"

definition GetFindingByObligation :: "rdb \<Rightarrow> string \<Rightarrow> string \<Rightarrow> string \<Rightarrow> recovery_finding option" where
  "GetFindingByObligation d runID cls obligationID = lookup_by finding_key (runID, cls, obligationID) (r_findings d)"

definition InsertFinding :: "rdb \<Rightarrow> recovery_finding \<Rightarrow> err + rdb" where
  "InsertFinding d f =
     (if \<not> list_ex (\<lambda>r. rr_ID r = fi_RunID f) (r_runs d) then Inl ErrStore
      else if list_ex (\<lambda>x. fi_ID x = fi_ID f \<or> finding_key x = finding_key f) (r_findings d) then Inl ErrDuplicateKey
      else Inr (d\<lparr>r_findings := r_findings d @ [f]\<rparr>))"

definition UpdateFinding :: "rdb \<Rightarrow> recovery_finding \<Rightarrow> rdb" where
  "UpdateFinding d f =
     d\<lparr>r_findings := map (\<lambda>x. if fi_ID x = fi_ID f
         then x\<lparr>fi_Status := fi_Status f, fi_Outcome := fi_Outcome f, fi_EvidenceRef := fi_EvidenceRef f, fi_UpdatedAt := fi_UpdatedAt f\<rparr>
         else x) (r_findings d)\<rparr>"

definition ListFindings ::
  "(string \<Rightarrow> 'k :: linorder) \<Rightarrow> rdb \<Rightarrow> string \<Rightarrow> finding_status option \<Rightarrow> string \<Rightarrow> string \<Rightarrow> nat \<Rightarrow> recovery_finding list" where
  "ListFindings coll d runID status afterClass afterID limit =
     take limit (sort_key (\<lambda>f. (coll (fi_Class f), coll (fi_ObligationID f)))
       (filter (\<lambda>f. fi_RunID f = runID \<and> (status = None \<or> Some (fi_Status f) = status) \<and>
          (coll afterClass, coll afterID) < (coll (fi_Class f), coll (fi_ObligationID f))) (r_findings d)))"

definition CountUnsettledFindings :: "rdb \<Rightarrow> string \<Rightarrow> u64" where
  "CountUnsettledFindings d runID =
     of_nat (length (filter (\<lambda>f. fi_RunID f = runID \<and> fi_Status f \<notin> {FindingPresent, FindingResolved, FindingDisposed, FindingOutsideScope}) (r_findings d)))"

definition UpsertAdmissionClosure :: "db \<Rightarrow> closure \<Rightarrow> db" where
  "UpsertAdmissionClosure s c =
     (if list_ex (\<lambda>x. cl_ScopeKey x = cl_ScopeKey c) (db_closures s)
      then s\<lparr>db_closures := map (\<lambda>x. if cl_ScopeKey x = cl_ScopeKey c
          then x\<lparr>cl_RunID := cl_RunID c, cl_ClosedAt := cl_ClosedAt c, cl_ReopenedAt := None\<rparr> else x) (db_closures s)\<rparr>
      else s\<lparr>db_closures := db_closures s @ [c\<lparr>cl_ReopenedAt := None\<rparr>]\<rparr>)"

definition ReopenAdmission :: "db \<Rightarrow> string \<Rightarrow> string \<Rightarrow> instant \<Rightarrow> db" where
  "ReopenAdmission s scopeKey runID at =
     s\<lparr>db_closures := map (\<lambda>x. if cl_ScopeKey x = scopeKey \<and> cl_RunID x = runID \<and> cl_ReopenedAt x = None
         then x\<lparr>cl_ReopenedAt := Some at\<rparr> else x) (db_closures s)\<rparr>"

definition GetDisposition :: "rdb \<Rightarrow> string \<Rightarrow> string \<Rightarrow> disposition option" where
  "GetDisposition d cls obligationID = lookup_by (\<lambda>x. (di_Class x, di_ObligationID x)) (cls, obligationID) (r_dispositions d)"

definition GetDispositionByCommand :: "rdb \<Rightarrow> string \<Rightarrow> string \<Rightarrow> disposition option" where
  "GetDispositionByCommand d tenantID commandID = lookup_by (\<lambda>x. (di_TenantID x, di_CommandID x)) (tenantID, commandID) (r_dispositions d)"

definition InsertDisposition :: "rdb \<Rightarrow> disposition \<Rightarrow> err + rdb" where
  "InsertDisposition d x =
     (if di_Class x \<notin> set ObligationClasses \<or> \<not> bigint_ok (di_RecoveryEpoch x) \<or> \<not> digestPattern (di_RequestDigest x) \<or>
         \<not> digestPattern (di_EvidenceDigest x) then Inl ErrStore
      else if list_ex (\<lambda>y. di_ID y = di_ID x \<or> (di_Class y, di_ObligationID y) = (di_Class x, di_ObligationID x) \<or>
          (di_TenantID y, di_CommandID y) = (di_TenantID x, di_CommandID x)) (r_dispositions d) then Inl ErrDuplicateKey
      else Inr (d\<lparr>r_dispositions := r_dispositions d @ [x]\<rparr>))"

section \<open>Runs\<close>

definition operator :: "scope \<Rightarrow> command_identity \<Rightarrow> string \<Rightarrow> err option" where
  "operator sc cmd scopeKey =
     (if sc_TenantID sc \<noteq> cmd_TenantID cmd \<or> sc_ActorID sc \<noteq> cmd_ActorID cmd then Some ErrForbidden
      else if scopeKey = ScopeAll \<and> \<not> HasRole sc RolePlatformOperator then Some ErrForbidden
      else if \<not> HasRole sc RoleOperator \<and> \<not> HasRole sc RolePlatformOperator then Some ErrForbidden
      else None)"

text \<open>The loop that fences the active operations; it counts the ones it fenced.\<close>

fun fence_each :: "recovery_run \<Rightarrow> instant \<Rightarrow> operation list \<Rightarrow> u64 \<times> db \<Rightarrow> err + (u64 \<times> db)" where
  "fence_each run now [] (n, s) = Inr (n, s)"
| "fence_each run now (peek # rest) (n, s) =
     chk (LockOperation s (op_ID peek)) (\<lambda>ops.
     if Lifecycle_Terminal (op_Lifecycle ops) then fence_each run now rest (n, s)
     else chk (write_transition ops (''recovery:'' @ rr_ID run @ '':fenced'') now (recovery_fence (rr_RecoveryEpoch run)) id s) (\<lambda>(_, s1).
          fence_each run now rest (n + 1, s1)))"

definition Begin ::
  "string \<Rightarrow> instant \<Rightarrow> command_identity \<Rightarrow> scope \<Rightarrow> string \<Rightarrow> instant \<Rightarrow> instant \<Rightarrow> duration \<Rightarrow> string \<Rightarrow> rdb \<Rightarrow> err + ((recovery_run \<times> bool) \<times> rdb)" where
  "Begin new_id now cmd sc scopeKey windowStart windowEnd skew reason d =
     (if scopeKey \<noteq> ScopeAll \<and> scopeKey \<noteq> cmd_TenantID cmd then Inl ErrInvalid
      else chk_err (operator sc cmd scopeKey) (
      case GetRecoveryRunByCommand d scopeKey (cmd_CommandID cmd) of
        Some fnd \<Rightarrow> if rr_RequestDigest fnd \<noteq> cmd_RequestDigest cmd then Inl ErrIdempotencyConflict else Inr ((fnd, True), d)
      | None \<Rightarrow>
          let opened = IsAdmissionClosed (r_db d) scopeKey;
              opened' = (if scopeKey = ScopeAll \<and> \<not> opened then AnyAdmissionClosed (r_db d) else opened)
          in if opened' then Inl ErrStaleExecution
             else chk (NextRecoveryEpoch d) (\<lambda>(epoch, d0).
                  chk (NewRecoveryRun new_id cmd scopeKey epoch windowStart windowEnd skew reason now) (\<lambda>fresh.
                  chk (InsertRecoveryRun d0 fresh) (\<lambda>d1.
                  let s1 = UpsertAdmissionClosure (r_db d1) \<lparr>cl_ScopeKey = scopeKey, cl_RunID = rr_ID fresh, cl_ClosedAt = now, cl_ReopenedAt = None\<rparr>
                  in chk (fence_each fresh now (ListActiveOperations s1 scopeKey) (0, s1)) (\<lambda>(n, s2).
                     let d2 = foldl (\<lambda>x cls. UpsertRecoveryProgress x
                                \<lparr>pg_RunID = rr_ID fresh, pg_Class = cls, pg_Cursor = [], pg_Complete = False, pg_Seen = 0\<rparr>) (put_db s2 d1) ObligationClasses;
                         run = fresh\<lparr>rr_FencedCount := n\<rparr>
                     in Inr ((run, False), UpdateRecoveryRun d2 run)))))))"

definition Started :: "instant \<Rightarrow> string \<Rightarrow> rdb \<Rightarrow> err + rdb" where
  "Started now runID d =
     chk (LockRecoveryRun d runID) (\<lambda>run.
     if rr_Phase run \<noteq> RecoveryFenced then Inr d
     else Inr (UpdateRecoveryRun d (run\<lparr>rr_Phase := RecoveryEnumerating, rr_UpdatedAt := now\<rparr>)))"

definition Recovery_Get :: "string \<Rightarrow> rdb \<Rightarrow> err + (recovery_run \<times> recovery_progress list \<times> u64)" where
  "Recovery_Get runID d = chk (GetRecoveryRun d runID) (\<lambda>run. Inr (run, ListRecoveryProgress d runID, CountUnsettledFindings d runID))"

definition Discloses :: "recovery_run \<Rightarrow> scope \<Rightarrow> err option" where
  "Discloses run viewer =
     (if rr_ScopeKey run = ScopeAll \<and> HasRole viewer RolePlatformOperator then None
      else if rr_ScopeKey run \<noteq> ScopeAll \<and> rr_ScopeKey run = sc_TenantID viewer \<and> (HasRole viewer RoleOperator \<or> HasRole viewer RolePlatformOperator)
        then None
      else Some ErrNotFound)"

definition Viewable :: "string \<Rightarrow> scope \<Rightarrow> rdb \<Rightarrow> err option" where
  "Viewable runID viewer d = (case GetRecoveryRun d runID of Inl e \<Rightarrow> Some e | Inr run \<Rightarrow> Discloses run viewer)"

section \<open>Findings\<close>

definition FindingCursor :: "recovery_finding \<Rightarrow> string" where
  "FindingCursor f = fi_Class f @ ''/'' @ fi_ObligationID f"

definition page_limit :: "int \<Rightarrow> nat" where
  "page_limit limit = nat (if limit \<le> 0 \<or> limit > 1000 then 200 else limit)"

definition with_launch_key :: "db \<Rightarrow> recovery_finding \<Rightarrow> recovery_finding" where
  "with_launch_key s f =
     (if fi_Class f \<noteq> ClassJobLaunch then f
      else case GetLaunch s (fi_ObligationID f) of None \<Rightarrow> f | Some l \<Rightarrow> f\<lparr>fi_LaunchKey := ln_LaunchKey l\<rparr>)"

text \<open>The answer: the page, the cursor after it and whether it is the last one.\<close>

definition Findings ::
  "(string \<Rightarrow> 'k :: linorder) \<Rightarrow> string \<Rightarrow> finding_status option \<Rightarrow> string \<Rightarrow> int \<Rightarrow> rdb \<Rightarrow> err + (recovery_finding list \<times> string \<times> bool)" where
  "Findings coll runID status cursor limit0 d =
     (let limit = page_limit limit0
      in if cursor \<noteq> [] \<and> Cut (CHR ''/'') cursor = None then Inl ErrInvalid
         else let (afterClass, afterID) = (case Cut (CHR ''/'') cursor of None \<Rightarrow> (cursor, []) | Some p \<Rightarrow> p)
              in chk (GetRecoveryRun d runID) (\<lambda>_.
                 let out = ListFindings coll d runID status afterClass afterID (limit + 1);
                     complete = (length out \<le> limit);
                     page = (if complete then out else take limit out);
                     nextCursor = (if complete then [] else FindingCursor (last page))
                 in Inr (map (with_launch_key (r_db d)) page, nextCursor, complete)))"

section \<open>The gate\<close>

definition classes_complete :: "recovery_progress list \<Rightarrow> bool" where
  "classes_complete ps \<longleftrightarrow> foldl (\<lambda>b p. b \<and> pg_Complete p) (length ps = length ObligationClasses) ps"

definition Evaluate :: "instant \<Rightarrow> string \<Rightarrow> rdb \<Rightarrow> err + ((recovery_run \<times> u64) \<times> rdb)" where
  "Evaluate now runID d =
     chk (LockRecoveryRun d runID) (\<lambda>locked.
     if rr_Phase locked = RecoveryReopened then Inr ((locked, 0), d)
     else let complete = classes_complete (ListRecoveryProgress d runID);
              unsettled = CountUnsettledFindings d runID
          in if \<not> complete
             then (if rr_Phase locked = RecoveryFenced then Inr ((locked, unsettled), d)
                   else let run = locked\<lparr>rr_Phase := RecoveryEnumerating, rr_UpdatedAt := now\<rparr> in Inr ((run, unsettled + 1), UpdateRecoveryRun d run))
             else if unsettled > 0
             then (let run = locked\<lparr>rr_Phase := RecoveryRestricted, rr_UpdatedAt := now\<rparr> in Inr ((run, unsettled), UpdateRecoveryRun d run))
             else let run = locked\<lparr>rr_Phase := RecoveryReopened, rr_ReopenedAt := Some now, rr_UpdatedAt := now\<rparr>
                  in Inr ((run, unsettled), UpdateRecoveryRun (put_db (ReopenAdmission (r_db d) (rr_ScopeKey locked) (rr_ID locked) now) d) run))"

section \<open>Enumeration\<close>

definition validClass :: "string \<Rightarrow> err option" where
  "validClass cls = (if list_ex (\<lambda>c. c = cls) ObligationClasses then None else Some ErrInvalid)"

record inventory_object =
  io_Key :: string
  io_Version :: string
  io_ModifiedAt :: instant

record inventory_page =
  ip_Objects :: "inventory_object list"
  ip_NextCursor :: string
  ip_Complete :: bool

record 'b inventory =
  in_List :: "string \<Rightarrow> string \<Rightarrow> err + inventory_page"
  in_Get :: "string \<Rightarrow> err + ('b \<times> string)"

record candidate =
  ca_object :: inventory_object
  ca_obligation :: "obligation option"

definition missingOr :: "err \<Rightarrow> err + finding_status" where
  "missingOr e = (if e = ErrNotFound then Inr FindingMissing else Inl e)"

definition launchSettled :: "attempt \<Rightarrow> bool" where
  "launchSettled at \<longleftrightarrow> at_State at = AttemptClosed \<and> (at_Cleanup at = Some CleanupComplete \<or> at_Cleanup at = Some CleanupNotRequired)"

definition GetDispatch :: "db \<Rightarrow> string \<Rightarrow> dispatch option" where
  "GetDispatch s dispatchID = lookup_by d_ID dispatchID (db_dispatches s)"

definition settlement :: "db \<Rightarrow> obligation \<Rightarrow> err + finding_status" where
  "settlement s ob =
     (if ob_Class ob = ClassIntake
      then (case GetOperationScoped s (ob_ID ob) (ob_TenantID ob) of Inl e \<Rightarrow> missingOr e | Inr _ \<Rightarrow> Inr FindingPresent)
      else if ob_Class ob = ClassJobLaunch
      then (case GetLaunch s (ob_ID ob) of
              None \<Rightarrow> missingOr ErrNotFound
            | Some l \<Rightarrow>
                (case GetAttempt s (ln_AttemptID l) of
                   Inl ErrNotFound \<Rightarrow> Inr FindingUnresolved
                 | Inl e \<Rightarrow> Inl e
                 | Inr at \<Rightarrow>
                     if at_TenantID at \<noteq> ob_TenantID ob then Inl ErrIntegrity
                     else if launchSettled at then Inr FindingPresent else Inr FindingUnresolved))
      else if ob_Class ob = ClassModelDispatch \<or> ob_Class ob = ClassToolDispatch
      then (case GetDispatch s (ob_ID ob) of
              None \<Rightarrow> missingOr ErrNotFound
            | Some x \<Rightarrow>
                if d_TenantID x \<noteq> ob_TenantID ob then Inl ErrIntegrity
                else if d_State x = DispatchAuthorized \<or> d_State x = DispatchUnknown then Inr FindingUnresolved
                else Inr FindingPresent)
      else if ob_Class ob = ClassBusinessWrite
      then (case GetEffect s (ob_ID ob) of
              None \<Rightarrow> missingOr ErrNotFound
            | Some e \<Rightarrow>
                if e_TenantID e \<noteq> ob_TenantID ob then Inl ErrIntegrity
                else if Effect_Unresolved e then Inr FindingUnresolved
                else Inr FindingPresent)
      else Inl ErrInvalid)"

text \<open>The loop over a page: every object is read, and the ones the window and the scope cover become
  candidates; one that does not decode is a candidate without an obligation.\<close>

fun gather :: "'b codecs \<Rightarrow> 'b inventory \<Rightarrow> recovery_run \<Rightarrow> inventory_object list \<Rightarrow> err + candidate list" where
  "gather cd iv run [] = Inr []"
| "gather cd iv run (o0 # rest) =
     (case in_Get iv (io_Key o0) of
        Inl _ \<Rightarrow> Inl ErrEffectUncertain
      | Inr (body, version) \<Rightarrow>
          let o1 = (if version \<noteq> [] then o0\<lparr>io_Version := version\<rparr> else o0)
          in (case DecodeObligation cd (io_Key o1) body of
                Inl e \<Rightarrow>
                  if e = ErrInvalid then gather cd iv run rest
                  else if Covers run (io_ModifiedAt o1)
                  then chk (gather cd iv run rest) (\<lambda>cs. Inr (\<lparr>ca_object = o1, ca_obligation = None\<rparr> # cs))
                  else gather cd iv run rest
              | Inr ob \<Rightarrow>
                  if \<not> Covers run (ob_RecordedAt ob) \<and> \<not> Covers run (io_ModifiedAt o1) then gather cd iv run rest
                  else if \<not> Run_InScope run (ob_TenantID ob) then gather cd iv run rest
                  else chk (gather cd iv run rest) (\<lambda>cs. Inr (\<lparr>ca_object = o1, ca_obligation = Some ob\<rparr> # cs))))"

definition candidate_id :: "candidate \<Rightarrow> string" where
  "candidate_id ca = (case ParseObligationKey (io_Key (ca_object ca)) of None \<Rightarrow> [] | Some (_, i) \<Rightarrow> i)"

text \<open>The finding of a candidate; an unresolved one takes the disposition an operator recorded before.\<close>

definition new_finding :: "string \<Rightarrow> instant \<Rightarrow> recovery_run \<Rightarrow> string \<Rightarrow> candidate \<Rightarrow> rdb \<Rightarrow> err + recovery_finding" where
  "new_finding new_id now locked cls ca d =
     (let i = candidate_id ca;
          f0 = \<lparr>fi_ID = new_id, fi_RunID = rr_ID locked, fi_Class = cls, fi_ObligationID = i, fi_TenantID = [], fi_InventoryKey = io_Key (ca_object ca),
                fi_InventoryVersion = io_Version (ca_object ca), fi_RecordedAt = io_ModifiedAt (ca_object ca), fi_Status = FindingUnresolved,
                fi_Outcome = [], fi_EvidenceRef = [], fi_CreatedAt = now, fi_UpdatedAt = now, fi_LaunchKey = []\<rparr>
      in chk (case ca_obligation ca of
                None \<Rightarrow> Inr (f0\<lparr>fi_TenantID := rr_TenantID locked, fi_Status := FindingUnresolved\<rparr>)
              | Some ob \<Rightarrow>
                  (let f1 = f0\<lparr>fi_TenantID := ob_TenantID ob\<rparr>;
                       f2 = (if ob_RecordedAt ob \<noteq> 0 then f1\<lparr>fi_RecordedAt := ob_RecordedAt ob\<rparr> else f1)
                   in chk (settlement (r_db d) ob) (\<lambda>status. Inr (f2\<lparr>fi_Status := status\<rparr>)))) (\<lambda>f.
         if fi_Status f = FindingUnresolved
         then (case GetDisposition d cls i of
                 None \<Rightarrow> Inr f
               | Some x \<Rightarrow> Inr (f\<lparr>fi_Status := FindingDisposed, fi_Outcome := decision_string (di_Decision x), fi_EvidenceRef := di_EvidenceRef x\<rparr>))
         else Inr f))"

fun record_each :: "(nat \<Rightarrow> string) \<Rightarrow> instant \<Rightarrow> recovery_run \<Rightarrow> string \<Rightarrow> candidate list \<Rightarrow> nat \<Rightarrow> rdb \<Rightarrow> err + rdb" where
  "record_each new_id now locked cls [] k d = Inr d"
| "record_each new_id now locked cls (ca # cas) k d =
     (if GetFindingByObligation d (rr_ID locked) cls (candidate_id ca) \<noteq> None then record_each new_id now locked cls cas k d
      else chk (new_finding (new_id k) now locked cls ca d) (\<lambda>f.
           chk (InsertFinding d f) (record_each new_id now locked cls cas (Suc k))))"

text \<open>The transaction that records a page; \<open>progress\<close> is the cursor the page was read from.\<close>

definition record_page ::
  "(nat \<Rightarrow> string) \<Rightarrow> instant \<Rightarrow> string \<Rightarrow> string \<Rightarrow> recovery_progress \<Rightarrow> inventory_page \<Rightarrow> candidate list \<Rightarrow> rdb \<Rightarrow> err + (recovery_progress \<times> rdb)" where
  "record_page new_id now runID cls progress page cas d =
     chk (LockRecoveryRun d runID) (\<lambda>locked.
     chk (GetRecoveryProgress d runID cls) (\<lambda>current.
     if pg_Cursor current \<noteq> pg_Cursor progress \<or> pg_Complete current then Inr (current, d)
     else chk (record_each new_id now locked cls cas 0 d) (\<lambda>d1.
          let p = current\<lparr>pg_Cursor := ip_NextCursor page, pg_Complete := ip_Complete page, pg_Seen := pg_Seen current + of_nat (length (ip_Objects page))\<rparr>;
              d2 = UpsertRecoveryProgress d1 p
          in if classes_complete (ListRecoveryProgress d2 runID) \<and> rr_Phase locked = RecoveryEnumerating
             then Inr (p, UpdateRecoveryRun d2 (locked\<lparr>rr_Phase := RecoveryReconciling, rr_UpdatedAt := now\<rparr>))
             else Inr (p, d2))))"

definition Enumerate :: "'b codecs \<Rightarrow> 'b inventory \<Rightarrow> (nat \<Rightarrow> string) \<Rightarrow> instant \<Rightarrow> string \<Rightarrow> string \<Rightarrow> rdb \<Rightarrow> err + (recovery_progress \<times> rdb)" where
  "Enumerate cd iv new_id now runID cls d =
     chk_err (validClass cls) (
     chk (GetRecoveryRun d runID) (\<lambda>run.
     chk (GetRecoveryProgress d runID cls) (\<lambda>progress.
     if pg_Complete progress then Inr (progress, d)
     else if rr_Phase run \<noteq> RecoveryFenced \<and> rr_Phase run \<noteq> RecoveryEnumerating then Inl ErrStaleExecution
     else case in_List iv (cls @ ''/'') (pg_Cursor progress) of
       Inl _ \<Rightarrow> Inl ErrEffectUncertain
     | Inr page \<Rightarrow>
         chk (gather cd iv run (ip_Objects page)) (\<lambda>cas.
         record_page new_id now runID cls progress page cas d))))"

end
