(* ===== verification/Recovery_Disposition.thy ===== *)
theory Recovery_Disposition
  imports Recovery_Service
begin

text \<open>
  \<open>internal/application/recovery_disposition.go\<close>: evidence-bound operator dispositions. The two
  verifications of evidence are arguments. The read of the binding and the commit are written on one
  database each, so that what happens between them is the caller's interleaving; the retry after a
  duplicate key is left out.
\<close>

record disposition_request =
  dq_Class :: string
  dq_ObligationID :: string
  dq_Decision :: disposition_decision
  dq_EvidenceRef :: string
  dq_EvidenceDigest :: digest
  dq_RecoveryEpoch :: u64
  dq_RunID :: string
  dq_Reason :: string

definition allowed :: "string \<Rightarrow> disposition_decision list" where
  "allowed cls =
     (if cls = ClassIntake then [DisposeRetainExposure]
      else if cls = ClassJobLaunch then [DisposeRetainExposure]
      else if cls = ClassModelDispatch then [DisposeConfirmNotSent, DisposeRetainExposure]
      else if cls = ClassToolDispatch then [DisposeConfirmNotSent, DisposeRetainExposure]
      else if cls = ClassBusinessWrite then [DisposeConfirmNotSent, DisposeResolveSucceeded, DisposeResolveFailed, DisposeRetainExposure]
      else [])"

definition currentRecoveryEpoch :: "operation \<Rightarrow> u64 \<Rightarrow> err option" where
  "currentRecoveryEpoch ops epoch = (if op_RecoveryEpoch ops \<noteq> epoch then Some ErrStaleExecution else None)"

definition unrestorable :: "command_identity \<Rightarrow> disposition_request \<Rightarrow> rdb \<Rightarrow> err + recovery_run" where
  "unrestorable cmd req d =
     (if dq_RunID req = [] then Inl ErrNotFound
      else if dq_Decision req \<noteq> DisposeRetainExposure then Inl ErrInvalid
      else chk (GetRecoveryRun d (dq_RunID req)) (\<lambda>fnd.
           if rr_ScopeKey fnd \<noteq> cmd_TenantID cmd then Inl ErrNotFound
           else chk (found (GetFindingByObligation d (rr_ID fnd) (dq_Class req) (dq_ObligationID req))) (\<lambda>_. Inr fnd)))"

text \<open>What the first read binds the decision to: the operation, or the run of an obligation that has
  none, and the dispatch of a send.\<close>

record dispose_binding =
  bn_op :: "operation option"
  bn_run :: "recovery_run option"
  bn_dispatch :: "dispatch option"

definition no_operation :: "command_identity \<Rightarrow> disposition_request \<Rightarrow> dispatch option \<Rightarrow> rdb \<Rightarrow> err + dispose_binding" where
  "no_operation cmd req disp d = chk (unrestorable cmd req d) (\<lambda>run. Inr \<lparr>bn_op = None, bn_run = Some run, bn_dispatch = disp\<rparr>)"

definition of_operation :: "command_identity \<Rightarrow> disposition_request \<Rightarrow> string \<Rightarrow> dispatch option \<Rightarrow> rdb \<Rightarrow> err + dispose_binding" where
  "of_operation cmd req operationID disp d =
     (case GetOperationScoped (r_db d) operationID (cmd_TenantID cmd) of
        Inl ErrNotFound \<Rightarrow> no_operation cmd req disp d
      | Inl e \<Rightarrow> Inl e
      | Inr ops \<Rightarrow> Inr \<lparr>bn_op = Some ops, bn_run = None, bn_dispatch = disp\<rparr>)"

definition dispose_read :: "command_identity \<Rightarrow> disposition_request \<Rightarrow> rdb \<Rightarrow> err + (disposition + dispose_binding)" where
  "dispose_read cmd req d =
     (case GetDispositionByCommand d (cmd_TenantID cmd) (cmd_CommandID cmd) of
        Some fnd \<Rightarrow>
          if di_Class fnd \<noteq> dq_Class req \<or> di_ObligationID fnd \<noteq> dq_ObligationID req \<or> di_Decision fnd \<noteq> dq_Decision req \<or>
             di_EvidenceRef fnd \<noteq> dq_EvidenceRef req \<or> di_RequestDigest fnd \<noteq> cmd_RequestDigest cmd then Inl ErrIdempotencyConflict
          else Inr (Inl fnd)
      | None \<Rightarrow>
          if GetDisposition d (dq_Class req) (dq_ObligationID req) \<noteq> None then Inl ErrIdempotencyConflict
          else map_sum id Inr (
            if dq_Class req = ClassIntake then of_operation cmd req (dq_ObligationID req) None d
            else if dq_Class req = ClassJobLaunch
            then (case GetLaunch (r_db d) (dq_ObligationID req) of
                    None \<Rightarrow> no_operation cmd req None d
                  | Some l \<Rightarrow> of_operation cmd req (ln_OperationID l) None d)
            else if dq_Class req = ClassBusinessWrite
            then (case GetEffect (r_db d) (dq_ObligationID req) of
                    None \<Rightarrow> no_operation cmd req None d
                  | Some e \<Rightarrow> of_operation cmd req (e_OperationID e) None d)
            else (case GetDispatch (r_db d) (dq_ObligationID req) of
                    None \<Rightarrow> no_operation cmd req None d
                  | Some x \<Rightarrow> of_operation cmd req (d_OperationID x) (Some x) d)))"

text \<open>The commit: the epoch under the lock, the change of the obligation, the disposition and the
  finding.\<close>

definition dispose_lock :: "instant \<Rightarrow> disposition_request \<Rightarrow> dispose_binding \<Rightarrow> rdb \<Rightarrow> err + rdb" where
  "dispose_lock now req b d =
     (case bn_op b of
        None \<Rightarrow>
          (case bn_run b of
             None \<Rightarrow> Inl ErrNotFound
           | Some run \<Rightarrow>
               chk (LockRecoveryRun d (rr_ID run)) (\<lambda>lockedRun.
               if rr_RecoveryEpoch lockedRun \<noteq> dq_RecoveryEpoch req then Inl ErrStaleExecution else Inr d))
      | Some ops \<Rightarrow>
          (case bn_dispatch b of
             Some x \<Rightarrow>
               if dq_Decision req = DisposeConfirmNotSent
               then chk (ConfirmNotSentLocked (op_ID ops) (d_ID x) (dq_EvidenceRef req) (\<lambda>l. currentRecoveryEpoch l (dq_RecoveryEpoch req)) now (r_db d))
                      (\<lambda>(_, s). Inr (put_db s d))
               else chk (LockOperation (r_db d) (op_ID ops)) (\<lambda>l. chk_err (currentRecoveryEpoch l (dq_RecoveryEpoch req)) (Inr d))
           | None \<Rightarrow> chk (LockOperation (r_db d) (op_ID ops)) (\<lambda>l. chk_err (currentRecoveryEpoch l (dq_RecoveryEpoch req)) (Inr d))))"

definition dispose_effect :: "string \<Rightarrow> instant \<Rightarrow> disposition_request \<Rightarrow> cdb \<Rightarrow> err + cdb" where
  "dispose_effect obs_id now req c =
     (if dq_Class req = ClassBusinessWrite \<and> dq_Decision req \<noteq> DisposeRetainExposure
      then chk (LockEffect (c_db c) (dq_ObligationID req)) (\<lambda>e.
           if dq_Decision req = DisposeConfirmNotSent
           then chk (Effect_ConfirmNotSent e (dq_EvidenceRef req)) (\<lambda>e1. Inr (c\<lparr>c_db := UpdateEffect (c_db c) (e1\<lparr>e_UpdatedAt := now\<rparr>)\<rparr>))
           else let outcome = (if dq_Decision req = DisposeResolveFailed then EffectOutcomeFailed else EffectOutcomeSucceeded)
                in case GetEffectObservation c (e_ID e) ''disposition'' (dq_RecoveryEpoch req) of
                  Some _ \<Rightarrow> Inr (c\<lparr>c_db := UpdateEffect (c_db c) (e\<lparr>e_UpdatedAt := now\<rparr>)\<rparr>)
                | None \<Rightarrow>
                    chk (Effect_Observe e outcome (dq_EvidenceRef req) now) (\<lambda>(e1, _).
                    chk (InsertEffectObservation c \<lparr>eo_ID = obs_id, eo_EffectID = e_ID e1, eo_Source = ''disposition'', eo_Sequence = dq_RecoveryEpoch req,
                           eo_Outcome = outcome, eo_ReceiptDigest = dq_EvidenceDigest req, eo_NativeReference = [], eo_ObservedAt = now\<rparr>) (\<lambda>c1.
                    Inr (c1\<lparr>c_db := UpdateEffect (c_db c1) (e1\<lparr>e_UpdatedAt := now\<rparr>)\<rparr>))))
      else Inr c)"

definition dispose_finding :: "instant \<Rightarrow> disposition_request \<Rightarrow> rdb \<Rightarrow> err + rdb" where
  "dispose_finding now req d =
     (if dq_RunID req = [] then Inr d
      else case GetFindingByObligation d (dq_RunID req) (dq_Class req) (dq_ObligationID req) of
        None \<Rightarrow> Inr d
      | Some f \<Rightarrow>
          chk (LockFinding d (fi_ID f)) (\<lambda>lockedF.
          if \<not> Finding_Settled (fi_Status lockedF)
          then Inr (UpdateFinding d (lockedF\<lparr>fi_Status := FindingDisposed, fi_Outcome := decision_string (dq_Decision req),
                 fi_EvidenceRef := dq_EvidenceRef req, fi_UpdatedAt := now\<rparr>))
          else Inr d))"

definition dispose_commit ::
  "string \<Rightarrow> string \<Rightarrow> instant \<Rightarrow> command_identity \<Rightarrow> disposition_request \<Rightarrow> dispose_binding \<Rightarrow> rdb \<Rightarrow> err + (disposition \<times> rdb)" where
  "dispose_commit new_id obs_id now cmd req b d =
     chk (dispose_lock now req b d) (\<lambda>d1.
     chk (dispose_effect obs_id now req (r_c d1)) (\<lambda>c2.
     let x = \<lparr>di_ID = new_id, di_Class = dq_Class req, di_ObligationID = dq_ObligationID req, di_TenantID = cmd_TenantID cmd, di_RunID = dq_RunID req,
              di_RecoveryEpoch = dq_RecoveryEpoch req, di_CommandID = cmd_CommandID cmd, di_ActorID = cmd_ActorID cmd,
              di_RequestDigest = cmd_RequestDigest cmd, di_Decision = dq_Decision req, di_EvidenceRef = dq_EvidenceRef req,
              di_EvidenceDigest = dq_EvidenceDigest req, di_Reason = dq_Reason req, di_DecidedAt = now\<rparr>
     in chk (InsertDisposition (d1\<lparr>r_c := c2\<rparr>) x) (\<lambda>d3.
        chk (dispose_finding now req d3) (\<lambda>d4. Inr (x, d4)))))"

record evidence_checks =
  ec_VerifyNotSent :: "dispatch \<Rightarrow> string \<Rightarrow> digest \<Rightarrow> err option"
  ec_VerifyDisposition :: "string \<Rightarrow> u64 \<Rightarrow> string \<Rightarrow> string \<Rightarrow> disposition_decision \<Rightarrow> string \<Rightarrow> digest \<Rightarrow> err option"

text \<open>The checks between the read and the commit.\<close>

definition dispose_checks :: "evidence_checks \<Rightarrow> command_identity \<Rightarrow> scope \<Rightarrow> disposition_request \<Rightarrow> dispose_binding \<Rightarrow> err option" where
  "dispose_checks ev cmd sc req b =
     (case (case bn_op b of
              Some ops \<Rightarrow> currentRecoveryEpoch ops (dq_RecoveryEpoch req)
            | None \<Rightarrow> (case bn_run b of
                None \<Rightarrow> Some ErrNotFound
              | Some run \<Rightarrow> if rr_RecoveryEpoch run \<noteq> dq_RecoveryEpoch req then Some ErrStaleExecution else None)) of
        Some e \<Rightarrow> Some e
      | None \<Rightarrow>
          (case operator sc cmd (cmd_TenantID cmd) of
             Some e \<Rightarrow> Some e
           | None \<Rightarrow>
               (case (bn_dispatch b, dq_Decision req) of
                  (Some x, DisposeConfirmNotSent) \<Rightarrow> ec_VerifyNotSent ev x (dq_EvidenceRef req) (dq_EvidenceDigest req)
                | _ \<Rightarrow> ec_VerifyDisposition ev (cmd_TenantID cmd) (dq_RecoveryEpoch req) (dq_Class req) (dq_ObligationID req) (dq_Decision req)
                         (dq_EvidenceRef req) (dq_EvidenceDigest req))))"

definition Dispose ::
  "evidence_checks \<Rightarrow> string \<Rightarrow> string \<Rightarrow> instant \<Rightarrow> command_identity \<Rightarrow> scope \<Rightarrow> disposition_request \<Rightarrow> rdb \<Rightarrow> err + ((disposition \<times> bool) \<times> rdb)" where
  "Dispose ev new_id obs_id now cmd sc req d =
     chk_err (validClass (dq_Class req)) (
     if dq_Decision req \<notin> set (allowed (dq_Class req)) then Inl ErrInvalid
     else chk (dispose_read cmd req d) (\<lambda>rd. case rd of
            Inl fnd \<Rightarrow> Inr ((fnd, True), d)
          | Inr b \<Rightarrow>
              chk_err (dispose_checks ev cmd sc req b) (
              chk (dispose_commit new_id obs_id now cmd req b d) (\<lambda>(x, d1). Inr ((x, False), d1)))))"

end
