(* ===== verification/Recovery_Reconciliation.thy ===== *)
theory Recovery_Reconciliation
  imports Recovery_Disposition
begin

text \<open>
  \<open>internal/application/recovery_reconciliation.go\<close>: restoring lost identities, querying original
  outcomes and recording the launcher's evidence. A call of several transactions answers an outcome
  beside the database it leaves. \<open>ErrIntegrity\<close> stands for every error \<open>DecodeObligation\<close> answers
  for a key of the five classes.
\<close>

section \<open>Findings and launches\<close>

definition settleFinding :: "instant \<Rightarrow> string \<Rightarrow> finding_status \<Rightarrow> string \<Rightarrow> string \<Rightarrow> rdb \<Rightarrow> err + (recovery_finding \<times> rdb)" where
  "settleFinding now findingID status outcome evidenceRef d =
     chk (LockFinding d findingID) (\<lambda>locked.
     if fi_Status locked = FindingDisposed then Inr (locked, d)
     else let f1 = locked\<lparr>fi_Status := status, fi_Outcome := outcome, fi_UpdatedAt := now\<rparr>;
              f2 = (if evidenceRef \<noteq> [] then f1\<lparr>fi_EvidenceRef := evidenceRef\<rparr> else f1);
              f3 = (if fi_Outcome f2 = [] then f2\<lparr>fi_Outcome := outcome\<rparr> else f2)
          in Inr (f3, UpdateFinding d f3))"

definition confirmLaunchInventory :: "instant \<Rightarrow> string \<Rightarrow> string \<Rightarrow> rdb \<Rightarrow> err + rdb" where
  "confirmLaunchInventory now launchID version d =
     chk (LockLaunch (r_db d) launchID) (\<lambda>locked.
     if ln_Inventory locked = InventoryConfirmed then Inr d
     else Inr (put_db (UpdateLaunchInventory (r_db d)
            (locked\<lparr>ln_Inventory := InventoryConfirmed, ln_InventoryVersion := version, ln_UpdatedAt := now\<rparr>)) d))"

text \<open>\<open>answered\<close> is the end of a call by one more transaction.\<close>

definition answered :: "err + ('a \<times> rdb) \<Rightarrow> rdb \<Rightarrow> (err + 'a) \<times> rdb" where
  "answered r d = (case r of Inl e \<Rightarrow> (Inl e, d) | Inr (x, d1) \<Rightarrow> (Inr x, d1))"

definition settleLaunchRecords :: "instant \<Rightarrow> recovery_finding \<Rightarrow> rdb \<Rightarrow> (err + recovery_finding) \<times> rdb" where
  "settleLaunchRecords now f d =
     (case GetLaunch (r_db d) (fi_ObligationID f) of
        None \<Rightarrow> (Inl ErrNotFound, d)
      | Some l \<Rightarrow>
          let at = (case GetAttempt (r_db d) (ln_AttemptID l) of Inl _ \<Rightarrow> None | Inr a \<Rightarrow> Some a)
          in (case (if ln_Inventory l \<noteq> InventoryConfirmed then confirmLaunchInventory now (ln_ID l) (fi_InventoryVersion f) d else Inr d) of
                Inl e \<Rightarrow> (Inl e, d)
              | Inr d1 \<Rightarrow>
                  (case at of
                     None \<Rightarrow> answered (settleFinding now (fi_ID f) (fi_Status f) (fi_Outcome f) [] d1) d1
                   | Some a \<Rightarrow>
                       if launchSettled a
                       then answered (settleFinding now (fi_ID f) FindingResolved ''cleanup_confirmed'' (fi_EvidenceRef f) d1) d1
                       else answered (settleFinding now (fi_ID f) (fi_Status f) (fi_Outcome f) [] d1) d1)))"

section \<open>Restoring\<close>

definition operation_kind_of :: "string \<Rightarrow> operation_kind option" where
  "operation_kind_of s =
     find (\<lambda>k. operation_kind_string k = s) [KindPreparation, KindGeneration, KindRefinement, KindPreviewBuild, KindRelease, KindLocalCheck]"

definition effect_kind_of :: "string \<Rightarrow> effect_kind" where
  "effect_kind_of s =
     (case find (\<lambda>k. effect_kind_string k = s) [EffectBusinessWrite, EffectPublication, EffectActivation, EffectReview] of
        None \<Rightarrow> EffectKindOther s | Some k \<Rightarrow> k)"

definition mustTime :: "'b codecs \<Rightarrow> string \<Rightarrow> instant" where
  "mustTime cd s = (case cd_Parse cd s of None \<Rightarrow> 0 | Some t \<Rightarrow> t)"

text \<open>\<open>kind\<close> is the kind the record names, or a kind of its own; one the table does not know fails its check.\<close>

definition restoreOperation ::
  "(string \<Rightarrow> digest) \<Rightarrow> profiles \<Rightarrow> recovery_run \<Rightarrow> string \<Rightarrow> string \<Rightarrow> string \<Rightarrow> string \<Rightarrow> string \<Rightarrow> string \<Rightarrow> digest \<Rightarrow> digest \<Rightarrow> instant \<Rightarrow>
   u64 \<Rightarrow> string \<Rightarrow> instant \<Rightarrow> db \<Rightarrow> err + db" where
  "restoreOperation DigestOf ps run tenantID projectID operationID commandID kind profileID subjectDigest requestDigest recordedAt executionEpoch
      intakeVersion now s =
     (case GetOperationScoped s operationID tenantID of
        Inr _ \<Rightarrow> Inr s
      | Inl e \<Rightarrow>
          if e \<noteq> ErrNotFound then Inl e
          else if kind \<noteq> [] \<and> operation_kind_of kind = None then Inl ErrStore
          else let (ops, ev) = restored_row DigestOf (rr_ID run) (rr_RecoveryEpoch run) (ps profileID) tenantID projectID operationID commandID
                     (operation_kind_of kind) profileID subjectDigest requestDigest recordedAt executionEpoch intakeVersion now
               in chk (InsertOperation s ops) (\<lambda>s1. InsertEvent s1 ev))"

definition restoreAttempt ::
  "(string \<Rightarrow> digest) \<Rightarrow> profiles \<Rightarrow> string \<Rightarrow> string \<Rightarrow> string \<Rightarrow> string \<Rightarrow> u64 \<Rightarrow> instant \<Rightarrow> instant \<Rightarrow> instant \<Rightarrow> db \<Rightarrow> err + db" where
  "restoreAttempt DigestOf ps tenantID operationID attemptID profileID executionEpoch deadline recordedAt now s =
     (if attemptID = [] then Inr s
      else case GetAttempt s attemptID of
        Inr _ \<Rightarrow> Inr s
      | Inl e \<Rightarrow>
          if e \<noteq> ErrNotFound then Inl e
          else let step = (case ps profileID of None \<Rightarrow> ''recovered'' | Some p \<Rightarrow> pf_StepID p);
                   n = CountAttempts s operationID step 0;
                   deadline' = (if deadline = 0 then recordedAt else deadline)
               in InsertAttempt s \<lparr>at_ID = attemptID, at_OperationID = operationID, at_TenantID = tenantID, at_StepID = step, at_VisitOrdinal = 0,
                    at_AttemptOrdinal = n + 1, at_ProfileID = firstNonEmpty [profileID, ''recovered''], at_ExecutionEpoch = executionEpoch,
                    at_CommandID = ''recovery:'' @ attemptID, at_RequestDigest = DigestOf (''recovered-attempt:'' @ attemptID),
                    at_State = AttemptLaunchPrepared, at_Outcome = OutcomeUnset, at_Cleanup = None, at_FailureCode = [], at_AcceptedStageID = [],
                    at_Deadline = deadline', at_CreatedAt = recordedAt, at_UpdatedAt = now\<rparr>)"

definition restored_launch :: "(string \<Rightarrow> digest) \<Rightarrow> string \<Rightarrow> launch_record \<Rightarrow> instant \<Rightarrow> instant \<Rightarrow> string \<Rightarrow> instant \<Rightarrow> launch" where
  "restored_launch DigestOf inventoryKey r deadline recordedAt version now =
     \<lparr>ln_ID = lr_LaunchID r, ln_AttemptID = lr_AttemptID r, ln_OperationID = lr_OperationID r, ln_LaunchKey = lr_LaunchKey r, ln_Backend = lr_Backend r,
      ln_ProfileID = lr_ProfileID r, ln_ImageDigest = lr_ImageDigest r, ln_ExecutionEpoch = lr_ExecutionEpoch r, ln_LaunchEpoch = lr_LaunchEpoch r,
      ln_Deadline = deadline, ln_CommandID = ''recovery:'' @ lr_LaunchID r, ln_RequestDigest = DigestOf inventoryKey,
      ln_Inventory = InventoryConfirmed, ln_InventoryVersion = version, ln_CreatedAt = recordedAt, ln_UpdatedAt = now\<rparr>"

definition restored_dispatch :: "'b codecs \<Rightarrow> string \<Rightarrow> dispatch_record \<Rightarrow> money \<Rightarrow> instant \<Rightarrow> string \<Rightarrow> instant \<Rightarrow> dispatch" where
  "restored_dispatch cd cls r exposure recordedAt version now =
     \<lparr>d_ID = dr_DispatchID r, d_Kind = (if cls = ClassToolDispatch then DispatchTool else DispatchModel), d_TenantID = dr_TenantID r,
      d_OperationID = dr_OperationID r, d_AttemptID = dr_AttemptID r, d_InstanceID = dr_InstanceID r, d_CallID = dr_CallID r, d_Owner = dr_Owner r,
      d_RequestDigest = dr_RequestDigest r, d_RouteID = dr_RouteID r, d_GrantID = dr_GrantID r, d_GrantRevision = dr_GrantRevision r,
      d_ExecutionEpoch = dr_ExecutionEpoch r, d_State = DispatchUnknown, d_Outcome = DispatchOutcomeUnknown, d_DenialCode = [], d_Reserved = exposure,
      d_MeterRevision = dr_MeterRevision r, d_SupersedesCallID = [], d_EvidenceRef = [], d_Inventory = InventoryConfirmed, d_InventoryVersion = version,
      d_Deadline = mustTime cd (dr_Deadline r), d_AdmittedAt = recordedAt, d_ObservedAt = Some now, d_ArgumentDigest = [], d_SideEffecting = False\<rparr>"

definition restored_effect :: "'b codecs \<Rightarrow> u64 \<Rightarrow> effect_obligation \<Rightarrow> instant \<Rightarrow> string \<Rightarrow> instant \<Rightarrow> effect" where
  "restored_effect cd recoveryEpoch r recordedAt version now =
     \<lparr>e_ID = fr_EffectID r, e_TenantID = fr_TenantID r, e_OperationID = fr_OperationID r, e_AttemptID = fr_AttemptID r, e_Kind = effect_kind_of (fr_Kind r),
      e_Occurrence = fr_Occurrence r, e_CommandID = fr_CommandID r, e_Owner = fr_Owner r, e_CanonicalSubject = fr_CanonicalSubject r,
      e_RequestDigest = fr_RequestDigest r, e_ExpectedRevision = fr_ExpectedRevision r, e_ExecutionEpoch = fr_ExecutionEpoch r,
      e_RecoveryEpoch = recoveryEpoch, e_LeaseID = fr_LeaseID r, e_LeaseFence = fr_LeaseFence r, e_LeaseExpiresAt = 0, e_State = EffectUnknown,
      e_Outcome = Some EffectOutcomeUnknown, e_DenialCode = [], e_OutcomeRef = [], e_QueryRef = [], e_Inventory = InventoryConfirmed,
      e_InventoryVersion = version, e_Deadline = mustTime cd (fr_Deadline r), e_CreatedAt = recordedAt, e_UpdatedAt = now, e_ObservedAt = Some now\<rparr>"

definition exposure_unknown :: "operation \<Rightarrow> operation" where
  "exposure_unknown ops = ops\<lparr>op_Finance := FinanceExposureUnknown\<rparr>"

text \<open>A restored send holds its exposure again on the caps and allocations of its operation.\<close>

definition restore_dispatch ::
  "'b codecs \<Rightarrow> string \<Rightarrow> recovery_run \<Rightarrow> string \<Rightarrow> dispatch_record \<Rightarrow> instant \<Rightarrow> string \<Rightarrow> instant \<Rightarrow> db \<Rightarrow> err + db" where
  "restore_dispatch cd cost_id run cls r recordedAt version now s =
     (case GetDispatch s (dr_DispatchID r) of
        Some _ \<Rightarrow> Inr s
      | None \<Rightarrow>
          (case ParseMoney (dr_Currency r) (dr_Exposure r) of
             Inl _ \<Rightarrow> Inl ErrIntegrity
           | Inr exposure \<Rightarrow>
               let x = restored_dispatch cd cls r exposure recordedAt version now
               in chk (InsertDispatch s x) (\<lambda>s1.
                  let s2 = InsertCostEntry s1 \<lparr>ce_ID = cost_id, ce_OperationID = d_OperationID x, ce_DispatchID = d_ID x, ce_ObservationID = [],
                             ce_Kind = CostEstimate, ce_Amount = d_Reserved x, ce_CorrectionOf = [], ce_CreatedAt = now\<rparr>
                  in chk (budget_restore (lockBudget s2 (dr_OperationID r)) (d_Reserved x)) (\<lambda>b.
                     let s3 = budget_save s2 b
                     in chk (LockOperation s3 (dr_OperationID r)) (\<lambda>ops.
                        if op_Finance ops \<noteq> FinanceExposureUnknown
                        then chk (write_transition ops (''recovery:'' @ rr_ID run @ '':dispatch:'' @ d_ID x) now exposure_unknown id s3) (\<lambda>(_, s4). Inr s4)
                        else Inr s3)))))"

text \<open>The change of the restored tables, and the status and outcome the finding takes.\<close>

definition restore_identity ::
  "'b codecs \<Rightarrow> (string \<Rightarrow> digest) \<Rightarrow> profiles \<Rightarrow> string \<Rightarrow> recovery_run \<Rightarrow> string \<Rightarrow> obligation \<Rightarrow> string \<Rightarrow> instant \<Rightarrow> db \<Rightarrow>
   err + ((finding_status \<times> string) \<times> db)" where
  "restore_identity cd DigestOf ps cost_id run inventoryKey ob version now s =
     (case (ob_Intake ob, ob_Launch ob, ob_Dispatch ob, ob_Effect ob) of
        (Some r, _, _, _) \<Rightarrow>
          chk (restoreOperation DigestOf ps run (ir_TenantID r) (ir_ProjectID r) (ir_OperationID r) (ir_CommandID r) (ir_Kind r) (ir_ProfileID r)
                 (ir_SubjectDigest r) (ir_RequestDigest r) (ob_RecordedAt ob) (ir_ExecutionEpoch r) version now s) (\<lambda>s1.
          Inr ((FindingResolved, ''restored''), s1))
      | (None, Some r, _, _) \<Rightarrow>
          chk (restoreOperation DigestOf ps run (lr_TenantID r) [] (lr_OperationID r) [] (operation_kind_string KindLocalCheck) (lr_ProfileID r) [] []
                 (ob_RecordedAt ob) (lr_ExecutionEpoch r) [] now s) (\<lambda>s1.
          let deadline = mustTime cd (lr_Deadline r)
          in chk (restoreAttempt DigestOf ps (lr_TenantID r) (lr_OperationID r) (lr_AttemptID r) (lr_ProfileID r) (lr_ExecutionEpoch r) deadline
                    (ob_RecordedAt ob) now s1) (\<lambda>s2.
             chk (if GetLaunch s2 (lr_LaunchID r) = None
                  then InsertLaunch s2 (restored_launch DigestOf inventoryKey r deadline (ob_RecordedAt ob) version now) else Inr s2) (\<lambda>s3.
             Inr ((FindingRestored, []), s3))))
      | (None, None, Some r, _) \<Rightarrow>
          chk (restoreOperation DigestOf ps run (dr_TenantID r) [] (dr_OperationID r) [] (operation_kind_string KindLocalCheck) [] [] []
                 (ob_RecordedAt ob) (dr_ExecutionEpoch r) [] now s) (\<lambda>s1.
          chk (restoreAttempt DigestOf ps (dr_TenantID r) (dr_OperationID r) (dr_AttemptID r) [] (dr_ExecutionEpoch r) (mustTime cd (dr_Deadline r))
                 (ob_RecordedAt ob) now s1) (\<lambda>s2.
          chk (restore_dispatch cd cost_id run (ob_Class ob) r (ob_RecordedAt ob) version now s2) (\<lambda>s3.
          Inr ((FindingRestored, []), s3))))
      | (None, None, None, Some r) \<Rightarrow>
          chk (restoreOperation DigestOf ps run (fr_TenantID r) [] (fr_OperationID r) [] (operation_kind_string KindLocalCheck) [] [] []
                 (ob_RecordedAt ob) (fr_ExecutionEpoch r) [] now s) (\<lambda>s1.
          chk (if GetEffect s1 (fr_EffectID r) = None
               then InsertEffect s1 (restored_effect cd (rr_RecoveryEpoch run) r (ob_RecordedAt ob) version now) else Inr s1) (\<lambda>s2.
          Inr ((FindingRestored, []), s2)))
      | _ \<Rightarrow> Inr ((FindingRestored, []), s))"

definition restore ::
  "'b codecs \<Rightarrow> (string \<Rightarrow> digest) \<Rightarrow> profiles \<Rightarrow> string \<Rightarrow> recovery_run \<Rightarrow> recovery_finding \<Rightarrow> obligation \<Rightarrow> string \<Rightarrow> instant \<Rightarrow> rdb \<Rightarrow>
   err + (recovery_finding \<times> rdb)" where
  "restore cd DigestOf ps cost_id run f ob version now d =
     chk (LockRecoveryRun d (rr_ID run)) (\<lambda>_.
     chk (LockFinding d (fi_ID f)) (\<lambda>locked.
     if fi_Status locked \<noteq> FindingMissing then Inr (locked, d)
     else chk (restore_identity cd DigestOf ps cost_id run (fi_InventoryKey f) ob version now (r_db d)) (\<lambda>((status, outcome), s).
          let f1 = locked\<lparr>fi_Status := status, fi_Outcome := outcome, fi_UpdatedAt := now\<rparr>
          in Inr (f1, UpdateFinding (put_db s d) f1))))"

section \<open>Original outcomes\<close>

fun dispatch_outcome_string :: "dispatch_outcome \<Rightarrow> string" where
  "dispatch_outcome_string DispatchSucceeded = ''succeeded''"
| "dispatch_outcome_string DispatchFailed = ''failed''"
| "dispatch_outcome_string DispatchCanceled = ''canceled''"
| "dispatch_outcome_string DispatchOutcomeUnknown = ''unknown''"
| "dispatch_outcome_string dispatchOutcomeNotKnown = []"

fun dispatch_state_string :: "dispatch_state \<Rightarrow> string" where
  "dispatch_state_string DispatchPrepared = ''prepared''"
| "dispatch_state_string DispatchAuthorized = ''authorized''"
| "dispatch_state_string DispatchObserved = ''observed''"
| "dispatch_state_string DispatchUnknown = ''unknown''"
| "dispatch_state_string DispatchConfirmedNotSent = ''confirmed_not_sent''"
| "dispatch_state_string DispatchDenied = ''denied''"

fun effect_state_string :: "effect_state \<Rightarrow> string" where
  "effect_state_string EffectPrepared = ''prepared''"
| "effect_state_string EffectPermitted = ''permitted''"
| "effect_state_string EffectSucceeded = ''succeeded''"
| "effect_state_string EffectFailed = ''failed''"
| "effect_state_string EffectUnknown = ''unknown''"
| "effect_state_string EffectConfirmedNotSent = ''confirmed_not_sent''"
| "effect_state_string EffectDenied = ''denied''"

fun effect_outcome_string :: "effect_outcome \<Rightarrow> string" where
  "effect_outcome_string EffectOutcomeSucceeded = ''succeeded''"
| "effect_outcome_string EffectOutcomeFailed = ''failed''"
| "effect_outcome_string EffectOutcomeUnknown = ''unknown''"
| "effect_outcome_string (EffectOutcomeOther s) = s"

record dispatch_report =
  dp_Known :: bool
  dp_Source :: string
  dp_Sequence :: u64
  dp_Outcome :: dispatch_outcome
  dp_Usage :: "usage option"
  dp_NativeReference :: string
  dp_ObservedAt :: instant

definition queryDispatch ::
  "service \<Rightarrow> (dispatch \<Rightarrow> err + dispatch_report) \<Rightarrow> string \<Rightarrow> string \<Rightarrow> instant \<Rightarrow> recovery_finding \<Rightarrow> rdb \<Rightarrow> (err + recovery_finding) \<times> rdb" where
  "queryDispatch sv QueryDispatch obs_id cost_id now f d =
     (case GetDispatch (r_db d) (fi_ObligationID f) of
        None \<Rightarrow> (Inl ErrNotFound, d)
      | Some x \<Rightarrow>
          if d_TenantID x \<noteq> fi_TenantID f then (Inl ErrIntegrity, d)
          else if Dispatch_Settled x
          then answered (settleFinding now (fi_ID f) FindingResolved (dispatch_state_string (d_State x) @ ''/'' @ dispatch_outcome_string (d_Outcome x)) [] d) d
          else (case QueryDispatch x of
                  Inl _ \<Rightarrow> (Inl ErrEffectUncertain, d)
                | Inr rep \<Rightarrow>
                    if \<not> dp_Known rep then answered (settleFinding now (fi_ID f) FindingUnresolved [] [] d) d
                    else (case Observe sv now obs_id cost_id \<lparr>rd_TenantID = fi_TenantID f, rd_Owner = []\<rparr> (d_ID x) (dp_Source rep) (dp_Sequence rep)
                               (dp_Outcome rep) (dp_Usage rep) (dp_NativeReference rep) (dp_ObservedAt rep) (r_db d) of
                            Inl _ \<Rightarrow> answered (settleFinding now (fi_ID f) FindingUnresolved [] [] d) d
                          | Inr ((observed, _), s) \<Rightarrow>
                              let d1 = put_db s d
                              in if d_State observed \<noteq> DispatchObserved
                                 then answered (settleFinding now (fi_ID f) FindingUnresolved (dispatch_outcome_string (d_Outcome observed)) [] d1) d1
                                 else answered (settleFinding now (fi_ID f) FindingResolved (dispatch_outcome_string (d_Outcome observed)) (dp_Source rep) d1) d1)))"

definition queryEffect ::
  "(effect \<Rightarrow> err + outcome_report) \<Rightarrow> string \<Rightarrow> instant \<Rightarrow> recovery_finding \<Rightarrow> rdb \<Rightarrow> (err + recovery_finding) \<times> rdb" where
  "queryEffect QueryEffect obs_id now f d =
     (case QueryOriginal QueryEffect obs_id now (fi_TenantID f) (fi_ObligationID f) (r_c d) of
        Inl _ \<Rightarrow> (Inl ErrEffectUncertain, d)
      | Inr ((e, rep), c) \<Rightarrow>
          let d1 = d\<lparr>r_c := c\<rparr>
          in if \<not> Effect_Unresolved e then answered (settleFinding now (fi_ID f) FindingResolved (effect_state_string (e_State e)) (or_Source rep) d1) d1
             else if \<not> or_Known rep then answered (settleFinding now (fi_ID f) FindingUnresolved [] [] d1) d1
             else answered (settleFinding now (fi_ID f) FindingUnresolved (effect_outcome_string (or_Outcome rep)) (or_Source rep) d1) d1)"

record 'b recovery_ports =
  rx_codecs :: "'b codecs"
  rx_Get :: "string \<Rightarrow> err + ('b \<times> string)"
  rx_DigestOf :: "string \<Rightarrow> digest"
  rx_profiles :: profiles
  rx_service :: service
  rx_QueryDispatch :: "dispatch \<Rightarrow> err + dispatch_report"
  rx_QueryEffect :: "effect \<Rightarrow> err + outcome_report"

definition reconcile_class :: "'b recovery_ports \<Rightarrow> string \<Rightarrow> string \<Rightarrow> instant \<Rightarrow> recovery_finding \<Rightarrow> rdb \<Rightarrow> (err + recovery_finding) \<times> rdb" where
  "reconcile_class rx obs_id cost_id now f d =
     (if fi_Class f = ClassJobLaunch then settleLaunchRecords now f d
      else if fi_Class f = ClassModelDispatch \<or> fi_Class f = ClassToolDispatch
      then queryDispatch (rx_service rx) (rx_QueryDispatch rx) obs_id cost_id now f d
      else if fi_Class f = ClassBusinessWrite then queryEffect (rx_QueryEffect rx) obs_id now f d
      else (Inr f, d))"

definition Reconcile ::
  "'b recovery_ports \<Rightarrow> string \<Rightarrow> string \<Rightarrow> string \<Rightarrow> instant \<Rightarrow> string \<Rightarrow> string \<Rightarrow> rdb \<Rightarrow> (err + recovery_finding) \<times> rdb" where
  "Reconcile rx obs_id cost_id cost_id2 now runID findingID d =
     (case chk (GetFinding d findingID) (\<lambda>f. if fi_RunID f \<noteq> runID then Inl ErrNotFound else chk (GetRecoveryRun d runID) (\<lambda>run. Inr (f, run))) of
        Inl e \<Rightarrow> (Inl e, d)
      | Inr (f, run) \<Rightarrow>
          if Finding_Settled (fi_Status f) then (Inr f, d)
          else if fi_Status f = FindingMissing
          then (case rx_Get rx (fi_InventoryKey f) of
                  Inl _ \<Rightarrow> (Inl ErrEffectUncertain, d)
                | Inr (body, version) \<Rightarrow>
                    (case DecodeObligation (rx_codecs rx) (fi_InventoryKey f) body of
                       Inl ErrIntegrity \<Rightarrow> answered (settleFinding now (fi_ID f) FindingUnresolved [] [] d) d
                     | Inl e \<Rightarrow> (Inl e, d)
                     | Inr ob \<Rightarrow>
                         if ob_TenantID ob \<noteq> fi_TenantID f then (Inl ErrIntegrity, d)
                         else (case restore (rx_codecs rx) (rx_DigestOf rx) (rx_profiles rx) cost_id2 run f ob
                                    (if version = [] then fi_InventoryVersion f else version) now d of
                                 Inl e \<Rightarrow> (Inl e, d)
                               | Inr (f1, d1) \<Rightarrow> reconcile_class rx obs_id cost_id now f1 d1)))
          else reconcile_class rx obs_id cost_id now f d)"

section \<open>The launcher's evidence\<close>

record pod_evidence =
  pe_PodUID :: string
  pe_Phase :: instance_phase
  pe_ExitCode :: "int option"
  pe_ObservedAt :: instant

record launch_outcome =
  lo_JobUID :: string
  lo_Pods :: "pod_evidence list"
  lo_Stopped :: bool

definition recovery_command :: "(string \<Rightarrow> digest) \<Rightarrow> string \<Rightarrow> string \<Rightarrow> string \<Rightarrow> command_identity" where
  "recovery_command DigestOf tenantID runID suffix =
     \<lparr>cmd_TenantID = tenantID, cmd_CommandID = ''recovery:'' @ runID @ '':'' @ suffix, cmd_ActorID = ''recovery'', cmd_RequestDigest = DigestOf (runID @ suffix)\<rparr>"

text \<open>The loop over the reported Pods: \<open>False\<close> when one could not be recorded.\<close>

fun record_pods ::
  "(string \<Rightarrow> digest) \<Rightarrow> (nat \<Rightarrow> string) \<Rightarrow> instant \<Rightarrow> recovery_finding \<Rightarrow> string \<Rightarrow> launch \<Rightarrow> string \<Rightarrow> pod_evidence list \<Rightarrow> nat \<Rightarrow> rdb \<Rightarrow> bool \<times> rdb" where
  "record_pods DigestOf new_id now f runID l jobUID [] k d = (True, d)"
| "record_pods DigestOf new_id now f runID l jobUID (pod # pods) k d =
     (case RegisterInstance (new_id k) now (recovery_command DigestOf (fi_TenantID f) runID (''register:'' @ pe_PodUID pod)) (ln_AttemptID l) (ln_LaunchKey l)
             (ln_Backend l) jobUID (pe_PodUID pod) (ln_ImageDigest l) (r_c d) of
        Inl _ \<Rightarrow> (False, d)
      | Inr ((ins, _), c1) \<Rightarrow>
          (case ObserveInstance (fi_TenantID f) (ln_AttemptID l) (inst_ID ins) (pe_Phase pod) (pe_ExitCode pod) (pe_ObservedAt pod) c1 of
             Inl _ \<Rightarrow> (False, d\<lparr>r_c := c1\<rparr>)
           | Inr (_, c2) \<Rightarrow> record_pods DigestOf new_id now f runID l jobUID pods (Suc k) (d\<lparr>r_c := c2\<rparr>)))"

definition observed_ref :: "launch_outcome \<Rightarrow> string" where
  "observed_ref out = (if lo_JobUID out = [] then ''job:pods-only'' else ''job:'' @ lo_JobUID out)"

definition record_stop :: "(string \<Rightarrow> digest) \<Rightarrow> profiles \<Rightarrow> instant \<Rightarrow> recovery_finding \<Rightarrow> string \<Rightarrow> launch \<Rightarrow> attempt \<Rightarrow> rdb \<Rightarrow> (err + recovery_finding) \<times> rdb" where
  "record_stop DigestOf ps now f runID l at d =
     (let (closeOutcome, failureCode) = (if at_State at = AttemptClosed then (at_Outcome at, at_FailureCode at) else (OutcomeUnknown, ''RECOVERY_OUTCOME_UNKNOWN''))
      in case CloseAttempt ps now (recovery_command DigestOf (fi_TenantID f) runID (''close:'' @ ln_AttemptID l)) (ln_AttemptID l) closeOutcome CleanupComplete
                failureCode (r_c d) of
           Inl e \<Rightarrow>
             if e \<noteq> ErrIdempotencyConflict then answered (settleFinding now (fi_ID f) FindingUnresolved (fi_Outcome f) (fi_EvidenceRef f) d) d
             else answered (settleFinding now (fi_ID f) FindingResolved ''job_stopped'' (fi_EvidenceRef f) d) d
         | Inr (_, c1) \<Rightarrow>
             let d1 = d\<lparr>r_c := c1\<rparr> in answered (settleFinding now (fi_ID f) FindingResolved ''job_stopped'' (fi_EvidenceRef f) d1) d1)"

definition RecordOutcome ::
  "(string \<Rightarrow> digest) \<Rightarrow> profiles \<Rightarrow> (nat \<Rightarrow> string) \<Rightarrow> instant \<Rightarrow> string \<Rightarrow> string \<Rightarrow> launch_outcome \<Rightarrow> rdb \<Rightarrow> (err + recovery_finding) \<times> rdb" where
  "RecordOutcome DigestOf ps new_id now runID findingID out d =
     (case chk (GetFinding d findingID) (\<lambda>f.
             if fi_RunID f \<noteq> runID \<or> fi_Class f \<noteq> ClassJobLaunch then Inl ErrInvalid
             else chk (found (GetLaunch (r_db d) (fi_ObligationID f))) (\<lambda>l.
                  chk (GetAttempt (r_db d) (ln_AttemptID l)) (\<lambda>at. Inr (f, l, at)))) of
        Inl e \<Rightarrow> (Inl e, d)
      | Inr (f0, l, at) \<Rightarrow>
          if Finding_Settled (fi_Status f0) then (Inr f0, d)
          else if fi_Status f0 = FindingMissing then (Inl ErrStaleExecution, d)
          else if at_TenantID at \<noteq> fi_TenantID f0 then (Inl ErrIntegrity, d)
          else if launchSettled at then answered (settleFinding now (fi_ID f0) FindingResolved ''cleanup_confirmed'' (fi_EvidenceRef f0) d) d
          else case (if ln_Inventory l \<noteq> InventoryConfirmed then confirmLaunchInventory now (ln_ID l) (fi_InventoryVersion f0) d else Inr d) of
            Inl e \<Rightarrow> (Inl e, d)
          | Inr d1 \<Rightarrow>
              (case record_pods DigestOf new_id now f0 runID l (lo_JobUID out) (lo_Pods out) 0 d1 of
                 (False, d2) \<Rightarrow> answered (settleFinding now (fi_ID f0) FindingUnresolved (fi_Outcome f0) (fi_EvidenceRef f0) d2) d2
               | (True, d2) \<Rightarrow>
                   let observed = (lo_JobUID out \<noteq> [] \<or> lo_Pods out \<noteq> []);
                       f = (if observed then f0\<lparr>fi_Outcome := ''observed'', fi_EvidenceRef := observed_ref out\<rparr> else f0)
                   in if \<not> lo_Stopped out
                      then (if \<not> observed then answered (settleFinding now (fi_ID f) (fi_Status f) (fi_Outcome f) (fi_EvidenceRef f) d2) d2
                            else answered (settleFinding now (fi_ID f) (fi_Status f) ''observed'' (fi_EvidenceRef f) d2) d2)
                      else if fi_EvidenceRef f = [] then answered (settleFinding now (fi_ID f) FindingUnresolved (fi_Outcome f) [] d2) d2
                      else record_stop DigestOf ps now f runID l at d2))"

end
