(* ===== verification/Recovery_Run.thy ===== *)
theory Recovery_Run
  imports Recovery_Reconciliation Control_Plane
begin

text \<open>
  The recovery tables and the admission closures under any interleaving of the service's transactions
  with every other transaction of the program.
\<close>

section \<open>Who touches the closures\<close>

named_theorems closures "writes that leave the admission closures alone"

lemma foldl_caps_closures: "db_closures (foldl UpdateCostCapCounters s cs) = db_closures s"
  by (induction cs arbitrary: s) (simp_all add: UpdateCostCapCounters_def)

lemma foldl_allocs_closures: "db_closures (foldl UpdateAllocation s as) = db_closures s"
  by (induction as arbitrary: s) (simp_all add: UpdateAllocation_def)

lemma row_writes_closures [closures]:
  "db_closures (budget_save s b) = db_closures s" "db_closures (UpdateDispatch s x) = db_closures s" "db_closures (UpdateEffect s e) = db_closures s"
  "db_closures (InsertCostEntry s ce) = db_closures s" "db_closures (append_event s ev) = db_closures s"
  "db_closures (UpdateOperation s ops) = db_closures s" "db_closures (UpdateLaunchInventory s l) = db_closures s"
  by (simp_all add: budget_save_def foldl_caps_closures foldl_allocs_closures UpdateDispatch_def UpdateEffect_def InsertCostEntry_def append_event_def
      UpdateOperation_def UpdateLaunchInventory_def)

lemma insert_closures [closures]:
  "InsertEvent s ev = Inr s' \<Longrightarrow> db_closures s' = db_closures s"
  "InsertOperation s ops = Inr s' \<Longrightarrow> db_closures s' = db_closures s"
  "InsertAttempt s a = Inr s' \<Longrightarrow> db_closures s' = db_closures s"
  "InsertLaunch s l = Inr s' \<Longrightarrow> db_closures s' = db_closures s"
  "InsertDispatch s x = Inr s' \<Longrightarrow> db_closures s' = db_closures s"
  "InsertEffect s e = Inr s' \<Longrightarrow> db_closures s' = db_closures s"
  by (auto simp: InsertEvent_def append_event_def InsertOperation_def InsertAttempt_def InsertLaunch_def InsertDispatch_def InsertEffect_def split: if_splits)

lemma write_transition_closures [closures]: "write_transition ops t now f bind s = Inr (x, s') \<Longrightarrow> db_closures s' = db_closures s"
  by (auto simp: write_transition_def Let_def fallible closures split: prod.splits dest: insert_closures)

lemma settled_rows_closures [closures]: "db_closures (settled_rows ops x b now s) = db_closures s"
  by (simp add: settled_rows_def closures split: prod.split)

lemma ConfirmNotSentLocked_closures: "ConfirmNotSentLocked operationID dispatchID evidenceRef guard now s = Inr (r, s') \<Longrightarrow> db_closures s' = db_closures s"
  by (auto simp: ConfirmNotSentLocked_def Let_def fallible closures dest!: settleFinance_Inr split: if_splits)

lemma restoreOperation_closures:
  "restoreOperation DigestOf ps run tenantID projectID operationID commandID kind profileID sd rd recordedAt ep iver now s = Inr s' \<Longrightarrow>
     db_closures s' = db_closures s"
  by (auto simp: restoreOperation_def chk_Inr_iff split: sum.splits if_splits prod.splits dest!: insert_closures)

lemma restoreAttempt_closures:
  "restoreAttempt DigestOf ps tenantID operationID attemptID profileID ep deadline recordedAt now s = Inr s' \<Longrightarrow> db_closures s' = db_closures s"
  by (auto simp: restoreAttempt_def Let_def split: sum.splits if_splits dest!: insert_closures)

lemma restore_dispatch_closures:
  "restore_dispatch cd cost_id run cls r recordedAt version now s = Inr s' \<Longrightarrow> db_closures s' = db_closures s"
  by (auto simp: restore_dispatch_def Let_def chk_Inr_iff closures split: option.splits sum.splits if_splits dest!: insert_closures write_transition_closures)

lemma restore_identity_closures:
  "restore_identity cd DigestOf ps cost_id run key ob version now s = Inr (r, s') \<Longrightarrow> db_closures s' = db_closures s"
  by (auto simp: restore_identity_def Let_def chk_Inr_iff split: option.splits if_splits
      dest!: insert_closures restoreOperation_closures restoreAttempt_closures restore_dispatch_closures)

lemma dispose_effect_closures: "dispose_effect obs_id now req c = Inr c' \<Longrightarrow> db_closures (c_db c') = db_closures (c_db c)"
  by (auto simp: dispose_effect_def Let_def chk_Inr_iff closures InsertEffectObservation_def split: option.splits if_splits)

section \<open>What each transaction does to the tables\<close>

lemma put_db_simps [simp]:
  "r_c (put_db s d) = (r_c d)\<lparr>c_db := s\<rparr>" "r_runs (put_db s d) = r_runs d" "r_progress (put_db s d) = r_progress d"
  "r_findings (put_db s d) = r_findings d" "r_dispositions (put_db s d) = r_dispositions d"
  by (simp_all add: put_db_def)

lemma UpdateRecoveryRun_simps [simp]:
  "r_c (UpdateRecoveryRun d r) = r_c d" "r_progress (UpdateRecoveryRun d r) = r_progress d"
  "r_findings (UpdateRecoveryRun d r) = r_findings d" "r_dispositions (UpdateRecoveryRun d r) = r_dispositions d"
  "map rr_ID (r_runs (UpdateRecoveryRun d r)) = map rr_ID (r_runs d)"
  by (simp_all add: UpdateRecoveryRun_def)

lemma UpsertRecoveryProgress_simps [simp]:
  "r_c (UpsertRecoveryProgress d p) = r_c d" "r_runs (UpsertRecoveryProgress d p) = r_runs d"
  "r_findings (UpsertRecoveryProgress d p) = r_findings d" "r_dispositions (UpsertRecoveryProgress d p) = r_dispositions d"
  by (simp_all add: UpsertRecoveryProgress_def)

lemma UpdateFinding_simps [simp]:
  "r_c (UpdateFinding d f) = r_c d" "r_runs (UpdateFinding d f) = r_runs d" "r_progress (UpdateFinding d f) = r_progress d"
  "r_dispositions (UpdateFinding d f) = r_dispositions d" "length (r_findings (UpdateFinding d f)) = length (r_findings d)"
  "map finding_key (r_findings (UpdateFinding d f)) = map finding_key (r_findings d)"
  by (simp_all add: UpdateFinding_def)

lemma InsertFinding_Inr:
  "InsertFinding d f = Inr d' \<Longrightarrow> d' = d\<lparr>r_findings := r_findings d @ [f]\<rparr> \<and> finding_key f \<notin> finding_key ` set (r_findings d)"
  by (auto simp: InsertFinding_def list_ex_iff split: if_splits)

lemma new_finding_key: "new_finding new_id now run cls ca d = Inr f \<Longrightarrow> finding_key f = (rr_ID run, cls, candidate_id ca)"
  by (auto simp: new_finding_def Let_def chk_Inr_iff split: option.splits if_splits)

lemma record_each_Inr:
  assumes "record_each new_id now run cls cas k d = Inr d'"
  shows "\<exists>fs. d' = d\<lparr>r_findings := r_findings d @ fs\<rparr> \<and> (\<forall>f \<in> set fs. fi_Class f = cls) \<and>
    (distinct (map finding_key (r_findings d)) \<longrightarrow> distinct (map finding_key (r_findings d'))) \<and>
    (\<forall>ca \<in> set cas. (rr_ID run, cls, candidate_id ca) \<in> finding_key ` set (r_findings d'))"
  using assms
proof (induction cas arbitrary: k d)
  case Nil
  then show ?case by (intro exI [of _ "[]"]) simp
next
  case (Cons ca cas)
  show ?case
  proof (cases "GetFindingByObligation d (rr_ID run) cls (candidate_id ca) = None")
    case False
    then have mem: "(rr_ID run, cls, candidate_id ca) \<in> finding_key ` set (r_findings d)"
      by (auto simp: GetFindingByObligation_def lookup_by_None_iff)
    from Cons.IH [of k d] Cons.prems False obtain fs where fs: "d' = d\<lparr>r_findings := r_findings d @ fs\<rparr>" "\<forall>f \<in> set fs. fi_Class f = cls"
      "distinct (map finding_key (r_findings d)) \<longrightarrow> distinct (map finding_key (r_findings d'))"
      "\<forall>ca \<in> set cas. (rr_ID run, cls, candidate_id ca) \<in> finding_key ` set (r_findings d')" by auto
    have "(rr_ID run, cls, candidate_id ca) \<in> finding_key ` set (r_findings d')" using mem by (auto simp: fs(1))
    then show ?thesis using fs by (intro exI [of _ fs]) simp
  next
    case True
    with Cons.prems obtain f d1 where f: "new_finding (new_id k) now run cls ca d = Inr f" "InsertFinding d f = Inr d1"
      "record_each new_id now run cls cas (Suc k) d1 = Inr d'" by (auto simp: chk_Inr_iff)
    note I = InsertFinding_Inr [OF f(2)] and K = new_finding_key [OF f(1)]
    have d1: "distinct (map finding_key (r_findings d1))" if "distinct (map finding_key (r_findings d))" using I that by simp
    have cls: "fi_Class f = cls" using K by simp
    from Cons.IH [OF f(3)] obtain fs where fs': "d' = d1\<lparr>r_findings := r_findings d1 @ fs\<rparr>" "\<forall>f \<in> set fs. fi_Class f = cls"
      "distinct (map finding_key (r_findings d1)) \<longrightarrow> distinct (map finding_key (r_findings d'))"
      "\<forall>ca \<in> set cas. (rr_ID run, cls, candidate_id ca) \<in> finding_key ` set (r_findings d')" by blast
    then have fs: "d' = d\<lparr>r_findings := r_findings d @ f # fs\<rparr>" "\<forall>f \<in> set (f # fs). fi_Class f = cls"
      "distinct (map finding_key (r_findings d)) \<longrightarrow> distinct (map finding_key (r_findings d'))"
      "\<forall>ca \<in> set cas. (rr_ID run, cls, candidate_id ca) \<in> finding_key ` set (r_findings d')" using I d1 cls by auto
    have "finding_key f \<in> finding_key ` set (r_findings d')" by (simp add: fs(1))
    then show ?thesis using fs unfolding K by (intro exI [of _ "f # fs"]) simp
  qed
qed

abbreviation progress_key :: "recovery_progress \<Rightarrow> string \<times> string" where
  "progress_key p \<equiv> (pg_RunID p, pg_Class p)"

lemma progress_upsert:
  "r_progress (UpsertRecoveryProgress d p) =
     (if progress_key p \<in> progress_key ` set (r_progress d) then update_by progress_key p (r_progress d) else r_progress d @ [p])"
  by (auto simp: UpsertRecoveryProgress_def list_ex_iff image_iff)

lemma record_page_Inr:
  assumes "record_page new_id now runID cls progress page cas d = Inr (p, d')"
  obtains (stale) "d' = d" "GetRecoveryProgress d runID cls = Inr p" "pg_Cursor p \<noteq> pg_Cursor progress \<or> pg_Complete p"
  | (recorded) current fs where "GetRecoveryProgress d runID cls = Inr current" "pg_Cursor current = pg_Cursor progress" "\<not> pg_Complete current"
      "progress_key p = progress_key current" "r_c d' = r_c d" "r_findings d' = r_findings d @ fs" "r_dispositions d' = r_dispositions d"
      "\<forall>f \<in> set fs. fi_Class f = cls" "distinct (map finding_key (r_findings d)) \<longrightarrow> distinct (map finding_key (r_findings d'))"
      "map rr_ID (r_runs d') = map rr_ID (r_runs d)"
      "r_progress d' = update_by progress_key p (r_progress d)" "pg_Complete p = ip_Complete page" "pg_Cursor p = ip_NextCursor page"
      "\<forall>ca \<in> set cas. (runID, cls, candidate_id ca) \<in> finding_key ` set (r_findings d')"
proof -
  from assms obtain locked current where L: "LockRecoveryRun d runID = Inr locked" "GetRecoveryProgress d runID cls = Inr current"
    by (auto simp: record_page_def chk_Inr_iff)
  note tx = assms [unfolded record_page_def L chk_Inr]
  have id: "rr_ID locked = runID" using L(1) lookup_by_SomeD [of rr_ID runID "r_runs d" locked] by (simp add: LockRecoveryRun_def found_Inr_iff)
  show thesis
  proof (cases "pg_Cursor current \<noteq> pg_Cursor progress \<or> pg_Complete current")
    case True
    then show thesis using tx stale L(2) by simp
  next
    case False
    with tx obtain d1 where d1: "record_each new_id now locked cls cas 0 d = Inr d1" by (auto simp: chk_Inr_iff)
    define q where "q = current\<lparr>pg_Cursor := ip_NextCursor page, pg_Complete := ip_Complete page, pg_Seen := pg_Seen current + of_nat (length (ip_Objects page))\<rparr>"
    define d2 where "d2 = UpsertRecoveryProgress d1 q"
    have p: "p = q" "d' = d2 \<or> (\<exists>r. d' = UpdateRecoveryRun d2 r)"
      using tx False d1 by (auto simp: Let_def q_def d2_def split: if_splits)
    from record_each_Inr [OF d1] id obtain fs where fs: "d1 = d\<lparr>r_findings := r_findings d @ fs\<rparr>" "\<forall>f \<in> set fs. fi_Class f = cls"
      "distinct (map finding_key (r_findings d)) \<longrightarrow> distinct (map finding_key (r_findings d1))"
      "\<forall>ca \<in> set cas. (runID, cls, candidate_id ca) \<in> finding_key ` set (r_findings d1)" by auto
    have cur: "progress_key current \<in> progress_key ` set (r_progress d)"
      using L(2) lookup_by_SomeD [of progress_key "(runID, cls)" "r_progress d" current] by (auto simp: GetRecoveryProgress_def found_Inr_iff)
    have key: "progress_key q = progress_key current" by (simp add: q_def)
    have up: "r_progress d2 = update_by progress_key q (r_progress d)"
      using cur key by (simp add: d2_def progress_upsert fs(1))
    have same: "r_findings d' = r_findings d1" using p(2) by (auto simp: d2_def)
    show thesis
    proof (rule recorded [OF L(2), where fs = fs])
      show "map rr_ID (r_runs d') = map rr_ID (r_runs d)" using p(2) by (auto simp: d2_def fs(1) UpdateRecoveryRun_def)
      show "r_progress d' = update_by progress_key p (r_progress d)" using p up by auto
      show "\<forall>ca \<in> set cas. (runID, cls, candidate_id ca) \<in> finding_key ` set (r_findings d')" unfolding same by (rule fs(4))
      show "distinct (map finding_key (r_findings d)) \<longrightarrow> distinct (map finding_key (r_findings d'))" unfolding same by (rule fs(3))
    qed (use False p key fs(2) in \<open>auto simp: d2_def fs(1) q_def\<close>)
  qed
qed

lemma fence_each_closures: "fence_each run now os (n, s) = Inr (m, s') \<Longrightarrow> db_closures s' = db_closures s"
proof (induction os arbitrary: n s)
  case (Cons x os)
  from Cons.prems obtain ops where l: "LockOperation s (op_ID x) = Inr ops" by (auto simp: chk_Inr_iff)
  show ?case
  proof (cases "Lifecycle_Terminal (op_Lifecycle ops)")
    case True
    then show ?thesis using Cons l by simp
  next
    case False
    then obtain r s1 where w: "write_transition ops (''recovery:'' @ rr_ID run @ '':fenced'') now (recovery_fence (rr_RecoveryEpoch run)) id s = Inr (r, s1)"
      "fence_each run now os (n + 1, s1) = Inr (m, s')" using Cons.prems l by (auto simp: chk_Inr_iff)
    from Cons.IH [OF w(2)] write_transition_closures [OF w(1)] show ?thesis by simp
  qed
qed simp

lemma Begin_Inr:
  assumes "Begin new_id now cmd sc scopeKey ws we skew reason d = Inr ((run, existing), d')"
  obtains (known) "existing" "d' = d" "run \<in> set (r_runs d)"
  | (fresh) r d1 s2 n where "\<not> existing" "operator sc cmd scopeKey = None" "NewRecoveryRun new_id cmd scopeKey (r_epochs d + 1) ws we skew reason now = Inr r"
      "\<not> IsAdmissionClosed (r_db d) scopeKey" "InsertRecoveryRun (d\<lparr>r_epochs := r_epochs d + 1\<rparr>) r = Inr d1"
      "fence_each r now (ListActiveOperations (r_db d) scopeKey)
         (0, UpsertAdmissionClosure (r_db d) \<lparr>cl_ScopeKey = scopeKey, cl_RunID = rr_ID r, cl_ClosedAt = now, cl_ReopenedAt = None\<rparr>) = Inr (n, s2)"
      "run = r\<lparr>rr_FencedCount := n\<rparr>"
      "d' = UpdateRecoveryRun (foldl (\<lambda>x cls. UpsertRecoveryProgress x
         \<lparr>pg_RunID = rr_ID r, pg_Class = cls, pg_Cursor = [], pg_Complete = False, pg_Seen = 0\<rparr>) (put_db s2 d1) ObligationClasses) run"
proof (cases "GetRecoveryRunByCommand d scopeKey (cmd_CommandID cmd)")
  case (Some fnd)
  then have "existing \<and> d' = d \<and> run = fnd" using assms by (auto simp: Begin_def fallible split: if_splits)
  then show thesis using known lookup_by_SomeD [OF Some [unfolded GetRecoveryRunByCommand_def]] by simp
next
  case None
  from assms None have op: "operator sc cmd scopeKey = None" and shut: "\<not> IsAdmissionClosed (r_db d) scopeKey"
    by (auto simp: Begin_def Let_def fallible split: if_splits)
  from assms None obtain r d1 n s2 where R: "NewRecoveryRun new_id cmd scopeKey (r_epochs d + 1) ws we skew reason now = Inr r"
    "InsertRecoveryRun (d\<lparr>r_epochs := r_epochs d + 1\<rparr>) r = Inr d1"
    "fence_each r now (ListActiveOperations (UpsertAdmissionClosure (r_db d1)
        \<lparr>cl_ScopeKey = scopeKey, cl_RunID = rr_ID r, cl_ClosedAt = now, cl_ReopenedAt = None\<rparr>) scopeKey)
      (0, UpsertAdmissionClosure (r_db d1) \<lparr>cl_ScopeKey = scopeKey, cl_RunID = rr_ID r, cl_ClosedAt = now, cl_ReopenedAt = None\<rparr>) = Inr (n, s2)"
    "run = r\<lparr>rr_FencedCount := n\<rparr>" "\<not> existing" "d' = UpdateRecoveryRun (foldl (\<lambda>x cls. UpsertRecoveryProgress x
         \<lparr>pg_RunID = rr_ID r, pg_Class = cls, pg_Cursor = [], pg_Complete = False, pg_Seen = 0\<rparr>) (put_db s2 d1) ObligationClasses) run"
    by (auto simp: Begin_def Let_def chk_Inr_iff chk_err_Inr_iff NextRecoveryEpoch_def split: if_splits)
  have "r_c d1 = r_c d" using R(2) by (auto simp: InsertRecoveryRun_def split: if_splits)
  moreover have "ListActiveOperations (UpsertAdmissionClosure s c) scopeKey = ListActiveOperations s scopeKey" for s c
    by (simp add: ListActiveOperations_def UpsertAdmissionClosure_def)
  ultimately show thesis using fresh [OF R(5) op R(1) shut R(2) _ R(4,6)] R(3) by simp
qed

lemma foldl_upsert_simps [simp]:
  "r_c (foldl (\<lambda>x cls. UpsertRecoveryProgress x (g cls)) d cs) = r_c d"
  "r_runs (foldl (\<lambda>x cls. UpsertRecoveryProgress x (g cls)) d cs) = r_runs d"
  "r_findings (foldl (\<lambda>x cls. UpsertRecoveryProgress x (g cls)) d cs) = r_findings d"
  "r_dispositions (foldl (\<lambda>x cls. UpsertRecoveryProgress x (g cls)) d cs) = r_dispositions d"
  by (induction cs arbitrary: d) simp_all

lemma settleFinding_Inr:
  "settleFinding now findingID status outcome ref d = Inr (f, d') \<Longrightarrow> d' = d \<or> (\<exists>f. d' = UpdateFinding d f)"
  by (auto simp: settleFinding_def Let_def chk_Inr_iff split: if_splits)

lemma restore_Inr:
  "restore cd DigestOf ps cost_id run f ob version now d = Inr (f1, d') \<Longrightarrow>
     d' = d \<or> (\<exists>s f. d' = UpdateFinding (put_db s d) f \<and> db_closures s = db_closures (r_db d))"
  by (auto simp: restore_def Let_def chk_Inr_iff split: if_splits dest!: restore_identity_closures)

lemma dispose_commit_Inr:
  assumes "dispose_commit new_id obs_id now cmd req b d = Inr (x, d')"
  shows "db_closures (r_db d') = db_closures (r_db d) \<and> r_runs d' = r_runs d \<and> r_progress d' = r_progress d \<and>
    map finding_key (r_findings d') = map finding_key (r_findings d) \<and> r_dispositions d' = r_dispositions d @ [x]"
proof -
  from assms obtain d1 c2 d3 where T: "dispose_lock now req b d = Inr d1" "dispose_effect obs_id now req (r_c d1) = Inr c2"
    "InsertDisposition (d1\<lparr>r_c := c2\<rparr>) x = Inr d3" "dispose_finding now req d3 = Inr d'"
    by (auto simp: dispose_commit_def Let_def chk_Inr_iff)
  have "d1 = d \<or> (\<exists>s. d1 = put_db s d \<and> db_closures s = db_closures (r_db d))"
    using T(1) by (auto simp: dispose_lock_def chk_Inr_iff chk_err_Inr_iff split: option.splits if_splits dest!: ConfirmNotSentLocked_closures)
  moreover have "d3 = d1\<lparr>r_c := c2, r_dispositions := r_dispositions d1 @ [x]\<rparr>" using T(3) by (auto simp: InsertDisposition_def split: if_splits)
  moreover have "d' = d3 \<or> (\<exists>f. d' = UpdateFinding d3 f)" using T(4) by (auto simp: dispose_finding_def chk_Inr_iff split: option.splits if_splits)
  ultimately show ?thesis using dispose_effect_closures [OF T(2)] by auto
qed

lemma Evaluate_Inr:
  assumes "Evaluate now runID d = Inr (r, d')"
  obtains (stays) "r_c d' = r_c d" "r_progress d' = r_progress d" "r_findings d' = r_findings d"
  | (reopens) locked where "LockRecoveryRun d runID = Inr locked" "classes_complete (ListRecoveryProgress d runID)" "CountUnsettledFindings d runID = 0"
      "r_c d' = (r_c d)\<lparr>c_db := ReopenAdmission (r_db d) (rr_ScopeKey locked) (rr_ID locked) now\<rparr>" "r_progress d' = r_progress d" "r_findings d' = r_findings d"
      "fst r = locked\<lparr>rr_Phase := RecoveryReopened, rr_ReopenedAt := Some now, rr_UpdatedAt := now\<rparr>" "snd r = 0"
proof -
  from assms obtain locked where l: "LockRecoveryRun d runID = Inr locked" by (auto simp: Evaluate_def chk_Inr_iff)
  note tx = assms [unfolded Evaluate_def l chk_Inr Let_def]
  show thesis
  proof (cases "rr_Phase locked = RecoveryReopened \<or> \<not> classes_complete (ListRecoveryProgress d runID) \<or> CountUnsettledFindings d runID > 0")
    case True
    have "r_c d' = r_c d \<and> r_progress d' = r_progress d \<and> r_findings d' = r_findings d"
      using tx True by (cases "rr_Phase locked = RecoveryReopened"; cases "classes_complete (ListRecoveryProgress d runID)"; cases "rr_Phase locked = RecoveryFenced") auto
    then show thesis using stays by blast
  next
    case False
    then have "CountUnsettledFindings d runID = 0" by (simp add: word_gt_0)
    then show thesis using reopens [OF l] tx False by auto
  qed
qed

section \<open>The transition system\<close>

inductive recovery_step :: "rdb \<Rightarrow> rdb \<Rightarrow> bool" where
  start: "Begin new_id now cmd sc scopeKey ws we skew reason d = Inr (r, d') \<Longrightarrow> recovery_step d d'"
| started: "Started now runID d = Inr d' \<Longrightarrow> recovery_step d d'"
| page: "validClass cls = None \<Longrightarrow> record_page new_id now runID cls progress pg cas d = Inr (p, d') \<Longrightarrow> recovery_step d d'"
| finding: "settleFinding now findingID status outcome ref d = Inr (f, d') \<Longrightarrow> recovery_step d d'"
| restored: "restore (cd :: string codecs) DigestOf ps cost_id run f ob version now d = Inr (f1, d') \<Longrightarrow> recovery_step d d'"
| disposed: "dispose_commit new_id obs_id now cmd req b d = Inr (x, d') \<Longrightarrow> recovery_step d d'"
| gate: "Evaluate now runID d = Inr (r, d') \<Longrightarrow> recovery_step d d'"
| rest: "db_closures (r_db d') = db_closures (r_db d) \<Longrightarrow> r_runs d' = r_runs d \<Longrightarrow> r_progress d' = r_progress d \<Longrightarrow> r_findings d' = r_findings d \<Longrightarrow>
     r_dispositions d' = r_dispositions d \<Longrightarrow> recovery_step d d'"

inductive recovery_run :: "rdb \<Rightarrow> rdb \<Rightarrow> bool" where
  idle: "recovery_run d d"
| tick: "recovery_run d d1 \<Longrightarrow> recovery_step d1 d2 \<Longrightarrow> recovery_run d d2"

lemma recovery_run_trans: "recovery_run d1 d2 \<Longrightarrow> recovery_run d d1 \<Longrightarrow> recovery_run d d2"
  by (induction rule: recovery_run.induct) (auto intro: recovery_run.tick)

text \<open>The tables: a progress row per run and class, of one of the five classes, and one finding per
  obligation, of one of them too.\<close>

definition recovery_inv :: "rdb \<Rightarrow> bool" where
  "recovery_inv d \<longleftrightarrow> distinct (map progress_key (r_progress d)) \<and> pg_Class ` set (r_progress d) \<subseteq> set ObligationClasses \<and>
     distinct (map finding_key (r_findings d)) \<and> fi_Class ` set (r_findings d) \<subseteq> set ObligationClasses"

lemma foldl_upsert_progress:
  assumes "distinct (map progress_key (r_progress d))" and "pg_Class ` set (r_progress d) \<subseteq> set ObligationClasses" and "set cs \<subseteq> set ObligationClasses"
    and "\<And>cls. pg_Class (g cls) = cls"
  shows "distinct (map progress_key (r_progress (foldl (\<lambda>x cls. UpsertRecoveryProgress x (g cls)) d cs))) \<and>
    pg_Class ` set (r_progress (foldl (\<lambda>x cls. UpsertRecoveryProgress x (g cls)) d cs)) \<subseteq> set ObligationClasses"
  using assms(1-3)
proof (induction cs arbitrary: d)
  case (Cons c cs)
  have "distinct (map progress_key (r_progress (UpsertRecoveryProgress d (g c))))" using Cons.prems(1) by (simp add: progress_upsert)
  moreover have "pg_Class ` set (r_progress (UpsertRecoveryProgress d (g c))) \<subseteq> set ObligationClasses"
    using Cons.prems(2,3) assms(4) by (auto simp: progress_upsert dest!: set_update_by)
  ultimately show ?case using Cons.IH Cons.prems(3) by simp
qed simp

lemma finding_class_of_keys: "map finding_key fs = map finding_key gs \<Longrightarrow> fi_Class ` set fs = fi_Class ` set gs"
proof -
  assume "map finding_key fs = map finding_key gs"
  from arg_cong [OF this, of "\<lambda>ks. (\<lambda>k. fst (snd k)) ` set ks"] show ?thesis by (simp add: image_image)
qed

lemma recovery_inv_writes [simp]: "recovery_inv (UpdateFinding d f) = recovery_inv d" "recovery_inv (put_db s d) = recovery_inv d"
  using finding_class_of_keys [OF UpdateFinding_simps(6), of d f] by (simp_all add: recovery_inv_def)

lemma recovery_inv_step:
  assumes "recovery_step d d'" and inv: "recovery_inv d"
  shows "recovery_inv d'"
  using assms(1)
proof cases
  case (start new_id now cmd sc scopeKey ws we skew reason r)
  obtain run ex where r: "r = (run, ex)" by (cases r)
  from start [unfolded r] show ?thesis
  proof (cases rule: Begin_Inr)
    case (fresh r1 d1 s2 n)
    have "r_progress d1 = r_progress d" "r_findings d1 = r_findings d" using fresh(5) by (auto simp: InsertRecoveryRun_def split: if_splits)
    then show ?thesis using inv foldl_upsert_progress [of "put_db s2 d1" ObligationClasses
        "\<lambda>cls. \<lparr>pg_RunID = rr_ID r1, pg_Class = cls, pg_Cursor = [], pg_Complete = False, pg_Seen = 0\<rparr>"]
      by (simp add: fresh(8) recovery_inv_def)
  qed (use inv in simp)
next
  case (page cls new_id now runID progress pg cas p)
  from page(2) show ?thesis
  proof (cases rule: record_page_Inr)
    case (recorded current fs)
    have "cls \<in> set ObligationClasses" using page(1) by (auto simp: validClass_def list_ex_iff split: if_splits)
    moreover have "pg_Class p \<in> set ObligationClasses" using recorded(1,4) lookup_by_SomeD [of progress_key "(runID, cls)" "r_progress d" current] \<open>cls \<in> _\<close>
      by (auto simp: GetRecoveryProgress_def found_Inr_iff)
    ultimately show ?thesis using inv recorded(6,8,9,11) unfolding recovery_inv_def by (auto dest!: set_update_by)
  qed (use inv in simp)
next
  case (finding now findingID status outcome ref f)
  then show ?thesis using inv settleFinding_Inr [OF finding] by auto
next
  case (restored cd DigestOf ps cost_id run f ob version now f1)
  then show ?thesis using inv restore_Inr [OF restored] by auto
next
  case (disposed new_id obs_id now cmd req b x)
  then show ?thesis using inv dispose_commit_Inr [OF disposed] finding_class_of_keys [of "r_findings d'" "r_findings d"] by (simp add: recovery_inv_def)
next
  case (gate now runID r)
  then show ?thesis by (cases rule: Evaluate_Inr) (use inv in \<open>simp_all add: recovery_inv_def\<close>)
next
  case (started now runID)
  then have "r_progress d' = r_progress d" "r_findings d' = r_findings d" by (auto simp: Started_def chk_Inr_iff split: if_splits)
  then show ?thesis using inv by (simp add: recovery_inv_def)
qed (use inv in \<open>simp add: recovery_inv_def\<close>)

lemma recovery_inv_run: "recovery_run d d' \<Longrightarrow> recovery_inv d \<Longrightarrow> recovery_inv d'"
  by (induction rule: recovery_run.induct) (auto intro: recovery_inv_step)

section \<open>The gate\<close>

lemma closed_kept: "db_closures s' = db_closures s \<Longrightarrow> IsAdmissionClosed s' t = IsAdmissionClosed s t"
  by (simp add: IsAdmissionClosed_def)

lemma closed_upsert: "IsAdmissionClosed s t \<Longrightarrow> IsAdmissionClosed (UpsertAdmissionClosure s c) t"
proof -
  assume "IsAdmissionClosed s t"
  then obtain x where x: "x \<in> set (db_closures s)" "cl_ScopeKey x = ''*'' \<or> cl_ScopeKey x = t" "cl_ReopenedAt x = None"
    by (auto simp: IsAdmissionClosed_def list_ex_iff)
  define g where "g y = (if cl_ScopeKey y = cl_ScopeKey c then y\<lparr>cl_RunID := cl_RunID c, cl_ClosedAt := cl_ClosedAt c, cl_ReopenedAt := None\<rparr> else y)" for y :: closure
  have g: "cl_ScopeKey (g x) = cl_ScopeKey x" "cl_ReopenedAt (g x) = None" using x(3) by (simp_all add: g_def)
  have "x \<in> set (db_closures (UpsertAdmissionClosure s c)) \<or> g x \<in> set (db_closures (UpsertAdmissionClosure s c))"
    using x(1) by (auto simp: UpsertAdmissionClosure_def g_def)
  then show ?thesis using x g unfolding IsAdmissionClosed_def list_ex_iff by metis
qed

text \<open>What the gate saw: the five classes enumerated to their ends, and every finding settled.\<close>

definition gate_open :: "rdb \<Rightarrow> string \<Rightarrow> bool" where
  "gate_open d runID \<longleftrightarrow>
     (\<forall>cls \<in> set ObligationClasses. \<exists>p \<in> set (r_progress d). pg_RunID p = runID \<and> pg_Class p = cls \<and> pg_Complete p) \<and>
     (\<forall>f \<in> set (r_findings d). fi_RunID f = runID \<longrightarrow> Finding_Settled (fi_Status f))"

lemma classes_complete_iff: "classes_complete ps \<longleftrightarrow> length ps = length ObligationClasses \<and> (\<forall>p \<in> set ps. pg_Complete p)"
proof -
  have "foldl (\<lambda>b p. b \<and> pg_Complete p) b ps \<longleftrightarrow> b \<and> (\<forall>p \<in> set ps. pg_Complete p)" for b by (induction ps arbitrary: b) auto
  then show ?thesis by (simp add: classes_complete_def)
qed

lemma classes_complete_all:
  assumes inv: "recovery_inv d" and c: "classes_complete (ListRecoveryProgress d runID)" and cls: "cls \<in> set ObligationClasses"
  shows "\<exists>p \<in> set (r_progress d). pg_RunID p = runID \<and> pg_Class p = cls \<and> pg_Complete p"
proof -
  let ?ps = "filter (\<lambda>p. pg_RunID p = runID) (r_progress d)"
  have len: "length ?ps = length ObligationClasses" and all: "\<forall>p \<in> set ?ps. pg_Complete p"
    using c by (simp_all add: classes_complete_iff ListRecoveryProgress_def)
  have "distinct (map progress_key ?ps)" using inv by (simp add: recovery_inv_def distinct_map_filter)
  then have "inj_on progress_key (set ?ps)" "distinct ?ps" by (simp_all add: distinct_map)
  then have "inj_on pg_Class (set ?ps)" by (auto simp: inj_on_def)
  with \<open>distinct ?ps\<close> have card: "card (pg_Class ` set ?ps) = length ?ps" by (simp only: card_image distinct_card)
  have "card (set ObligationClasses) = length ObligationClasses" by (simp add: ObligationClasses_def class_names)
  moreover have "pg_Class ` set ?ps \<subseteq> set ObligationClasses" using inv by (auto simp: recovery_inv_def)
  ultimately have "pg_Class ` set ?ps = set ObligationClasses" using card len by (intro card_subset_eq) auto
  with cls obtain p where "p \<in> set ?ps" "pg_Class p = cls" by (metis imageE)
  then show ?thesis using all by auto
qed

lemma unsettled_zero:
  assumes "CountUnsettledFindings d runID = 0" and "length (r_findings d) < 2 ^ 64" and "f \<in> set (r_findings d)" and "fi_RunID f = runID"
  shows "Finding_Settled (fi_Status f)"
proof -
  let ?us = "filter (\<lambda>f. fi_RunID f = runID \<and> fi_Status f \<notin> {FindingPresent, FindingResolved, FindingDisposed, FindingOutsideScope}) (r_findings d)"
  have small: "length ?us < 2 ^ 64" using assms(2) length_filter_le [of _ "r_findings d"] by (rule le_less_trans [rotated])
  have "(of_nat (length ?us) :: u64) = 0" using assms(1) by (simp only: CountUnsettledFindings_def)
  then have "2 ^ 64 dvd length ?us" by (simp add: word_of_nat_eq_0_iff)
  moreover have "n = 0" if "2 ^ 64 dvd n" "n < 2 ^ 64" for n :: nat using that by (auto dest: dvd_imp_le)
  ultimately have "length ?us = 0" using small by blast
  then have "?us = []" by simp
  then show ?thesis using assms(3,4) by (auto simp: filter_empty_conv Finding_Settled_def)
qed

lemma step_findings_length: "recovery_step d d' \<Longrightarrow> length (r_findings d) \<le> length (r_findings d')"
proof (induction rule: recovery_step.induct)
  case (start new_id now cmd sc scopeKey ws we skew reason d r d')
  obtain run ex where r: "r = (run, ex)" by (cases r)
  from start [unfolded r] show ?case by (cases rule: Begin_Inr) (auto simp: InsertRecoveryRun_def split: if_splits)
next
  case (page cls new_id now runID progress pg cas d p d')
  from page(2) show ?case by (cases rule: record_page_Inr) simp_all
next
  case (disposed new_id obs_id now cmd req b d x d')
  then have "map finding_key (r_findings d') = map finding_key (r_findings d)" using dispose_commit_Inr by blast
  from arg_cong [OF this, of length] show ?case by simp
next
  case (gate now runID d r d')
  then show ?case by (cases rule: Evaluate_Inr) simp_all
next
  case (started now runID d d')
  then show ?case by (auto simp: Started_def chk_Inr_iff split: if_splits)
qed (auto dest!: settleFinding_Inr restore_Inr)

lemma run_findings_length: "recovery_run d d' \<Longrightarrow> length (r_findings d) \<le> length (r_findings d')"
  by (induction rule: recovery_run.induct) (auto dest: step_findings_length intro: le_trans)

lemma step_opens:
  assumes "recovery_step d d'" and inv: "recovery_inv d" and len: "length (r_findings d) < 2 ^ 64"
    and shut: "IsAdmissionClosed (r_db d) t" and opened: "\<not> IsAdmissionClosed (r_db d') t"
  shows "\<exists>now runID r. Evaluate now runID d = Inr (r, d') \<and> gate_open d runID"
  using assms(1)
proof cases
  case (start new_id now cmd sc scopeKey ws we skew reason r)
  obtain run ex where r: "r = (run, ex)" by (cases r)
  from start [unfolded r] have False
  proof (cases rule: Begin_Inr)
    case (fresh r1 d1 s2 n)
    have "r_db d' = s2" by (simp add: fresh(8))
    then show False using opened closed_upsert [OF shut] fence_each_closures [OF fresh(6)] closed_kept by blast
  qed (use shut opened in simp)
  then show ?thesis ..
next
  case (page cls new_id now runID progress pg cas p)
  from page(2) have False by (cases rule: record_page_Inr) (use shut opened in simp_all)
  then show ?thesis ..
next
  case (gate now runID r)
  from gate show ?thesis
  proof (cases rule: Evaluate_Inr)
    case (reopens locked)
    have "gate_open d runID" unfolding gate_open_def using classes_complete_all [OF inv reopens(2)] unsettled_zero [OF reopens(3) len] by blast
    then show ?thesis using gate by blast
  qed (use shut opened in simp)
next
  case (started now runID)
  then have "r_c d' = r_c d" by (auto simp: Started_def chk_Inr_iff split: if_splits)
  then show ?thesis using shut opened by simp
next
  case (restored cd DigestOf ps cost_id run f ob version now f1)
  then have "db_closures (r_db d') = db_closures (r_db d)" using restore_Inr [OF restored] by auto
  from closed_kept [OF this] show ?thesis using shut opened by simp
next
  case (disposed new_id obs_id now cmd req b x)
  then have "db_closures (r_db d') = db_closures (r_db d)" using dispose_commit_Inr by blast
  from closed_kept [OF this] show ?thesis using shut opened by simp
next
  case (finding now findingID status outcome ref f)
  then have "r_c d' = r_c d" using settleFinding_Inr [OF finding] by auto
  then show ?thesis using shut opened by simp
next
  case rest
  from closed_kept [OF rest(1)] show ?thesis using shut opened by simp
qed

end
