(* ===== verification/Recovery_Properties.thy ===== *)
theory Recovery_Properties
  imports Recovery_Run Control_Scenario
begin

text \<open>
  The properties of the recovery service: the gate that reopens admission and the fence of a new
  run, with a recovery of one operation as their witness.
\<close>

section \<open>A recovery\<close>

text \<open>Bodies that are the records themselves, and times written in unary.\<close>

type_synonym body = "intake_record + launch_record + dispatch_record + effect_obligation"

definition unary_time :: "instant \<Rightarrow> string" where
  "unary_time t = (if t < 0 then CHR ''-'' else CHR ''+'') # replicate (nat (abs t)) (CHR ''i'')"

fun read_unary :: "string \<Rightarrow> instant option" where
  "read_unary [] = None"
| "read_unary (c # cs) = Some (if c = CHR ''-'' then - int (length cs) else int (length cs))"

definition plain_codecs :: "body codecs" where
  "plain_codecs =
     \<lparr>cd_MarshalIntake = Inl, cd_UnmarshalIntake = (\<lambda>b. case b of Inl r \<Rightarrow> Some r | _ \<Rightarrow> None),
      cd_MarshalLaunch = (\<lambda>r. Inr (Inl r)), cd_UnmarshalLaunch = (\<lambda>b. case b of Inr (Inl r) \<Rightarrow> Some r | _ \<Rightarrow> None),
      cd_MarshalDispatch = (\<lambda>r. Inr (Inr (Inl r))), cd_UnmarshalDispatch = (\<lambda>b. case b of Inr (Inr (Inl r)) \<Rightarrow> Some r | _ \<Rightarrow> None),
      cd_MarshalEffect = (\<lambda>r. Inr (Inr (Inr r))), cd_UnmarshalEffect = (\<lambda>b. case b of Inr (Inr (Inr r)) \<Rightarrow> Some r | _ \<Rightarrow> None),
      cd_Format = unary_time, cd_Parse = read_unary\<rparr>"

text \<open>What the code relies on of the encodings: a record and a time read back as written.\<close>

definition reads_back :: "'b codecs \<Rightarrow> bool" where
  "reads_back cd \<longleftrightarrow>
     (\<forall>r. cd_UnmarshalIntake cd (cd_MarshalIntake cd r) = Some r) \<and> (\<forall>r. cd_UnmarshalLaunch cd (cd_MarshalLaunch cd r) = Some r) \<and>
     (\<forall>r. cd_UnmarshalDispatch cd (cd_MarshalDispatch cd r) = Some r) \<and> (\<forall>r. cd_UnmarshalEffect cd (cd_MarshalEffect cd r) = Some r) \<and>
     (\<forall>t. cd_Parse cd (cd_Format cd t) = Some t)"

lemma plain_codecs_read_back: "reads_back plain_codecs"
  by (simp add: reads_back_def plain_codecs_def unary_time_def)

definition operator_scope :: scope where
  "operator_scope = plane_scope\<lparr>sc_Roles := [RoleOperator]\<rparr>"

definition run1 :: recovery_run where
  "run1 = \<lparr>rr_ID = ''rec_1'', rr_ScopeKey = ''t'', rr_TenantID = ''t'', rr_CommandID = ''r1'', rr_ActorID = ''a'', rr_RequestDigest = sample_digest,
     rr_RecoveryEpoch = 2, rr_Phase = RecoveryFenced, rr_WindowStart = 0, rr_WindowEnd = 100000, rr_Skew = 1000, rr_Reason = ''restored'',
     rr_FencedCount = 0, rr_CreatedAt = 5, rr_UpdatedAt = 5, rr_ReopenedAt = None\<rparr>"

definition running_op :: operation where
  "running_op = plane_op LifecycleRunning ''attempt_open'' ControlNone CleanupNotRequired RelayStarted 3 2"

definition recover0 :: rdb where
  "recover0 = \<lparr>r_c = plane0\<lparr>c_db := (c_db plane0)\<lparr>db_operations := [running_op]\<rparr>\<rparr>, r_runs = [], r_progress = [], r_findings = [],
     r_dispositions = [], r_epochs = 1\<rparr>"

text \<open>The run under way, with its classes enumerated or not.\<close>

definition recovering :: "recovery_phase \<Rightarrow> bool \<Rightarrow> recovery_finding list \<Rightarrow> rdb" where
  "recovering phase complete fs =
     recover0\<lparr>r_c := plane0\<lparr>c_db := (c_db plane0)\<lparr>db_closures := [\<lparr>cl_ScopeKey = ''t'', cl_RunID = ''rec_1'', cl_ClosedAt = 5, cl_ReopenedAt = None\<rparr>]\<rparr>\<rparr>,
       r_runs := [run1\<lparr>rr_Phase := phase\<rparr>],
       r_progress := map (\<lambda>cls. \<lparr>pg_RunID = ''rec_1'', pg_Class = cls, pg_Cursor = [], pg_Complete = complete, pg_Seen = 0\<rparr>) ObligationClasses, r_findings := fs\<rparr>"

definition sample_finding :: "string \<Rightarrow> string \<Rightarrow> finding_status \<Rightarrow> recovery_finding" where
  "sample_finding cls i st =
     \<lparr>fi_ID = ''f_'' @ i, fi_RunID = ''rec_1'', fi_Class = cls, fi_ObligationID = i, fi_TenantID = ''t'', fi_InventoryKey = cls @ ''/'' @ i,
      fi_InventoryVersion = ''v'', fi_RecordedAt = 7, fi_Status = st, fi_Outcome = [], fi_EvidenceRef = [], fi_CreatedAt = 6, fi_UpdatedAt = 6, fi_LaunchKey = []\<rparr>"

text \<open>The inventory of one operation, with everything else empty.\<close>

definition intake_object :: inventory_object where
  "intake_object = \<lparr>io_Key = ''intake/op_9'', io_Version = ''v'', io_ModifiedAt = 20\<rparr>"

definition lost_operation :: operation where
  "lost_operation = running_op\<lparr>op_ID := ''op_9'', op_CreatedAt := 7\<rparr>"

definition small_inventory :: "body inventory" where
  "small_inventory = \<lparr>in_List = (\<lambda>prefix cursor. Inr \<lparr>ip_Objects = (if prefix = ''intake/'' then [intake_object] else []), ip_NextCursor = [], ip_Complete = True\<rparr>),
     in_Get = (\<lambda>key. if key = ''intake/op_9'' then Inr (snd (intakeObligation plain_codecs lost_operation), ''v'') else Inl ErrNotFound)\<rparr>"

section \<open>The gate\<close>

text \<open>C5: Admission reopens only through the gate. Take any run of the recovery service interleaved with every other
  transaction of the program. If the admission of a tenant is closed at its start and open at its end, then on the way the
  gate of some recovery run was evaluated in a database in which each of the five obligation classes was enumerated to
  its end for that run and every finding of the run was settled.\<close>

theorem recovery_gate:
  assumes "recovery_run d d'" and "recovery_inv d" and "length (r_findings d') < 2 ^ 64"
    and "IsAdmissionClosed (r_db d) t" and "\<not> IsAdmissionClosed (r_db d') t"
  shows "\<exists>d1 d2 now runID r. recovery_run d d1 \<and> Evaluate now runID d1 = Inr (r, d2) \<and> recovery_run d2 d' \<and>
    (\<forall>cls \<in> set ObligationClasses. \<exists>p \<in> set (r_progress d1). pg_RunID p = runID \<and> pg_Class p = cls \<and> pg_Complete p) \<and>
    (\<forall>f \<in> set (r_findings d1). fi_RunID f = runID \<longrightarrow> Finding_Settled (fi_Status f))"
proof -
  have "\<exists>d1 d2 now runID r. recovery_run d d1 \<and> Evaluate now runID d1 = Inr (r, d2) \<and> recovery_run d2 d' \<and> gate_open d1 runID"
    using assms
  proof (induction rule: recovery_run.induct)
    case (idle d)
    then show ?case by simp
  next
    case (tick d d1 d2)
    have len: "length (r_findings d1) < 2 ^ 64" using step_findings_length [OF tick.hyps(2)] tick.prems(2) by linarith
    show ?case
    proof (cases "IsAdmissionClosed (r_db d1) t")
      case True
      from step_opens [OF tick.hyps(2) recovery_inv_run [OF tick.hyps(1) tick.prems(1)] len True tick.prems(4)] tick.hyps(1) recovery_run.idle
      show ?thesis by blast
    next
      case False
      from tick.IH [OF tick.prems(1) len tick.prems(3) False] tick.hyps(2) recovery_run.tick show ?thesis by blast
    qed
  qed
  then show ?thesis unfolding gate_open_def by blast
qed

definition gate_ready :: rdb where
  "gate_ready = recovering RecoveryReconciling True [sample_finding ClassIntake ''op_9'' FindingResolved]"

lemma gate_ready_inv: "recovery_inv gate_ready"
  by (simp add: recovery_inv_def gate_ready_def recovering_def sample_finding_def ObligationClasses_def class_names)

theorem recovery_gate_witness:
  "IsAdmissionClosed (r_db gate_ready) ''t'' \<and> (\<exists>d'. recovery_run gate_ready d' \<and> \<not> IsAdmissionClosed (r_db d') ''t'' \<and>
     (\<exists>d1 d2 now runID r. recovery_run gate_ready d1 \<and> Evaluate now runID d1 = Inr (r, d2) \<and> recovery_run d2 d'))"
proof -
  have "(case Evaluate 9 ''rec_1'' gate_ready of Inl _ \<Rightarrow> False | Inr (_, d') \<Rightarrow> \<not> IsAdmissionClosed (r_db d') ''t'' \<and> length (r_findings d') = 1)"
    by code_simp
  then obtain r d' where E: "Evaluate 9 ''rec_1'' gate_ready = Inr (r, d')" "\<not> IsAdmissionClosed (r_db d') ''t''" "length (r_findings d') < 2 ^ 64"
    by (auto split: sum.splits)
  have shut: "IsAdmissionClosed (r_db gate_ready) ''t''" by code_simp
  have run: "recovery_run gate_ready d'" by (rule recovery_run.tick [OF recovery_run.idle recovery_step.gate [OF E(1)]])
  from recovery_gate [OF run gate_ready_inv E(3) shut E(2)] run shut E(2) show ?thesis by blast
qed

section \<open>The fence\<close>

definition fenced_at :: "u64 \<Rightarrow> operation \<Rightarrow> bool" where
  "fenced_at epoch ops \<longleftrightarrow> op_Lifecycle ops = LifecycleReconciling \<and> op_RecoveryEpoch ops = epoch"

lemma recovery_fence_row: "op_ID (recovery_fence epoch ops) = op_ID ops \<and> op_TenantID (recovery_fence epoch ops) = op_TenantID ops \<and> fenced_at epoch (recovery_fence epoch ops)"
  by (simp add: recovery_fence_def fenced_at_def cancel_relay_def split: relay_state.splits)

lemma fence_each_rows:
  assumes "fence_each run now os (n, s) = Inr (m, s')" and "distinct (map op_ID (db_operations s))" and "x \<in> set (db_operations s')"
  shows "\<exists>y \<in> set (db_operations s). op_ID y = op_ID x \<and> op_TenantID y = op_TenantID x \<and> (x = y \<or> fenced_at (rr_RecoveryEpoch run) x) \<and>
    (op_ID x \<in> op_ID ` set os \<longrightarrow> Lifecycle_Terminal (op_Lifecycle y) \<and> x = y \<or> fenced_at (rr_RecoveryEpoch run) x)"
  using assms
proof (induction os arbitrary: n s)
  case (Cons z os)
  from Cons.prems(1) obtain ops where l: "lookup_by op_ID (op_ID z) (db_operations s) = Some ops" by (auto simp: LockOperation_def fallible)
  have ops: "ops \<in> set (db_operations s)" "op_ID ops = op_ID z" using lookup_by_SomeD [OF l] by simp_all
  have only: "y = ops" if "y \<in> set (db_operations s)" "op_ID y = op_ID z" for y
    using Cons.prems(2) that ops inj_onD [of op_ID "set (db_operations s)" y ops] by (simp add: distinct_map)
  show ?case
  proof (cases "Lifecycle_Terminal (op_Lifecycle ops)")
    case True
    then have "fence_each run now os (n, s) = Inr (m, s')" using Cons.prems(1) l by (simp add: LockOperation_def)
    from Cons.IH [OF this Cons.prems(2,3)] show ?thesis using only True by auto
  next
    case False
    then obtain e s1 where w: "write_transition ops (''recovery:'' @ rr_ID run @ '':fenced'') now (recovery_fence (rr_RecoveryEpoch run)) id s = Inr (e, s1)"
      "fence_each run now os (n + 1, s1) = Inr (m, s')" using Cons.prems(1) l by (auto simp: LockOperation_def chk_Inr_iff)
    define o1 where "o1 = fst (Transition ops (''recovery:'' @ rr_ID run @ '':fenced'') now (recovery_fence (rr_RecoveryEpoch run)))"
    have rows: "db_operations s1 = update_by op_ID o1 (db_operations s)" unfolding o1_def by (rule write_transition_row [OF w(1)])
    have o1: "op_ID o1 = op_ID z" "op_TenantID o1 = op_TenantID ops" "fenced_at (rr_RecoveryEpoch run) o1"
      using recovery_fence_row [of "rr_RecoveryEpoch run" ops] ops(2) by (simp_all add: o1_def Transition_def Let_def fenced_at_def)
    have "distinct (map op_ID (db_operations s1))" using Cons.prems(2) by (simp add: rows)
    from Cons.IH [OF w(2) this Cons.prems(3)] obtain y where y: "y \<in> set (db_operations s1)" "op_ID y = op_ID x" "op_TenantID y = op_TenantID x"
      "x = y \<or> fenced_at (rr_RecoveryEpoch run) x" "op_ID x \<in> op_ID ` set os \<longrightarrow> Lifecycle_Terminal (op_Lifecycle y) \<and> x = y \<or> fenced_at (rr_RecoveryEpoch run) x"
      by blast
    from set_update_by [OF y(1) [unfolded rows]] show ?thesis
    proof
      assume "y = o1"
      then show ?thesis using y o1 ops by (intro bexI [of _ ops]) auto
    next
      assume "y \<in> set (db_operations s) \<and> op_ID y \<noteq> op_ID o1"
      then show ?thesis using y o1 by (intro bexI [of _ y]) auto
    qed
  qed
qed auto

lemma upsert_closes: "IsAdmissionClosed (UpsertAdmissionClosure s c) (cl_ScopeKey c)"
proof (cases "\<exists>x \<in> set (db_closures s). cl_ScopeKey x = cl_ScopeKey c")
  case True
  then obtain x where x: "x \<in> set (db_closures s)" "cl_ScopeKey x = cl_ScopeKey c" by blast
  then have "x\<lparr>cl_RunID := cl_RunID c, cl_ClosedAt := cl_ClosedAt c, cl_ReopenedAt := None\<rparr> \<in> set (db_closures (UpsertAdmissionClosure s c))"
    by (force simp: UpsertAdmissionClosure_def list_ex_iff)
  then show ?thesis unfolding IsAdmissionClosed_def list_ex_iff using x(2) by (intro bexI) simp_all
qed (auto simp: IsAdmissionClosed_def UpsertAdmissionClosure_def list_ex_iff)

text \<open>C17: A new recovery run stops its scope at once. When \<open>Begin\<close> records a new run, the caller held the operator role
  (the platform's for every tenant); admission of the scope is closed; and in the same commit every operation of the
  scope that is not terminal is reconciling under the run's new recovery epoch, so it is fenced for every new dispatch.\<close>

theorem begin_fences:
  assumes "Begin new_id now cmd sc scopeKey ws we skew reason d = Inr ((run, False), d')" and "distinct (map op_ID (db_operations (r_db d)))"
  shows "(if scopeKey = ScopeAll then HasRole sc RolePlatformOperator else HasRole sc RoleOperator \<or> HasRole sc RolePlatformOperator) \<and>
    rr_RecoveryEpoch run = r_epochs d + 1 \<and> (\<forall>t. scopeKey = ScopeAll \<or> scopeKey = t \<longrightarrow> IsAdmissionClosed (r_db d') t) \<and>
    (\<forall>ops \<in> set (db_operations (r_db d')). (scopeKey = ScopeAll \<or> op_TenantID ops = scopeKey) \<and> \<not> Lifecycle_Terminal (op_Lifecycle ops) \<longrightarrow>
       op_Lifecycle ops = LifecycleReconciling \<and> op_RecoveryEpoch ops = rr_RecoveryEpoch run \<and> FencedForNewDispatch ops)"
  using assms(1)
proof (cases rule: Begin_Inr)
  case (fresh r d1 s2 n)
  define c where "c = \<lparr>cl_ScopeKey = scopeKey, cl_RunID = rr_ID r, cl_ClosedAt = now, cl_ReopenedAt = None\<rparr>"
  have r: "rr_RecoveryEpoch r = r_epochs d + 1" using fresh(3) by (auto simp: NewRecoveryRun_def Let_def split: if_splits)
  have db: "r_db d' = s2" by (simp add: fresh(8))
  have shut: "IsAdmissionClosed s2 scopeKey"
    using upsert_closes [of "r_db d" c] closed_kept [OF fence_each_closures [OF fresh(6)], of scopeKey] by (simp add: c_def)
  have "IsAdmissionClosed s2 t" if "scopeKey = ScopeAll \<or> scopeKey = t" for t
    using shut that by (auto simp: IsAdmissionClosed_def list_ex_iff)
  moreover have "fenced_at (rr_RecoveryEpoch r) x" if x: "x \<in> set (db_operations s2)" "scopeKey = ScopeAll \<or> op_TenantID x = scopeKey"
      "\<not> Lifecycle_Terminal (op_Lifecycle x)" for x
  proof -
    have "db_operations (UpsertAdmissionClosure (r_db d) c) = db_operations (r_db d)" by (simp add: UpsertAdmissionClosure_def)
    from fence_each_rows [OF fresh(6) [folded c_def], unfolded this, OF assms(2) x(1)] obtain y where
      y: "y \<in> set (db_operations (r_db d))" "op_ID y = op_ID x" "op_TenantID y = op_TenantID x" "x = y \<or> fenced_at (rr_RecoveryEpoch r) x"
        "op_ID x \<in> op_ID ` set (ListActiveOperations (r_db d) scopeKey) \<longrightarrow> Lifecycle_Terminal (op_Lifecycle y) \<and> x = y \<or> fenced_at (rr_RecoveryEpoch r) x"
      by blast
    show ?thesis
    proof (rule ccontr)
      assume no: "\<not> fenced_at (rr_RecoveryEpoch r) x"
      then have "x = y" using y(4) by blast
      then have "x \<in> set (ListActiveOperations (r_db d) scopeKey)" using y(1) x(2,3)
        by (cases "op_Lifecycle x") (auto simp: ListActiveOperations_def Lifecycle_Terminal_def)
      then show False using y(5) no x(3) \<open>x = y\<close> by blast
    qed
  qed
  moreover have "if scopeKey = ScopeAll then HasRole sc RolePlatformOperator else HasRole sc RoleOperator \<or> HasRole sc RolePlatformOperator"
    using fresh(2) by (auto simp: operator_def split: if_splits)
  ultimately show ?thesis using r by (simp add: db fresh(7) fenced_at_def FencedForNewDispatch_def)
qed simp

lemma begin_steps:
  "operator operator_scope (plane_cmd ''r1'') ''t'' = None" "GetRecoveryRunByCommand recover0 ''t'' ''r1'' = None" "\<not> IsAdmissionClosed (r_db recover0) ''t''"
  "NewRecoveryRun ''rec_1'' (plane_cmd ''r1'') ''t'' 2 0 100000 1000 ''restored'' 5 = Inr run1"
  "NextRecoveryEpoch recover0 = Inr (2, recover0\<lparr>r_epochs := 2\<rparr>)"
  "InsertRecoveryRun (recover0\<lparr>r_epochs := 2\<rparr>) run1 = Inr (recover0\<lparr>r_epochs := 2, r_runs := [run1]\<rparr>)"
  by code_simp+

lemma begin_fences_one:
  "\<not> isl (fence_each run1 5 (ListActiveOperations (UpsertAdmissionClosure (r_db recover0)
      \<lparr>cl_ScopeKey = ''t'', cl_RunID = ''rec_1'', cl_ClosedAt = 5, cl_ReopenedAt = None\<rparr>) ''t'')
    (0, UpsertAdmissionClosure (r_db recover0) \<lparr>cl_ScopeKey = ''t'', cl_RunID = ''rec_1'', cl_ClosedAt = 5, cl_ReopenedAt = None\<rparr>))"
  by code_simp

lemma begin_call: "\<exists>run d'. Begin ''rec_1'' 5 (plane_cmd ''r1'') operator_scope ''t'' 0 100000 1000 ''restored'' recover0 = Inr ((run, False), d')"
proof -
  obtain n s2 where "fence_each run1 5 (ListActiveOperations (UpsertAdmissionClosure (r_db recover0)
      \<lparr>cl_ScopeKey = ''t'', cl_RunID = ''rec_1'', cl_ClosedAt = 5, cl_ReopenedAt = None\<rparr>) ''t'')
    (0, UpsertAdmissionClosure (r_db recover0) \<lparr>cl_ScopeKey = ''t'', cl_RunID = ''rec_1'', cl_ClosedAt = 5, cl_ReopenedAt = None\<rparr>) = Inr (n, s2)"
    using begin_fences_one by (metis isl_def obj_sumE old.prod.exhaust)
  moreover have "rr_ID run1 = ''rec_1''" "cmd_TenantID (plane_cmd ''r1'') = ''t''" "cmd_CommandID (plane_cmd ''r1'') = ''r1''"
    by (simp_all add: run1_def plane_cmd_def)
  ultimately show ?thesis unfolding Begin_def Let_def using begin_steps by simp
qed

theorem begin_fences_witness:
  "\<exists>run d'. Begin ''rec_1'' 5 (plane_cmd ''r1'') operator_scope ''t'' 0 100000 1000 ''restored'' recover0 = Inr ((run, False), d') \<and>
     IsAdmissionClosed (r_db d') ''t''"
proof -
  from begin_call obtain run d' where b: "Begin ''rec_1'' 5 (plane_cmd ''r1'') operator_scope ''t'' 0 100000 1000 ''restored'' recover0 = Inr ((run, False), d')"
    by blast
  have "distinct (map op_ID (db_operations (r_db recover0)))" by (simp add: recover0_def)
  from begin_fences [OF b this] b show ?thesis by blast
qed

end
