(* ===== verification/Recovery_Findings.thy ===== *)
theory Recovery_Findings
  imports Recovery_Properties
begin

text \<open>
  The findings of a recovery run: every covered object of a listing leaves one, and a caller that walks
  the pages of the listing of findings reaches each of them once.
\<close>

section \<open>Enumeration\<close>

lemma gather_mem:
  assumes "gather cd iv run os = Inr cas" and "x \<in> set os"
  obtains body version where "in_Get iv (io_Key x) = Inr (body, version)"
    "(case DecodeObligation cd (io_Key x) body of
        Inl e \<Rightarrow> e \<noteq> ErrInvalid \<and> Covers run (io_ModifiedAt x)
      | Inr ob \<Rightarrow> (Covers run (ob_RecordedAt ob) \<or> Covers run (io_ModifiedAt x)) \<and> Run_InScope run (ob_TenantID ob)) \<Longrightarrow>
     \<exists>ca \<in> set cas. io_Key (ca_object ca) = io_Key x"
  using assms
proof (induction os arbitrary: cas thesis)
  case (Cons y os)
  from Cons.prems(2) obtain body version where get: "in_Get iv (io_Key y) = Inr (body, version)"
    by (auto split: sum.splits)
  define y1 where "y1 = (if version \<noteq> [] then y\<lparr>io_Version := version\<rparr> else y)"
  have y1: "io_Key y1 = io_Key y" "io_ModifiedAt y1 = io_ModifiedAt y" by (simp_all add: y1_def)
  note step = Cons.prems(2) [unfolded gather.simps get sum.case prod.case Let_def, folded y1_def, unfolded y1]
  have sub: "\<exists>cs. gather cd iv run os = Inr cs \<and> set cs \<subseteq> set cas"
    using step by (auto simp: chk_Inr_iff split: sum.splits if_splits)
  then obtain cs where cs: "gather cd iv run os = Inr cs" "set cs \<subseteq> set cas" by blast
  show ?case
  proof (cases "x \<in> set os")
    case True
    show ?thesis
    proof (rule Cons.IH [OF _ cs(1) True])
      fix body version
      let ?due = "case DecodeObligation cd (io_Key x) body of
          Inl e \<Rightarrow> e \<noteq> ErrInvalid \<and> Covers run (io_ModifiedAt x)
        | Inr ob \<Rightarrow> (Covers run (ob_RecordedAt ob) \<or> Covers run (io_ModifiedAt x)) \<and> Run_InScope run (ob_TenantID ob)"
      assume g: "in_Get iv (io_Key x) = Inr (body, version)" and due: "?due \<Longrightarrow> \<exists>ca \<in> set cs. io_Key (ca_object ca) = io_Key x"
      show thesis by (rule Cons.prems(1) [OF g]) (drule due, use cs(2) in blast)
    qed
  next
    case False
    then have x: "x = y" using Cons.prems(3) by simp
    show ?thesis
    proof (rule Cons.prems(1) [OF get [folded x]])
      assume "case DecodeObligation cd (io_Key x) body of
          Inl e \<Rightarrow> e \<noteq> ErrInvalid \<and> Covers run (io_ModifiedAt x)
        | Inr ob \<Rightarrow> (Covers run (ob_RecordedAt ob) \<or> Covers run (io_ModifiedAt x)) \<and> Run_InScope run (ob_TenantID ob)"
      then show "\<exists>ca \<in> set cas. io_Key (ca_object ca) = io_Key x"
        using step y1 by (auto simp: x chk_Inr_iff split: sum.splits if_splits)
    qed
  qed
qed simp

lemma DecodeObligation_key: "DecodeObligation cd key body \<noteq> Inl ErrInvalid \<Longrightarrow> \<exists>cls i. ParseObligationKey key = Some (cls, i)"
  by (cases "ParseObligationKey key") (auto simp: DecodeObligation_def)

text \<open>C18: Enumeration forgets nothing. When a page of a class is recorded, every object the inventory listed on it was
  read; an object that decodes as an obligation, lies in the widened window by either of its times and belongs to the
  run's scope has a finding, and so has an object of the window that does not decode as its class. The findings recorded
  before are still there, and the class counts as enumerated only when the inventory said the page is the last.\<close>

theorem enumeration_complete:
  assumes "Enumerate cd iv new_id now runID cls d = Inr (p, d')" and "GetRecoveryRun d runID = Inr run"
    and "GetRecoveryProgress d runID cls = Inr prog" and "\<not> pg_Complete prog"
  shows "\<exists>page. in_List iv (cls @ ''/'') (pg_Cursor prog) = Inr page \<and> pg_Complete p = ip_Complete page \<and> pg_Cursor p = ip_NextCursor page \<and>
    GetRecoveryProgress d' runID cls = Inr p \<and> (\<exists>fs. r_findings d' = r_findings d @ fs) \<and>
    (\<forall>x \<in> set (ip_Objects page). \<exists>body version. in_Get iv (io_Key x) = Inr (body, version) \<and>
       ((case DecodeObligation cd (io_Key x) body of
           Inl e \<Rightarrow> e \<noteq> ErrInvalid \<and> Covers run (io_ModifiedAt x)
         | Inr ob \<Rightarrow> (Covers run (ob_RecordedAt ob) \<or> Covers run (io_ModifiedAt x)) \<and> Run_InScope run (ob_TenantID ob)) \<longrightarrow>
        (\<exists>f \<in> set (r_findings d'). \<exists>c. fi_RunID f = runID \<and> fi_Class f = cls \<and> ParseObligationKey (io_Key x) = Some (c, fi_ObligationID f))))"
proof -
  from assms obtain page cas where page: "in_List iv (cls @ ''/'') (pg_Cursor prog) = Inr page" and cas: "gather cd iv run (ip_Objects page) = Inr cas"
    and tx: "record_page new_id now runID cls prog page cas d = Inr (p, d')"
    by (auto simp: Enumerate_def chk_Inr_iff chk_err_Inr_iff split: if_splits sum.splits)
  from tx show ?thesis
  proof (cases rule: record_page_Inr)
    case stale
    then show ?thesis using assms(3,4) by simp
  next
    case (recorded current fs)
    have cur: "current = prog" using recorded(1) assms(3) by simp
    have row: "lookup_by progress_key (runID, cls) (r_progress d) = Some prog" using assms(3) by (simp add: GetRecoveryProgress_def found_Inr_iff)
    have key: "progress_key p = (runID, cls)" using recorded(4) cur lookup_by_SomeD [OF row] by simp
    have get: "GetRecoveryProgress d' runID cls = Inr p"
      using lookup_update_same [OF row key] recorded(11) by (simp add: GetRecoveryProgress_def)
    have "\<exists>body version. in_Get iv (io_Key x) = Inr (body, version) \<and>
       ((case DecodeObligation cd (io_Key x) body of
           Inl e \<Rightarrow> e \<noteq> ErrInvalid \<and> Covers run (io_ModifiedAt x)
         | Inr ob \<Rightarrow> (Covers run (ob_RecordedAt ob) \<or> Covers run (io_ModifiedAt x)) \<and> Run_InScope run (ob_TenantID ob)) \<longrightarrow>
        (\<exists>f \<in> set (r_findings d'). \<exists>c. fi_RunID f = runID \<and> fi_Class f = cls \<and> ParseObligationKey (io_Key x) = Some (c, fi_ObligationID f)))"
      if x: "x \<in> set (ip_Objects page)" for x
    proof (rule gather_mem [OF cas x])
      fix body version
      let ?due = "case DecodeObligation cd (io_Key x) body of
           Inl e \<Rightarrow> e \<noteq> ErrInvalid \<and> Covers run (io_ModifiedAt x)
         | Inr ob \<Rightarrow> (Covers run (ob_RecordedAt ob) \<or> Covers run (io_ModifiedAt x)) \<and> Run_InScope run (ob_TenantID ob)"
      assume g: "in_Get iv (io_Key x) = Inr (body, version)" and ca: "?due \<Longrightarrow> \<exists>ca \<in> set cas. io_Key (ca_object ca) = io_Key x"
      have "\<exists>f \<in> set (r_findings d'). \<exists>c. fi_RunID f = runID \<and> fi_Class f = cls \<and> ParseObligationKey (io_Key x) = Some (c, fi_ObligationID f)" if due: ?due
      proof -
        have "DecodeObligation cd (io_Key x) body \<noteq> Inl ErrInvalid" using due by (auto split: sum.splits)
        from DecodeObligation_key [OF this] obtain c i where k: "ParseObligationKey (io_Key x) = Some (c, i)" by blast
        from ca [OF due] obtain a where a: "a \<in> set cas" "io_Key (ca_object a) = io_Key x" by blast
        then have "candidate_id a = i" using k by (simp add: candidate_id_def)
        then have "(runID, cls, i) \<in> finding_key ` set (r_findings d')" using recorded(14) a(1) by blast
        then show ?thesis using k by force
      qed
      then show ?thesis using g by blast
    qed
    then show ?thesis using page recorded(6,12,13) get by blast
  qed
qed

definition enumerating :: rdb where
  "enumerating = recovering RecoveryEnumerating False []"

lemma enumerate_steps:
  "GetRecoveryRun enumerating ''rec_1'' = Inr (run1\<lparr>rr_Phase := RecoveryEnumerating\<rparr>)"
  "GetRecoveryProgress enumerating ''rec_1'' ClassIntake =
     Inr \<lparr>pg_RunID = ''rec_1'', pg_Class = ClassIntake, pg_Cursor = [], pg_Complete = False, pg_Seen = 0\<rparr>"
  by (simp_all add: enumerating_def recovering_def GetRecoveryRun_def GetRecoveryProgress_def run1_def ObligationClasses_def class_names)

theorem enumeration_complete_witness:
  "(case Enumerate plain_codecs small_inventory (\<lambda>k. ''f_1'') 6 ''rec_1'' ClassIntake enumerating of
      Inl _ \<Rightarrow> False | Inr (p, d') \<Rightarrow> pg_Complete p \<and> GetRecoveryProgress d' ''rec_1'' ClassIntake = Inr p)"
proof -
  have "(case Enumerate plain_codecs small_inventory (\<lambda>k. ''f_1'') 6 ''rec_1'' ClassIntake enumerating of
      Inl _ \<Rightarrow> False | Inr (p, d') \<Rightarrow> pg_Complete p)"
    by code_simp
  then obtain p d' where w: "Enumerate plain_codecs small_inventory (\<lambda>k. ''f_1'') 6 ''rec_1'' ClassIntake enumerating = Inr (p, d')" "pg_Complete p"
    by (auto split: sum.splits)
  from enumeration_complete [OF w(1) enumerate_steps] have "GetRecoveryProgress d' ''rec_1'' ClassIntake = Inr p" by auto
  then show ?thesis by (simp add: w)
qed

section \<open>Walking the findings\<close>

text \<open>A caller that asks for page after page from the cursor of the last; the fuel bounds the number of calls.\<close>

fun walk_findings ::
  "(string \<Rightarrow> 'k :: linorder) \<Rightarrow> string \<Rightarrow> finding_status option \<Rightarrow> int \<Rightarrow> rdb \<Rightarrow> nat \<Rightarrow> string \<Rightarrow> (err + recovery_finding list) option" where
  "walk_findings coll runID status limit d 0 cursor = None"
| "walk_findings coll runID status limit d (Suc fuel) cursor =
     (case Findings coll runID status cursor limit d of
        Inl e \<Rightarrow> Some (Inl e)
      | Inr (page, nextCursor, complete) \<Rightarrow>
          if complete then Some (Inr page)
          else map_option (map_sum id (\<lambda>rest. page @ rest)) (walk_findings coll runID status limit d fuel nextCursor))"

definition finding_rank :: "(string \<Rightarrow> 'k :: linorder) \<Rightarrow> recovery_finding \<Rightarrow> 'k \<times> 'k" where
  "finding_rank coll f = (coll (fi_Class f), coll (fi_ObligationID f))"

definition all_findings :: "(string \<Rightarrow> 'k :: linorder) \<Rightarrow> string \<Rightarrow> finding_status option \<Rightarrow> rdb \<Rightarrow> recovery_finding list" where
  "all_findings coll runID status d =
     sort_key (finding_rank coll) (filter (\<lambda>f. fi_RunID f = runID \<and> (status = None \<or> Some (fi_Status f) = status)) (r_findings d))"

lemma ListFindings_suffix:
  "ListFindings coll d runID status c i limit = take limit (filter (\<lambda>f. (coll c, coll i) < finding_rank coll f) (all_findings coll runID status d))"
  by (simp add: ListFindings_def all_findings_def filter_sort finding_rank_def [abs_def] conj_ac)

lemma filter_beyond:
  fixes h :: "'a \<Rightarrow> 'b :: order"
  assumes "sorted_wrt (<) (map h (xs @ x # ys))"
  shows "filter (\<lambda>y. h x < h y) (xs @ x # ys) = ys"
proof -
  have "filter (\<lambda>y. h x < h y) xs = []" using assms by (auto simp: sorted_wrt_append filter_empty_conv dest: less_asym)
  moreover have "filter (\<lambda>y. h x < h y) ys = ys" using assms by (auto simp: sorted_wrt_append filter_id_conv)
  ultimately show ?thesis by simp
qed

text \<open>The collations of the database: texts are equal exactly when their ranks are, and the empty text comes first.\<close>

definition collation :: "(string \<Rightarrow> 'k :: linorder) \<Rightarrow> bool" where
  "collation coll \<longleftrightarrow> inj coll \<and> (\<forall>s. s \<noteq> [] \<longrightarrow> coll [] < coll s)"

lemma all_findings_strict:
  assumes "recovery_inv d" and "collation coll"
  shows "sorted_wrt (<) (map (finding_rank coll) (all_findings coll runID status d))"
proof -
  let ?fs = "filter (\<lambda>f. fi_RunID f = runID \<and> (status = None \<or> Some (fi_Status f) = status)) (r_findings d)"
  have "distinct (map finding_key ?fs)" using assms(1) by (simp add: recovery_inv_def distinct_map_filter)
  then have inj: "inj_on finding_key (set ?fs)" "distinct ?fs" by (simp_all add: distinct_map)
  have "inj_on (finding_rank coll) (set ?fs)"
  proof (rule inj_onI)
    fix f g assume fg: "f \<in> set ?fs" "g \<in> set ?fs" "finding_rank coll f = finding_rank coll g"
    then have "fi_Class f = fi_Class g" "fi_ObligationID f = fi_ObligationID g" "fi_RunID f = fi_RunID g"
      using assms(2) by (auto simp: finding_rank_def collation_def dest: injD)
    then show "f = g" using inj_onD [OF inj(1) _ fg(1,2)] by simp
  qed
  then have "distinct (map (finding_rank coll) (all_findings coll runID status d))" using inj(2) by (simp add: all_findings_def distinct_map)
  moreover have "sorted (map (finding_rank coll) (all_findings coll runID status d))" by (simp add: all_findings_def)
  ultimately show ?thesis by (simp add: strict_sorted_iff)
qed

text \<open>A call from the cursor of the first \<open>k\<close> findings answers the next ones.\<close>

definition cursor_after :: "nat \<Rightarrow> recovery_finding list \<Rightarrow> string" where
  "cursor_after k fs = (if k = 0 then [] else FindingCursor (fs ! (k - 1)))"

lemma Findings_after:
  assumes inv: "recovery_inv d" and coll: "collation coll" and run: "GetRecoveryRun d runID = Inr run"
    and L: "fs = all_findings coll runID status d" and k: "k \<le> length fs"
  shows "Findings coll runID status (cursor_after k fs) limit d =
    Inr (map (with_launch_key (r_db d)) (take (page_limit limit) (drop k fs)),
         (if length fs - k \<le> page_limit limit then [] else cursor_after (k + page_limit limit) fs), length fs - k \<le> page_limit limit)"
proof -
  have lim: "page_limit limit > 0" by (simp add: page_limit_def)
  have strict: "sorted_wrt (<) (map (finding_rank coll) fs)" unfolding L by (rule all_findings_strict [OF inv coll])
  have classes: "fi_Class f \<in> set ObligationClasses" if "f \<in> set fs" for f
    using that inv by (auto simp: L all_findings_def recovery_inv_def)
  define p where "p = (case Cut (CHR ''/'') (cursor_after k fs) of None \<Rightarrow> (cursor_after k fs, []) | Some p \<Rightarrow> p)"
  have p: "\<not> (cursor_after k fs \<noteq> [] \<and> Cut (CHR ''/'') (cursor_after k fs) = None)"
    "filter (\<lambda>f. (coll (fst p), coll (snd p)) < finding_rank coll f) fs = drop k fs"
  proof -
    have "\<not> (cursor_after k fs \<noteq> [] \<and> Cut (CHR ''/'') (cursor_after k fs) = None) \<and>
      filter (\<lambda>f. (coll (fst p), coll (snd p)) < finding_rank coll f) fs = drop k fs"
    proof (cases k)
      case 0
      have "coll [] < coll (fi_Class f)" if "f \<in> set fs" for f
        using classes [OF that] coll by (auto simp: collation_def ObligationClasses_def class_names)
      then have "filter (\<lambda>f. (coll [], coll []) < finding_rank coll f) fs = fs" by (auto simp: filter_id_conv finding_rank_def)
      then show ?thesis by (simp add: 0 p_def cursor_after_def)
    next
      case (Suc j)
      then have j: "j < length fs" using k by simp
      have "CHR ''/'' \<notin> set (fi_Class (fs ! j))" using slash_class classes [OF nth_mem [OF j]] by blast
      from Cut_join [OF this] have cut: "Cut (CHR ''/'') (cursor_after k fs) = Some (fi_Class (fs ! j), fi_ObligationID (fs ! j))"
        by (simp add: Suc cursor_after_def FindingCursor_def)
      have "filter (\<lambda>f. finding_rank coll (fs ! j) < finding_rank coll f) fs = drop k fs"
        using filter_beyond [of "finding_rank coll" "take j fs" "fs ! j" "drop (Suc j) fs"] strict j by (simp add: Suc flip: id_take_nth_drop)
      then show ?thesis using cut by (simp add: p_def finding_rank_def)
    qed
    then show "\<not> (cursor_after k fs \<noteq> [] \<and> Cut (CHR ''/'') (cursor_after k fs) = None)"
      "filter (\<lambda>f. (coll (fst p), coll (snd p)) < finding_rank coll f) fs = drop k fs" by blast+
  qed
  define out where "out = take (page_limit limit + 1) (drop k fs)"
  have out: "ListFindings coll d runID status (fst p) (snd p) (page_limit limit + 1) = out"
    by (simp only: ListFindings_suffix L [symmetric] p(2) out_def)
  have len: "(length out \<le> page_limit limit) = (length fs - k \<le> page_limit limit)" by (auto simp: out_def)
  have page: "length out \<le> page_limit limit \<Longrightarrow> out = take (page_limit limit) (drop k fs)" "take (page_limit limit) out = take (page_limit limit) (drop k fs)"
    by (auto simp: out_def)
  have last: "FindingCursor (last (take (page_limit limit) (drop k fs))) = cursor_after (k + page_limit limit) fs" if "\<not> length fs - k \<le> page_limit limit"
  proof -
    have "last (take (page_limit limit) (drop k fs)) = fs ! (k + page_limit limit - 1)"
      using that lim k by (simp add: last_conv_nth Nat.add_diff_assoc)
    then show ?thesis using lim by (simp add: cursor_after_def)
  qed
  have "Findings coll runID status (cursor_after k fs) limit d =
    Inr (map (with_launch_key (r_db d)) (take (page_limit limit) (drop k fs)),
      (if length out \<le> page_limit limit then [] else FindingCursor (last (take (page_limit limit) (drop k fs)))), length out \<le> page_limit limit)"
    using p(1) run page by (simp add: Findings_def Let_def p_def [symmetric] out [simplified] split_beta)
  then show ?thesis using len last by simp
qed

lemma walk_from:
  assumes inv: "recovery_inv d" and coll: "collation coll" and run: "GetRecoveryRun d runID = Inr run"
    and L: "fs = all_findings coll runID status d" and k: "k \<le> length fs" and fuel: "length fs - k < fuel"
  shows "walk_findings coll runID status limit d fuel (cursor_after k fs) = Some (Inr (map (with_launch_key (r_db d)) (drop k fs)))"
  using k fuel
proof (induction fuel arbitrary: k)
  case (Suc fuel)
  have lim: "page_limit limit > 0" by (simp add: page_limit_def)
  note page = Findings_after [OF inv coll run L Suc.prems(1), of limit]
  show ?case
  proof (cases "length fs - k \<le> page_limit limit")
    case True
    then show ?thesis by (simp add: page)
  next
    case False
    then have "walk_findings coll runID status limit d fuel (cursor_after (k + page_limit limit) fs) =
        Some (Inr (map (with_launch_key (r_db d)) (drop (k + page_limit limit) fs)))"
      using Suc.IH [of "k + page_limit limit"] Suc.prems lim by auto
    then show ?thesis using False append_take_drop_id [of "page_limit limit" "drop k fs"]
      by (simp add: page add.commute flip: map_append)
  qed
qed simp

text \<open>C19: Walking the pages ends and misses nothing. A caller that asks for findings page after page, each time from the
  cursor of the page before, is done after at most one call more than the run has findings, whatever page size it asks
  for; the pages together are exactly the run's findings of the status asked for, each once, in the order of class and
  obligation, with the launch keys filled in. The database's collation is any order that tells texts apart and puts the
  empty text first.\<close>

theorem findings_walk_ends:
  assumes "recovery_inv d" and "collation coll" and "GetRecoveryRun d runID = Inr run" and "length (r_findings d) < fuel"
  shows "\<exists>fs. walk_findings coll runID status limit d fuel [] = Some (Inr (map (with_launch_key (r_db d)) fs)) \<and> distinct fs \<and>
    set fs = {f \<in> set (r_findings d). fi_RunID f = runID \<and> (status = None \<or> Some (fi_Status f) = status)} \<and>
    sorted_wrt (<) (map (\<lambda>f. (coll (fi_Class f), coll (fi_ObligationID f))) fs)"
proof -
  define fs where "fs = all_findings coll runID status d"
  have strict: "sorted_wrt (<) (map (finding_rank coll) fs)" unfolding fs_def by (rule all_findings_strict [OF assms(1,2)])
  have "length fs \<le> length (r_findings d)" by (simp add: fs_def all_findings_def)
  then have "walk_findings coll runID status limit d fuel (cursor_after 0 fs) = Some (Inr (map (with_launch_key (r_db d)) (drop 0 fs)))"
    using assms(4) by (intro walk_from [OF assms(1-3) fs_def]) simp_all
  moreover have "distinct fs" using strict by (auto simp: strict_sorted_iff distinct_map)
  moreover have "set fs = {f \<in> set (r_findings d). fi_RunID f = runID \<and> (status = None \<or> Some (fi_Status f) = status)}"
    by (auto simp: fs_def all_findings_def)
  ultimately show ?thesis using strict by (intro exI [of _ fs]) (simp add: cursor_after_def finding_rank_def [abs_def])
qed

definition found_three :: rdb where
  "found_three = recovering RecoveryReconciling True
     [sample_finding ClassToolDispatch ''d1'' FindingUnresolved, sample_finding ClassIntake ''op_9'' FindingResolved, sample_finding ClassIntake ''op_8'' FindingMissing]"

theorem findings_walk_ends_witness:
  "\<exists>fs. walk_findings (\<lambda>s. s) ''rec_1'' None 1 found_three 4 [] = Some (Inr fs) \<and> length fs = 3"
proof -
  have inv: "recovery_inv found_three" by (simp add: recovery_inv_def found_three_def recovering_def sample_finding_def ObligationClasses_def class_names)
  have coll: "collation (\<lambda>s :: string. s)" by (auto simp: collation_def inj_on_def neq_Nil_conv)
  have run: "GetRecoveryRun found_three ''rec_1'' = Inr (run1\<lparr>rr_Phase := RecoveryReconciling\<rparr>)"
    by (simp add: found_three_def recovering_def GetRecoveryRun_def run1_def)
  have fuel: "length (r_findings found_three) < 4" by (simp add: found_three_def recovering_def)
  from findings_walk_ends [OF inv coll run fuel, where status = None and limit = 1]
  obtain fs where fs: "walk_findings (\<lambda>s. s) ''rec_1'' None 1 found_three 4 [] = Some (Inr (map (with_launch_key (r_db found_three)) fs))" "distinct fs"
    "set fs = {f \<in> set (r_findings found_three). fi_RunID f = ''rec_1'' \<and> ((None :: finding_status option) = None \<or> Some (fi_Status f) = None)}" by blast
  have "list_all (\<lambda>f. fi_RunID f = ''rec_1'') (r_findings found_three)" by (simp add: found_three_def recovering_def sample_finding_def)
  then have "set fs = set (r_findings found_three)" unfolding fs(3) list_all_iff by blast
  moreover have "distinct (r_findings found_three)" using inv by (simp add: recovery_inv_def distinct_map)
  ultimately have "length fs = length (r_findings found_three)" using fs(2) by (metis distinct_card)
  then show ?thesis using fs(1) by (simp add: found_three_def recovering_def)
qed

end
