(* ===== verification/Recovery_Evidence.thy ===== *)
theory Recovery_Evidence
  imports Recovery_Findings
begin

text \<open>
  Obligations as evidence: what is published reads back, what a restored send forgets, what a
  disposition rests on, and the stop of a launch that is accepted in one call.
\<close>

section \<open>Published obligations\<close>

text \<open>C21: A published obligation reads back as itself. With encodings that read back what they wrote, the intake, launch,
  dispatch and business-write obligations the services publish decode, under the key they are published with, to the
  class, identity, tenant, recording time and record they were published from, whenever none of the bindings their class
  requires is empty and the identity has no slash.\<close>

theorem obligation_round_trip:
  assumes "reads_back cd"
  shows "(intake_missing (intake_record_of cd ops) = [] \<and> CHR ''/'' \<notin> set (op_ID ops) \<longrightarrow>
      (case intakeObligation cd ops of (key, body) \<Rightarrow> DecodeObligation cd key body = Inr \<lparr>ob_Class = ClassIntake, ob_ID = op_ID ops, ob_TenantID = op_TenantID ops,
         ob_RecordedAt = op_CreatedAt ops, ob_Intake = Some (intake_record_of cd ops), ob_Launch = None, ob_Dispatch = None, ob_Effect = None\<rparr>)) \<and>
    (launch_missing (launch_record_of cd l t) = [] \<and> CHR ''/'' \<notin> set (ln_ID l) \<longrightarrow>
      (case launchObligation cd l t of (key, body) \<Rightarrow> DecodeObligation cd key body = Inr \<lparr>ob_Class = ClassJobLaunch, ob_ID = ln_ID l, ob_TenantID = t,
         ob_RecordedAt = ln_CreatedAt l, ob_Intake = None, ob_Launch = Some (launch_record_of cd l t), ob_Dispatch = None, ob_Effect = None\<rparr>)) \<and>
    (dispatch_missing (dispatch_class (d_Kind x)) (dispatch_record_of cd x) = [] \<and> CHR ''/'' \<notin> set (d_ID x) \<longrightarrow>
      (case dispatchObligation cd x of (key, body) \<Rightarrow> DecodeObligation cd key body = Inr \<lparr>ob_Class = dispatch_class (d_Kind x), ob_ID = d_ID x,
         ob_TenantID = d_TenantID x, ob_RecordedAt = d_AdmittedAt x, ob_Intake = None, ob_Launch = None, ob_Dispatch = Some (dispatch_record_of cd x),
         ob_Effect = None\<rparr>)) \<and>
    (effect_missing (effect_record_of cd e) = [] \<and> CHR ''/'' \<notin> set (e_ID e) \<longrightarrow>
      (case effectObligation cd e of (key, body) \<Rightarrow> DecodeObligation cd key body = Inr \<lparr>ob_Class = ClassBusinessWrite, ob_ID = e_ID e, ob_TenantID = e_TenantID e,
         ob_RecordedAt = e_CreatedAt e, ob_Intake = None, ob_Launch = None, ob_Dispatch = None, ob_Effect = Some (effect_record_of cd e)\<rparr>))"
proof -
  have parse: "ParseObligationKey (ObligationKey cls i) = Some (cls, i)" if "cls \<in> set ObligationClasses" "i \<noteq> []" "CHR ''/'' \<notin> set i" for cls i
    using that by (simp add: ParseObligationKey_iff)
  have cls: "ClassIntake \<in> set ObligationClasses" "ClassJobLaunch \<in> set ObligationClasses" "dispatch_class k \<in> set ObligationClasses"
      "ClassBusinessWrite \<in> set ObligationClasses" for k
    by (simp_all add: ObligationClasses_def dispatch_class_def)
  have other: "dispatch_class k = ClassModelDispatch \<or> dispatch_class k = ClassToolDispatch" "dispatch_class k \<noteq> ClassIntake" "dispatch_class k \<noteq> ClassJobLaunch" for k
    by (simp_all add: dispatch_class_def class_names)
  have diff: "ClassJobLaunch \<noteq> ClassIntake" "ClassBusinessWrite \<noteq> ClassIntake" "ClassBusinessWrite \<noteq> ClassJobLaunch" "ClassBusinessWrite \<noteq> ClassModelDispatch"
      "ClassBusinessWrite \<noteq> ClassToolDispatch"
    by (simp_all add: class_names)
  note cd = assms [unfolded reads_back_def]
  have "DecodeObligation cd (ObligationKey ClassIntake (op_ID ops)) (cd_MarshalIntake cd (intake_record_of cd ops)) =
      Inr \<lparr>ob_Class = ClassIntake, ob_ID = op_ID ops, ob_TenantID = op_TenantID ops, ob_RecordedAt = op_CreatedAt ops, ob_Intake = Some (intake_record_of cd ops),
        ob_Launch = None, ob_Dispatch = None, ob_Effect = None\<rparr>"
    if m: "intake_missing (intake_record_of cd ops) = []" "CHR ''/'' \<notin> set (op_ID ops)"
  proof -
    have "op_ID ops \<noteq> []" using m(1) by (simp add: intake_missing_def required_Nil_iff intake_record_of_def)
    then show ?thesis using m cd parse [OF cls(1) _ m(2)] by (simp add: DecodeObligation_def decode_record_def) (simp add: intake_record_of_def)
  qed
  moreover have "DecodeObligation cd (ObligationKey ClassJobLaunch (ln_ID l)) (cd_MarshalLaunch cd (launch_record_of cd l t)) =
      Inr \<lparr>ob_Class = ClassJobLaunch, ob_ID = ln_ID l, ob_TenantID = t, ob_RecordedAt = ln_CreatedAt l, ob_Intake = None, ob_Launch = Some (launch_record_of cd l t),
        ob_Dispatch = None, ob_Effect = None\<rparr>"
    if m: "launch_missing (launch_record_of cd l t) = []" "CHR ''/'' \<notin> set (ln_ID l)"
  proof -
    have "ln_ID l \<noteq> []" using m(1) by (simp add: launch_missing_def required_Nil_iff launch_record_of_def)
    then show ?thesis using m cd parse [OF cls(2) _ m(2)] diff by (simp add: DecodeObligation_def decode_record_def) (simp add: launch_record_of_def)
  qed
  moreover have "DecodeObligation cd (ObligationKey (dispatch_class (d_Kind x)) (d_ID x)) (cd_MarshalDispatch cd (dispatch_record_of cd x)) =
      Inr \<lparr>ob_Class = dispatch_class (d_Kind x), ob_ID = d_ID x, ob_TenantID = d_TenantID x, ob_RecordedAt = d_AdmittedAt x, ob_Intake = None, ob_Launch = None,
        ob_Dispatch = Some (dispatch_record_of cd x), ob_Effect = None\<rparr>"
    if m: "dispatch_missing (dispatch_class (d_Kind x)) (dispatch_record_of cd x) = []" "CHR ''/'' \<notin> set (d_ID x)"
  proof -
    have "d_ID x \<noteq> []" using m(1) by (simp add: dispatch_missing_def required_Nil_iff dispatch_record_of_def)
    then show ?thesis using m cd parse [OF cls(3) _ m(2)] other [of "d_Kind x"] by (simp add: DecodeObligation_def decode_record_def) (simp add: dispatch_record_of_def)
  qed
  moreover have "DecodeObligation cd (ObligationKey ClassBusinessWrite (e_ID e)) (cd_MarshalEffect cd (effect_record_of cd e)) =
      Inr \<lparr>ob_Class = ClassBusinessWrite, ob_ID = e_ID e, ob_TenantID = e_TenantID e, ob_RecordedAt = e_CreatedAt e, ob_Intake = None, ob_Launch = None,
        ob_Dispatch = None, ob_Effect = Some (effect_record_of cd e)\<rparr>"
    if m: "effect_missing (effect_record_of cd e) = []" "CHR ''/'' \<notin> set (e_ID e)"
  proof -
    have "e_ID e \<noteq> []" using m(1) by (simp add: effect_missing_def required_Nil_iff effect_record_of_def)
    then show ?thesis using m cd parse [OF cls(4) _ m(2)] diff by (simp add: DecodeObligation_def decode_record_def) (simp add: effect_record_of_def)
  qed
  ultimately show ?thesis by (simp add: intakeObligation_def launchObligation_def dispatchObligation_def effectObligation_def)
qed

theorem obligation_round_trip_witness:
  "(case intakeObligation plain_codecs running_op of (key, body) \<Rightarrow>
      \<exists>ob. DecodeObligation plain_codecs key body = Inr ob \<and> ob_ID ob = ''op_1'' \<and> ob_TenantID ob = ''t'')"
proof -
  have "intake_missing (intake_record_of plain_codecs running_op) = []" "CHR ''/'' \<notin> set (op_ID running_op)"
    by (simp_all add: intake_missing_def required_def intake_record_of_def running_op_def plane_op_def plane_subject_def sample_digest_def plain_codecs_def unary_time_def)
  then show ?thesis using obligation_round_trip [OF plain_codecs_read_back, of running_op] by (auto simp: running_op_def plane_op_def)
qed

section \<open>Restored sends\<close>

text \<open>C22: A restored tool send no longer binds its own request. The record of a tool dispatch carries the digest of its
  arguments and whether it has side effects, but the restored row does not take them: the request the original row bound
  is an idempotency conflict against the restored one, whenever it named its arguments.\<close>

theorem restored_tool_send_conflicts:
  assumes "Dispatch_Binds x tenantID req frozen = None" and "d_Kind x = DispatchTool" and "rq_ArgumentDigest req \<noteq> []"
  shows "dr_ArgumentDigest (dispatch_record_of cd x) = rq_ArgumentDigest req \<and>
    Dispatch_Binds (restored_dispatch cd ClassToolDispatch (dispatch_record_of cd x) exposure recordedAt version now) tenantID req frozen' =
      Some ErrIdempotencyConflict"
  using assms by (auto simp: Dispatch_Binds_def restored_dispatch_def dispatch_record_of_def split: if_splits)

definition tool_request :: admission_request where
  "tool_request = \<lparr>rq_Kind = DispatchTool, rq_CallID = ''c'', rq_Owner = ''o'', rq_RequestDigest = sample_digest, rq_OperationID = ''op_1'', rq_AttemptID = ''att_1'',
     rq_InstanceID = ''i_1'', rq_ExecutionEpoch = 1, rq_RouteID = ''r'', rq_Provider = [], rq_Model = [], rq_GrantID = ''g'', rq_GrantRevision = 1,
     rq_ServerID = ''s'', rq_Method = ''m'', rq_MaxExposure = \<lparr>m_Currency = ''USD'', m_Amount = 5\<rparr>, rq_Deadline = 1000, rq_SupersedesCallID = [],
     rq_EvidenceRef = [], rq_ArgumentDigest = sample_digest, rq_SideEffecting = True\<rparr>"

definition tool_dispatch :: dispatch where
  "tool_dispatch = \<lparr>d_ID = ''d_1'', d_Kind = DispatchTool, d_TenantID = ''t'', d_OperationID = ''op_1'', d_AttemptID = ''att_1'', d_InstanceID = ''i_1'', d_CallID = ''c'',
     d_Owner = ''o'', d_RequestDigest = sample_digest, d_RouteID = ''r'', d_GrantID = ''g'', d_GrantRevision = 1, d_ExecutionEpoch = 1, d_State = DispatchAuthorized,
     d_Outcome = dispatchOutcomeNotKnown, d_DenialCode = [], d_Reserved = \<lparr>m_Currency = ''USD'', m_Amount = 5\<rparr>, d_MeterRevision = ''v'', d_SupersedesCallID = [],
     d_EvidenceRef = [], d_Inventory = InventoryConfirmed, d_InventoryVersion = ''v'', d_Deadline = 1000, d_AdmittedAt = 5, d_ObservedAt = None,
     d_ArgumentDigest = sample_digest, d_SideEffecting = True\<rparr>"

theorem restored_tool_send_conflicts_witness:
  "Dispatch_Binds tool_dispatch ''t'' tool_request None = None \<and>
   Dispatch_Binds (restored_dispatch plain_codecs ClassToolDispatch (dispatch_record_of plain_codecs tool_dispatch) (d_Reserved tool_dispatch) 5 ''v'' 9) ''t''
     tool_request None = Some ErrIdempotencyConflict"
proof -
  have b: "Dispatch_Binds tool_dispatch ''t'' tool_request None = None"
    by (simp add: Dispatch_Binds_def tool_dispatch_def tool_request_def truncate_us_def)
  moreover have "d_Kind tool_dispatch = DispatchTool" "rq_ArgumentDigest tool_request \<noteq> []"
    by (simp_all add: tool_dispatch_def tool_request_def sample_digest_def)
  ultimately show ?thesis using restored_tool_send_conflicts [OF b, of plain_codecs "d_Reserved tool_dispatch" 5 "''v''" 9 None] by simp
qed

section \<open>Dispositions\<close>










section \<open>The launcher's evidence\<close>






end
