(* ===== verification/Spec2Isabelle.thy ===== *)
theory Spec2Isabelle
  imports Permission Preview History Accounting Settlement Metering Archive Control_Properties Effects_Properties
    Preparation_Properties Artifacts_Properties Recovery_Evidence
begin

text \<open>
  A verification library for \<open>anvilkit-agent-control\<close>, the control plane that admits, meters, executes
  and recovers the work of agents. The program is Go over PostgreSQL: \<open>src/internal/domain\<close> holds the
  rules as pure functions on rows, \<open>src/internal/application\<close> the services, each method a few
  transactions over \<open>src/internal/adapters/postgres\<close>. The library models the rules, the services and
  the queries they issue, and proves what holds of every sequence of their transactions.

  \<^bold>\<open>The parts and how they interact.\<close> An operation is created (\<open>operations.go\<close>), executed in attempts
  (\<open>execution.go\<close>) and settled; every change of its row goes through \<open>Transition\<close> and writes one event.
  Within an attempt, each physical send to a model or a tool is admitted by the dispatch service
  (\<open>dispatch.go\<close>) against the operation's allocations, the cost caps and the grant policies
  (\<open>finance.go\<close>, \<open>grants.go\<close>), and each business write by the effects service (\<open>effects.go\<close>): a first
  transaction records the prepared row, the obligation is published to the inventory, and a second
  transaction checks everything again and consumes the permission. A generation needs an execution
  permit of a bounded pool (\<open>generation.go\<close>) and is prepared by questions, answers and a brief
  (\<open>preparation.go\<close>). Objects come in and go out as transfers (\<open>artifacts.go\<close>). After a rollback of the
  database a recovery run (\<open>recovery.go\<close> and its companions) fences its scope, enumerates the inventory,
  restores and reconciles what the database lost, and reopens admission.

  \<^bold>\<open>Theories.\<close>

  \<^item> \<open>Prelude\<close>: words, instants, fallible loops, tables as lists of rows. \<open>Decimal\<close>, \<open>Values\<close>: \<open>strconv\<close> and
    \<open>domain/values.go\<close>.
  \<^item> \<open>Money\<close>, \<open>Budget\<close>: \<open>domain/budget.go\<close> and \<open>finance.go\<close>. The text form of money reads back; pools,
    allocations and caps keep their counters. The locale \<open>ledger\<close> is the contract of a pair of counters
    (reserve, restore, release, charge), interpreted by allocations and by caps; \<open>mirrored_ledger\<close>
    extends two of them and shows that a cap follows its allocation.
  \<^item> \<open>Operation\<close>, \<open>Attempt\<close>, \<open>Dispatch\<close>, \<open>Effect\<close>, \<open>Effect_Admission\<close>, \<open>Artifact\<close>, \<open>Preparation\<close>,
    \<open>Preview\<close>, \<open>Release\<close>, \<open>Generation\<close>, \<open>Recovery\<close>: the files of the same names under \<open>domain\<close>.
    \<open>Permission\<close> states the locale \<open>single_use\<close>, and \<open>first_settlement\<close> on top of it, interpreted by the
    state machines of a dispatch and of an effect; \<open>Projection\<close> states the locale \<open>projection\<close>,
    interpreted by previews and by releases. \<open>Archive\<close>: \<open>domain/archive.go\<close>; entry paths are accepted
    exactly when they stay inside the root, and an accepted archive is safe to extract.
  \<^item> \<open>Lifecycle\<close>, \<open>History\<close>: every change the services make to an operation row as one relation
    \<open>op_step\<close>, and what holds of whole histories: a cancel wins, a terminal operation is left only by the
    close of an attempt, a recovery fence retires the attempts before it.
  \<^item> \<open>Store\<close>, \<open>Dispatch_Service\<close>, \<open>Ledger\<close>, \<open>Finance_Service\<close>, \<open>Finance_Admin\<close>, \<open>Pools\<close>, \<open>Grants_Service\<close>:
    the database of the money side and the transactions of \<open>dispatch.go\<close>, \<open>budget.go\<close>, \<open>finance.go\<close>,
    \<open>prices.go\<close> and \<open>grants.go\<close>. \<open>Service_Run\<close> is their transition system \<open>svc_step\<close>, any other
    transaction of the program included as a step that keeps the tables it may not write. \<open>Accounting\<close>,
    \<open>Settlement\<close> and \<open>Metering\<close> hold the properties, \<open>Scenario\<close> the run their witnesses evaluate.
  \<^item> \<open>Control_Store\<close>, \<open>Execution_Service\<close>, \<open>Operations_Service\<close>, \<open>Generation_Service\<close>: the tables and the
    transactions of \<open>execution*.go\<close>, \<open>operations.go\<close>, \<open>previews.go\<close>, \<open>releases.go\<close> and \<open>generation.go\<close>.
    \<open>Control_Run\<close> shows that each of them is a step of \<open>Lifecycle\<close>; \<open>Control_Plane\<close> puts them together as
    \<open>ctl_step\<close> with the locale \<open>kept_by_transactions\<close>, interpreted by the event log, by the execution rows
    (\<open>Execution_Plane\<close>) and by the permits (\<open>Capacity\<close>). \<open>Control_Properties\<close> holds the properties,
    \<open>Control_Scenario\<close> the runs of the witnesses.
  \<^item> \<open>Effects_Service\<close>, \<open>Effects_Run\<close>, \<open>Effects_Properties\<close>: \<open>effects.go\<close>. A mutation is permitted once,
    on a backed row, and a lineage keeps its identity.
  \<^item> \<open>Preparation_Service\<close>, \<open>Preparation_Run\<close>, \<open>Preparation_Properties\<close>: \<open>preparation.go\<close>. Answers match
    questions, a new brief supersedes the others, an answer runs the operation again.
  \<^item> \<open>Artifacts_Service\<close>, \<open>Artifacts_Properties\<close>: \<open>artifacts.go\<close>. A finalized transfer holds what was
    announced, was verified, and is read only by who may.
  \<^item> \<open>Obligations\<close>, \<open>Recovery_Service\<close>, \<open>Recovery_Disposition\<close>, \<open>Recovery_Reconciliation\<close>:
    \<open>obligations.go\<close> and the files of recovery. \<open>Recovery_Run\<close> is their transition system;
    \<open>Recovery_Properties\<close> (the gate and the fence), \<open>Recovery_Findings\<close> (enumeration and paging) and
    \<open>Recovery_Evidence\<close> (obligations, dispositions, launcher evidence) hold the properties.

  \<^bold>\<open>Conventions.\<close> A Go struct is a record whose fields carry a prefix and the Go name, a string enum is a
  datatype, \<open>uint64\<close> is a 64-bit word and wraps, an \<open>error\<close> is a value of \<open>err\<close> and a method answers
  \<open>err + result\<close>. An \<open>int64\<close> amount is an integer with its bounds written out. Instants and durations
  are integers in nanoseconds. Where the code reads the clock, draws an identifier, hashes, parses JSON,
  asks the object store, the inventory, the upstream or a verifier of evidence, the answer is an
  argument; what a property relies on of such an answer is a hypothesis of it, and its witness
  instantiates it. A transaction is one function on the database, all of it or nothing: the code holds
  row locks in a fixed order from the read to the commit. A method of several transactions is also
  modelled transaction by transaction, and the transition systems interleave these.

  \<^bold>\<open>Bounds and fuel.\<close> Every function of the model is total, by structural recursion or a measure. The only fuel
  is that of \<open>walk_findings\<close>, a caller that pages through the findings of a run: one more than the number
  of findings is enough, and is proved to be. Scans of archives recurse on the input.

  \<^bold>\<open>What is simplified.\<close> Error texts and the detail texts of findings are dropped. The retry of a method
  after a duplicate key runs the same method again and is left out. Instants are stored as given, where
  PostgreSQL rounds to a microsecond, except where the code compares against the stored value. The sequence
  of recovery epochs advances with a commit. The collation of the database is an argument of the queries
  that sort. The transition system of the money side has no step for the restoration of a lost send, which
  \<open>Recovery_Run\<close> has; a recovery run begins and restores several operations in one commit, and is therefore
  a step of its own system.

  \<^bold>\<open>What is not modelled.\<close> The gRPC transport and its identities, configuration, bootstrap and migrations,
  the code sqlc generates and the adapters of S3, Kubernetes, Temporal and the event broker: input, output
  and glue. The polling loops of \<open>relay.go\<close> and of the reconcilers, which call operations modelled here or
  \<open>mark\<close>, whose change is a step of \<open>Lifecycle\<close>. The reads of \<open>instances.go\<close> and \<open>authorization.go\<close>, the
  envelope of an event, notifications, latency queries and the semaphore that bounds the memory of
  concurrent finalizations.
\<close>

end
